(* ===== verification/Go_Prelude.thy ===== *)
theory Go_Prelude
  imports Main
begin

text \<open>
  The part of Go and of its standard library that the modelled packages use, and the
  combinators every component is written with:

  \<^item> errors as values of \<open>go_err\<close> (a sentinel and a message), inspected with \<open>errors_Is\<close>;
  \<^item> operations with effects as functions of type \<open>('s, 'a) io\<close>: they take a state and give
    a result (\<open>Inl\<close> an error, \<open>Inr\<close> a value) together with the state they leave behind, so
    that a failing operation may have changed the state before it failed;
  \<^item> \<open>tx\<close> for a database transaction (an error restores the state it started from) and
    \<open>attempt\<close> for a call whose error the caller inspects;
  \<^item> \<open>strings.TrimSpace\<close>, \<open>ToLower\<close>, \<open>ToUpper\<close>, \<open>EqualFold\<close>, \<open>HasPrefix\<close>, \<open>Sprintf\<close>'s
    \<open>%d\<close>, on strings as lists of characters, exact for ASCII text;
  \<^item> the wrap-around of \<open>int64\<close> and \<open>int32\<close> arithmetic on \<open>int\<close>.
\<close>

section \<open>Collections\<close>

named_theorems io_defs \<open>unfolding of the io combinators\<close>
named_theorems io_inv \<open>inversion of a successful or failed io run\<close>
named_theorems str_simps \<open>evaluation of the string functions\<close>

section \<open>Errors\<close>

datatype err_kind =
    ErrInvalidArgument | ErrNotConfigured | ErrNotFound | ErrOrgMismatch
  | ErrIllegalTransition | ErrPaymentNotSettled | ErrRefundNotAllowed | ErrCancelNotAllowed
  | ErrWebhookIdempotencyConflict | ErrWebhookProviderMismatch
  | ErrWebhookAmountCurrencyMismatch | ErrWebhookAfterTerminalOrder
  | ErrIdempotencyPayloadConflict
  | ErrVendEvidenceRequired | ErrVendEvidenceInvalid
  | ErrNoRows | ErrUniqueViolation | ErrCheckViolation | ErrMachineScopeMismatch | ErrOther

datatype go_err = GoErr (err_of: err_kind) (err_msg: string)

definition errors_Is :: "go_err \<Rightarrow> err_kind \<Rightarrow> bool" where
  "errors_Is e k \<longleftrightarrow> err_of e = k"

lemma errors_Is_GoErr [simp]: "errors_Is (GoErr k m) k' \<longleftrightarrow> k = k'"
  by (simp add: errors_Is_def)

abbreviation Err :: "err_kind \<Rightarrow> go_err" where
  "Err k \<equiv> GoErr k []"

section \<open>Effects\<close>

type_synonym ('s, 'a) io = "'s \<Rightarrow> (go_err + 'a) \<times> 's"

definition ret :: "'a \<Rightarrow> ('s, 'a) io" where
  "ret x = (\<lambda>s. (Inr x, s))"

definition raise :: "go_err \<Rightarrow> ('s, 'a) io" where
  "raise e = (\<lambda>s. (Inl e, s))"

definition bnd :: "('s, 'a) io \<Rightarrow> ('a \<Rightarrow> ('s, 'b) io) \<Rightarrow> ('s, 'b) io" where
  "bnd m f = (\<lambda>s. case m s of (Inl e, t) \<Rightarrow> (Inl e, t) | (Inr x, t) \<Rightarrow> f x t)"

definition seq :: "('s, 'a) io \<Rightarrow> ('s, 'b) io \<Rightarrow> ('s, 'b) io" where
  "seq m n = bnd m (\<lambda>_. n)"

definition guard :: "bool \<Rightarrow> go_err \<Rightarrow> ('s, unit) io" where
  "guard b e = (if b then ret () else raise e)"

definition reads :: "('s \<Rightarrow> 'a) \<Rightarrow> ('s, 'a) io" where
  "reads f = (\<lambda>s. (Inr (f s), s))"

definition writes :: "('s \<Rightarrow> 's) \<Rightarrow> ('s, unit) io" where
  "writes f = (\<lambda>s. (Inr (), f s))"

definition lift_res :: "go_err + 'a \<Rightarrow> ('s, 'a) io" where
  "lift_res r = (case r of Inl e \<Rightarrow> raise e | Inr x \<Rightarrow> ret x)"

definition attempt :: "('s, 'a) io \<Rightarrow> ('s, go_err + 'a) io" where
  "attempt m = (\<lambda>s. case m s of (r, t) \<Rightarrow> (Inr r, t))"

definition tx :: "('s, 'a) io \<Rightarrow> ('s, 'a) io" where
  "tx m = (\<lambda>s. case m s of (Inl e, t) \<Rightarrow> (Inl e, s) | (Inr x, t) \<Rightarrow> (Inr x, t))"

definition whenM :: "bool \<Rightarrow> ('s, unit) io \<Rightarrow> ('s, unit) io" where
  "whenM b m = (if b then m else ret ())"

lemmas [io_defs] = ret_def raise_def bnd_def seq_def guard_def reads_def writes_def
  lift_res_def attempt_def tx_def whenM_def

subsection \<open>Running the combinators\<close>

lemma ret_run [simp]: "ret x s = (Inr x, s)"
  by (simp add: ret_def)

lemma raise_run [simp]: "raise e s = (Inl e, s)"
  by (simp add: raise_def)

lemma reads_run [simp]: "reads f s = (Inr (f s), s)"
  by (simp add: reads_def)

lemma writes_run [simp]: "writes f s = (Inr (), f s)"
  by (simp add: writes_def)

lemma guard_run [simp]: "guard b e s = (if b then Inr () else Inl e, s)"
  by (simp add: guard_def)

lemma whenM_run: "whenM b m s = (if b then m s else (Inr (), s))"
  by (simp add: whenM_def)

lemma bnd_ret [simp]: "bnd (ret x) f = f x"
  by (simp add: bnd_def ret_def)

lemma bnd_raise [simp]: "bnd (raise e) f = raise e"
  by (simp add: bnd_def raise_def)

lemma seq_ret [simp]: "seq (ret x) n = n"
  by (simp add: seq_def)

lemma lift_res_Inl [simp]: "lift_res (Inl e) = raise e"
  by (simp add: lift_res_def)

lemma lift_res_Inr [simp]: "lift_res (Inr x) = ret x"
  by (simp add: lift_res_def)

lemma bnd_run:
  "bnd m f s = (case m s of (Inl e, t) \<Rightarrow> (Inl e, t) | (Inr x, t) \<Rightarrow> f x t)"
  by (simp add: bnd_def)

lemma bnd_run_Inr [simp]: "m s = (Inr x, t) \<Longrightarrow> bnd m f s = f x t"
  by (simp add: bnd_def)

lemma bnd_run_Inl [simp]: "m s = (Inl e, t) \<Longrightarrow> bnd m f s = (Inl e, t)"
  by (simp add: bnd_def)

lemma bnd_reads [simp]: "bnd (reads g) f s = f (g s) s"
  by (simp add: bnd_def)

lemma bnd_guard [simp]: "bnd (guard b e) f s = (if b then f () s else (Inl e, s))"
  by (simp add: bnd_def)

lemma seq_guard [simp]: "seq (guard b e) n s = (if b then n s else (Inl e, s))"
  by (simp add: seq_def)

lemma seq_writes [simp]: "seq (writes g) n s = n (g s)"
  by (simp add: seq_def bnd_def)

subsection \<open>Inversion\<close>

lemma bnd_Inr [io_inv]:
  "bnd m f s = (Inr y, t) \<longleftrightarrow> (\<exists>x u. m s = (Inr x, u) \<and> f x u = (Inr y, t))"
  by (auto simp: bnd_def split: prod.splits sum.splits)

lemma bnd_Inl [io_inv]:
  "bnd m f s = (Inl e, t) \<longleftrightarrow>
     m s = (Inl e, t) \<or> (\<exists>x u. m s = (Inr x, u) \<and> f x u = (Inl e, t))"
  by (auto simp: bnd_def split: prod.splits sum.splits)

lemma seq_Inr [io_inv]:
  "seq m n s = (Inr y, t) \<longleftrightarrow> (\<exists>x u. m s = (Inr x, u) \<and> n u = (Inr y, t))"
  by (simp add: seq_def bnd_Inr)

lemma tx_Inr [io_inv]: "tx m s = (Inr x, t) \<longleftrightarrow> m s = (Inr x, t)"
  by (auto simp: tx_def split: prod.splits sum.splits)

lemma tx_Inl [io_inv]: "tx m s = (Inl e, t) \<longleftrightarrow> t = s \<and> (\<exists>u. m s = (Inl e, u))"
  by (auto simp: tx_def split: prod.splits sum.splits)

lemma tx_atomic: "tx m s = (Inl e, t) \<Longrightarrow> t = s"
  by (simp add: tx_Inl)

lemma whenM_Inr [io_inv]:
  "whenM b m s = (Inr x, t) \<longleftrightarrow> (if b then m s = (Inr x, t) else t = s)"
  by (auto simp: whenM_def)

lemma attempt_run [simp]: "attempt m s = (Inr (fst (m s)), snd (m s))"
  by (simp add: attempt_def split: prod.splits)

lemma lift_res_run_Inr [io_inv]: "lift_res r s = (Inr x, t) \<longleftrightarrow> t = s \<and> r = Inr x"
  by (cases r) auto

lemma Inr_runI: "\<not> isl (fst (m s)) \<Longrightarrow> \<exists>x t. m s = (Inr x, t)"
  by (cases "m s"; cases "fst (m s)") auto

subsection \<open>What a run may do to the state\<close>

text \<open>
  A component's safety properties are relations between the state before and after a run. The
  interface below collects what the relation has to satisfy (it is reflexive and transitive) and
  gives, once, the rules by which a composed operation inherits it from its parts.
\<close>

definition moves :: "('s \<Rightarrow> 's \<Rightarrow> bool) \<Rightarrow> ('s, 'a) io \<Rightarrow> bool" where
  "moves R m \<longleftrightarrow> (\<forall>s. R s (snd (m s)))"

locale evolution =
  fixes R :: "'s \<Rightarrow> 's \<Rightarrow> bool"
  assumes R_refl: "R s s"
    and R_trans: "R s t \<Longrightarrow> R t u \<Longrightarrow> R s u"
begin

lemma moves_ret: "moves R (ret x)"
  by (simp add: moves_def R_refl)

lemma moves_Pair: "moves R (Pair r)"
  by (simp add: moves_def R_refl)

lemma moves_raise: "moves R (raise e)"
  by (simp add: moves_def R_refl)

lemma moves_reads: "moves R (reads f)"
  by (simp add: moves_def R_refl)

lemma moves_guard: "moves R (guard b e)"
  by (simp add: moves_def R_refl)

lemma moves_lift_res: "moves R (lift_res r)"
  by (cases r) (simp_all add: moves_ret moves_raise)

lemma moves_bnd:
  assumes "moves R m" and "\<And>x. moves R (f x)"
  shows "moves R (bnd m f)"
  unfolding moves_def
proof
  fix s
  obtain r t where m: "m s = (r, t)" by (cases "m s")
  from assms(1) m have st: "R s t" by (metis moves_def snd_conv)
  show "R s (snd (bnd m f s))"
  proof (cases r)
    case (Inl e)
    with m st show ?thesis by simp
  next
    case (Inr x)
    from assms(2) have "R t (snd (f x t))" by (simp add: moves_def)
    with st m Inr show ?thesis by (auto intro: R_trans)
  qed
qed

lemma moves_seq: "moves R m \<Longrightarrow> moves R n \<Longrightarrow> moves R (seq m n)"
  by (simp add: seq_def moves_bnd)

lemma moves_whenM: "moves R m \<Longrightarrow> moves R (whenM b m)"
  by (simp add: whenM_def moves_ret)

lemma moves_attempt: "moves R m \<Longrightarrow> moves R (attempt m)"
  by (simp add: moves_def)

lemma moves_tx: "moves R m \<Longrightarrow> moves R (tx m)"
  by (auto simp: moves_def tx_def R_refl split: prod.splits sum.splits) (metis snd_conv)

lemma moves_if: "moves R m \<Longrightarrow> moves R n \<Longrightarrow> moves R (if b then m else n)"
  by simp

lemma moves_case_option:
  "moves R m \<Longrightarrow> (\<And>x. moves R (f x)) \<Longrightarrow> moves R (case v of None \<Rightarrow> m | Some x \<Rightarrow> f x)"
  by (cases v) simp_all

lemma moves_case_sum:
  "(\<And>x. moves R (f x)) \<Longrightarrow> (\<And>x. moves R (g x)) \<Longrightarrow> moves R (case v of Inl x \<Rightarrow> f x | Inr x \<Rightarrow> g x)"
  by (cases v) simp_all

lemma moves_case_prod: "(\<And>a b. moves R (f a b)) \<Longrightarrow> moves R (case v of (a, b) \<Rightarrow> f a b)"
  by (cases v) simp

lemma moves_case_bool: "moves R m \<Longrightarrow> moves R n \<Longrightarrow> moves R (case b of True \<Rightarrow> m | False \<Rightarrow> n)"
  by (cases b) simp_all

lemma moves_read_only: "moves (=) m \<Longrightarrow> moves R m"
  unfolding moves_def by (metis R_refl)

lemma moves_writes: "(\<And>s. R s (f s)) \<Longrightarrow> moves R (writes f)"
  by (simp add: moves_def)

lemmas moves_rules = moves_ret moves_Pair moves_raise moves_reads moves_guard moves_lift_res moves_bnd
  moves_seq moves_whenM moves_attempt moves_tx moves_if moves_case_option moves_case_sum
  moves_case_prod moves_case_bool

end

text \<open>An operation that only reads: whatever it returns, it leaves the state as it found it.\<close>

interpretation frozen: evolution "(=)"
  by unfold_locales simp_all

abbreviation read_only :: "('s, 'a) io \<Rightarrow> bool" where
  "read_only \<equiv> moves (=)"

lemma read_only_run: "read_only m \<Longrightarrow> m s = (r, t) \<Longrightarrow> t = s"
  by (metis moves_def snd_conv)

text \<open>An operation that keeps what the projection \<open>f\<close> sees of the state, such as one table.\<close>

interpretation kept: evolution "\<lambda>s t. f s = f t" for f :: "'s \<Rightarrow> 'b"
  by unfold_locales simp_all

abbreviation keeps :: "('s \<Rightarrow> 'b) \<Rightarrow> ('s, 'a) io \<Rightarrow> bool" where
  "keeps f m \<equiv> moves (\<lambda>s t. f s = f t) m"

lemma keeps_run: "keeps f m \<Longrightarrow> m s = (r, t) \<Longrightarrow> f t = f s"
  by (auto simp: moves_def dest: spec [of _ s])

lemma read_only_keeps: "read_only m \<Longrightarrow> keeps f m"
  by (simp add: moves_def)

lemma keeps_writes: "(\<And>s. f (g s) = f s) \<Longrightarrow> keeps f (writes g)"
  by (simp add: moves_def)

section \<open>Strings\<close>

definition code :: "char \<Rightarrow> nat" where
  "code c = of_char c"

definition is_space :: "char \<Rightarrow> bool" where
  "is_space c \<longleftrightarrow> code c = 32 \<or> (9 \<le> code c \<and> code c \<le> 13)"

definition is_digit :: "char \<Rightarrow> bool" where
  "is_digit c \<longleftrightarrow> 48 \<le> code c \<and> code c \<le> 57"

definition is_lower :: "char \<Rightarrow> bool" where
  "is_lower c \<longleftrightarrow> 97 \<le> code c \<and> code c \<le> 122"

definition is_upper :: "char \<Rightarrow> bool" where
  "is_upper c \<longleftrightarrow> 65 \<le> code c \<and> code c \<le> 90"

definition is_letter :: "char \<Rightarrow> bool" where
  "is_letter c \<longleftrightarrow> is_lower c \<or> is_upper c"

definition is_hex :: "char \<Rightarrow> bool" where
  "is_hex c \<longleftrightarrow> is_digit c \<or> (97 \<le> code c \<and> code c \<le> 102) \<or> (65 \<le> code c \<and> code c \<le> 70)"

definition lower :: "char \<Rightarrow> char" where
  "lower c = (if is_upper c then char_of (code c + 32) else c)"

definition upper :: "char \<Rightarrow> char" where
  "upper c = (if is_lower c then char_of (code c - 32) else c)"

definition TrimLeft :: "string \<Rightarrow> string" where
  "TrimLeft s = dropWhile is_space s"

definition TrimSpace :: "string \<Rightarrow> string" where
  "TrimSpace s = rev (TrimLeft (rev (TrimLeft s)))"

definition ToLower :: "string \<Rightarrow> string" where
  "ToLower s = map lower s"

definition ToUpper :: "string \<Rightarrow> string" where
  "ToUpper s = map upper s"

definition EqualFold :: "string \<Rightarrow> string \<Rightarrow> bool" where
  "EqualFold s t \<longleftrightarrow> ToLower s = ToLower t"

fun HasPrefix :: "string \<Rightarrow> string \<Rightarrow> bool" where
  "HasPrefix s [] \<longleftrightarrow> True"
| "HasPrefix [] (p # ps) \<longleftrightarrow> False"
| "HasPrefix (c # s) (p # ps) \<longleftrightarrow> c = p \<and> HasPrefix s ps"

fun digits_of :: "nat \<Rightarrow> string" where
  "digits_of n =
     (if n < 10 then [char_of (48 + n)] else digits_of (n div 10) @ [char_of (48 + n mod 10)])"

declare digits_of.simps [simp del]

definition Sprintd :: "int \<Rightarrow> string" where
  "Sprintd i = (if i < 0 then CHR ''-'' # digits_of (nat (- i)) else digits_of (nat i))"

lemmas [str_simps] = TrimSpace_def TrimLeft_def ToLower_def ToUpper_def EqualFold_def is_space_def
  is_digit_def is_lower_def is_upper_def is_letter_def is_hex_def lower_def upper_def code_def

subsection \<open>Trimming\<close>

lemma TrimSpace_Nil [simp]: "TrimSpace [] = []"
  by (simp add: TrimSpace_def TrimLeft_def)

lemma TrimLeft_hd: "TrimLeft s \<noteq> [] \<Longrightarrow> \<not> is_space (hd (TrimLeft s))"
  by (induction s) (auto simp: TrimLeft_def)

lemma TrimLeft_id: "s = [] \<or> \<not> is_space (hd s) \<Longrightarrow> TrimLeft s = s"
  by (cases s) (auto simp: TrimLeft_def)

lemma TrimLeft_suffix: "\<exists>p. s = p @ TrimLeft s"
  unfolding TrimLeft_def by (metis takeWhile_dropWhile_id)

lemma TrimSpace_last: "TrimSpace s \<noteq> [] \<Longrightarrow> \<not> is_space (last (TrimSpace s))"
  by (simp add: TrimSpace_def TrimLeft_hd last_rev)

lemma TrimSpace_hd: "TrimSpace s \<noteq> [] \<Longrightarrow> \<not> is_space (hd (TrimSpace s))"
proof -
  assume ne: "TrimSpace s \<noteq> []"
  let ?u = "TrimLeft s"
  obtain p where "rev ?u = p @ TrimLeft (rev ?u)" using TrimLeft_suffix by blast
  then have u: "?u = TrimSpace s @ rev p"
    by (metis TrimSpace_def rev_append rev_rev_ident)
  with ne have "hd ?u = hd (TrimSpace s)" and "?u \<noteq> []" by auto
  then show ?thesis using TrimLeft_hd by metis
qed

lemma TrimSpace_idem [simp]: "TrimSpace (TrimSpace s) = TrimSpace s"
proof -
  have a: "TrimLeft (TrimSpace s) = TrimSpace s"
    using TrimSpace_hd TrimLeft_id by blast
  have b: "TrimLeft (rev (TrimSpace s)) = rev (TrimSpace s)"
    using TrimSpace_last TrimLeft_id by (metis hd_rev rev_is_Nil_conv)
  show ?thesis by (subst TrimSpace_def) (simp add: a b)
qed

lemma is_space_lower [simp]: "is_space (lower c) \<longleftrightarrow> is_space c"
proof (cases "is_upper c")
  case True
  then have "code c + 32 < 256" "\<not> is_space c" by (auto simp: is_upper_def is_space_def)
  with True show ?thesis by (auto simp: lower_def is_space_def code_def is_upper_def)
qed (simp add: lower_def)

lemma lower_idem [simp]: "lower (lower c) = lower c"
proof (cases "is_upper c")
  case True
  then have "code c + 32 < 256" "65 \<le> code c" by (auto simp: is_upper_def)
  with True show ?thesis by (auto simp: lower_def is_upper_def code_def)
qed (simp add: lower_def)

lemma ToLower_TrimLeft: "TrimLeft (ToLower s) = ToLower (TrimLeft s)"
  by (simp add: TrimLeft_def ToLower_def dropWhile_map comp_def)

lemma ToLower_TrimSpace: "TrimSpace (ToLower s) = ToLower (TrimSpace s)"
  by (metis TrimSpace_def ToLower_TrimLeft ToLower_def rev_map)

lemma vnorm_idem: "ToLower (TrimSpace (ToLower (TrimSpace s))) = ToLower (TrimSpace s)"
  by (simp add: ToLower_TrimSpace) (simp add: ToLower_def)

lemma EqualFold_refl [simp]: "EqualFold s s"
  by (simp add: EqualFold_def)

lemma EqualFold_sym: "EqualFold s t \<Longrightarrow> EqualFold t s"
  by (simp add: EqualFold_def)

lemma EqualFold_trans: "EqualFold s t \<Longrightarrow> EqualFold t u \<Longrightarrow> EqualFold s u"
  by (simp add: EqualFold_def)

lemma EqualFold_length: "EqualFold s t \<Longrightarrow> length s = length t"
  by (metis EqualFold_def ToLower_def length_map)

lemma HasPrefix_iff: "HasPrefix s p \<longleftrightarrow> (\<exists>t. s = p @ t)"
  by (induction s p rule: HasPrefix.induct) auto

section \<open>Machine integers\<close>

text \<open>
  Amounts and durations are \<open>int64\<close>, slot indexes and counters \<open>int32\<close>. A value is an \<open>int\<close>
  and every addition, subtraction or multiplication whose result may leave the range is wrapped
  explicitly.
\<close>

definition i64 :: "int \<Rightarrow> int" where
  "i64 x = (x + 2 ^ 63) mod 2 ^ 64 - 2 ^ 63"

definition i32 :: "int \<Rightarrow> int" where
  "i32 x = (x + 2 ^ 31) mod 2 ^ 32 - 2 ^ 31"

definition in_i64 :: "int \<Rightarrow> bool" where
  "in_i64 x \<longleftrightarrow> - (2 ^ 63) \<le> x \<and> x < 2 ^ 63"

definition in_i32 :: "int \<Rightarrow> bool" where
  "in_i32 x \<longleftrightarrow> - (2 ^ 31) \<le> x \<and> x < 2 ^ 31"

lemma i64_id: "in_i64 x \<Longrightarrow> i64 x = x"
  by (simp add: i64_def in_i64_def)

lemma i32_id: "in_i32 x \<Longrightarrow> i32 x = x"
  by (simp add: i32_def in_i32_def)

lemma i64_range: "in_i64 (i64 x)"
  unfolding i64_def in_i64_def
  using pos_mod_bound [of "2 ^ 64" "x + 2 ^ 63"] pos_mod_sign [of "2 ^ 64" "x + 2 ^ 63"] by simp

lemma i64_small: "0 \<le> x \<Longrightarrow> x < 2 ^ 63 \<Longrightarrow> i64 x = x"
  by (simp add: i64_id in_i64_def)

section \<open>Association with keys: tables as lists of rows\<close>

text \<open>
  A table is the list of its rows. \<open>SELECT ... WHERE\<close> for one row is \<open>find\<close>; \<open>UPDATE ... WHERE\<close>
  rewrites every matching row and returns the first of the rewritten ones, as
  \<open>QueryRow\<close> does with several returned rows.
\<close>

definition upd_where :: "('r \<Rightarrow> bool) \<Rightarrow> ('r \<Rightarrow> 'r) \<Rightarrow> 'r list \<Rightarrow> 'r list" where
  "upd_where P f rs = map (\<lambda>r. if P r then f r else r) rs"

lemma upd_where_simps [simp]:
  "upd_where P f [] = []"
  "upd_where P f (r # rs) = (if P r then f r else r) # upd_where P f rs"
  by (simp_all add: upd_where_def)

lemma upd_where_length [simp]: "length (upd_where P f rs) = length rs"
  by (simp add: upd_where_def)

lemma upd_where_set: "r \<in> set (upd_where P f rs) \<longleftrightarrow>
    (\<exists>q \<in> set rs. r = (if P q then f q else q))"
  by (auto simp: upd_where_def)

lemma upd_where_id: "(\<And>r. r \<in> set rs \<Longrightarrow> \<not> P r) \<Longrightarrow> upd_where P f rs = rs"
  by (induction rs) auto

lemma map_upd_where:
  "(\<And>r. P r \<Longrightarrow> g (f r) = g r) \<Longrightarrow> map g (upd_where P f rs) = map g rs"
  by (induction rs) auto

lemma find_SomeD: "find P rs = Some r \<Longrightarrow> r \<in> set rs \<and> P r"
  by (metis find_Some_iff nth_mem)

lemma find_append: "find P (xs @ ys) = (case find P xs of None \<Rightarrow> find P ys | Some x \<Rightarrow> Some x)"
  by (induction xs) auto

lemma find_upd_where:
  assumes "\<And>r. Q (f r) \<longleftrightarrow> Q r"
  shows "find Q (upd_where P f rs) = map_option (\<lambda>r. if P r then f r else r) (find Q rs)"
  using assms by (induction rs) auto

lemma find_cong_upd: "(\<And>r. P r \<Longrightarrow> Q (f r) \<longleftrightarrow> Q r) \<Longrightarrow> (\<And>r. Q r \<Longrightarrow> \<not> P r) \<Longrightarrow>
    find Q (upd_where P f rs) = find Q rs"
  by (induction rs) auto

section \<open>Sorting\<close>

text \<open>\<open>sort.SliceStable\<close>: sorted by the comparison, elements it does not separate in their order.\<close>

fun insert_stable :: "('a \<Rightarrow> 'a \<Rightarrow> bool) \<Rightarrow> 'a \<Rightarrow> 'a list \<Rightarrow> 'a list" where
  "insert_stable lt x [] = [x]"
| "insert_stable lt x (y # ys) = (if lt y x then y # insert_stable lt x ys else x # y # ys)"

definition SliceStable :: "('a \<Rightarrow> 'a \<Rightarrow> bool) \<Rightarrow> 'a list \<Rightarrow> 'a list" where
  "SliceStable lt xs = foldr (insert_stable lt) xs []"

end
