(* ===== verification/Commerce_Types.thy ===== *)
theory Commerce_Types
  imports Go_Prelude
begin

text \<open>
  The data of the commerce packages: identifiers, JSON documents and the structs of
  \<open>internal/domain/commerce/types.go\<close>, \<open>internal/domain/commerce/vend_evidence.go\<close>,
  \<open>internal/domain/commerce/ports.go\<close>, \<open>internal/domain/commerce/reconciliation.go\<close> and
  \<open>internal/app/commerce\<close>. A struct is a record with the struct's fields in their order, a
  pointer an option, a \<open>uuid.UUID\<close> its canonical text, a \<open>time.Time\<close> the number of
  nanoseconds since the zero time, an \<open>int64\<close> or \<open>int32\<close> an \<open>int\<close>.
\<close>

section \<open>Identifiers, times, JSON\<close>

datatype uuid = UUID (uuid_String: string)

definition uuid_Nil :: uuid where
  "uuid_Nil = UUID ''00000000-0000-0000-0000-000000000000''"

type_synonym time = int

datatype json =
    JNull
  | JBool bool
  | JNum int
  | JStr string
  | JArr "json list"
  | JObj "(string \<times> json) list"

text \<open>
  A \<open>[]byte\<close> that holds JSON text: blank, the text of one document, a document followed by
  more text (which \<open>json.Valid\<close> rejects and a stream decoder accepts), or bytes that are no JSON.
\<close>

datatype raw = NoBytes | Bytes json | Trailing json string | BadBytes string

definition json_Valid :: "raw \<Rightarrow> bool" where
  "json_Valid b \<longleftrightarrow> (case b of Bytes _ \<Rightarrow> True | _ \<Rightarrow> False)"

definition RequiredString :: "raw \<Rightarrow> json" where
  "RequiredString b = (case b of NoBytes \<Rightarrow> JObj []
     | Bytes j \<Rightarrow> (if j = JNull then JObj [] else j)
     | _ \<Rightarrow> JObj [])"

definition OptionalString :: "raw \<Rightarrow> json option" where
  "OptionalString b = (case b of NoBytes \<Rightarrow> None
     | Bytes j \<Rightarrow> (if j = JNull then None else Some j)
     | _ \<Rightarrow> Some (JObj []))"

lemma json_Valid_simps [simp]:
  "json_Valid (Bytes j)" "\<not> json_Valid NoBytes" "\<not> json_Valid (BadBytes s)"
  "\<not> json_Valid (Trailing j s)"
  by (simp_all add: json_Valid_def)

section \<open>Orders, vend sessions, payments, outbox events\<close>

record order =
  o_ID :: uuid
  o_MachineID :: uuid
  o_Status :: string
  o_Currency :: string
  o_SubtotalMinor :: int
  o_TaxMinor :: int
  o_TotalMinor :: int
  o_IdempotencyKey :: "string option"
  o_Simulated :: bool
  o_SimulationRunID :: "string option"
  o_SimulationScenario :: "string option"
  o_FakeBill :: bool
  o_FakeBoard :: bool
  o_WinningPaymentID :: "uuid option"
  o_WinningClaimedAt :: "time option"
  o_PricingSource :: string
  o_MachinePricingRevision :: "int option"
  o_MachinePricingSnapshot :: raw
  o_ServerReferenceTotalMinor :: int
  o_CreatedAt :: time
  o_UpdatedAt :: time

record vend_session =
  v_ID :: uuid
  v_OrderID :: uuid
  v_MachineID :: uuid
  v_SlotIndex :: int
  v_ProductID :: uuid
  v_State :: string
  v_FinalCommandAttemptID :: "uuid option"
  v_Simulated :: bool
  v_SimulationRunID :: "string option"
  v_SimulationScenario :: "string option"
  v_CreatedAt :: time

record payment =
  p_ID :: uuid
  p_OrderID :: uuid
  p_Provider :: string
  p_State :: string
  p_AmountMinor :: int
  p_Currency :: string
  p_IdempotencyKey :: "string option"
  p_ReconciliationStatus :: string
  p_SettlementStatus :: string
  p_SettlementBatchID :: "uuid option"
  p_Simulated :: bool
  p_SimulationRunID :: "string option"
  p_SimulationScenario :: "string option"
  p_FakeBill :: bool
  p_FakeBoard :: bool
  p_Outcome :: string
  p_AttemptSeq :: int
  p_SupersedesPaymentID :: "uuid option"
  p_CreatedAt :: time

text \<open>
  The reliability package's \<open>OutboxEvent\<close> has the fields of the commerce one except the three
  that mark simulated traffic.
\<close>

record rel_outbox_event =
  ob_ID :: int
  ob_Topic :: string
  ob_EventType :: string
  ob_Payload :: json
  ob_AggregateType :: string
  ob_AggregateID :: uuid
  ob_IdempotencyKey :: "string option"
  ob_CreatedAt :: time
  ob_PublishedAt :: "time option"
  ob_PublishAttemptCount :: int
  ob_LastPublishError :: "string option"
  ob_LastPublishAttemptAt :: "time option"
  ob_NextPublishAfter :: "time option"
  ob_DeadLetteredAt :: "time option"
  ob_Status :: string
  ob_LockedBy :: "string option"
  ob_LockedUntil :: "time option"
  ob_UpdatedAt :: time
  ob_MaxPublishAttempts :: int

record outbox_event = rel_outbox_event +
  ob_Simulated :: bool
  ob_SimulationRunID :: "string option"
  ob_SimulationScenario :: "string option"

section \<open>Hardware evidence\<close>

record hardware_command_ref =
  hc_CommandID :: string
  hc_TxRxDigest :: string
  hc_RawRef :: string

record bill_final_record =
  bf_EventID :: string
  bf_AmountMinor :: int
  bf_Currency :: string
  bf_RawRef :: string

record tcn_dispense_record =
  td_Slot :: string
  td_Result :: string
  td_Dropped :: bool
  td_Digest :: string
  td_RawRef :: string

record vend_hardware_evidence =
  he_VendAttemptID :: uuid
  he_CorrelationID :: uuid
  he_Command :: hardware_command_ref
  he_BillFinal :: "bill_final_record option"
  he_TcnDispense :: tcn_dispense_record

section \<open>Inputs and results of the order workflow\<close>

record create_order_vend_input =
  co_MachineID :: uuid
  co_ProductID :: uuid
  co_SlotIndex :: int
  co_Currency :: string
  co_SubtotalMinor :: int
  co_TaxMinor :: int
  co_TotalMinor :: int
  co_IdempotencyKey :: string
  co_OrderStatus :: string
  co_VendState :: string
  co_Simulated :: bool
  co_SimulationRunID :: string
  co_SimulationScenario :: string
  co_FakeBill :: bool
  co_FakeBoard :: bool
  co_PricingSource :: string
  co_MachinePricingRevision :: "int option"
  co_MachinePricingSnapshot :: raw
  co_OrderID :: uuid
  co_CreatedAt :: "time option"

record create_order_vend_result =
  cor_Order :: order
  cor_Vend :: vend_session
  cor_Replay :: bool

record payment_outbox_input =
  po_OrderID :: uuid
  po_Provider :: string
  po_PaymentState :: string
  po_AmountMinor :: int
  po_Currency :: string
  po_IdempotencyKey :: string
  po_OutboxTopic :: string
  po_OutboxEventType :: string
  po_OutboxPayload :: raw
  po_OutboxAggregateType :: string
  po_OutboxAggregateID :: uuid
  po_OutboxIdempotencyKey :: string
  po_Simulated :: bool
  po_SimulationRunID :: string
  po_SimulationScenario :: string
  po_FakeBill :: bool
  po_FakeBoard :: bool
  po_AttemptSeq :: int
  po_SupersedesPaymentID :: "uuid option"
  po_BindAttemptState :: string
  po_BindProviderReference :: string
  po_BindPayload :: raw

record payment_outbox_result =
  por_Payment :: payment
  por_Outbox :: outbox_event
  por_Replay :: bool

text \<open>\<open>StartPaymentInput\<close> has the fields of \<open>PaymentOutboxInput\<close> and one more.\<close>

record start_payment_input = payment_outbox_input +
  sp_SkipOrderLookup :: bool

record advance_vend_input =
  av_OrderID :: uuid
  av_SlotIndex :: int
  av_LineSequence :: int
  av_ToState :: string
  av_FailureReason :: "string option"

record finalize_after_vend_input =
  fv_OrderID :: uuid
  fv_SlotIndex :: int
  fv_LineSequence :: int
  fv_TerminalVendState :: string
  fv_FailureReason :: "string option"
  fv_InventoryDedupeKey :: string
  fv_ClientWriteIdempotencyKey :: string
  fv_CorrelationID :: "uuid option"
  fv_Evidence :: "vend_hardware_evidence option"
  fv_VerificationStatus :: string
  fv_OutboxTopic :: string
  fv_OutboxEventType :: string
  fv_OutboxAggregateType :: string
  fv_OutboxIdempotencyKey :: string
  fv_ReconciliationEventType :: string
  fv_RefundRequired :: bool
  fv_LocalCashRefundRequired :: bool

record fulfill_successful_vend_input =
  fs_OrderID :: uuid
  fs_SlotIndex :: int
  fs_LineSequence :: int
  fs_InventoryDedupeKey :: string
  fs_CorrelationID :: "uuid option"
  fs_Evidence :: "vend_hardware_evidence option"
  fs_VerificationStatus :: string
  fs_OutboxTopic :: string
  fs_OutboxEventType :: string
  fs_OutboxAggregateType :: string
  fs_OutboxIdempotencyKey :: string
  fs_ReconciliationEventType :: string
  fs_Simulated :: bool
  fs_SimulationRunID :: string
  fs_SimulationScenario :: string

record fulfill_successful_vend_result =
  fsr_Order :: order
  fsr_Vend :: vend_session
  fsr_InventoryReplay :: bool
  fsr_OrderVendReplay :: bool

record fulfill_failed_vend_input =
  ff_OrderID :: uuid
  ff_SlotIndex :: int
  ff_LineSequence :: int
  ff_FailureReason :: "string option"
  ff_Evidence :: "vend_hardware_evidence option"
  ff_VerificationStatus :: string
  ff_OutboxTopic :: string
  ff_OutboxEventType :: string
  ff_OutboxAggregateType :: string
  ff_OutboxIdempotencyKey :: string
  ff_ReconciliationEventType :: string
  ff_RefundRequired :: bool
  ff_LocalCashRefundRequired :: bool
  ff_Simulated :: bool
  ff_SimulationRunID :: string
  ff_SimulationScenario :: string

record fulfill_failed_vend_result =
  ffr_Order :: order
  ffr_Vend :: vend_session
  ffr_Replay :: bool

record update_vend_session_params =
  uv_OrderID :: uuid
  uv_SlotIndex :: int
  uv_LineSequence :: int
  uv_ToState :: string
  uv_FailureReason :: "string option"

record insert_payment_attempt_params =
  ia_PaymentID :: uuid
  ia_State :: string
  ia_ProviderReference :: "string option"
  ia_Payload :: raw

record payment_attempt_view =
  pa_ID :: uuid
  pa_PaymentID :: uuid
  pa_State :: string
  pa_CreatedAt :: time

record finalize_outcome =
  fo_Order :: order
  fo_Vend :: vend_session
  fo_OrderVendReplay :: bool
  fo_InventoryReplay :: bool

record refund_eligibility =
  re_Eligible :: bool
  re_Reason :: string
  re_PaymentState :: string
  re_VendState :: string

record insert_refund_row_input =
  ir_PaymentID :: uuid
  ir_OrderID :: uuid
  ir_AmountMinor :: int
  ir_Currency :: string
  ir_State :: string
  ir_Reason :: string
  ir_IdempotencyKey :: string
  ir_Metadata :: raw

record create_refund_input =
  cr_OrderID :: uuid
  cr_AmountMinor :: int
  cr_Currency :: string
  cr_Reason :: string
  cr_IdempotencyKey :: string
  cr_Metadata :: raw

record refund_row =
  rf_ID :: uuid
  rf_PaymentID :: uuid
  rf_OrderID :: uuid
  rf_AmountMinor :: int
  rf_Currency :: string
  rf_State :: string
  rf_Reason :: "string option"
  rf_IdempotencyKey :: "string option"
  rf_Metadata :: json
  rf_CreatedAt :: time

section \<open>Webhooks and reconciliation\<close>

record webhook_input =
  wi_OrderID :: uuid
  wi_PaymentID :: uuid
  wi_Provider :: string
  wi_ProviderReference :: string
  wi_WebhookEventID :: string
  wi_EventType :: string
  wi_NormalizedPaymentState :: string
  wi_Payload :: raw
  wi_ProviderAmountMinor :: "int option"
  wi_Currency :: "string option"
  wi_WebhookValidationStatus :: string
  wi_ProviderMetadata :: raw
  wi_OutboxTopic :: string
  wi_OutboxEventType :: string
  wi_OutboxPayload :: raw
  wi_OutboxAggregateType :: string
  wi_OutboxAggregateID :: uuid
  wi_OutboxIdempotencyKey :: string

record webhook_applied_event =
  wa_OrderID :: uuid
  wa_PaymentID :: uuid
  wa_Replay :: bool
  wa_Provider :: string
  wa_WebhookEventID :: string
  wa_Validation :: string
  wa_NormalizedPaymentState :: string
  wa_ProviderReference :: string
  wa_AmountMinor :: int
  wa_Currency :: string
  wa_MachineID :: uuid

record webhook_result =
  wr_Replay :: bool
  wr_Order :: order
  wr_Payment :: payment
  wr_Attempt :: "payment_attempt_view option"
  wr_ProviderRowID :: int

record checkout_status_view =
  cs_Order :: order
  cs_Vend :: "vend_session option"
  cs_Payment :: "payment option"

record reconciled_payment_input =
  rp_PaymentID :: uuid
  rp_ToState :: string
  rp_Reason :: string
  rp_ProviderHint :: raw
  rp_DryRun :: bool
  rp_OutboxTopic :: string
  rp_OutboxEventType :: string
  rp_OutboxPayload :: raw
  rp_OutboxAggregateType :: string
  rp_OutboxAggregateID :: uuid
  rp_OutboxIdempotencyKey :: string

record reconciliation_case_input =
  rc_CaseType :: string
  rc_Severity :: string
  rc_OrderID :: "uuid option"
  rc_PaymentID :: "uuid option"
  rc_VendSessionID :: "uuid option"
  rc_RefundID :: "uuid option"
  rc_MachineID :: "uuid option"
  rc_Provider :: "string option"
  rc_ProviderEventID :: "int option"
  rc_CorrelationKey :: string
  rc_Reason :: string
  rc_Metadata :: json

end
