(* ===== verification/Commerce_Rules.thy ===== *)
theory Commerce_Rules
  imports Commerce_Types
begin

text \<open>
  The decision tables of the commerce packages, free of effects: which payment and vend
  transitions are legal, which order statuses are terminal, how the status of an order follows
  from its vend lines, when a provider notification agrees with the stored payment, which payment
  is authoritative when no winner is claimed, and when a refund is advised. The lemmas show that
  the payment graph is acyclic, that its terminal states are closed, and that the order status of
  a finished order says exactly what happened to its lines.
\<close>

section \<open>Payment states\<close>

definition paymentStates :: "string list" where
  "paymentStates = [''created'', ''authorized'', ''captured'', ''failed'', ''refunded'',
     ''expired'', ''canceled'', ''partially_refunded'']"

definition paymentTransitionAllowed :: "string \<Rightarrow> string \<Rightarrow> bool" where
  "paymentTransitionAllowed from to =
     (if from = to then True
      else if from = ''created'' then
        to = ''authorized'' \<or> to = ''captured'' \<or> to = ''failed'' \<or> to = ''expired'' \<or> to = ''canceled''
      else if from = ''authorized'' then
        to = ''captured'' \<or> to = ''failed'' \<or> to = ''expired'' \<or> to = ''canceled''
      else if from = ''captured'' then
        to = ''failed'' \<or> to = ''refunded'' \<or> to = ''partially_refunded''
      else if from = ''partially_refunded'' then to = ''refunded''
      else False)"

text \<open>A path of allowed transitions, as a sequence of provider notifications produces it.\<close>

inductive payment_path :: "string \<Rightarrow> string \<Rightarrow> bool" where
  path_refl: "payment_path s s"
| path_step: "payment_path s t \<Longrightarrow> paymentTransitionAllowed t u \<Longrightarrow> payment_path s u"

definition payment_rank :: "string \<Rightarrow> nat" where
  "payment_rank s =
     (if s = ''created'' then 0 else if s = ''authorized'' then 1 else if s = ''captured'' then 2
      else if s = ''partially_refunded'' then 3 else 4)"

lemma paymentTransition_rank:
  "paymentTransitionAllowed s t \<Longrightarrow> s \<noteq> t \<Longrightarrow> payment_rank s < payment_rank t"
  by (auto simp: paymentTransitionAllowed_def payment_rank_def split: if_splits)

lemma payment_path_rank:
  "payment_path s t \<Longrightarrow> s = t \<or> payment_rank s < payment_rank t"
proof (induction rule: payment_path.induct)
  case (path_refl s)
  then show ?case by simp
next
  case (path_step s t u)
  then show ?case
    using paymentTransition_rank [of t u] by (cases "t = u") auto
qed

lemma payment_path_antisym: "payment_path s t \<Longrightarrow> payment_path t s \<Longrightarrow> s = t"
  using payment_path_rank [of s t] payment_path_rank [of t s] by auto

lemma payment_path_trans: "payment_path t u \<Longrightarrow> payment_path s t \<Longrightarrow> payment_path s u"
  by (induction rule: payment_path.induct) (auto intro: payment_path.intros)

lemma paymentTransition_path: "paymentTransitionAllowed s t \<Longrightarrow> payment_path s t"
  by (rule path_step [OF path_refl])

definition payment_terminal :: "string \<Rightarrow> bool" where
  "payment_terminal s \<longleftrightarrow> s = ''failed'' \<or> s = ''expired'' \<or> s = ''canceled'' \<or> s = ''refunded''"

lemma payment_terminal_closed:
  "payment_path s t \<Longrightarrow> payment_terminal s \<Longrightarrow> t = s"
proof (induction rule: payment_path.induct)
  case (path_step s t u)
  then have "t = s" and "payment_terminal t" by auto
  with path_step.hyps(2) show ?case
    by (auto simp: paymentTransitionAllowed_def payment_terminal_def split: if_splits)
qed simp

section \<open>Vend states\<close>

definition vendStates :: "string list" where
  "vendStates = [''pending'', ''in_progress'', ''success'', ''failed'']"

definition vendTransitions :: "string \<Rightarrow> string list" where
  "vendTransitions s =
     (if s = ''pending'' then [''in_progress'']
      else if s = ''in_progress'' then [''success'', ''failed''] else [])"

lemma vendTransitions_terminal: "s = ''success'' \<or> s = ''failed'' \<Longrightarrow> vendTransitions s = []"
  by (auto simp: vendTransitions_def)

section \<open>Order statuses\<close>

definition orderStatusTerminal :: "string \<Rightarrow> bool" where
  "orderStatusTerminal st =
     (let s = ToLower (TrimSpace st)
      in s = ''completed'' \<or> s = ''partially_completed'' \<or> s = ''failed'' \<or> s = ''cancelled''
         \<or> s = ''unknown'')"

definition isTerminalOrderStatus :: "string \<Rightarrow> bool" where
  "isTerminalOrderStatus status =
     (let s = ToLower (TrimSpace status)
      in s = ''completed'' \<or> s = ''partially_completed'' \<or> s = ''failed'' \<or> s = ''cancelled''
         \<or> s = ''unknown'')"

lemma isTerminalOrderStatus_eq: "isTerminalOrderStatus s \<longleftrightarrow> orderStatusTerminal s"
  by (simp add: isTerminalOrderStatus_def orderStatusTerminal_def)

lemma terminal_literals [simp]:
  "orderStatusTerminal ''completed''" "orderStatusTerminal ''partially_completed''"
  "orderStatusTerminal ''failed''" "orderStatusTerminal ''cancelled''"
  "orderStatusTerminal ''unknown''" "\<not> orderStatusTerminal ''created''"
  "\<not> orderStatusTerminal ''quoted''" "\<not> orderStatusTerminal ''paid''"
  "\<not> orderStatusTerminal ''vending''"
  by code_simp+

subsection \<open>From vend lines to the order\<close>

fun multiLineOrderHasOpenVendLines :: "string list \<Rightarrow> bool" where
  "multiLineOrderHasOpenVendLines [] = False"
| "multiLineOrderHasOpenVendLines (st # sts) =
     (if ToLower (TrimSpace st) = ''pending'' \<or> ToLower (TrimSpace st) = ''in_progress'' then True
      else multiLineOrderHasOpenVendLines sts)"

fun line_outcomes :: "string list \<Rightarrow> bool \<times> bool \<Rightarrow> bool \<times> bool" where
  "line_outcomes [] acc = acc"
| "line_outcomes (st # sts) (anySuccess, anyFailed) =
     line_outcomes sts
       (if ToLower (TrimSpace st) = ''success'' then (True, anyFailed)
        else if ToLower (TrimSpace st) = ''failed'' then (anySuccess, True)
        else (anySuccess, anyFailed))"

definition resolveMultiLineTerminalOrderStatus :: "string list \<Rightarrow> string" where
  "resolveMultiLineTerminalOrderStatus sts =
     (case line_outcomes sts (False, False) of (anySuccess, anyFailed) \<Rightarrow>
        if anySuccess \<and> anyFailed then ''partially_completed''
        else if anySuccess then ''completed''
        else if anyFailed then ''failed''
        else ''vending'')"

abbreviation vnorm :: "string \<Rightarrow> string" where
  "vnorm st \<equiv> ToLower (TrimSpace st)"

lemma line_outcomes_eq:
  "line_outcomes sts (a, b) =
     (a \<or> (\<exists>st \<in> set sts. vnorm st = ''success''), b \<or> (\<exists>st \<in> set sts. vnorm st = ''failed''))"
  by (induction sts arbitrary: a b) auto

lemma open_lines_iff:
  "multiLineOrderHasOpenVendLines sts \<longleftrightarrow>
     (\<exists>st \<in> set sts. vnorm st = ''pending'' \<or> vnorm st = ''in_progress'')"
  by (induction sts) auto

lemma resolve_status_eq:
  "resolveMultiLineTerminalOrderStatus sts =
     (let ok = (\<exists>st \<in> set sts. vnorm st = ''success''); bad = (\<exists>st \<in> set sts. vnorm st = ''failed'')
      in if ok \<and> bad then ''partially_completed'' else if ok then ''completed''
         else if bad then ''failed'' else ''vending'')"
  by (simp add: resolveMultiLineTerminalOrderStatus_def line_outcomes_eq Let_def)

lemma vnorm_vend_states:
  "st \<in> set vendStates \<Longrightarrow> vnorm st = st"
  by (auto simp: vendStates_def) code_simp+

section \<open>Provider notifications against stored rows\<close>

definition normalizeWebhookCurrency :: "string \<Rightarrow> string" where
  "normalizeWebhookCurrency s = ToUpper (TrimSpace s)"

definition webhookAmountCurrencyMatches :: "payment \<Rightarrow> order \<Rightarrow> webhook_input \<Rightarrow> go_err + unit" where
  "webhookAmountCurrencyMatches pay ord inp =
     (if p_AmountMinor pay \<noteq> o_TotalMinor ord then Inl (Err ErrWebhookAmountCurrencyMismatch)
      else if ToUpper (TrimSpace (p_Currency pay)) \<noteq> ToUpper (TrimSpace (o_Currency ord))
        then Inl (Err ErrWebhookAmountCurrencyMismatch)
      else if (case wi_ProviderAmountMinor inp of None \<Rightarrow> False | Some a \<Rightarrow> o_TotalMinor ord \<noteq> a)
        then Inl (Err ErrWebhookAmountCurrencyMismatch)
      else if (case wi_Currency inp of None \<Rightarrow> False
               | Some c \<Rightarrow> TrimSpace c \<noteq> [] \<and>
                   normalizeWebhookCurrency (p_Currency pay) \<noteq> normalizeWebhookCurrency c)
        then Inl (Err ErrWebhookAmountCurrencyMismatch)
      else Inr ())"

definition webhookLateDeliveryAgainstTerminalState :: "order \<Rightarrow> payment \<Rightarrow> bool" where
  "webhookLateDeliveryAgainstTerminalState ord pay =
     (let st = TrimSpace (o_Status ord); ps = TrimSpace (p_State pay)
      in if st = ''completed'' \<or> st = ''partially_completed'' \<or> st = ''failed''
            \<or> st = ''cancelled'' \<or> st = ''unknown'' then True
         else ps = ''refunded'' \<or> ps = ''failed'' \<or> ps = ''expired'' \<or> ps = ''canceled'')"

definition shouldInsertWebhookOutbox :: "webhook_input \<Rightarrow> bool" where
  "shouldInsertWebhookOutbox inp \<longleftrightarrow>
     TrimSpace (wi_OutboxTopic inp) \<noteq> [] \<and> TrimSpace (wi_OutboxEventType inp) \<noteq> []
     \<and> TrimSpace (wi_OutboxAggregateType inp) \<noteq> [] \<and> wi_OutboxAggregateID inp \<noteq> uuid_Nil
     \<and> TrimSpace (wi_OutboxIdempotencyKey inp) \<noteq> []"

definition shouldInsertReconciledPaymentOutbox :: "reconciled_payment_input \<Rightarrow> bool" where
  "shouldInsertReconciledPaymentOutbox inp \<longleftrightarrow>
     TrimSpace (rp_OutboxTopic inp) \<noteq> [] \<and> TrimSpace (rp_OutboxEventType inp) \<noteq> []
     \<and> TrimSpace (rp_OutboxAggregateType inp) \<noteq> [] \<and> rp_OutboxAggregateID inp \<noteq> uuid_Nil
     \<and> TrimSpace (rp_OutboxIdempotencyKey inp) \<noteq> []"

lemma webhookAmountCurrencyMatches_Inr:
  "webhookAmountCurrencyMatches pay ord inp = Inr () \<longleftrightarrow>
     p_AmountMinor pay = o_TotalMinor ord
     \<and> normalizeWebhookCurrency (p_Currency pay) = normalizeWebhookCurrency (o_Currency ord)
     \<and> (\<forall>a. wi_ProviderAmountMinor inp = Some a \<longrightarrow> a = o_TotalMinor ord)
     \<and> (\<forall>c. wi_Currency inp = Some c \<longrightarrow> TrimSpace c = [] \<or>
          normalizeWebhookCurrency c = normalizeWebhookCurrency (p_Currency pay))"
  by (auto simp: webhookAmountCurrencyMatches_def normalizeWebhookCurrency_def split: option.splits)

section \<open>The authoritative payment without a claimed winner\<close>

definition settled_state :: "string \<Rightarrow> bool" where
  "settled_state st \<longleftrightarrow> st = ''captured'' \<or> st = ''partially_refunded''"

fun oldest_scan :: "payment list \<Rightarrow> payment option \<Rightarrow> payment option" where
  "oldest_scan [] best = best"
| "oldest_scan (pay # rest) best =
     (if \<not> settled_state (ToLower (TrimSpace (p_State pay))) then oldest_scan rest best
      else case best of
             None \<Rightarrow> oldest_scan rest (Some pay)
           | Some b \<Rightarrow> if p_CreatedAt pay < p_CreatedAt b then oldest_scan rest (Some pay)
                        else oldest_scan rest best)"

definition oldestCapturedOrPartiallyRefundedPayment :: "payment list \<Rightarrow> payment option" where
  "oldestCapturedOrPartiallyRefundedPayment ps = oldest_scan ps None"

lemma oldest_scan_SomeD:
  assumes "oldest_scan ps best = Some p"
  shows "(best = Some p \<or> (p \<in> set ps \<and> settled_state (vnorm (p_State p))))
    \<and> (\<forall>q \<in> set ps. settled_state (vnorm (p_State q)) \<longrightarrow> p_CreatedAt p \<le> p_CreatedAt q)
    \<and> (\<forall>b. best = Some b \<longrightarrow> p_CreatedAt p \<le> p_CreatedAt b)"
  using assms
proof (induction ps arbitrary: best)
  case (Cons a ps)
  then show ?case
    by (cases best) (fastforce split: if_splits)+
qed simp

lemma oldest_scan_NoneD:
  "oldest_scan ps best = None \<longleftrightarrow>
     best = None \<and> (\<forall>q \<in> set ps. \<not> settled_state (vnorm (p_State q)))"
  by (induction ps arbitrary: best) (auto split: option.splits)

section \<open>Refund advice\<close>

definition refund_decision :: "string \<Rightarrow> string \<Rightarrow> string \<Rightarrow> bool \<times> string" where
  "refund_decision payState vendState orderStatus =
     (if payState = ''refunded'' then (False, ''payment already refunded'')
      else if payState = ''partially_refunded'' \<and> vendState = ''failed''
        then (True, ''partially refunded payment with failed vend'')
      else if payState = ''captured'' \<and> vendState = ''failed''
        then (True, ''captured payment with failed vend'')
      else if payState = ''captured'' \<and> orderStatus = ''failed''
        then (True, ''order failed after capture'')
      else if payState = ''captured'' \<and> vendState = ''success'' \<and> orderStatus = ''completed''
        then (False, ''successful fulfillment'')
      else (False, ''no refund policy match for current states''))"

section \<open>Validation of requests\<close>

definition isAllAlpha :: "string \<Rightarrow> bool" where
  "isAllAlpha s \<longleftrightarrow> list_all is_letter s"

definition validateStartPayment :: "start_payment_input \<Rightarrow> go_err + unit" where
  "validateStartPayment inp =
     (if po_OrderID inp = uuid_Nil
        then Inl (GoErr ErrInvalidArgument ''order_id must be set'')
      else if TrimSpace (po_Provider inp) = []
        then Inl (GoErr ErrInvalidArgument ''provider is required'')
      else if po_PaymentState inp \<notin> set paymentStates
        then Inl (GoErr ErrInvalidArgument ''invalid payment state'')
      else if po_AmountMinor inp < 0
        then Inl (GoErr ErrInvalidArgument ''amount_minor must be non-negative'')
      else let cur = ToUpper (TrimSpace (po_Currency inp)) in
      if length cur \<noteq> 3 \<or> \<not> isAllAlpha cur
        then Inl (GoErr ErrInvalidArgument ''currency must be a 3-letter ISO code'')
      else if TrimSpace (po_IdempotencyKey inp) = [] \<or> TrimSpace (po_OutboxIdempotencyKey inp) = []
        then Inl (GoErr ErrInvalidArgument ''idempotency keys are required'')
      else if TrimSpace (po_OutboxTopic inp) = [] \<or> TrimSpace (po_OutboxEventType inp) = []
              \<or> TrimSpace (po_OutboxAggregateType inp) = []
        then Inl (GoErr ErrInvalidArgument
          ''outbox topic, event type, and aggregate type are required'')
      else if po_OutboxAggregateID inp = uuid_Nil
        then Inl (GoErr ErrInvalidArgument ''outbox_aggregate_id must be set'')
      else if po_AttemptSeq inp < 0
        then Inl (GoErr ErrInvalidArgument ''attempt_seq must be non-negative'')
      else Inr ())"

definition validateAdvanceVend :: "advance_vend_input \<Rightarrow> go_err + unit" where
  "validateAdvanceVend inp =
     (if av_OrderID inp = uuid_Nil
        then Inl (GoErr ErrInvalidArgument ''order_id must be set'')
      else if av_ToState inp = ''success'' \<or> av_ToState inp = ''failed''
        then Inl (GoErr ErrInvalidArgument ''use FinalizeOrderAfterVend for terminal vend states'')
      else if av_ToState inp \<notin> set vendStates
        then Inl (GoErr ErrInvalidArgument ''invalid vend state'')
      else Inr ())"

lemma validateAdvanceVend_Inr:
  "validateAdvanceVend inp = Inr () \<Longrightarrow> av_ToState inp = ''pending'' \<or> av_ToState inp = ''in_progress''"
  by (auto simp: validateAdvanceVend_def vendStates_def split: if_splits)

end
