(* ===== verification/Vend_Evidence.thy ===== *)
theory Vend_Evidence
  imports Commerce_Types
begin

text \<open>
  Hardware evidence for a vend, \<open>internal/domain/commerce/vend_evidence.go\<close>: \<open>Validate\<close> with every
  check in the order of the code, the SHA-256 text check and the fingerprint that is persisted.
  The properties say what accepted evidence is worth: it always has a fingerprint, a fingerprint
  that comes from a digest is a well-formed SHA-256, and all digests it carries name the same
  bytes.
\<close>

section \<open>Definitions\<close>

definition VerificationUnverified :: string where
  "VerificationUnverified = ''unverified''"

definition VerificationVerified :: string where
  "VerificationVerified = ''verified''"

definition VerificationHardwareUnverified :: string where
  "VerificationHardwareUnverified = ''hardware_unverified''"

definition isSHA256Hex :: "string \<Rightarrow> bool" where
  "isSHA256Hex s = (if length s \<noteq> 64 then False else list_all is_hex s)"

definition evidence_invalid :: "string \<Rightarrow> go_err + unit" where
  "evidence_invalid msg = Inl (GoErr ErrVendEvidenceInvalid msg)"

definition Validate_bill :: "bill_final_record option \<Rightarrow> go_err + unit" where
  "Validate_bill bill =
     (case bill of
        None \<Rightarrow> evidence_invalid ''bill_final required for cash flow''
      | Some b \<Rightarrow>
          if TrimSpace (bf_EventID b) = [] then evidence_invalid ''bill_final.event_id required''
          else if bf_AmountMinor b \<le> 0
            then evidence_invalid ''bill_final.amount_minor must be positive''
          else if length (ToUpper (TrimSpace (bf_Currency b))) \<noteq> 3
            then evidence_invalid ''bill_final.currency must be 3-letter ISO''
          else Inr ())"

definition Validate_dispense :: "vend_hardware_evidence \<Rightarrow> bool \<Rightarrow> go_err + unit" where
  "Validate_dispense e requireSuccessEvidence =
     (let digest = TrimSpace (hc_TxRxDigest (he_Command e));
          td = he_TcnDispense e;
          tdDigest = TrimSpace (td_Digest td); tdRaw = TrimSpace (td_RawRef td)
      in if TrimSpace (td_Slot td) = [] then evidence_invalid ''tcn_dispense.slot required''
         else if TrimSpace (td_Result td) = [] then evidence_invalid ''tcn_dispense.result required''
         else if requireSuccessEvidence \<and> \<not> td_Dropped td
           then evidence_invalid ''tcn_dispense.dropped must be true for vend success''
         else if tdDigest = [] \<and> tdRaw = []
           then evidence_invalid ''tcn_dispense digest or raw_ref required''
         else if digest \<noteq> [] \<and> \<not> isSHA256Hex digest
           then evidence_invalid ''command.tx_rx_digest must be sha-256 hex''
         else if tdDigest \<noteq> [] \<and> \<not> isSHA256Hex tdDigest
           then evidence_invalid ''tcn_dispense.digest must be sha-256 hex''
         else if digest \<noteq> [] \<and> tdDigest \<noteq> [] \<and> \<not> EqualFold digest tdDigest
           then evidence_invalid ''tcn_dispense.digest must match command.tx_rx_digest''
         else Inr ())"

definition Validate :: "vend_hardware_evidence option \<Rightarrow> bool \<Rightarrow> bool \<Rightarrow> go_err + unit" where
  "Validate ev cashFlow requireSuccessEvidence =
     (case ev of
        None \<Rightarrow> Inl (Err ErrVendEvidenceRequired)
      | Some e \<Rightarrow>
          if he_VendAttemptID e = uuid_Nil then evidence_invalid ''vend_attempt_id required''
          else if he_CorrelationID e = uuid_Nil then evidence_invalid ''correlation_id required''
          else if TrimSpace (hc_CommandID (he_Command e)) = []
            then evidence_invalid ''command.command_id required''
          else if TrimSpace (hc_TxRxDigest (he_Command e)) = [] \<and> TrimSpace (hc_RawRef (he_Command e)) = []
            then evidence_invalid ''command tx_rx_digest or raw_ref required''
          else case (if cashFlow then Validate_bill (he_BillFinal e) else Inr ()) of
                 Inl err \<Rightarrow> Inl err
               | Inr _ \<Rightarrow> Validate_dispense e requireSuccessEvidence)"

definition EvidenceDigest :: "vend_hardware_evidence option \<Rightarrow> string" where
  "EvidenceDigest ev =
     (case ev of
        None \<Rightarrow> []
      | Some e \<Rightarrow>
          if TrimSpace (hc_TxRxDigest (he_Command e)) \<noteq> [] then TrimSpace (hc_TxRxDigest (he_Command e))
          else if TrimSpace (td_Digest (he_TcnDispense e)) \<noteq> []
            then TrimSpace (td_Digest (he_TcnDispense e))
          else TrimSpace (hc_RawRef (he_Command e)))"

section \<open>Lemmas\<close>

lemmas evidence_defs = Validate_def Validate_bill_def Validate_dispense_def evidence_invalid_def Let_def

lemma Validate_NoneD: "Validate ev c r = Inr () \<Longrightarrow> \<exists>e. ev = Some e"
  by (cases ev) (auto simp: Validate_def)

lemma Validate_SomeD:
  assumes "Validate (Some e) c r = Inr ()"
  shows "he_VendAttemptID e \<noteq> uuid_Nil" and "he_CorrelationID e \<noteq> uuid_Nil"
    and "TrimSpace (hc_TxRxDigest (he_Command e)) \<noteq> [] \<or> TrimSpace (hc_RawRef (he_Command e)) \<noteq> []"
    and "c \<Longrightarrow> Validate_bill (he_BillFinal e) = Inr ()"
    and "Validate_dispense e r = Inr ()"
  using assms by (auto simp: Validate_def evidence_invalid_def split: if_splits sum.splits)

lemma Validate_dispenseD:
  assumes "Validate_dispense e r = Inr ()"
  shows "r \<Longrightarrow> td_Dropped (he_TcnDispense e)"
    and "TrimSpace (hc_TxRxDigest (he_Command e)) \<noteq> [] \<Longrightarrow>
         isSHA256Hex (TrimSpace (hc_TxRxDigest (he_Command e)))"
    and "TrimSpace (td_Digest (he_TcnDispense e)) \<noteq> [] \<Longrightarrow>
         isSHA256Hex (TrimSpace (td_Digest (he_TcnDispense e)))"
    and "TrimSpace (hc_TxRxDigest (he_Command e)) \<noteq> [] \<Longrightarrow>
         TrimSpace (td_Digest (he_TcnDispense e)) \<noteq> [] \<Longrightarrow>
         EqualFold (TrimSpace (hc_TxRxDigest (he_Command e))) (TrimSpace (td_Digest (he_TcnDispense e)))"
  using assms by (auto simp: Validate_dispense_def evidence_invalid_def Let_def split: if_splits)

lemma Validate_billD:
  "Validate_bill b = Inr () \<longleftrightarrow>
     (\<exists>r. b = Some r \<and> TrimSpace (bf_EventID r) \<noteq> [] \<and> 0 < bf_AmountMinor r
        \<and> length (TrimSpace (bf_Currency r)) = 3)"
  by (auto simp: Validate_bill_def evidence_invalid_def ToUpper_def split: option.splits if_splits)

lemma Validate_dispense_weaken: "Validate_dispense e True = Inr () \<Longrightarrow> Validate_dispense e r = Inr ()"
  by (auto simp: Validate_dispense_def evidence_invalid_def Let_def split: if_splits)

section \<open>Properties\<close>

text \<open>
  evidence that \<open>Validate\<close> accepts always has a persisted fingerprint, and when either the
  command or the dispense record carries a digest the fingerprint is the text of a SHA-256 that
  agrees, up to letter case, with every digest in the evidence.
\<close>

theorem validated_evidence_fingerprint:
  assumes "Validate (Some e) cashFlow req = Inr ()"
  shows "EvidenceDigest (Some e) \<noteq> []
    \<and> (\<forall>d \<in> {TrimSpace (hc_TxRxDigest (he_Command e)), TrimSpace (td_Digest (he_TcnDispense e))}.
         d \<noteq> [] \<longrightarrow> isSHA256Hex (EvidenceDigest (Some e)) \<and> EqualFold d (EvidenceDigest (Some e)))"
proof -
  note d = Validate_SomeD [OF assms]
  note w = Validate_dispenseD [OF d(5)]
  from d(3) have "EvidenceDigest (Some e) \<noteq> []" by (auto simp: EvidenceDigest_def)
  moreover have "\<forall>d \<in> {TrimSpace (hc_TxRxDigest (he_Command e)), TrimSpace (td_Digest (he_TcnDispense e))}.
         d \<noteq> [] \<longrightarrow> isSHA256Hex (EvidenceDigest (Some e)) \<and> EqualFold d (EvidenceDigest (Some e))"
    using w(2-4) by (auto simp: EvidenceDigest_def intro: EqualFold_sym)
  ultimately show ?thesis by blast
qed

text \<open>
  evidence accepted for a successful cash vend proves payment and delivery (a positive bill
  credit in a three-letter currency, and a dispense record whose product dropped), and it is
  accepted under every weaker requirement as well.
\<close>

theorem validated_cash_success_evidence:
  assumes "Validate (Some e) True True = Inr ()"
  shows "(\<exists>b. he_BillFinal e = Some b \<and> 0 < bf_AmountMinor b \<and> length (TrimSpace (bf_Currency b)) = 3)
    \<and> td_Dropped (he_TcnDispense e)
    \<and> (\<forall>cashFlow req. Validate (Some e) cashFlow req = Inr ())"
proof -
  note d = Validate_SomeD [OF assms]
  from d(4) have b: "Validate_bill (he_BillFinal e) = Inr ()" by simp
  from d(5) have drop: "td_Dropped (he_TcnDispense e)"
    using Validate_dispenseD(1) by blast
  have all: "Validate (Some e) cashFlow req = Inr ()" for cashFlow req
    using assms b Validate_dispense_weaken [OF d(5), of req]
    by (auto simp: Validate_def evidence_invalid_def split: if_splits sum.splits)
  from b drop all show ?thesis by (auto simp: Validate_billD)
qed

section \<open>Witnesses\<close>

definition sample_digest :: string where
  "sample_digest = replicate 64 (CHR ''a'')"

definition sample_evidence :: vend_hardware_evidence where
  "sample_evidence =
     \<lparr>he_VendAttemptID = UUID ''a'', he_CorrelationID = UUID ''c'',
      he_Command = \<lparr>hc_CommandID = ''cmd'', hc_TxRxDigest = sample_digest, hc_RawRef = []\<rparr>,
      he_BillFinal = Some \<lparr>bf_EventID = ''bill'', bf_AmountMinor = 20000, bf_Currency = ''VND'', bf_RawRef = []\<rparr>,
      he_TcnDispense = \<lparr>td_Slot = ''A1'', td_Result = ''ok'', td_Dropped = True,
         td_Digest = map upper sample_digest, td_RawRef = []\<rparr>\<rparr>"

lemma sample_evidence_ok: "Validate (Some sample_evidence) True True = Inr ()"
  by code_simp

theorem validated_evidence_fingerprint_witness:
  "Validate (Some sample_evidence) True True = Inr () \<and> EvidenceDigest (Some sample_evidence) \<noteq> []"
  using validated_evidence_fingerprint [OF sample_evidence_ok] sample_evidence_ok by simp

theorem validated_cash_success_evidence_witness:
  "Validate (Some sample_evidence) True True = Inr () \<and> Validate (Some sample_evidence) False False = Inr ()"
  using validated_cash_success_evidence [OF sample_evidence_ok] sample_evidence_ok by blast

end
