(* ===== verification/Slot_Grid.thy ===== *)
theory Slot_Grid
  imports Go_Prelude
begin

text \<open>
  Slot addressing on a row-major grid, \<open>internal/app/physicaltopology/grid.go\<close>: a linear index and
  a code such as \<open>B3\<close>. The properties are the round trip from index to code and back, that the
  generated list of codes is the list of the indexes' codes without repetition, and what the
  decoder does with a code that does not start with a letter.
\<close>

section \<open>Definitions\<close>

definition rowChar :: "nat \<Rightarrow> char" where
  "rowChar r = char_of (65 + r)"

definition AllSlotCodes :: "int \<Rightarrow> int \<Rightarrow> string list" where
  "AllSlotCodes rows cols =
     (let rows = (if rows < 1 then 1 else rows); cols = (if cols < 1 then 1 else cols)
      in concat (map (\<lambda>r. map (\<lambda>c. rowChar r # Sprintd (int c)) [1 ..< nat cols + 1]) [0 ..< nat rows]))"

text \<open>The digits after the row letter; a character that is no digit ends the decoding.\<close>

fun col_scan :: "string \<Rightarrow> int \<Rightarrow> int option" where
  "col_scan [] col = Some col"
| "col_scan (c # cs) col =
     (if code c < 48 \<or> 57 < code c then None else col_scan cs (i64 (col * 10 + int (code c - 48))))"

text \<open>\<open>trimmed[0] - 'A'\<close> is a subtraction of bytes, so it wraps modulo 256 before it becomes an \<open>int\<close>.\<close>

definition SlotIndexFromCode :: "string \<Rightarrow> int \<Rightarrow> int" where
  "SlotIndexFromCode slotCode cols =
     (let cols = (if cols < 1 then 1 else cols)
      in if length slotCode < 2 then 0
         else let row = (int (code (hd slotCode)) - 65) mod 256
              in case col_scan (tl slotCode) 0 of
                   None \<Rightarrow> 0
                 | Some col \<Rightarrow> if row < 0 \<or> col < 1 then 0 else i32 (i64 (row * cols + col)))"

definition SlotCodeFromIndex :: "int \<Rightarrow> int \<Rightarrow> string" where
  "SlotCodeFromIndex slotIndex cols =
     (if cols < 1 \<or> slotIndex < 1 then []
      else let zeroBased = slotIndex - 1; row = zeroBased div cols; col = zeroBased mod cols + 1
           in if row < 0 \<or> row > 25 then []
              else rowChar (nat row) # Sprintd col)"

section \<open>Decimal text\<close>

lemma code_char_of [simp]: "n < 256 \<Longrightarrow> code (char_of n) = n"
  by (simp add: code_def)

lemma digits_of_nonempty [simp]: "digits_of n \<noteq> []"
  by (subst digits_of.simps) simp

text \<open>The scanner reads one more digit at the end of what it has read.\<close>

lemma col_scan_append:
  "col_scan (xs @ ys) a = (case col_scan xs a of None \<Rightarrow> None | Some b \<Rightarrow> col_scan ys b)"
  by (induction xs arbitrary: a) auto

lemma col_scan_digits: "n < 2 ^ 63 \<Longrightarrow> col_scan (digits_of n) 0 = Some (int n)"
proof (induction n rule: digits_of.induct)
  case (1 n)
  show ?case
  proof (cases "n < 10")
    case True
    then show ?thesis
      by (subst digits_of.simps) (simp add: i64_small)
  next
    case False
    then have eq: "digits_of n = digits_of (n div 10) @ [char_of (48 + n mod 10)]"
      by (subst digits_of.simps) simp
    have ih: "col_scan (digits_of (n div 10)) 0 = Some (int (n div 10))"
      using "1" False by simp
    have "int (n div 10) * 10 + int (n mod 10) = int n"
      by (metis div_mult_mod_eq of_nat_add of_nat_mult of_nat_numeral)
    with "1.prems" have "i64 (int (n div 10) * 10 + int (n mod 10)) = int n"
      by (simp add: i64_small)
    then show ?thesis by (simp add: eq col_scan_append ih)
  qed
qed

lemma rowChar_code [simp]: "r \<le> 25 \<Longrightarrow> code (rowChar r) = 65 + r"
  by (simp add: rowChar_def)

lemma SlotCodeFromIndex_in_range:
  assumes "1 \<le> cols" "1 \<le> i" "i \<le> 26 * cols"
  shows "SlotCodeFromIndex i cols =
    rowChar (nat ((i - 1) div cols)) # digits_of (nat ((i - 1) mod cols + 1))"
    and "0 \<le> (i - 1) div cols" and "(i - 1) div cols \<le> 25"
proof -
  have le: "(i - 1) div cols * cols \<le> i - 1"
    using div_mult_mod_eq [of "i - 1" cols] pos_mod_sign [of cols "i - 1"] assms by linarith
  have "(i - 1) div cols < 26"
  proof (rule ccontr)
    assume "\<not> (i - 1) div cols < 26"
    then have "26 * cols \<le> (i - 1) div cols * cols"
      using assms by (intro mult_right_mono) auto
    with le assms show False by linarith
  qed
  moreover have "0 \<le> (i - 1) div cols"
    using assms by (simp add: pos_imp_zdiv_nonneg_iff)
  moreover have "\<not> (i - 1) mod cols + 1 < 0"
    using assms pos_mod_sign [of cols "i - 1"] by linarith
  ultimately show "SlotCodeFromIndex i cols =
      rowChar (nat ((i - 1) div cols)) # digits_of (nat ((i - 1) mod cols + 1))"
    and "0 \<le> (i - 1) div cols" and "(i - 1) div cols \<le> 25"
    using assms by (simp_all add: SlotCodeFromIndex_def Let_def Sprintd_def)
qed

lemma slot_decode_encode:
  assumes "1 \<le> cols" "1 \<le> i" "i \<le> 26 * cols" "i < 2 ^ 31"
  shows "SlotIndexFromCode (SlotCodeFromIndex i cols) cols = i"
proof -
  let ?r = "(i - 1) div cols" and ?c = "(i - 1) mod cols + 1"
  note code = SlotCodeFromIndex_in_range [OF assms(1-3)]
  have c: "1 \<le> ?c" "?c \<le> i"
    using assms zmod_le_nonneg_dividend [of "i - 1" cols] pos_mod_sign [of cols "i - 1"] by linarith+
  have sum: "?r * cols + ?c = i"
    using div_mult_mod_eq [of "i - 1" cols] by linarith
  have scan: "col_scan (digits_of (nat ?c)) 0 = Some ?c"
    using col_scan_digits [of "nat ?c"] c assms(4) by (simp add: nat_less_iff)
  have row: "(int (code (rowChar (nat ?r))) - 65) mod 256 = ?r"
    using code(2,3) by simp
  have len: "\<not> length (SlotCodeFromIndex i cols) < 2"
    by (cases "digits_of (nat ?c)") (simp_all add: code(1))
  have id: "i32 (i64 i) = i" using assms(2,4) by (simp add: i64_small i32_id in_i32_def)
  have "\<not> ?r < 0" "\<not> ?c < 1" "\<not> cols < 1" using code(2) c assms(1) by linarith+
  with len row scan sum id code(1) show ?thesis
    by (simp only: SlotIndexFromCode_def Let_def list.sel option.case if_False simp_thms)
qed

lemma length_concat_rows:
  "length (concat (map (\<lambda>r. map (f r) [1 ..< cols + 1]) [0 ..< rows])) = rows * cols"
  by (induction rows) auto

lemma nth_concat_rows:
  "k < rows * cols \<Longrightarrow>
   concat (map (\<lambda>r. map (f r) [1 ..< cols + 1]) [0 ..< rows]) ! k = f (k div cols) (k mod cols + 1)"
proof (induction rows)
  case (Suc rows)
  let ?row = "\<lambda>r. map (f r) [1 ..< cols + 1]"
  have split: "concat (map ?row [0 ..< Suc rows]) = concat (map ?row [0 ..< rows]) @ ?row rows"
    by simp
  show ?case
  proof (cases "k < rows * cols")
    case True
    then have "concat (map ?row [0 ..< Suc rows]) ! k = concat (map ?row [0 ..< rows]) ! k"
      unfolding split by (simp only: nth_append length_concat_rows if_True)
    with Suc.IH [OF True] show ?thesis by simp
  next
    case False
    with Suc.prems obtain j where j: "k = rows * cols + j" "j < cols"
      by (metis add.commute le_add_diff_inverse2 less_diff_conv2 mult_Suc not_less)
    then have "k div cols = rows" "k mod cols = j" by auto
    moreover have "concat (map ?row [0 ..< Suc rows]) ! k = ?row rows ! j"
      unfolding split using False j by (simp only: nth_append length_concat_rows if_False) simp
    moreover have "?row rows ! j = f rows (j + 1)" using j by (simp del: upt_Suc)
    ultimately show ?thesis by simp
  qed
qed simp

section \<open>Properties\<close>

text \<open>
  decoding the code of an index gives the index back, for every index of a grid of at most
  26 rows whose cells are numbered within \<open>int32\<close>.
\<close>

theorem slot_index_round_trip:
  assumes "1 \<le> cols" "1 \<le> i" "i \<le> 26 * cols" "i < 2 ^ 31"
  shows "SlotIndexFromCode (SlotCodeFromIndex i cols) cols = i"
  using assms by (rule slot_decode_encode)

text \<open>
  the codes generated for a grid are those of its indexes in order: the \<open>k\<close>-th is the code of
  index \<open>k + 1\<close>, and no code is generated twice.
\<close>

theorem all_slot_codes_enumerate:
  assumes "1 \<le> rows" "rows \<le> 26" "1 \<le> cols" "26 * cols < 2 ^ 31"
  shows "length (AllSlotCodes rows cols) = nat (rows * cols)
    \<and> (\<forall>k < nat (rows * cols). AllSlotCodes rows cols ! k = SlotCodeFromIndex (int k + 1) cols)
    \<and> distinct (AllSlotCodes rows cols)"
proof -
  obtain R C where RC: "rows = int R" "cols = int C" "1 \<le> R" "1 \<le> C"
    using assms by (metis nat_0_le nat_int of_nat_1 of_nat_le_iff order_trans zero_le_one)
  have all: "AllSlotCodes rows cols =
      concat (map (\<lambda>r. map (\<lambda>c. rowChar r # Sprintd (int c)) [1 ..< C + 1]) [0 ..< R])"
    using RC by (simp add: AllSlotCodes_def Let_def)
  have len: "length (AllSlotCodes rows cols) = R * C"
    unfolding all by (rule length_concat_rows)
  have nth: "AllSlotCodes rows cols ! k = SlotCodeFromIndex (int k + 1) cols" if k: "k < R * C" for k
  proof -
    have "k div C < R" using k by (simp add: less_mult_imp_div_less)
    then have "k div C \<le> 25" using assms(2) RC by linarith
    then have q: "int k div int C \<le> 25" "0 \<le> int k div int C" "nat (int k div int C) = k div C"
      by (simp_all add: zdiv_int [symmetric])
    have c: "int (k mod C + 1) = int k mod int C + 1" by (simp add: zmod_int)
    show ?thesis
      unfolding all nth_concat_rows [OF k] c
      using q RC by (simp add: SlotCodeFromIndex_def Let_def)
  qed
  have "distinct (AllSlotCodes rows cols)"
    unfolding distinct_conv_nth
  proof (intro allI impI)
    fix j k assume *: "j < length (AllSlotCodes rows cols)" "k < length (AllSlotCodes rows cols)" "j \<noteq> k"
    have bnd: "int m + 1 \<le> 26 * cols" "int m + 1 < 2 ^ 31" if "m < R * C" for m
    proof -
      have "R * C \<le> 26 * C" using assms(2) RC by simp
      with that have "m < 26 * C" by linarith
      then show "int m + 1 \<le> 26 * cols" unfolding RC by linarith
      then show "int m + 1 < 2 ^ 31" using assms(4) by linarith
    qed
    have "SlotIndexFromCode (AllSlotCodes rows cols ! m) cols = int m + 1" if "m < R * C" for m
      using slot_decode_encode [of cols "int m + 1"] nth [OF that] bnd [OF that] assms(3) by simp
    then show "AllSlotCodes rows cols ! j \<noteq> AllSlotCodes rows cols ! k"
      using * len by (metis add_right_cancel of_nat_eq_iff)
  qed
  moreover have "nat (rows * cols) = R * C"
    using RC by (simp add: of_nat_mult [symmetric] del: of_nat_mult)
  ultimately show ?thesis using len nth by simp
qed

text \<open>
  the decoder does not reject a code whose first character precedes \<open>A\<close>: the byte
  subtraction wraps, the row is at least 191 and the test for a negative row never fires, so a
  legacy numeric slot code decodes to an index far outside the grid.
\<close>

theorem numeric_slot_code_accepted:
  assumes "is_digit d" "1 \<le> cols" "cols < 2 ^ 22" "1 \<le> col" "col < 2 ^ 20"
  shows "SlotIndexFromCode (d # digits_of (nat col)) cols =
           (int (code d) + 191) * cols + col
       \<and> 26 * cols < SlotIndexFromCode (d # digits_of (nat col)) cols"
proof -
  from assms(1) have d: "48 \<le> code d" "code d \<le> 57" by (auto simp: is_digit_def)
  have "(int (code d) - 65) mod 256 = (int (code d) - 65 + 256) mod 256"
    by (simp only: mod_add_self2)
  also have "\<dots> = int (code d) + 191" using d by simp
  finally have row: "(int (code d) - 65) mod 256 = int (code d) + 191" .
  have scan: "col_scan (digits_of (nat col)) 0 = Some col"
    using col_scan_digits [of "nat col"] assms(4,5) by (simp add: nat_less_iff)
  have len: "\<not> length (d # digits_of (nat col)) < 2"
    by (cases "digits_of (nat col)") simp_all
  let ?v = "(int (code d) + 191) * cols + col"
  have lo: "239 * cols \<le> (int (code d) + 191) * cols"
    using d assms(2) by (intro mult_right_mono) auto
  have hi: "(int (code d) + 191) * cols \<le> 248 * cols"
    using d assms(2) by (intro mult_right_mono) auto
  have "cols < 4194304" "col < 1048576" using assms(3,5) by simp_all
  with lo hi assms(2,4) have v: "0 \<le> ?v" "?v < 2147483648" "26 * cols < ?v"
    by linarith+
  then have "i32 (i64 ?v) = ?v" by (simp add: i64_small i32_id in_i32_def)
  with len row scan assms(2,4) d v show ?thesis
    by (simp add: SlotIndexFromCode_def Let_def)
qed

section \<open>Witnesses\<close>

theorem slot_index_round_trip_witness: "SlotIndexFromCode (SlotCodeFromIndex 23 10) 10 = 23"
  by (rule slot_index_round_trip) simp_all

theorem all_slot_codes_enumerate_witness:
  "length (AllSlotCodes 6 10) = 60 \<and> distinct (AllSlotCodes 6 10)"
  using all_slot_codes_enumerate [of 6 10] by simp

theorem numeric_slot_code_accepted_witness: "SlotIndexFromCode (CHR ''1'' # digits_of 2) 10 = 2402"
  using numeric_slot_code_accepted [of "CHR ''1''" 10 2] by (simp add: is_digit_def code_def)

end
