(* ===== verification/Json_Sanitize.thy ===== *)
theory Json_Sanitize
  imports Commerce_Types
begin

text \<open>
  Redaction of audit payloads, \<open>internal/domain/compliance/sanitize.go\<close>: values under sensitive
  keys are replaced, card numbers inside string values are replaced, everything else is kept. The
  decoded Go value is a \<open>json\<close>; the in-place updates of the maps and slices are the function's
  result. The properties are that no value of a sensitive key survives at any depth, that a
  second pass changes nothing, that the shape of a document is kept, and that the checksum behind
  the card test notices every changed digit.
\<close>

section \<open>Keys\<close>

fun Contains :: "string \<Rightarrow> string \<Rightarrow> bool" where
  "Contains [] sub \<longleftrightarrow> sub = []"
| "Contains (c # cs) sub \<longleftrightarrow> HasPrefix (c # cs) sub \<or> Contains cs sub"

definition sensitiveKeySubstrings :: "string list" where
  "sensitiveKeySubstrings =
     [''password'', ''secret'', ''token'', ''authorization'', ''refresh'', ''accesskey'', ''apikey'',
      ''api_key'', ''webhook'', ''hmac'', ''pan'', ''card'', ''cvv'', ''cvc'', ''expiry'', ''exp_month'',
      ''exp_year'', ''security_code'', ''account_number'', ''iban'']"

definition keyLooksSensitive :: "string \<Rightarrow> bool" where
  "keyLooksSensitive k \<longleftrightarrow> list_ex (\<lambda>s. Contains k s) sensitiveKeySubstrings"

section \<open>Card numbers inside strings\<close>

text \<open>The loop runs from the last digit to the first; the list is the digits in that order.\<close>

definition luhn_digit :: "bool \<Rightarrow> char \<Rightarrow> nat" where
  "luhn_digit double c =
     (let n = code c - 48 in if double then (if 2 * n > 9 then 2 * n - 9 else 2 * n) else n)"

fun luhn_sum :: "string \<Rightarrow> bool \<Rightarrow> nat \<Rightarrow> nat option" where
  "luhn_sum [] double acc = Some acc"
| "luhn_sum (c # cs) double acc =
     (if \<not> is_digit c then None else luhn_sum cs (\<not> double) (acc + luhn_digit double c))"

definition luhnValid :: "string \<Rightarrow> bool" where
  "luhnValid digits = (case luhn_sum (rev digits) False 0 of None \<Rightarrow> False
     | Some n \<Rightarrow> n > 0 \<and> n mod 10 = 0)"

text \<open>
  \<open>digitRunPattern\<close> is \<open>\d[\d -]{11,}\d\<close>: at a digit, the longest stretch of digits, blanks and
  dashes that ends with a digit, if it has at least thirteen characters.
\<close>

definition run_char :: "char \<Rightarrow> bool" where
  "run_char c \<longleftrightarrow> is_digit c \<or> c = CHR '' '' \<or> c = CHR ''-''"

definition digit_run :: "string \<Rightarrow> string" where
  "digit_run s = rev (dropWhile (\<lambda>c. \<not> is_digit c) (rev (takeWhile run_char s)))"

definition digitRunPattern :: "string \<Rightarrow> nat option" where
  "digitRunPattern s =
     (case s of [] \<Rightarrow> None
      | c # _ \<Rightarrow> if is_digit c \<and> 13 \<le> length (digit_run s) then Some (length (digit_run s)) else None)"

definition redact_candidate :: "string \<Rightarrow> string" where
  "redact_candidate candidate =
     (let digits = filter (\<lambda>c. c \<noteq> CHR '' '' \<and> c \<noteq> CHR ''-'') candidate
      in if length digits < 13 \<or> length digits > 19 \<or> \<not> luhnValid digits then candidate
         else ''[REDACTED]'')"

lemma digitRunPattern_pos: "digitRunPattern s = Some n \<Longrightarrow> 13 \<le> n \<and> s \<noteq> []"
  by (auto simp: digitRunPattern_def split: list.splits if_splits)

function redactSensitiveString :: "string \<Rightarrow> string" where
  "redactSensitiveString s =
     (case digitRunPattern s of
        Some n \<Rightarrow> redact_candidate (take n s) @ redactSensitiveString (drop n s)
      | None \<Rightarrow> (case s of [] \<Rightarrow> [] | c # cs \<Rightarrow> c # redactSensitiveString cs))"
  by pat_completeness auto
termination
  by (relation "measure length") (auto dest: digitRunPattern_pos)

declare redactSensitiveString.simps [simp del]

section \<open>Documents\<close>

fun sanitizeValue :: "json \<Rightarrow> json" where
  "sanitizeValue (JObj kvs) =
     JObj (map (\<lambda>(k, v). (k,
       if keyLooksSensitive (ToLower k) then JStr ''[REDACTED]''
       else case v of JStr s \<Rightarrow> JStr (redactSensitiveString s) | _ \<Rightarrow> sanitizeValue v)) kvs)"
| "sanitizeValue (JArr vs) =
     JArr (map (\<lambda>v. case v of JStr s \<Rightarrow> JStr (redactSensitiveString s) | _ \<Rightarrow> sanitizeValue v) vs)"
| "sanitizeValue v = v"

definition SanitizeJSONBytes :: "raw \<Rightarrow> raw" where
  "SanitizeJSONBytes b = (case b of
       NoBytes \<Rightarrow> Bytes (JObj [])
     | Bytes j \<Rightarrow> Bytes (sanitizeValue j)
     | Trailing j _ \<Rightarrow> Bytes (sanitizeValue j)
     | BadBytes _ \<Rightarrow> Bytes (JObj [(''_sanitize_error'', JStr ''non_json_payload'')]))"

section \<open>What a clean document is\<close>

text \<open>Every sensitive key, at any depth, holds the marker.\<close>

fun keys_redacted :: "json \<Rightarrow> bool" where
  "keys_redacted (JObj kvs) \<longleftrightarrow>
     list_all (\<lambda>(k, v). if keyLooksSensitive (ToLower k) then v = JStr ''[REDACTED]'' else keys_redacted v) kvs"
| "keys_redacted (JArr vs) \<longleftrightarrow> list_all keys_redacted vs"
| "keys_redacted _ \<longleftrightarrow> True"

text \<open>Two documents of the same shape: same keys in the same places, same leaves that are no strings.\<close>

fun same_shape :: "json \<Rightarrow> json \<Rightarrow> bool" where
  "same_shape (JObj kvs) (JObj kws) \<longleftrightarrow>
     list_all2 (\<lambda>(k, v) (k', w). k = k' \<and> (keyLooksSensitive (ToLower k) \<or> same_shape v w)) kvs kws"
| "same_shape (JArr vs) (JArr ws) \<longleftrightarrow> list_all2 same_shape vs ws"
| "same_shape (JStr _) (JStr _) \<longleftrightarrow> True"
| "same_shape v w \<longleftrightarrow> v = w"

section \<open>The checksum\<close>

lemma luhn_digit_le: "is_digit c \<Longrightarrow> luhn_digit d c \<le> 9"
  by (auto simp: luhn_digit_def is_digit_def Let_def)

lemma luhn_digit_inj:
  assumes "is_digit c" "is_digit e" "luhn_digit d c = luhn_digit d e"
  shows "c = e"
proof -
  have "code c = code e"
    using assms unfolding luhn_digit_def is_digit_def Let_def by (cases d) (simp_all split: if_splits, presburger+)
  then show ?thesis by (simp add: code_def)
qed

lemma luhn_sum_Some:
  "luhn_sum cs d acc = Some n \<Longrightarrow> list_all is_digit cs \<and> acc \<le> n"
  by (induction cs arbitrary: d acc) (force split: if_splits)+

lemma luhn_sum_acc:
  "luhn_sum cs d acc = map_option (\<lambda>n. n + acc) (luhn_sum cs d 0)"
proof (induction cs arbitrary: d acc)
  case (Cons c cs)
  show ?case
    using Cons [of "\<not> d" "acc + luhn_digit d c"] Cons [of "\<not> d" "luhn_digit d c"]
    by (cases "luhn_sum cs (\<not> d) 0") simp_all
qed simp

lemma mod10_le: "(k + b) mod 10 = (k + a) mod 10 \<Longrightarrow> b \<le> 9 \<Longrightarrow> b \<le> a" for a b k :: nat
  using mod_eq_dvd_iff_nat [of "k + a" "k + b" 10] dvd_imp_le [of 10 "b - a"] by fastforce

lemma mod10_cancel:
  "(k + a) mod 10 = (k + b) mod 10 \<Longrightarrow> a \<le> 9 \<Longrightarrow> b \<le> 9 \<Longrightarrow> a = b" for a b k :: nat
  using mod10_le [of k a b] mod10_le [of k b a] by linarith

text \<open>Changing one digit changes the sum by a difference of two values below ten.\<close>

lemma luhn_sum_change:
  assumes "luhn_sum (xs @ c # ys) d acc = Some n" "is_digit e" "c \<noteq> e"
  shows "\<exists>m. luhn_sum (xs @ e # ys) d acc = Some m \<and> m mod 10 \<noteq> n mod 10"
  using assms
proof (induction xs arbitrary: d acc)
  case Nil
  then have c: "is_digit c" by (auto split: if_splits)
  let ?a = "luhn_digit d c" and ?b = "luhn_digit d e"
  obtain k where k: "luhn_sum ys (\<not> d) 0 = Some k"
    using Nil c luhn_sum_acc [of ys "\<not> d" "acc + ?a"] by (cases "luhn_sum ys (\<not> d) 0") auto
  have n: "n = k + (acc + ?a)"
    using Nil(1) c k luhn_sum_acc [of ys "\<not> d" "acc + ?a"] by simp
  have "?a \<noteq> ?b" using luhn_digit_inj [OF c Nil(2)] Nil(3) by blast
  then have "(k + (acc + ?b)) mod 10 \<noteq> n mod 10"
    unfolding n using mod10_cancel [of "k + acc" ?a ?b] luhn_digit_le [OF c] luhn_digit_le [OF Nil(2)]
    by (auto simp: add.assoc)
  moreover have "luhn_sum ([] @ e # ys) d acc = Some (k + (acc + ?b))"
    using Nil(2) k luhn_sum_acc [of ys "\<not> d" "acc + ?b"] by simp
  ultimately show ?case by blast
next
  case (Cons x xs)
  then show ?case by (auto split: if_splits)
qed

section \<open>Runs of digits\<close>

lemma is_digit_run_char: "is_digit c \<Longrightarrow> run_char c"
  by (simp add: run_char_def)

lemma digit_run_prefix: "\<exists>t. takeWhile run_char s = digit_run s @ t \<and> list_all (\<lambda>c. \<not> is_digit c) t"
proof -
  let ?r = "rev (takeWhile run_char s)"
  have "?r = takeWhile (\<lambda>c. \<not> is_digit c) ?r @ dropWhile (\<lambda>c. \<not> is_digit c) ?r" by simp
  then have "takeWhile run_char s = digit_run s @ rev (takeWhile (\<lambda>c. \<not> is_digit c) ?r)"
    unfolding digit_run_def by (metis rev_append rev_rev_ident)
  moreover have "list_all (\<lambda>c. \<not> is_digit c) (rev (takeWhile (\<lambda>c. \<not> is_digit c) ?r))"
    by (auto simp: list_all_iff dest: set_takeWhileD)
  ultimately show ?thesis by blast
qed

lemma digit_run_cong: "takeWhile run_char s = takeWhile run_char t \<Longrightarrow> digit_run s = digit_run t"
  by (simp add: digit_run_def)

text \<open>
  A string without a candidate at any position of its leading run is copied there, so that the
  leading run of the output is that of the input.
\<close>

lemma redact_Cons:
  "digitRunPattern (c # cs) = None \<Longrightarrow> redactSensitiveString (c # cs) = c # redactSensitiveString cs"
  by (subst redactSensitiveString.simps) simp

lemma redact_Nil [simp]: "redactSensitiveString [] = []"
  by (subst redactSensitiveString.simps) (simp add: digitRunPattern_def)

lemma redact_match:
  "digitRunPattern s = Some n \<Longrightarrow>
   redactSensitiveString s = redact_candidate (take n s) @ redactSensitiveString (drop n s)"
  by (subst redactSensitiveString.simps) simp

lemma length_dropWhile_snoc: "length (dropWhile P xs) \<le> length (dropWhile P (xs @ [c]))"
  by (induction xs) simp_all

lemma digit_run_Cons_length:
  "run_char c \<Longrightarrow> length (digit_run cs) \<le> length (digit_run (c # cs))"
  by (simp add: digit_run_def length_dropWhile_snoc)

lemma takeWhile_dropWhile_same: "takeWhile P (dropWhile P xs) = []"
  by (induction xs) simp_all

lemma redact_leading_run:
  assumes "length (digit_run s) < 13"
  shows "takeWhile run_char (redactSensitiveString s) = takeWhile run_char s"
  using assms
proof (induction s)
  case (Cons c cs)
  have "digitRunPattern (c # cs) = None"
    using Cons.prems by (simp add: digitRunPattern_def)
  then have out: "redactSensitiveString (c # cs) = c # redactSensitiveString cs"
    by (rule redact_Cons)
  show ?case
  proof (cases "run_char c")
    case True
    with Cons.prems digit_run_Cons_length have "length (digit_run cs) < 13" by (metis order_le_less_trans)
    with Cons.IH out show ?thesis by simp
  qed (simp add: out)
qed simp

lemma digit_run_drop:
  "digit_run (drop (length (digit_run s)) s) = []"
proof -
  obtain t where t: "takeWhile run_char s = digit_run s @ t" "list_all (\<lambda>c. \<not> is_digit c) t"
    using digit_run_prefix by blast
  have "takeWhile run_char (drop (length (digit_run s)) s) = t"
  proof -
    have s: "s = digit_run s @ t @ dropWhile run_char s"
      using t(1) takeWhile_dropWhile_id [of run_char s] by simp
    have all: "\<forall>c \<in> set (digit_run s @ t). run_char c"
      unfolding t(1) [symmetric] by (auto dest: set_takeWhileD)
    have d: "drop (length (digit_run s)) s = t @ dropWhile run_char s"
      by (subst s) simp
    have "takeWhile run_char (t @ dropWhile run_char s) = t @ takeWhile run_char (dropWhile run_char s)"
      using all by (intro takeWhile_append2) auto
    then show ?thesis by (simp add: d takeWhile_dropWhile_same)
  qed
  with t(2) show ?thesis
    by (simp add: digit_run_def list_all_iff)
qed

lemma digit_run_take: "take (length (digit_run s)) s = digit_run s"
proof -
  obtain t where "takeWhile run_char s = digit_run s @ t" using digit_run_prefix by blast
  then have "s = digit_run s @ t @ dropWhile run_char s"
    by (metis append.assoc takeWhile_dropWhile_id)
  then show ?thesis by (metis append_eq_conv_conj)
qed

lemma redact_nondigits:
  "list_all (\<lambda>c. \<not> is_digit c) xs \<Longrightarrow> redactSensitiveString (xs @ t) = xs @ redactSensitiveString t"
proof (induction xs)
  case (Cons c xs)
  then have "digitRunPattern (c # xs @ t) = None" by (simp add: digitRunPattern_def)
  with Cons show ?case by (simp add: redact_Cons)
qed simp

lemma redact_kept_candidate:
  assumes "digitRunPattern s = Some n"
  shows "digitRunPattern (take n s @ redactSensitiveString (drop n s)) = Some n"
proof -
  let ?r = "redactSensitiveString (drop n s)"
  have n: "n = length (digit_run s)" "13 \<le> n" "s \<noteq> []" "is_digit (hd s)"
    using assms by (auto simp: digitRunPattern_def split: list.splits if_splits)
  obtain t where t: "takeWhile run_char s = digit_run s @ t" using digit_run_prefix by blast
  have all: "\<forall>c \<in> set (digit_run s). run_char c"
    using t by (metis UnCI set_append set_takeWhileD)
  have cat: "takeWhile run_char (digit_run s @ u) = digit_run s @ takeWhile run_char u" for u
    using all by (intro takeWhile_append2) auto
  have "takeWhile run_char ?r = takeWhile run_char (drop n s)"
    by (rule redact_leading_run) (simp add: n(1) digit_run_drop)
  then have "takeWhile run_char (take n s @ ?r) = takeWhile run_char (take n s @ drop n s)"
    unfolding n(1) digit_run_take cat by simp
  then have "digit_run (take n s @ ?r) = digit_run s"
    using digit_run_cong by (metis append_take_drop_id)
  moreover obtain u where "take n s @ ?r = hd s # u"
    using n(2,3) by (cases s; cases n) auto
  ultimately show ?thesis
    using n by (simp add: digitRunPattern_def)
qed

lemma redact_idem: "redactSensitiveString (redactSensitiveString s) = redactSensitiveString s"
proof (induction s rule: redactSensitiveString.induct)
  case (1 s)
  show ?case
  proof (cases "digitRunPattern s")
    case None
    show ?thesis
    proof (cases s)
      case (Cons c cs)
      let ?r = "redactSensitiveString cs"
      have "digitRunPattern (c # ?r) = None"
      proof (cases "is_digit c")
        case True
        with None Cons have short: "length (digit_run (c # cs)) < 13"
          by (simp add: digitRunPattern_def split: if_splits)
        have "takeWhile run_char (c # ?r) = takeWhile run_char (c # cs)"
          using redact_leading_run [OF short] None Cons by (simp add: redact_Cons)
        with short show ?thesis
          using digit_run_cong [of "c # ?r" "c # cs"] by (simp add: digitRunPattern_def)
      qed (simp add: digitRunPattern_def)
      with None Cons "1.IH"(1) [OF None Cons] show ?thesis by (simp add: redact_Cons)
    qed simp
  next
    case (Some n)
    let ?d = "take n s" and ?r = "redactSensitiveString (drop n s)"
    have ih: "redactSensitiveString ?r = ?r" using "1.IH"(2) Some by simp
    show ?thesis
    proof (cases "redact_candidate ?d = ?d")
      case True
      have len: "n \<le> length s"
        using Some digit_run_take [of s] by (auto simp: digitRunPattern_def split: list.splits if_splits)
          (metis length_take min.cobounded1 length_Cons)
      show ?thesis
        using redact_match [OF redact_kept_candidate [OF Some]] True ih len
        by (simp add: redact_match [OF Some])
    next
      case False
      then have "redact_candidate ?d = ''[REDACTED]''"
        by (auto simp: redact_candidate_def Let_def split: if_splits)
      then have cand: "redactSensitiveString s = ''[REDACTED]'' @ ?r"
        by (simp add: redact_match [OF Some])
      have "list_all (\<lambda>c. \<not> is_digit c) ''[REDACTED]''" by code_simp
      then show ?thesis
        unfolding cand by (simp only: redact_nondigits ih)
    qed
  qed
qed

section \<open>Documents\<close>

text \<open>What the loops over a map and a slice do with one element.\<close>

definition sanitize_elem :: "json \<Rightarrow> json" where
  "sanitize_elem v = (case v of JStr s \<Rightarrow> JStr (redactSensitiveString s) | _ \<Rightarrow> sanitizeValue v)"

lemma sanitize_elem_simps:
  "sanitize_elem (JStr s) = JStr (redactSensitiveString s)"
  "\<nexists>s. v = JStr s \<Longrightarrow> sanitize_elem v = sanitizeValue v"
  by (auto simp: sanitize_elem_def split: json.splits)

lemma sanitizeValue_elems:
  "sanitizeValue (JArr vs) = JArr (map sanitize_elem vs)"
  "sanitizeValue (JObj kvs) = JObj (map (\<lambda>(k, v). (k,
     if keyLooksSensitive (ToLower k) then JStr ''[REDACTED]'' else sanitize_elem v)) kvs)"
  by (auto simp: sanitize_elem_def [abs_def])

lemma sanitizeValue_not_str: "\<nexists>s. v = JStr s \<Longrightarrow> \<nexists>s. sanitizeValue v = JStr s"
  by (cases v) auto

lemma keys_redacted_elem: "keys_redacted (sanitizeValue v) \<Longrightarrow> keys_redacted (sanitize_elem v)"
  by (cases v) (simp_all add: sanitize_elem_def)

lemma sanitizeValue_keys_redacted: "keys_redacted (sanitizeValue v)"
proof (induction v)
  case (JArr vs)
  then show ?case by (auto simp: sanitizeValue_elems list_all_iff keys_redacted_elem simp del: sanitizeValue.simps)
next
  case (JObj kvs)
  then have "keys_redacted (sanitize_elem v)" if "(k, v) \<in> set kvs" for k v
    using that by (intro keys_redacted_elem) force
  then show ?case by (auto simp: sanitizeValue_elems list_all_iff simp del: sanitizeValue.simps)
qed simp_all

lemma sanitize_elem_idem:
  "sanitizeValue (sanitizeValue v) = sanitizeValue v \<Longrightarrow> sanitize_elem (sanitize_elem v) = sanitize_elem v"
  by (cases "\<exists>s. v = JStr s")
    (auto simp: sanitize_elem_simps redact_idem sanitizeValue_not_str)

lemma sanitizeValue_idem: "sanitizeValue (sanitizeValue v) = sanitizeValue v"
proof (induction v)
  case (JArr vs)
  then show ?case by (auto simp: sanitizeValue_elems sanitize_elem_idem simp del: sanitizeValue.simps)
next
  case (JObj kvs)
  then have "sanitize_elem (sanitize_elem v) = sanitize_elem v" if "(k, v) \<in> set kvs" for k v
    using that by (intro sanitize_elem_idem) force
  then show ?case by (auto simp: sanitizeValue_elems simp del: sanitizeValue.simps)
qed simp_all

lemma same_shape_elem: "same_shape v (sanitizeValue v) \<Longrightarrow> same_shape v (sanitize_elem v)"
  by (cases v) (simp_all add: sanitize_elem_def)

section \<open>Properties\<close>

text \<open>
  C27: after redaction no sensitive key of the document, at any depth, holds anything but the marker,
  whatever bytes came in.
\<close>

theorem sanitize_hides_sensitive_keys:
  "\<exists>j. SanitizeJSONBytes b = Bytes j \<and> keys_redacted j"
proof -
  have "\<not> keyLooksSensitive (ToLower ''_sanitize_error'')" by code_simp
  then show ?thesis
    by (cases b) (simp_all add: SanitizeJSONBytes_def sanitizeValue_keys_redacted del: sanitizeValue.simps)
qed

text \<open>
  redaction is idempotent: sanitising a stored payload again leaves it as it is, so that no card
  number that the test recognises is left in a string value.
\<close>

theorem sanitize_idempotent: "SanitizeJSONBytes (SanitizeJSONBytes b) = SanitizeJSONBytes b"
proof -
  have "sanitizeValue (JObj [(''_sanitize_error'', JStr ''non_json_payload'')])
      = JObj [(''_sanitize_error'', JStr ''non_json_payload'')]" by code_simp
  moreover have "sanitizeValue (JObj []) = JObj []" by simp
  ultimately show ?thesis
    by (cases b) (simp_all only: SanitizeJSONBytes_def raw.case sanitizeValue_idem)
qed

text \<open>
  redaction keeps the shape of a document: the keys, the lengths of its arrays, and its numbers,
  booleans and nulls outside sensitive keys.
\<close>

theorem sanitize_keeps_shape: "same_shape v (sanitizeValue v)"
proof (induction v)
  case (JArr vs)
  then show ?case
    by (auto simp: sanitizeValue_elems list_all2_map2 list_all2_same same_shape_elem simp del: sanitizeValue.simps)
next
  case (JObj kvs)
  then have "same_shape v (sanitize_elem v)" if "(k, v) \<in> set kvs" for k v
    using that by (intro same_shape_elem) force
  then show ?case
    by (auto simp: sanitizeValue_elems(2) list_all2_map2 list_all2_same split: prod.splits
      simp del: sanitizeValue.simps)
qed simp_all

text \<open>
  the checksum of the card test notices a wrong digit: a number that passes does not pass any
  more after one of its digits is replaced by another.
\<close>

theorem luhn_detects_digit_error:
  assumes "luhnValid (xs @ c # ys)" "is_digit e" "c \<noteq> e"
  shows "\<not> luhnValid (xs @ e # ys)"
proof -
  obtain n where n: "luhn_sum (rev ys @ c # rev xs) False 0 = Some n" "n mod 10 = 0"
    using assms(1) by (auto simp: luhnValid_def split: option.splits)
  from luhn_sum_change [OF n(1) assms(2,3)] n(2) show ?thesis
    by (auto simp: luhnValid_def)
qed

section \<open>Witnesses\<close>

theorem luhn_detects_digit_error_witness:
  "luhnValid ''4111111111111111'' \<and> \<not> luhnValid ''4111111111111112''"
proof -
  have ok: "luhnValid ''4111111111111111''" by code_simp
  then have "luhnValid (''411111111111111'' @ CHR ''1'' # [])" by simp
  from luhn_detects_digit_error [OF this, of "CHR ''2''"] ok show ?thesis
    by (simp add: is_digit_def code_def)
qed

end
