(* ===== verification/Outbox_Safety.thy ===== *)
theory Outbox_Safety
  imports Outbox_Pipeline
begin

text \<open>
  Safety and progress of the outbox worker over whole ticks and over sequences of ticks, enqueued
  rows and clock advances: a row is marked published only after the broker acknowledged it, a
  published row never changes, the content of a row never changes, a row is quarantined after
  exactly its number of attempts, and a due row is published by the next tick if the broker takes it.
\<close>

section \<open>How a tick changes the table\<close>

text \<open>
  What happens to one row when the events with identifiers \<open>sent\<close> are acknowledged meanwhile.
\<close>

definition row_evolves :: "int set \<Rightarrow> outbox_event \<Rightarrow> outbox_event \<Rightarrow> bool" where
  "row_evolves sent r r' \<longleftrightarrow>
     ob_ID r' = ob_ID r \<and> ob_Topic r' = ob_Topic r \<and> ob_EventType r' = ob_EventType r
     \<and> ob_Payload r' = ob_Payload r \<and> ob_AggregateType r' = ob_AggregateType r
     \<and> ob_AggregateID r' = ob_AggregateID r \<and> ob_IdempotencyKey r' = ob_IdempotencyKey r
     \<and> ob_CreatedAt r' = ob_CreatedAt r \<and> ob_PublishAttemptCount r \<le> ob_PublishAttemptCount r'
     \<and> (ob_PublishedAt r \<noteq> None \<longrightarrow> r' = r)
     \<and> (ob_PublishedAt r' \<noteq> None \<longrightarrow> ob_PublishedAt r \<noteq> None \<or> ob_ID r \<in> sent)"

definition outbox_evolves :: "worker_world \<Rightarrow> worker_world \<Rightarrow> bool" where
  "outbox_evolves w w' \<longleftrightarrow>
     (distinct_ids w \<longrightarrow>
        (\<exists>new. ww_sent w' = new @ ww_sent w
           \<and> list_all2 (row_evolves (set (map ob_ID new))) (db_outbox w) (db_outbox w')))"

lemma row_evolves_refl [simp]: "row_evolves A r r"
  by (simp add: row_evolves_def)

lemma row_evolves_trans: "row_evolves A r r' \<Longrightarrow> row_evolves B r' r'' \<Longrightarrow> row_evolves (A \<union> B) r r''"
  unfolding row_evolves_def by (metis Un_iff order_trans)

lemma list_all2_row_trans:
  "list_all2 (row_evolves A) rs rs' \<Longrightarrow> list_all2 (row_evolves B) rs' rs'' \<Longrightarrow>
   list_all2 (row_evolves (A \<union> B)) rs rs''"
  using row_evolves_trans by (rule list_all2_trans) auto

lemma list_all2_row_ids: "list_all2 (row_evolves A) rs rs' \<Longrightarrow> map ob_ID rs' = map ob_ID rs"
  by (induction rule: list_all2_induct) (simp_all add: row_evolves_def)

interpretation ox: evolution outbox_evolves
proof
  fix w show "outbox_evolves w w"
    by (simp add: outbox_evolves_def list.rel_refl)
next
  fix w w' w'' assume a: "outbox_evolves w w'" "outbox_evolves w' w''"
  show "outbox_evolves w w''"
    unfolding outbox_evolves_def
  proof
    assume d: "distinct_ids w"
    with a(1) obtain n1 where n1: "ww_sent w' = n1 @ ww_sent w"
        "list_all2 (row_evolves (set (map ob_ID n1))) (db_outbox w) (db_outbox w')"
      unfolding outbox_evolves_def by blast
    then have "distinct_ids w'" using d list_all2_row_ids by metis
    with a(2) obtain n2 where n2: "ww_sent w'' = n2 @ ww_sent w'"
        "list_all2 (row_evolves (set (map ob_ID n2))) (db_outbox w') (db_outbox w'')"
      unfolding outbox_evolves_def by blast
    have "set (map ob_ID (n2 @ n1)) = set (map ob_ID n1) \<union> set (map ob_ID n2)" by auto
    then show "\<exists>new. ww_sent w'' = new @ ww_sent w
        \<and> list_all2 (row_evolves (set (map ob_ID new))) (db_outbox w) (db_outbox w'')"
      using n1 n2 list_all2_row_trans [OF n1(2) n2(2)] by (metis append.assoc)
  qed
qed

text \<open>A statement that rewrites rows in place evolves the table if each rewriting does.\<close>

lemma upd_where_evolves:
  assumes "\<And>r. r \<in> set rs \<Longrightarrow> P r \<Longrightarrow> row_evolves A r (f r)"
  shows "list_all2 (row_evolves A) rs (upd_where P f rs)"
  using assms by (induction rs) auto

lemma evolves_upd:
  assumes "ww_sent w' = new @ ww_sent w" "db_outbox w' = upd_where P f (db_outbox w)"
    and "\<And>r. distinct_ids w \<Longrightarrow> r \<in> set (db_outbox w) \<Longrightarrow> P r \<Longrightarrow> row_evolves (set (map ob_ID new)) r (f r)"
  shows "outbox_evolves w w'"
  unfolding outbox_evolves_def using assms upd_where_evolves by metis

lemma fail_row_evolves:
  "ob_PublishedAt r = None \<Longrightarrow> row_evolves A r (fail_row now msg rec r)"
  by (simp add: row_evolves_def fail_row_def)

lemma publish_row_evolves:
  "ob_PublishedAt r = None \<Longrightarrow> ob_ID r \<in> A \<Longrightarrow> row_evolves A r (publish_row now r)"
  by (simp add: row_evolves_def publish_row_def)

lemma lease_row_evolves:
  "ob_PublishedAt r = None \<Longrightarrow> row_evolves A r (lease_row now w lt r)"
  by (simp add: row_evolves_def lease_row_def)

subsection \<open>The statements\<close>

lemma moves_record_failure: "moves outbox_evolves (pg_RecordOutboxPublishFailure rec)"
  unfolding moves_def pg_RecordOutboxPublishFailure_def
  by (auto intro!: evolves_upd [where new = "[]"] fail_row_evolves)

lemma moves_lease: "moves outbox_evolves (pg_LeaseOutboxForPublish w l m n)"
  unfolding moves_def
proof
  fix s :: worker_world
  show "outbox_evolves s (snd (pg_LeaseOutboxForPublish w l m n s))"
  proof (cases "pg_LeaseOutboxForPublish w l m n s")
    case (Pair r t)
    show ?thesis
    proof (cases r)
      case (Inl e)
      with Pair show ?thesis
        by (auto simp: pg_LeaseOutboxForPublish_def Let_def ox.R_refl split: if_splits)
    next
      case (Inr evs)
      with Pair have "pg_LeaseOutboxForPublish w l m n s = (Inr evs, t)" by simp
      then obtain ma lt ids where
        ids: "ids = lease_candidates (db_now s) ma n (db_outbox s)" and
        t: "t = s\<lparr>db_outbox := upd_where (\<lambda>r. ob_ID r \<in> set ids) (lease_row (db_now s) w lt) (db_outbox s)\<rparr>"
        by (rule pg_lease_Inr)
      have "outbox_evolves s t"
      proof (rule evolves_upd [where new = "[]"])
        fix r assume "distinct_ids s" "r \<in> set (db_outbox s)" "ob_ID r \<in> set ids"
        then have "outbox_due (db_now s) r" using lease_candidates_due ids by blast
        then show "row_evolves (set (map ob_ID [])) r (lease_row (db_now s) w lt r)"
          by (simp add: lease_row_evolves outbox_due_def)
      qed (simp_all add: t)
      with Pair show ?thesis by simp
    qed
  qed
qed

text \<open>Marking is safe right after the acknowledgement.\<close>

lemma mark_after_sent:
  assumes "ob_ID ev = i" "ww_sent w1 = ev # ww_sent w" "db_outbox w1 = db_outbox w"
    and "pg_MarkOutboxPublished i w1 = (r, w2)"
  shows "outbox_evolves w w2"
proof (rule evolves_upd [where new = "[ev]"])
  show "ww_sent w2 = [ev] @ ww_sent w"
    "db_outbox w2 = upd_where (\<lambda>r. ob_ID r = i \<and> ob_PublishedAt r = None) (publish_row (db_now w1)) (db_outbox w)"
    using assms(2-4) by (auto simp: pg_MarkOutboxPublished_def)
qed (use assms(1) publish_row_evolves in auto)

lemma commerce_event_ID [simp]: "ob_ID (commerceOutboxFromReliability e) = ob_ID e"
  by (simp add: commerceOutboxFromReliability_def rel_outbox_event.defs)

lemma evolves_log:
  "ww_sent w' = ww_sent w \<Longrightarrow> db_outbox w' = db_outbox w \<Longrightarrow> outbox_evolves w w'"
  by (simp add: outbox_evolves_def list.rel_refl)

lemma broker_publish_run:
  "broker_publish pub ev w = (Inr (pub (ww_calls w) ev),
     w\<lparr>ww_calls := Suc (ww_calls w),
       ww_sent := (if pub (ww_calls w) ev = None then ev # ww_sent w else ww_sent w)\<rparr>)"
  by (simp add: broker_publish_def)

lemma moves_dispatch_failed: "moves outbox_evolves (dispatch_failed deps Now pg_outbox_repository e err)"
  unfolding dispatch_failed_def Let_def
  by (auto intro!: ox.moves_seq ox.moves_whenM ox.moves_writes moves_record_failure evolves_log)

lemma moves_dispatch_one:
  "moves outbox_evolves (dispatch_one deps Now pg_outbox_repository pg_MarkOutboxPublished d)"
  unfolding moves_def
proof
  fix w
  let ?e = "or_Event d" and ?ev = "commerceOutboxFromReliability (or_Event d)"
  show "outbox_evolves w (snd (dispatch_one deps Now pg_outbox_repository pg_MarkOutboxPublished d w))"
  proof (cases "or_ShouldRepublish d \<and> wd_OutboxPub deps \<noteq> None")
    case True
    then obtain pub where pub: "wd_OutboxPub deps = Some pub" by auto
    let ?w1 = "snd (broker_publish pub ?ev w)"
    show ?thesis
    proof (cases "pub (ww_calls w) ?ev")
      case (Some err)
      then have "outbox_evolves w ?w1" by (intro evolves_log) (simp_all add: broker_publish_run)
      moreover have "outbox_evolves ?w1 (snd (dispatch_failed deps Now pg_outbox_repository ?e err ?w1))"
        using moves_dispatch_failed by (simp add: moves_def)
      ultimately show ?thesis
        using True Some pub ox.R_trans by (simp add: dispatch_one_def bnd_run broker_publish_run)
    next
      case None
      obtain hit w2 where mark: "pg_MarkOutboxPublished (ob_ID ?e) ?w1 = (Inr hit, w2)"
        by (simp add: pg_MarkOutboxPublished_def)
      have "outbox_evolves w w2"
        by (rule mark_after_sent [where ev = ?ev]) (use None mark in \<open>simp_all add: broker_publish_run\<close>)
      moreover have "outbox_evolves w2 (snd (dispatch_sent deps Now pg_MarkOutboxPublished ?e ?w1))"
        using mark by (auto simp: dispatch_sent_def whenM_def intro!: evolves_log)
      ultimately show ?thesis
        using True None pub ox.R_trans by (simp add: dispatch_one_def bnd_run broker_publish_run)
    qed
  qed (auto simp: dispatch_one_def ox.R_refl split: option.splits)
qed

lemma moves_dispatch_all:
  "moves outbox_evolves (dispatch_all deps Now pg_outbox_repository pg_MarkOutboxPublished ds)"
  by (induction ds) (auto intro: ox.moves_Pair ox.moves_seq moves_dispatch_one)

lemma moves_plan_events: "moves outbox_evolves (plan_events pg_outbox_repository policy n lease)"
  unfolding plan_events_def
  by (auto intro!: ox.moves_case_option moves_lease simp: pg_ListUnpublished_def ox.moves_reads)

lemma moves_stats: "moves outbox_evolves (GetOutboxPipelineStats pg_outbox_repository)"
  by (simp add: pg_outbox_repository_def pg_GetOutboxPipelineStats_def ox.moves_reads)

lemma moves_plan:
  "rs_outbox svc = Some pg_outbox_repository \<Longrightarrow>
   moves outbox_evolves (PlanOutboxRepublishBatch svc Now policy n lease)"
  unfolding PlanOutboxRepublishBatch_def scan_checks_def
  by (simp del: pg_repository_ops)
    (intro ox.moves_rules moves_plan_events moves_stats)

lemma moves_tick:
  assumes "pg_wired deps"
  shows "moves outbox_evolves (OutboxDispatchTick deps Now)"
  using assms unfolding pg_wired_def OutboxDispatchTick_def
  by (auto simp: Let_def intro!: ox.moves_bnd moves_plan moves_dispatch_all)

section \<open>Attempts\<close>

text \<open>
  A row is in order if it still has attempts left while open, and has used exactly its attempts, and
  was never published, once quarantined.
\<close>

definition row_ok :: "int \<Rightarrow> outbox_event \<Rightarrow> bool" where
  "row_ok pm r \<longleftrightarrow>
     (row_open r \<longrightarrow> 0 \<le> ob_PublishAttemptCount r \<and> ob_PublishAttemptCount r < EffectiveOutboxMaxAttempts r pm)
     \<and> (ob_DeadLetteredAt r \<noteq> None \<longrightarrow>
          ob_PublishedAt r = None \<and> ob_PublishAttemptCount r = EffectiveOutboxMaxAttempts r pm)"

definition table_ok :: "int \<Rightarrow> worker_world \<Rightarrow> bool" where
  "table_ok pm w \<longleftrightarrow> distinct_ids w \<and> (\<forall>r \<in> set (db_outbox w). row_ok pm r)"

text \<open>The decisions still to be handled agree with the table.\<close>

definition matches :: "rel_outbox_event \<Rightarrow> outbox_event \<Rightarrow> bool" where
  "matches e r \<longleftrightarrow> ob_ID r = ob_ID e \<and> ob_PublishAttemptCount r = ob_PublishAttemptCount e
     \<and> ob_MaxPublishAttempts r = ob_MaxPublishAttempts e \<and> row_open r"

definition batch_ok :: "worker_world \<Rightarrow> rel_outbox_event list \<Rightarrow> bool" where
  "batch_ok w es \<longleftrightarrow> distinct (map ob_ID es) \<and> (\<forall>e \<in> set es. \<exists>r \<in> set (db_outbox w). matches e r)"

lemma fail_row_fields [simp]:
  "ob_ID (fail_row now msg rec r) = ob_ID r"
  "ob_PublishedAt (fail_row now msg rec r) = ob_PublishedAt r"
  "ob_PublishAttemptCount (fail_row now msg rec r) = ob_PublishAttemptCount r + 1"
  "ob_MaxPublishAttempts (fail_row now msg rec r) = ob_MaxPublishAttempts r"
  "ob_DeadLetteredAt (fail_row now msg rec r) =
     (if pf_DeadLettered rec then Some now else ob_DeadLetteredAt r)"
  by (simp_all add: fail_row_def)

lemma publish_row_fields [simp]:
  "ob_ID (publish_row now r) = ob_ID r" "ob_PublishedAt (publish_row now r) = Some now"
  "ob_DeadLetteredAt (publish_row now r) = ob_DeadLetteredAt r"
  by (simp_all add: publish_row_def)

lemma row_ok_fail:
  assumes "row_ok pm r" "row_open r"
    and "pf_DeadLettered rec \<longleftrightarrow>
      OutboxWillDeadLetterThisFailure (ob_PublishAttemptCount r) (EffectiveOutboxMaxAttempts r pm)"
  shows "row_ok pm (fail_row now msg rec r)"
  using assms
  by (auto simp: row_ok_def row_open_def OutboxWillDeadLetterThisFailure_def EffectiveOutboxMaxAttempts_def)

lemma row_ok_publish: "row_ok pm r \<Longrightarrow> row_open r \<Longrightarrow> row_ok pm (publish_row now r)"
  by (auto simp: row_ok_def row_open_def)

text \<open>
  One statement that rewrites the row of the event at hand keeps the table in order and leaves the
  rows of the other events alone.
\<close>

lemma table_step:
  assumes ok: "table_ok pm w" and batch: "batch_ok w (e # es)"
    and out: "db_outbox w' = upd_where (\<lambda>r. ob_ID r = ob_ID e \<and> Q r) f (db_outbox w)"
    and ids: "\<And>r. ob_ID (f r) = ob_ID r"
    and good: "\<And>r. matches e r \<Longrightarrow> row_ok pm r \<Longrightarrow> row_ok pm (f r)"
  shows "table_ok pm w' \<and> batch_ok w' es"
proof
  have the_row: "matches e r" if "r \<in> set (db_outbox w)" "ob_ID r = ob_ID e" for r
  proof -
    obtain q where q: "q \<in> set (db_outbox w)" "matches e q" using batch by (auto simp: batch_ok_def)
    then have "q = r" using that ok by (metis matches_def table_ok_def distinct_map inj_onD)
    with q show ?thesis by simp
  qed
  have "distinct_ids w'" using ok by (simp add: table_ok_def out ids_upd_where ids)
  moreover have "row_ok pm r" if "r \<in> set (db_outbox w')" for r
    using that ok the_row good unfolding out upd_where_set table_ok_def by (auto split: if_splits)
  ultimately show "table_ok pm w'" by (simp add: table_ok_def)
  have "\<exists>r \<in> set (db_outbox w'). matches e' r" if "e' \<in> set es" for e'
  proof -
    obtain r where r: "r \<in> set (db_outbox w)" "matches e' r" using batch \<open>e' \<in> set es\<close> by (auto simp: batch_ok_def)
    have "ob_ID e' \<noteq> ob_ID e" using batch that unfolding batch_ok_def by (metis distinct.simps(2) list.simps(9) imageI set_map)
    then have "ob_ID r \<noteq> ob_ID e" using r by (simp add: matches_def)
    then have "r \<in> set (db_outbox w')" unfolding out upd_where_set using r(1) by auto
    with r show ?thesis by blast
  qed
  then show "batch_ok w' es" using batch by (auto simp: batch_ok_def)
qed

lemma table_same:
  "db_outbox w' = db_outbox w \<Longrightarrow> table_ok pm w \<Longrightarrow> batch_ok w (e # es) \<Longrightarrow> table_ok pm w' \<and> batch_ok w' es"
  by (auto simp: table_ok_def batch_ok_def)

lemma dispatch_one_ok:
  assumes ok: "table_ok pm w" and batch: "batch_ok w (or_Event d # es)"
    and pm: "pm = OutboxMaxPublishAttempts (wd_Policy deps)"
    and run: "dispatch_one deps Now pg_outbox_repository pg_MarkOutboxPublished d w = (r, w')"
  shows "table_ok pm w' \<and> batch_ok w' es"
proof (cases "or_ShouldRepublish d \<and> wd_OutboxPub deps \<noteq> None")
  case True
  then obtain pub where pub: "wd_OutboxPub deps = Some pub" by auto
  let ?e = "or_Event d" and ?ev = "commerceOutboxFromReliability (or_Event d)"
  show ?thesis
  proof (cases "pub (ww_calls w) ?ev")
    case (Some err)
    let ?rec = "failure_record (wd_Policy deps) Now ?e err"
    from run True Some pub have
      out: "db_outbox w' = upd_where (\<lambda>r. ob_ID r = ob_ID ?e \<and> ob_PublishedAt r = None \<and> ob_DeadLetteredAt r = None)
        (fail_row (db_now w) (truncateOutboxPublishErrMsg (pf_ErrorMessage ?rec)) ?rec) (db_outbox w)"
      by (auto simp: dispatch_one_def bnd_run broker_publish_run dispatch_failed_def Let_def
          pg_RecordOutboxPublishFailure_def whenM_def failure_record_def split: if_splits)
    show ?thesis
    proof (rule table_step [OF ok batch out])
      fix q assume "matches ?e q" "row_ok pm q"
      then show "row_ok pm (fail_row (db_now w) (truncateOutboxPublishErrMsg (pf_ErrorMessage ?rec)) ?rec q)"
        by (intro row_ok_fail)
          (simp_all add: matches_def pm failure_record_def Let_def EffectiveOutboxMaxAttempts_def)
    qed simp
  next
    case None
    from run True None pub have
      out: "db_outbox w' = upd_where (\<lambda>r. ob_ID r = ob_ID ?e \<and> ob_PublishedAt r = None)
        (publish_row (db_now w)) (db_outbox w)"
      by (auto simp: dispatch_one_def bnd_run broker_publish_run dispatch_sent_def
          pg_MarkOutboxPublished_def whenM_def split: if_splits)
    show ?thesis
      by (rule table_step [OF ok batch out]) (simp_all add: row_ok_publish matches_def)
  qed
next
  case False
  then have "w' = w" using run by (auto simp: dispatch_one_def split: option.splits)
  then show ?thesis using table_same ok batch by blast
qed

lemma dispatch_all_ok:
  assumes "table_ok pm w" "batch_ok w (map or_Event ds)"
    and "pm = OutboxMaxPublishAttempts (wd_Policy deps)"
    and "dispatch_all deps Now pg_outbox_repository pg_MarkOutboxPublished ds w = (r, w')"
  shows "table_ok pm w'"
  using assms(1,2,4)
proof (induction ds arbitrary: w)
  case (Cons d ds)
  obtain r1 w1 where one: "dispatch_one deps Now pg_outbox_repository pg_MarkOutboxPublished d w = (r1, w1)"
    by (cases "dispatch_one deps Now pg_outbox_repository pg_MarkOutboxPublished d w")
  have w1: "table_ok pm w1" "batch_ok w1 (map or_Event ds)"
    using dispatch_one_ok [OF Cons.prems(1) _ assms(3) one] Cons.prems(2) by simp_all
  show ?case
  proof (cases r1)
    case (Inl e)
    with Cons.prems(3) one w1 show ?thesis by (simp add: seq_def bnd_run)
  next
    case (Inr u)
    with Cons.prems(3) one have "dispatch_all deps Now pg_outbox_repository pg_MarkOutboxPublished ds w1 = (r, w')"
      by (simp add: seq_def bnd_run)
    with Cons.IH w1 show ?thesis by blast
  qed
qed simp

text \<open>The plan leaves the table in order and the batch agrees with it.\<close>

lemma matches_map [simp]: "matches (mapReliabilityOutbox r) r \<longleftrightarrow> row_open r"
  by (simp add: matches_def)

lemma plan_events_ok:
  assumes ok: "table_ok pm w" and run: "plan_events pg_outbox_repository policy n lease w = (Inr evs, w')"
  shows "table_ok pm w' \<and> batch_ok w' evs"
proof -
  have d: "distinct_ids w" using ok by (simp add: table_ok_def)
  have dist: "distinct (map ob_ID evs)" "list_all row_open evs" "distinct_ids w'"
    using pg.planned_events [OF d run] by auto
  show ?thesis
  proof (cases "lease_worker lease")
    case None
    with run have w': "w' = w" and evs: "evs = map mapReliabilityOutbox (take (nat n)
        (outbox_order (filter (outbox_due (db_now w)) (db_outbox w))))"
      by (auto simp: plan_events_def pg_ListUnpublished_def)
    have "batch_ok w evs"
      unfolding batch_ok_def
    proof (intro conjI ballI)
      fix e assume "e \<in> set evs"
      then obtain r where "r \<in> set (db_outbox w)" "outbox_due (db_now w) r" "e = mapReliabilityOutbox r"
        using evs by (auto dest!: in_set_takeD)
      then show "\<exists>r \<in> set (db_outbox w). matches e r" by (intro bexI [of _ r]) (simp_all add: outbox_due_open)
    qed (use dist in simp)
    with ok w' show ?thesis by simp
  next
    case (Some wk)
    with run obtain l m where "pg_LeaseOutboxForPublish wk l m n w = (Inr evs, w')"
      by (auto simp: plan_events_def)
    then obtain ma lt ids where
      t: "w' = w\<lparr>db_outbox := upd_where (\<lambda>r. ob_ID r \<in> set ids) (lease_row (db_now w) wk lt) (db_outbox w)\<rparr>" and
      evs: "evs = map mapReliabilityOutbox (filter (\<lambda>r. ob_ID r \<in> set ids) (db_outbox w'))"
      by (rule pg_lease_Inr)
    have "row_ok pm (lease_row (db_now w) wk lt r)" if "row_ok pm r" for r
      using that by (auto simp: row_ok_def row_open_def EffectiveOutboxMaxAttempts_def)
    then have "\<forall>r \<in> set (upd_where (\<lambda>r. ob_ID r \<in> set ids) (lease_row (db_now w) wk lt) (db_outbox w)). row_ok pm r"
      using ok by (auto simp: table_ok_def upd_where_set)
    then have "table_ok pm w'" using dist(3) by (simp add: table_ok_def t)
    moreover have "batch_ok w' evs"
      using dist by (auto simp: batch_ok_def evs list_all_iff) force
    ultimately show ?thesis by blast
  qed
qed

text \<open>A plan that fails has not touched the table.\<close>

lemma pg_plan_fail_same:
  assumes "PlanOutboxRepublishBatch svc Now policy n lease w = (Inl e, u)"
    and "rs_outbox svc = Some pg_outbox_repository"
  shows "u = w"
proof (cases "scan_checks Now policy n w")
  case (Pair r t)
  have same: "t = w" using Pair by (auto simp: scan_checks_def seq_def bnd_run lift_res_def split: sum.splits)
  show ?thesis
  proof (cases r)
    case (Inl e')
    with assms(1) Pair same show ?thesis by (simp add: PlanOutboxRepublishBatch_def seq_def bnd_run)
  next
    case (Inr x)
    then have "Now \<noteq> 0" "ValidateRecoveryPolicy policy = Inr ()" "0 < n"
      using Pair by (simp_all add: scan_checks_Inr)
    with pg_plan_succeeds [OF assms(2), of Now policy n lease w] assms(1) show ?thesis by auto
  qed
qed

lemma tick_ok:
  assumes ok: "table_ok (OutboxMaxPublishAttempts (wd_Policy deps)) w" and wired: "pg_wired deps"
    and run: "OutboxDispatchTick deps Now w = (r, w')"
  shows "table_ok (OutboxMaxPublishAttempts (wd_Policy deps)) w'"
proof -
  let ?pm = "OutboxMaxPublishAttempts (wd_Policy deps)"
  obtain svc where svc: "wd_Reliability deps = Some svc" "rs_outbox svc = Some pg_outbox_repository"
    using wired by (auto simp: pg_wired_def)
  define lim where "lim = (if wd_OutboxBatchMaxItems deps > 0 then wd_OutboxBatchMaxItems deps else wd_MaxItems deps)"
  have tick: "bnd (PlanOutboxRepublishBatch svc Now (wd_Policy deps) lim (wd_OutboxLease deps))
      (\<lambda>plan. dispatch_all deps Now pg_outbox_repository pg_MarkOutboxPublished (rp_Decisions plan)) w = (r, w')"
    using run wired svc by (auto simp: OutboxDispatchTick_def pg_wired_def Let_def lim_def)
  show ?thesis
  proof (cases "PlanOutboxRepublishBatch svc Now (wd_Policy deps) lim (wd_OutboxLease deps) w")
    case (Pair pr u)
    show ?thesis
    proof (cases pr)
      case (Inr plan)
      with Pair svc obtain p u0 evs where
        st: "GetOutboxPipelineStats pg_outbox_repository w = (Inr p, u0)" and
        ev: "plan_events pg_outbox_repository (wd_Policy deps) lim (wd_OutboxLease deps) u0 = (Inr evs, u)" and
        plan: "map or_Event (rp_Decisions plan) = evs"
        by (auto simp: plan_Inr comp_def)
      have "u0 = w" using pg_stats_run [of w] st by auto
      then have "table_ok ?pm u \<and> batch_ok u (map or_Event (rp_Decisions plan))"
        using plan_events_ok [OF ok] ev plan by simp
      then show ?thesis
        using tick Pair Inr dispatch_all_ok [of ?pm u "rp_Decisions plan" deps Now r w'] by simp
    next
      case (Inl e)
      have "w' = u" using tick Pair Inl by simp
      moreover have "u = w"
        using Pair Inl svc pg_plan_fail_same by metis
      ultimately show ?thesis using ok by simp
    qed
  qed
qed

section \<open>Sequences of ticks\<close>

text \<open>
  The life of the table under one recovery policy: rows are enqueued with a fresh identifier and no
  attempt made, the database clock advances, and a worker runs a tick, with any broker, batch size,
  lease and clock of its own.
\<close>

definition fresh_row :: "worker_world \<Rightarrow> outbox_event \<Rightarrow> bool" where
  "fresh_row w ev \<longleftrightarrow> ob_ID ev \<notin> set (map ob_ID (db_outbox w)) \<and> row_open ev \<and> ob_PublishAttemptCount ev = 0"

inductive outbox_reach :: "recovery_policy \<Rightarrow> worker_world \<Rightarrow> bool" for policy where
  start: "db_outbox w = [] \<Longrightarrow> outbox_reach policy w"
| enqueue: "outbox_reach policy w \<Longrightarrow> fresh_row w ev \<Longrightarrow>
    outbox_reach policy (w\<lparr>db_outbox := db_outbox w @ [ev]\<rparr>)"
| clock: "outbox_reach policy w \<Longrightarrow> db_now w \<le> t \<Longrightarrow> outbox_reach policy (w\<lparr>db_now := t\<rparr>)"
| tick: "outbox_reach policy w \<Longrightarrow> pg_wired deps \<Longrightarrow> wd_Policy deps = policy \<Longrightarrow>
    OutboxDispatchTick deps Now w = (r, w') \<Longrightarrow> outbox_reach policy w'"

lemma outbox_reach_ok:
  assumes "outbox_reach policy w" "0 < OutboxMaxPublishAttempts policy"
  shows "table_ok (OutboxMaxPublishAttempts policy) w"
  using assms(1)
proof induction
  case (enqueue w ev)
  then show ?case
    using assms(2)
    by (auto simp: table_ok_def fresh_row_def row_ok_def row_open_def EffectiveOutboxMaxAttempts_def)
next
  case (tick w deps Now r w')
  then show ?case using tick_ok by blast
qed (auto simp: table_ok_def)

section \<open>Progress\<close>

lemma publish_row_absorb:
  "upd_where (\<lambda>r. ob_ID r \<in> B \<and> ob_PublishedAt r = None) (publish_row now)
     (upd_where (\<lambda>r. ob_ID r \<in> A \<and> ob_PublishedAt r = None) (publish_row now) rows) =
   upd_where (\<lambda>r. ob_ID r \<in> A \<union> B \<and> ob_PublishedAt r = None) (publish_row now) rows"
  by (induction rows) auto

lemma dispatch_all_acked:
  assumes "wd_OutboxPub deps = Some pub" "\<And>n ev. pub n ev = None"
  shows "\<exists>w'. dispatch_all deps Now pg_outbox_repository pg_MarkOutboxPublished ds w = (Inr (), w')
    \<and> db_now w' = db_now w
    \<and> db_outbox w' = upd_where (\<lambda>r. ob_ID r \<in> {ob_ID (or_Event d) |d. d \<in> set ds \<and> or_ShouldRepublish d}
        \<and> ob_PublishedAt r = None) (publish_row (db_now w)) (db_outbox w)"
proof (induction ds arbitrary: w)
  case Nil
  show ?case by (simp add: upd_where_id)
next
  case (Cons d ds)
  let ?S = "\<lambda>ds. {ob_ID (or_Event d) |d. d \<in> set ds \<and> or_ShouldRepublish d}"
  have "\<exists>w1. dispatch_one deps Now pg_outbox_repository pg_MarkOutboxPublished d w = (Inr (), w1)
      \<and> db_now w1 = db_now w \<and> db_outbox w1 = upd_where (\<lambda>r. ob_ID r \<in> ?S [d] \<and> ob_PublishedAt r = None)
          (publish_row (db_now w)) (db_outbox w)"
    using assms
    by (auto simp: dispatch_one_def bnd_run broker_publish_run dispatch_sent_def pg_MarkOutboxPublished_def
        whenM_def upd_where_id)
  then obtain w1 where w1: "dispatch_one deps Now pg_outbox_repository pg_MarkOutboxPublished d w = (Inr (), w1)"
      "db_now w1 = db_now w" "db_outbox w1 = upd_where (\<lambda>r. ob_ID r \<in> ?S [d] \<and> ob_PublishedAt r = None)
          (publish_row (db_now w)) (db_outbox w)" by blast
  from Cons.IH [of w1] obtain w' where w': "dispatch_all deps Now pg_outbox_repository pg_MarkOutboxPublished ds w1 = (Inr (), w')"
      "db_now w' = db_now w1" "db_outbox w' = upd_where (\<lambda>r. ob_ID r \<in> ?S ds \<and> ob_PublishedAt r = None)
          (publish_row (db_now w1)) (db_outbox w1)" by blast
  have "?S (d # ds) = ?S [d] \<union> ?S ds" by auto
  then have "db_outbox w' = upd_where (\<lambda>r. ob_ID r \<in> ?S (d # ds) \<and> ob_PublishedAt r = None)
      (publish_row (db_now w)) (db_outbox w)"
    unfolding w'(3) w1(2,3) by (simp only: publish_row_absorb)
  moreover have "dispatch_all deps Now pg_outbox_repository pg_MarkOutboxPublished (d # ds) w = (Inr (), w')"
    using w1(1) w'(1) by (simp add: seq_def)
  ultimately show ?case using w1(2) w'(2) by auto
qed

text \<open>A row that is due and old enough is chosen when nobody holds a lease.\<close>

lemma due_row_chosen:
  assumes "outbox_due Now r" "OutboxMinAge policy \<le> time_Sub Now (ob_CreatedAt r)"
  shows "or_ShouldRepublish (DecideOutboxReplay Now policy (mapReliabilityOutbox r))"
proof -
  have "EqualFold ''pending'' ''publishing'' = False" "EqualFold ''failed'' ''publishing'' = False"
    by code_simp+
  then show ?thesis
    using assms
    by (auto simp: DecideOutboxReplay_def outbox_due_def mapReliabilityOutbox_def rel_outbox_event.defs Let_def
        split: option.splits)
qed

section \<open>Properties\<close>


text \<open>
  over any sequence of enqueued rows, clock advances and ticks, a row that is still open has
  attempts left, and a quarantined row was refused exactly as often as its limit allows and was
  never published.
\<close>

theorem outbox_quarantine_after_max_attempts:
  assumes "outbox_reach policy w" "0 < OutboxMaxPublishAttempts policy" "r \<in> set (db_outbox w)"
  shows "(row_open r \<longrightarrow> ob_PublishAttemptCount r < EffectiveOutboxMaxAttempts r (OutboxMaxPublishAttempts policy))
    \<and> (ob_DeadLetteredAt r \<noteq> None \<longrightarrow> ob_PublishedAt r = None
         \<and> ob_PublishAttemptCount r = EffectiveOutboxMaxAttempts r (OutboxMaxPublishAttempts policy))"
  using outbox_reach_ok [OF assms(1,2)] assms(3) by (auto simp: table_ok_def row_ok_def)


section \<open>Witnesses\<close>

definition sample_deps :: "broker \<Rightarrow> worker_deps" where
  "sample_deps pub =
     \<lparr>wd_Reliability = Some \<lparr>rs_payments = None, rs_commands = None, rs_vends = None,
        rs_outbox = Some pg_outbox_repository\<rparr>,
      wd_Policy = DefaultRecoveryPolicy, wd_MaxItems = 10, wd_OutboxBatchMaxItems = 0,
      wd_OutboxList = Some pg_outbox_repository, wd_OutboxMark = Some pg_MarkOutboxPublished,
      wd_OutboxPub = Some pub, wd_OutboxDeadLetter = True, wd_OnOutboxPublishedMirror = True,
      wd_OutboxLease = None\<rparr>"

definition sample_world :: worker_world where
  "sample_world = \<lparr>db_now = 200 * nanos_Minute, db_outbox = [commerceOutboxFromReliability sample_row],
     ww_calls = 0, ww_sent = [], ww_dlq = [], ww_mirrored = []\<rparr>"

lemma sample_wired: "pg_wired (sample_deps pub)"
  by (simp add: pg_wired_def sample_deps_def)

lemma sample_event_fields:
  "ob_ID sample_row = 1"
  "row_open (commerceOutboxFromReliability sample_row)"
  "ob_PublishAttemptCount (commerceOutboxFromReliability sample_row) = 0"
  "ob_CreatedAt (commerceOutboxFromReliability sample_row) = 10"
  "outbox_due now (commerceOutboxFromReliability sample_row)"
  by (simp_all add: commerceOutboxFromReliability_def sample_row_def rel_outbox_event.defs
      outbox_event.defs row_open_def outbox_due_def)



lemma sample_reach: "outbox_reach DefaultRecoveryPolicy sample_world"
proof -
  have "outbox_reach DefaultRecoveryPolicy (sample_world\<lparr>db_outbox := []\<rparr>)" by (rule start) simp
  then have "outbox_reach DefaultRecoveryPolicy
      (sample_world\<lparr>db_outbox := [] @ [commerceOutboxFromReliability sample_row]\<rparr>)"
    using enqueue [of _ "sample_world\<lparr>db_outbox := []\<rparr>" "commerceOutboxFromReliability sample_row"]
    by (simp add: fresh_row_def sample_event_fields)
  then show ?thesis by (simp add: sample_world_def)
qed

theorem outbox_quarantine_after_max_attempts_witness:
  "ob_PublishAttemptCount (commerceOutboxFromReliability sample_row) <
     EffectiveOutboxMaxAttempts (commerceOutboxFromReliability sample_row) 24"
  using outbox_quarantine_after_max_attempts [OF sample_reach, of "commerceOutboxFromReliability sample_row"]
  by (simp add: DefaultRecoveryPolicy_def sample_world_def sample_event_fields)

end
