(* ===== verification/Pricing_Tables.thy ===== *)
theory Pricing_Tables
  imports Commerce_Types
begin

text \<open>
  The tables that price a sale (\<open>internal/gen/db/models.go\<close>): price books, machine price overrides, promotions
  with their rules and targets, products and their tags, assortments and their bindings, and the layouts
  that machines report. They are one part of the database, \<open>catalog\<close>.
\<close>

record promotion =
  pm_ID :: uuid
  pm_Name :: string
  pm_ApprovalStatus :: string
  pm_LifecycleStatus :: string
  pm_Priority :: int
  pm_Stackable :: bool
  pm_StartsAt :: time
  pm_EndsAt :: time

text \<open>
  A field of a rule's JSON payload: an integer literal, a decimal \<open>m / 10^k\<close> written with a fraction, or a value
  that is no number.
\<close>

datatype jfield = Absent | IntLit int | DecLit int nat | NoNumber

record rule_payload =
  pl_Object :: bool
  pl_Percent :: jfield
  pl_AmountMinor :: jfield
  pl_MaxDiscountMinor :: jfield

record promotion_rule =
  ru_ID :: uuid
  ru_PromotionID :: uuid
  ru_RuleType :: string
  ru_Payload :: rule_payload
  ru_Priority :: int

record promotion_target =
  tg_PromotionID :: uuid
  tg_TargetType :: string
  tg_ProductID :: "uuid option"
  tg_CategoryID :: "uuid option"
  tg_MachineID :: "uuid option"
  tg_SiteID :: "uuid option"
  tg_TagID :: "uuid option"
  tg_CreatedAt :: time

record price_override =
  ox_MachineID :: uuid
  ox_ProductID :: uuid
  ox_UnitPriceMinor :: int
  ox_Currency :: string
  ox_ValidFrom :: time
  ox_ValidTo :: "time option"

record price_book =
  pb_Currency :: string
  pb_IsDefault :: bool
  pb_Level :: string
  pb_SiteID :: "uuid option"
  pb_MachineID :: "uuid option"
  pb_EffectiveFrom :: time
  pb_EffectiveTo :: "time option"
  pb_Priority :: int

record product_row =
  pd_ID :: uuid
  pd_Name :: string
  pd_CategoryID :: "uuid option"

record assortment =
  as_ID :: uuid
  as_Status :: string

record assortment_binding =
  ab_MachineID :: uuid
  ab_AssortmentID :: uuid
  ab_IsPrimary :: bool
  ab_ValidFrom :: time
  ab_ValidTo :: "time option"

record assortment_item =
  ai_AssortmentID :: uuid
  ai_ProductID :: uuid
  ai_SortOrder :: int

text \<open>A slot of the layout a machine has reported, and whether the reported text was JSON at all.\<close>

record mirror_slot_price =
  ms_SlotCode :: string
  ms_ProductID :: string
  ms_PriceMinor :: int
  ms_LocalPricingRevision :: int

record local_layout_mirror =
  lm_Revision :: int
  lm_Slots :: "mirror_slot_price list option"

record catalog =
  ct_sites :: "(uuid \<times> uuid) list"
  ct_price_books :: "price_book list"
  ct_overrides :: "price_override list"
  ct_promotions :: "promotion list"
  ct_rules :: "promotion_rule list"
  ct_targets :: "promotion_target list"
  ct_products :: "product_row list"
  ct_product_tags :: "(uuid \<times> uuid) list"
  ct_assortments :: "assortment list"
  ct_bindings :: "assortment_binding list"
  ct_items :: "assortment_item list"
  ct_mirrors :: "(uuid \<times> local_layout_mirror) list"

end
