(* ===== verification/Commerce_Store.thy ===== *)
theory Commerce_Store
  imports Commerce_Rules Outbox_Pipeline Pricing_Tables
begin

text \<open>
  The database as the commerce code sees it, and the lifecycle part of the store:
  \<open>internal/modules/postgres/commerce_lifecycle.go\<close> and \<open>financial_correctness.go\<close> over the
  statements of \<open>db/queries/commerce.sql\<close>, \<open>checkout_quotes.sql\<close>, \<open>commerce_vend_evidence.sql\<close>,
  \<open>financial_correctness.sql\<close> and \<open>payment_reconciliation.sql\<close>.

  A table is the list of its rows. \<open>SELECT\<close> for one row gives \<open>ErrNoRows\<close> when none matches,
  \<open>UPDATE ... RETURNING\<close> rewrites every matching row and returns the first, \<open>INSERT\<close> appends a row
  unless a unique index forbids it. Identifiers that the database generates come from a stream in
  the state, \<open>now()\<close> is a field of it. A transaction is \<open>tx\<close>. A statement that fails inside a
  transaction with anything but no rows makes every later statement and the commit fail, which is
  what \<open>unless_aborted\<close> expresses for errors that the Go code ignores. Lost connections and
  serialization failures are not modelled.
\<close>

section \<open>Rows\<close>

record vend_row = vend_session +
  vr_LineSequence :: int
  vr_FailureReason :: "string option"
  vr_CorrelationID :: "uuid option"
  vr_StartedAt :: "time option"
  vr_CompletedAt :: "time option"
  vr_VerificationStatus :: string

record payment_attempt = payment_attempt_view +
  at_ProviderReference :: "string option"
  at_Payload :: json

record provider_event =
  pe_ID :: int
  pe_PaymentID :: "uuid option"
  pe_Provider :: string
  pe_ProviderRef :: "string option"
  pe_WebhookEventID :: "string option"
  pe_ProviderAmountMinor :: "int option"
  pe_Currency :: "string option"
  pe_EventType :: string
  pe_Payload :: json
  pe_ValidationStatus :: string
  pe_ProviderMetadata :: json
  pe_SignatureValid :: bool
  pe_AppliedAt :: "time option"
  pe_IngressStatus :: string

record order_timeline =
  tl_OrderID :: uuid
  tl_EventType :: string
  tl_ActorType :: string
  tl_Payload :: json
  tl_OccurredAt :: time

record ledger_entry =
  le_EntryType :: string
  le_SignedAmountMinor :: int
  le_Currency :: string
  le_OccurredAt :: time
  le_MachineID :: "uuid option"
  le_OrderID :: "uuid option"
  le_PaymentID :: "uuid option"
  le_CorrelationID :: "uuid option"
  le_Metadata :: json

record evidence_row =
  er_OrderID :: uuid
  er_VendSessionID :: uuid
  er_MachineID :: uuid
  er_SlotIndex :: int
  er_VendAttemptID :: uuid
  er_CorrelationID :: uuid
  er_CommandID :: string
  er_EvidenceDigest :: string
  er_Raw :: vend_hardware_evidence
  er_DedupeKey :: string

record recon_case = reconciliation_case_input +
  rk_ID :: uuid
  rk_Status :: string
  rk_FirstDetectedAt :: time
  rk_LastDetectedAt :: time

record inventory_event =
  ie_MachineID :: uuid
  ie_SlotCode :: string
  ie_ProductID :: uuid
  ie_EventType :: string
  ie_QuantityDelta :: int
  ie_QuantityAfter :: int
  ie_CorrelationID :: "uuid option"
  ie_OccurredAt :: time
  ie_IdempotencyKey :: "string option"
  ie_Source :: string
  ie_OrderID :: uuid

record slot_state =
  ss_MachineID :: uuid
  ss_PlanogramID :: uuid
  ss_SlotIndex :: int
  ss_CurrentQuantity :: int
  ss_PriceMinor :: int
  ss_PlanogramRevisionApplied :: int

record slot_config =
  sc_ID :: uuid
  sc_MachineID :: uuid
  sc_CabinetCode :: string
  sc_CabinetOrder :: int
  sc_SlotCode :: string
  sc_SlotIndex :: "int option"
  sc_ProductID :: "uuid option"
  sc_MaxQuantity :: int
  sc_PriceMinor :: int
  sc_IsCurrent :: bool

record planogram_slot =
  ps_PlanogramID :: uuid
  ps_SlotIndex :: int
  ps_ProductID :: "uuid option"
  ps_MaxQuantity :: int

record published_slot =
  pp_MachineID :: uuid
  pp_SlotCode :: string
  pp_ProductID :: "uuid option"
  pp_MaxQuantity :: int
  pp_PriceMinor :: int

record audit_event =
  ae_Action :: string
  ae_ResourceID :: string
  ae_MachineID :: "uuid option"
  ae_Metadata :: json

record cash_acceptance =
  ca_MachineID :: uuid
  ca_OrderID :: "uuid option"
  ca_DeviceEventID :: string
  ca_DenominationMinor :: int
  ca_CreditSource :: string
  ca_Currency :: string
  ca_AcceptedAt :: time
  ca_BootID :: "string option"
  ca_OccurredAtDevice :: time
  ca_RawMetadata :: json

record cash_allocation =
  cl_ID :: uuid
  cl_OrderID :: uuid
  cl_PaymentID :: uuid
  cl_MachineID :: uuid
  cl_AmountMinor :: int
  cl_PreOrderCreditMinor :: int
  cl_PostOrderInsertedMinor :: int
  cl_ConsentSource :: string
  cl_ConsentedAt :: "time option"
  cl_Currency :: string
  cl_IdempotencyKey :: "string option"
  cl_CreatedAt :: time

record cash_change =
  cc_ID :: uuid
  cc_OrderID :: uuid
  cc_PaymentID :: uuid
  cc_MachineID :: uuid
  cc_ChangeDueMinor :: int
  cc_ChangeDispensedMinor :: int
  cc_Outcome :: string
  cc_LiabilityMinor :: int
  cc_Currency :: string
  cc_IdempotencyKey :: "string option"
  cc_CreatedAt :: time

record cash_payout =
  cp_MachineID :: uuid
  cp_OrderID :: "uuid option"
  cp_WithdrawalID :: string
  cp_NoteSequence :: int
  cp_EventType :: string
  cp_DeviceEventID :: string
  cp_DenominationMinor :: int
  cp_AmountMinor :: int
  cp_RecyclerCountBefore :: "int option"
  cp_RecyclerCountAfter :: "int option"
  cp_OutcomeFinality :: string
  cp_Currency :: string
  cp_OccurredAtDevice :: time
  cp_RawMetadata :: json

record cash_lifecycle =
  cy_MachineID :: uuid
  cy_OrderID :: "uuid option"
  cy_DeviceEventID :: string
  cy_LifecycleType :: string
  cy_DenominationMinor :: int
  cy_RawRecordHex :: string
  cy_Currency :: string
  cy_OccurredAtDevice :: time
  cy_RawMetadata :: json

record cash_observation =
  cv_MachineID :: uuid
  cv_DeviceEventID :: string
  cv_ObservedAtDevice :: time
  cv_RecyclerDenominationMinor :: int
  cv_RecyclerCount :: int
  cv_CashboxCount :: "int option"
  cv_Source :: string
  cv_Currency :: string
  cv_RawMetadata :: json

record cash_adjustment =
  cj_ID :: uuid
  cj_MachineID :: uuid
  cj_AmountMinor :: int
  cj_Bucket :: string
  cj_Reason :: string
  cj_OperatorAccountID :: "uuid option"
  cj_IdempotencyKey :: string
  cj_Currency :: string
  cj_Metadata :: json
  cj_CreatedAt :: time

record checkout_quote =
  qt_ID :: uuid
  qt_MachineID :: uuid
  qt_Currency :: string
  qt_PaymentMethod :: string
  qt_SubtotalMinor :: int
  qt_DiscountMinor :: int
  qt_PayableMinor :: int
  qt_State :: string
  qt_IdempotencyKey :: "string option"
  qt_ExpiresAt :: time
  qt_PricingSource :: string
  qt_MachinePricingRevision :: "int option"
  qt_MachinePricingSnapshot :: raw
  qt_ServerReferencePayableMinor :: "int option"
  qt_CreatedAt :: time

record checkout_quote_line =
  ql_ID :: uuid
  ql_QuoteID :: uuid
  ql_LineSequence :: int
  ql_ProductID :: uuid
  ql_SlotConfigID :: "uuid option"
  ql_CabinetCode :: string
  ql_SlotCode :: string
  ql_SlotIndex :: int
  ql_Quantity :: int
  ql_UnitPriceMinor :: int
  ql_LineSubtotalMinor :: int
  ql_PricingFingerprint :: string
  ql_MachineUnitPriceMinor :: "int option"
  ql_ServerReferenceUnitPriceMinor :: "int option"

section \<open>The database\<close>

text \<open>
  The clock and the outbox table come from \<open>outbox_db\<close>. Slot configurations are kept in the order
  in which they are listed (cabinet, slot code); a machine's active grid and published planogram
  are tables from machines.
\<close>

record db = outbox_db +
  db_uuids :: "nat \<Rightarrow> uuid"
  db_uuid_next :: nat
  db_serial :: int
  db_orders :: "order list"
  db_vends :: "vend_row list"
  db_payments :: "payment list"
  db_attempts :: "payment_attempt list"
  db_refunds :: "refund_row list"
  db_provider_events :: "provider_event list"
  db_timelines :: "order_timeline list"
  db_ledger :: "ledger_entry list"
  db_evidence :: "evidence_row list"
  db_cases :: "recon_case list"
  db_audit :: "audit_event list"
  db_machines :: "uuid list"
  db_grid_cols :: "(uuid \<times> int) list"
  db_inventory :: "inventory_event list"
  db_slots :: "slot_state list"
  db_slot_configs :: "slot_config list"
  db_planogram_slots :: "planogram_slot list"
  db_published_slots :: "published_slot list"
  db_published_planogram :: "uuid option"
  db_acceptances :: "cash_acceptance list"
  db_allocations :: "cash_allocation list"
  db_changes :: "cash_change list"
  db_payouts :: "cash_payout list"
  db_lifecycle :: "cash_lifecycle list"
  db_observations :: "cash_observation list"
  db_adjustments :: "cash_adjustment list"
  db_quotes :: "checkout_quote list"
  db_quote_lines :: "checkout_quote_line list"
  db_catalog :: catalog

type_synonym 'a q = "(db, 'a) io"

subsection \<open>Statement forms\<close>

definition select_one :: "(db \<Rightarrow> 'r list) \<Rightarrow> ('r \<Rightarrow> bool) \<Rightarrow> 'r q" where
  "select_one tbl P = (\<lambda>s. case find P (tbl s) of None \<Rightarrow> (Inl (Err ErrNoRows), s) | Some r \<Rightarrow> (Inr r, s))"

definition select_all :: "(db \<Rightarrow> 'r list) \<Rightarrow> ('r \<Rightarrow> bool) \<Rightarrow> 'r list q" where
  "select_all tbl P = reads (\<lambda>s. filter P (tbl s))"

text \<open>\<open>UPDATE ... WHERE ... RETURNING\<close>, with the new row depending on \<open>now()\<close>.\<close>

definition update_one :: "(db \<Rightarrow> 'r list) \<Rightarrow> ('r list \<Rightarrow> db \<Rightarrow> db) \<Rightarrow> ('r \<Rightarrow> bool) \<Rightarrow> (time \<Rightarrow> 'r \<Rightarrow> 'r) \<Rightarrow> 'r q" where
  "update_one tbl set_tbl P f =
     (\<lambda>s. case find P (tbl s) of
            None \<Rightarrow> (Inl (Err ErrNoRows), s)
          | Some r \<Rightarrow> (Inr (f (db_now s) r), set_tbl (upd_where P (f (db_now s)) (tbl s)) s))"

definition gen_uuid :: "uuid q" where
  "gen_uuid = (\<lambda>s. (Inr (db_uuids s (db_uuid_next s)), s\<lparr>db_uuid_next := Suc (db_uuid_next s)\<rparr>))"

definition next_serial :: "int q" where
  "next_serial = (\<lambda>s. (Inr (db_serial s + 1), s\<lparr>db_serial := db_serial s + 1\<rparr>))"

text \<open>A query of the Go code that turns no rows into another error.\<close>

definition no_rows_as :: "err_kind \<Rightarrow> 'a q \<Rightarrow> 'a q" where
  "no_rows_as k m =
     (\<lambda>s. case m s of
            (Inl e, t) \<Rightarrow> (Inl (if errors_Is e ErrNoRows then Err k else e), t)
          | (Inr x, t) \<Rightarrow> (Inr x, t))"

text \<open>A query inside a transaction whose failure the Go code tolerates.\<close>

definition unless_aborted :: "'a q \<Rightarrow> 'a option q" where
  "unless_aborted m =
     (\<lambda>s. case m s of
            (Inl e, t) \<Rightarrow> if errors_Is e ErrNoRows then (Inr None, t)
                       else (Inl (GoErr ErrOther ''current transaction is aborted''), t)
          | (Inr x, t) \<Rightarrow> (Inr (Some x), t))"

subsection \<open>What the statement forms keep\<close>

named_theorems keeps_intros \<open>which projections of the state a statement leaves alone\<close>

lemma select_one_run:
  "select_one tbl P s = (r, t) \<longleftrightarrow>
     t = s \<and> r = (case find P (tbl s) of None \<Rightarrow> Inl (Err ErrNoRows) | Some x \<Rightarrow> Inr x)"
  by (auto simp: select_one_def split: option.splits)

lemma select_one_Inr [io_inv]: "select_one tbl P s = (Inr r, t) \<longleftrightarrow> t = s \<and> find P (tbl s) = Some r"
  by (auto simp: select_one_run split: option.splits)

lemma update_one_Inr [io_inv]:
  "update_one tbl set_tbl P f s = (Inr r, t) \<longleftrightarrow>
     (\<exists>q. find P (tbl s) = Some q \<and> r = f (db_now s) q \<and> t = set_tbl (upd_where P (f (db_now s)) (tbl s)) s)"
  by (auto simp: update_one_def split: option.splits)

lemma no_rows_as_Inr [io_inv]: "no_rows_as k m s = (Inr r, t) \<longleftrightarrow> m s = (Inr r, t)"
  by (auto simp: no_rows_as_def split: prod.splits sum.splits)

lemma read_only_select_one: "read_only (select_one tbl P)"
  by (simp add: moves_def select_one_def split: option.splits)

lemma keeps_select_one [keeps_intros]: "keeps f (select_one tbl P)"
  by (rule read_only_keeps [OF read_only_select_one])

lemma keeps_select_all [keeps_intros]: "keeps f (select_all tbl P)"
  by (simp add: moves_def select_all_def)

lemma keeps_update_one [keeps_intros]:
  "(\<And>rows s. f (set_tbl rows s) = f s) \<Longrightarrow> keeps f (update_one tbl set_tbl P g)"
  by (simp add: moves_def update_one_def split: option.splits)

lemma keeps_gen_uuid [keeps_intros]: "(\<And>n s. f (s\<lparr>db_uuid_next := n\<rparr>) = f s) \<Longrightarrow> keeps f gen_uuid"
  by (simp add: moves_def gen_uuid_def)

lemma keeps_next_serial [keeps_intros]: "(\<And>n s. f (s\<lparr>db_serial := n\<rparr>) = f s) \<Longrightarrow> keeps f next_serial"
  by (simp add: moves_def next_serial_def)

lemma moves_no_rows_as: "moves R m \<Longrightarrow> moves R (no_rows_as k m)"
  by (auto simp: moves_def no_rows_as_def split: prod.splits sum.splits) (metis snd_conv)+

lemma moves_unless_aborted: "moves R m \<Longrightarrow> moves R (unless_aborted m)"
  by (auto simp: moves_def unless_aborted_def split: prod.splits sum.splits) (metis snd_conv)+

lemmas [keeps_intros] = kept.moves_ret kept.moves_Pair kept.moves_raise kept.moves_reads
  kept.moves_guard kept.moves_lift_res kept.moves_bnd kept.moves_seq kept.moves_whenM
  kept.moves_attempt kept.moves_tx kept.moves_if kept.moves_case_option kept.moves_case_sum
  keeps_writes moves_no_rows_as moves_unless_aborted

section \<open>Orders\<close>

definition set_orders :: "order list \<Rightarrow> db \<Rightarrow> db" where
  "set_orders rows s = s\<lparr>db_orders := rows\<rparr>"

definition q_GetOrderByID :: "uuid \<Rightarrow> order q" where
  "q_GetOrderByID i = select_one db_orders (\<lambda>r. o_ID r = i)"

definition status_row :: "string \<Rightarrow> time \<Rightarrow> order \<Rightarrow> order" where
  "status_row st now r = r\<lparr>o_Status := st, o_UpdatedAt := now\<rparr>"

definition q_UpdateOrderStatusByOrg :: "string \<Rightarrow> uuid \<Rightarrow> order q" where
  "q_UpdateOrderStatusByOrg status i =
     update_one db_orders set_orders (\<lambda>r. o_ID r = i) (status_row status)"

definition claim_row :: "uuid \<Rightarrow> time \<Rightarrow> order \<Rightarrow> order" where
  "claim_row pid now r =
     r\<lparr>o_WinningPaymentID := Some pid, o_WinningClaimedAt := Some now,
       o_Status := (if o_Status r = ''created'' \<or> o_Status r = ''quoted'' then ''paid'' else o_Status r),
       o_UpdatedAt := now\<rparr>"

text \<open>A payment wins at most one order (\<open>ux_orders_winning_payment_id\<close>).\<close>

definition q_ClaimWinningPayment :: "uuid \<Rightarrow> uuid \<Rightarrow> order q" where
  "q_ClaimWinningPayment pid oid =
     bnd (reads (\<lambda>s. list_ex (\<lambda>r. o_ID r = oid \<and> o_WinningPaymentID r = None) (db_orders s)
                  \<and> list_ex (\<lambda>r. o_WinningPaymentID r = Some pid) (db_orders s))) (\<lambda>clash.
       if clash then raise (Err ErrUniqueViolation)
       else update_one db_orders set_orders (\<lambda>r. o_ID r = oid \<and> o_WinningPaymentID r = None) (claim_row pid))"

section \<open>Vend sessions\<close>

definition set_vends :: "vend_row list \<Rightarrow> db \<Rightarrow> db" where
  "set_vends rows s = s\<lparr>db_vends := rows\<rparr>"

definition mapVend :: "vend_row \<Rightarrow> vend_session" where
  "mapVend row = vend_session.truncate row"

definition q_GetVendSessionByOrderAndSlot :: "uuid \<Rightarrow> int \<Rightarrow> vend_row q" where
  "q_GetVendSessionByOrderAndSlot oid slot =
     select_one db_vends (\<lambda>v. v_OrderID v = oid \<and> v_SlotIndex v = slot)"

definition q_GetVendSessionByOrderAndLineSequence :: "uuid \<Rightarrow> int \<Rightarrow> vend_row q" where
  "q_GetVendSessionByOrderAndLineSequence oid line =
     select_one db_vends (\<lambda>v. v_OrderID v = oid \<and> vr_LineSequence v = line)"

definition q_ListVendSessionsByOrder :: "uuid \<Rightarrow> vend_row list q" where
  "q_ListVendSessionsByOrder oid =
     reads (\<lambda>s. sort_key vr_LineSequence (filter (\<lambda>v. v_OrderID v = oid) (db_vends s)))"

definition vend_state_row :: "string \<Rightarrow> string option \<Rightarrow> time \<Rightarrow> vend_row \<Rightarrow> vend_row" where
  "vend_state_row st fr now v =
     v\<lparr>v_State := st, vr_FailureReason := fr,
       vr_CompletedAt := (if st = ''success'' \<or> st = ''failed'' then Some now else vr_CompletedAt v),
       vr_StartedAt := (if st = ''in_progress'' \<and> vr_StartedAt v = None then Some now else vr_StartedAt v)\<rparr>"

definition q_UpdateVendSessionStateByOrderSlot :: "string \<Rightarrow> string option \<Rightarrow> uuid \<Rightarrow> int \<Rightarrow> vend_row q" where
  "q_UpdateVendSessionStateByOrderSlot st fr oid slot =
     update_one db_vends set_vends (\<lambda>v. v_OrderID v = oid \<and> v_SlotIndex v = slot) (vend_state_row st fr)"

definition q_UpdateVendSessionStateByOrderLineSequence ::
  "string \<Rightarrow> string option \<Rightarrow> uuid \<Rightarrow> int \<Rightarrow> vend_row q" where
  "q_UpdateVendSessionStateByOrderLineSequence st fr oid line =
     update_one db_vends set_vends (\<lambda>v. v_OrderID v = oid \<and> vr_LineSequence v = line) (vend_state_row st fr)"

definition verification_statuses :: "string list" where
  "verification_statuses = [''unverified'', ''verified'', ''hardware_unverified'']"

definition set_verification_where :: "string \<Rightarrow> (vend_row \<Rightarrow> bool) \<Rightarrow> vend_row q" where
  "set_verification_where vs P =
     bnd (reads (\<lambda>s. list_ex P (db_vends s) \<and> vs \<notin> set verification_statuses)) (\<lambda>bad.
       if bad then raise (Err ErrCheckViolation)
       else update_one db_vends set_vends P (\<lambda>now v. v\<lparr>vr_VerificationStatus := vs\<rparr>))"

definition q_SetVendSessionVerificationStatus :: "string \<Rightarrow> uuid \<Rightarrow> int \<Rightarrow> vend_row q" where
  "q_SetVendSessionVerificationStatus vs oid slot =
     set_verification_where vs (\<lambda>v. v_OrderID v = oid \<and> v_SlotIndex v = slot)"

definition q_SetVendSessionVerificationStatusByLineSequence :: "string \<Rightarrow> uuid \<Rightarrow> int \<Rightarrow> vend_row q" where
  "q_SetVendSessionVerificationStatusByLineSequence vs oid line =
     set_verification_where vs (\<lambda>v. v_OrderID v = oid \<and> vr_LineSequence v = line)"

section \<open>Payments\<close>

definition set_payments :: "payment list \<Rightarrow> db \<Rightarrow> db" where
  "set_payments rows s = s\<lparr>db_payments := rows\<rparr>"

definition q_GetPaymentByID :: "uuid \<Rightarrow> payment q" where
  "q_GetPaymentByID i = select_one db_payments (\<lambda>p. p_ID p = i)"

definition q_ListPaymentsForOrder :: "uuid \<Rightarrow> payment list q" where
  "q_ListPaymentsForOrder oid =
     reads (\<lambda>s. sort_key p_CreatedAt (filter (\<lambda>p. p_OrderID p = oid) (db_payments s)))"

text \<open>
  \<open>ORDER BY created_at DESC LIMIT 1\<close>; among payments of the same instant, which SQL leaves open,
  the row inserted first.
\<close>

definition q_GetLatestPaymentForOrder :: "uuid \<Rightarrow> payment q" where
  "q_GetLatestPaymentForOrder oid =
     (\<lambda>s. case sort_key (\<lambda>p. - p_CreatedAt p) (filter (\<lambda>p. p_OrderID p = oid) (db_payments s)) of
            [] \<Rightarrow> (Inl (Err ErrNoRows), s)
          | p # _ \<Rightarrow> (Inr p, s))"

definition q_GetLatestNonCapturedPaymentForOrder :: "uuid \<Rightarrow> payment q" where
  "q_GetLatestNonCapturedPaymentForOrder oid =
     (\<lambda>s. case sort_key (\<lambda>p. - p_CreatedAt p) (filter (\<lambda>p. p_OrderID p = oid
              \<and> (p_State p = ''created'' \<or> p_State p = ''authorized'')) (db_payments s)) of
            [] \<Rightarrow> (Inl (Err ErrNoRows), s)
          | p # _ \<Rightarrow> (Inr p, s))"

definition q_GetWinningPaymentForOrder :: "uuid \<Rightarrow> payment q" where
  "q_GetWinningPaymentForOrder oid =
     (\<lambda>s. case find (\<lambda>r. o_ID r = oid) (db_orders s) of
            None \<Rightarrow> (Inl (Err ErrNoRows), s)
          | Some o' \<Rightarrow> (case o_WinningPaymentID o' of
                None \<Rightarrow> (Inl (Err ErrNoRows), s)
              | Some pid \<Rightarrow> q_GetPaymentByID pid s))"

definition q_UpdatePaymentState :: "uuid \<Rightarrow> string \<Rightarrow> payment q" where
  "q_UpdatePaymentState i st =
     update_one db_payments set_payments (\<lambda>p. p_ID p = i) (\<lambda>now p. p\<lparr>p_State := st\<rparr>)"

definition q_ForceUpdatePaymentStateCaptured :: "uuid \<Rightarrow> payment q" where
  "q_ForceUpdatePaymentStateCaptured i =
     update_one db_payments set_payments (\<lambda>p. p_ID p = i) (\<lambda>now p. p\<lparr>p_State := ''captured''\<rparr>)"

definition q_UpdatePaymentStateForReconciliation :: "string \<Rightarrow> uuid \<Rightarrow> payment q" where
  "q_UpdatePaymentStateForReconciliation st i =
     update_one db_payments set_payments
       (\<lambda>p. p_ID p = i \<and> (p_State p = ''created'' \<or> p_State p = ''authorized''))
       (\<lambda>now p. p\<lparr>p_State := st\<rparr>)"

definition q_UpdatePaymentOutcome :: "uuid \<Rightarrow> string \<Rightarrow> payment q" where
  "q_UpdatePaymentOutcome i oc =
     update_one db_payments set_payments (\<lambda>p. p_ID p = i) (\<lambda>now p. p\<lparr>p_Outcome := oc\<rparr>)"

definition cancel_row :: "time \<Rightarrow> payment \<Rightarrow> payment" where
  "cancel_row now p =
     p\<lparr>p_State := ''canceled'',
       p_Outcome := (if p_Outcome p = ''winner'' then p_Outcome p
         else if p_Outcome p = ''pending'' then ''superseded'' else p_Outcome p)\<rparr>"

definition q_CancelPaymentByID :: "uuid \<Rightarrow> payment q" where
  "q_CancelPaymentByID i =
     update_one db_payments set_payments
       (\<lambda>p. p_ID p = i \<and> (p_State p = ''created'' \<or> p_State p = ''authorized'')) cancel_row"

definition q_InsertPaymentAttempt :: "uuid \<Rightarrow> string option \<Rightarrow> string \<Rightarrow> json \<Rightarrow> payment_attempt q" where
  "q_InsertPaymentAttempt pid ref st payload =
     bnd gen_uuid (\<lambda>i. bnd (reads db_now) (\<lambda>now.
       let row = \<lparr>pa_ID = i, pa_PaymentID = pid, pa_State = st, pa_CreatedAt = now,
                  at_ProviderReference = ref, at_Payload = payload\<rparr>
       in seq (writes (\<lambda>s. s\<lparr>db_attempts := db_attempts s @ [row]\<rparr>)) (ret row)))"

text \<open>The latest attempt: descending creation time.\<close>

definition q_GetLatestPaymentAttemptPayload :: "uuid \<Rightarrow> json q" where
  "q_GetLatestPaymentAttemptPayload pid =
     (\<lambda>s. case sort_key (\<lambda>a. - pa_CreatedAt a) (filter (\<lambda>a. pa_PaymentID a = pid) (db_attempts s)) of
            [] \<Rightarrow> (Inl (Err ErrNoRows), s)
          | a # _ \<Rightarrow> (Inr (at_Payload a), s))"

definition q_GetLatestPaymentAttemptProviderReference :: "uuid \<Rightarrow> string option q" where
  "q_GetLatestPaymentAttemptProviderReference pid =
     (\<lambda>s. case sort_key (\<lambda>a. - pa_CreatedAt a) (filter (\<lambda>a. pa_PaymentID a = pid
              \<and> (case at_ProviderReference a of None \<Rightarrow> False | Some r \<Rightarrow> TrimSpace r \<noteq> [])) (db_attempts s)) of
            [] \<Rightarrow> (Inl (Err ErrNoRows), s)
          | a # _ \<Rightarrow> (Inr (at_ProviderReference a), s))"

section \<open>Refunds\<close>

definition q_InsertRefundRow :: "refund_row \<Rightarrow> refund_row q" where
  "q_InsertRefundRow row =
     bnd (reads (\<lambda>s. rf_IdempotencyKey row \<noteq> None
            \<and> list_ex (\<lambda>r. rf_OrderID r = rf_OrderID row \<and> rf_IdempotencyKey r = rf_IdempotencyKey row) (db_refunds s))) (\<lambda>clash.
       if clash then raise (Err ErrUniqueViolation)
       else bnd gen_uuid (\<lambda>i. bnd (reads db_now) (\<lambda>now.
         let r = row\<lparr>rf_ID := i, rf_CreatedAt := now\<rparr>
         in seq (writes (\<lambda>s. s\<lparr>db_refunds := db_refunds s @ [r]\<rparr>)) (ret r))))"

text \<open>The sum is cast to \<open>bigint\<close>, which fails beyond its range.\<close>

definition refunded_sum :: "uuid \<Rightarrow> db \<Rightarrow> int" where
  "refunded_sum pid s = sum_list (map rf_AmountMinor
     (filter (\<lambda>r. rf_PaymentID r = pid \<and> rf_State r \<noteq> ''failed'') (db_refunds s)))"

definition q_SumNonFailedRefundAmountForPayment :: "uuid \<Rightarrow> int q" where
  "q_SumNonFailedRefundAmountForPayment pid =
     bnd (reads (refunded_sum pid)) (\<lambda>n.
       if in_i64 n then ret n else raise (GoErr ErrOther ''bigint out of range''))"

section \<open>Outbox, timelines, ledger, evidence, cases\<close>

definition outbox_row :: "int \<Rightarrow> time \<Rightarrow> string \<Rightarrow> string \<Rightarrow> json \<Rightarrow> string \<Rightarrow> uuid \<Rightarrow> string option \<Rightarrow>
    bool \<Rightarrow> string option \<Rightarrow> string option \<Rightarrow> outbox_event" where
  "outbox_row i now topic et payload aggType aggID idem sim simRun simScen =
     \<lparr>ob_ID = i, ob_Topic = topic, ob_EventType = et, ob_Payload = payload, ob_AggregateType = aggType,
      ob_AggregateID = aggID, ob_IdempotencyKey = idem, ob_CreatedAt = now, ob_PublishedAt = None,
      ob_PublishAttemptCount = 0, ob_LastPublishError = None, ob_LastPublishAttemptAt = None,
      ob_NextPublishAfter = None, ob_DeadLetteredAt = None, ob_Status = ''pending'', ob_LockedBy = None,
      ob_LockedUntil = None, ob_UpdatedAt = now, ob_MaxPublishAttempts = 24,
      ob_Simulated = sim, ob_SimulationRunID = simRun, ob_SimulationScenario = simScen\<rparr>"

definition outbox_key_used :: "string \<Rightarrow> string option \<Rightarrow> db \<Rightarrow> bool" where
  "outbox_key_used topic idem s \<longleftrightarrow>
     (case idem of None \<Rightarrow> False
      | Some k \<Rightarrow> TrimSpace k \<noteq> [] \<and> list_ex (\<lambda>e. ob_Topic e = topic \<and> ob_IdempotencyKey e = Some k) (db_outbox s))"

definition q_InsertOutboxEvent :: "string \<Rightarrow> string \<Rightarrow> json \<Rightarrow> string \<Rightarrow> uuid \<Rightarrow> string option \<Rightarrow>
    bool \<Rightarrow> string option \<Rightarrow> string option \<Rightarrow> outbox_event q" where
  "q_InsertOutboxEvent topic et payload aggType aggID idem sim simRun simScen =
     bnd (reads (outbox_key_used topic idem)) (\<lambda>clash.
       if clash then raise (Err ErrUniqueViolation)
       else bnd next_serial (\<lambda>i. bnd (reads db_now) (\<lambda>now.
         let row = outbox_row i now topic et payload aggType aggID idem sim simRun simScen
         in seq (writes (\<lambda>s. s\<lparr>db_outbox := db_outbox s @ [row]\<rparr>)) (ret row))))"

text \<open>\<open>ON CONFLICT DO NOTHING\<close> returns no row for a used key.\<close>

definition q_InsertOutboxEventIdempotent :: "string \<Rightarrow> string \<Rightarrow> json \<Rightarrow> string \<Rightarrow> uuid \<Rightarrow> string option \<Rightarrow>
    bool \<Rightarrow> string option \<Rightarrow> string option \<Rightarrow> outbox_event q" where
  "q_InsertOutboxEventIdempotent topic et payload aggType aggID idem sim simRun simScen =
     bnd (reads (outbox_key_used topic idem)) (\<lambda>clash.
       if clash then raise (Err ErrNoRows)
       else q_InsertOutboxEvent topic et payload aggType aggID idem sim simRun simScen)"

definition q_GetOutboxByTopicAndIdempotency :: "string \<Rightarrow> string option \<Rightarrow> outbox_event q" where
  "q_GetOutboxByTopicAndIdempotency topic idem =
     select_one db_outbox (\<lambda>e. ob_Topic e = topic \<and> idem \<noteq> None \<and> ob_IdempotencyKey e = idem)"

definition q_InsertOrderTimelineEvent :: "order_timeline \<Rightarrow> unit q" where
  "q_InsertOrderTimelineEvent row = writes (\<lambda>s. s\<lparr>db_timelines := db_timelines s @ [row]\<rparr>)"

definition q_InsertFinancialLedgerEntry :: "ledger_entry \<Rightarrow> unit q" where
  "q_InsertFinancialLedgerEntry row = writes (\<lambda>s. s\<lparr>db_ledger := db_ledger s @ [row]\<rparr>)"

definition q_InsertVendHardwareEvidence :: "evidence_row \<Rightarrow> unit q" where
  "q_InsertVendHardwareEvidence row =
     bnd (reads (\<lambda>s. list_ex (\<lambda>r. er_DedupeKey r = er_DedupeKey row) (db_evidence s))) (\<lambda>clash.
       if clash then raise (Err ErrNoRows)
       else writes (\<lambda>s. s\<lparr>db_evidence := db_evidence s @ [row]\<rparr>))"

definition case_types :: "string list" where
  "case_types =
     [''payment_paid_vend_not_started'', ''payment_paid_vend_failed'', ''vend_started_no_terminal_ack'',
      ''refund_pending_too_long'', ''webhook_provider_mismatch'', ''duplicate_provider_event'',
      ''duplicate_payment'', ''webhook_amount_currency_mismatch'', ''webhook_after_terminal_order'',
      ''settlement_amount_mismatch'', ''duplicate_payment_ambiguous_winner'', ''late_capture_refund_required'',
      ''legacy_cash_confirm_unknown_consent'', ''cash_gross_mismatch'', ''change_liability_unresolved'',
      ''unclaimed_capture'', ''cash_payout_ambiguous'']"

text \<open>The unique index of open cases compares a missing identifier as the nil one.\<close>

definition null_as_nil :: "uuid option \<Rightarrow> uuid" where
  "null_as_nil i = (case i of None \<Rightarrow> uuid_Nil | Some x \<Rightarrow> x)"

definition same_case :: "reconciliation_case_input \<Rightarrow> recon_case \<Rightarrow> bool" where
  "same_case c k \<longleftrightarrow>
     rc_CaseType k = rc_CaseType c \<and> null_as_nil (rc_OrderID k) = null_as_nil (rc_OrderID c)
     \<and> null_as_nil (rc_PaymentID k) = null_as_nil (rc_PaymentID c)
     \<and> null_as_nil (rc_VendSessionID k) = null_as_nil (rc_VendSessionID c)
     \<and> null_as_nil (rc_RefundID k) = null_as_nil (rc_RefundID c)
     \<and> (case rc_ProviderEventID k of None \<Rightarrow> 0 | Some i \<Rightarrow> i) = (case rc_ProviderEventID c of None \<Rightarrow> 0 | Some i \<Rightarrow> i)
     \<and> rc_CorrelationKey k = rc_CorrelationKey c
     \<and> (rk_Status k = ''open'' \<or> rk_Status k = ''reviewing'' \<or> rk_Status k = ''escalated'')"

definition recon_row :: "reconciliation_case_input \<Rightarrow> uuid \<Rightarrow> time \<Rightarrow> recon_case" where
  "recon_row c i now =
     reconciliation_case_input.extend c (recon_case.fields i ''open'' now now)"

definition refresh_case :: "reconciliation_case_input \<Rightarrow> time \<Rightarrow> recon_case \<Rightarrow> recon_case" where
  "refresh_case c now k =
     k\<lparr>rc_Severity := rc_Severity c, rc_Reason := rc_Reason c, rc_Metadata := rc_Metadata c,
       rc_MachineID := (case rc_MachineID c of None \<Rightarrow> rc_MachineID k | Some m \<Rightarrow> Some m),
       rk_LastDetectedAt := now\<rparr>"

definition set_cases :: "recon_case list \<Rightarrow> db \<Rightarrow> db" where
  "set_cases rows s = s\<lparr>db_cases := rows\<rparr>"

definition q_UpsertCommerceReconciliationCase :: "reconciliation_case_input \<Rightarrow> recon_case q" where
  "q_UpsertCommerceReconciliationCase c =
     (if rc_CaseType c \<notin> set case_types then raise (Err ErrCheckViolation)
      else bnd (reads (\<lambda>s. list_ex (same_case c) (db_cases s))) (\<lambda>present.
        if present then update_one db_cases set_cases (same_case c) (refresh_case c)
        else bnd gen_uuid (\<lambda>i. bnd (reads db_now) (\<lambda>now.
          seq (writes (\<lambda>s. s\<lparr>db_cases := db_cases s @ [recon_row c i now]\<rparr>)) (ret (recon_row c i now))))))"

section \<open>The store's lifecycle operations\<close>

definition GetOrderByID :: "uuid \<Rightarrow> order q" where
  "GetOrderByID orderID = no_rows_as ErrNotFound (q_GetOrderByID orderID)"

definition UpdateOrderStatus :: "uuid \<Rightarrow> uuid \<Rightarrow> string \<Rightarrow> order q" where
  "UpdateOrderStatus orderID companyID status =
     no_rows_as ErrNotFound (q_UpdateOrderStatusByOrg status orderID)"

definition GetVendSessionByOrderAndSlot :: "uuid \<Rightarrow> int \<Rightarrow> vend_session q" where
  "GetVendSessionByOrderAndSlot orderID slotIndex =
     bnd (no_rows_as ErrNotFound (q_GetVendSessionByOrderAndSlot orderID slotIndex)) (\<lambda>v. ret (mapVend v))"

definition GetVendSessionByOrderAndLineSequence :: "uuid \<Rightarrow> int \<Rightarrow> vend_session q" where
  "GetVendSessionByOrderAndLineSequence orderID lineSequence =
     bnd (no_rows_as ErrNotFound (q_GetVendSessionByOrderAndLineSequence orderID lineSequence)) (\<lambda>v. ret (mapVend v))"

definition ListVendSessionsForOrder :: "uuid \<Rightarrow> vend_session list q" where
  "ListVendSessionsForOrder orderID =
     bnd (q_ListVendSessionsByOrder orderID) (\<lambda>rows. ret (map mapVend rows))"

definition UpdateVendSessionState :: "update_vend_session_params \<Rightarrow> vend_session q" where
  "UpdateVendSessionState p =
     (if uv_LineSequence p > 0
      then bnd (no_rows_as ErrNotFound (q_UpdateVendSessionStateByOrderLineSequence
              (uv_ToState p) (uv_FailureReason p) (uv_OrderID p) (uv_LineSequence p))) (\<lambda>v. ret (mapVend v))
      else bnd (no_rows_as ErrNotFound (q_UpdateVendSessionStateByOrderSlot
              (uv_ToState p) (uv_FailureReason p) (uv_OrderID p) (uv_SlotIndex p))) (\<lambda>v. ret (mapVend v)))"

definition GetLatestPaymentForOrder :: "uuid \<Rightarrow> payment q" where
  "GetLatestPaymentForOrder orderID = no_rows_as ErrNotFound (q_GetLatestPaymentForOrder orderID)"

definition GetPaymentByID :: "uuid \<Rightarrow> payment q" where
  "GetPaymentByID paymentID = no_rows_as ErrNotFound (q_GetPaymentByID paymentID)"

definition mapPaymentAttemptView :: "payment_attempt \<Rightarrow> payment_attempt_view" where
  "mapPaymentAttemptView row = payment_attempt_view.truncate row"

definition InsertPaymentAttempt :: "insert_payment_attempt_params \<Rightarrow> payment_attempt_view q" where
  "InsertPaymentAttempt inp =
     bnd (q_InsertPaymentAttempt (ia_PaymentID inp) (ia_ProviderReference inp) (ia_State inp)
            (RequiredString (ia_Payload inp))) (\<lambda>row. ret (mapPaymentAttemptView row))"

definition GetLatestPaymentAttemptPayload :: "uuid \<Rightarrow> json option q" where
  "GetLatestPaymentAttemptPayload paymentID =
     unless_aborted (q_GetLatestPaymentAttemptPayload paymentID)"

definition GetLatestPaymentAttemptProviderReference :: "uuid \<Rightarrow> string q" where
  "GetLatestPaymentAttemptProviderReference paymentID =
     bnd (unless_aborted (q_GetLatestPaymentAttemptProviderReference paymentID)) (\<lambda>row.
       ret (case row of Some (Some r) \<Rightarrow> TrimSpace r | _ \<Rightarrow> []))"

definition blank_as_null :: "string \<Rightarrow> string option" where
  "blank_as_null s = (if TrimSpace s \<noteq> [] then Some (TrimSpace s) else None)"

definition InsertRefundRow :: "insert_refund_row_input \<Rightarrow> refund_row q" where
  "InsertRefundRow inp =
     q_InsertRefundRow
       \<lparr>rf_ID = uuid_Nil, rf_PaymentID = ir_PaymentID inp, rf_OrderID = ir_OrderID inp,
        rf_AmountMinor = ir_AmountMinor inp, rf_Currency = ToUpper (TrimSpace (ir_Currency inp)),
        rf_State = ir_State inp, rf_Reason = blank_as_null (ir_Reason inp),
        rf_IdempotencyKey = blank_as_null (ir_IdempotencyKey inp),
        rf_Metadata = RequiredString (ir_Metadata inp), rf_CreatedAt = 0\<rparr>"

definition ListRefundsForOrder :: "uuid \<Rightarrow> refund_row list q" where
  "ListRefundsForOrder orderID =
     reads (\<lambda>s. sort_key rf_CreatedAt (filter (\<lambda>r. rf_OrderID r = orderID) (db_refunds s)))"

definition GetRefundByIDForOrder :: "uuid \<Rightarrow> uuid \<Rightarrow> refund_row q" where
  "GetRefundByIDForOrder orderID refundID =
     no_rows_as ErrNotFound (select_one db_refunds (\<lambda>r. rf_ID r = refundID \<and> rf_OrderID r = orderID))"

definition GetRefundByOrderIdempotency :: "uuid \<Rightarrow> string \<Rightarrow> refund_row q" where
  "GetRefundByOrderIdempotency orderID idempotencyKey =
     no_rows_as ErrNotFound (select_one db_refunds (\<lambda>r. rf_OrderID r = orderID
       \<and> blank_as_null idempotencyKey \<noteq> None \<and> rf_IdempotencyKey r = blank_as_null idempotencyKey))"

definition SumNonFailedRefundAmountForPayment :: "uuid \<Rightarrow> int q" where
  "SumNonFailedRefundAmountForPayment paymentID = q_SumNonFailedRefundAmountForPayment paymentID"

section \<open>The store's financial correctness operations\<close>

definition ClaimWinningPayment :: "uuid \<Rightarrow> uuid \<Rightarrow> (order \<times> bool) q" where
  "ClaimWinningPayment paymentID orderID =
     bnd (attempt (q_ClaimWinningPayment paymentID orderID)) (\<lambda>r. case r of
         Inr row \<Rightarrow> ret (row, True)
       | Inl e \<Rightarrow> if errors_Is e ErrNoRows
                  then bnd (GetOrderByID orderID) (\<lambda>ord. ret (ord, False))
                  else raise e)"

definition GetWinningPaymentForOrder :: "uuid \<Rightarrow> payment q" where
  "GetWinningPaymentForOrder orderID = no_rows_as ErrNotFound (q_GetWinningPaymentForOrder orderID)"

definition UpdatePaymentOutcome :: "uuid \<Rightarrow> string \<Rightarrow> payment q" where
  "UpdatePaymentOutcome paymentID outcome = no_rows_as ErrNotFound (q_UpdatePaymentOutcome paymentID outcome)"

definition CancelPaymentByID :: "uuid \<Rightarrow> payment q" where
  "CancelPaymentByID paymentID = no_rows_as ErrNotFound (q_CancelPaymentByID paymentID)"

definition GetLatestNonCapturedPaymentForOrder :: "uuid \<Rightarrow> payment q" where
  "GetLatestNonCapturedPaymentForOrder orderID =
     no_rows_as ErrNotFound (q_GetLatestNonCapturedPaymentForOrder orderID)"

definition ListPaymentsForOrder :: "uuid \<Rightarrow> payment list q" where
  "ListPaymentsForOrder orderID = q_ListPaymentsForOrder orderID"

definition InsertLedgerEntry :: "ledger_entry \<Rightarrow> unit q" where
  "InsertLedgerEntry inp = q_InsertFinancialLedgerEntry inp"

definition UpsertReconciliationCase :: "reconciliation_case_input \<Rightarrow> recon_case q" where
  "UpsertReconciliationCase inp =
     q_UpsertCommerceReconciliationCase (inp\<lparr>rc_CorrelationKey := TrimSpace (rc_CorrelationKey inp)\<rparr>)"

section \<open>A database with one order\<close>

text \<open>
  One machine, one order of one product with one vend line in progress and one captured payment,
  one stocked slot. The witnesses of the properties start from it.
\<close>

definition sample_order :: order where
  "sample_order =
     \<lparr>o_ID = UUID ''o1'', o_MachineID = UUID ''m1'', o_Status = ''vending'', o_Currency = ''VND'',
      o_SubtotalMinor = 500, o_TaxMinor = 0, o_TotalMinor = 500, o_IdempotencyKey = Some ''k1'',
      o_Simulated = False, o_SimulationRunID = None, o_SimulationScenario = None, o_FakeBill = False,
      o_FakeBoard = False, o_WinningPaymentID = None, o_WinningClaimedAt = None,
      o_PricingSource = ''server'', o_MachinePricingRevision = None, o_MachinePricingSnapshot = NoBytes,
      o_ServerReferenceTotalMinor = 500, o_CreatedAt = 1000, o_UpdatedAt = 1000\<rparr>"

definition sample_vend :: vend_row where
  "sample_vend =
     \<lparr>v_ID = UUID ''v1'', v_OrderID = UUID ''o1'', v_MachineID = UUID ''m1'', v_SlotIndex = 3,
      v_ProductID = UUID ''p1'', v_State = ''in_progress'', v_FinalCommandAttemptID = None,
      v_Simulated = False, v_SimulationRunID = None, v_SimulationScenario = None, v_CreatedAt = 1000,
      vr_LineSequence = 1, vr_FailureReason = None, vr_CorrelationID = None, vr_StartedAt = Some 1500,
      vr_CompletedAt = None, vr_VerificationStatus = ''unverified''\<rparr>"

definition sample_payment :: payment where
  "sample_payment =
     \<lparr>p_ID = UUID ''y1'', p_OrderID = UUID ''o1'', p_Provider = ''momo'', p_State = ''captured'',
      p_AmountMinor = 500, p_Currency = ''VND'', p_IdempotencyKey = Some ''pk1'',
      p_ReconciliationStatus = ''pending'', p_SettlementStatus = ''unsettled'', p_SettlementBatchID = None,
      p_Simulated = False, p_SimulationRunID = None, p_SimulationScenario = None, p_FakeBill = False,
      p_FakeBoard = False, p_Outcome = ''pending'', p_AttemptSeq = 1, p_SupersedesPaymentID = None,
      p_CreatedAt = 1100\<rparr>"

definition sample_db :: db where
  "sample_db =
     \<lparr>db_now = 2000, db_outbox = [], db_uuids = (\<lambda>n. UUID (CHR ''g'' # digits_of n)), db_uuid_next = 0,
      db_serial = 0, db_orders = [sample_order], db_vends = [sample_vend], db_payments = [sample_payment],
      db_attempts = [], db_refunds = [], db_provider_events = [], db_timelines = [], db_ledger = [],
      db_evidence = [], db_cases = [], db_audit = [], db_machines = [UUID ''m1''], db_grid_cols = [],
      db_inventory = [],
      db_slots = [\<lparr>ss_MachineID = UUID ''m1'', ss_PlanogramID = UUID ''g1'', ss_SlotIndex = 3,
                    ss_CurrentQuantity = 5, ss_PriceMinor = 500, ss_PlanogramRevisionApplied = 1\<rparr>],
      db_slot_configs = [],
      db_planogram_slots = [\<lparr>ps_PlanogramID = UUID ''g1'', ps_SlotIndex = 3, ps_ProductID = Some (UUID ''p1''),
                              ps_MaxQuantity = 8\<rparr>],
      db_published_slots = [], db_published_planogram = None, db_acceptances = [], db_allocations = [],
      db_changes = [], db_payouts = [], db_lifecycle = [], db_observations = [], db_adjustments = [],
      db_quotes = [], db_quote_lines = [],
      db_catalog = \<lparr>ct_sites = [], ct_price_books = [], ct_overrides = [], ct_promotions = [], ct_rules = [],
        ct_targets = [], ct_products = [], ct_product_tags = [], ct_assortments = [], ct_bindings = [],
        ct_items = [], ct_mirrors = []\<rparr>\<rparr>"

end
