(* ===== verification/Slot_Inventory.thy ===== *)
theory Slot_Inventory
  imports Commerce_Store Slot_Grid "HOL-Library.List_Lexorder" "HOL-Library.Char_ord"
begin

text \<open>
  The stock of a machine's slots when a vend succeeds: the slot part of
  \<open>internal/modules/postgres/telemetry_store.go\<close> over \<open>db/queries/inventory_admin.sql\<close>. The slot of a
  vend is looked up by its index and product; when the machine has no stock row for it, the code
  falls back to slot configurations (by index, then by slot code, assigned or not) and to the
  published planogram, and provisions the row. The sale is recorded once per idempotency key as an
  inventory event and takes one unit off the slot.
\<close>

section \<open>Identifiers in their order\<close>

text \<open>Postgres compares identifiers bytewise, which is the order of their canonical text.\<close>

instantiation uuid :: linorder
begin

definition less_eq_uuid :: "uuid \<Rightarrow> uuid \<Rightarrow> bool" where
  "less_eq_uuid a b \<longleftrightarrow> uuid_String a \<le> uuid_String b"

definition less_uuid :: "uuid \<Rightarrow> uuid \<Rightarrow> bool" where
  "less_uuid a b \<longleftrightarrow> uuid_String a < uuid_String b"

instance
  by standard (auto simp: less_eq_uuid_def less_uuid_def uuid.expand)

end

section \<open>Statements\<close>

record slot_snapshot =
  sn_MachineID :: uuid
  sn_PlanogramID :: uuid
  sn_SlotIndex :: int
  sn_CurrentQuantity :: int
  sn_MaxQuantity :: int
  sn_PriceMinor :: int
  sn_PlanogramRevisionApplied :: int
  sn_ProductID :: "uuid option"

text \<open>The rows a left join pairs with: all matches, or one row of nulls.\<close>

definition left_join :: "('r \<Rightarrow> bool) \<Rightarrow> 'r list \<Rightarrow> 'r option list" where
  "left_join P rows = (case filter P rows of [] \<Rightarrow> [None] | ms \<Rightarrow> map Some ms)"

definition coalesce :: "'a option \<Rightarrow> 'a option \<Rightarrow> 'a option" where
  "coalesce a b = (case a of None \<Rightarrow> b | Some x \<Rightarrow> Some x)"

definition slot_listing_row :: "slot_state \<Rightarrow> slot_config option \<Rightarrow> planogram_slot option \<Rightarrow> slot_snapshot" where
  "slot_listing_row st cfg ps =
     \<lparr>sn_MachineID = ss_MachineID st, sn_PlanogramID = ss_PlanogramID st, sn_SlotIndex = ss_SlotIndex st,
      sn_CurrentQuantity = ss_CurrentQuantity st,
      sn_MaxQuantity = (case coalesce (map_option sc_MaxQuantity cfg) (map_option ps_MaxQuantity ps) of
                          None \<Rightarrow> 0 | Some n \<Rightarrow> n),
      sn_PriceMinor = ss_PriceMinor st, sn_PlanogramRevisionApplied = ss_PlanogramRevisionApplied st,
      sn_ProductID = coalesce (Option.bind cfg sc_ProductID) (Option.bind ps ps_ProductID)\<rparr>"

definition slot_listing :: "db \<Rightarrow> slot_state \<Rightarrow> slot_snapshot list" where
  "slot_listing s st =
     concat (map (\<lambda>cfg. map (slot_listing_row st cfg)
         (left_join (\<lambda>p. ps_PlanogramID p = ss_PlanogramID st \<and> ps_SlotIndex p = ss_SlotIndex st)
            (db_planogram_slots s)))
       (left_join (\<lambda>c. sc_MachineID c = ss_MachineID st \<and> sc_SlotIndex c = Some (ss_SlotIndex st) \<and> sc_IsCurrent c)
          (db_slot_configs s)))"

definition q_ListMachineSlots :: "uuid \<Rightarrow> slot_snapshot list q" where
  "q_ListMachineSlots mid =
     reads (\<lambda>s. concat (map (slot_listing s)
       (sort_key ss_PlanogramID (sort_key ss_SlotIndex (filter (\<lambda>r. ss_MachineID r = mid) (db_slots s))))))"

definition q_ListCurrentSlotConfigs :: "uuid \<Rightarrow> slot_config list q" where
  "q_ListCurrentSlotConfigs mid =
     reads (\<lambda>s. sort_key sc_CabinetOrder (sort_key sc_CabinetCode (sort_key sc_SlotCode
       (filter (\<lambda>c. sc_MachineID c = mid \<and> sc_IsCurrent c) (db_slot_configs s)))))"

definition q_RelinkSlotConfig :: "uuid \<Rightarrow> int \<Rightarrow> unit q" where
  "q_RelinkSlotConfig i idx =
     writes (\<lambda>s. s\<lparr>db_slot_configs := upd_where (\<lambda>c. sc_ID c = i \<and> sc_IsCurrent c)
                     (\<lambda>c. c\<lparr>sc_SlotIndex := Some idx\<rparr>) (db_slot_configs s)\<rparr>)"

definition q_GetPublishedPlanogramSlot :: "uuid \<Rightarrow> string \<Rightarrow> published_slot q" where
  "q_GetPublishedPlanogramSlot mid slotCode =
     select_one db_published_slots (\<lambda>r. pp_MachineID r = mid \<and> pp_SlotCode r = slotCode)"

definition q_GetMachineLegacyPlanogramID :: "uuid \<Rightarrow> uuid q" where
  "q_GetMachineLegacyPlanogramID mid =
     bnd (select_one db_slots (\<lambda>r. ss_MachineID r = mid)) (\<lambda>r. ret (ss_PlanogramID r))"

definition q_GetPublishedPlanogramID :: "uuid q" where
  "q_GetPublishedPlanogramID =
     bnd (reads db_published_planogram) (\<lambda>r. case r of None \<Rightarrow> raise (Err ErrNoRows) | Some i \<Rightarrow> ret i)"

definition q_GetActiveGridCols :: "uuid \<Rightarrow> int q" where
  "q_GetActiveGridCols mid =
     bnd (reads (\<lambda>s. map_of (db_grid_cols s) mid)) (\<lambda>r.
       case r of None \<Rightarrow> raise (Err ErrNoRows) | Some n \<Rightarrow> ret n)"

definition slot_key :: "slot_state \<Rightarrow> uuid \<times> uuid \<times> int" where
  "slot_key r = (ss_MachineID r, ss_PlanogramID r, ss_SlotIndex r)"

definition upsert_slot :: "slot_state \<Rightarrow> slot_state list \<Rightarrow> slot_state list" where
  "upsert_slot row rows =
     (if list_ex (\<lambda>r. slot_key r = slot_key row) rows
      then upd_where (\<lambda>r. slot_key r = slot_key row) (\<lambda>_. row) rows
      else rows @ [row])"

definition q_UpsertMachineSlotState :: "slot_state \<Rightarrow> unit q" where
  "q_UpsertMachineSlotState row =
     (if ss_SlotIndex row < 0 then raise (Err ErrCheckViolation)
      else writes (\<lambda>s. s\<lparr>db_slots := upsert_slot row (db_slots s)\<rparr>))"

definition q_CountInventoryEvents :: "uuid \<Rightarrow> string \<Rightarrow> nat q" where
  "q_CountInventoryEvents mid key =
     reads (\<lambda>s. length (filter (\<lambda>e. ie_MachineID e = mid \<and> ie_IdempotencyKey e = Some key) (db_inventory s)))"

definition q_InsertInventoryEvent :: "inventory_event \<Rightarrow> unit q" where
  "q_InsertInventoryEvent row = writes (\<lambda>s. s\<lparr>db_inventory := db_inventory s @ [row]\<rparr>)"

definition q_GetMachineByIDForUpdate :: "uuid \<Rightarrow> uuid q" where
  "q_GetMachineByIDForUpdate mid = select_one db_machines (\<lambda>m. m = mid)"

section \<open>Finding the slot of a vend\<close>

definition slot_error :: "string \<Rightarrow> string \<Rightarrow> int \<Rightarrow> uuid \<Rightarrow> go_err" where
  "slot_error what key idx productID =
     GoErr ErrOther (''postgres: no '' @ what @ '' for '' @ key @ Sprintd idx @ '' product='' @ uuid_String productID)"

fun pickSlotSnapshotForVend :: "slot_snapshot list \<Rightarrow> int \<Rightarrow> uuid \<Rightarrow> go_err + slot_snapshot" where
  "pickSlotSnapshotForVend [] slotIndex productID =
     Inl (slot_error ''machine_slot_state'' ''slot_index='' slotIndex productID)"
| "pickSlotSnapshotForVend (r # rs) slotIndex productID =
     (if sn_SlotIndex r \<noteq> slotIndex \<or> sn_ProductID r = None then pickSlotSnapshotForVend rs slotIndex productID
      else if sn_ProductID r = Some productID then Inr r
      else pickSlotSnapshotForVend rs slotIndex productID)"

definition pickSlotConfigForVend :: "slot_config list \<Rightarrow> int \<Rightarrow> uuid \<Rightarrow> slot_config option" where
  "pickSlotConfigForVend cfgs slotIndex productID =
     find (\<lambda>c. sc_SlotIndex c = Some slotIndex \<and> sc_ProductID c = Some productID) cfgs"

definition pickSlotConfigBySlotCode :: "slot_config list \<Rightarrow> string \<Rightarrow> uuid \<Rightarrow> slot_config option" where
  "pickSlotConfigBySlotCode cfgs slotCode productID =
     (if TrimSpace slotCode = [] then None
      else find (\<lambda>c. TrimSpace (sc_SlotCode c) = TrimSpace slotCode \<and> sc_ProductID c = Some productID) cfgs)"

definition pickSlotConfigForVendUnassignedProduct :: "slot_config list \<Rightarrow> int \<Rightarrow> slot_config option" where
  "pickSlotConfigForVendUnassignedProduct cfgs slotIndex =
     find (\<lambda>c. sc_SlotIndex c = Some slotIndex \<and> sc_ProductID c = None) cfgs"

definition pickSlotConfigBySlotCodeUnassignedProduct :: "slot_config list \<Rightarrow> string \<Rightarrow> slot_config option" where
  "pickSlotConfigBySlotCodeUnassignedProduct cfgs slotCode =
     (if TrimSpace slotCode = [] then None
      else find (\<lambda>c. TrimSpace (sc_SlotCode c) = TrimSpace slotCode \<and> sc_ProductID c = None) cfgs)"

definition vendSlotConfigWithProduct :: "slot_config \<Rightarrow> uuid \<Rightarrow> slot_config" where
  "vendSlotConfigWithProduct cfg productID =
     (if sc_ProductID cfg = None then cfg\<lparr>sc_ProductID := Some productID\<rparr> else cfg)"

definition resolveMachineGridCols :: "uuid \<Rightarrow> int q" where
  "resolveMachineGridCols machineID =
     bnd (attempt (q_GetActiveGridCols machineID)) (\<lambda>r. case r of
         Inl e \<Rightarrow> if errors_Is e ErrNoRows then ret 10 else raise e
       | Inr cols \<Rightarrow> if cols < 1 then ret 10 else ret cols)"

text \<open>The codes under which the slot may be configured: the grid code and the plain number.\<close>

definition slot_codes :: "int \<Rightarrow> int \<Rightarrow> string list" where
  "slot_codes slotIndex gridCols =
     (let code = SlotCodeFromIndex slotIndex gridCols; legacyCode = Sprintd slotIndex
      in if code \<noteq> [] then (if code \<noteq> legacyCode then [code, legacyCode] else [code])
         else [legacyCode])"

fun config_by_codes :: "slot_config list \<Rightarrow> int \<Rightarrow> uuid \<Rightarrow> string list \<Rightarrow> slot_config option q" where
  "config_by_codes cfgs slotIndex productID [] = ret None"
| "config_by_codes cfgs slotIndex productID (slotCode # codes) =
     (case (case pickSlotConfigBySlotCode cfgs slotCode productID of
              Some c \<Rightarrow> Some c
            | None \<Rightarrow> map_option (\<lambda>c. vendSlotConfigWithProduct c productID)
                        (pickSlotConfigBySlotCodeUnassignedProduct cfgs slotCode)) of
        None \<Rightarrow> config_by_codes cfgs slotIndex productID codes
      | Some cfg \<Rightarrow>
          if sc_SlotIndex cfg \<noteq> Some slotIndex
          then seq (q_RelinkSlotConfig (sc_ID cfg) slotIndex) (ret (Some (cfg\<lparr>sc_SlotIndex := Some slotIndex\<rparr>)))
          else ret (Some cfg))"

definition planogram_config :: "int \<Rightarrow> string \<Rightarrow> published_slot \<Rightarrow> slot_config" where
  "planogram_config slotIndex slotCode row =
     \<lparr>sc_ID = uuid_Nil, sc_MachineID = uuid_Nil, sc_CabinetCode = [], sc_CabinetOrder = 0, sc_SlotCode = slotCode,
      sc_SlotIndex = Some slotIndex,
      sc_ProductID = pp_ProductID row,
      sc_MaxQuantity = (if pp_MaxQuantity row < 1 then 1 else pp_MaxQuantity row),
      sc_PriceMinor = pp_PriceMinor row, sc_IsCurrent = False\<rparr>"

fun config_by_planogram :: "uuid \<Rightarrow> int \<Rightarrow> uuid \<Rightarrow> string list \<Rightarrow> slot_config option q" where
  "config_by_planogram machineID slotIndex productID [] = ret None"
| "config_by_planogram machineID slotIndex productID (slotCode # codes) =
     bnd (attempt (q_GetPublishedPlanogramSlot machineID slotCode)) (\<lambda>r. case r of
         Inl e \<Rightarrow> if errors_Is e ErrNoRows then config_by_planogram machineID slotIndex productID codes else raise e
       | Inr row \<Rightarrow> if pp_ProductID row \<noteq> Some productID then config_by_planogram machineID slotIndex productID codes
                    else ret (Some (planogram_config slotIndex slotCode row)))"

definition resolveVendSlotConfigWithFallbacks :: "uuid \<Rightarrow> int \<Rightarrow> uuid \<Rightarrow> slot_config list \<Rightarrow> slot_config q" where
  "resolveVendSlotConfigWithFallbacks machineID slotIndex productID cfgs =
     (case pickSlotConfigForVend cfgs slotIndex productID of
        Some cfg \<Rightarrow> ret cfg
      | None \<Rightarrow> (case pickSlotConfigForVendUnassignedProduct cfgs slotIndex of
          Some cfg \<Rightarrow> ret (vendSlotConfigWithProduct cfg productID)
        | None \<Rightarrow> bnd (resolveMachineGridCols machineID) (\<lambda>gridCols.
            bnd (config_by_codes cfgs slotIndex productID (slot_codes slotIndex gridCols)) (\<lambda>byCode.
              case byCode of
                Some cfg \<Rightarrow> ret cfg
              | None \<Rightarrow> bnd (config_by_planogram machineID slotIndex productID (slot_codes slotIndex gridCols)) (\<lambda>byPlan.
                  case byPlan of
                    Some cfg \<Rightarrow> ret cfg
                  | None \<Rightarrow> raise (slot_error ''machine_slot_config'' ''slot_index='' slotIndex productID))))))"

definition resolveVendLegacyPlanogramID :: "uuid \<Rightarrow> slot_snapshot list \<Rightarrow> uuid q" where
  "resolveVendLegacyPlanogramID machineID legacySlots =
     (if legacySlots \<noteq> [] \<and> sn_PlanogramID (hd legacySlots) \<noteq> uuid_Nil then ret (sn_PlanogramID (hd legacySlots))
      else bnd (attempt (q_GetMachineLegacyPlanogramID machineID)) (\<lambda>r.
        let published = bnd (attempt q_GetPublishedPlanogramID) (\<lambda>r2.
              let none = raise (GoErr ErrOther (''postgres: no planogram available for vend legacy slot provision machine=''
                                 @ uuid_String machineID))
              in case r2 of
                   Inr pgID \<Rightarrow> if pgID \<noteq> uuid_Nil then ret pgID else none
                 | Inl e \<Rightarrow> if errors_Is e ErrNoRows then none else raise e)
        in case r of
             Inr pgID \<Rightarrow> if pgID \<noteq> uuid_Nil then ret pgID else published
           | Inl e \<Rightarrow> if errors_Is e ErrNoRows then published else raise e))"

definition provisioned_slot :: "uuid \<Rightarrow> uuid \<Rightarrow> int \<Rightarrow> uuid \<Rightarrow> slot_config \<Rightarrow> slot_snapshot" where
  "provisioned_slot machineID planogramID slotIndex productID cfg =
     \<lparr>sn_MachineID = machineID, sn_PlanogramID = planogramID, sn_SlotIndex = slotIndex,
      sn_CurrentQuantity = (if sc_MaxQuantity cfg < 1 then 1 else sc_MaxQuantity cfg),
      sn_MaxQuantity = sc_MaxQuantity cfg, sn_PriceMinor = sc_PriceMinor cfg,
      sn_PlanogramRevisionApplied = 1,
      sn_ProductID = (case sc_ProductID cfg of None \<Rightarrow> Some productID | Some p \<Rightarrow> Some p)\<rparr>"

definition snapshot_state :: "slot_snapshot \<Rightarrow> int \<Rightarrow> slot_state" where
  "snapshot_state sn qty =
     \<lparr>ss_MachineID = sn_MachineID sn, ss_PlanogramID = sn_PlanogramID sn, ss_SlotIndex = sn_SlotIndex sn,
      ss_CurrentQuantity = qty, ss_PriceMinor = sn_PriceMinor sn,
      ss_PlanogramRevisionApplied = sn_PlanogramRevisionApplied sn\<rparr>"

definition resolveVendSlotSnapshot :: "uuid \<Rightarrow> int \<Rightarrow> uuid \<Rightarrow> slot_snapshot q" where
  "resolveVendSlotSnapshot machineID slotIndex productID =
     bnd (q_ListMachineSlots machineID) (\<lambda>slots.
       case pickSlotSnapshotForVend slots slotIndex productID of
         Inr snap \<Rightarrow> ret snap
       | Inl _ \<Rightarrow>
           bnd (q_ListCurrentSlotConfigs machineID) (\<lambda>cfgs.
           bnd (resolveVendSlotConfigWithFallbacks machineID slotIndex productID cfgs) (\<lambda>cfg.
           bnd (resolveVendLegacyPlanogramID machineID slots) (\<lambda>planogramID.
           let sn = provisioned_slot machineID planogramID slotIndex productID cfg
           in seq (q_UpsertMachineSlotState (snapshot_state sn (sn_CurrentQuantity sn))) (ret sn)))))"

section \<open>The sale\<close>

definition sale_event :: "uuid \<Rightarrow> uuid \<Rightarrow> int \<Rightarrow> uuid \<Rightarrow> string \<Rightarrow> uuid option \<Rightarrow> int \<Rightarrow> time \<Rightarrow> inventory_event" where
  "sale_event machineID orderID slotIndex productID key corr newQty now =
     \<lparr>ie_MachineID = machineID, ie_SlotCode = CHR ''S'' # Sprintd slotIndex, ie_ProductID = productID,
      ie_EventType = ''sale'', ie_QuantityDelta = - 1, ie_QuantityAfter = newQty, ie_CorrelationID = corr,
      ie_OccurredAt = now, ie_IdempotencyKey = Some key, ie_Source = ''commerce_vend_success'', ie_OrderID = orderID\<rparr>"

definition record_sale :: "uuid \<Rightarrow> uuid \<Rightarrow> int \<Rightarrow> uuid \<Rightarrow> string \<Rightarrow> uuid option \<Rightarrow> slot_snapshot \<Rightarrow> bool q" where
  "record_sale machineID orderID slotIndex productID key corr snap =
     (if sn_CurrentQuantity snap < 1
      then raise (GoErr ErrOther (''postgres: insufficient stock for vend sale (slot_index='' @ Sprintd slotIndex @ '')''))
      else let newQty = sn_CurrentQuantity snap - 1 in
        bnd (reads db_now) (\<lambda>now.
        seq (q_InsertInventoryEvent (sale_event machineID orderID slotIndex productID key corr newQty now))
        (seq (q_UpsertMachineSlotState
               \<lparr>ss_MachineID = machineID, ss_PlanogramID = sn_PlanogramID snap, ss_SlotIndex = slotIndex,
                ss_CurrentQuantity = newQty, ss_PriceMinor = sn_PriceMinor snap,
                ss_PlanogramRevisionApplied = sn_PlanogramRevisionApplied snap\<rparr>)
          (ret False))))"

definition vend_of_sale :: "uuid \<Rightarrow> int \<Rightarrow> int \<Rightarrow> vend_row q" where
  "vend_of_sale orderID slotIndex lineSequence =
     (if lineSequence > 0 then q_GetVendSessionByOrderAndLineSequence orderID lineSequence
      else q_GetVendSessionByOrderAndSlot orderID slotIndex)"

definition applyCommerceVendSuccessInventoryTx ::
  "uuid \<Rightarrow> uuid \<Rightarrow> uuid \<Rightarrow> int \<Rightarrow> int \<Rightarrow> uuid \<Rightarrow> string \<Rightarrow> uuid option \<Rightarrow> bool q" where
  "applyCommerceVendSuccessInventoryTx scopeID machineID orderID slotIndex lineSequence productID key corr =
     (if TrimSpace key = []
      then raise (GoErr ErrOther ''postgres: idempotency_key is required for vend inventory'')
      else seq (q_GetMachineByIDForUpdate machineID)
        (if scopeID \<noteq> uuid_Nil then raise (Err ErrMachineScopeMismatch)
         else bnd (vend_of_sale orderID slotIndex lineSequence) (\<lambda>vend.
           if v_MachineID vend \<noteq> machineID \<or> v_ProductID vend \<noteq> productID
           then raise (GoErr ErrOther ''postgres: vend session does not match machine/product'')
           else if v_State vend \<noteq> ''success''
           then raise (GoErr ErrOther ''postgres: vend session must be success before inventory decrement'')
           else bnd (q_CountInventoryEvents machineID key) (\<lambda>cnt.
             if cnt > 0 then ret True
             else bnd (resolveVendSlotSnapshot machineID slotIndex productID)
               (record_sale machineID orderID slotIndex productID key corr)))))"

definition ApplyCommerceVendSuccessInventory ::
  "uuid \<Rightarrow> uuid \<Rightarrow> uuid \<Rightarrow> int \<Rightarrow> uuid \<Rightarrow> string \<Rightarrow> uuid option \<Rightarrow> bool q" where
  "ApplyCommerceVendSuccessInventory scopeID machineID orderID slotIndex productID key corr =
     tx (applyCommerceVendSuccessInventoryTx scopeID machineID orderID slotIndex 0 productID key corr)"

section \<open>What a sale touches\<close>

text \<open>A projection that sees neither stock, nor configurations, nor inventory events.\<close>

definition stock_blind :: "(db \<Rightarrow> 'a) \<Rightarrow> bool" where
  "stock_blind f \<longleftrightarrow>
     (\<forall>s x. f (s\<lparr>db_inventory := x\<rparr>) = f s) \<and> (\<forall>s x. f (s\<lparr>db_slots := x\<rparr>) = f s)
     \<and> (\<forall>s x. f (s\<lparr>db_slot_configs := x\<rparr>) = f s)"

lemma stock_blind_tables:
  "stock_blind db_orders" "stock_blind db_vends" "stock_blind db_payments" "stock_blind db_refunds"
  "stock_blind db_ledger" "stock_blind db_outbox" "stock_blind db_timelines" "stock_blind db_evidence"
  "stock_blind db_cases" "stock_blind db_machines" "stock_blind db_now" "stock_blind db_provider_events"
  by (simp_all add: stock_blind_def)

lemma keeps_relink [keeps_intros]: "stock_blind f \<Longrightarrow> keeps f (q_RelinkSlotConfig i idx)"
  by (simp add: q_RelinkSlotConfig_def moves_def stock_blind_def)

lemma keeps_upsert [keeps_intros]: "stock_blind f \<Longrightarrow> keeps f (q_UpsertMachineSlotState row)"
  by (simp add: q_UpsertMachineSlotState_def moves_def stock_blind_def)

lemma keeps_event [keeps_intros]: "stock_blind f \<Longrightarrow> keeps f (q_InsertInventoryEvent row)"
  by (simp add: q_InsertInventoryEvent_def moves_def stock_blind_def)

lemma keeps_config_by_codes [keeps_intros]:
  "stock_blind f \<Longrightarrow> keeps f (config_by_codes cfgs idx pid codes)"
  by (induction codes) (auto intro!: keeps_intros split: option.splits)

lemma keeps_config_by_planogram [keeps_intros]: "keeps f (config_by_planogram mid idx pid codes)"
proof (induction codes)
  case (Cons c cs)
  then show ?case
    unfolding config_by_planogram.simps q_GetPublishedPlanogramSlot_def by (intro keeps_intros)
qed (simp only: config_by_planogram.simps kept.moves_ret)

lemma keeps_resolve_config [keeps_intros]:
  "stock_blind f \<Longrightarrow> keeps f (resolveVendSlotConfigWithFallbacks mid idx pid cfgs)"
  unfolding resolveVendSlotConfigWithFallbacks_def resolveMachineGridCols_def q_GetActiveGridCols_def
  by (intro keeps_intros)

lemma keeps_resolve_planogram [keeps_intros]: "keeps f (resolveVendLegacyPlanogramID mid slots)"
  unfolding resolveVendLegacyPlanogramID_def q_GetMachineLegacyPlanogramID_def
    q_GetPublishedPlanogramID_def Let_def
  by (intro keeps_intros)

lemma keeps_resolve_snapshot [keeps_intros]:
  "stock_blind f \<Longrightarrow> keeps f (resolveVendSlotSnapshot mid idx pid)"
  unfolding resolveVendSlotSnapshot_def q_ListMachineSlots_def q_ListCurrentSlotConfigs_def Let_def
  by (intro keeps_intros)

lemma keeps_inventory_tx [keeps_intros]:
  "stock_blind f \<Longrightarrow> keeps f (applyCommerceVendSuccessInventoryTx scope mid oid idx line pid key corr)"
  unfolding applyCommerceVendSuccessInventoryTx_def q_GetMachineByIDForUpdate_def vend_of_sale_def
    q_GetVendSessionByOrderAndLineSequence_def q_GetVendSessionByOrderAndSlot_def q_CountInventoryEvents_def
    record_sale_def Let_def
  by (intro keeps_intros)

section \<open>Where the stock goes\<close>

definition stock :: "db \<Rightarrow> uuid \<times> uuid \<times> int \<Rightarrow> int option" where
  "stock s k = map_option ss_CurrentQuantity (find (\<lambda>r. slot_key r = k) (db_slots s))"

definition slots_unique :: "db \<Rightarrow> bool" where
  "slots_unique s \<longleftrightarrow> distinct (map slot_key (db_slots s))"

definition sales_of :: "uuid \<Rightarrow> string \<Rightarrow> db \<Rightarrow> nat" where
  "sales_of mid key s =
     length (filter (\<lambda>e. ie_MachineID e = mid \<and> ie_IdempotencyKey e = Some key) (db_inventory s))"

text \<open>The machine lists a stock row for this slot and product.\<close>

definition slot_stocked :: "db \<Rightarrow> uuid \<Rightarrow> int \<Rightarrow> uuid \<Rightarrow> bool" where
  "slot_stocked s mid idx pid \<longleftrightarrow>
     list_ex (\<lambda>st. ss_MachineID st = mid \<and> ss_SlotIndex st = idx
       \<and> list_ex (\<lambda>sn. sn_ProductID sn = Some pid) (slot_listing s st)) (db_slots s)"

lemma find_upsert:
  "find (\<lambda>r. slot_key r = k) (upsert_slot row rows) =
     (if k = slot_key row then Some row else find (\<lambda>r. slot_key r = k) rows)"
proof (cases "list_ex (\<lambda>r. slot_key r = slot_key row) rows")
  case True
  then have "find (\<lambda>r. slot_key r = k) (upd_where (\<lambda>r. slot_key r = slot_key row) (\<lambda>_. row) rows) =
      (if k = slot_key row then Some row else find (\<lambda>r. slot_key r = k) rows)"
  proof (induction rows)
    case (Cons a rows)
    then show ?case
      using find_cong_upd [of "\<lambda>r. slot_key r = slot_key row" "\<lambda>r. slot_key r = k" "\<lambda>_. row" rows] by auto
  qed simp
  with True show ?thesis by (simp add: upsert_slot_def)
next
  case False
  then have "find (\<lambda>r. slot_key r = k) (rows @ [row]) =
      (if k = slot_key row then Some row else find (\<lambda>r. slot_key r = k) rows)"
    by (induction rows) auto
  with False show ?thesis by (simp add: upsert_slot_def)
qed

lemma upsert_unique: "distinct (map slot_key rows) \<Longrightarrow> distinct (map slot_key (upsert_slot row rows))"
proof (cases "list_ex (\<lambda>r. slot_key r = slot_key row) rows")
  case True
  assume "distinct (map slot_key rows)"
  moreover have "map slot_key (upd_where (\<lambda>r. slot_key r = slot_key row) (\<lambda>_. row) rows) = map slot_key rows"
    by (rule map_upd_where) simp
  ultimately show ?thesis using True by (simp add: upsert_slot_def)
qed (auto simp: upsert_slot_def list_ex_iff)

lemma find_unique_row:
  "distinct (map slot_key rows) \<Longrightarrow> r \<in> set rows \<Longrightarrow> find (\<lambda>x. slot_key x = slot_key r) rows = Some r"
  by (induction rows) (auto simp: image_iff)

lemma stock_upsert: "stock (s\<lparr>db_slots := upsert_slot row (db_slots s)\<rparr>) k =
    (if k = slot_key row then Some (ss_CurrentQuantity row) else stock s k)"
  by (simp add: stock_def find_upsert)

lemma stock_cong: "db_slots t = db_slots s \<Longrightarrow> stock t k = stock s k"
  by (simp add: stock_def)

lemma slot_listing_row_of:
  "sn \<in> set (slot_listing s st) \<Longrightarrow>
     sn_MachineID sn = ss_MachineID st \<and> sn_PlanogramID sn = ss_PlanogramID st
     \<and> sn_SlotIndex sn = ss_SlotIndex st \<and> sn_CurrentQuantity sn = ss_CurrentQuantity st"
  by (auto simp: slot_listing_def slot_listing_row_def)

lemma pick_snapshot_Inr:
  "pickSlotSnapshotForVend rs idx pid = Inr sn \<Longrightarrow>
     sn \<in> set rs \<and> sn_SlotIndex sn = idx \<and> sn_ProductID sn = Some pid"
  by (induction rs) (auto split: if_splits)

lemma pick_snapshot_Inl:
  "pickSlotSnapshotForVend rs idx pid = Inl e \<Longrightarrow>
     \<not> (\<exists>sn \<in> set rs. sn_SlotIndex sn = idx \<and> sn_ProductID sn = Some pid)"
  by (induction rs) (auto split: if_splits)

lemma upsert_run_Inr [io_inv]:
  "q_UpsertMachineSlotState row s = (Inr x, t) \<longleftrightarrow>
     0 \<le> ss_SlotIndex row \<and> t = s\<lparr>db_slots := upsert_slot row (db_slots s)\<rparr>"
  by (auto simp: q_UpsertMachineSlotState_def)

text \<open>The slot a sale is booked on, and its stock when the booking starts.\<close>

lemma keeps_config_slots:
  "keeps db_slots (resolveVendSlotConfigWithFallbacks mid idx pid cfgs)"
proof -
  have codes: "keeps db_slots (config_by_codes cfgs idx pid codes)" for codes
    by (induction codes)
      (auto intro!: keeps_intros simp: q_RelinkSlotConfig_def split: option.splits)
  show ?thesis
    unfolding resolveVendSlotConfigWithFallbacks_def resolveMachineGridCols_def q_GetActiveGridCols_def
    by (intro codes keeps_intros)
qed

lemma resolve_snapshot_run:
  assumes run: "resolveVendSlotSnapshot mid idx pid s = (Inr sn, t)" and uniq: "slots_unique s"
  shows "sn_MachineID sn = mid \<and> sn_SlotIndex sn = idx \<and> slots_unique t
    \<and> stock t (mid, sn_PlanogramID sn, idx) = Some (sn_CurrentQuantity sn)
    \<and> (\<forall>k. k \<noteq> (mid, sn_PlanogramID sn, idx) \<longrightarrow> stock t k = stock s k)
    \<and> (slot_stocked s mid idx pid \<longrightarrow> t = s)"
proof -
  define rows where "rows = sort_key ss_PlanogramID (sort_key ss_SlotIndex (filter (\<lambda>r. ss_MachineID r = mid) (db_slots s)))"
  define slots where "slots = concat (map (slot_listing s) rows)"
  have setrows: "set rows = {r \<in> set (db_slots s). ss_MachineID r = mid}" by (simp add: rows_def)
  from run have run': "(case pickSlotSnapshotForVend slots idx pid of Inr snap \<Rightarrow> ret snap
       | Inl _ \<Rightarrow> bnd (q_ListCurrentSlotConfigs mid) (\<lambda>cfgs.
           bnd (resolveVendSlotConfigWithFallbacks mid idx pid cfgs) (\<lambda>cfg.
           bnd (resolveVendLegacyPlanogramID mid slots) (\<lambda>planogramID.
           let sn = provisioned_slot mid planogramID idx pid cfg
           in seq (q_UpsertMachineSlotState (snapshot_state sn (sn_CurrentQuantity sn))) (ret sn))))) s = (Inr sn, t)"
    unfolding resolveVendSlotSnapshot_def q_ListMachineSlots_def slots_def rows_def bnd_reads .
  show ?thesis
  proof (cases "pickSlotSnapshotForVend slots idx pid")
    case (Inr snap)
    with run' have t: "t = s" "snap = sn" by auto
    from pick_snapshot_Inr [OF Inr] t obtain st where st: "st \<in> set rows" "sn \<in> set (slot_listing s st)"
      and idx: "sn_SlotIndex sn = idx" by (auto simp: slots_def)
    note row = slot_listing_row_of [OF st(2)]
    have "st \<in> set (db_slots s)" "ss_MachineID st = mid" using st(1) setrows by auto
    with uniq have "stock s (slot_key st) = Some (ss_CurrentQuantity st)"
      by (simp add: stock_def slots_unique_def find_unique_row)
    with row idx t \<open>ss_MachineID st = mid\<close> uniq show ?thesis by (simp add: slot_key_def)
  next
    case (Inl e)
    with run' obtain cfgs s1 cfg s2 pg s3 where steps:
      "q_ListCurrentSlotConfigs mid s = (Inr cfgs, s1)"
      "resolveVendSlotConfigWithFallbacks mid idx pid cfgs s1 = (Inr cfg, s2)"
      "resolveVendLegacyPlanogramID mid slots s2 = (Inr pg, s3)"
      and sn: "sn = provisioned_slot mid pg idx pid cfg"
      and t: "t = s3\<lparr>db_slots := upsert_slot (snapshot_state sn (sn_CurrentQuantity sn)) (db_slots s3)\<rparr>"
      by (auto simp: io_inv Let_def)
    have "db_slots s1 = db_slots s" using steps(1) by (auto simp: q_ListCurrentSlotConfigs_def)
    moreover have "db_slots s2 = db_slots s1" using keeps_run [OF keeps_config_slots steps(2)] .
    moreover have "db_slots s3 = db_slots s2" using keeps_run [OF keeps_resolve_planogram steps(3)] .
    ultimately have s3: "db_slots s3 = db_slots s" by simp
    have key: "slot_key (snapshot_state sn q) = (mid, sn_PlanogramID sn, idx)" for q
      by (simp add: slot_key_def snapshot_state_def sn provisioned_slot_def)
    have "\<not> slot_stocked s mid idx pid"
      using pick_snapshot_Inl [OF Inl] slot_listing_row_of
      by (fastforce simp: slot_stocked_def slots_def setrows list_ex_iff)
    moreover have "stock t k = (if k = (mid, sn_PlanogramID sn, idx) then Some (sn_CurrentQuantity sn) else stock s k)" for k
      by (simp add: t s3 stock_def find_upsert key) (simp add: snapshot_state_def)
    moreover have "slots_unique t"
      using uniq by (simp add: t s3 slots_unique_def upsert_unique)
    moreover have "sn_MachineID sn = mid \<and> sn_SlotIndex sn = idx"
      by (simp add: sn provisioned_slot_def)
    ultimately show ?thesis by simp
  qed
qed

text \<open>A booked sale: one event and one unit less, on a slot that had a unit.\<close>

lemma record_sale_run:
  assumes "record_sale mid oid idx pid key corr sn u = (Inr r, t)"
  shows "\<not> r \<and> 1 \<le> sn_CurrentQuantity sn
    \<and> db_inventory t = db_inventory u @ [sale_event mid oid idx pid key corr (sn_CurrentQuantity sn - 1) (db_now u)]
    \<and> (\<forall>k. stock t k = (if k = (mid, sn_PlanogramID sn, idx) then Some (sn_CurrentQuantity sn - 1) else stock u k))
    \<and> (slots_unique u \<longrightarrow> slots_unique t)"
proof -
  let ?row = "\<lparr>ss_MachineID = mid, ss_PlanogramID = sn_PlanogramID sn, ss_SlotIndex = idx,
                ss_CurrentQuantity = sn_CurrentQuantity sn - 1, ss_PriceMinor = sn_PriceMinor sn,
                ss_PlanogramRevisionApplied = sn_PlanogramRevisionApplied sn\<rparr>"
  have key: "slot_key ?row = (mid, sn_PlanogramID sn, idx)" by (simp add: slot_key_def)
  from assms have "1 \<le> sn_CurrentQuantity sn \<and> \<not> r"
    and "t = u\<lparr>db_inventory := db_inventory u @ [sale_event mid oid idx pid key corr (sn_CurrentQuantity sn - 1) (db_now u)],
               db_slots := upsert_slot ?row (db_slots u)\<rparr>"
    by (auto simp: record_sale_def q_InsertInventoryEvent_def Let_def io_inv split: if_splits)
  then show ?thesis
    by (simp add: stock_def find_upsert key slots_unique_def upsert_unique)
qed

lemma inventory_tx_run:
  assumes "applyCommerceVendSuccessInventoryTx scope mid oid idx line pid key corr s = (Inr r, t)"
  shows "TrimSpace key \<noteq> [] \<and> mid \<in> set (db_machines s) \<and> scope = uuid_Nil
    \<and> (\<exists>v. vend_of_sale oid idx line s = (Inr v, s) \<and> v_MachineID v = mid \<and> v_ProductID v = pid \<and> v_State v = ''success'')
    \<and> (if r then t = s \<and> sales_of mid key s > 0
       else sales_of mid key s = 0 \<and> (\<exists>sn u. resolveVendSlotSnapshot mid idx pid s = (Inr sn, u)
              \<and> record_sale mid oid idx pid key corr sn u = (Inr False, t)))"
  using assms record_sale_run
  by (fastforce simp: applyCommerceVendSuccessInventoryTx_def q_GetMachineByIDForUpdate_def vend_of_sale_def
      q_GetVendSessionByOrderAndLineSequence_def q_GetVendSessionByOrderAndSlot_def
      q_CountInventoryEvents_def sales_of_def io_inv split: if_splits dest: find_SomeD)

lemma keeps_inventory_snapshot: "keeps db_inventory (resolveVendSlotSnapshot mid idx pid)"
proof -
  have codes: "keeps db_inventory (config_by_codes cfgs idx pid cs)" for cfgs cs
    by (induction cs) (auto intro!: keeps_intros simp: q_RelinkSlotConfig_def split: option.splits)
  have ups: "keeps db_inventory (q_UpsertMachineSlotState row)" for row
    by (simp add: q_UpsertMachineSlotState_def moves_def)
  show ?thesis
    unfolding resolveVendSlotSnapshot_def q_ListMachineSlots_def q_ListCurrentSlotConfigs_def
      resolveVendSlotConfigWithFallbacks_def resolveMachineGridCols_def q_GetActiveGridCols_def Let_def
    by (intro codes ups keeps_intros)
qed

lemma inventory_tx_sale:
  assumes "applyCommerceVendSuccessInventoryTx scope mid oid idx line pid key corr s = (Inr False, t)"
  shows "\<exists>ev. db_inventory t = db_inventory s @ [ev] \<and> ie_MachineID ev = mid \<and> ie_IdempotencyKey ev = Some key
    \<and> ie_QuantityDelta ev = - 1 \<and> 0 \<le> ie_QuantityAfter ev \<and> ie_OrderID ev = oid"
proof -
  from inventory_tx_run [OF assms] obtain sn u where
    sn: "resolveVendSlotSnapshot mid idx pid s = (Inr sn, u)"
    and sale: "record_sale mid oid idx pid key corr sn u = (Inr False, t)" by auto
  from keeps_run [OF keeps_inventory_snapshot sn] record_sale_run [OF sale] show ?thesis
    by (simp add: sale_event_def)
qed

lemma inventory_tx_counted:
  assumes "applyCommerceVendSuccessInventoryTx scope mid oid idx line pid key corr s = (Inr r, t)"
  shows "0 < sales_of mid key t" and "sales_of mid key s > 0 \<Longrightarrow> t = s"
  using inventory_tx_run [OF assms] assms inventory_tx_sale [of scope mid oid idx line pid key corr s t]
  by (auto simp: sales_of_def split: if_splits)

text \<open>Once the key has an event, the sale is a replay.\<close>

lemma inventory_tx_replay:
  assumes "TrimSpace key \<noteq> []" "mid \<in> set (db_machines s)" "sales_of mid key s > 0"
    and "vend_of_sale oid idx line s = (Inr v, s)" "v_MachineID v = mid" "v_ProductID v = pid" "v_State v = ''success''"
  shows "applyCommerceVendSuccessInventoryTx uuid_Nil mid oid idx line pid key corr s = (Inr True, s)"
proof -
  have "find (\<lambda>m. m = mid) ms = Some mid" if "mid \<in> set ms" for ms
    using that by (induction ms) auto
  with assms(2) have "q_GetMachineByIDForUpdate mid s = (Inr mid, s)"
    by (simp add: q_GetMachineByIDForUpdate_def select_one_def)
  with assms show ?thesis
    by (simp add: applyCommerceVendSuccessInventoryTx_def seq_def q_CountInventoryEvents_def sales_of_def)
qed

lemma vend_of_sale_cong:
  "vend_of_sale oid idx line s = (Inr v, s) \<Longrightarrow> db_vends t = db_vends s \<Longrightarrow> vend_of_sale oid idx line t = (Inr v, t)"
  by (auto simp: vend_of_sale_def q_GetVendSessionByOrderAndLineSequence_def
      q_GetVendSessionByOrderAndSlot_def select_one_def split: option.splits if_splits)

section \<open>Properties\<close>

text \<open>
  The stock decrement of a successful vend is idempotent on its key. A run that reports no
  replay leaves exactly one inventory event of the machine under the key; a run that reports a
  replay changed nothing and found one; and a repetition of the same call after any successful run
  is a replay that changes nothing.
\<close>

theorem vend_sale_recorded_once:
  assumes "applyCommerceVendSuccessInventoryTx scope mid oid idx line pid key corr s = (Inr r, t)"
  shows "(if r then t = s \<and> sales_of mid key s > 0 else sales_of mid key s = 0 \<and> sales_of mid key t = 1)
    \<and> applyCommerceVendSuccessInventoryTx scope mid oid idx line pid key corr t = (Inr True, t)"
proof -
  note run = inventory_tx_run [OF assms]
  have kept: "db_machines t = db_machines s" "db_vends t = db_vends s"
    using keeps_run [OF keeps_inventory_tx assms] stock_blind_tables by blast+
  have count: "sales_of mid key t > 0" "\<not> r \<Longrightarrow> sales_of mid key t = 1"
    using run assms inventory_tx_sale [of scope mid oid idx line pid key corr s t]
    by (auto simp: sales_of_def split: if_splits)
  obtain v where "vend_of_sale oid idx line s = (Inr v, s)"
    and v: "v_MachineID v = mid" "v_ProductID v = pid" "v_State v = ''success''" using run by auto
  from vend_of_sale_cong [OF this(1) kept(2)]
  have "applyCommerceVendSuccessInventoryTx scope mid oid idx line pid key corr t = (Inr True, t)"
    using run count(1) v kept(1) by (simp add: inventory_tx_replay)
  with run count show ?thesis by auto
qed

text \<open>A dispensed line of the sample order sells one unit, and a repetition is a replay.\<close>

definition dispensed_db :: db where
  "dispensed_db = sample_db\<lparr>db_vends := [sample_vend\<lparr>v_State := ''success''\<rparr>]\<rparr>"

abbreviation sample_sale :: "bool q" where
  "sample_sale \<equiv> applyCommerceVendSuccessInventoryTx uuid_Nil (UUID ''m1'') (UUID ''o1'') 3 0 (UUID ''p1'') ''sale-1'' None"

lemma sample_sale_run: "sample_sale dispensed_db = (Inr False, snd (sample_sale dispensed_db))"
proof -
  have "fst (sample_sale dispensed_db) = Inr False" by code_simp
  then show ?thesis by (metis prod.collapse)
qed

theorem vend_sale_recorded_once_witness:
  "sample_sale dispensed_db = (Inr False, snd (sample_sale dispensed_db))
   \<and> sales_of (UUID ''m1'') ''sale-1'' (snd (sample_sale dispensed_db)) = 1
   \<and> sample_sale (snd (sample_sale dispensed_db)) = (Inr True, snd (sample_sale dispensed_db))"
  using vend_sale_recorded_once [OF sample_sale_run] sample_sale_run by simp

text \<open>
  C24: A sale takes exactly one unit off exactly one slot. When the call books a sale, there is a
  planogram whose row for the machine and slot holds \<open>q - 1\<close> units afterwards with \<open>q\<close> at least one,
  every other slot's stock is what it was, the row keys stay unique, and the appended event records
  the same quantity. When the machine lists the slot with that product, \<open>q\<close> is the stock the slot had.
\<close>

theorem vend_sale_takes_one_unit:
  assumes "applyCommerceVendSuccessInventoryTx scope mid oid idx line pid key corr s = (Inr False, t)"
    and "slots_unique s"
  shows "\<exists>pg q ev. 1 \<le> q \<and> stock t (mid, pg, idx) = Some (q - 1)
    \<and> (\<forall>k. k \<noteq> (mid, pg, idx) \<longrightarrow> stock t k = stock s k)
    \<and> db_inventory t = db_inventory s @ [ev] \<and> ie_QuantityDelta ev = - 1 \<and> ie_QuantityAfter ev = q - 1
    \<and> slots_unique t \<and> (slot_stocked s mid idx pid \<longrightarrow> stock s (mid, pg, idx) = Some q)"
proof -
  from inventory_tx_run [OF assms(1)] obtain sn u where
    sn: "resolveVendSlotSnapshot mid idx pid s = (Inr sn, u)"
    and sale: "record_sale mid oid idx pid key corr sn u = (Inr False, t)" by auto
  have inv: "db_inventory u = db_inventory s" using keeps_run [OF keeps_inventory_snapshot sn] .
  note r = resolve_snapshot_run [OF sn assms(2)] and b = record_sale_run [OF sale]
  show ?thesis
    by (rule exI [of _ "sn_PlanogramID sn"], rule exI [of _ "sn_CurrentQuantity sn"],
        rule exI [of _ "sale_event mid oid idx pid key corr (sn_CurrentQuantity sn - 1) (db_now u)"])
      (use r b inv in \<open>auto simp: sale_event_def\<close>)
qed

theorem vend_sale_takes_one_unit_witness:
  "slots_unique dispensed_db \<and> slot_stocked dispensed_db (UUID ''m1'') 3 (UUID ''p1'')
   \<and> (\<exists>pg q ev. stock dispensed_db (UUID ''m1'', pg, 3) = Some q
        \<and> stock (snd (sample_sale dispensed_db)) (UUID ''m1'', pg, 3) = Some (q - 1)
        \<and> db_inventory (snd (sample_sale dispensed_db)) = [ev] \<and> ie_QuantityAfter ev = q - 1)"
proof -
  have u: "slots_unique dispensed_db" and k: "slot_stocked dispensed_db (UUID ''m1'') 3 (UUID ''p1'')"
    by code_simp+
  have "db_inventory dispensed_db = []" by code_simp
  with vend_sale_takes_one_unit [OF sample_sale_run u] u k show ?thesis by fastforce
qed

end
