(* ===== verification/Vend_Fulfillment.thy ===== *)
theory Vend_Fulfillment
  imports Slot_Inventory Vend_Evidence
begin

text \<open>
  The two transactions that end a vend line, \<open>internal/modules/postgres/commerce_vend_fulfillment.go\<close>
  with the outbox, evidence and ledger helpers of \<open>commerce_vend_outbox.go\<close> and
  \<open>financial_ledger_tx.go\<close>. A success needs a captured payment, moves the line and, when no line is
  open, the order, sells one unit, and records evidence, a ledger entry, a timeline event and outbox
  events; a failure moves the line and the order and says whether money is owed back. The
  application's clock and the database's are the field \<open>db_now\<close>.
\<close>

section \<open>Outbox, evidence and ledger helpers\<close>

record insert_outbox_params =
  io_Topic :: string
  io_EventType :: string
  io_Payload :: json
  io_AggregateType :: string
  io_AggregateID :: uuid
  io_IdempotencyKey :: string
  io_Simulated :: bool
  io_SimulationRun :: string
  io_SimulationScen :: string

definition pgTextOrEmpty :: "string \<Rightarrow> string option" where
  "pgTextOrEmpty s = (if TrimSpace s = [] then None else Some (TrimSpace s))"

definition pgtypeTextString :: "string option \<Rightarrow> string" where
  "pgtypeTextString t = (case t of None \<Rightarrow> [] | Some s \<Rightarrow> TrimSpace s)"

definition derefStr :: "string option \<Rightarrow> string" where
  "derefStr p = (case p of None \<Rightarrow> [] | Some s \<Rightarrow> TrimSpace s)"

definition insertOutboxEventIdempotent :: "insert_outbox_params \<Rightarrow> unit q" where
  "insertOutboxEventIdempotent p =
     (let topic = TrimSpace (io_Topic p); evType = TrimSpace (io_EventType p);
          idem = TrimSpace (io_IdempotencyKey p)
      in if topic = [] \<or> evType = [] \<or> idem = [] then ret ()
         else bnd (attempt (q_InsertOutboxEventIdempotent topic evType (RequiredString (Bytes (io_Payload p)))
                     (TrimSpace (io_AggregateType p)) (io_AggregateID p) (Some idem) (io_Simulated p)
                     (pgTextOrEmpty (io_SimulationRun p)) (pgTextOrEmpty (io_SimulationScen p)))) (\<lambda>r. case r of
             Inr _ \<Rightarrow> ret ()
           | Inl e \<Rightarrow> if errors_Is e ErrNoRows
                      then seq (q_GetOutboxByTopicAndIdempotency topic (Some idem)) (ret ())
                      else raise e))"

definition persistVendHardwareEvidenceTx ::
  "uuid \<Rightarrow> uuid \<Rightarrow> uuid \<Rightarrow> int \<Rightarrow> vend_hardware_evidence option \<Rightarrow> string \<Rightarrow> bool q" where
  "persistVendHardwareEvidenceTx orderID vendSessionID machineID slotIndex evidence dedupeKey =
     (case evidence of
        None \<Rightarrow> ret False
      | Some ev \<Rightarrow>
          if TrimSpace dedupeKey = [] then raise (GoErr ErrOther ''postgres: evidence dedupe key required'')
          else bnd (attempt (q_InsertVendHardwareEvidence
                 \<lparr>er_OrderID = orderID, er_VendSessionID = vendSessionID, er_MachineID = machineID,
                  er_SlotIndex = slotIndex, er_VendAttemptID = he_VendAttemptID ev,
                  er_CorrelationID = he_CorrelationID ev, er_CommandID = TrimSpace (hc_CommandID (he_Command ev)),
                  er_EvidenceDigest = EvidenceDigest (Some ev), er_Raw = ev, er_DedupeKey = TrimSpace dedupeKey\<rparr>)) (\<lambda>r.
               case r of
                 Inr _ \<Rightarrow> ret True
               | Inl e \<Rightarrow> if errors_Is e ErrNoRows then ret False else raise e))"

definition vendSuccessOutboxPayload ::
  "uuid \<Rightarrow> int \<Rightarrow> uuid \<Rightarrow> string \<Rightarrow> vend_hardware_evidence option \<Rightarrow> string \<Rightarrow> json" where
  "vendSuccessOutboxPayload orderID slotIndex machineID verificationStatus evidence key =
     JObj ((case evidence of None \<Rightarrow> []
            | Some e \<Rightarrow> [(''command_id'', JStr (TrimSpace (hc_CommandID (he_Command e)))),
                         (''correlation_id'', JStr (uuid_String (he_CorrelationID e))),
                         (''evidence_digest'', JStr (EvidenceDigest (Some e)))])
       @ [(''idempotency_key'', JStr key), (''machine_id'', JStr (uuid_String machineID)),
          (''order_id'', JStr (uuid_String orderID)), (''slot_index'', JNum slotIndex)]
       @ (case evidence of None \<Rightarrow> [] | Some e \<Rightarrow> [(''vend_attempt_id'', JStr (uuid_String (he_VendAttemptID e)))])
       @ [(''verification_status'', JStr verificationStatus)])"

definition vendFailedOutboxPayload :: "uuid \<Rightarrow> int \<Rightarrow> string \<Rightarrow> bool \<Rightarrow> bool \<Rightarrow> json" where
  "vendFailedOutboxPayload orderID slotIndex failureReason refundRequired localCashRefund =
     JObj [(''failure_reason'', JStr failureReason), (''local_cash_refund_required_hint'', JBool localCashRefund),
           (''order_id'', JStr (uuid_String orderID)), (''refund_required'', JBool refundRequired),
           (''slot_index'', JNum slotIndex)]"

definition emitVendSuccessFinancialLedgerTx ::
  "uuid \<Rightarrow> uuid \<Rightarrow> uuid \<Rightarrow> int \<Rightarrow> string \<Rightarrow> uuid \<Rightarrow> string \<Rightarrow> unit q" where
  "emitVendSuccessFinancialLedgerTx machineID orderID paymentID amountMinor currency correlationID key =
     (if amountMinor \<le> 0 then ret ()
      else bnd (reads db_now) (\<lambda>now. q_InsertFinancialLedgerEntry
        \<lparr>le_EntryType = ''payment_captured'', le_SignedAmountMinor = amountMinor, le_Currency = currency,
         le_OccurredAt = now, le_MachineID = Some machineID, le_OrderID = Some orderID,
         le_PaymentID = Some paymentID,
         le_CorrelationID = (if correlationID \<noteq> uuid_Nil then Some correlationID else None),
         le_Metadata = JObj [(''idempotency_key'', JStr key), (''source'', JStr ''commerce_vend_fulfillment'')]\<rparr>))"

section \<open>Locking and the authoritative payment\<close>

record locked_vend_session =
  lv_id :: uuid
  lv_machineID :: uuid
  lv_slotIndex :: int
  lv_productID :: uuid
  lv_state :: string
  lv_replayVend :: vend_session

definition locked_of :: "vend_row \<Rightarrow> locked_vend_session" where
  "locked_of row =
     \<lparr>lv_id = v_ID row, lv_machineID = v_MachineID row, lv_slotIndex = v_SlotIndex row,
      lv_productID = v_ProductID row, lv_state = v_State row, lv_replayVend = mapVend row\<rparr>"

definition lockVendSessionForUpdate :: "uuid \<Rightarrow> int \<Rightarrow> int \<Rightarrow> locked_vend_session q" where
  "lockVendSessionForUpdate orderID slotIndex lineSequence =
     (if lineSequence > 0
      then bnd (no_rows_as ErrNotFound (q_GetVendSessionByOrderAndLineSequence orderID lineSequence)) (\<lambda>row. ret (locked_of row))
      else bnd (no_rows_as ErrNotFound (q_GetVendSessionByOrderAndSlot orderID slotIndex)) (\<lambda>row. ret (locked_of row)))"

definition lockSuccessfulVendSessionForUpdate :: "fulfill_successful_vend_input \<Rightarrow> locked_vend_session q" where
  "lockSuccessfulVendSessionForUpdate inp =
     lockVendSessionForUpdate (fs_OrderID inp) (fs_SlotIndex inp) (fs_LineSequence inp)"

definition lockFailedVendSessionForUpdate :: "fulfill_failed_vend_input \<Rightarrow> locked_vend_session q" where
  "lockFailedVendSessionForUpdate inp =
     lockVendSessionForUpdate (ff_OrderID inp) (ff_SlotIndex inp) (ff_LineSequence inp)"

text \<open>The last row, from the newest back, whose state is captured or partly refunded.\<close>

definition latest_settled :: "payment list \<Rightarrow> payment option" where
  "latest_settled ps = find (\<lambda>p. settled_state (TrimSpace (p_State p))) (rev ps)"

definition settled_or_latest :: "uuid \<Rightarrow> payment q" where
  "settled_or_latest orderID =
     bnd (q_ListPaymentsForOrder orderID) (\<lambda>ps. case latest_settled ps of
         Some p \<Rightarrow> ret p
       | None \<Rightarrow> q_GetLatestPaymentForOrder orderID)"

definition resolveAuthoritativePaymentRow :: "uuid \<Rightarrow> uuid option \<Rightarrow> payment q" where
  "resolveAuthoritativePaymentRow orderID winning =
     (case winning of
        None \<Rightarrow> settled_or_latest orderID
      | Some payID \<Rightarrow>
          if payID = uuid_Nil then settled_or_latest orderID
          else bnd (attempt (q_GetPaymentByID payID)) (\<lambda>r. case r of
              Inr row \<Rightarrow> if p_OrderID row = orderID then ret row else settled_or_latest orderID
            | Inl e \<Rightarrow> if errors_Is e ErrNoRows then settled_or_latest orderID else raise e))"

section \<open>Success\<close>

text \<open>When no line is open, the order takes the status its lines give it.\<close>

definition settle_order_status :: "order \<Rightarrow> uuid \<Rightarrow> order q" where
  "settle_order_status ordRow orderID =
     bnd (q_ListVendSessionsByOrder orderID) (\<lambda>sessions.
       if \<not> multiLineOrderHasOpenVendLines (map v_State sessions)
       then let nextStatus = resolveMultiLineTerminalOrderStatus (map v_State sessions)
            in if nextStatus \<noteq> o_Status ordRow then q_UpdateOrderStatusByOrg nextStatus orderID else ret ordRow
       else ret ordRow)"

definition mark_vend_line :: "string \<Rightarrow> string option \<Rightarrow> uuid \<Rightarrow> int \<Rightarrow> int \<Rightarrow> vend_session q" where
  "mark_vend_line st fr orderID slotIndex lineSequence =
     (if lineSequence > 0
      then bnd (q_UpdateVendSessionStateByOrderLineSequence st fr orderID lineSequence) (\<lambda>v. ret (mapVend v))
      else bnd (q_UpdateVendSessionStateByOrderSlot st fr orderID slotIndex) (\<lambda>v. ret (mapVend v)))"

definition success_transition ::
  "fulfill_successful_vend_input \<Rightarrow> order \<Rightarrow> locked_vend_session \<Rightarrow> payment \<Rightarrow> (order \<times> vend_session) q" where
  "success_transition inp ordRow vendLocked payRow =
     (if lv_state vendLocked = ''in_progress''
      then if p_State payRow \<noteq> ''captured'' then raise (Err ErrPaymentNotSettled)
           else bnd (mark_vend_line ''success'' None (fs_OrderID inp) (fs_SlotIndex inp) (fs_LineSequence inp)) (\<lambda>finalVend.
                bnd (settle_order_status ordRow (fs_OrderID inp)) (\<lambda>finalOrd. ret (finalOrd, finalVend)))
      else if lv_state vendLocked = ''success'' \<and> \<not> isTerminalOrderStatus (o_Status ordRow)
      then if p_State payRow \<noteq> ''captured'' then raise (Err ErrPaymentNotSettled)
           else bnd (settle_order_status ordRow (fs_OrderID inp)) (\<lambda>finalOrd. ret (finalOrd, lv_replayVend vendLocked))
      else ret (ordRow, lv_replayVend vendLocked))"

definition set_verification :: "string \<Rightarrow> uuid \<Rightarrow> int \<Rightarrow> int \<Rightarrow> unit q" where
  "set_verification vs orderID slotIndex lineSequence =
     (if lineSequence > 0
      then seq (q_SetVendSessionVerificationStatusByLineSequence vs orderID lineSequence) (ret ())
      else seq (q_SetVendSessionVerificationStatus vs orderID slotIndex) (ret ()))"

definition verification_or_default :: "string \<Rightarrow> string" where
  "verification_or_default vs = (if TrimSpace vs = [] then VerificationUnverified else TrimSpace vs)"

definition success_timeline :: "fulfill_successful_vend_input \<Rightarrow> order \<Rightarrow> locked_vend_session \<Rightarrow> bool \<Rightarrow> bool \<Rightarrow> unit q" where
  "success_timeline inp ordRow vendLocked invReplay orderVendReplay =
     bnd (reads db_now) (\<lambda>now. q_InsertOrderTimelineEvent
       \<lparr>tl_OrderID = fs_OrderID inp, tl_EventType = ''commerce_vend_dispense_succeeded'', tl_ActorType = ''system'',
        tl_Payload = JObj [(''idempotency_key'', JStr (TrimSpace (fs_InventoryDedupeKey inp))),
          (''inventory_replay'', JBool invReplay), (''line_sequence'', JNum (fs_LineSequence inp)),
          (''machine_id'', JStr (uuid_String (o_MachineID ordRow))), (''order_vend_replay'', JBool orderVendReplay),
          (''slot_index'', JNum (lv_slotIndex vendLocked)),
          (''verification_status'', JStr (verification_or_default (fs_VerificationStatus inp)))],
        tl_OccurredAt = now\<rparr>)"

definition success_outbox_key :: "fulfill_successful_vend_input \<Rightarrow> string" where
  "success_outbox_key inp =
     (if TrimSpace (fs_OutboxIdempotencyKey inp) = [] then TrimSpace (fs_InventoryDedupeKey inp) @ '':vend_outbox''
      else TrimSpace (fs_OutboxIdempotencyKey inp))"

definition success_event :: "fulfill_successful_vend_input \<Rightarrow> order \<Rightarrow> string \<Rightarrow> json \<Rightarrow> string \<Rightarrow> insert_outbox_params" where
  "success_event inp ordRow evType payload idem =
     \<lparr>io_Topic = fs_OutboxTopic inp, io_EventType = evType, io_Payload = payload,
      io_AggregateType = fs_OutboxAggregateType inp, io_AggregateID = fs_OrderID inp, io_IdempotencyKey = idem,
      io_Simulated = o_Simulated ordRow, io_SimulationRun = pgtypeTextString (o_SimulationRunID ordRow),
      io_SimulationScen = pgtypeTextString (o_SimulationScenario ordRow)\<rparr>"

text \<open>An unverified dispense is reported for reconciliation and opens a case.\<close>

definition success_reconciliation :: "fulfill_successful_vend_input \<Rightarrow> order \<Rightarrow> locked_vend_session \<Rightarrow> unit q" where
  "success_reconciliation inp ordRow vendLocked =
     (let vs = verification_or_default (fs_VerificationStatus inp); key = TrimSpace (fs_InventoryDedupeKey inp);
          reconType = TrimSpace (fs_ReconciliationEventType inp)
      in if vs \<noteq> VerificationHardwareUnverified then ret ()
         else seq (whenM (reconType \<noteq> []) (insertOutboxEventIdempotent (success_event inp ordRow reconType
                (JObj [(''line_sequence'', JNum (fs_LineSequence inp)), (''order_id'', JStr (uuid_String (fs_OrderID inp))),
                  (''reason'', JStr ''hardware_evidence_missing_or_unverified''),
                  (''slot_index'', JNum (lv_slotIndex vendLocked)), (''verification_status'', JStr vs)])
                (success_outbox_key inp @ '':reconciliation''))))
          (seq (q_UpsertCommerceReconciliationCase
                \<lparr>rc_CaseType = ''vend_started_no_terminal_ack'', rc_Severity = ''warning'',
                 rc_OrderID = Some (fs_OrderID inp), rc_PaymentID = None, rc_VendSessionID = Some (lv_id vendLocked),
                 rc_RefundID = None, rc_MachineID = Some (o_MachineID ordRow), rc_Provider = None,
                 rc_ProviderEventID = None, rc_CorrelationKey = key @ '':reconciliation_case'',
                 rc_Reason = ''hardware_evidence_missing_or_unverified'',
                 rc_Metadata = JObj [(''line_sequence'', JNum (fs_LineSequence inp)),
                   (''slot_index'', JNum (lv_slotIndex vendLocked)), (''verification_status'', JStr vs)]\<rparr>)
           (ret ())))"

definition success_records ::
  "fulfill_successful_vend_input \<Rightarrow> order \<Rightarrow> locked_vend_session \<Rightarrow> payment \<Rightarrow> bool \<Rightarrow> bool \<Rightarrow> unit q" where
  "success_records inp ordRow vendLocked payRow invReplay orderVendReplay =
     (let key = TrimSpace (fs_InventoryDedupeKey inp); vs = verification_or_default (fs_VerificationStatus inp);
          machineID = o_MachineID ordRow; slotIndex = lv_slotIndex vendLocked
      in seq (set_verification vs (fs_OrderID inp) (fs_SlotIndex inp) (fs_LineSequence inp))
        (seq (persistVendHardwareEvidenceTx (fs_OrderID inp) (lv_id vendLocked) machineID slotIndex
               (fs_Evidence inp) (key @ '':hardware_evidence''))
        (seq (emitVendSuccessFinancialLedgerTx machineID (fs_OrderID inp) (p_ID payRow) (p_AmountMinor payRow)
               (p_Currency payRow) (case fs_CorrelationID inp of None \<Rightarrow> uuid_Nil | Some c \<Rightarrow> c)
               (key @ '':financial_ledger''))
        (seq (success_timeline inp ordRow vendLocked invReplay orderVendReplay)
        (seq (insertOutboxEventIdempotent (success_event inp ordRow (fs_OutboxEventType inp)
               (vendSuccessOutboxPayload (fs_OrderID inp) slotIndex machineID vs (fs_Evidence inp) key)
               (success_outbox_key inp)))
         (success_reconciliation inp ordRow vendLocked))))))"

definition success_tx :: "fulfill_successful_vend_input \<Rightarrow> fulfill_successful_vend_result q" where
  "success_tx inp =
     bnd (no_rows_as ErrNotFound (q_GetOrderByID (fs_OrderID inp))) (\<lambda>ordRow.
     bnd (lockSuccessfulVendSessionForUpdate inp) (\<lambda>vendLocked.
     if lv_machineID vendLocked \<noteq> o_MachineID ordRow
     then raise (GoErr ErrOther ''postgres: vend row machine mismatch order'')
     else if o_Status ordRow = ''cancelled'' then raise (Err ErrIllegalTransition)
     else if lv_state vendLocked \<noteq> ''success'' \<and> lv_state vendLocked \<noteq> ''in_progress''
     then raise (Err ErrIllegalTransition)
     else
       bnd (no_rows_as ErrPaymentNotSettled
              (resolveAuthoritativePaymentRow (fs_OrderID inp) (o_WinningPaymentID ordRow))) (\<lambda>payRow.
       bnd (success_transition inp ordRow vendLocked payRow) (\<lambda>(finalOrd, finalVend).
       bnd (applyCommerceVendSuccessInventoryTx uuid_Nil (o_MachineID ordRow) (fs_OrderID inp)
              (lv_slotIndex vendLocked) (fs_LineSequence inp) (lv_productID vendLocked)
              (TrimSpace (fs_InventoryDedupeKey inp)) (fs_CorrelationID inp)) (\<lambda>invReplay.
       let orderVendReplay = (lv_state vendLocked = ''success'' \<and> o_Status ordRow = ''completed'')
       in seq (whenM (\<not> (orderVendReplay \<and> invReplay))
                (success_records inp ordRow vendLocked payRow invReplay orderVendReplay))
          (ret \<lparr>fsr_Order = finalOrd, fsr_Vend = finalVend, fsr_InventoryReplay = invReplay,
                fsr_OrderVendReplay = orderVendReplay\<rparr>))))))"

definition FulfillSuccessfulVendAtomically :: "fulfill_successful_vend_input \<Rightarrow> fulfill_successful_vend_result q" where
  "FulfillSuccessfulVendAtomically inp =
     (if TrimSpace (fs_InventoryDedupeKey inp) = []
      then raise (GoErr ErrInvalidArgument ''inventory dedupe key is required'')
      else tx (success_tx inp))"

section \<open>Failure\<close>

definition resolveOrderStatusAfterFailedVend :: "order \<Rightarrow> uuid \<Rightarrow> order q" where
  "resolveOrderStatusAfterFailedVend ordRow orderID =
     bnd (q_ListVendSessionsByOrder orderID) (\<lambda>sessions.
       if length sessions \<le> 1 then q_UpdateOrderStatusByOrg ''failed'' orderID
       else if multiLineOrderHasOpenVendLines (map v_State sessions) then ret ordRow
       else let nextStatus = resolveMultiLineTerminalOrderStatus (map v_State sessions)
            in if nextStatus = o_Status ordRow then ret ordRow
               else q_UpdateOrderStatusByOrg nextStatus orderID)"

text \<open>Whether money is owed: told by the caller, or else by the authoritative payment.\<close>

definition fail_refund_flags :: "fulfill_failed_vend_input \<Rightarrow> order \<Rightarrow> (bool \<times> bool) q" where
  "fail_refund_flags inp ordRow =
     bnd (attempt (resolveAuthoritativePaymentRow (ff_OrderID inp) (o_WinningPaymentID ordRow))) (\<lambda>r.
       case r of
         Inl e \<Rightarrow> if \<not> errors_Is e ErrNoRows then raise e
                  else if \<not> ff_RefundRequired inp \<and> \<not> ff_LocalCashRefundRequired inp then ret (False, False)
                  else ret (ff_RefundRequired inp, ff_LocalCashRefundRequired inp)
       | Inr payRow \<Rightarrow>
           let payCaptured = (p_State payRow = ''captured'' \<or> p_State payRow = ''partially_refunded'');
               cashLocal = (payCaptured \<and> EqualFold (TrimSpace (p_Provider payRow)) ''cash'')
           in if \<not> ff_RefundRequired inp \<and> \<not> ff_LocalCashRefundRequired inp
              then ret (payCaptured \<and> \<not> cashLocal, cashLocal \<and> payCaptured)
              else ret (ff_RefundRequired inp, ff_LocalCashRefundRequired inp))"

definition fail_event :: "fulfill_failed_vend_input \<Rightarrow> order \<Rightarrow> string \<Rightarrow> json \<Rightarrow> string \<Rightarrow> insert_outbox_params" where
  "fail_event inp ordRow evType payload idem =
     \<lparr>io_Topic = ff_OutboxTopic inp, io_EventType = evType, io_Payload = payload,
      io_AggregateType = ff_OutboxAggregateType inp, io_AggregateID = ff_OrderID inp, io_IdempotencyKey = idem,
      io_Simulated = o_Simulated ordRow, io_SimulationRun = pgtypeTextString (o_SimulationRunID ordRow),
      io_SimulationScen = pgtypeTextString (o_SimulationScenario ordRow)\<rparr>"

definition fail_default_key :: "uuid \<Rightarrow> int \<Rightarrow> string" where
  "fail_default_key orderID slotIndex = ''commerce_vend_failed:'' @ uuid_String orderID @ ''|'' @ Sprintd slotIndex"

definition fail_key :: "fulfill_failed_vend_input \<Rightarrow> int \<Rightarrow> string" where
  "fail_key inp slotIndex =
     (if TrimSpace (ff_OutboxIdempotencyKey inp) = [] then fail_default_key (ff_OrderID inp) slotIndex
      else TrimSpace (ff_OutboxIdempotencyKey inp))"

definition fail_notices :: "fulfill_failed_vend_input \<Rightarrow> order \<Rightarrow> bool \<Rightarrow> bool \<Rightarrow> unit q" where
  "fail_notices inp ordRow refundRequired localCashRefund =
     bnd (reads db_now) (\<lambda>now.
     seq (q_InsertOrderTimelineEvent
       \<lparr>tl_OrderID = ff_OrderID inp, tl_EventType = ''commerce_vend_dispense_failed'', tl_ActorType = ''system'',
        tl_Payload = JObj [(''failure_reason'', JStr (derefStr (ff_FailureReason inp))),
          (''local_cash_refund_required_hint'', JBool localCashRefund),
          (''refund_required'', JBool refundRequired), (''slot_index'', JNum (ff_SlotIndex inp))],
        tl_OccurredAt = now\<rparr>)
     (seq (insertOutboxEventIdempotent (fail_event inp ordRow (ff_OutboxEventType inp)
            (vendFailedOutboxPayload (ff_OrderID inp) (ff_SlotIndex inp) (derefStr (ff_FailureReason inp))
               refundRequired localCashRefund)
            (fail_key inp (ff_SlotIndex inp))))
      (whenM ((refundRequired \<or> localCashRefund) \<and> TrimSpace (ff_ReconciliationEventType inp) \<noteq> [])
        (insertOutboxEventIdempotent (fail_event inp ordRow (TrimSpace (ff_ReconciliationEventType inp))
          (JObj [(''local_cash_refund_required_hint'', JBool localCashRefund),
             (''order_id'', JStr (uuid_String (ff_OrderID inp))), (''refund_required'', JBool refundRequired),
             (''slot_index'', JNum (ff_SlotIndex inp))])
          (fail_key inp (ff_SlotIndex inp) @ '':reconciliation''))))))"

definition fail_records :: "fulfill_failed_vend_input \<Rightarrow> order \<Rightarrow> locked_vend_session \<Rightarrow> unit q" where
  "fail_records inp ordRow vendLocked =
     (let vs = verification_or_default (ff_VerificationStatus inp); slotIndex = lv_slotIndex vendLocked
      in seq (set_verification vs (ff_OrderID inp) slotIndex (ff_LineSequence inp))
        (seq (persistVendHardwareEvidenceTx (ff_OrderID inp) (lv_id vendLocked) (o_MachineID ordRow) slotIndex
               (ff_Evidence inp) (fail_key inp slotIndex @ '':hardware_evidence''))
        (bnd (fail_refund_flags inp ordRow) (\<lambda>(refundRequired, localCashRefund).
           fail_notices inp ordRow refundRequired localCashRefund))))"

definition failed_tx :: "fulfill_failed_vend_input \<Rightarrow> fulfill_failed_vend_result q" where
  "failed_tx inp =
     bnd (no_rows_as ErrNotFound (q_GetOrderByID (ff_OrderID inp))) (\<lambda>ordRow.
     bnd (lockFailedVendSessionForUpdate inp) (\<lambda>vendLocked.
     if lv_machineID vendLocked \<noteq> o_MachineID ordRow
     then raise (GoErr ErrOther ''postgres: vend row machine mismatch order'')
     else if lv_state vendLocked = ''failed''
     then ret \<lparr>ffr_Order = ordRow, ffr_Vend = lv_replayVend vendLocked, ffr_Replay = True\<rparr>
     else if lv_state vendLocked \<noteq> ''in_progress'' then raise (Err ErrIllegalTransition)
     else
       bnd (mark_vend_line ''failed'' (case ff_FailureReason inp of None \<Rightarrow> None | Some r \<Rightarrow> pgTextOrEmpty r)
              (ff_OrderID inp) (lv_slotIndex vendLocked) (ff_LineSequence inp)) (\<lambda>finalV.
       bnd (resolveOrderStatusAfterFailedVend ordRow (ff_OrderID inp)) (\<lambda>finalOrd.
       seq (fail_records inp ordRow vendLocked)
         (ret \<lparr>ffr_Order = finalOrd, ffr_Vend = finalV, ffr_Replay = False\<rparr>)))))"

definition FulfillFailedVendAtomically :: "fulfill_failed_vend_input \<Rightarrow> fulfill_failed_vend_result q" where
  "FulfillFailedVendAtomically inp = tx (failed_tx inp)"

section \<open>What the records of a finished line touch\<close>

text \<open>A vend line without the columns that only describe its verification and timing.\<close>

definition line_view :: "vend_row \<Rightarrow> int \<times> vend_session" where
  "line_view v = (vr_LineSequence v, mapVend v)"

definition vend_lines :: "db \<Rightarrow> (int \<times> vend_session) list" where
  "vend_lines s = map line_view (db_vends s)"

text \<open>A projection that sees none of the journals a finished line writes.\<close>

definition journal_blind :: "(db \<Rightarrow> 'a) \<Rightarrow> bool" where
  "journal_blind f \<longleftrightarrow>
     (\<forall>s x. f (s\<lparr>db_outbox := x\<rparr>) = f s) \<and> (\<forall>s x. f (s\<lparr>db_serial := x\<rparr>) = f s)
     \<and> (\<forall>s x. f (s\<lparr>db_evidence := x\<rparr>) = f s) \<and> (\<forall>s x. f (s\<lparr>db_ledger := x\<rparr>) = f s)
     \<and> (\<forall>s x. f (s\<lparr>db_timelines := x\<rparr>) = f s) \<and> (\<forall>s x. f (s\<lparr>db_cases := x\<rparr>) = f s)
     \<and> (\<forall>s x. f (s\<lparr>db_uuid_next := x\<rparr>) = f s)
     \<and> (\<forall>s rows. map line_view rows = vend_lines s \<longrightarrow> f (s\<lparr>db_vends := rows\<rparr>) = f s)"

lemma journal_blind_tables:
  "journal_blind db_orders" "journal_blind db_payments" "journal_blind db_refunds"
  "journal_blind db_inventory" "journal_blind db_slots" "journal_blind db_slot_configs"
  "journal_blind db_machines" "journal_blind db_now" "journal_blind vend_lines"
  "journal_blind db_provider_events" "journal_blind db_planogram_slots"
  by (simp_all add: journal_blind_def vend_lines_def)

lemma keeps_insertOutbox [keeps_intros]:
  "journal_blind f \<Longrightarrow> keeps f (q_InsertOutboxEvent topic et payload agg aid idem sim run scen)"
  unfolding q_InsertOutboxEvent_def Let_def
  by (intro keeps_intros) (auto simp: journal_blind_def)

lemma keeps_insertOutboxIdem [keeps_intros]: "journal_blind f \<Longrightarrow> keeps f (insertOutboxEventIdempotent p)"
  unfolding insertOutboxEventIdempotent_def q_InsertOutboxEventIdempotent_def
    q_GetOutboxByTopicAndIdempotency_def Let_def
  by (intro keeps_intros)

lemma keeps_evidence [keeps_intros]:
  "journal_blind f \<Longrightarrow> keeps f (persistVendHardwareEvidenceTx oid vid mid idx ev key)"
  unfolding persistVendHardwareEvidenceTx_def q_InsertVendHardwareEvidence_def
  by (intro keeps_intros) (simp_all add: journal_blind_def)

lemma keeps_ledger [keeps_intros]:
  "journal_blind f \<Longrightarrow> keeps f (emitVendSuccessFinancialLedgerTx mid oid pid amt cur corr key)"
  unfolding emitVendSuccessFinancialLedgerTx_def q_InsertFinancialLedgerEntry_def
  by (intro keeps_intros) (simp_all add: journal_blind_def)

lemma keeps_timeline [keeps_intros]: "journal_blind f \<Longrightarrow> keeps f (q_InsertOrderTimelineEvent row)"
  by (simp add: q_InsertOrderTimelineEvent_def moves_def journal_blind_def)

lemma keeps_case [keeps_intros]: "journal_blind f \<Longrightarrow> keeps f (q_UpsertCommerceReconciliationCase c)"
  unfolding q_UpsertCommerceReconciliationCase_def
  by (intro keeps_intros) (simp_all add: journal_blind_def set_cases_def)

lemma keeps_set_verification_where: "journal_blind f \<Longrightarrow> keeps f (set_verification_where vs P)"
proof -
  assume f: "journal_blind f"
  have "map line_view (upd_where P (\<lambda>v. v\<lparr>vr_VerificationStatus := vs\<rparr>) rows) = map line_view rows" for rows
    by (rule map_upd_where) (simp add: line_view_def mapVend_def vend_session.defs)
  with f have upd: "keeps f (update_one db_vends set_vends P (\<lambda>now v. v\<lparr>vr_VerificationStatus := vs\<rparr>))"
    by (auto simp: moves_def update_one_def set_vends_def journal_blind_def vend_lines_def split: option.splits)
  show ?thesis
    unfolding set_verification_where_def
    by (intro upd kept.moves_bnd kept.moves_reads kept.moves_if kept.moves_raise)
qed

lemma keeps_set_verification [keeps_intros]: "journal_blind f \<Longrightarrow> keeps f (set_verification vs oid idx line)"
  unfolding set_verification_def q_SetVendSessionVerificationStatus_def
    q_SetVendSessionVerificationStatusByLineSequence_def
  by (intro keeps_intros keeps_set_verification_where)

lemma keeps_success_records [keeps_intros]:
  "journal_blind f \<Longrightarrow> keeps f (success_records inp ordRow vl pay b c)"
  unfolding success_records_def success_timeline_def success_reconciliation_def Let_def
  by (intro keeps_intros)

lemma read_only_queries:
  "read_only (q_GetOrderByID i)" "read_only (q_GetPaymentByID i)" "read_only (q_ListPaymentsForOrder i)"
  "read_only (q_GetLatestPaymentForOrder i)" "read_only (q_ListVendSessionsByOrder i)"
  by (simp_all add: q_GetOrderByID_def q_GetPaymentByID_def select_one_def q_ListPaymentsForOrder_def
      q_ListVendSessionsByOrder_def q_GetLatestPaymentForOrder_def moves_def split: list.splits option.splits)

lemma read_only_resolveAuthoritative: "read_only (resolveAuthoritativePaymentRow oid w)"
  unfolding resolveAuthoritativePaymentRow_def settled_or_latest_def
  by (intro frozen.moves_rules read_only_queries)

lemma read_only_lock: "read_only (lockVendSessionForUpdate oid idx line)"
  unfolding lockVendSessionForUpdate_def q_GetVendSessionByOrderAndLineSequence_def
    q_GetVendSessionByOrderAndSlot_def
  by (intro frozen.moves_rules moves_no_rows_as read_only_select_one)

lemma keeps_fail_records [keeps_intros]:
  "journal_blind f \<Longrightarrow> keeps f (fail_records inp ordRow vl)"
proof -
  assume f: "journal_blind f"
  have flags: "keeps f (fail_refund_flags inp ordRow)"
    unfolding fail_refund_flags_def Let_def
    by (intro keeps_intros read_only_keeps [OF read_only_resolveAuthoritative])
  have notices: "keeps f (case b of (x, y) \<Rightarrow> fail_notices inp ordRow x y)" for b
    unfolding fail_notices_def by (cases b; hypsubst) (simp only: prod.case, intro keeps_intros f)
  show ?thesis
    unfolding fail_records_def Let_def by (intro keeps_intros f flags notices)
qed

section \<open>Running the transactions\<close>

text \<open>The rows a request addresses: one line of the order, or the lines of a slot.\<close>

definition addressed :: "uuid \<Rightarrow> int \<Rightarrow> int \<Rightarrow> vend_row \<Rightarrow> bool" where
  "addressed oid idx line v \<longleftrightarrow>
     v_OrderID v = oid \<and> (if line > 0 then vr_LineSequence v = line else v_SlotIndex v = idx)"

definition order_line_states :: "uuid \<Rightarrow> db \<Rightarrow> string list" where
  "order_line_states oid s = map v_State (filter (\<lambda>v. v_OrderID v = oid) (db_vends s))"

definition order_status :: "uuid \<Rightarrow> db \<Rightarrow> string option" where
  "order_status oid s = map_option o_Status (find (\<lambda>r. o_ID r = oid) (db_orders s))"

lemma addressed_fun:
  "line > 0 \<Longrightarrow> addressed oid idx line = (\<lambda>v. v_OrderID v = oid \<and> vr_LineSequence v = line)"
  "\<not> line > 0 \<Longrightarrow> addressed oid idx line = (\<lambda>v. v_OrderID v = oid \<and> v_SlotIndex v = idx)"
  by (simp_all add: addressed_def fun_eq_iff)

lemma lock_run:
  "lockVendSessionForUpdate oid idx line s = (Inr lv, t) \<longleftrightarrow>
     t = s \<and> (\<exists>v. find (addressed oid idx line) (db_vends s) = Some v \<and> lv = locked_of v)"
  by (cases "line > 0") (auto simp: lockVendSessionForUpdate_def q_GetVendSessionByOrderAndLineSequence_def
      q_GetVendSessionByOrderAndSlot_def addressed_fun io_inv)

lemma mark_run:
  "mark_vend_line st fr oid idx line s = (Inr w, t) \<longleftrightarrow>
     (\<exists>v. find (addressed oid idx line) (db_vends s) = Some v \<and> w = mapVend (vend_state_row st fr (db_now s) v)
        \<and> t = s\<lparr>db_vends := upd_where (addressed oid idx line) (vend_state_row st fr (db_now s)) (db_vends s)\<rparr>)"
  by (cases "line > 0") (auto simp: mark_vend_line_def q_UpdateVendSessionStateByOrderLineSequence_def
      q_UpdateVendSessionStateByOrderSlot_def addressed_fun set_vends_def io_inv)

lemma vend_of_sale_run:
  "vend_of_sale oid idx line s = (Inr v, t) \<longleftrightarrow> t = s \<and> find (addressed oid idx line) (db_vends s) = Some v"
  by (cases "line > 0") (auto simp: vend_of_sale_def q_GetVendSessionByOrderAndLineSequence_def
      q_GetVendSessionByOrderAndSlot_def addressed_fun io_inv)

lemma vend_state_row_simps [simp]:
  "v_State (vend_state_row st fr now v) = st" "v_OrderID (vend_state_row st fr now v) = v_OrderID v"
  "v_SlotIndex (vend_state_row st fr now v) = v_SlotIndex v" "v_MachineID (vend_state_row st fr now v) = v_MachineID v"
  "v_ProductID (vend_state_row st fr now v) = v_ProductID v" "v_ID (vend_state_row st fr now v) = v_ID v"
  "vr_LineSequence (vend_state_row st fr now v) = vr_LineSequence v"
  by (simp_all add: vend_state_row_def)

lemma addressed_state_row [simp]: "addressed oid idx line (vend_state_row st fr now v) = addressed oid idx line v"
  by (simp add: addressed_def)

lemma statuses_by_set:
  assumes "set xs = set ys"
  shows "multiLineOrderHasOpenVendLines xs = multiLineOrderHasOpenVendLines ys"
    and "resolveMultiLineTerminalOrderStatus xs = resolveMultiLineTerminalOrderStatus ys"
  using assms by (simp_all add: open_lines_iff resolve_status_eq)

lemma list_vends_run:
  "q_ListVendSessionsByOrder oid s = (Inr vs, t) \<longleftrightarrow>
     t = s \<and> vs = sort_key vr_LineSequence (filter (\<lambda>v. v_OrderID v = oid) (db_vends s))"
  by (auto simp: q_ListVendSessionsByOrder_def)

text \<open>What a status update of the whole order table does.\<close>

definition set_order_status :: "uuid \<Rightarrow> string \<Rightarrow> db \<Rightarrow> db" where
  "set_order_status oid st s =
     s\<lparr>db_orders := upd_where (\<lambda>r. o_ID r = oid) (status_row st (db_now s)) (db_orders s)\<rparr>"

lemma update_status_run:
  "q_UpdateOrderStatusByOrg st oid s = (Inr r, t) \<longleftrightarrow>
     (\<exists>q. find (\<lambda>x. o_ID x = oid) (db_orders s) = Some q \<and> r = status_row st (db_now s) q)
     \<and> t = set_order_status oid st s"
  by (auto simp: q_UpdateOrderStatusByOrg_def set_order_status_def set_orders_def io_inv)

lemma find_order_set_status:
  "find (\<lambda>r. o_ID r = i) (db_orders (set_order_status oid st s)) =
     map_option (\<lambda>r. if o_ID r = oid then status_row st (db_now s) r else r)
       (find (\<lambda>r. o_ID r = i) (db_orders s))"
  unfolding set_order_status_def by (simp add: find_upd_where status_row_def)

lemma settle_run:
  assumes "settle_order_status ord oid s = (Inr r, t)"
  shows "if multiLineOrderHasOpenVendLines (order_line_states oid s)
           \<or> resolveMultiLineTerminalOrderStatus (order_line_states oid s) = o_Status ord
         then t = s \<and> r = ord
         else t = set_order_status oid (resolveMultiLineTerminalOrderStatus (order_line_states oid s)) s
           \<and> o_Status r = resolveMultiLineTerminalOrderStatus (order_line_states oid s)"
proof -
  have eq: "set (map v_State (sort_key vr_LineSequence (filter (\<lambda>v. v_OrderID v = oid) (db_vends s)))) =
      set (order_line_states oid s)" by (simp add: order_line_states_def)
  from assms show ?thesis
    by (auto simp: settle_order_status_def io_inv list_vends_run update_status_run Let_def
        statuses_by_set [OF eq] status_row_def split: if_splits)
qed

lemma success_transition_run:
  assumes "success_transition inp ord (locked_of v) pay s = (Inr (o', v'), t)"
    and "find (addressed (fs_OrderID inp) (fs_SlotIndex inp) (fs_LineSequence inp)) (db_vends s) = Some v"
  shows "\<exists>u. u = (if v_State v = ''in_progress''
        then s\<lparr>db_vends := upd_where (addressed (fs_OrderID inp) (fs_SlotIndex inp) (fs_LineSequence inp))
               (vend_state_row ''success'' None (db_now s)) (db_vends s)\<rparr> else s)
      \<and> (v_State v = ''in_progress'' \<longrightarrow> p_State pay = ''captured'')
      \<and> (t = u \<and> o' = ord \<and> (v_State v = ''in_progress'' \<longrightarrow>
            multiLineOrderHasOpenVendLines (order_line_states (fs_OrderID inp) u)
            \<or> resolveMultiLineTerminalOrderStatus (order_line_states (fs_OrderID inp) u) = o_Status ord)
         \<or> t = set_order_status (fs_OrderID inp)
               (resolveMultiLineTerminalOrderStatus (order_line_states (fs_OrderID inp) u)) u
            \<and> \<not> multiLineOrderHasOpenVendLines (order_line_states (fs_OrderID inp) u))"
proof (cases "v_State v = ''in_progress''")
  case True
  let ?u = "s\<lparr>db_vends := upd_where (addressed (fs_OrderID inp) (fs_SlotIndex inp) (fs_LineSequence inp))
               (vend_state_row ''success'' None (db_now s)) (db_vends s)\<rparr>"
  from assms True have "p_State pay = ''captured''"
    and "settle_order_status ord (fs_OrderID inp) ?u = (Inr o', t)"
    by (auto simp: success_transition_def locked_of_def io_inv mark_run split: if_splits)
  with True settle_run [of ord "fs_OrderID inp" ?u o' t] show ?thesis
    by (auto split: if_splits)
next
  case False
  then show ?thesis
    using assms(1) settle_run [of ord "fs_OrderID inp" s o' t]
    by (auto simp: success_transition_def locked_of_def io_inv split: if_splits)
qed

lemma success_tx_run:
  assumes "success_tx inp s = (Inr r, t)"
  shows "\<exists>ord v pay s1 s2. find (\<lambda>x. o_ID x = fs_OrderID inp) (db_orders s) = Some ord
    \<and> find (addressed (fs_OrderID inp) (fs_SlotIndex inp) (fs_LineSequence inp)) (db_vends s) = Some v
    \<and> v_MachineID v = o_MachineID ord \<and> o_Status ord \<noteq> ''cancelled''
    \<and> (v_State v = ''success'' \<or> v_State v = ''in_progress'')
    \<and> resolveAuthoritativePaymentRow (fs_OrderID inp) (o_WinningPaymentID ord) s = (Inr pay, s)
    \<and> success_transition inp ord (locked_of v) pay s = (Inr (fsr_Order r, fsr_Vend r), s1)
    \<and> applyCommerceVendSuccessInventoryTx uuid_Nil (o_MachineID ord) (fs_OrderID inp) (v_SlotIndex v)
        (fs_LineSequence inp) (v_ProductID v) (TrimSpace (fs_InventoryDedupeKey inp)) (fs_CorrelationID inp) s1
        = (Inr (fsr_InventoryReplay r), s2)
    \<and> fsr_OrderVendReplay r = (v_State v = ''success'' \<and> o_Status ord = ''completed'')
    \<and> whenM (\<not> (fsr_OrderVendReplay r \<and> fsr_InventoryReplay r))
        (success_records inp ord (locked_of v) pay (fsr_InventoryReplay r) (fsr_OrderVendReplay r)) s2 = (Inr (), t)"
proof -
  let ?ovr = "\<lambda>ord lv. lv_state lv = ''success'' \<and> o_Status ord = ''completed''"
  from assms obtain ord lv where
    ord: "find (\<lambda>x. o_ID x = fs_OrderID inp) (db_orders s) = Some ord"
    and lv: "lockSuccessfulVendSessionForUpdate inp s = (Inr lv, s)"
    and g: "lv_machineID lv = o_MachineID ord" "o_Status ord \<noteq> ''cancelled''"
      "lv_state lv = ''success'' \<or> lv_state lv = ''in_progress''"
    and k: "bnd (no_rows_as ErrPaymentNotSettled
              (resolveAuthoritativePaymentRow (fs_OrderID inp) (o_WinningPaymentID ord))) (\<lambda>payRow.
       bnd (success_transition inp ord lv payRow) (\<lambda>(finalOrd, finalVend).
       bnd (applyCommerceVendSuccessInventoryTx uuid_Nil (o_MachineID ord) (fs_OrderID inp)
              (lv_slotIndex lv) (fs_LineSequence inp) (lv_productID lv)
              (TrimSpace (fs_InventoryDedupeKey inp)) (fs_CorrelationID inp)) (\<lambda>invReplay.
       seq (whenM (\<not> (?ovr ord lv \<and> invReplay)) (success_records inp ord lv payRow invReplay (?ovr ord lv)))
          (ret \<lparr>fsr_Order = finalOrd, fsr_Vend = finalVend, fsr_InventoryReplay = invReplay,
                fsr_OrderVendReplay = ?ovr ord lv\<rparr>)))) s = (Inr r, t)"
    unfolding success_tx_def q_GetOrderByID_def Let_def lockSuccessfulVendSessionForUpdate_def
    by (subst (asm) bnd_Inr, subst (asm) bnd_Inr)
      (auto simp: no_rows_as_Inr select_one_Inr lock_run split: if_splits)
  from k obtain pay where
    pay: "resolveAuthoritativePaymentRow (fs_OrderID inp) (o_WinningPaymentID ord) s = (Inr pay, s)"
    and k2: "bnd (success_transition inp ord lv pay) (\<lambda>(finalOrd, finalVend).
       bnd (applyCommerceVendSuccessInventoryTx uuid_Nil (o_MachineID ord) (fs_OrderID inp)
              (lv_slotIndex lv) (fs_LineSequence inp) (lv_productID lv)
              (TrimSpace (fs_InventoryDedupeKey inp)) (fs_CorrelationID inp)) (\<lambda>invReplay.
       seq (whenM (\<not> (?ovr ord lv \<and> invReplay)) (success_records inp ord lv pay invReplay (?ovr ord lv)))
          (ret \<lparr>fsr_Order = finalOrd, fsr_Vend = finalVend, fsr_InventoryReplay = invReplay,
                fsr_OrderVendReplay = ?ovr ord lv\<rparr>))) s = (Inr r, t)"
    unfolding bnd_Inr [of "no_rows_as _ _"] no_rows_as_Inr
    using read_only_run [OF read_only_resolveAuthoritative] by blast
  from k2 obtain s1 s2 where
    tr: "success_transition inp ord lv pay s = (Inr (fsr_Order r, fsr_Vend r), s1)"
    and inv: "applyCommerceVendSuccessInventoryTx uuid_Nil (o_MachineID ord) (fs_OrderID inp) (lv_slotIndex lv)
        (fs_LineSequence inp) (lv_productID lv) (TrimSpace (fs_InventoryDedupeKey inp)) (fs_CorrelationID inp) s1
        = (Inr (fsr_InventoryReplay r), s2)"
    and rest: "fsr_OrderVendReplay r = ?ovr ord lv"
      "whenM (\<not> (fsr_OrderVendReplay r \<and> fsr_InventoryReplay r))
        (success_records inp ord lv pay (fsr_InventoryReplay r) (fsr_OrderVendReplay r)) s2 = (Inr (), t)"
    by (auto simp: bnd_Inr seq_Inr)
  from lv obtain v where v: "find (addressed (fs_OrderID inp) (fs_SlotIndex inp) (fs_LineSequence inp)) (db_vends s) = Some v"
    and "lv = locked_of v" by (auto simp: lockSuccessfulVendSessionForUpdate_def lock_run)
  with ord g pay tr inv rest show ?thesis
    by (intro exI [of _ ord] exI [of _ v] exI [of _ pay] exI [of _ s1] exI [of _ s2])
      (simp add: locked_of_def)
qed

lemma failed_tx_run:
  assumes "failed_tx inp s = (Inr r, t)"
  shows "\<exists>ord v. find (\<lambda>x. o_ID x = ff_OrderID inp) (db_orders s) = Some ord
    \<and> find (addressed (ff_OrderID inp) (ff_SlotIndex inp) (ff_LineSequence inp)) (db_vends s) = Some v
    \<and> v_MachineID v = o_MachineID ord
    \<and> (if ffr_Replay r then v_State v = ''failed'' \<and> t = s
       else v_State v = ''in_progress''
         \<and> (\<exists>s1 s2. mark_vend_line ''failed'' (case ff_FailureReason inp of None \<Rightarrow> None | Some r \<Rightarrow> pgTextOrEmpty r)
                (ff_OrderID inp) (ff_SlotIndex inp) (ff_LineSequence inp) s = (Inr (ffr_Vend r), s1)
              \<and> resolveOrderStatusAfterFailedVend ord (ff_OrderID inp) s1 = (Inr (ffr_Order r), s2)
              \<and> fail_records inp ord (locked_of v) s2 = (Inr (), t)))"
proof -
  let ?mark = "mark_vend_line ''failed'' (case ff_FailureReason inp of None \<Rightarrow> None | Some r \<Rightarrow> pgTextOrEmpty r) (ff_OrderID inp)"
  from assms obtain ord v where
    ord: "find (\<lambda>x. o_ID x = ff_OrderID inp) (db_orders s) = Some ord"
    and v: "find (addressed (ff_OrderID inp) (ff_SlotIndex inp) (ff_LineSequence inp)) (db_vends s) = Some v"
    and m: "v_MachineID v = o_MachineID ord"
    and k: "(if v_State v = ''failed''
      then ret \<lparr>ffr_Order = ord, ffr_Vend = mapVend v, ffr_Replay = True\<rparr>
      else if v_State v \<noteq> ''in_progress'' then raise (Err ErrIllegalTransition)
      else bnd (?mark (v_SlotIndex v) (ff_LineSequence inp)) (\<lambda>finalV.
       bnd (resolveOrderStatusAfterFailedVend ord (ff_OrderID inp)) (\<lambda>finalOrd.
       seq (fail_records inp ord (locked_of v))
         (ret \<lparr>ffr_Order = finalOrd, ffr_Vend = finalV, ffr_Replay = False\<rparr>)))) s = (Inr r, t)"
    unfolding failed_tx_def q_GetOrderByID_def lockFailedVendSessionForUpdate_def
    by (subst (asm) bnd_Inr, subst (asm) bnd_Inr)
      (auto simp: no_rows_as_Inr select_one_Inr lock_run locked_of_def [of "_ :: vend_row"] split: if_split_asm)
  have "?mark (v_SlotIndex v) (ff_LineSequence inp) = ?mark (ff_SlotIndex inp) (ff_LineSequence inp)"
    using find_SomeD [OF v] by (simp add: mark_vend_line_def addressed_def)
  with k ord v m show ?thesis
    by (intro exI [of _ ord] exI [of _ v]) (auto simp: bnd_Inr seq_Inr split: if_split_asm)
qed

lemma failed_status_run:
  assumes "resolveOrderStatusAfterFailedVend ord oid s = (Inr r, t)"
    and "find (\<lambda>x. o_ID x = oid) (db_orders s) = Some ord"
    and "''failed'' \<in> set (order_line_states oid s)"
  shows "db_vends t = db_vends s \<and> db_payments t = db_payments s \<and> db_timelines t = db_timelines s
    \<and> order_status oid t = Some (if multiLineOrderHasOpenVendLines (order_line_states oid s) then o_Status ord
        else resolveMultiLineTerminalOrderStatus (order_line_states oid s))"
proof -
  let ?sts = "order_line_states oid s"
  let ?rows = "sort_key vr_LineSequence (filter (\<lambda>v. v_OrderID v = oid) (db_vends s))"
  have eq: "set (map v_State ?rows) = set ?sts" by (simp add: order_line_states_def)
  have one: "\<not> multiLineOrderHasOpenVendLines ?sts \<and> resolveMultiLineTerminalOrderStatus ?sts = ''failed''"
    if "length (filter (\<lambda>v. v_OrderID v = oid) (db_vends s)) \<le> Suc 0"
  proof -
    from that have "length ?sts \<le> 1" by (simp add: order_line_states_def)
    with assms(3) have "?sts = [''failed'']" by (cases ?sts) auto
    moreover have "\<not> multiLineOrderHasOpenVendLines [''failed'']" by code_simp
    moreover have "resolveMultiLineTerminalOrderStatus [''failed''] = ''failed''" by code_simp
    ultimately show ?thesis by simp
  qed
  have upd: "db_vends (set_order_status oid st s) = db_vends s \<and> db_payments (set_order_status oid st s) = db_payments s
      \<and> db_timelines (set_order_status oid st s) = db_timelines s
      \<and> order_status oid (set_order_status oid st s) = Some st" for st
    using assms(2) find_SomeD [OF assms(2)] unfolding order_status_def find_order_set_status
    by (auto simp: set_order_status_def status_row_def)
  have same: "order_status oid s = Some (o_Status ord)" using assms(2) by (simp add: order_status_def)
  from assms(1) show ?thesis
    using upd same one
    by (auto simp: resolveOrderStatusAfterFailedVend_def bnd_Inr list_vends_run update_status_run Let_def
        statuses_by_set [OF eq] split: if_splits)
qed

section \<open>The authoritative payment\<close>

lemma latest_settled_iff:
  "(latest_settled ps = None \<longleftrightarrow> \<not> (\<exists>p \<in> set ps. settled_state (TrimSpace (p_State p))))"
  unfolding latest_settled_def by (auto simp: find_None_iff)

lemma latest_settled_SomeD:
  "latest_settled ps = Some p \<Longrightarrow> p \<in> set ps \<and> settled_state (TrimSpace (p_State p))"
  unfolding latest_settled_def using find_SomeD by fastforce

lemma latest_payment_run:
  assumes "q_GetLatestPaymentForOrder oid s = (Inr p, t)"
  shows "p \<in> set (db_payments s) \<and> p_OrderID p = oid"
proof -
  let ?ps = "sort_key (\<lambda>p. - p_CreatedAt p) (filter (\<lambda>p. p_OrderID p = oid) (db_payments s))"
  from assms obtain rest where "?ps = p # rest"
    by (auto simp: q_GetLatestPaymentForOrder_def split: list.splits)
  then have "p \<in> set ?ps" by (metis list.set_intros(1))
  then show ?thesis by simp
qed

lemma settled_or_latest_run:
  assumes "settled_or_latest oid s = (Inr p, t)"
  shows "p \<in> set (db_payments s) \<and> p_OrderID p = oid"
  using assms latest_payment_run latest_settled_SomeD
  by (auto simp: settled_or_latest_def bnd_Inr q_ListPaymentsForOrder_def split: option.splits dest!: latest_settled_SomeD)

lemma resolveAuthoritative_run:
  assumes "resolveAuthoritativePaymentRow oid w s = (Inr p, t)"
  shows "p \<in> set (db_payments s) \<and> p_OrderID p = oid"
  using assms settled_or_latest_run
  by (auto simp: resolveAuthoritativePaymentRow_def q_GetPaymentByID_def select_one_def
      split: option.splits if_splits dest: find_SomeD)

lemma resolveAuthoritative_cong:
  assumes "db_payments t = db_payments s"
  shows "fst (resolveAuthoritativePaymentRow oid w t) = fst (resolveAuthoritativePaymentRow oid w s)"
proof -
  have l: "fst (settled_or_latest oid t) = fst (settled_or_latest oid s)"
    using assms by (auto simp: settled_or_latest_def q_ListPaymentsForOrder_def q_GetLatestPaymentForOrder_def
        split: option.splits list.splits)
  show ?thesis
    using l assms by (auto simp: resolveAuthoritativePaymentRow_def q_GetPaymentByID_def select_one_def
        split: option.splits)
qed

end
