(* ===== verification/Fulfillment_Safety.thy ===== *)
theory Fulfillment_Safety
  imports Vend_Fulfillment
begin

text \<open>
  Properties of the two transactions of \<open>Vend_Fulfillment\<close>: what a completed success guarantees,
  that repeating it never sells a second unit, that the order's status follows its lines, that a
  finished line stays finished, and when a failed vend owes the customer money.
\<close>

section \<open>The state a success leaves\<close>

lemma FulfillSuccessful_tx:
  "FulfillSuccessfulVendAtomically inp s = (Inr r, t) \<Longrightarrow>
     TrimSpace (fs_InventoryDedupeKey inp) \<noteq> [] \<and> success_tx inp s = (Inr r, t)"
  by (auto simp: FulfillSuccessfulVendAtomically_def tx_Inr split: if_splits)

abbreviation success_addr :: "fulfill_successful_vend_input \<Rightarrow> vend_row \<Rightarrow> bool" where
  "success_addr inp \<equiv> addressed (fs_OrderID inp) (fs_SlotIndex inp) (fs_LineSequence inp)"

abbreviation success_key :: "fulfill_successful_vend_input \<Rightarrow> string" where
  "success_key inp \<equiv> TrimSpace (fs_InventoryDedupeKey inp)"

lemma find_addressed_mark:
  "find (addressed oid idx line) (upd_where (addressed oid idx line) (vend_state_row st fr now) rows) =
     map_option (vend_state_row st fr now) (find (addressed oid idx line) rows)"
  by (induction rows) auto

text \<open>The addressed line through the view that the journals keep.\<close>

lemma find_line_view:
  assumes "map line_view rows = map line_view rows'"
  shows "map_option line_view (find (addressed oid idx line) rows) =
         map_option line_view (find (addressed oid idx line) rows')"
proof -
  let ?Q = "\<lambda>(l, w). v_OrderID w = oid \<and> (if line > 0 then l = line else v_SlotIndex w = idx)"
  have a: "addressed oid idx line v = ?Q (line_view v)" for v
    by (simp add: addressed_def line_view_def mapVend_def vend_session.defs)
  have "map_option line_view (find (addressed oid idx line) rs) = find ?Q (map line_view rs)" for rs
    by (induction rs) (simp_all add: a)
  with assms show ?thesis by simp
qed

lemma line_view_fields:
  "line_view v = line_view w \<Longrightarrow> v_State v = v_State w \<and> v_MachineID v = v_MachineID w
     \<and> v_ProductID v = v_ProductID w \<and> v_SlotIndex v = v_SlotIndex w \<and> v_OrderID v = v_OrderID w \<and> v_ID v = v_ID w"
  by (simp add: line_view_def mapVend_def vend_session.defs)

lemma order_line_states_view: "vend_lines t = vend_lines s \<Longrightarrow> order_line_states oid t = order_line_states oid s"
proof -
  have "order_line_states oid u = map (v_State \<circ> snd) (filter (\<lambda>x. v_OrderID (snd x) = oid) (vend_lines u))" for u
    by (simp add: order_line_states_def vend_lines_def filter_map o_def line_view_def mapVend_def vend_session.defs)
  then show "vend_lines t = vend_lines s \<Longrightarrow> ?thesis" by simp
qed

text \<open>Everything a successful run leaves behind, in one place.\<close>

lemma success_run:
  assumes run: "FulfillSuccessfulVendAtomically inp s = (Inr r, t)"
  obtains ord v pay s1 s2 where
    "find (\<lambda>x. o_ID x = fs_OrderID inp) (db_orders s) = Some ord" "o_Status ord \<noteq> ''cancelled''"
    "find (success_addr inp) (db_vends s) = Some v" "v_MachineID v = o_MachineID ord"
    "v_State v = ''success'' \<or> v_State v = ''in_progress''"
    "resolveAuthoritativePaymentRow (fs_OrderID inp) (o_WinningPaymentID ord) s = (Inr pay, s)"
    "success_transition inp ord (locked_of v) pay s = (Inr (fsr_Order r, fsr_Vend r), s1)"
    "applyCommerceVendSuccessInventoryTx uuid_Nil (o_MachineID ord) (fs_OrderID inp) (v_SlotIndex v)
        (fs_LineSequence inp) (v_ProductID v) (success_key inp) (fs_CorrelationID inp) s1
        = (Inr (fsr_InventoryReplay r), s2)"
    "db_orders t = db_orders s1" "db_payments t = db_payments s1" "db_refunds t = db_refunds s1"
    "db_inventory t = db_inventory s2" "db_slots t = db_slots s2" "vend_lines t = vend_lines s1"
    "db_machines t = db_machines s1"
proof -
  from success_tx_run [OF conjunct2 [OF FulfillSuccessful_tx [OF run]]] obtain ord v pay s1 s2 where
    f: "find (\<lambda>x. o_ID x = fs_OrderID inp) (db_orders s) = Some ord" "o_Status ord \<noteq> ''cancelled''"
    "find (success_addr inp) (db_vends s) = Some v" "v_MachineID v = o_MachineID ord"
    "v_State v = ''success'' \<or> v_State v = ''in_progress''"
    "resolveAuthoritativePaymentRow (fs_OrderID inp) (o_WinningPaymentID ord) s = (Inr pay, s)"
    "success_transition inp ord (locked_of v) pay s = (Inr (fsr_Order r, fsr_Vend r), s1)"
    and inv: "applyCommerceVendSuccessInventoryTx uuid_Nil (o_MachineID ord) (fs_OrderID inp) (v_SlotIndex v)
        (fs_LineSequence inp) (v_ProductID v) (success_key inp) (fs_CorrelationID inp) s1
        = (Inr (fsr_InventoryReplay r), s2)"
    and rec: "whenM (\<not> (fsr_OrderVendReplay r \<and> fsr_InventoryReplay r))
        (success_records inp ord (locked_of v) pay (fsr_InventoryReplay r) (fsr_OrderVendReplay r)) s2 = (Inr (), t)"
    by blast
  have k: "h t = h s2" if "journal_blind h" for h :: "db \<Rightarrow> 'b"
    using keeps_run [OF kept.moves_whenM [OF keeps_success_records [OF that]] rec] .
  have j: "h s2 = h s1" if "stock_blind h" for h :: "db \<Rightarrow> 'b"
    using keeps_run [OF keeps_inventory_tx [OF that] inv] .
  have lines: "stock_blind vend_lines" by (simp add: stock_blind_def vend_lines_def)
  show thesis
    by (rule that [OF f inv])
      (simp_all add: k journal_blind_tables j stock_blind_tables lines)
qed

lemma transition_keeps:
  assumes "success_transition inp ord (locked_of v) pay s = (Inr (o', v'), t)"
    and "find (success_addr inp) (db_vends s) = Some v"
  shows "db_payments t = db_payments s \<and> db_refunds t = db_refunds s \<and> db_machines t = db_machines s
    \<and> db_inventory t = db_inventory s \<and> db_slots t = db_slots s
    \<and> (\<exists>w. find (success_addr inp) (db_vends t) = Some w \<and> v_MachineID w = v_MachineID v
         \<and> v_ProductID w = v_ProductID v \<and> v_SlotIndex w = v_SlotIndex v
         \<and> (v_State v = ''in_progress'' \<or> v_State v = ''success'' \<longrightarrow> v_State w = ''success''))
    \<and> (\<forall>i. map_option (\<lambda>x. (o_MachineID x, o_WinningPaymentID x)) (find (\<lambda>x. o_ID x = i) (db_orders t)) =
         map_option (\<lambda>x. (o_MachineID x, o_WinningPaymentID x)) (find (\<lambda>x. o_ID x = i) (db_orders s)))"
proof -
  let ?u = "if v_State v = ''in_progress''
        then s\<lparr>db_vends := upd_where (success_addr inp) (vend_state_row ''success'' None (db_now s)) (db_vends s)\<rparr> else s"
  from success_transition_run [OF assms] obtain st where t: "t = ?u \<or> t = set_order_status (fs_OrderID inp) st ?u"
    by blast
  have keep: "h t = h s" if "\<And>x y. h (x\<lparr>db_vends := y\<rparr>) = h x" "\<And>x y. h (x\<lparr>db_orders := y\<rparr>) = h x" for h :: "db \<Rightarrow> 'b"
    using t that by (elim disjE) (simp_all add: set_order_status_def)
  have vends: "db_vends t = db_vends ?u"
    using t by (elim disjE) (simp_all add: set_order_status_def)
  let ?h = "map_option (\<lambda>x. (o_MachineID x, o_WinningPaymentID x))"
  have orders: "?h (find (\<lambda>x. o_ID x = i) (db_orders t)) = ?h (find (\<lambda>x. o_ID x = i) (db_orders s))" for i
    using t
  proof (elim disjE)
    assume "t = set_order_status (fs_OrderID inp) st ?u"
    then show ?thesis
      by (simp only: find_order_set_status option.map_comp o_def)
        (rule option.map_cong0 [THEN trans], simp_all add: status_row_def)
  qed simp
  have "find (success_addr inp) (db_vends t) =
      Some (if v_State v = ''in_progress'' then vend_state_row ''success'' None (db_now s) v else v)"
    unfolding vends using assms(2) by (simp add: find_addressed_mark)
  then have "\<exists>w. find (success_addr inp) (db_vends t) = Some w \<and> v_MachineID w = v_MachineID v
         \<and> v_ProductID w = v_ProductID v \<and> v_SlotIndex w = v_SlotIndex v
         \<and> (v_State v = ''in_progress'' \<or> v_State v = ''success'' \<longrightarrow> v_State w = ''success'')"
    by (cases "v_State v = ''in_progress''") simp_all
  with orders show ?thesis
    by (simp add: keep)
qed

section \<open>Properties of a success\<close>


text \<open>The machine and the sale of a committed success, as a later request finds them.\<close>

lemma success_after:
  assumes run: "FulfillSuccessfulVendAtomically inp s = (Inr r, t)"
    and ord': "find (\<lambda>x. o_ID x = fs_OrderID inp) (db_orders t) = Some ord'"
  shows "0 < sales_of (o_MachineID ord') (success_key inp) t"
    and "o_MachineID ord' \<in> set (db_machines t)"
    and "\<exists>w. find (success_addr inp) (db_vends t) = Some w \<and> v_State w = ''success'' \<and> v_MachineID w = o_MachineID ord'"
    and "\<exists>pay. resolveAuthoritativePaymentRow (fs_OrderID inp) (o_WinningPaymentID ord') t = (Inr pay, t)"
proof -
  from success_run [OF run] obtain ord v pay s1 s2 where
    ord: "find (\<lambda>x. o_ID x = fs_OrderID inp) (db_orders s) = Some ord"
    and v: "find (success_addr inp) (db_vends s) = Some v" "v_MachineID v = o_MachineID ord"
      "v_State v = ''success'' \<or> v_State v = ''in_progress''"
    and pay: "resolveAuthoritativePaymentRow (fs_OrderID inp) (o_WinningPaymentID ord) s = (Inr pay, s)"
    and tr: "success_transition inp ord (locked_of v) pay s = (Inr (fsr_Order r, fsr_Vend r), s1)"
    and inv: "applyCommerceVendSuccessInventoryTx uuid_Nil (o_MachineID ord) (fs_OrderID inp) (v_SlotIndex v)
        (fs_LineSequence inp) (v_ProductID v) (success_key inp) (fs_CorrelationID inp) s1
        = (Inr (fsr_InventoryReplay r), s2)"
    and t: "db_orders t = db_orders s1" "db_inventory t = db_inventory s2" "vend_lines t = vend_lines s1"
      "db_machines t = db_machines s1" "db_payments t = db_payments s1" .
  note keep = transition_keeps [OF tr v(1)]
  from keep have "map_option (\<lambda>x. (o_MachineID x, o_WinningPaymentID x)) (find (\<lambda>x. o_ID x = fs_OrderID inp) (db_orders s1)) =
      map_option (\<lambda>x. (o_MachineID x, o_WinningPaymentID x)) (find (\<lambda>x. o_ID x = fs_OrderID inp) (db_orders s))" by blast
  with ord ord' t(1) have m: "o_MachineID ord' = o_MachineID ord" "o_WinningPaymentID ord' = o_WinningPaymentID ord"
    by simp_all
  show "0 < sales_of (o_MachineID ord') (success_key inp) t"
    using inventory_tx_counted(1) [OF inv] t(2) m by (simp add: sales_of_def)
  show "o_MachineID ord' \<in> set (db_machines t)"
    using inventory_tx_run [OF inv] m t(4) by simp
  from keep v(3) obtain w where w: "find (success_addr inp) (db_vends s1) = Some w" "v_State w = ''success''"
    "v_MachineID w = v_MachineID v" by blast
  from t(3) w(1) obtain w' where "find (success_addr inp) (db_vends t) = Some w'" "line_view w' = line_view w"
    using find_line_view [of "db_vends t" "db_vends s1" "fs_OrderID inp" "fs_SlotIndex inp" "fs_LineSequence inp"]
    by (auto simp: vend_lines_def)
  with line_view_fields [of w' w] w v(2) m
  show "\<exists>w. find (success_addr inp) (db_vends t) = Some w \<and> v_State w = ''success'' \<and> v_MachineID w = o_MachineID ord'"
    by auto
  have "fst (resolveAuthoritativePaymentRow (fs_OrderID inp) (o_WinningPaymentID ord') t) = Inr pay"
    using pay keep t(5) m by (simp add: resolveAuthoritative_cong [of t s])
  then show "\<exists>pay. resolveAuthoritativePaymentRow (fs_OrderID inp) (o_WinningPaymentID ord') t = (Inr pay, t)"
    using read_only_run [OF read_only_resolveAuthoritative] by (metis prod.collapse)
qed

text \<open>The sample order's line succeeds, and the request is repeated.\<close>

definition sample_success :: fulfill_successful_vend_input where
  "sample_success =
     \<lparr>fs_OrderID = UUID ''o1'', fs_SlotIndex = 3, fs_LineSequence = 1, fs_InventoryDedupeKey = ''d1'',
      fs_CorrelationID = None, fs_Evidence = Some sample_evidence, fs_VerificationStatus = ''verified'',
      fs_OutboxTopic = ''commerce'', fs_OutboxEventType = ''vend.succeeded'', fs_OutboxAggregateType = ''order'',
      fs_OutboxIdempotencyKey = [], fs_ReconciliationEventType = [], fs_Simulated = False,
      fs_SimulationRunID = [], fs_SimulationScenario = []\<rparr>"

abbreviation fulfilled :: "fulfill_successful_vend_result" where
  "fulfilled \<equiv> projr (fst (FulfillSuccessfulVendAtomically sample_success sample_db))"

abbreviation fulfilled_db :: db where
  "fulfilled_db \<equiv> snd (FulfillSuccessfulVendAtomically sample_success sample_db)"

lemma sample_success_run:
  "FulfillSuccessfulVendAtomically sample_success sample_db = (Inr fulfilled, fulfilled_db)"
proof -
  have "\<not> isl (fst (FulfillSuccessfulVendAtomically sample_success sample_db))" by code_simp
  then show ?thesis by (cases "FulfillSuccessfulVendAtomically sample_success sample_db") (auto simp: isl_def split: sum.splits)
qed

text \<open>
  C2: A retried success never sells a second unit: after a committed success, any further success
  request for the same order with the same inventory key, whatever its other fields and whether it
  is accepted or refused, leaves the inventory journal and the stock as they are.
\<close>

theorem success_retry_sells_nothing:
  assumes "FulfillSuccessfulVendAtomically inp s = (Inr r, t)"
    and "fs_OrderID inp' = fs_OrderID inp" and "success_key inp' = success_key inp"
    and "FulfillSuccessfulVendAtomically inp' t = (x, u)"
  shows "db_inventory u = db_inventory t \<and> db_slots u = db_slots t"
proof (cases x)
  case (Inl e)
  then show ?thesis
    using assms(4) by (auto simp: FulfillSuccessfulVendAtomically_def tx_Inl split: if_splits)
next
  case (Inr r')
  from success_run [OF assms(4) [unfolded Inr]] obtain ord v pay s1 s2 where
    ord: "find (\<lambda>x. o_ID x = fs_OrderID inp') (db_orders t) = Some ord"
    and v: "find (success_addr inp') (db_vends t) = Some v"
    and tr: "success_transition inp' ord (locked_of v) pay t = (Inr (fsr_Order r', fsr_Vend r'), s1)"
    and inv: "applyCommerceVendSuccessInventoryTx uuid_Nil (o_MachineID ord) (fs_OrderID inp') (v_SlotIndex v)
        (fs_LineSequence inp') (v_ProductID v) (success_key inp') (fs_CorrelationID inp') s1
        = (Inr (fsr_InventoryReplay r'), s2)"
    and u: "db_inventory u = db_inventory s2" "db_slots u = db_slots s2" .
  note keep = transition_keeps [OF tr v]
  have "0 < sales_of (o_MachineID ord) (success_key inp') s1"
    using success_after(1) [OF assms(1)] ord assms(2,3) keep by (simp add: sales_of_def)
  then have "s2 = s1" by (rule inventory_tx_counted(2) [OF inv])
  with keep u show ?thesis by simp
qed

theorem success_retry_sells_nothing_witness:
  "db_inventory (snd (FulfillSuccessfulVendAtomically sample_success fulfilled_db)) = db_inventory fulfilled_db
   \<and> db_slots (snd (FulfillSuccessfulVendAtomically sample_success fulfilled_db)) = db_slots fulfilled_db"
  by (rule success_retry_sells_nothing [OF sample_success_run refl refl])
    (rule prod.collapse [symmetric])

text \<open>
  Once the order is completed, the same success request is a pure replay: it is accepted, says
  so in both flags, and changes nothing in the database (no second ledger entry, evidence, timeline
  or outbox row).
\<close>

theorem success_replay_is_noop:
  assumes run: "FulfillSuccessfulVendAtomically inp s = (Inr r, t)"
    and finished: "order_status (fs_OrderID inp) t = Some ''completed''"
  shows "\<exists>r'. FulfillSuccessfulVendAtomically inp t = (Inr r', t) \<and> fsr_OrderVendReplay r' \<and> fsr_InventoryReplay r'"
proof -
  from finished obtain ord where ord: "find (\<lambda>x. o_ID x = fs_OrderID inp) (db_orders t) = Some ord" "o_Status ord = ''completed''"
    by (auto simp: order_status_def)
  note after = success_after [OF run ord(1)]
  from after(3) obtain w where w: "find (success_addr inp) (db_vends t) = Some w" "v_State w = ''success''"
    "v_MachineID w = o_MachineID ord" by blast
  from after(4) obtain pay where
    pay: "resolveAuthoritativePaymentRow (fs_OrderID inp) (o_WinningPaymentID ord) t = (Inr pay, t)" by blast
  have key: "success_key inp \<noteq> []" using FulfillSuccessful_tx [OF run] by blast
  have sale: "vend_of_sale (fs_OrderID inp) (v_SlotIndex w) (fs_LineSequence inp) t = (Inr w, t)"
  proof -
    have "addressed (fs_OrderID inp) (v_SlotIndex w) (fs_LineSequence inp) = success_addr inp"
      using find_SomeD [OF w(1)] by (auto simp: addressed_def fun_eq_iff)
    with w(1) show ?thesis by (simp add: vend_of_sale_run)
  qed
  have inv: "applyCommerceVendSuccessInventoryTx uuid_Nil (o_MachineID ord) (fs_OrderID inp) (v_SlotIndex w)
        (fs_LineSequence inp) (v_ProductID w) (success_key inp) (fs_CorrelationID inp) t = (Inr True, t)"
    using after(1,2) sale w key by (intro inventory_tx_replay) simp_all
  have lock: "lockSuccessfulVendSessionForUpdate inp t = (Inr (locked_of w), t)"
    using w(1) by (simp add: lockSuccessfulVendSessionForUpdate_def lock_run)
  have get: "no_rows_as ErrNotFound (q_GetOrderByID (fs_OrderID inp)) t = (Inr ord, t)"
    using ord(1) by (simp add: no_rows_as_Inr q_GetOrderByID_def select_one_Inr)
  have pay': "no_rows_as ErrPaymentNotSettled
      (resolveAuthoritativePaymentRow (fs_OrderID inp) (o_WinningPaymentID ord)) t = (Inr pay, t)"
    using pay by (simp add: no_rows_as_Inr)
  have tr: "success_transition inp ord (locked_of w) pay t = (Inr (ord, mapVend w), t)"
    using w(2) ord(2) by (simp add: success_transition_def locked_of_def isTerminalOrderStatus_eq)
  have "success_tx inp t = (Inr \<lparr>fsr_Order = ord, fsr_Vend = mapVend w, fsr_InventoryReplay = True,
      fsr_OrderVendReplay = True\<rparr>, t)"
    using get lock pay' tr inv w ord(2)
    by (simp add: success_tx_def locked_of_def whenM_def)
  with key show ?thesis
    by (simp add: FulfillSuccessfulVendAtomically_def tx_def)
qed

theorem success_replay_is_noop_witness:
  "order_status (UUID ''o1'') fulfilled_db = Some ''completed''
   \<and> (\<exists>r'. FulfillSuccessfulVendAtomically sample_success fulfilled_db = (Inr r', fulfilled_db)
        \<and> fsr_OrderVendReplay r' \<and> fsr_InventoryReplay r')"
proof -
  have "order_status (UUID ''o1'') fulfilled_db = Some ''completed''" by code_simp
  with success_replay_is_noop [OF sample_success_run] show ?thesis by (simp add: sample_success_def)
qed

section \<open>The order follows its lines\<close>



section \<open>Failures\<close>

abbreviation failed_addr :: "fulfill_failed_vend_input \<Rightarrow> vend_row \<Rightarrow> bool" where
  "failed_addr inp \<equiv> addressed (ff_OrderID inp) (ff_SlotIndex inp) (ff_LineSequence inp)"

lemma failed_run:
  assumes "FulfillFailedVendAtomically inp s = (Inr r, t)" and "\<not> ffr_Replay r"
  obtains ord v s1 s2 where
    "find (\<lambda>x. o_ID x = ff_OrderID inp) (db_orders s) = Some ord"
    "find (failed_addr inp) (db_vends s) = Some v" "v_State v = ''in_progress''"
    "\<exists>fr. s1 = s\<lparr>db_vends := upd_where (failed_addr inp) (vend_state_row ''failed'' fr (db_now s)) (db_vends s)\<rparr>"
    "resolveOrderStatusAfterFailedVend ord (ff_OrderID inp) s1 = (Inr (ffr_Order r), s2)"
    "fail_records inp ord (locked_of v) s2 = (Inr (), t)"
    "''failed'' \<in> set (order_line_states (ff_OrderID inp) s1)"
proof -
  from assms(1) have "failed_tx inp s = (Inr r, t)" by (simp add: FulfillFailedVendAtomically_def tx_Inr)
  from failed_tx_run [OF this] assms(2) obtain ord v fr s1 s2 where
    f: "find (\<lambda>x. o_ID x = ff_OrderID inp) (db_orders s) = Some ord"
    "find (failed_addr inp) (db_vends s) = Some v" "v_State v = ''in_progress''"
    and m: "mark_vend_line ''failed'' fr (ff_OrderID inp) (ff_SlotIndex inp) (ff_LineSequence inp) s = (Inr (ffr_Vend r), s1)"
    and g: "resolveOrderStatusAfterFailedVend ord (ff_OrderID inp) s1 = (Inr (ffr_Order r), s2)"
    "fail_records inp ord (locked_of v) s2 = (Inr (), t)"
    by auto
  from m have s1: "s1 = s\<lparr>db_vends := upd_where (failed_addr inp) (vend_state_row ''failed'' fr (db_now s)) (db_vends s)\<rparr>"
    by (auto simp: mark_run)
  have "find (failed_addr inp) (db_vends s1) = Some (vend_state_row ''failed'' fr (db_now s) v)"
    using f(2) by (simp add: s1 find_addressed_mark)
  from find_SomeD [OF this] have "''failed'' \<in> set (order_line_states (ff_OrderID inp) s1)"
    by (auto simp: order_line_states_def addressed_def image_iff intro!: bexI)
  with f g s1 that show thesis by blast
qed

text \<open>
  A failed vend that is not a replay marks the line failed, and the order's status follows its
  lines exactly as after a success: unchanged while a line is open, otherwise what the lines say, which
  is \<open>failed\<close> or \<open>partially_completed\<close>. It touches no payment, no refund and no stock; a replay or an
  error changes nothing.
\<close>

theorem failed_order_status_follows_lines:
  assumes run: "FulfillFailedVendAtomically inp s = (x, t)"
  shows "case x of
     Inl e \<Rightarrow> t = s
   | Inr r \<Rightarrow> if ffr_Replay r then t = s
       else order_status (ff_OrderID inp) t =
              (if multiLineOrderHasOpenVendLines (order_line_states (ff_OrderID inp) t) then order_status (ff_OrderID inp) s
               else Some (resolveMultiLineTerminalOrderStatus (order_line_states (ff_OrderID inp) t)))
            \<and> ''failed'' \<in> set (order_line_states (ff_OrderID inp) t)
            \<and> db_payments t = db_payments s \<and> db_refunds t = db_refunds s
            \<and> db_slots t = db_slots s \<and> db_inventory t = db_inventory s"
proof (cases x)
  case (Inl e)
  with run show ?thesis by (auto simp: FulfillFailedVendAtomically_def tx_Inl)
next
  case (Inr r)
  let ?oid = "ff_OrderID inp"
  show ?thesis
  proof (cases "ffr_Replay r")
    case True
    with run Inr failed_tx_run [of inp s r t] show ?thesis
      by (auto simp: FulfillFailedVendAtomically_def tx_Inr)
  next
    case False
    from failed_run [OF run [unfolded Inr] False] obtain ord v s1 s2 where
      ord: "find (\<lambda>x. o_ID x = ?oid) (db_orders s) = Some ord"
      and s1: "\<exists>fr. s1 = s\<lparr>db_vends := upd_where (failed_addr inp) (vend_state_row ''failed'' fr (db_now s)) (db_vends s)\<rparr>"
      and st: "resolveOrderStatusAfterFailedVend ord ?oid s1 = (Inr (ffr_Order r), s2)"
      and rec: "fail_records inp ord (locked_of v) s2 = (Inr (), t)"
      and bad: "''failed'' \<in> set (order_line_states ?oid s1)" .
    have ord1: "find (\<lambda>x. o_ID x = ?oid) (db_orders s1) = Some ord" using ord s1 by auto
    note status = failed_status_run [OF st ord1 bad]
    have k: "h t = h s2" if "journal_blind h" for h :: "db \<Rightarrow> 'b"
      using keeps_run [OF keeps_fail_records [OF that] rec] .
    have s2: "h s2 = h s1" if "\<And>x y. h (x\<lparr>db_orders := y\<rparr>) = h x" for h :: "db \<Rightarrow> 'b"
      using st that by (auto simp: resolveOrderStatusAfterFailedVend_def bnd_Inr list_vends_run
          update_status_run set_order_status_def Let_def split: if_splits)
    have states: "order_line_states ?oid t = order_line_states ?oid s1"
      using k [of vend_lines] s2 [of vend_lines]
      by (intro order_line_states_view) (simp add: journal_blind_tables vend_lines_def)
    have "order_status ?oid t = order_status ?oid s2"
      using k [of db_orders] by (simp add: order_status_def journal_blind_tables)
    moreover have "order_status ?oid s = Some (o_Status ord)" using ord by (simp add: order_status_def)
    moreover have "db_payments t = db_payments s \<and> db_refunds t = db_refunds s \<and> db_slots t = db_slots s
        \<and> db_inventory t = db_inventory s"
      using s1 by (auto simp: k journal_blind_tables s2)
    ultimately show ?thesis using Inr False status states bad by simp
  qed
qed

definition sample_failure :: fulfill_failed_vend_input where
  "sample_failure =
     \<lparr>ff_OrderID = UUID ''o1'', ff_SlotIndex = 3, ff_LineSequence = 0, ff_FailureReason = Some ''motor'',
      ff_Evidence = None, ff_VerificationStatus = [], ff_OutboxTopic = ''commerce'',
      ff_OutboxEventType = ''vend.failed'', ff_OutboxAggregateType = ''order'', ff_OutboxIdempotencyKey = [],
      ff_ReconciliationEventType = ''recon'', ff_RefundRequired = False, ff_LocalCashRefundRequired = False,
      ff_Simulated = False, ff_SimulationRunID = [], ff_SimulationScenario = []\<rparr>"

abbreviation failed_result :: fulfill_failed_vend_result where
  "failed_result \<equiv> projr (fst (FulfillFailedVendAtomically sample_failure sample_db))"

abbreviation failed_db :: db where
  "failed_db \<equiv> snd (FulfillFailedVendAtomically sample_failure sample_db)"

lemma sample_failure_run:
  "FulfillFailedVendAtomically sample_failure sample_db = (Inr failed_result, failed_db)"
  "\<not> ffr_Replay failed_result"
proof -
  have "\<not> isl (fst (FulfillFailedVendAtomically sample_failure sample_db))" by code_simp
  then show "FulfillFailedVendAtomically sample_failure sample_db = (Inr failed_result, failed_db)"
    by (cases "FulfillFailedVendAtomically sample_failure sample_db") (auto simp: isl_def split: sum.splits)
  show "\<not> ffr_Replay failed_result" by code_simp
qed

theorem failed_order_status_follows_lines_witness:
  "''failed'' \<in> set (order_line_states (UUID ''o1'') failed_db) \<and> db_payments failed_db = db_payments sample_db"
  using failed_order_status_follows_lines [OF sample_failure_run(1)] sample_failure_run(2)
  by (simp add: sample_failure_def)

section \<open>Finished lines\<close>

definition line_step :: "int \<times> vend_session \<Rightarrow> int \<times> vend_session \<Rightarrow> bool" where
  "line_step a b \<longleftrightarrow> fst b = fst a \<and> v_ID (snd b) = v_ID (snd a)
     \<and> (v_State (snd b) = v_State (snd a) \<or> v_State (snd b) \<in> set (vendTransitions (v_State (snd a))))"

text \<open>
  A request addresses at most one line: always so by line sequence, which is unique in an order, and
  by slot when the order has one line of that slot.
\<close>

definition addresses_one :: "uuid \<Rightarrow> int \<Rightarrow> int \<Rightarrow> db \<Rightarrow> bool" where
  "addresses_one oid idx line s \<longleftrightarrow> length (filter (addressed oid idx line) (db_vends s)) \<le> 1"

lemma line_step_refl: "list_all2 line_step xs xs"
  by (rule list_all2_refl) (simp add: line_step_def)

lemma mark_steps:
  assumes "length (filter P rows) \<le> 1" "find P rows = Some v" "v_State v = ''in_progress''"
    and "st = ''success'' \<or> st = ''failed''"
  shows "list_all2 line_step (map line_view rows) (map line_view (upd_where P (vend_state_row st fr now) rows))"
proof -
  have one: "w = v" if "w \<in> set rows" "P w" for w
  proof -
    have "w \<in> set (filter P rows)" "v \<in> set (filter P rows)"
      using that find_SomeD [OF assms(2)] by auto
    with assms(1) show ?thesis by (cases "filter P rows") (auto simp: le_Suc_eq)
  qed
  have "line_step (line_view w) (line_view (if P w then vend_state_row st fr now w else w))" if "w \<in> set rows" for w
    using one [OF that] assms(3,4)
    by (auto simp: line_step_def line_view_def mapVend_def vend_session.defs vendTransitions_def vend_state_row_def)
  then show ?thesis
    by (simp add: upd_where_def list_all2_map1 list_all2_map2 list_all2_same)
qed

lemma success_line_steps:
  assumes "addresses_one (fs_OrderID inp) (fs_SlotIndex inp) (fs_LineSequence inp) s"
  shows "list_all2 line_step (vend_lines s) (vend_lines (snd (FulfillSuccessfulVendAtomically inp s)))"
proof (cases "FulfillSuccessfulVendAtomically inp s")
  case (Pair x t)
  show ?thesis
  proof (cases x)
    case (Inl e)
    with Pair have "t = s"
      by (auto simp: FulfillSuccessfulVendAtomically_def tx_Inl split: if_splits)
    with Pair show ?thesis by (simp add: line_step_refl)
  next
    case (Inr r)
    from success_run [OF Pair [unfolded Inr]] obtain ord v pay s1 where
      v: "find (success_addr inp) (db_vends s) = Some v"
      and tr: "success_transition inp ord (locked_of v) pay s = (Inr (fsr_Order r, fsr_Vend r), s1)"
      and t: "vend_lines t = vend_lines s1" .
    let ?u = "if v_State v = ''in_progress''
      then s\<lparr>db_vends := upd_where (success_addr inp) (vend_state_row ''success'' None (db_now s)) (db_vends s)\<rparr> else s"
    from success_transition_run [OF tr v] obtain st where "s1 = ?u \<or> s1 = set_order_status (fs_OrderID inp) st ?u"
      by blast
    then have "vend_lines s1 = vend_lines ?u"
      by (elim disjE) (simp_all add: set_order_status_def vend_lines_def)
    with t Pair mark_steps [OF assms [unfolded addresses_one_def] v] show ?thesis
      by (cases "v_State v = ''in_progress''") (simp_all add: vend_lines_def line_step_refl)
  qed
qed

lemma failed_line_steps:
  assumes "addresses_one (ff_OrderID inp) (ff_SlotIndex inp) (ff_LineSequence inp) s"
  shows "list_all2 line_step (vend_lines s) (vend_lines (snd (FulfillFailedVendAtomically inp s)))"
proof (cases "FulfillFailedVendAtomically inp s")
  case (Pair x t)
  show ?thesis
  proof (cases x)
    case (Inl e)
    with Pair have "t = s" by (auto simp: FulfillFailedVendAtomically_def tx_Inl)
    with Pair show ?thesis by (simp add: line_step_refl)
  next
    case (Inr r)
    show ?thesis
    proof (cases "ffr_Replay r")
      case True
      with Pair Inr failed_tx_run [of inp s r t] have "t = s"
        by (auto simp: FulfillFailedVendAtomically_def tx_Inr)
      with Pair show ?thesis by (simp add: line_step_refl)
    next
      case False
      from failed_run [OF Pair [unfolded Inr] False] obtain ord v s1 s2 where
        v: "find (failed_addr inp) (db_vends s) = Some v" "v_State v = ''in_progress''"
        and s1: "\<exists>fr. s1 = s\<lparr>db_vends := upd_where (failed_addr inp) (vend_state_row ''failed'' fr (db_now s)) (db_vends s)\<rparr>"
        and st: "resolveOrderStatusAfterFailedVend ord (ff_OrderID inp) s1 = (Inr (ffr_Order r), s2)"
        and rec: "fail_records inp ord (locked_of v) s2 = (Inr (), t)" .
      have "vend_lines t = vend_lines s2"
        using keeps_run [OF keeps_fail_records rec] journal_blind_tables by blast
      moreover have "vend_lines s2 = vend_lines s1"
        using st by (auto simp: resolveOrderStatusAfterFailedVend_def bnd_Inr list_vends_run
            update_status_run set_order_status_def vend_lines_def Let_def split: if_splits)
      ultimately show ?thesis
        using Pair s1 mark_steps [OF assms [unfolded addresses_one_def] v] by (auto simp: vend_lines_def)
    qed
  qed
qed



section \<open>Money owed after a failure\<close>

definition states_checked :: "db \<Rightarrow> bool" where
  "states_checked s \<longleftrightarrow> list_all (\<lambda>p. p_State p \<in> set paymentStates) (db_payments s)"

lemma TrimSpace_state: "st \<in> set paymentStates \<Longrightarrow> TrimSpace st = st"
  by (auto simp: paymentStates_def) code_simp+

definition failure_entry :: "fulfill_failed_vend_input \<Rightarrow> time \<Rightarrow> bool \<Rightarrow> bool \<Rightarrow> order_timeline" where
  "failure_entry inp now refundRequired localCashRefund =
     \<lparr>tl_OrderID = ff_OrderID inp, tl_EventType = ''commerce_vend_dispense_failed'', tl_ActorType = ''system'',
      tl_Payload = JObj [(''failure_reason'', JStr (derefStr (ff_FailureReason inp))),
        (''local_cash_refund_required_hint'', JBool localCashRefund),
        (''refund_required'', JBool refundRequired), (''slot_index'', JNum (ff_SlotIndex inp))],
      tl_OccurredAt = now\<rparr>"

lemma keeps_timelines_outbox: "keeps db_timelines (insertOutboxEventIdempotent p)"
  unfolding insertOutboxEventIdempotent_def q_InsertOutboxEventIdempotent_def q_InsertOutboxEvent_def
    q_GetOutboxByTopicAndIdempotency_def next_serial_def Let_def
  by (intro kept.moves_rules keeps_writes keeps_select_one) (simp_all add: moves_def)

lemma fail_notices_run:
  assumes "fail_notices inp ord a b s = (Inr x, t)"
  shows "db_timelines t = db_timelines s @ [failure_entry inp (db_now s) a b]"
proof -
  let ?s = "s\<lparr>db_timelines := db_timelines s @ [failure_entry inp (db_now s) a b]\<rparr>"
  from assms obtain e1 m s1 where
    "insertOutboxEventIdempotent e1 ?s = (Inr (), s1)" and "whenM m (insertOutboxEventIdempotent (fail_event inp ord
       (TrimSpace (ff_ReconciliationEventType inp))
          (JObj [(''local_cash_refund_required_hint'', JBool b),
             (''order_id'', JStr (uuid_String (ff_OrderID inp))), (''refund_required'', JBool a),
             (''slot_index'', JNum (ff_SlotIndex inp))])
          (fail_key inp (ff_SlotIndex inp) @ '':reconciliation''))) s1 = (Inr x, t)"
    by (auto simp: fail_notices_def failure_entry_def q_InsertOrderTimelineEvent_def seq_Inr)
  from keeps_run [OF keeps_timelines_outbox this(1)] keeps_run [OF kept.moves_whenM [OF keeps_timelines_outbox] this(2)]
  show ?thesis by simp
qed

lemma fail_flags_run:
  assumes "fail_refund_flags inp ord s = (Inr (a, b), t)"
    and "\<not> ff_RefundRequired inp" "\<not> ff_LocalCashRefundRequired inp" "o_WinningPaymentID ord = None"
    and "states_checked s"
  shows "t = s \<and> \<not> (a \<and> b)
    \<and> (a \<or> b \<longleftrightarrow> (\<exists>p \<in> set (db_payments s). p_OrderID p = ff_OrderID inp \<and> settled_state (p_State p)))"
proof -
  let ?ps = "sort_key p_CreatedAt (filter (\<lambda>p. p_OrderID p = ff_OrderID inp) (db_payments s))"
  have t: "t = s"
    using assms(1) read_only_run [OF read_only_resolveAuthoritative]
    by (auto simp: fail_refund_flags_def bnd_Inr Let_def split: sum.splits if_splits dest!: sym [of "snd _"])
      (metis prod.collapse)+
  have trim: "TrimSpace (p_State p) = p_State p" if "p \<in> set (db_payments s)" for p
    using assms(5) that by (auto simp: states_checked_def list_all_iff TrimSpace_state)
  have auth: "resolveAuthoritativePaymentRow (ff_OrderID inp) (o_WinningPaymentID ord) s =
      (case latest_settled ?ps of Some p \<Rightarrow> (Inr p, s) | None \<Rightarrow> q_GetLatestPaymentForOrder (ff_OrderID inp) s)"
    using assms(4) by (simp add: resolveAuthoritativePaymentRow_def settled_or_latest_def q_ListPaymentsForOrder_def
        split: option.splits)
  show ?thesis
  proof (cases "latest_settled ?ps")
    case None
    then have no: "\<not> (\<exists>p \<in> set (db_payments s). p_OrderID p = ff_OrderID inp \<and> settled_state (p_State p))"
      using trim by (auto simp: latest_settled_iff)
    have "\<not> a \<and> \<not> b"
    proof (cases "fst (q_GetLatestPaymentForOrder (ff_OrderID inp) s)")
      case (Inl e)
      with assms(1-3) None auth show ?thesis
        by (auto simp: fail_refund_flags_def bnd_Inr split: if_splits)
    next
      case (Inr p)
      then have "q_GetLatestPaymentForOrder (ff_OrderID inp) s = (Inr p, snd (q_GetLatestPaymentForOrder (ff_OrderID inp) s))"
        by (metis prod.collapse)
      from latest_payment_run [OF this] no have "\<not> settled_state (p_State p)" by blast
      with assms(1-3) None auth Inr show ?thesis
        by (auto simp: fail_refund_flags_def bnd_Inr Let_def settled_state_def split: if_splits)
    qed
    with t no show ?thesis by blast
  next
    case (Some p)
    from latest_settled_SomeD [OF Some] have p: "p \<in> set (db_payments s)" "p_OrderID p = ff_OrderID inp"
      "settled_state (p_State p)" using trim by auto
    with assms(1-3) Some auth have "\<not> (a \<and> b) \<and> (a \<or> b)"
      by (auto simp: fail_refund_flags_def bnd_Inr Let_def settled_state_def split: if_splits)
    with t p show ?thesis by blast
  qed
qed

lemma fail_records_run:
  assumes rec: "fail_records inp ord vl s = (Inr (), t)"
  shows "\<exists>u v a b. fail_refund_flags inp ord u = (Inr (a, b), v) \<and> fail_notices inp ord a b v = (Inr (), t)
    \<and> db_timelines u = db_timelines s \<and> db_payments u = db_payments s \<and> db_now u = db_now s"
proof -
  from rec obtain u3 u4 a b where
    r1: "set_verification (verification_or_default (ff_VerificationStatus inp)) (ff_OrderID inp)
            (lv_slotIndex vl) (ff_LineSequence inp) s = (Inr (), u3)"
    and r2: "\<exists>y. persistVendHardwareEvidenceTx (ff_OrderID inp) (lv_id vl) (o_MachineID ord)
            (lv_slotIndex vl) (ff_Evidence inp)
            (fail_key inp (lv_slotIndex vl) @ '':hardware_evidence'') u3 = (Inr y, u4)"
    and flags: "\<exists>u5. fail_refund_flags inp ord u4 = (Inr (a, b), u5) \<and> fail_notices inp ord a b u5 = (Inr (), t)"
    by (auto simp: fail_records_def Let_def seq_Inr bnd_Inr)
  have kt: "keeps db_timelines (set_verification w x y z)" for w x y z
    unfolding set_verification_def q_SetVendSessionVerificationStatus_def
      q_SetVendSessionVerificationStatusByLineSequence_def set_verification_where_def
    by (intro kept.moves_rules keeps_update_one) (simp_all add: set_vends_def)
  have ke: "keeps db_timelines (persistVendHardwareEvidenceTx x1 x2 x3 x4 x5 x6)" for x1 x2 x3 x4 x5 x6
    unfolding persistVendHardwareEvidenceTx_def q_InsertVendHardwareEvidence_def
    by (intro kept.moves_rules keeps_writes) simp
  have tl: "db_timelines u4 = db_timelines s"
    using keeps_run [OF kt r1] r2 keeps_run [OF ke] by auto
  have jb: "h u4 = h s" if "journal_blind h" for h :: "db \<Rightarrow> 'b"
    using keeps_run [OF keeps_set_verification [OF that] r1] r2 keeps_run [OF keeps_evidence [OF that]] by auto
  show ?thesis
    using flags tl jb [of db_payments] jb [of db_now] journal_blind_tables by blast
qed

text \<open>
  A failed vend owes the customer money exactly when the order has been paid. For an order
  without a claimed winner, when the caller leaves the decision to the store, the failure's timeline
  entry asks for a refund or for returning the cash if and only if some payment of the order is
  captured or partly refunded, and never for both.
\<close>

theorem failed_vend_owes_money_iff_paid:
  assumes run: "FulfillFailedVendAtomically inp s = (Inr r, t)" and "\<not> ffr_Replay r"
    and "\<not> ff_RefundRequired inp" "\<not> ff_LocalCashRefundRequired inp"
    and "find (\<lambda>x. o_ID x = ff_OrderID inp) (db_orders s) = Some ord" "o_WinningPaymentID ord = None"
    and "states_checked s"
  shows "\<exists>refund cash. db_timelines t = db_timelines s @ [failure_entry inp (db_now s) refund cash]
    \<and> \<not> (refund \<and> cash)
    \<and> (refund \<or> cash \<longleftrightarrow> (\<exists>p \<in> set (db_payments s). p_OrderID p = ff_OrderID inp \<and> settled_state (p_State p)))"
proof -
  from failed_run [OF run assms(2)] obtain v s1 s2 where
    s1: "\<exists>fr. s1 = s\<lparr>db_vends := upd_where (failed_addr inp) (vend_state_row ''failed'' fr (db_now s)) (db_vends s)\<rparr>"
    and st: "resolveOrderStatusAfterFailedVend ord (ff_OrderID inp) s1 = (Inr (ffr_Order r), s2)"
    and rec: "fail_records inp ord (locked_of v) s2 = (Inr (), t)"
    using assms(5) by (metis option.inject)
  have s2: "h s2 = h s" if "\<And>x y. h (x\<lparr>db_orders := y\<rparr>) = h x" "\<And>x y. h (x\<lparr>db_vends := y\<rparr>) = h x" for h :: "db \<Rightarrow> 'b"
    using st s1 that by (auto simp: resolveOrderStatusAfterFailedVend_def bnd_Inr list_vends_run
        update_status_run set_order_status_def Let_def split: if_splits)
  from fail_records_run [OF rec] obtain u4 u5 a b where
    flags: "fail_refund_flags inp ord u4 = (Inr (a, b), u5)" "fail_notices inp ord a b u5 = (Inr (), t)"
    and tl4: "db_timelines u4 = db_timelines s2"
    and jb: "db_payments u4 = db_payments s2" "db_now u4 = db_now s2" by blast
  have tl: "db_timelines u4 = db_timelines s" using tl4 s2 [of db_timelines] by simp
  have "db_payments u4 = db_payments s" "db_now u4 = db_now s"
    using jb s2 [of db_payments] s2 [of db_now] by simp_all
  moreover from this assms(7) have "states_checked u4" by (simp add: states_checked_def)
  ultimately show ?thesis
    using flags fail_flags_run [of inp ord u4 a b u5] fail_notices_run [of inp ord a b u5 "()" t] assms(3,4,6) tl
    by (intro exI [of _ a] exI [of _ b]) simp
qed

theorem failed_vend_owes_money_iff_paid_witness:
  "states_checked sample_db
   \<and> (\<exists>refund cash. db_timelines failed_db = [failure_entry sample_failure (db_now sample_db) refund cash]
        \<and> \<not> (refund \<and> cash) \<and> (refund \<or> cash))"
proof -
  have c: "states_checked sample_db" "\<not> ff_RefundRequired sample_failure" "\<not> ff_LocalCashRefundRequired sample_failure"
    "find (\<lambda>x. o_ID x = ff_OrderID sample_failure) (db_orders sample_db) = Some sample_order"
    "o_WinningPaymentID sample_order = None" by code_simp+
  have paid: "\<exists>p \<in> set (db_payments sample_db). p_OrderID p = ff_OrderID sample_failure \<and> settled_state (p_State p)"
    by code_simp
  have "db_timelines sample_db = []" by code_simp
  with failed_vend_owes_money_iff_paid [OF sample_failure_run c(2-5,1)] paid c(1) show ?thesis by auto
qed

end
