(* ===== verification/Payment_Webhook.thy ===== *)
theory Payment_Webhook
  imports Vend_Fulfillment Json_Sanitize
begin

text \<open>
  Provider notifications about payments: \<open>internal/modules/postgres/commerce_webhook.go\<close> (one
  transaction per delivery, replay detection by provider reference and by event id, amount and
  currency check, state transition, event, attempt, winner claim, late captures, outbox and audit),
  its entry point \<open>Service.ApplyPaymentProviderWebhook\<close> in \<open>internal/app/commerce/service.go\<close>, and the
  reconciler's transition in \<open>internal/modules/postgres/reconciliation_payment.go\<close>. The table
  \<open>db_audit\<close> is the sequence of records handed to the audit service in committed transactions; the
  first argument of the operations says whether that service is configured.
\<close>

section \<open>Statements\<close>

definition validation_statuses :: "string list" where
  "validation_statuses = [''hmac_verified'', ''unsigned_development'', ''invalid_signature'', ''provider_native_verified'']"

definition q_GetPaymentProviderEventByProviderRef :: "string \<Rightarrow> string \<Rightarrow> provider_event q" where
  "q_GetPaymentProviderEventByProviderRef provider ref =
     select_one db_provider_events (\<lambda>e. pe_Provider e = provider \<and> pe_ProviderRef e = Some ref)"

definition q_GetPaymentProviderEventByWebhookEventID :: "string \<Rightarrow> string \<Rightarrow> provider_event q" where
  "q_GetPaymentProviderEventByWebhookEventID provider evid =
     select_one db_provider_events (\<lambda>e. pe_Provider e = provider \<and> pe_WebhookEventID e = Some evid)"

definition event_key_used :: "provider_event \<Rightarrow> provider_event \<Rightarrow> bool" where
  "event_key_used row e \<longleftrightarrow> pe_Provider e = pe_Provider row
     \<and> ((case pe_ProviderRef row of None \<Rightarrow> False | Some r \<Rightarrow> TrimSpace r \<noteq> [] \<and> pe_ProviderRef e = Some r)
        \<or> (case pe_WebhookEventID row of None \<Rightarrow> False | Some w \<Rightarrow> TrimSpace w \<noteq> [] \<and> pe_WebhookEventID e = Some w))"

definition q_InsertPaymentProviderEvent :: "provider_event \<Rightarrow> provider_event q" where
  "q_InsertPaymentProviderEvent row =
     (if pe_ValidationStatus row \<notin> set validation_statuses then raise (Err ErrCheckViolation)
      else bnd (reads (\<lambda>s. list_ex (event_key_used row) (db_provider_events s))) (\<lambda>clash.
        if clash then raise (Err ErrUniqueViolation)
        else bnd next_serial (\<lambda>i.
          seq (writes (\<lambda>s. s\<lparr>db_provider_events := db_provider_events s @ [row\<lparr>pe_ID := i\<rparr>]\<rparr>))
            (ret (row\<lparr>pe_ID := i\<rparr>)))))"

text \<open>A statement whose error is dropped: in a transaction a failed statement still ends it.\<close>

definition ignoring :: "bool \<Rightarrow> 'a q \<Rightarrow> unit q" where
  "ignoring inTx m = (if inTx then seq (unless_aborted m) (ret ()) else seq (attempt m) (ret ()))"

definition tx_aborted :: go_err where
  "tx_aborted = GoErr ErrOther ''current transaction is aborted''"

section \<open>Replays\<close>

definition machineUUIDPtr :: "uuid \<Rightarrow> uuid option" where
  "machineUUIDPtr i = (if i = uuid_Nil then None else Some i)"

definition assertWebhookReplayFieldsMatch :: "provider_event \<Rightarrow> webhook_input \<Rightarrow> go_err + unit" where
  "assertWebhookReplayFieldsMatch existing inp =
     (let clash = (\<lambda>stored given. case stored of None \<Rightarrow> False
                     | Some x \<Rightarrow> TrimSpace x \<noteq> [] \<and> TrimSpace given \<noteq> [] \<and> TrimSpace x \<noteq> TrimSpace given)
      in if clash (pe_ProviderRef existing) (wi_ProviderReference inp)
         then Inl (Err ErrWebhookIdempotencyConflict)
         else if clash (pe_WebhookEventID existing) (wi_WebhookEventID inp)
         then Inl (Err ErrWebhookIdempotencyConflict) else Inr ())"

definition promoteCapturedOrderIfNeeded :: "bool \<Rightarrow> order \<Rightarrow> payment \<Rightarrow> order q" where
  "promoteCapturedOrderIfNeeded inTx ord pay =
     (if TrimSpace (p_State pay) \<noteq> ''captured'' then ret ord
      else if TrimSpace (o_Status ord) \<noteq> ''created'' \<and> TrimSpace (o_Status ord) \<noteq> ''quoted'' then ret ord
      else bnd (attempt (q_ClaimWinningPayment (p_ID pay) (o_ID ord))) (\<lambda>r. case r of
          Inr claimed \<Rightarrow> seq (ignoring inTx (q_UpdatePaymentOutcome (p_ID pay) ''winner'')) (ret claimed)
        | Inl e \<Rightarrow>
            if inTx \<and> \<not> errors_Is e ErrNoRows then raise tx_aborted
            else bnd (q_UpdateOrderStatusByOrg ''paid'' (o_ID ord)) (\<lambda>updated.
              seq (ignoring inTx (q_UpdatePaymentOutcome (p_ID pay) ''winner'')) (ret updated))))"

definition provider_mismatch :: "payment \<Rightarrow> webhook_input \<Rightarrow> bool" where
  "provider_mismatch pay inp \<longleftrightarrow>
     TrimSpace (p_Provider pay) \<noteq> [] \<and> \<not> EqualFold (TrimSpace (p_Provider pay)) (TrimSpace (wi_Provider inp))"

definition webhookReplayResultFromEvent :: "bool \<Rightarrow> provider_event \<Rightarrow> webhook_input \<Rightarrow> webhook_result q" where
  "webhookReplayResultFromEvent inTx existing inp =
     (if pe_PaymentID existing \<noteq> Some (wi_PaymentID inp)
      then raise (GoErr ErrOrgMismatch ''provider event already bound to a different payment'')
      else bnd (lift_res (assertWebhookReplayFieldsMatch existing inp)) (\<lambda>_.
        bnd (q_GetPaymentByID (wi_PaymentID inp)) (\<lambda>pay.
        if provider_mismatch pay inp then raise (Err ErrWebhookProviderMismatch)
        else bnd (q_GetOrderByID (wi_OrderID inp)) (\<lambda>ord.
          bnd (promoteCapturedOrderIfNeeded inTx ord pay) (\<lambda>ord'.
          ret \<lparr>wr_Replay = True, wr_Order = ord', wr_Payment = pay, wr_Attempt = None,
               wr_ProviderRowID = pe_ID existing\<rparr>)))))"

definition auditPaymentWebhookTx :: "bool \<Rightarrow> webhook_input \<Rightarrow> bool \<Rightarrow> uuid option \<Rightarrow> unit q" where
  "auditPaymentWebhookTx audit inp replay machineID =
     (if \<not> audit then ret ()
      else let vstat = (if TrimSpace (wi_WebhookValidationStatus inp) = [] then ''hmac_verified''
                        else TrimSpace (wi_WebhookValidationStatus inp))
        in writes (\<lambda>s. s\<lparr>db_audit := db_audit s @
             [\<lparr>ae_Action = (if replay then ''payment.webhook.replayed'' else ''payment.webhook.accepted''),
               ae_ResourceID = uuid_String (wi_PaymentID inp), ae_MachineID = machineID,
               ae_Metadata = JObj [(''order_id'', JStr (uuid_String (wi_OrderID inp))),
                 (''payment_id'', JStr (uuid_String (wi_PaymentID inp))), (''provider'', JStr (wi_Provider inp)),
                 (''replay'', JBool replay), (''validation'', JStr vstat),
                 (''webhook_event_id'', JStr (TrimSpace (wi_WebhookEventID inp)))]\<rparr>]\<rparr>))"

definition webhook_replay_tx :: "bool \<Rightarrow> webhook_input \<Rightarrow> provider_event \<Rightarrow> webhook_result q" where
  "webhook_replay_tx audit inp existing =
     bnd (webhookReplayResultFromEvent True existing inp) (\<lambda>res.
       seq (auditPaymentWebhookTx audit inp True (machineUUIDPtr (o_MachineID (wr_Order res)))) (ret res))"

text \<open>After a lost race on the event's unique index, outside any transaction.\<close>

definition webhookReplayByProviderRef :: "webhook_input \<Rightarrow> webhook_result q" where
  "webhookReplayByProviderRef inp =
     bnd (q_GetPaymentProviderEventByProviderRef (wi_Provider inp) (wi_ProviderReference inp)) (\<lambda>ev.
       webhookReplayResultFromEvent False ev inp)"

definition webhookReplayByWebhookEventID :: "webhook_input \<Rightarrow> webhook_result q" where
  "webhookReplayByWebhookEventID inp =
     bnd (q_GetPaymentProviderEventByWebhookEventID (wi_Provider inp) (TrimSpace (wi_WebhookEventID inp))) (\<lambda>ev.
       webhookReplayResultFromEvent False ev inp)"

definition no_replay_match :: go_err where
  "no_replay_match = GoErr ErrOther ''postgres: payment_provider_events unique violation without replay match''"

definition webhookReplayAfterUniqueViolation :: "webhook_input \<Rightarrow> webhook_result q" where
  "webhookReplayAfterUniqueViolation inp =
     bnd (attempt (webhookReplayByProviderRef inp)) (\<lambda>r. case r of
         Inr res \<Rightarrow> ret res
       | Inl e \<Rightarrow>
           if \<not> errors_Is e ErrNoRows then raise e
           else if TrimSpace (wi_WebhookEventID inp) = [] then raise no_replay_match
           else bnd (attempt (webhookReplayByWebhookEventID inp)) (\<lambda>r2. case r2 of
               Inr res \<Rightarrow> ret res
             | Inl e2 \<Rightarrow> if \<not> errors_Is e2 ErrNoRows then raise e2 else raise no_replay_match))"

section \<open>First deliveries\<close>

definition webhook_target :: "webhook_input \<Rightarrow> string" where
  "webhook_target inp = TrimSpace (ToLower (wi_NormalizedPaymentState inp))"

definition webhook_late :: "order \<Rightarrow> payment \<Rightarrow> string \<Rightarrow> go_err + bool" where
  "webhook_late ord pay target =
     (if paymentTransitionAllowed (p_State pay) target then Inr False
      else if target = ''captured'' \<and> webhookLateDeliveryAgainstTerminalState ord pay then Inr True
      else if webhookLateDeliveryAgainstTerminalState ord pay then Inl (Err ErrWebhookAfterTerminalOrder)
      else Inl (Err ErrIllegalTransition))"

definition webhook_set_state :: "payment \<Rightarrow> string \<Rightarrow> bool \<Rightarrow> payment q" where
  "webhook_set_state pay target late =
     (if p_State pay = target then ret pay
      else if late \<and> target = ''captured'' then q_ForceUpdatePaymentStateCaptured (p_ID pay)
      else q_UpdatePaymentState (p_ID pay) target)"

definition webhook_event_row :: "webhook_input \<Rightarrow> time \<Rightarrow> provider_event" where
  "webhook_event_row inp now =
     (let vstat = (if TrimSpace (wi_WebhookValidationStatus inp) = [] then ''hmac_verified''
                   else TrimSpace (wi_WebhookValidationStatus inp))
      in \<lparr>pe_ID = 0, pe_PaymentID = Some (wi_PaymentID inp), pe_Provider = wi_Provider inp,
          pe_ProviderRef = Some (wi_ProviderReference inp),
          pe_WebhookEventID = (if TrimSpace (wi_WebhookEventID inp) \<noteq> [] then Some (TrimSpace (wi_WebhookEventID inp)) else None),
          pe_ProviderAmountMinor = wi_ProviderAmountMinor inp, pe_Currency = wi_Currency inp,
          pe_EventType = wi_EventType inp, pe_Payload = RequiredString (SanitizeJSONBytes (wi_Payload inp)),
          pe_ValidationStatus = vstat, pe_ProviderMetadata = RequiredString (wi_ProviderMetadata inp),
          pe_SignatureValid = (vstat = ''hmac_verified'' \<or> vstat = ''unsigned_development'' \<or> vstat = ''provider_native_verified''),
          pe_AppliedAt = Some now, pe_IngressStatus = ''applied''\<rparr>)"

text \<open>The unique violation of this one insert is told apart: it makes the code retry as a replay.\<close>

definition lost_race :: go_err where
  "lost_race = GoErr ErrUniqueViolation ''payment_provider_events''"

definition webhook_insert_event :: "webhook_input \<Rightarrow> provider_event q" where
  "webhook_insert_event inp =
     bnd (reads db_now) (\<lambda>now.
     bnd (attempt (q_InsertPaymentProviderEvent (webhook_event_row inp now))) (\<lambda>r. case r of
         Inr ev \<Rightarrow> ret ev
       | Inl e \<Rightarrow> if errors_Is e ErrUniqueViolation then raise lost_race else raise e))"

definition webhook_claim :: "order \<Rightarrow> payment \<Rightarrow> string \<Rightarrow> bool \<Rightarrow> order q" where
  "webhook_claim ord pay target late =
     (if target = ''captured'' \<and> (o_Status ord = ''created'' \<or> o_Status ord = ''quoted'') \<and> \<not> late
      then bnd (attempt (q_ClaimWinningPayment (p_ID pay) (o_ID ord))) (\<lambda>r. case r of
          Inr claimed \<Rightarrow> seq (ignoring True (q_UpdatePaymentOutcome (p_ID pay) ''winner'')) (ret claimed)
        | Inl e \<Rightarrow> if \<not> errors_Is e ErrNoRows then raise tx_aborted
                  else q_UpdateOrderStatusByOrg ''paid'' (o_ID ord))
      else ret ord)"

definition late_case :: "string \<Rightarrow> string \<Rightarrow> string \<Rightarrow> order \<Rightarrow> payment \<Rightarrow> reconciliation_case_input" where
  "late_case ty reason prefix ord pay =
     \<lparr>rc_CaseType = ty, rc_Severity = ''critical'', rc_OrderID = Some (o_ID ord), rc_PaymentID = Some (p_ID pay),
      rc_VendSessionID = None, rc_RefundID = None, rc_MachineID = Some (o_MachineID ord), rc_Provider = None,
      rc_ProviderEventID = None, rc_CorrelationKey = prefix @ uuid_String (p_ID pay), rc_Reason = reason,
      rc_Metadata = JObj []\<rparr>"

definition webhook_late_claim :: "order \<Rightarrow> payment \<Rightarrow> string \<Rightarrow> bool \<Rightarrow> order q" where
  "webhook_late_claim ord pay target late =
     (if \<not> (late \<and> target = ''captured'') then ret ord
      else case o_WinningPaymentID ord of
        Some w \<Rightarrow>
          if w \<noteq> p_ID pay
          then seq (q_UpdatePaymentOutcome (p_ID pay) ''refund_required'')
            (seq (ignoring True (q_UpsertCommerceReconciliationCase (late_case ''late_capture_refund_required''
                   ''Late capture after order already has winning payment'' ''financial_correctness:late_capture:'' ord pay)))
              (ret ord))
          else ret ord
      | None \<Rightarrow>
          bnd (attempt (q_ClaimWinningPayment (p_ID pay) (o_ID ord))) (\<lambda>r. case r of
              Inr claimed \<Rightarrow> seq (ignoring True (q_UpdatePaymentOutcome (p_ID pay) ''winner'')) (ret claimed)
            | Inl e \<Rightarrow>
                if \<not> errors_Is e ErrNoRows then raise tx_aborted
                else if o_Status ord = ''created'' \<or> o_Status ord = ''quoted''
                then bnd (q_UpdateOrderStatusByOrg ''paid'' (o_ID ord)) (\<lambda>ord'.
                  seq (ignoring True (q_UpdatePaymentOutcome (p_ID pay) ''winner'')) (ret ord'))
                else seq (ignoring True (q_UpsertCommerceReconciliationCase (late_case ''late_capture_order_promotion_failed''
                       ''Late capture could not promote order to paid'' ''financial_correctness:late_capture_promotion:'' ord pay)))
                  (ret ord)))"

definition webhookOutboxPayload :: "webhook_input \<Rightarrow> raw" where
  "webhookOutboxPayload inp =
     (if wi_OutboxPayload inp \<noteq> NoBytes then wi_OutboxPayload inp
      else Bytes (JObj [(''order_id'', JStr (uuid_String (wi_OrderID inp))),
        (''payment_id'', JStr (uuid_String (wi_PaymentID inp))),
        (''payment_state'', JStr (TrimSpace (wi_NormalizedPaymentState inp))),
        (''provider'', JStr (TrimSpace (wi_Provider inp))), (''source'', JStr ''payment_webhook''),
        (''webhook_event_id'', JStr (TrimSpace (wi_WebhookEventID inp)))]))"

definition webhook_outbox :: "webhook_input \<Rightarrow> unit q" where
  "webhook_outbox inp =
     (if shouldInsertWebhookOutbox inp
      then seq (q_InsertOutboxEvent (wi_OutboxTopic inp) (wi_OutboxEventType inp)
             (RequiredString (webhookOutboxPayload inp)) (wi_OutboxAggregateType inp) (wi_OutboxAggregateID inp)
             (pgTextOrEmpty (wi_OutboxIdempotencyKey inp)) False None None) (ret ())
      else ret ())"

text \<open>Everything after the event has been stored, and after the payment's state has been set.\<close>

definition webhook_settle :: "bool \<Rightarrow> webhook_input \<Rightarrow> order \<Rightarrow> payment \<Rightarrow> bool \<Rightarrow> provider_event \<Rightarrow> webhook_result q" where
  "webhook_settle audit inp ord pay late ev =
     bnd (q_InsertPaymentAttempt (wi_PaymentID inp) (Some (wi_ProviderReference inp)) (webhook_target inp)
            (RequiredString (wi_Payload inp))) (\<lambda>att.
     bnd (webhook_claim ord pay (webhook_target inp) late) (\<lambda>ord1.
     bnd (webhook_late_claim ord1 pay (webhook_target inp) late) (\<lambda>ord2.
     seq (webhook_outbox inp)
       (seq (auditPaymentWebhookTx audit inp False (machineUUIDPtr (o_MachineID ord2)))
         (ret \<lparr>wr_Replay = False, wr_Order = ord2, wr_Payment = pay,
               wr_Attempt = Some (mapPaymentAttemptView att), wr_ProviderRowID = pe_ID ev\<rparr>)))))"

definition webhook_record :: "bool \<Rightarrow> webhook_input \<Rightarrow> order \<Rightarrow> payment \<Rightarrow> bool \<Rightarrow> webhook_result q" where
  "webhook_record audit inp ord pay late =
     bnd (webhook_insert_event inp) (webhook_settle audit inp ord pay late)"

definition webhook_apply_tx :: "bool \<Rightarrow> webhook_input \<Rightarrow> webhook_result q" where
  "webhook_apply_tx audit inp =
     bnd (q_GetPaymentByID (wi_PaymentID inp)) (\<lambda>pay.
     if provider_mismatch pay inp then raise (Err ErrWebhookProviderMismatch)
     else if p_OrderID pay \<noteq> wi_OrderID inp then raise (Err ErrOrgMismatch)
     else bnd (q_GetOrderByID (wi_OrderID inp)) (\<lambda>ord.
       bnd (lift_res (webhookAmountCurrencyMatches pay ord inp)) (\<lambda>_.
       bnd (lift_res (webhook_late ord pay (webhook_target inp))) (\<lambda>late.
       bnd (webhook_set_state pay (webhook_target inp) late) (\<lambda>pay'.
       webhook_record audit inp ord pay' late)))))"

definition webhook_tx :: "bool \<Rightarrow> webhook_input \<Rightarrow> webhook_result q" where
  "webhook_tx audit inp =
     bnd (attempt (q_GetPaymentProviderEventByProviderRef (wi_Provider inp) (wi_ProviderReference inp))) (\<lambda>r. case r of
         Inr existing \<Rightarrow> webhook_replay_tx audit inp existing
       | Inl e \<Rightarrow>
           if \<not> errors_Is e ErrNoRows then raise e
           else if TrimSpace (wi_WebhookEventID inp) \<noteq> []
           then bnd (attempt (q_GetPaymentProviderEventByWebhookEventID (wi_Provider inp)
                        (TrimSpace (wi_WebhookEventID inp)))) (\<lambda>r2. case r2 of
               Inr existing \<Rightarrow> webhook_replay_tx audit inp existing
             | Inl e2 \<Rightarrow> if \<not> errors_Is e2 ErrNoRows then raise e2 else webhook_apply_tx audit inp)
           else webhook_apply_tx audit inp)"

definition store_ApplyPaymentProviderWebhook :: "bool \<Rightarrow> webhook_input \<Rightarrow> webhook_result q" where
  "store_ApplyPaymentProviderWebhook audit inp =
     bnd (attempt (tx (webhook_tx audit inp))) (\<lambda>r. case r of
         Inr res \<Rightarrow> ret res
       | Inl e \<Rightarrow> if e = lost_race then webhookReplayAfterUniqueViolation inp else raise e)"

section \<open>The service's entry point\<close>

definition blank_as_object :: "raw \<Rightarrow> raw" where
  "blank_as_object b = (if b = NoBytes then Bytes (JObj []) else b)"

definition webhook_normalized :: "webhook_input \<Rightarrow> webhook_input" where
  "webhook_normalized inp =
     inp\<lparr>wi_Provider := TrimSpace (wi_Provider inp), wi_ProviderReference := TrimSpace (wi_ProviderReference inp),
         wi_WebhookEventID := TrimSpace (wi_WebhookEventID inp), wi_EventType := TrimSpace (wi_EventType inp),
         wi_NormalizedPaymentState := webhook_target inp,
         wi_Payload := SanitizeJSONBytes (blank_as_object (wi_Payload inp)),
         wi_WebhookValidationStatus := (if TrimSpace (wi_WebhookValidationStatus inp) = [] then ''hmac_verified''
           else TrimSpace (wi_WebhookValidationStatus inp)),
         wi_ProviderMetadata := SanitizeJSONBytes (blank_as_object (wi_ProviderMetadata inp)),
         wi_OutboxTopic := TrimSpace (wi_OutboxTopic inp), wi_OutboxEventType := TrimSpace (wi_OutboxEventType inp),
         wi_OutboxAggregateType := TrimSpace (wi_OutboxAggregateType inp),
         wi_OutboxIdempotencyKey := TrimSpace (wi_OutboxIdempotencyKey inp)\<rparr>"

definition webhook_valid :: "webhook_input \<Rightarrow> go_err + unit" where
  "webhook_valid inp =
     (if TrimSpace (wi_WebhookEventID inp) = []
        then Inl (GoErr ErrInvalidArgument ''webhook_event_id is required'')
      else if length (TrimSpace (wi_WebhookEventID inp)) > 256
        then Inl (GoErr ErrInvalidArgument ''webhook_event_id too long'')
      else if webhook_target inp \<notin> set paymentStates
        then Inl (GoErr ErrInvalidArgument ''invalid normalized_payment_state'')
      else if TrimSpace (wi_Provider inp) = [] \<or> TrimSpace (wi_ProviderReference inp) = []
        then Inl (GoErr ErrInvalidArgument ''provider and provider_reference are required'')
      else if TrimSpace (wi_EventType inp) = []
        then Inl (GoErr ErrInvalidArgument ''event_type is required'')
      else if \<not> json_Valid (blank_as_object (wi_Payload inp))
        then Inl (GoErr ErrInvalidArgument ''payload must be JSON'')
      else if TrimSpace (wi_WebhookValidationStatus inp)
              \<notin> {[], ''hmac_verified'', ''unsigned_development'', ''provider_native_verified''}
        then Inl (GoErr ErrInvalidArgument ''invalid webhook validation_status'')
      else if \<not> json_Valid (blank_as_object (wi_ProviderMetadata inp))
        then Inl (GoErr ErrInvalidArgument ''provider_metadata must be JSON'')
      else if wi_OutboxPayload inp \<noteq> NoBytes \<and> \<not> json_Valid (wi_OutboxPayload inp)
        then Inl (GoErr ErrInvalidArgument ''outbox_payload must be JSON'')
      else Inr ())"

definition applied_event :: "webhook_input \<Rightarrow> webhook_result \<Rightarrow> webhook_applied_event" where
  "applied_event inp2 res =
     \<lparr>wa_OrderID = wi_OrderID inp2, wa_PaymentID = wi_PaymentID inp2, wa_Replay = wr_Replay res,
      wa_Provider = wi_Provider inp2, wa_WebhookEventID = wi_WebhookEventID inp2,
      wa_Validation = wi_WebhookValidationStatus inp2,
      wa_NormalizedPaymentState = wi_NormalizedPaymentState inp2,
      wa_ProviderReference = wi_ProviderReference inp2, wa_AmountMinor = p_AmountMinor (wr_Payment res),
      wa_Currency = p_Currency (wr_Payment res), wa_MachineID = o_MachineID (wr_Order res)\<rparr>"

text \<open>The result, and the event that is handed to the applied hook.\<close>

definition svc_ApplyPaymentProviderWebhook :: "bool \<Rightarrow> webhook_input \<Rightarrow> (webhook_result \<times> webhook_applied_event) q" where
  "svc_ApplyPaymentProviderWebhook audit inp =
     bnd (lift_res (webhook_valid inp)) (\<lambda>_.
     bnd (store_ApplyPaymentProviderWebhook audit (webhook_normalized inp)) (\<lambda>res.
       ret (res, applied_event (webhook_normalized inp) res)))"

section \<open>The reconciler's transition\<close>

text \<open>\<open>coerceJSON\<close>; \<open>txt\<close> gives the bytes as a string.\<close>

definition coerceJSON :: "(raw \<Rightarrow> string) \<Rightarrow> raw \<Rightarrow> json" where
  "coerceJSON txt b = (case b of NoBytes \<Rightarrow> JObj [] | Bytes j \<Rightarrow> j | _ \<Rightarrow> JStr (txt b))"

definition reconciledPaymentOutboxPayload :: "(raw \<Rightarrow> string) \<Rightarrow> reconciled_payment_input \<Rightarrow> payment \<Rightarrow> json" where
  "reconciledPaymentOutboxPayload txt inp cur =
     (if rp_OutboxPayload inp \<noteq> NoBytes then coerceJSON txt (rp_OutboxPayload inp)
      else JObj [(''order_id'', JStr (uuid_String (p_OrderID cur))), (''payment_id'', JStr (uuid_String (p_ID cur))),
        (''payment_state'', JStr (TrimSpace (rp_ToState inp))), (''provider'', JStr (TrimSpace (p_Provider cur))),
        (''source'', JStr ''reconciler.provider_probe'')])"

definition reconcile_tx :: "(raw \<Rightarrow> string) \<Rightarrow> reconciled_payment_input \<Rightarrow> string \<Rightarrow> payment \<Rightarrow> payment q" where
  "reconcile_tx txt inp to cur =
     bnd (attempt (q_UpdatePaymentStateForReconciliation to (rp_PaymentID inp))) (\<lambda>r. case r of
         Inl e \<Rightarrow> if errors_Is e ErrNoRows then ret cur else raise e
       | Inr updated \<Rightarrow>
           seq (q_InsertPaymentAttempt (rp_PaymentID inp) (Some ''reconciler:provider_probe'')
                  (''reconciliation.probe.'' @ to)
                  (JObj [(''provider_hint'', coerceJSON txt (rp_ProviderHint inp)), (''reason'', JStr (rp_Reason inp)),
                         (''source'', JStr ''reconciler.provider_probe'')]))
           (seq (whenM (shouldInsertReconciledPaymentOutbox inp)
                  (ignoring True (q_InsertOutboxEvent (TrimSpace (rp_OutboxTopic inp)) (TrimSpace (rp_OutboxEventType inp))
                     (RequiredString (Bytes (reconciledPaymentOutboxPayload txt inp cur)))
                     (TrimSpace (rp_OutboxAggregateType inp)) (rp_OutboxAggregateID inp)
                     (pgTextOrEmpty (TrimSpace (rp_OutboxIdempotencyKey inp))) False None None)))
             (ret updated)))"

definition ApplyReconciledPaymentTransition :: "(raw \<Rightarrow> string) \<Rightarrow> reconciled_payment_input \<Rightarrow> payment q" where
  "ApplyReconciledPaymentTransition txt inp =
     (let to = ToLower (TrimSpace (rp_ToState inp))
      in if rp_PaymentID inp = uuid_Nil then raise (GoErr ErrOther ''postgres: payment_id is required'')
         else if to \<notin> {''captured'', ''failed'', ''expired'', ''canceled''}
         then raise (GoErr ErrOther (''postgres: invalid reconciler target state '' @ rp_ToState inp))
         else bnd (q_GetPaymentByID (rp_PaymentID inp)) (\<lambda>cur.
           seq (q_GetOrderByID (p_OrderID cur))
             (if rp_DryRun inp then ret cur
              else if p_State cur \<noteq> ''created'' \<and> p_State cur \<noteq> ''authorized'' then ret cur
              else tx (reconcile_tx txt inp to cur))))"

end
