(* ===== verification/Webhook_Safety.thy ===== *)
theory Webhook_Safety
  imports Payment_Webhook
begin

text \<open>
  Properties of provider notifications: which payment a delivery may move and along which
  transitions, that a redelivery changes nothing that matters, that money is only accepted in the
  order's amount and currency, that a capture pays its order, and what the reconciler's transition
  does, including the case in which its own outbox event makes it fail.
\<close>

section \<open>What the parts of a delivery keep\<close>

definition pay_core :: "payment \<Rightarrow> payment" where
  "pay_core p = p\<lparr>p_Outcome := []\<rparr>"

definition pay_cores :: "db \<Rightarrow> payment list" where
  "pay_cores s = map pay_core (db_payments s)"

text \<open>A projection that sees neither orders, payment outcomes, cases, identifiers nor the audit trail.\<close>

definition claim_blind :: "(db \<Rightarrow> 'a) \<Rightarrow> bool" where
  "claim_blind f \<longleftrightarrow>
     (\<forall>s x. f (s\<lparr>db_orders := x\<rparr>) = f s) \<and> (\<forall>s x. f (s\<lparr>db_cases := x\<rparr>) = f s)
     \<and> (\<forall>s x. f (s\<lparr>db_uuid_next := x\<rparr>) = f s) \<and> (\<forall>s x. f (s\<lparr>db_audit := x\<rparr>) = f s)
     \<and> (\<forall>s rows. map pay_core rows = pay_cores s \<longrightarrow> f (s\<lparr>db_payments := rows\<rparr>) = f s)"

lemma claim_blind_tables:
  "claim_blind pay_cores" "claim_blind db_provider_events" "claim_blind db_attempts" "claim_blind db_outbox"
  "claim_blind db_serial" "claim_blind db_now"
  by (simp_all add: claim_blind_def pay_cores_def)

lemma keeps_outcome: "claim_blind f \<Longrightarrow> keeps f (q_UpdatePaymentOutcome i oc)"
proof -
  assume f: "claim_blind f"
  have "map pay_core (upd_where P (\<lambda>p. p\<lparr>p_Outcome := oc\<rparr>) rows) = map pay_core rows" for P rows
    by (rule map_upd_where) (simp add: pay_core_def)
  with f show ?thesis
    by (auto simp: q_UpdatePaymentOutcome_def moves_def update_one_def set_payments_def claim_blind_def
        pay_cores_def split: option.splits)
qed

lemma keeps_claim: "claim_blind f \<Longrightarrow> keeps f (q_ClaimWinningPayment p i)"
  unfolding q_ClaimWinningPayment_def
  by (intro keeps_intros) (simp_all add: set_orders_def claim_blind_def)

lemma keeps_status: "claim_blind f \<Longrightarrow> keeps f (q_UpdateOrderStatusByOrg st i)"
  unfolding q_UpdateOrderStatusByOrg_def
  by (intro keeps_intros) (simp_all add: set_orders_def claim_blind_def)

lemma keeps_upsert_case: "claim_blind f \<Longrightarrow> keeps f (q_UpsertCommerceReconciliationCase c)"
  unfolding q_UpsertCommerceReconciliationCase_def
  by (intro keeps_intros) (simp_all add: set_cases_def claim_blind_def)

lemma keeps_ignoring: "keeps f m \<Longrightarrow> keeps f (ignoring b m)"
  unfolding ignoring_def by (intro keeps_intros)

lemma keeps_audit: "claim_blind f \<Longrightarrow> keeps f (auditPaymentWebhookTx a inp r m)"
  unfolding auditPaymentWebhookTx_def Let_def
  by (intro keeps_intros) (simp_all add: claim_blind_def)

lemmas claim_keeps = keeps_outcome keeps_claim keeps_status keeps_upsert_case keeps_ignoring keeps_audit

lemma keeps_promote: "claim_blind f \<Longrightarrow> keeps f (promoteCapturedOrderIfNeeded b ord pay)"
  unfolding promoteCapturedOrderIfNeeded_def
  by (intro keeps_intros claim_keeps)

lemma keeps_replay: "claim_blind f \<Longrightarrow> keeps f (webhookReplayResultFromEvent b ev inp)"
  unfolding webhookReplayResultFromEvent_def
  by (intro keeps_intros keeps_promote read_only_keeps [OF read_only_queries(1)] read_only_keeps [OF read_only_queries(2)])

lemma keeps_replay_tx: "claim_blind f \<Longrightarrow> keeps f (webhook_replay_tx a inp ev)"
  unfolding webhook_replay_tx_def
  by (intro keeps_intros keeps_replay claim_keeps)

lemma keeps_replay_race: "claim_blind f \<Longrightarrow> keeps f (webhookReplayAfterUniqueViolation inp)"
  unfolding webhookReplayAfterUniqueViolation_def webhookReplayByProviderRef_def webhookReplayByWebhookEventID_def
    q_GetPaymentProviderEventByProviderRef_def q_GetPaymentProviderEventByWebhookEventID_def
  by (intro keeps_intros keeps_replay)

lemma keeps_webhook_claim: "claim_blind f \<Longrightarrow> keeps f (webhook_claim ord pay target late)"
  unfolding webhook_claim_def by (intro keeps_intros claim_keeps)

lemma keeps_webhook_late_claim: "claim_blind f \<Longrightarrow> keeps f (webhook_late_claim ord pay target late)"
  unfolding webhook_late_claim_def by (intro keeps_intros claim_keeps)

lemma keeps_pay_cores_record: "keeps pay_cores (webhook_record a inp ord pay late)"
proof -
  have ins: "keeps pay_cores (webhook_insert_event inp)"
    unfolding webhook_insert_event_def q_InsertPaymentProviderEvent_def
    by (intro keeps_intros) (simp_all add: pay_cores_def)
  have att: "keeps pay_cores (q_InsertPaymentAttempt i r st j)" for i r st j
    unfolding q_InsertPaymentAttempt_def Let_def by (intro keeps_intros) (simp_all add: pay_cores_def)
  have out: "keeps pay_cores (webhook_outbox inp)"
    unfolding webhook_outbox_def q_InsertOutboxEvent_def Let_def
    by (intro kept.moves_rules keeps_next_serial keeps_writes) (simp_all add: pay_cores_def)
  show ?thesis
    unfolding webhook_record_def webhook_settle_def
    by (intro kept.moves_rules ins att out keeps_webhook_claim keeps_webhook_late_claim claim_keeps claim_blind_tables)
qed

section \<open>Running a delivery\<close>

lemma webhook_apply_run:
  assumes "webhook_apply_tx a inp s = (Inr r, t)"
  shows "\<exists>pay ord late pay' s1. find (\<lambda>p. p_ID p = wi_PaymentID inp) (db_payments s) = Some pay
    \<and> \<not> provider_mismatch pay inp \<and> p_OrderID pay = wi_OrderID inp
    \<and> find (\<lambda>x. o_ID x = wi_OrderID inp) (db_orders s) = Some ord
    \<and> webhookAmountCurrencyMatches pay ord inp = Inr () \<and> webhook_late ord pay (webhook_target inp) = Inr late
    \<and> webhook_set_state pay (webhook_target inp) late s = (Inr pay', s1)
    \<and> webhook_record a inp ord pay' late s1 = (Inr r, t)"
  using assms
  by (auto simp: webhook_apply_tx_def bnd_Inr q_GetPaymentByID_def q_GetOrderByID_def select_one_Inr
      lift_res_run_Inr split: if_splits)

lemma set_state_run:
  assumes "webhook_set_state pay target late s = (Inr pay', t)"
    and "find (\<lambda>p. p_ID p = p_ID pay) (db_payments s) = Some pay"
  shows "p_State pay' = target \<and> p_ID pay' = p_ID pay
    \<and> (if p_State pay = target then t = s
       else t = s\<lparr>db_payments := upd_where (\<lambda>p. p_ID p = p_ID pay) (\<lambda>p. p\<lparr>p_State := target\<rparr>) (db_payments s)\<rparr>)"
  using assms
  by (auto simp: webhook_set_state_def q_ForceUpdatePaymentStateCaptured_def q_UpdatePaymentState_def
      update_one_Inr set_payments_def split: if_splits)

text \<open>One row of the payment table across a delivery.\<close>

definition delivery_step :: "webhook_input \<Rightarrow> db \<Rightarrow> payment \<Rightarrow> payment \<Rightarrow> bool" where
  "delivery_step inp s p p' \<longleftrightarrow>
     p' = p \<or> (p_ID p = wi_PaymentID inp \<and> p_OrderID p = wi_OrderID inp \<and> p' = p\<lparr>p_State := webhook_target inp\<rparr>
        \<and> (\<exists>ord. find (\<lambda>x. o_ID x = wi_OrderID inp) (db_orders s) = Some ord
             \<and> (paymentTransitionAllowed (p_State p) (webhook_target inp)
                \<or> (webhook_target inp = ''captured'' \<and> webhookLateDeliveryAgainstTerminalState ord p))))"

lemma apply_steps:
  assumes run: "webhook_apply_tx a inp s = (Inr r, t)" and uniq: "distinct (map p_ID (db_payments s))"
  shows "list_all2 (delivery_step inp s) (pay_cores s) (pay_cores t)"
proof -
  from webhook_apply_run [OF run] obtain pay ord late pay' s1 where
    pay: "find (\<lambda>p. p_ID p = wi_PaymentID inp) (db_payments s) = Some pay" "p_OrderID pay = wi_OrderID inp"
    and ord: "find (\<lambda>x. o_ID x = wi_OrderID inp) (db_orders s) = Some ord"
    and late: "webhook_late ord pay (webhook_target inp) = Inr late"
    and set: "webhook_set_state pay (webhook_target inp) late s = (Inr pay', s1)"
    and rec: "webhook_record a inp ord pay' late s1 = (Inr r, t)" by blast
  have t: "pay_cores t = pay_cores s1" using keeps_run [OF keeps_pay_cores_record rec] .
  have pid: "p_ID pay = wi_PaymentID inp" using find_SomeD [OF pay(1)] by simp
  have one: "p = pay" if "p \<in> set (db_payments s)" "p_ID p = wi_PaymentID inp" for p
    using uniq that find_SomeD [OF pay(1)] by (metis (mono_tags) distinct_map inj_onD)
  have legal: "paymentTransitionAllowed (p_State pay) (webhook_target inp)
      \<or> (webhook_target inp = ''captured'' \<and> webhookLateDeliveryAgainstTerminalState ord pay)"
    using late by (auto simp: webhook_late_def split: if_splits)
  have core: "webhookLateDeliveryAgainstTerminalState ord (pay_core pay) = webhookLateDeliveryAgainstTerminalState ord pay"
    "p_State (pay_core pay) = p_State pay" "p_ID (pay_core pay) = p_ID pay"
    by (simp_all add: webhookLateDeliveryAgainstTerminalState_def pay_core_def)
  let ?rows = "upd_where (\<lambda>p. p_ID p = wi_PaymentID inp) (\<lambda>p. p\<lparr>p_State := webhook_target inp\<rparr>) (db_payments s)"
  have "delivery_step inp s (pay_core p) (pay_core (if p_ID p = wi_PaymentID inp then p\<lparr>p_State := webhook_target inp\<rparr> else p))"
    if "p \<in> set (db_payments s)" for p
    using one [OF that] legal ord pid pay(2) core by (auto simp: delivery_step_def pay_core_def)
  then have "list_all2 (delivery_step inp s) (pay_cores s) (map pay_core ?rows)"
    by (simp add: pay_cores_def upd_where_def list_all2_map1 list_all2_map2 list_all2_same)
  moreover have "list_all2 (delivery_step inp s) (pay_cores s) (pay_cores s)"
    by (rule list_all2_refl) (simp add: delivery_step_def)
  ultimately show ?thesis
    using set_state_run [OF set] pay(1) pid t by (auto simp: pay_cores_def split: if_splits)
qed

text \<open>The stored event a delivery repeats, found by its reference or by its event id.\<close>

definition stored_event :: "webhook_input \<Rightarrow> db \<Rightarrow> provider_event option" where
  "stored_event inp s =
     (case find (\<lambda>e. pe_Provider e = wi_Provider inp \<and> pe_ProviderRef e = Some (wi_ProviderReference inp)) (db_provider_events s) of
        Some ev \<Rightarrow> Some ev
      | None \<Rightarrow> if TrimSpace (wi_WebhookEventID inp) = [] then None
                else find (\<lambda>e. pe_Provider e = wi_Provider inp
                       \<and> pe_WebhookEventID e = Some (TrimSpace (wi_WebhookEventID inp))) (db_provider_events s))"

lemma webhook_tx_stored:
  "webhook_tx a inp s =
     (case stored_event inp s of Some ev \<Rightarrow> webhook_replay_tx a inp ev s | None \<Rightarrow> webhook_apply_tx a inp s)"
  by (simp add: webhook_tx_def stored_event_def q_GetPaymentProviderEventByProviderRef_def
      q_GetPaymentProviderEventByWebhookEventID_def select_one_def split: option.splits)

lemma stored_event_cong:
  "db_provider_events t = db_provider_events s \<Longrightarrow> stored_event inp t = stored_event inp s"
  by (simp add: stored_event_def split: option.splits)

lemma store_apply_state:
  assumes "store_ApplyPaymentProviderWebhook a inp s = (x, t)"
  shows "(\<exists>r. x = Inr r \<and> webhook_tx a inp s = (Inr r, t)) \<or> (\<exists>e. x = Inl e \<and> t = s)
    \<or> webhookReplayAfterUniqueViolation inp s = (x, t)"
proof (cases "webhook_tx a inp s")
  case (Pair y u)
  with assms show ?thesis
    by (cases y) (auto simp: store_ApplyPaymentProviderWebhook_def tx_def split: if_splits)
qed

text \<open>The sample order before it was paid, and the notification that its payment was captured.\<close>

definition unpaid_db :: db where
  "unpaid_db = sample_db\<lparr>db_orders := [sample_order\<lparr>o_Status := ''created''\<rparr>],
     db_vends := [sample_vend\<lparr>v_State := ''pending''\<rparr>], db_payments := [sample_payment\<lparr>p_State := ''created''\<rparr>]\<rparr>"

definition sample_capture :: webhook_input where
  "sample_capture =
     \<lparr>wi_OrderID = UUID ''o1'', wi_PaymentID = UUID ''y1'', wi_Provider = ''momo'', wi_ProviderReference = ''ref-1'',
      wi_WebhookEventID = ''ev-1'', wi_EventType = ''payment'', wi_NormalizedPaymentState = ''captured'',
      wi_Payload = Bytes (JObj []), wi_ProviderAmountMinor = Some 500, wi_Currency = Some ''vnd'',
      wi_WebhookValidationStatus = ''hmac_verified'', wi_ProviderMetadata = NoBytes, wi_OutboxTopic = ''commerce'',
      wi_OutboxEventType = ''payment.captured'', wi_OutboxPayload = NoBytes, wi_OutboxAggregateType = ''payment'',
      wi_OutboxAggregateID = UUID ''y1'', wi_OutboxIdempotencyKey = ''wk-1''\<rparr>"

abbreviation captured_result :: webhook_result where
  "captured_result \<equiv> projr (fst (store_ApplyPaymentProviderWebhook True sample_capture unpaid_db))"

abbreviation captured_db :: db where
  "captured_db \<equiv> snd (store_ApplyPaymentProviderWebhook True sample_capture unpaid_db)"

lemma sample_capture_run:
  "store_ApplyPaymentProviderWebhook True sample_capture unpaid_db = (Inr captured_result, captured_db)"
  "\<not> wr_Replay captured_result"
proof -
  have "\<not> isl (fst (store_ApplyPaymentProviderWebhook True sample_capture unpaid_db))" by code_simp
  then show "store_ApplyPaymentProviderWebhook True sample_capture unpaid_db = (Inr captured_result, captured_db)"
    by (cases "store_ApplyPaymentProviderWebhook True sample_capture unpaid_db") (auto simp: isl_def split: sum.splits)
  show "\<not> wr_Replay captured_result" by code_simp
qed

section \<open>Properties\<close>

lemma delivery_steps:
  assumes "store_ApplyPaymentProviderWebhook a inp s = (x, t)" and "distinct (map p_ID (db_payments s))"
  shows "list_all2 (delivery_step inp s) (pay_cores s) (pay_cores t)"
proof -
  have same: "list_all2 (delivery_step inp s) (pay_cores s) (pay_cores t)" if "pay_cores t = pay_cores s"
    unfolding that by (rule list_all2_refl) (simp add: delivery_step_def)
  from store_apply_state [OF assms(1)] show ?thesis
  proof (elim disjE exE conjE)
    fix r assume r: "webhook_tx a inp s = (Inr r, t)"
    show ?thesis
    proof (cases "stored_event inp s")
      case None
      with r apply_steps [OF _ assms(2)] show ?thesis by (simp add: webhook_tx_stored)
    next
      case (Some ev)
      with r have "webhook_replay_tx a inp ev s = (Inr r, t)" by (simp add: webhook_tx_stored)
      from keeps_run [OF keeps_replay_tx [OF claim_blind_tables(1)] this] show ?thesis by (rule same)
    qed
  next
    assume "t = s" then show ?thesis using same by simp
  next
    assume "webhookReplayAfterUniqueViolation inp s = (x, t)"
    from keeps_run [OF keeps_replay_race [OF claim_blind_tables(1)] this] show ?thesis by (rule same)
  qed
qed

text \<open>
  C7: A provider notification moves at most the payment it names, and only legally. Whatever the
  outcome of a delivery, every payment row keeps its order, provider, amount, currency and keys; a row
  whose state changed is the one named in the delivery, of the order named there, its new state is the notified one, and either
  the transition is in the payment graph or it is a capture that arrived after the order or the payment
  had already ended.
\<close>

theorem webhook_moves_payments_legally:
  assumes "store_ApplyPaymentProviderWebhook a inp s = (x, t)" and "distinct (map p_ID (db_payments s))"
  shows "list_all2 (delivery_step inp s) (pay_cores s) (pay_cores t)"
  by (rule delivery_steps [OF assms])

theorem webhook_moves_payments_legally_witness:
  "distinct (map p_ID (db_payments unpaid_db))
   \<and> list_all2 (delivery_step sample_capture unpaid_db) (pay_cores unpaid_db) (pay_cores captured_db)"
proof -
  have d: "distinct (map p_ID (db_payments unpaid_db))" by code_simp
  with webhook_moves_payments_legally [OF sample_capture_run(1) d] show ?thesis by blast
qed

text \<open>A committed delivery leaves an event that its repetition finds.\<close>

lemma insert_event_run:
  assumes "webhook_insert_event inp s = (Inr ev, t)"
  shows "\<exists>row. db_provider_events t = db_provider_events s @ [row] \<and> pe_Provider row = wi_Provider inp
    \<and> pe_ProviderRef row = Some (wi_ProviderReference inp) \<and> pe_Payload row = RequiredString (SanitizeJSONBytes (wi_Payload inp))
    \<and> db_payments t = db_payments s \<and> db_orders t = db_orders s"
proof -
  from assms obtain i where "t = s\<lparr>db_serial := i,
      db_provider_events := db_provider_events s @ [(webhook_event_row inp (db_now s))\<lparr>pe_ID := i\<rparr>]\<rparr>"
    by (auto simp: webhook_insert_event_def q_InsertPaymentProviderEvent_def bnd_Inr seq_Inr next_serial_def
        split: sum.splits if_splits)
  then show ?thesis by (auto simp: webhook_event_row_def Let_def)
qed

lemma keeps_events_attempt: "keeps db_provider_events (q_InsertPaymentAttempt i r st j)"
  unfolding q_InsertPaymentAttempt_def Let_def
  by (intro kept.moves_rules keeps_gen_uuid keeps_writes) simp_all

lemma keeps_events_outbox: "keeps db_provider_events (webhook_outbox inp)"
  unfolding webhook_outbox_def q_InsertOutboxEvent_def Let_def
  by (intro kept.moves_rules keeps_next_serial keeps_writes) simp_all

lemma keeps_events_settle: "keeps db_provider_events (webhook_settle a inp ord pay late ev)"
  unfolding webhook_settle_def
  by (intro kept.moves_rules keeps_events_attempt keeps_events_outbox keeps_webhook_claim
      keeps_webhook_late_claim claim_keeps claim_blind_tables)

lemma record_events:
  assumes "webhook_record a inp ord pay late s = (Inr r, t)"
  shows "\<exists>row. db_provider_events t = db_provider_events s @ [row] \<and> pe_Provider row = wi_Provider inp
    \<and> pe_ProviderRef row = Some (wi_ProviderReference inp) \<and> pe_Payload row = RequiredString (SanitizeJSONBytes (wi_Payload inp))"
proof -
  from assms obtain ev u where ev: "webhook_insert_event inp s = (Inr ev, u)"
    and rest: "webhook_settle a inp ord pay late ev u = (Inr r, t)"
    by (auto simp: webhook_record_def bnd_Inr)
  from keeps_run [OF keeps_events_settle rest] insert_event_run [OF ev] show ?thesis by auto
qed

lemma apply_events:
  assumes "webhook_apply_tx a inp s = (Inr r, t)"
  shows "\<exists>row. db_provider_events t = db_provider_events s @ [row] \<and> pe_Provider row = wi_Provider inp
    \<and> pe_ProviderRef row = Some (wi_ProviderReference inp) \<and> pe_Payload row = RequiredString (SanitizeJSONBytes (wi_Payload inp))"
proof -
  from webhook_apply_run [OF assms] obtain pay ord late pay' s1 where
    "find (\<lambda>p. p_ID p = wi_PaymentID inp) (db_payments s) = Some pay"
    and set: "webhook_set_state pay (webhook_target inp) late s = (Inr pay', s1)"
    and rec: "webhook_record a inp ord pay' late s1 = (Inr r, t)" by blast
  moreover from this(1) have "p_ID pay = wi_PaymentID inp" using find_SomeD by fastforce
  ultimately have "db_provider_events s1 = db_provider_events s"
    using set_state_run [OF set] by (auto split: if_splits)
  with record_events [OF rec] show ?thesis by simp
qed

lemma replay_race_needs_event:
  assumes "stored_event inp s = None"
  shows "\<exists>e. webhookReplayAfterUniqueViolation inp s = (Inl e, s)"
proof -
  have ref: "webhookReplayByProviderRef inp s = (Inl (Err ErrNoRows), s)"
    using assms by (simp add: stored_event_def webhookReplayByProviderRef_def
        q_GetPaymentProviderEventByProviderRef_def select_one_def bnd_run split: option.splits)
  have ev: "webhookReplayByWebhookEventID inp s = (Inl (Err ErrNoRows), s)" if "TrimSpace (wi_WebhookEventID inp) \<noteq> []"
    using assms that by (simp add: stored_event_def webhookReplayByWebhookEventID_def
        q_GetPaymentProviderEventByWebhookEventID_def select_one_def bnd_run split: option.splits)
  show ?thesis
    using ev by (cases "TrimSpace (wi_WebhookEventID inp) = []")
      (simp_all add: webhookReplayAfterUniqueViolation_def ref)
qed

lemma event_findable:
  assumes "store_ApplyPaymentProviderWebhook a inp s = (Inr r, t)"
  shows "stored_event inp t \<noteq> None"
  using store_apply_state [OF assms]
proof (elim disjE exE conjE)
  fix r' assume r: "webhook_tx a inp s = (Inr r', t)"
  show ?thesis
  proof (cases "stored_event inp s")
    case None
    with r have "webhook_apply_tx a inp s = (Inr r', t)" by (simp add: webhook_tx_stored)
    from apply_events [OF this] show ?thesis
      by (auto simp: stored_event_def find_None_iff split: option.splits)
  next
    case (Some ev)
    with r have "webhook_replay_tx a inp ev s = (Inr r', t)" by (simp add: webhook_tx_stored)
    from keeps_run [OF keeps_replay_tx [OF claim_blind_tables(2)] this] Some show ?thesis
      by (simp add: stored_event_cong [of t s])
  qed
next
  assume race: "webhookReplayAfterUniqueViolation inp s = (Inr r, t)"
  have "stored_event inp s \<noteq> None"
    using replay_race_needs_event [of inp s] race by fastforce
  with keeps_run [OF keeps_replay_race [OF claim_blind_tables(2)] race] show ?thesis
    by (simp add: stored_event_cong [of t s])
qed simp



section \<open>First deliveries\<close>

lemma replay_flag:
  "webhookReplayResultFromEvent b ev inp s = (Inr r, t) \<Longrightarrow> wr_Replay r"
  by (auto simp: webhookReplayResultFromEvent_def bnd_Inr split: if_splits)

lemma race_flag: "webhookReplayAfterUniqueViolation inp s = (Inr r, t) \<Longrightarrow> wr_Replay r"
proof -
  have ref: "webhookReplayByProviderRef inp u = (Inr r', v) \<Longrightarrow> wr_Replay r'" for u r' v
    using replay_flag by (auto simp: webhookReplayByProviderRef_def bnd_Inr)
  have ev: "webhookReplayByWebhookEventID inp u = (Inr r', v) \<Longrightarrow> wr_Replay r'" for u r' v
    using replay_flag by (auto simp: webhookReplayByWebhookEventID_def bnd_Inr)
  assume run: "webhookReplayAfterUniqueViolation inp s = (Inr r, t)"
  obtain y u where y: "webhookReplayByProviderRef inp s = (y, u)" by force
  obtain z w where z: "webhookReplayByWebhookEventID inp u = (z, w)" by force
  show ?thesis
  proof (cases y)
    case (Inr r')
    with run y have "r' = r" by (simp add: webhookReplayAfterUniqueViolation_def)
    with y Inr ref show ?thesis by blast
  next
    case (Inl e)
    with run y z show ?thesis
      using ev [of u r w] by (cases z) (auto simp: webhookReplayAfterUniqueViolation_def split: if_splits)
  qed
qed

lemma first_delivery:
  assumes "store_ApplyPaymentProviderWebhook a inp s = (Inr r, t)" and "\<not> wr_Replay r"
  shows "webhook_apply_tx a inp s = (Inr r, t)"
  using store_apply_state [OF assms(1)]
proof (elim disjE exE conjE)
  fix r' assume r: "Inr r = Inr r'" "webhook_tx a inp s = (Inr r', t)"
  have "\<not> (\<exists>ev. webhook_replay_tx a inp ev s = (Inr r, t))"
    using assms(2) replay_flag by (fastforce simp: webhook_replay_tx_def bnd_Inr seq_Inr)
  with r show ?thesis by (auto simp: webhook_tx_stored split: option.splits)
next
  assume "webhookReplayAfterUniqueViolation inp s = (Inr r, t)"
  with assms(2) race_flag show ?thesis by blast
qed simp

lemma settle_payment: "webhook_settle a inp ord pay late ev s = (Inr r, t) \<Longrightarrow> wr_Payment r = pay"
  by (auto simp: webhook_settle_def bnd_Inr seq_Inr)

text \<open>
  C9: Money is accepted only in the order's amount and currency. A first delivery that commits names a
  payment of the named order whose amount is the order's total and whose currency is the order's; an
  amount or currency given by the provider agrees with them; the payment ends in the notified state; and
  exactly one provider event is stored, with every sensitive key of its payload redacted.
\<close>

theorem webhook_accepts_exact_amount:
  assumes "store_ApplyPaymentProviderWebhook a inp s = (Inr r, t)" and "\<not> wr_Replay r"
  shows "\<exists>pay ord row. find (\<lambda>p. p_ID p = wi_PaymentID inp) (db_payments s) = Some pay
    \<and> find (\<lambda>x. o_ID x = wi_OrderID inp) (db_orders s) = Some ord \<and> p_OrderID pay = o_ID ord
    \<and> p_AmountMinor pay = o_TotalMinor ord
    \<and> normalizeWebhookCurrency (p_Currency pay) = normalizeWebhookCurrency (o_Currency ord)
    \<and> (\<forall>amt. wi_ProviderAmountMinor inp = Some amt \<longrightarrow> amt = o_TotalMinor ord)
    \<and> (\<forall>c. wi_Currency inp = Some c \<longrightarrow> TrimSpace c = [] \<or>
         normalizeWebhookCurrency c = normalizeWebhookCurrency (p_Currency pay))
    \<and> p_State (wr_Payment r) = webhook_target inp \<and> p_ID (wr_Payment r) = wi_PaymentID inp
    \<and> db_provider_events t = db_provider_events s @ [row] \<and> keys_redacted (pe_Payload row)"
proof -
  note run = first_delivery [OF assms]
  from webhook_apply_run [OF run] obtain pay ord late pay' s1 where
    pay: "find (\<lambda>p. p_ID p = wi_PaymentID inp) (db_payments s) = Some pay" "p_OrderID pay = wi_OrderID inp"
    and ord: "find (\<lambda>x. o_ID x = wi_OrderID inp) (db_orders s) = Some ord"
    and amt: "webhookAmountCurrencyMatches pay ord inp = Inr ()"
    and set: "webhook_set_state pay (webhook_target inp) late s = (Inr pay', s1)"
    and rec: "webhook_record a inp ord pay' late s1 = (Inr r, t)" by blast
  have pid: "p_ID pay = wi_PaymentID inp" using find_SomeD [OF pay(1)] by simp
  have "wr_Payment r = pay'" using rec settle_payment by (auto simp: webhook_record_def bnd_Inr)
  moreover have "p_State pay' = webhook_target inp" "p_ID pay' = wi_PaymentID inp"
    using set_state_run [OF set] pay pid by simp_all
  moreover have "keys_redacted (RequiredString (SanitizeJSONBytes b))" for b
  proof -
    have "\<not> keyLooksSensitive (ToLower ''_sanitize_error'')" by code_simp
    then show ?thesis
      by (cases b) (auto simp: SanitizeJSONBytes_def RequiredString_def sanitizeValue_keys_redacted
          simp del: sanitizeValue.simps)
  qed
  ultimately show ?thesis
    using pay ord find_SomeD [OF ord] amt [unfolded webhookAmountCurrencyMatches_Inr] apply_events [OF run] by auto
qed

theorem webhook_accepts_exact_amount_witness:
  "\<exists>pay ord. find (\<lambda>p. p_ID p = UUID ''y1'') (db_payments unpaid_db) = Some pay
     \<and> find (\<lambda>x. o_ID x = UUID ''o1'') (db_orders unpaid_db) = Some ord \<and> p_AmountMinor pay = o_TotalMinor ord
     \<and> p_State (wr_Payment captured_result) = ''captured''"
proof -
  have "webhook_target sample_capture = ''captured''" by code_simp
  with webhook_accepts_exact_amount [OF sample_capture_run] show ?thesis by (auto simp: sample_capture_def)
qed

section \<open>A capture and its order\<close>

definition order_winner :: "uuid \<Rightarrow> db \<Rightarrow> uuid option option" where
  "order_winner oid s = map_option o_WinningPaymentID (find (\<lambda>x. o_ID x = oid) (db_orders s))"

lemma keeps_orders:
  "keeps db_orders (q_InsertPaymentAttempt i rf st j)" "keeps db_orders (webhook_outbox inp)"
  "keeps db_orders (auditPaymentWebhookTx a inp b m)" "keeps db_orders (q_UpdatePaymentOutcome i oc)"
  "keeps db_orders (q_UpsertCommerceReconciliationCase c)"
proof -
  show "keeps db_orders (q_InsertPaymentAttempt i rf st j)"
    unfolding q_InsertPaymentAttempt_def Let_def by (intro kept.moves_rules keeps_gen_uuid keeps_writes) simp_all
  show "keeps db_orders (webhook_outbox inp)"
    unfolding webhook_outbox_def q_InsertOutboxEvent_def Let_def
    by (intro kept.moves_rules keeps_next_serial keeps_writes) simp_all
  show "keeps db_orders (auditPaymentWebhookTx a inp b m)"
    unfolding auditPaymentWebhookTx_def Let_def by (intro kept.moves_rules keeps_writes) simp_all
  show "keeps db_orders (q_UpdatePaymentOutcome i oc)"
    unfolding q_UpdatePaymentOutcome_def by (intro keeps_update_one) (simp add: set_payments_def)
  show "keeps db_orders (q_UpsertCommerceReconciliationCase c)"
    by (rule keeps_case [OF journal_blind_tables(1)])
qed

lemma claim_run:
  assumes "q_ClaimWinningPayment pid oid s = (Inr o', t)"
    and "find (\<lambda>x. o_ID x = oid) (db_orders s) = Some ord" "o_WinningPaymentID ord = None"
  shows "order_winner oid t = Some (Some pid)
    \<and> order_status oid t = Some (if o_Status ord = ''created'' \<or> o_Status ord = ''quoted'' then ''paid'' else o_Status ord)"
proof -
  have t: "db_orders t = upd_where (\<lambda>r. o_ID r = oid \<and> o_WinningPaymentID r = None) (claim_row pid (db_now s)) (db_orders s)"
    using assms(1) by (auto simp: q_ClaimWinningPayment_def update_one_Inr set_orders_def split: if_splits)
  have "find (\<lambda>x. o_ID x = oid) (db_orders t) =
      map_option (\<lambda>r. if o_ID r = oid \<and> o_WinningPaymentID r = None then claim_row pid (db_now s) r else r)
        (find (\<lambda>x. o_ID x = oid) (db_orders s))"
    unfolding t by (rule find_upd_where) (simp add: claim_row_def)
  with assms(2,3) find_SomeD [OF assms(2)] show ?thesis
    by (simp add: order_winner_def order_status_def claim_row_def)
qed

text \<open>The claim succeeds or the transaction fails, when the order has no winner.\<close>

lemma claim_no_rows:
  assumes "find (\<lambda>x. o_ID x = oid) (db_orders s) = Some ord" "o_WinningPaymentID ord = None"
    and "q_ClaimWinningPayment pid oid s = (Inl e, t)"
  shows "\<not> errors_Is e ErrNoRows"
proof -
  from find_SomeD [OF assms(1)] assms(2)
  have "find (\<lambda>r. o_ID r = oid \<and> o_WinningPaymentID r = None) (db_orders s) \<noteq> None" by (auto simp: find_None_iff)
  with assms(3) show ?thesis
    by (auto simp: q_ClaimWinningPayment_def update_one_def split: if_splits option.splits)
qed

lemma claim_or_abort:
  assumes "find (\<lambda>x. o_ID x = oid) (db_orders s) = Some ord" "o_WinningPaymentID ord = None"
    and "bnd (attempt (q_ClaimWinningPayment pid oid)) (\<lambda>r. case r of
          Inr c \<Rightarrow> f c
        | Inl e \<Rightarrow> if \<not> errors_Is e ErrNoRows then raise tx_aborted else g) s = (Inr x, t)"
  shows "\<exists>o' v. q_ClaimWinningPayment pid oid s = (Inr o', v) \<and> f o' v = (Inr x, t)"
proof -
  obtain y u where y: "q_ClaimWinningPayment pid oid s = (y, u)" by force
  with assms(3) claim_no_rows [OF assms(1,2)] show ?thesis by (cases y) auto
qed

lemma settle_claims:
  assumes run: "webhook_settle a inp ord pay late ev s = (Inr r, t)"
    and ord: "find (\<lambda>x. o_ID x = wi_OrderID inp) (db_orders s) = Some ord" "o_WinningPaymentID ord = None"
    and st: "o_Status ord = ''created'' \<or> o_Status ord = ''quoted''" and cap: "webhook_target inp = ''captured''"
  shows "order_winner (wi_OrderID inp) t = Some (Some (p_ID pay)) \<and> order_status (wi_OrderID inp) t = Some ''paid''"
proof -
  from run obtain att s1 ord1 s2 ord2 s3 s4 u where
    att: "q_InsertPaymentAttempt (wi_PaymentID inp) (Some (wi_ProviderReference inp)) (webhook_target inp)
            (RequiredString (wi_Payload inp)) s = (Inr att, s1)"
    and c1: "webhook_claim ord pay (webhook_target inp) late s1 = (Inr ord1, s2)"
    and c2: "webhook_late_claim ord1 pay (webhook_target inp) late s2 = (Inr ord2, s3)"
    and out: "webhook_outbox inp s3 = (Inr (), s4)"
    and aud: "auditPaymentWebhookTx a inp False (machineUUIDPtr (o_MachineID ord2)) s4 = (Inr u, t)"
    unfolding webhook_settle_def by (auto simp: bnd_Inr seq_Inr)
  have s1: "db_orders s1 = db_orders s" using keeps_run [OF keeps_orders(1) att] .
  have t: "db_orders t = db_orders s3"
    using keeps_run [OF keeps_orders(2) out] keeps_run [OF keeps_orders(3) aud] by simp
  have oid: "o_ID ord = wi_OrderID inp" using find_SomeD [OF ord(1)] by simp
  have win: "keeps db_orders (ignoring True (q_UpdatePaymentOutcome (p_ID pay) ''winner''))"
    by (intro keeps_ignoring keeps_orders)
  have claimed: "order_winner (wi_OrderID inp) w = Some (Some (p_ID pay)) \<and> order_status (wi_OrderID inp) w = Some ''paid''"
    if c: "q_ClaimWinningPayment (p_ID pay) (o_ID ord) v = (Inr o', v')" and v: "db_orders v = db_orders s"
      and w: "db_orders w = db_orders v'" for o' v v' w
    using claim_run [OF c [unfolded oid]] ord st v w by (auto simp: order_winner_def order_status_def)
  show ?thesis
  proof (cases late)
    case False
    with c2 have "s3 = s2" by (simp add: webhook_late_claim_def)
    moreover from False cap st c1 [unfolded webhook_claim_def oid] have "bnd (attempt (q_ClaimWinningPayment (p_ID pay) (wi_OrderID inp))) (\<lambda>r. case r of
          Inr claimed \<Rightarrow> seq (ignoring True (q_UpdatePaymentOutcome (p_ID pay) ''winner'')) (ret claimed)
        | Inl e \<Rightarrow> if \<not> errors_Is e ErrNoRows then raise tx_aborted
                  else q_UpdateOrderStatusByOrg ''paid'' (wi_OrderID inp)) s1 = (Inr ord1, s2)"
      by (simp only: if_P simp_thms)
    from claim_or_abort [OF _ ord(2) this] ord(1) s1 oid obtain o' v' where
      "q_ClaimWinningPayment (p_ID pay) (o_ID ord) s1 = (Inr o', v')"
      "seq (ignoring True (q_UpdatePaymentOutcome (p_ID pay) ''winner'')) (ret o') v' = (Inr ord1, s2)" by auto
    ultimately show ?thesis
      using claimed [of s1 o' v' t] s1 t keeps_run [OF win] by (auto simp: seq_Inr)
  next
    case True
    with c1 have s2: "s2 = s1" "ord1 = ord" by (auto simp: webhook_claim_def)
    have "\<exists>o' v. q_ClaimWinningPayment (p_ID pay) (wi_OrderID inp) s1 = (Inr o', v)
        \<and> seq (ignoring True (q_UpdatePaymentOutcome (p_ID pay) ''winner'')) (ret o') v = (Inr ord2, s3)"
      by (rule claim_or_abort [OF _ ord(2)])
        (use ord(1) s1 c2 True cap ord(2) s2 oid in \<open>simp_all add: webhook_late_claim_def\<close>)
    then show ?thesis
      using claimed [of s1 _ _ t] s1 t oid keeps_run [OF win] by (auto simp: seq_Inr)
  qed
qed

text \<open>
  C10: A captured payment pays its order. When a first delivery of a capture commits and the order was
  created or quoted and nobody had paid it, the order is \<open>paid\<close> afterwards and this payment is its winner.
\<close>

theorem webhook_capture_pays_order:
  assumes "store_ApplyPaymentProviderWebhook a inp s = (Inr r, t)" and "\<not> wr_Replay r"
    and "webhook_target inp = ''captured''"
    and "find (\<lambda>x. o_ID x = wi_OrderID inp) (db_orders s) = Some ord" "o_WinningPaymentID ord = None"
    and "o_Status ord = ''created'' \<or> o_Status ord = ''quoted''"
  shows "order_status (wi_OrderID inp) t = Some ''paid'' \<and> order_winner (wi_OrderID inp) t = Some (Some (wi_PaymentID inp))"
proof -
  from webhook_apply_run [OF first_delivery [OF assms(1,2)]] assms(4) obtain pay late pay' s1 where
    pay: "find (\<lambda>p. p_ID p = wi_PaymentID inp) (db_payments s) = Some pay"
    and set: "webhook_set_state pay (webhook_target inp) late s = (Inr pay', s1)"
    and rec: "webhook_record a inp ord pay' late s1 = (Inr r, t)" by auto
  have pid: "p_ID pay = wi_PaymentID inp" using find_SomeD [OF pay] by simp
  note st = set_state_run [OF set] pay pid
  from rec obtain ev u where ev: "webhook_insert_event inp s1 = (Inr ev, u)"
    and settle: "webhook_settle a inp ord pay' late ev u = (Inr r, t)" by (auto simp: webhook_record_def bnd_Inr)
  have "db_orders u = db_orders s"
    using insert_event_run [OF ev] st by (auto split: if_splits)
  with settle_claims [OF settle] assms(3-6) st show ?thesis by simp
qed

theorem webhook_capture_pays_order_witness:
  "order_status (UUID ''o1'') captured_db = Some ''paid'' \<and> order_winner (UUID ''o1'') captured_db = Some (Some (UUID ''y1''))"
proof -
  have "webhook_target sample_capture = ''captured''" by code_simp
  moreover have "find (\<lambda>x. o_ID x = wi_OrderID sample_capture) (db_orders unpaid_db) = Some (sample_order\<lparr>o_Status := ''created''\<rparr>)"
    by code_simp
  moreover have "o_WinningPaymentID (sample_order\<lparr>o_Status := ''created''\<rparr>) = None" by code_simp
  ultimately show ?thesis
    using webhook_capture_pays_order [OF sample_capture_run, of "sample_order\<lparr>o_Status := ''created''\<rparr>"]
    by (simp add: sample_capture_def)
qed

lemma keeps_cases:
  "keeps db_cases (q_InsertPaymentAttempt i rf st j)" "keeps db_cases (webhook_outbox inp)"
  "keeps db_cases (auditPaymentWebhookTx a inp b m)" "keeps db_cases (webhook_insert_event inp)"
proof -
  show "keeps db_cases (q_InsertPaymentAttempt i rf st j)"
    unfolding q_InsertPaymentAttempt_def Let_def by (intro kept.moves_rules keeps_gen_uuid keeps_writes) simp_all
  show "keeps db_cases (webhook_outbox inp)"
    unfolding webhook_outbox_def q_InsertOutboxEvent_def Let_def
    by (intro kept.moves_rules keeps_next_serial keeps_writes) simp_all
  show "keeps db_cases (auditPaymentWebhookTx a inp b m)"
    unfolding auditPaymentWebhookTx_def Let_def by (intro kept.moves_rules keeps_writes) simp_all
  show "keeps db_cases (webhook_insert_event inp)"
    unfolding webhook_insert_event_def q_InsertPaymentProviderEvent_def
    by (intro kept.moves_rules keeps_next_serial keeps_writes) simp_all
qed

text \<open>
  A capture that arrives after the order has ended, for a payment that is still open, is applied in
  silence: the payment is captured, but the order gets no winner and no reconciliation case is opened. The
  branch for late captures, which would do one or the other, is entered only when the payment's own
  transition is illegal.
\<close>

theorem capture_of_ended_order_is_silent:
  assumes "store_ApplyPaymentProviderWebhook a inp s = (Inr r, t)" and "\<not> wr_Replay r"
    and "webhook_target inp = ''captured''"
    and "find (\<lambda>x. o_ID x = wi_OrderID inp) (db_orders s) = Some ord"
    and "o_Status ord \<in> {''completed'', ''partially_completed'', ''failed'', ''cancelled'', ''unknown''}"
    and "find (\<lambda>p. p_ID p = wi_PaymentID inp) (db_payments s) = Some pay"
    and "p_State pay = ''created'' \<or> p_State pay = ''authorized''"
  shows "p_State (wr_Payment r) = ''captured'' \<and> db_orders t = db_orders s \<and> db_cases t = db_cases s"
proof -
  from webhook_apply_run [OF first_delivery [OF assms(1,2)]] assms(4,6) obtain late pay' s1 where
    late: "webhook_late ord pay (webhook_target inp) = Inr late"
    and set: "webhook_set_state pay (webhook_target inp) late s = (Inr pay', s1)"
    and rec: "webhook_record a inp ord pay' late s1 = (Inr r, t)" by auto
  have "late = False" using late assms(3,7) by (auto simp: webhook_late_def paymentTransitionAllowed_def)
  note rec = rec [unfolded this]
  have pid: "p_ID pay = wi_PaymentID inp" using find_SomeD [OF assms(6)] by simp
  have s1: "db_orders s1 = db_orders s" "db_cases s1 = db_cases s" "p_State pay' = ''captured''"
    using set_state_run [OF set] assms(3,6) pid by (auto split: if_splits)
  from rec obtain ev u where ev: "webhook_insert_event inp s1 = (Inr ev, u)"
    and settle: "webhook_settle a inp ord pay' False ev u = (Inr r, t)" by (auto simp: webhook_record_def bnd_Inr)
  have u: "db_orders u = db_orders s" "db_cases u = db_cases s"
    using insert_event_run [OF ev] keeps_run [OF keeps_cases(4) ev] s1 by auto
  have claim: "webhook_claim ord pay' (webhook_target inp) False = ret ord"
    using assms(5) by (auto simp: webhook_claim_def)
  from settle obtain att v1 v2 where
    att: "q_InsertPaymentAttempt (wi_PaymentID inp) (Some (wi_ProviderReference inp)) (webhook_target inp)
            (RequiredString (wi_Payload inp)) u = (Inr att, v1)"
    and out: "webhook_outbox inp v1 = (Inr (), v2)"
    and aud: "auditPaymentWebhookTx a inp False (machineUUIDPtr (o_MachineID ord)) v2 = (Inr (), t)"
    unfolding webhook_settle_def claim by (auto simp: bnd_Inr seq_Inr webhook_late_claim_def)
  have "db_orders t = db_orders u" "db_cases t = db_cases u"
    using keeps_run [OF keeps_orders(1) att] keeps_run [OF keeps_orders(2) out] keeps_run [OF keeps_orders(3) aud]
      keeps_run [OF keeps_cases(1) att] keeps_run [OF keeps_cases(2) out] keeps_run [OF keeps_cases(3) aud] by simp_all
  moreover have "wr_Payment r = pay'" using settle_payment [OF settle] .
  ultimately show ?thesis using u s1 by simp
qed

definition cancelled_db :: db where
  "cancelled_db = unpaid_db\<lparr>db_orders := [sample_order\<lparr>o_Status := ''cancelled''\<rparr>]\<rparr>"

abbreviation silent_db :: db where
  "silent_db \<equiv> snd (store_ApplyPaymentProviderWebhook True sample_capture cancelled_db)"

theorem capture_of_ended_order_is_silent_witness:
  "p_State (wr_Payment (projr (fst (store_ApplyPaymentProviderWebhook True sample_capture cancelled_db)))) = ''captured''
   \<and> db_orders silent_db = db_orders cancelled_db \<and> db_cases silent_db = db_cases cancelled_db"
proof (rule capture_of_ended_order_is_silent)
  have "\<not> isl (fst (store_ApplyPaymentProviderWebhook True sample_capture cancelled_db))" by code_simp
  then show "store_ApplyPaymentProviderWebhook True sample_capture cancelled_db =
      (Inr (projr (fst (store_ApplyPaymentProviderWebhook True sample_capture cancelled_db))), silent_db)"
    by (cases "store_ApplyPaymentProviderWebhook True sample_capture cancelled_db") (auto simp: isl_def split: sum.splits)
  show "\<not> wr_Replay (projr (fst (store_ApplyPaymentProviderWebhook True sample_capture cancelled_db)))" by code_simp
  show "webhook_target sample_capture = ''captured''" by code_simp
  show "find (\<lambda>x. o_ID x = wi_OrderID sample_capture) (db_orders cancelled_db) = Some (sample_order\<lparr>o_Status := ''cancelled''\<rparr>)"
    by code_simp
  show "o_Status (sample_order\<lparr>o_Status := ''cancelled''\<rparr>) \<in> {''completed'', ''partially_completed'', ''failed'', ''cancelled'', ''unknown''}"
    by simp
  show "find (\<lambda>p. p_ID p = wi_PaymentID sample_capture) (db_payments cancelled_db) = Some (sample_payment\<lparr>p_State := ''created''\<rparr>)"
    by code_simp
  show "p_State (sample_payment\<lparr>p_State := ''created''\<rparr>) = ''created'' \<or> p_State (sample_payment\<lparr>p_State := ''created''\<rparr>) = ''authorized''"
    by simp
qed

section \<open>The reconciler\<close>

definition probe_step :: "reconciled_payment_input \<Rightarrow> payment \<Rightarrow> payment \<Rightarrow> bool" where
  "probe_step inp p p' \<longleftrightarrow> p' = p \<or>
     (p_ID p = rp_PaymentID inp \<and> (p_State p = ''created'' \<or> p_State p = ''authorized'')
      \<and> ToLower (TrimSpace (rp_ToState inp)) \<in> {''captured'', ''failed'', ''expired'', ''canceled''}
      \<and> p' = p\<lparr>p_State := ToLower (TrimSpace (rp_ToState inp))\<rparr>)"

lemma reconcile_tx_payments:
  assumes "reconcile_tx txt inp to cur s = (Inr r, t)"
  shows "db_payments t = db_payments s \<or> db_payments t = upd_where
      (\<lambda>p. p_ID p = rp_PaymentID inp \<and> (p_State p = ''created'' \<or> p_State p = ''authorized'')) (\<lambda>p. p\<lparr>p_State := to\<rparr>) (db_payments s)"
proof -
  obtain y u where y: "q_UpdatePaymentStateForReconciliation to (rp_PaymentID inp) s = (y, u)" by force
  have att: "keeps db_payments (q_InsertPaymentAttempt i rf st j)" for i rf st j
    unfolding q_InsertPaymentAttempt_def Let_def by (intro kept.moves_rules keeps_gen_uuid keeps_writes) simp_all
  have out: "keeps db_payments (whenM b (ignoring True (q_InsertOutboxEvent x1 x2 x3 x4 x5 x6 x7 x8 x9)))"
    for b x1 x2 x3 x4 x5 x6 x7 x8 x9
    unfolding q_InsertOutboxEvent_def Let_def
    by (intro kept.moves_whenM keeps_ignoring kept.moves_rules keeps_next_serial keeps_writes) simp_all
  show ?thesis
  proof (cases y)
    case (Inl e)
    with assms y have "t = u" by (auto simp: reconcile_tx_def split: if_splits)
    moreover have "u = s" using y Inl by (auto simp: q_UpdatePaymentStateForReconciliation_def update_one_def split: option.splits)
    ultimately show ?thesis by simp
  next
    case (Inr updated)
    with assms y have "db_payments t = db_payments u"
      using keeps_run [OF att] keeps_run [OF out] by (simp add: reconcile_tx_def seq_Inr) metis
    moreover have "db_payments u = upd_where (\<lambda>p. p_ID p = rp_PaymentID inp \<and> (p_State p = ''created'' \<or> p_State p = ''authorized''))
        (\<lambda>p. p\<lparr>p_State := to\<rparr>) (db_payments s)"
      using y Inr by (auto simp: q_UpdatePaymentStateForReconciliation_def update_one_Inr set_payments_def)
    ultimately show ?thesis by simp
  qed
qed

text \<open>
  The reconciler only closes open payments. Its transition leaves every payment row alone except
  that the named payment, if it is created or authorized, may become captured, failed, expired or
  canceled; a dry run and an error change nothing at all.
\<close>

theorem reconciler_closes_open_payments_only:
  assumes "ApplyReconciledPaymentTransition txt inp s = (x, t)"
  shows "list_all2 (probe_step inp) (db_payments s) (db_payments t) \<and> (isl x \<or> rp_DryRun inp \<longrightarrow> t = s)"
proof (cases "t = s")
  case True
  then show ?thesis by (simp add: list_all2_refl probe_step_def)
next
  case False
  let ?to = "ToLower (TrimSpace (rp_ToState inp))"
  obtain cur where g: "\<not> rp_DryRun inp" "?to \<in> {''captured'', ''failed'', ''expired'', ''canceled''}"
    "tx (reconcile_tx txt inp ?to cur) s = (x, t)"
    using assms False
    by (auto simp: ApplyReconciledPaymentTransition_def Let_def bnd_def seq_def q_GetPaymentByID_def
        q_GetOrderByID_def select_one_def split: if_splits option.splits)
  then obtain r where x: "x = Inr r" and run: "reconcile_tx txt inp ?to cur s = (Inr r, t)"
    using False by (cases x) (auto simp: tx_Inr tx_Inl)
  have "list_all2 (probe_step inp) (db_payments s) (upd_where (\<lambda>p. p_ID p = rp_PaymentID inp
      \<and> (p_State p = ''created'' \<or> p_State p = ''authorized'')) (\<lambda>p. p\<lparr>p_State := ?to\<rparr>) (db_payments s))"
    using g(2) by (auto simp: upd_where_def list_all2_map2 list_all2_same probe_step_def)
  moreover have "list_all2 (probe_step inp) (db_payments s) (db_payments s)"
    by (rule list_all2_refl) (simp add: probe_step_def)
  ultimately show ?thesis using reconcile_tx_payments [OF run] g(1) x by auto
qed

definition sample_probe :: reconciled_payment_input where
  "sample_probe =
     \<lparr>rp_PaymentID = UUID ''y1'', rp_ToState = ''expired'', rp_Reason = ''probe'', rp_ProviderHint = NoBytes,
      rp_DryRun = False, rp_OutboxTopic = ''commerce'', rp_OutboxEventType = ''payment.expired'',
      rp_OutboxPayload = NoBytes, rp_OutboxAggregateType = ''payment'', rp_OutboxAggregateID = UUID ''y1'',
      rp_OutboxIdempotencyKey = ''probe-1''\<rparr>"

theorem reconciler_closes_open_payments_only_witness:
  "list_all2 (probe_step sample_probe) (db_payments unpaid_db)
     (db_payments (snd (ApplyReconciledPaymentTransition (\<lambda>_. []) sample_probe unpaid_db)))"
  by (rule conjunct1 [OF reconciler_closes_open_payments_only [OF prod.collapse [symmetric]]])

text \<open>
  When the outbox already holds an event with the reconciler's topic and idempotency key, the
  transition of an open payment fails and is undone, every time it is tried: the insert's unique violation
  is meant to be ignored, but it has already aborted the transaction that carries the transition.
\<close>

theorem reconciler_blocked_by_duplicate_event:
  assumes "rp_PaymentID inp \<noteq> uuid_Nil" "\<not> rp_DryRun inp"
    and "ToLower (TrimSpace (rp_ToState inp)) \<in> {''captured'', ''failed'', ''expired'', ''canceled''}"
    and "find (\<lambda>p. p_ID p = rp_PaymentID inp) (db_payments s) = Some pay"
    and "p_State pay = ''created'' \<or> p_State pay = ''authorized''"
    and "find (\<lambda>r. o_ID r = p_OrderID pay) (db_orders s) = Some ord"
    and "shouldInsertReconciledPaymentOutbox inp"
    and "outbox_key_used (TrimSpace (rp_OutboxTopic inp)) (pgTextOrEmpty (TrimSpace (rp_OutboxIdempotencyKey inp))) s"
  shows "\<exists>e. ApplyReconciledPaymentTransition txt inp s = (Inl e, s)"
proof -
  let ?to = "ToLower (TrimSpace (rp_ToState inp))"
  have pay: "q_GetPaymentByID (rp_PaymentID inp) s = (Inr pay, s)"
    using assms(4) by (simp add: q_GetPaymentByID_def select_one_Inr)
  have ord: "q_GetOrderByID (p_OrderID pay) s = (Inr ord, s)"
    using assms(6) by (simp add: q_GetOrderByID_def select_one_Inr)
  obtain y u where y: "q_UpdatePaymentStateForReconciliation ?to (rp_PaymentID inp) s = (y, u)" by force
  have "find (\<lambda>p. p_ID p = rp_PaymentID inp \<and> (p_State p = ''created'' \<or> p_State p = ''authorized'')) (db_payments s) \<noteq> None"
    using find_SomeD [OF assms(4)] assms(5) by (auto simp: find_None_iff)
  with y obtain updated where "y = Inr updated" and u: "db_outbox u = db_outbox s"
    by (auto simp: q_UpdatePaymentStateForReconciliation_def update_one_def set_payments_def split: option.splits)
  have "\<exists>e v. reconcile_tx txt inp ?to pay s = (Inl e, v)"
  proof -
    obtain att v where att: "q_InsertPaymentAttempt (rp_PaymentID inp) (Some ''reconciler:provider_probe'')
        (''reconciliation.probe.'' @ ?to) (JObj [(''provider_hint'', coerceJSON txt (rp_ProviderHint inp)),
          (''reason'', JStr (rp_Reason inp)), (''source'', JStr ''reconciler.provider_probe'')]) u = (Inr att, v)"
      and v: "db_outbox v = db_outbox u"
      by (simp add: q_InsertPaymentAttempt_def gen_uuid_def bnd_run Let_def)
    have "outbox_key_used (TrimSpace (rp_OutboxTopic inp)) (pgTextOrEmpty (TrimSpace (rp_OutboxIdempotencyKey inp))) v"
      using assms(8) u v by (simp add: outbox_key_used_def split: option.splits)
    then show ?thesis
      using y \<open>y = Inr updated\<close> att assms(7)
      by (simp add: reconcile_tx_def seq_def whenM_def ignoring_def unless_aborted_def q_InsertOutboxEvent_def bnd_run)
  qed
  then show ?thesis
    using assms(1-3,5) pay ord
    by (auto simp: ApplyReconciledPaymentTransition_def Let_def seq_def tx_def split: prod.splits)
qed

theorem reconciler_blocked_by_duplicate_event_witness:
  "\<exists>e. ApplyReconciledPaymentTransition (\<lambda>_. []) sample_probe
      (unpaid_db\<lparr>db_outbox := [outbox_row 1 0 ''commerce'' ''payment.expired'' (JObj []) ''payment'' (UUID ''y1'') (Some ''probe-1'') False None None]\<rparr>)
    = (Inl e, unpaid_db\<lparr>db_outbox := [outbox_row 1 0 ''commerce'' ''payment.expired'' (JObj []) ''payment'' (UUID ''y1'') (Some ''probe-1'') False None None]\<rparr>)"
  by (rule reconciler_blocked_by_duplicate_event [where pay = "sample_payment\<lparr>p_State := ''created''\<rparr>"
        and ord = "sample_order\<lparr>o_Status := ''created''\<rparr>"]) code_simp+

end
