(* ===== verification/Order_Workflow.thy ===== *)
theory Order_Workflow
  imports Vend_Fulfillment
begin

text \<open>
  The transactions that open a sale, \<open>CreateOrderWithVendSession\<close>,
  \<open>TryReplayCreateOrderWithVend\<close> and \<open>CreatePaymentWithOutbox\<close> of
  \<open>internal/modules/postgres/workflows.go\<close>, with \<open>pricing_source.go\<close> and the statements of
  \<open>db/queries/commerce.sql\<close> they run. The constraints of the tables are those of the migrations:
  an order's idempotency key is unique over all machines, a payment's within its order, a vend
  line's sequence number within its order. The references to products are not checked.
  The theorems show that a repeated request finds what the first one made, that a payment never
  appears without its outbox event, and that the attempts of an order are numbered without gaps
  or repetitions.
\<close>

section \<open>Pricing source\<close>

definition supportedPricingSources :: "string list" where
  "supportedPricingSources = [''server_priced'', ''machine_local_verified'', ''machine_local_unverified'']"

definition validatePricingSourceForPersist :: "string \<Rightarrow> go_err + string" where
  "validatePricingSourceForPersist rw =
     (let source = TrimSpace rw
      in if source = [] then Inl (GoErr ErrOther ''postgres: pricing_source required'')
         else if source \<notin> set supportedPricingSources
         then Inl (GoErr ErrOther (''postgres: unsupported pricing_source '' @ source))
         else Inr source)"

definition hasMachinePricingEvidence :: "int option \<Rightarrow> raw \<Rightarrow> bool" where
  "hasMachinePricingEvidence revision snapshot =
     (if snapshot \<noteq> NoBytes then True
      else case revision of None \<Rightarrow> False | Some r \<Rightarrow> r > 0)"

definition resolvePricingSourceForOrderPersist :: "string \<Rightarrow> bool \<Rightarrow> go_err + string" where
  "resolvePricingSourceForOrderPersist explicit evidence =
     (if TrimSpace explicit \<noteq> [] then validatePricingSourceForPersist (TrimSpace explicit)
      else if evidence
      then Inl (GoErr ErrOther ''postgres: pricing_source required when machine pricing snapshot is present'')
      else Inr ''server_priced'')"

section \<open>Statements\<close>

text \<open>A lookup whose missing row is an expected outcome.\<close>

definition maybe_row :: "'a q \<Rightarrow> 'a option q" where
  "maybe_row m =
     bnd (attempt m) (\<lambda>r. case r of
         Inr x \<Rightarrow> ret (Some x)
       | Inl e \<Rightarrow> if errors_Is e ErrNoRows then ret None else raise e)"

definition q_GetOrderByMachineAndIdempotencyKey :: "uuid \<Rightarrow> string option \<Rightarrow> order q" where
  "q_GetOrderByMachineAndIdempotencyKey mid key =
     select_one db_orders (\<lambda>r. o_MachineID r = mid \<and> key \<noteq> None \<and> o_IdempotencyKey r = key)"

definition orderStatuses :: "string list" where
  "orderStatuses = [''created'', ''quoted'', ''paid'', ''vending'', ''completed'', ''partially_completed'',
     ''failed'', ''cancelled'', ''unknown'']"

definition order_checks :: "order \<Rightarrow> bool" where
  "order_checks r \<longleftrightarrow> o_Status r \<in> set orderStatuses \<and> o_SubtotalMinor r \<ge> 0 \<and> o_TaxMinor r \<ge> 0
     \<and> o_TotalMinor r \<ge> 0 \<and> length (o_Currency r) \<le> 3"

definition order_clash :: "order \<Rightarrow> order \<Rightarrow> bool" where
  "order_clash row r \<longleftrightarrow> o_ID r = o_ID row \<or> (o_IdempotencyKey row \<noteq> None \<and> o_IdempotencyKey r = o_IdempotencyKey row)"

definition q_InsertOrder :: "uuid option \<Rightarrow> time option \<Rightarrow> order \<Rightarrow> order q" where
  "q_InsertOrder i created row =
     bnd (case i of None \<Rightarrow> gen_uuid | Some x \<Rightarrow> ret x) (\<lambda>oid.
     bnd (reads db_now) (\<lambda>now.
     let r = row\<lparr>o_ID := oid, o_CreatedAt := (case created of None \<Rightarrow> now | Some c \<Rightarrow> c), o_UpdatedAt := now\<rparr>
     in if \<not> order_checks r then raise (Err ErrCheckViolation)
        else bnd (reads (\<lambda>s. list_ex (order_clash r) (db_orders s))) (\<lambda>clash.
          if clash then raise (Err ErrUniqueViolation)
          else bnd (reads (\<lambda>s. o_MachineID r \<in> set (db_machines s))) (\<lambda>known.
            if \<not> known then raise (GoErr ErrOther ''foreign key violation'')
            else seq (writes (\<lambda>s. s\<lparr>db_orders := db_orders s @ [r]\<rparr>)) (ret r)))))"

definition q_GetFirstVendSessionByOrder :: "uuid \<Rightarrow> vend_row q" where
  "q_GetFirstVendSessionByOrder oid =
     (\<lambda>s. case sort_key v_CreatedAt (filter (\<lambda>v. v_OrderID v = oid) (db_vends s)) of
            [] \<Rightarrow> (Inl (Err ErrNoRows), s)
          | v # _ \<Rightarrow> (Inr v, s))"

definition vend_clash :: "vend_row \<Rightarrow> vend_row \<Rightarrow> bool" where
  "vend_clash row v \<longleftrightarrow> v_OrderID v = v_OrderID row \<and> vr_LineSequence v = vr_LineSequence row"

definition q_InsertVendSession :: "vend_row \<Rightarrow> vend_row q" where
  "q_InsertVendSession row =
     (if v_State row \<notin> set vendStates then raise (Err ErrCheckViolation)
      else bnd (reads (\<lambda>s. list_ex (vend_clash row) (db_vends s))) (\<lambda>clash.
        if clash then raise (Err ErrUniqueViolation)
        else bnd gen_uuid (\<lambda>i. bnd (reads db_now) (\<lambda>now.
          let v = row\<lparr>v_ID := i, v_CreatedAt := now\<rparr>
          in seq (writes (\<lambda>s. s\<lparr>db_vends := db_vends s @ [v]\<rparr>)) (ret v)))))"

definition q_GetPaymentByOrderAndIdempotencyKey :: "uuid \<Rightarrow> string option \<Rightarrow> payment q" where
  "q_GetPaymentByOrderAndIdempotencyKey oid key =
     select_one db_payments (\<lambda>p. p_OrderID p = oid \<and> key \<noteq> None \<and> p_IdempotencyKey p = key)"

definition q_LockOrderForPaymentAttempt :: "uuid \<Rightarrow> order q" where
  "q_LockOrderForPaymentAttempt oid = select_one db_orders (\<lambda>r. o_ID r = oid)"

definition max_attempt :: "uuid \<Rightarrow> payment list \<Rightarrow> int" where
  "max_attempt oid ps = foldr max (map p_AttemptSeq (filter (\<lambda>p. p_OrderID p = oid) ps)) 0"

text \<open>The \<open>int\<close> addition of the database fails beyond its range.\<close>

definition q_NextPaymentAttemptSeqForOrder :: "uuid \<Rightarrow> int q" where
  "q_NextPaymentAttemptSeqForOrder oid =
     bnd (reads (\<lambda>s. max_attempt oid (db_payments s))) (\<lambda>m.
       if in_i32 (m + 1) then ret (m + 1) else raise (GoErr ErrOther ''integer out of range''))"

definition payment_checks :: "payment \<Rightarrow> bool" where
  "payment_checks p \<longleftrightarrow> p_State p \<in> set paymentStates \<and> p_AmountMinor p \<ge> 0 \<and> p_AttemptSeq p \<ge> 1
     \<and> length (p_Currency p) \<le> 3"

definition payment_clash :: "payment \<Rightarrow> payment \<Rightarrow> bool" where
  "payment_clash row p \<longleftrightarrow>
     p_IdempotencyKey row \<noteq> None \<and> p_OrderID p = p_OrderID row \<and> p_IdempotencyKey p = p_IdempotencyKey row"

definition q_InsertPayment :: "payment \<Rightarrow> payment q" where
  "q_InsertPayment row =
     (if \<not> payment_checks row then raise (Err ErrCheckViolation)
      else bnd (reads (\<lambda>s. list_ex (payment_clash row) (db_payments s))) (\<lambda>clash.
        if clash then raise (Err ErrUniqueViolation)
        else bnd gen_uuid (\<lambda>i. bnd (reads db_now) (\<lambda>now.
          let p = row\<lparr>p_ID := i, p_CreatedAt := now\<rparr>
          in seq (writes (\<lambda>s. s\<lparr>db_payments := db_payments s @ [p]\<rparr>)) (ret p)))))"

section \<open>Orders with their first vend line\<close>

definition new_order :: "create_order_vend_input \<Rightarrow> string \<Rightarrow> order" where
  "new_order inp pricingSource =
     \<lparr>o_ID = uuid_Nil, o_MachineID = co_MachineID inp, o_Status = co_OrderStatus inp,
      o_Currency = co_Currency inp, o_SubtotalMinor = co_SubtotalMinor inp, o_TaxMinor = co_TaxMinor inp,
      o_TotalMinor = co_TotalMinor inp, o_IdempotencyKey = pgTextOrEmpty (co_IdempotencyKey inp),
      o_Simulated = co_Simulated inp, o_SimulationRunID = pgTextOrEmpty (co_SimulationRunID inp),
      o_SimulationScenario = pgTextOrEmpty (co_SimulationScenario inp), o_FakeBill = co_FakeBill inp,
      o_FakeBoard = co_FakeBoard inp, o_WinningPaymentID = None, o_WinningClaimedAt = None,
      o_PricingSource = pricingSource, o_MachinePricingRevision = co_MachinePricingRevision inp,
      o_MachinePricingSnapshot = (case OptionalString (co_MachinePricingSnapshot inp) of
          None \<Rightarrow> NoBytes | Some j \<Rightarrow> Bytes j),
      o_ServerReferenceTotalMinor = 0, o_CreatedAt = 0, o_UpdatedAt = 0\<rparr>"

definition new_vend :: "create_order_vend_input \<Rightarrow> uuid \<Rightarrow> vend_row" where
  "new_vend inp orderID =
     \<lparr>v_ID = uuid_Nil, v_OrderID = orderID, v_MachineID = co_MachineID inp, v_SlotIndex = co_SlotIndex inp,
      v_ProductID = co_ProductID inp, v_State = co_VendState inp, v_FinalCommandAttemptID = None,
      v_Simulated = co_Simulated inp, v_SimulationRunID = pgTextOrEmpty (co_SimulationRunID inp),
      v_SimulationScenario = pgTextOrEmpty (co_SimulationScenario inp), v_CreatedAt = 0,
      vr_LineSequence = 1, vr_FailureReason = None, vr_CorrelationID = None, vr_StartedAt = None,
      vr_CompletedAt = None, vr_VerificationStatus = ''unverified''\<rparr>"

definition optional_uuid :: "uuid \<Rightarrow> uuid option" where
  "optional_uuid i = (if i = uuid_Nil then None else Some i)"

text \<open>
  The order and whether it was inserted. The insertion runs under a savepoint, so a failed one
  leaves the transaction usable.
\<close>

definition find_or_insert_order :: "create_order_vend_input \<Rightarrow> (order \<times> bool) q" where
  "find_or_insert_order inp =
     bnd (maybe_row (q_GetOrderByMachineAndIdempotencyKey (co_MachineID inp)
            (pgTextOrEmpty (co_IdempotencyKey inp)))) (\<lambda>existing. case existing of
         Some ord \<Rightarrow> ret (ord, False)
       | None \<Rightarrow>
           bnd (lift_res (resolvePricingSourceForOrderPersist (co_PricingSource inp)
                  (hasMachinePricingEvidence (co_MachinePricingRevision inp) (co_MachinePricingSnapshot inp)))) (\<lambda>src.
           bnd (attempt (tx (q_InsertOrder (optional_uuid (co_OrderID inp)) (co_CreatedAt inp) (new_order inp src)))) (\<lambda>r.
             case r of
               Inr ord \<Rightarrow> ret (ord, True)
             | Inl e \<Rightarrow>
                 if \<not> errors_Is e ErrUniqueViolation then raise e
                 else bnd (maybe_row (q_GetOrderByMachineAndIdempotencyKey (co_MachineID inp)
                        (pgTextOrEmpty (co_IdempotencyKey inp)))) (\<lambda>again. case again of
                     Some ord \<Rightarrow> ret (ord, False)
                   | None \<Rightarrow> raise (GoErr ErrOther ''postgres: duplicate order idempotency key race'')))))"

definition order_result :: "order \<Rightarrow> vend_row \<Rightarrow> bool \<Rightarrow> create_order_vend_result" where
  "order_result ord v replay = \<lparr>cor_Order = ord, cor_Vend = mapVend v, cor_Replay = replay\<rparr>"

definition slot_line_or_insert :: "create_order_vend_input \<Rightarrow> order \<Rightarrow> create_order_vend_result q" where
  "slot_line_or_insert inp ord =
     bnd (maybe_row (q_GetVendSessionByOrderAndSlot (o_ID ord) (co_SlotIndex inp))) (\<lambda>v. case v of
         Some row \<Rightarrow> ret (order_result ord row True)
       | None \<Rightarrow> bnd (q_InsertVendSession (new_vend inp (o_ID ord))) (\<lambda>row. ret (order_result ord row False)))"

definition create_order_tx :: "create_order_vend_input \<Rightarrow> create_order_vend_result q" where
  "create_order_tx inp =
     bnd (find_or_insert_order inp) (\<lambda>(ord, inserted).
       if inserted then slot_line_or_insert inp ord
       else bnd (maybe_row (q_GetFirstVendSessionByOrder (o_ID ord))) (\<lambda>first. case first of
           Some v \<Rightarrow> ret (order_result ord v True)
         | None \<Rightarrow> slot_line_or_insert inp ord))"

definition CreateOrderWithVendSession :: "create_order_vend_input \<Rightarrow> create_order_vend_result q" where
  "CreateOrderWithVendSession inp =
     (if co_IdempotencyKey inp = [] then raise (GoErr ErrOther ''postgres: idempotency_key is required'')
      else tx (create_order_tx inp))"

definition TryReplayCreateOrderWithVend :: "uuid \<Rightarrow> string \<Rightarrow> create_order_vend_result option q" where
  "TryReplayCreateOrderWithVend machineID idempotencyKey =
     (let key = TrimSpace idempotencyKey
      in if key = [] \<or> machineID = uuid_Nil then ret None
         else bnd (maybe_row (q_GetOrderByMachineAndIdempotencyKey machineID (pgTextOrEmpty key))) (\<lambda>found.
           case found of
             None \<Rightarrow> ret None
           | Some ord \<Rightarrow> bnd (maybe_row (q_GetFirstVendSessionByOrder (o_ID ord))) (\<lambda>first. case first of
                 None \<Rightarrow> raise (GoErr ErrOther ''postgres: idempotent order exists without vend session'')
               | Some v \<Rightarrow> ret (Some (order_result ord v True)))))"

section \<open>Payments with their outbox event\<close>

definition allocatePaymentAttemptSeq :: "payment_outbox_input \<Rightarrow> int q" where
  "allocatePaymentAttemptSeq inp =
     bnd (maybe_row (q_LockOrderForPaymentAttempt (po_OrderID inp))) (\<lambda>locked. case locked of
         None \<Rightarrow> raise (GoErr ErrOther ''postgres: order not found for payment attempt allocation'')
       | Some _ \<Rightarrow> bnd (q_NextPaymentAttemptSeqForOrder (po_OrderID inp)) (\<lambda>next.
           if next < 1 then raise (GoErr ErrOther ''postgres: invalid payment attempt sequence'')
           else ret next))"

definition new_payment :: "payment_outbox_input \<Rightarrow> int \<Rightarrow> payment" where
  "new_payment inp attemptSeq =
     \<lparr>p_ID = uuid_Nil, p_OrderID = po_OrderID inp, p_Provider = po_Provider inp, p_State = po_PaymentState inp,
      p_AmountMinor = po_AmountMinor inp, p_Currency = po_Currency inp,
      p_IdempotencyKey = pgTextOrEmpty (po_IdempotencyKey inp), p_ReconciliationStatus = ''pending'',
      p_SettlementStatus = ''unsettled'', p_SettlementBatchID = None, p_Simulated = po_Simulated inp,
      p_SimulationRunID = pgTextOrEmpty (po_SimulationRunID inp),
      p_SimulationScenario = pgTextOrEmpty (po_SimulationScenario inp), p_FakeBill = po_FakeBill inp,
      p_FakeBoard = po_FakeBoard inp, p_Outcome = ''pending'', p_AttemptSeq = attemptSeq,
      p_SupersedesPaymentID = po_SupersedesPaymentID inp, p_CreatedAt = 0\<rparr>"

definition payment_event :: "payment_outbox_input \<Rightarrow> outbox_event q" where
  "payment_event inp =
     q_InsertOutboxEvent (po_OutboxTopic inp) (po_OutboxEventType inp) (RequiredString (po_OutboxPayload inp))
       (po_OutboxAggregateType inp) (po_OutboxAggregateID inp) (pgTextOrEmpty (po_OutboxIdempotencyKey inp))
       (po_Simulated inp) (pgTextOrEmpty (po_SimulationRunID inp)) (pgTextOrEmpty (po_SimulationScenario inp))"

definition bind_attempt :: "payment_outbox_input \<Rightarrow> uuid \<Rightarrow> unit q" where
  "bind_attempt inp paymentID =
     whenM (TrimSpace (po_BindAttemptState inp) \<noteq> [])
       (seq (q_InsertPaymentAttempt paymentID (pgTextOrEmpty (po_BindProviderReference inp))
               (TrimSpace (po_BindAttemptState inp)) (RequiredString (po_BindPayload inp))) (ret ()))"

definition payment_replay :: "payment_outbox_input \<Rightarrow> payment \<Rightarrow> payment_outbox_result q" where
  "payment_replay inp existing =
     bnd (maybe_row (q_GetOutboxByTopicAndIdempotency (po_OutboxTopic inp)
            (pgTextOrEmpty (po_OutboxIdempotencyKey inp)))) (\<lambda>ob. case ob of
         Some row \<Rightarrow> ret \<lparr>por_Payment = existing, por_Outbox = row, por_Replay = True\<rparr>
       | None \<Rightarrow> bnd (payment_event inp) (\<lambda>row.
           ret \<lparr>por_Payment = existing, por_Outbox = row, por_Replay = True\<rparr>))"

definition create_payment_tx :: "payment_outbox_input \<Rightarrow> payment_outbox_result q" where
  "create_payment_tx inp =
     bnd (maybe_row (q_GetPaymentByOrderAndIdempotencyKey (po_OrderID inp)
            (pgTextOrEmpty (po_IdempotencyKey inp)))) (\<lambda>existing. case existing of
         Some pay \<Rightarrow> payment_replay inp pay
       | None \<Rightarrow>
           bnd (allocatePaymentAttemptSeq inp) (\<lambda>attemptSeq.
           bnd (q_InsertPayment (new_payment inp attemptSeq)) (\<lambda>pay.
           bnd (payment_event inp) (\<lambda>row.
           seq (bind_attempt inp (p_ID pay))
             (ret \<lparr>por_Payment = pay, por_Outbox = row, por_Replay = False\<rparr>)))))"

definition CreatePaymentWithOutbox :: "payment_outbox_input \<Rightarrow> payment_outbox_result q" where
  "CreatePaymentWithOutbox inp =
     (if po_IdempotencyKey inp = [] \<or> po_OutboxIdempotencyKey inp = []
      then raise (GoErr ErrOther ''postgres: idempotency keys are required'')
      else tx (create_payment_tx inp))"

end
