(* ===== verification/Order_Safety.thy ===== *)
theory Order_Safety
  imports Order_Workflow
begin

text \<open>
  What the transactions that open a sale guarantee: a repeated order request gets the order and the
  vend line of the first one and changes nothing; a payment is never stored without its outbox event;
  the attempts of an order are numbered upwards; a repeated payment request gets the first payment.
  The last theorem shows a limit: an idempotency key another machine has used can never be used again.
\<close>

section \<open>Runs of the lookups and insertions\<close>

lemma maybe_row_select [simp]: "maybe_row (select_one tbl P) s = (Inr (find P (tbl s)), s)"
  by (simp add: maybe_row_def select_one_def bnd_def split: option.splits)

definition first_line :: "uuid \<Rightarrow> db \<Rightarrow> vend_row option" where
  "first_line oid s =
     (case sort_key v_CreatedAt (filter (\<lambda>v. v_OrderID v = oid) (db_vends s)) of [] \<Rightarrow> None | v # _ \<Rightarrow> Some v)"

lemma maybe_first [simp]: "maybe_row (q_GetFirstVendSessionByOrder oid) s = (Inr (first_line oid s), s)"
  by (simp add: maybe_row_def q_GetFirstVendSessionByOrder_def first_line_def bnd_def split: list.splits)

lemma first_line_None: "first_line oid s = None \<longleftrightarrow> filter (\<lambda>v. v_OrderID v = oid) (db_vends s) = []"
proof -
  have "sort_key v_CreatedAt xs = [] \<longleftrightarrow> xs = []" for xs :: "vend_row list"
    by (metis length_0_conv length_sort)
  then show ?thesis by (simp add: first_line_def split: list.splits) (metis list.distinct(1))
qed

lemma first_line_only: "filter (\<lambda>v. v_OrderID v = oid) (db_vends s) = [v] \<Longrightarrow> first_line oid s = Some v"
  by (simp add: first_line_def)

definition order_of_key :: "uuid \<Rightarrow> string option \<Rightarrow> db \<Rightarrow> order option" where
  "order_of_key mid key s =
     find (\<lambda>r. o_MachineID r = mid \<and> key \<noteq> None \<and> o_IdempotencyKey r = key) (db_orders s)"

lemma maybe_order_of_key [simp]:
  "maybe_row (q_GetOrderByMachineAndIdempotencyKey mid key) s = (Inr (order_of_key mid key s), s)"
  by (simp add: q_GetOrderByMachineAndIdempotencyKey_def order_of_key_def)

definition vends_have_orders :: "db \<Rightarrow> bool" where
  "vends_have_orders s \<longleftrightarrow> (\<forall>v \<in> set (db_vends s). v_OrderID v \<in> o_ID ` set (db_orders s))"

lemma insert_order_run:
  assumes "q_InsertOrder i created row s = (Inr r, t)"
  shows "db_orders t = db_orders s @ [r] \<and> db_vends t = db_vends s \<and> \<not> list_ex (order_clash r) (db_orders s)
    \<and> o_MachineID r = o_MachineID row \<and> o_IdempotencyKey r = o_IdempotencyKey row"
proof -
  let ?g = "case i of None \<Rightarrow> gen_uuid | Some x \<Rightarrow> ret x"
  obtain oid u where g: "?g s = (Inr oid, u)"
    using assms unfolding q_InsertOrder_def by (auto simp: bnd_Inr)
  have u: "db_orders u = db_orders s" "db_vends u = db_vends s"
    using g by (auto simp: gen_uuid_def split: option.splits)
  show ?thesis
    using assms g u unfolding q_InsertOrder_def
    by (auto simp: Let_def split: if_splits)
qed

lemma insert_vend_run:
  assumes "q_InsertVendSession row s = (Inr v, t)"
  shows "db_vends t = db_vends s @ [v] \<and> db_orders t = db_orders s \<and> v_OrderID v = v_OrderID row
    \<and> v_SlotIndex v = v_SlotIndex row \<and> v_State v = v_State row"
  using assms unfolding q_InsertVendSession_def
  by (auto simp: bnd_def gen_uuid_def Let_def split: if_splits)

section \<open>Orders\<close>

text \<open>The lookup a replay relies on: the order of the key and its first line.\<close>

definition order_known :: "create_order_vend_input \<Rightarrow> create_order_vend_result \<Rightarrow> db \<Rightarrow> bool" where
  "order_known inp r s \<longleftrightarrow>
     order_of_key (co_MachineID inp) (pgTextOrEmpty (co_IdempotencyKey inp)) s = Some (cor_Order r)
     \<and> map_option mapVend (first_line (o_ID (cor_Order r)) s) = Some (cor_Vend r)"

lemma create_order_replays:
  assumes "order_known inp r s" and "co_IdempotencyKey inp \<noteq> []"
  shows "CreateOrderWithVendSession inp s = (Inr (r\<lparr>cor_Replay := True\<rparr>), s)"
proof -
  from assms(1) obtain v where v: "first_line (o_ID (cor_Order r)) s = Some v" "mapVend v = cor_Vend r"
    and ord: "order_of_key (co_MachineID inp) (pgTextOrEmpty (co_IdempotencyKey inp)) s = Some (cor_Order r)"
    by (auto simp: order_known_def)
  have "create_order_tx inp s = (Inr (r\<lparr>cor_Replay := True\<rparr>), s)"
    using v ord
    by (simp add: create_order_tx_def find_or_insert_order_def order_result_def)
  then show ?thesis using assms(2) by (simp add: CreateOrderWithVendSession_def tx_def)
qed

lemma try_replay_finds:
  assumes "order_known inp r s" and "TrimSpace (co_IdempotencyKey inp) \<noteq> []" "co_MachineID inp \<noteq> uuid_Nil"
  shows "TryReplayCreateOrderWithVend (co_MachineID inp) (co_IdempotencyKey inp) s
    = (Inr (Some (r\<lparr>cor_Replay := True\<rparr>)), s)"
proof -
  have "pgTextOrEmpty (TrimSpace (co_IdempotencyKey inp)) = pgTextOrEmpty (co_IdempotencyKey inp)"
    by (simp add: pgTextOrEmpty_def)
  then show ?thesis
    using assms
    by (auto simp: TryReplayCreateOrderWithVend_def order_known_def order_result_def Let_def)
qed

lemma slot_line_fresh:
  assumes "slot_line_or_insert inp ord s = (Inr r, t)"
    and "filter (\<lambda>v. v_OrderID v = o_ID ord) (db_vends s) = []"
  shows "cor_Order r = ord \<and> db_orders t = db_orders s \<and> map_option mapVend (first_line (o_ID ord) t) = Some (cor_Vend r)"
proof -
  have "find (\<lambda>v. v_OrderID v = o_ID ord \<and> v_SlotIndex v = co_SlotIndex inp) (db_vends s) = None"
    using assms(2) by (auto simp: find_None_iff filter_empty_conv)
  with assms(1) obtain v where ins: "q_InsertVendSession (new_vend inp (o_ID ord)) s = (Inr v, t)"
    and r: "r = order_result ord v False"
    by (auto simp: slot_line_or_insert_def q_GetVendSessionByOrderAndSlot_def bnd_Inr)
  have "v_OrderID v = o_ID ord" using insert_vend_run [OF ins] by (simp add: new_vend_def)
  with insert_vend_run [OF ins] assms(2) have "first_line (o_ID ord) t = Some v"
    by (auto intro: first_line_only)
  with r insert_vend_run [OF ins] show ?thesis by (simp add: order_result_def)
qed

lemma find_or_insert_run:
  assumes "find_or_insert_order inp s = (Inr (ord, inserted), t)"
  shows "if inserted
     then order_of_key (co_MachineID inp) (pgTextOrEmpty (co_IdempotencyKey inp)) s = None
       \<and> db_orders t = db_orders s @ [ord] \<and> db_vends t = db_vends s \<and> \<not> list_ex (order_clash ord) (db_orders s)
       \<and> o_MachineID ord = co_MachineID inp \<and> o_IdempotencyKey ord = pgTextOrEmpty (co_IdempotencyKey inp)
     else t = s \<and> order_of_key (co_MachineID inp) (pgTextOrEmpty (co_IdempotencyKey inp)) s = Some ord"
proof (cases "order_of_key (co_MachineID inp) (pgTextOrEmpty (co_IdempotencyKey inp)) s")
  case None
  from assms None obtain src where run: "bnd (attempt (tx (q_InsertOrder (optional_uuid (co_OrderID inp)) (co_CreatedAt inp) (new_order inp src))))
      (\<lambda>r. case r of Inr ord \<Rightarrow> ret (ord, True)
         | Inl e \<Rightarrow> if \<not> errors_Is e ErrUniqueViolation then raise e
             else bnd (maybe_row (q_GetOrderByMachineAndIdempotencyKey (co_MachineID inp) (pgTextOrEmpty (co_IdempotencyKey inp))))
               (\<lambda>again. case again of Some ord \<Rightarrow> ret (ord, False)
                  | None \<Rightarrow> raise (GoErr ErrOther ''postgres: duplicate order idempotency key race''))) s
      = (Inr (ord, inserted), t)"
    by (auto simp: find_or_insert_order_def bnd_Inr lift_res_run_Inr simp del: attempt_run)
  obtain y u where y: "tx (q_InsertOrder (optional_uuid (co_OrderID inp)) (co_CreatedAt inp) (new_order inp src)) s = (y, u)"
    by force
  show ?thesis
  proof (cases y)
    case (Inl e)
    with y have "u = s" by (simp add: tx_Inl)
    with run y Inl None show ?thesis by (simp split: if_splits)
  next
    case (Inr x)
    with run y have x: "x = ord" "inserted" "u = t" by simp_all
    with y Inr have "q_InsertOrder (optional_uuid (co_OrderID inp)) (co_CreatedAt inp) (new_order inp src) s = (Inr ord, t)"
      by (simp add: tx_Inr)
    from insert_order_run [OF this] x None show ?thesis by (simp add: new_order_def)
  qed
next
  case (Some ord')
  with assms show ?thesis by (simp add: find_or_insert_order_def)
qed

lemma order_of_key_append:
  assumes "order_of_key mid key s = None" and "db_orders t = db_orders s @ [ord]"
    and "o_MachineID ord = mid" "o_IdempotencyKey ord = key" "key \<noteq> None"
  shows "order_of_key mid key t = Some ord"
  using assms by (auto simp: order_of_key_def find_append)

lemma fresh_order_has_no_lines:
  assumes "vends_have_orders s" and "\<not> list_ex (order_clash ord) (db_orders s)"
  shows "filter (\<lambda>v. v_OrderID v = o_ID ord) (db_vends s) = []"
  using assms by (fastforce simp: vends_have_orders_def list_ex_iff order_clash_def filter_empty_conv)

lemma created_order_known:
  assumes run: "CreateOrderWithVendSession inp s = (Inr r, t)" and ref: "vends_have_orders s"
    and key: "TrimSpace (co_IdempotencyKey inp) \<noteq> []"
  shows "order_known inp r t"
proof -
  let ?key = "pgTextOrEmpty (co_IdempotencyKey inp)"
  have k: "?key \<noteq> None" using key by (simp add: pgTextOrEmpty_def)
  have "create_order_tx inp s = (Inr r, t)"
    using run by (auto simp: CreateOrderWithVendSession_def tx_Inr split: if_splits)
  then obtain ord inserted u where f: "find_or_insert_order inp s = (Inr (ord, inserted), u)"
    and rest: "(if inserted then slot_line_or_insert inp ord
       else bnd (maybe_row (q_GetFirstVendSessionByOrder (o_ID ord))) (\<lambda>first. case first of
           Some v \<Rightarrow> ret (order_result ord v True) | None \<Rightarrow> slot_line_or_insert inp ord)) u = (Inr r, t)"
    by (auto simp: create_order_tx_def bnd_Inr)
  show ?thesis
  proof (cases inserted)
    case True
    with find_or_insert_run [OF f] have i: "order_of_key (co_MachineID inp) ?key s = None"
      "db_orders u = db_orders s @ [ord]" "db_vends u = db_vends s" "\<not> list_ex (order_clash ord) (db_orders s)"
      "o_MachineID ord = co_MachineID inp" "o_IdempotencyKey ord = ?key" by simp_all
    have "filter (\<lambda>v. v_OrderID v = o_ID ord) (db_vends u) = []"
      using fresh_order_has_no_lines [OF ref i(4)] i(3) by simp
    with slot_line_fresh rest True have l: "cor_Order r = ord" "db_orders t = db_orders u"
      "map_option mapVend (first_line (o_ID ord) t) = Some (cor_Vend r)" by auto
    have "order_of_key (co_MachineID inp) ?key t = Some ord"
      by (rule order_of_key_append [OF i(1) _ i(5,6) k]) (simp add: l i)
    with l show ?thesis by (simp add: order_known_def)
  next
    case False
    with find_or_insert_run [OF f] have o': "u = s" "order_of_key (co_MachineID inp) ?key s = Some ord" by simp_all
    show ?thesis
    proof (cases "first_line (o_ID ord) s")
      case None
      with rest False o' have "slot_line_or_insert inp ord s = (Inr r, t)" by simp
      from slot_line_fresh [OF this] None o' show ?thesis
        by (simp add: first_line_None order_known_def order_of_key_def)
    next
      case (Some v)
      with rest False o' show ?thesis by (auto simp: order_known_def order_result_def)
    qed
  qed
qed

text \<open>
  C20: An order request is idempotent. After a request that was answered, any request of the same machine
  with the same idempotency key, whatever else it asks for, gets the same order and the same vend line,
  marked as a replay, and leaves the database as it is; the service's early replay lookup gives the
  same answer.
\<close>

theorem create_order_idempotent:
  assumes "CreateOrderWithVendSession inp s = (Inr r, t)" and "vends_have_orders s"
    and "TrimSpace (co_IdempotencyKey inp) \<noteq> []" "co_MachineID inp \<noteq> uuid_Nil"
    and "co_MachineID inp' = co_MachineID inp"
    and "TrimSpace (co_IdempotencyKey inp') = TrimSpace (co_IdempotencyKey inp)"
  shows "CreateOrderWithVendSession inp' t = (Inr (r\<lparr>cor_Replay := True\<rparr>), t)
    \<and> TryReplayCreateOrderWithVend (co_MachineID inp') (co_IdempotencyKey inp') t
        = (Inr (Some (r\<lparr>cor_Replay := True\<rparr>)), t)"
proof -
  have "order_known inp r t" by (rule created_order_known [OF assms(1-3)])
  moreover have "pgTextOrEmpty (co_IdempotencyKey inp') = pgTextOrEmpty (co_IdempotencyKey inp)"
    using assms(6) by (simp add: pgTextOrEmpty_def)
  ultimately have k: "order_known inp' r t" using assms(5) by (simp add: order_known_def)
  have "co_IdempotencyKey inp' \<noteq> []" using assms(3,6) by (metis TrimSpace_Nil)
  with create_order_replays [OF k] try_replay_finds [OF k] assms(3-6) show ?thesis by simp
qed

definition sample_request :: create_order_vend_input where
  "sample_request =
     \<lparr>co_MachineID = UUID ''m1'', co_ProductID = UUID ''p1'', co_SlotIndex = 3, co_Currency = ''VND'',
      co_SubtotalMinor = 700, co_TaxMinor = 0, co_TotalMinor = 700, co_IdempotencyKey = ''k2'',
      co_OrderStatus = ''created'', co_VendState = ''pending'', co_Simulated = False, co_SimulationRunID = [],
      co_SimulationScenario = [], co_FakeBill = False, co_FakeBoard = False, co_PricingSource = [],
      co_MachinePricingRevision = None, co_MachinePricingSnapshot = NoBytes, co_OrderID = uuid_Nil,
      co_CreatedAt = None\<rparr>"

lemma sample_request_run:
  obtains r where "CreateOrderWithVendSession sample_request sample_db
    = (Inr r, snd (CreateOrderWithVendSession sample_request sample_db))"
proof -
  have "\<not> isl (fst (CreateOrderWithVendSession sample_request sample_db))" by code_simp
  then show ?thesis using that by (metis isl_def prod.collapse sum.collapse(2))
qed

theorem create_order_idempotent_witness:
  "\<exists>r. CreateOrderWithVendSession (sample_request\<lparr>co_SlotIndex := 9\<rparr>)
      (snd (CreateOrderWithVendSession sample_request sample_db))
    = (Inr (r\<lparr>cor_Replay := True\<rparr>), snd (CreateOrderWithVendSession sample_request sample_db))"
proof -
  obtain r where r: "CreateOrderWithVendSession sample_request sample_db
    = (Inr r, snd (CreateOrderWithVendSession sample_request sample_db))" by (rule sample_request_run)
  have "vends_have_orders sample_db" by code_simp
  moreover have "TrimSpace (co_IdempotencyKey sample_request) \<noteq> []" "co_MachineID sample_request \<noteq> uuid_Nil"
    by code_simp+
  ultimately show ?thesis
    using create_order_idempotent [OF r, of "sample_request\<lparr>co_SlotIndex := 9\<rparr>"] by auto
qed

text \<open>
  An idempotency key belongs to one machine for ever. When an order of another machine carries the
  key, the request of a machine that has no order under it fails and changes nothing, however often it
  is repeated: the lookup is per machine, the unique index is over all machines.
\<close>

theorem order_key_of_other_machine_blocks:
  assumes "order_of_key (co_MachineID inp) (pgTextOrEmpty (co_IdempotencyKey inp)) s = None"
    and "other \<in> set (db_orders s)" "o_IdempotencyKey other = Some (TrimSpace (co_IdempotencyKey inp))"
    and "TrimSpace (co_IdempotencyKey inp) \<noteq> []"
  shows "\<exists>e. CreateOrderWithVendSession inp s = (Inl e, s)"
proof -
  have "find_or_insert_order inp s \<noteq> (Inr (ord, b), t)" for ord b t
  proof
    assume f: "find_or_insert_order inp s = (Inr (ord, b), t)"
    from find_or_insert_run [OF this] assms(1) have b: "\<not> list_ex (order_clash ord) (db_orders s)"
      "o_IdempotencyKey ord = pgTextOrEmpty (co_IdempotencyKey inp)" by (auto split: if_splits)
    with assms(2-4) show False by (auto simp: list_ex_iff order_clash_def pgTextOrEmpty_def)
  qed
  then have "create_order_tx inp s \<noteq> (Inr r, t)" for r t
    unfolding create_order_tx_def by (auto simp: bnd_Inr simp del: maybe_first)
  then have "\<exists>e t. create_order_tx inp s = (Inl e, t)"
    by (metis old.prod.exhaust old.sum.exhaust)
  moreover have "co_IdempotencyKey inp \<noteq> []" using assms(4) by (metis TrimSpace_Nil)
  ultimately show ?thesis by (auto simp: CreateOrderWithVendSession_def tx_def)
qed

theorem order_key_of_other_machine_blocks_witness:
  "\<exists>e. CreateOrderWithVendSession (sample_request\<lparr>co_MachineID := UUID ''m2'', co_IdempotencyKey := ''k1''\<rparr>) sample_db
    = (Inl e, sample_db)"
proof (rule order_key_of_other_machine_blocks)
  show "order_of_key (co_MachineID (sample_request\<lparr>co_MachineID := UUID ''m2'', co_IdempotencyKey := ''k1''\<rparr>))
    (pgTextOrEmpty (co_IdempotencyKey (sample_request\<lparr>co_MachineID := UUID ''m2'', co_IdempotencyKey := ''k1''\<rparr>))) sample_db = None"
    by code_simp
  show "sample_order \<in> set (db_orders sample_db)" by (simp add: sample_db_def)
  show "o_IdempotencyKey sample_order
    = Some (TrimSpace (co_IdempotencyKey (sample_request\<lparr>co_MachineID := UUID ''m2'', co_IdempotencyKey := ''k1''\<rparr>)))"
    by code_simp
  show "TrimSpace (co_IdempotencyKey (sample_request\<lparr>co_MachineID := UUID ''m2'', co_IdempotencyKey := ''k1''\<rparr>)) \<noteq> []"
    by code_simp
qed

section \<open>Payments\<close>

lemma insert_event_row:
  assumes "q_InsertOutboxEvent topic et payload ty aid idem sim run scen s = (Inr ev, t)"
  shows "db_outbox t = db_outbox s @ [ev] \<and> db_payments t = db_payments s \<and> \<not> outbox_key_used topic idem s
    \<and> ob_Topic ev = topic \<and> ob_IdempotencyKey ev = idem"
  using assms unfolding q_InsertOutboxEvent_def
  by (auto simp: bnd_def next_serial_def Let_def outbox_row_def split: if_splits)

lemma insert_payment_row:
  assumes "q_InsertPayment row s = (Inr p, t)"
  shows "db_payments t = db_payments s @ [p] \<and> db_outbox t = db_outbox s \<and> p_AttemptSeq p = p_AttemptSeq row
    \<and> p_OrderID p = p_OrderID row \<and> p_IdempotencyKey p = p_IdempotencyKey row \<and> payment_checks p
    \<and> p_State p = p_State row \<and> p_AmountMinor p = p_AmountMinor row"
  using assms unfolding q_InsertPayment_def
  by (auto simp: bnd_def gen_uuid_def Let_def payment_checks_def split: if_splits)

lemma bind_attempt_keeps:
  "keeps db_payments (bind_attempt inp i)" "keeps db_outbox (bind_attempt inp i)"
  unfolding bind_attempt_def q_InsertPaymentAttempt_def Let_def
  by (intro keeps_intros; simp)+

lemma max_attempt_bound: "p \<in> set ps \<Longrightarrow> p_OrderID p = oid \<Longrightarrow> p_AttemptSeq p \<le> max_attempt oid ps"
  by (induction ps) (auto simp: max_attempt_def)

definition payment_of_key :: "uuid \<Rightarrow> string option \<Rightarrow> db \<Rightarrow> payment option" where
  "payment_of_key oid key s = find (\<lambda>p. p_OrderID p = oid \<and> key \<noteq> None \<and> p_IdempotencyKey p = key) (db_payments s)"

definition event_of_key :: "string \<Rightarrow> string option \<Rightarrow> db \<Rightarrow> outbox_event option" where
  "event_of_key topic key s = find (\<lambda>e. ob_Topic e = topic \<and> key \<noteq> None \<and> ob_IdempotencyKey e = key) (db_outbox s)"

lemma maybe_payment_lookups [simp]:
  "maybe_row (q_GetPaymentByOrderAndIdempotencyKey oid key) s = (Inr (payment_of_key oid key s), s)"
  "maybe_row (q_GetOutboxByTopicAndIdempotency topic key) s = (Inr (event_of_key topic key s), s)"
  by (simp_all add: q_GetPaymentByOrderAndIdempotencyKey_def q_GetOutboxByTopicAndIdempotency_def
      payment_of_key_def event_of_key_def)

lemma allocate_run:
  assumes "allocatePaymentAttemptSeq inp s = (Inr n, t)"
  shows "t = s \<and> n = max_attempt (po_OrderID inp) (db_payments s) + 1 \<and> n \<ge> 1
    \<and> find (\<lambda>r. o_ID r = po_OrderID inp) (db_orders s) \<noteq> None"
  using assms
  by (auto simp: allocatePaymentAttemptSeq_def q_LockOrderForPaymentAttempt_def
      q_NextPaymentAttemptSeqForOrder_def bnd_Inr split: option.splits if_splits)

text \<open>The two ways a payment request succeeds.\<close>

lemma create_payment_cases:
  assumes "CreatePaymentWithOutbox inp s = (Inr r, t)"
  obtains (replay) "por_Replay r" "db_payments t = db_payments s"
      "payment_of_key (po_OrderID inp) (pgTextOrEmpty (po_IdempotencyKey inp)) s = Some (por_Payment r)"
      "t = s \<and> event_of_key (po_OutboxTopic inp) (pgTextOrEmpty (po_OutboxIdempotencyKey inp)) s = Some (por_Outbox r)
       \<or> event_of_key (po_OutboxTopic inp) (pgTextOrEmpty (po_OutboxIdempotencyKey inp)) s = None
         \<and> db_outbox t = db_outbox s @ [por_Outbox r]
         \<and> ob_Topic (por_Outbox r) = po_OutboxTopic inp
         \<and> ob_IdempotencyKey (por_Outbox r) = pgTextOrEmpty (po_OutboxIdempotencyKey inp)"
    | (fresh) n s1 s2 s3 where "\<not> por_Replay r"
      "payment_of_key (po_OrderID inp) (pgTextOrEmpty (po_IdempotencyKey inp)) s = None"
      "allocatePaymentAttemptSeq inp s = (Inr n, s1)"
      "q_InsertPayment (new_payment inp n) s1 = (Inr (por_Payment r), s2)"
      "payment_event inp s2 = (Inr (por_Outbox r), s3)"
      "bind_attempt inp (p_ID (por_Payment r)) s3 = (Inr (), t)"
proof -
  have run: "create_payment_tx inp s = (Inr r, t)"
    using assms by (auto simp: CreatePaymentWithOutbox_def tx_Inr split: if_splits)
  show thesis
  proof (cases "payment_of_key (po_OrderID inp) (pgTextOrEmpty (po_IdempotencyKey inp)) s")
    case None
    with run show thesis
      by (auto simp: create_payment_tx_def bnd_Inr seq_Inr intro: fresh)
  next
    case (Some pay)
    with run have rep: "payment_replay inp pay s = (Inr r, t)" by (simp add: create_payment_tx_def)
    show thesis
    proof (cases "event_of_key (po_OutboxTopic inp) (pgTextOrEmpty (po_OutboxIdempotencyKey inp)) s")
      case None
      with rep obtain ev where "payment_event inp s = (Inr ev, t)"
        and "r = \<lparr>por_Payment = pay, por_Outbox = ev, por_Replay = True\<rparr>"
        by (auto simp: payment_replay_def bnd_Inr)
      with insert_event_row [of "po_OutboxTopic inp"] Some None show thesis
        by (intro replay) (auto simp: payment_event_def)
    next
      case (Some ev)
      with rep \<open>payment_of_key _ _ s = Some pay\<close> show thesis
        by (intro replay) (auto simp: payment_replay_def)
    qed
  qed
qed

text \<open>
  A payment is stored together with its outbox event or not at all. A request that fails changes
  nothing; a replay adds no payment; a fresh one adds exactly one payment, of the requested amount and
  state, and exactly one outbox event, and numbers the attempt one above every earlier attempt of the
  order.
\<close>

theorem create_payment_atomic:
  assumes "CreatePaymentWithOutbox inp s = (x, t)"
  shows "case x of
      Inl e \<Rightarrow> t = s
    | Inr r \<Rightarrow>
        if por_Replay r then db_payments t = db_payments s
        else db_payments t = db_payments s @ [por_Payment r] \<and> db_outbox t = db_outbox s @ [por_Outbox r]
          \<and> p_OrderID (por_Payment r) = po_OrderID inp \<and> p_State (por_Payment r) = po_PaymentState inp
          \<and> p_AmountMinor (por_Payment r) = po_AmountMinor inp
          \<and> p_AttemptSeq (por_Payment r) = max_attempt (po_OrderID inp) (db_payments s) + 1
          \<and> (\<forall>p \<in> set (db_payments s). p_OrderID p = po_OrderID inp \<longrightarrow> p_AttemptSeq p < p_AttemptSeq (por_Payment r))"
proof (cases x)
  case (Inl e)
  with assms show ?thesis by (auto simp: CreatePaymentWithOutbox_def tx_Inl split: if_splits)
next
  case (Inr r)
  with assms have run: "CreatePaymentWithOutbox inp s = (Inr r, t)" by simp
  then show ?thesis
  proof (cases rule: create_payment_cases)
    case replay
    with Inr show ?thesis by simp
  next
    case (fresh n s1 s2 s3)
    note al = allocate_run [OF fresh(3)] and pay = insert_payment_row [OF fresh(4)]
      and ev = insert_event_row [OF fresh(5) [unfolded payment_event_def]]
      and b = bind_attempt_keeps [THEN keeps_run, OF fresh(6)]
    have "p_AttemptSeq p < n" if "p \<in> set (db_payments s)" "p_OrderID p = po_OrderID inp" for p
      using max_attempt_bound [OF that] al by simp
    with fresh(1) al pay ev b Inr show ?thesis by (auto simp: new_payment_def)
  qed
qed

text \<open>
  A payment request is idempotent. After a request that was answered, a request for the same order
  with the same payment key, outbox topic and outbox key, whatever amount or provider it names, gets the
  first payment and its event, marked as a replay, and leaves the database as it is.
\<close>

theorem create_payment_idempotent:
  assumes "CreatePaymentWithOutbox inp s = (Inr r, t)"
    and "TrimSpace (po_IdempotencyKey inp) \<noteq> []" "TrimSpace (po_OutboxIdempotencyKey inp) \<noteq> []"
    and "po_OrderID inp' = po_OrderID inp" "po_IdempotencyKey inp' = po_IdempotencyKey inp"
    and "po_OutboxTopic inp' = po_OutboxTopic inp" "po_OutboxIdempotencyKey inp' = po_OutboxIdempotencyKey inp"
  shows "CreatePaymentWithOutbox inp' t = (Inr (r\<lparr>por_Replay := True\<rparr>), t)"
proof -
  let ?pk = "pgTextOrEmpty (po_IdempotencyKey inp)" and ?ok = "pgTextOrEmpty (po_OutboxIdempotencyKey inp)"
  have keys: "?pk \<noteq> None" "?ok \<noteq> None" using assms(2,3) by (simp_all add: pgTextOrEmpty_def)
  have ev_used: "event_of_key (po_OutboxTopic inp) ?ok u = None" if "\<not> outbox_key_used (po_OutboxTopic inp) ?ok u" for u
    using that assms(3) by (auto simp: event_of_key_def outbox_key_used_def pgTextOrEmpty_def find_None_iff list_ex_iff)
  have known: "payment_of_key (po_OrderID inp) ?pk t = Some (por_Payment r)
    \<and> event_of_key (po_OutboxTopic inp) ?ok t = Some (por_Outbox r)"
    using assms(1)
  proof (cases rule: create_payment_cases)
    case replay
    with keys show ?thesis by (auto simp: payment_of_key_def event_of_key_def find_append)
  next
    case (fresh n s1 s2 s3)
    note al = allocate_run [OF fresh(3)] and pay = insert_payment_row [OF fresh(4)]
      and ev = insert_event_row [OF fresh(5) [unfolded payment_event_def]]
      and b = bind_attempt_keeps [THEN keeps_run, OF fresh(6)]
    have "payment_of_key (po_OrderID inp) ?pk t = Some (por_Payment r)"
      using fresh(2) al pay ev b keys by (simp add: payment_of_key_def find_append new_payment_def)
    moreover have "event_of_key (po_OutboxTopic inp) ?ok t = Some (por_Outbox r)"
      using ev ev_used [of s2] pay b keys by (simp add: event_of_key_def find_append)
    ultimately show ?thesis ..
  qed
  then have "create_payment_tx inp' t = (Inr (r\<lparr>por_Replay := True\<rparr>), t)"
    using assms(4-7) by (simp add: create_payment_tx_def payment_replay_def)
  moreover have "po_IdempotencyKey inp' \<noteq> []" "po_OutboxIdempotencyKey inp' \<noteq> []"
    using assms(2,3,5,7) by (metis TrimSpace_Nil)+
  ultimately show ?thesis by (simp add: CreatePaymentWithOutbox_def tx_def)
qed

definition sample_pay_request :: payment_outbox_input where
  "sample_pay_request =
     \<lparr>po_OrderID = UUID ''o1'', po_Provider = ''vnpay'', po_PaymentState = ''created'', po_AmountMinor = 500,
      po_Currency = ''VND'', po_IdempotencyKey = ''pk2'', po_OutboxTopic = ''commerce.payments'',
      po_OutboxEventType = ''payment.created'', po_OutboxPayload = NoBytes, po_OutboxAggregateType = ''payment'',
      po_OutboxAggregateID = UUID ''o1'', po_OutboxIdempotencyKey = ''ob2'', po_Simulated = False,
      po_SimulationRunID = [], po_SimulationScenario = [], po_FakeBill = False, po_FakeBoard = False,
      po_AttemptSeq = 0, po_SupersedesPaymentID = None, po_BindAttemptState = ''created'',
      po_BindProviderReference = [], po_BindPayload = NoBytes\<rparr>"

theorem create_payment_atomic_witness:
  "\<exists>r. fst (CreatePaymentWithOutbox sample_pay_request sample_db) = Inr r \<and> \<not> por_Replay r
    \<and> db_outbox (snd (CreatePaymentWithOutbox sample_pay_request sample_db)) = [por_Outbox r]
    \<and> p_AttemptSeq (por_Payment r) = 2"
proof -
  have ok: "\<not> isl (fst (CreatePaymentWithOutbox sample_pay_request sample_db))"
    and fresh: "\<not> por_Replay (projr (fst (CreatePaymentWithOutbox sample_pay_request sample_db)))" by code_simp+
  then obtain r where r: "fst (CreatePaymentWithOutbox sample_pay_request sample_db) = Inr r" "\<not> por_Replay r"
    by (metis sum.collapse(2))
  have "max_attempt (po_OrderID sample_pay_request) (db_payments sample_db) = 1" by code_simp
  with create_payment_atomic [of sample_pay_request sample_db, OF prod.collapse [symmetric]] r show ?thesis
    by (auto simp: sample_db_def)
qed

theorem create_payment_idempotent_witness:
  "\<exists>r. CreatePaymentWithOutbox (sample_pay_request\<lparr>po_AmountMinor := 900\<rparr>)
      (snd (CreatePaymentWithOutbox sample_pay_request sample_db))
    = (Inr (r\<lparr>por_Replay := True\<rparr>), snd (CreatePaymentWithOutbox sample_pay_request sample_db))"
proof -
  have "\<not> isl (fst (CreatePaymentWithOutbox sample_pay_request sample_db))" by code_simp
  then obtain r where r: "CreatePaymentWithOutbox sample_pay_request sample_db
    = (Inr r, snd (CreatePaymentWithOutbox sample_pay_request sample_db))"
    by (metis prod.collapse sum.collapse(2))
  have "TrimSpace (po_IdempotencyKey sample_pay_request) \<noteq> []" "TrimSpace (po_OutboxIdempotencyKey sample_pay_request) \<noteq> []"
    by code_simp+
  with create_payment_idempotent [OF r, of "sample_pay_request\<lparr>po_AmountMinor := 900\<rparr>"] show ?thesis by auto
qed

end
