(* ===== verification/Commerce_Service.thy ===== *)
theory Commerce_Service
  imports Order_Workflow Json_Sanitize
begin

text \<open>
  The commerce service, \<open>internal/app/commerce/service.go\<close> and \<open>financial_correctness.go\<close>, on the
  store of the other theories: which payment speaks for an order, the claim of the winning payment,
  the moves of orders and vend lines, refunds, and the views that machines poll. A service is the
  record of what it was built with. A nil dependency is a false flag; where the code checks for it the
  operation fails with \<open>ErrNotConfigured\<close>, where it does not the call of a method of nil panics,
  which is the error \<open>nil_panic\<close>. Metrics and log lines are left out. The audit record of a refund and
  the start of the vend failure workflow go to services whose errors the code drops: the record is
  appended to \<open>db_audit\<close>, the start request is part of the result.
\<close>

section \<open>The service\<close>

record service =
  sv_life :: bool
  sv_payments :: bool
  sv_financial :: bool
  sv_winnerArbitration :: bool
  sv_audit :: bool
  sv_workflow :: bool
  sv_forensic :: bool
  sv_orders :: bool
  sv_saleLines :: bool
  sv_layoutMirror :: bool

definition nil_panic :: go_err where
  "nil_panic = GoErr ErrOther ''invalid memory address or nil pointer dereference''"

definition configured :: "bool \<Rightarrow> 'a q \<Rightarrow> 'a q" where
  "configured b m = (if b then m else raise (Err ErrNotConfigured))"

definition order_id_required :: go_err where
  "order_id_required = GoErr ErrInvalidArgument ''order_id must be set''"

section \<open>Payments of an order\<close>

definition normalizeConsentSource :: "string \<Rightarrow> string" where
  "normalizeConsentSource s =
     (let c = TrimSpace (ToLower s)
      in if c \<in> {''explicit_confirm'', ''implicit_post_order'', ''operator'', ''unknown'', ''wallet_auto_settlement''}
         then TrimSpace (ToLower s) else ''unknown'')"

definition normalizeChangeOutcome :: "string \<Rightarrow> string" where
  "normalizeChangeOutcome s =
     (let c = TrimSpace (ToLower s)
      in if c \<in> {''delivered'', ''delivered_after_fault'', ''not_delivered'', ''ambiguous'', ''none'', []}
         then (if TrimSpace s = [] then ''none'' else TrimSpace (ToLower s)) else ''ambiguous'')"

definition resolveAuthoritativePayment :: "service \<Rightarrow> uuid \<Rightarrow> payment q" where
  "resolveAuthoritativePayment sv orderID =
     (if \<not> sv_financial sv then configured (sv_life sv) (GetLatestPaymentForOrder orderID)
      else bnd (attempt (GetWinningPaymentForOrder orderID)) (\<lambda>r. case r of
          Inr pay \<Rightarrow> ret pay
        | Inl e \<Rightarrow>
            if \<not> errors_Is e ErrNotFound then raise e
            else bnd (ListPaymentsForOrder orderID) (\<lambda>all.
              case oldestCapturedOrPartiallyRefundedPayment all of
                Some captured \<Rightarrow> ret captured
              | None \<Rightarrow> if sv_life sv then GetLatestPaymentForOrder orderID else raise (Err ErrNotFound))))"

record arbitration_result =
  ar_Won :: bool
  ar_Order :: "order option"
  ar_ExistingWinner :: "uuid option"

definition losing_case :: "uuid \<Rightarrow> uuid \<Rightarrow> reconciliation_case_input" where
  "losing_case paymentID orderID =
     \<lparr>rc_CaseType = ''late_capture_refund_required'', rc_Severity = ''critical'', rc_OrderID = Some orderID,
      rc_PaymentID = Some paymentID, rc_VendSessionID = None, rc_RefundID = None, rc_MachineID = None,
      rc_Provider = None, rc_ProviderEventID = None,
      rc_CorrelationKey = ''financial_correctness:losing_capture:'' @ uuid_String paymentID,
      rc_Reason = ''Payment captured but order already has a winning payment'', rc_Metadata = JObj []\<rparr>"

definition AttemptWinningPaymentClaim :: "service \<Rightarrow> uuid \<Rightarrow> uuid \<Rightarrow> arbitration_result q" where
  "AttemptWinningPaymentClaim sv paymentID orderID =
     configured (sv_financial sv)
       (if paymentID = uuid_Nil \<or> orderID = uuid_Nil
        then raise (GoErr ErrInvalidArgument ''payment_id and order_id required'')
        else bnd (ClaimWinningPayment paymentID orderID) (\<lambda>(ord, won).
          if won then seq (UpdatePaymentOutcome paymentID ''winner'')
              (ret \<lparr>ar_Won = True, ar_Order = Some ord, ar_ExistingWinner = None\<rparr>)
          else if \<not> sv_life sv then raise nil_panic
          else bnd (attempt (GetOrderByID orderID)) (\<lambda>g.
            seq (UpdatePaymentOutcome paymentID ''refund_required'')
              (seq (attempt (UpsertReconciliationCase (losing_case paymentID orderID)))
                (ret (case g of
                    Inr ord2 \<Rightarrow> \<lparr>ar_Won = False, ar_Order = Some ord2, ar_ExistingWinner = o_WinningPaymentID ord2\<rparr>
                  | Inl e \<Rightarrow> \<lparr>ar_Won = False, ar_Order = None, ar_ExistingWinner = None\<rparr>))))))"

definition StartPaymentWithOutbox :: "service \<Rightarrow> start_payment_input \<Rightarrow> payment_outbox_result q" where
  "StartPaymentWithOutbox sv inp =
     configured (sv_payments sv)
       (bnd (lift_res (validateStartPayment inp)) (\<lambda>_.
        seq (whenM (sv_life sv \<and> \<not> sp_SkipOrderLookup inp) (seq (GetOrderByID (po_OrderID inp)) (ret ())))
          (CreatePaymentWithOutbox
            ((payment_outbox_input.truncate inp)
              \<lparr>po_Provider := TrimSpace (po_Provider inp), po_Currency := ToUpper (TrimSpace (po_Currency inp)),
               po_IdempotencyKey := TrimSpace (po_IdempotencyKey inp), po_OutboxTopic := TrimSpace (po_OutboxTopic inp),
               po_OutboxEventType := TrimSpace (po_OutboxEventType inp),
               po_OutboxAggregateType := TrimSpace (po_OutboxAggregateType inp),
               po_OutboxIdempotencyKey := TrimSpace (po_OutboxIdempotencyKey inp),
               po_SimulationRunID := TrimSpace (po_SimulationRunID inp),
               po_SimulationScenario := TrimSpace (po_SimulationScenario inp)\<rparr>))))"

definition BindPaymentAttempt :: "service \<Rightarrow> insert_payment_attempt_params \<Rightarrow> payment_attempt_view q" where
  "BindPaymentAttempt sv inp =
     configured (sv_life sv)
       (if ia_PaymentID inp = uuid_Nil then raise (GoErr ErrInvalidArgument ''payment_id must be set'')
        else if TrimSpace (ia_State inp) = [] then raise (GoErr ErrInvalidArgument ''state is required'')
        else InsertPaymentAttempt inp)"

section \<open>Moves of the order\<close>

definition own_company :: "uuid \<Rightarrow> unit q" where
  "own_company companyID = guard (companyID = uuid_Nil) (Err ErrOrgMismatch)"

definition MarkOrderPaidAfterPaymentCapture :: "service \<Rightarrow> uuid \<Rightarrow> uuid \<Rightarrow> order q" where
  "MarkOrderPaidAfterPaymentCapture sv companyID orderID =
     configured (sv_life sv)
       (if orderID = uuid_Nil then raise order_id_required
        else bnd (GetOrderByID orderID) (\<lambda>ord.
          seq (own_company companyID)
          (bnd (resolveAuthoritativePayment sv orderID) (\<lambda>pay.
            if p_State pay \<noteq> ''captured'' then raise (Err ErrPaymentNotSettled)
            else if o_Status ord \<in> {''paid'', ''vending'', ''completed''} then ret ord
            else if o_Status ord \<noteq> ''created'' \<and> o_Status ord \<noteq> ''quoted''
            then raise (GoErr ErrIllegalTransition ''order cannot move to paid from current status'')
            else if sv_winnerArbitration sv \<and> sv_financial sv \<and> o_WinningPaymentID ord = None
            then bnd (AttemptWinningPaymentClaim sv (p_ID pay) orderID) (\<lambda>arb.
              case (ar_Won arb, ar_Order arb) of
                (True, Some o') \<Rightarrow> ret o'
              | _ \<Rightarrow> UpdateOrderStatus orderID companyID ''paid'')
            else UpdateOrderStatus orderID companyID ''paid''))))"

definition lookupVendSession :: "uuid \<Rightarrow> int \<Rightarrow> int \<Rightarrow> vend_session q" where
  "lookupVendSession orderID slotIndex lineSequence =
     (if lineSequence > 0 then GetVendSessionByOrderAndLineSequence orderID lineSequence
      else GetVendSessionByOrderAndSlot orderID slotIndex)"

definition settled_for_vend :: "service \<Rightarrow> uuid \<Rightarrow> unit q" where
  "settled_for_vend sv orderID =
     bnd (attempt (resolveAuthoritativePayment sv orderID)) (\<lambda>r. case r of
         Inl e \<Rightarrow> raise (if errors_Is e ErrNotFound then Err ErrPaymentNotSettled else e)
       | Inr pay \<Rightarrow> guard (p_State pay = ''captured'' \<or> p_State pay = ''partially_refunded'') (Err ErrPaymentNotSettled))"

definition AdvanceVend :: "service \<Rightarrow> advance_vend_input \<Rightarrow> vend_session q" where
  "AdvanceVend sv inp =
     configured (sv_life sv)
       (bnd (lift_res (validateAdvanceVend inp)) (\<lambda>_.
        bnd (GetOrderByID (av_OrderID inp)) (\<lambda>ord.
        bnd (lookupVendSession (av_OrderID inp) (av_SlotIndex inp) (av_LineSequence inp)) (\<lambda>v.
        if av_ToState inp \<notin> set vendStates then raise (GoErr ErrInvalidArgument ''invalid vend target state'')
        else if av_ToState inp \<notin> set (vendTransitions (v_State v)) then raise (Err ErrIllegalTransition)
        else seq (whenM (av_ToState inp = ''in_progress'') (settled_for_vend sv (av_OrderID inp)))
          (bnd (UpdateVendSessionState
                 \<lparr>uv_OrderID = av_OrderID inp, uv_SlotIndex = av_SlotIndex inp, uv_LineSequence = av_LineSequence inp,
                  uv_ToState = av_ToState inp, uv_FailureReason = av_FailureReason inp\<rparr>) (\<lambda>updated.
           seq (whenM (av_ToState inp = ''in_progress'' \<and> o_Status ord = ''paid'')
                 (seq (UpdateOrderStatus (av_OrderID inp) uuid_Nil ''vending'') (ret ())))
             (ret updated)))))))"

record vend_failure_start =
  vf_OrderID :: uuid
  vf_PaymentID :: uuid
  vf_VendID :: uuid
  vf_SlotIndex :: int
  vf_FailureReason :: string
  vf_ObservedAt :: time

definition inventory_dedupe_key :: "finalize_after_vend_input \<Rightarrow> string" where
  "inventory_dedupe_key inp =
     (if TrimSpace (fv_InventoryDedupeKey inp) \<noteq> [] then TrimSpace (fv_InventoryDedupeKey inp)
      else if TrimSpace (fv_ClientWriteIdempotencyKey inp) \<noteq> []
      then TrimSpace (fv_ClientWriteIdempotencyKey inp) @ '':vend_sale_inventory''
      else ''commerce_vend_sale:'' @ uuid_String uuid_Nil @ ''|'' @ uuid_String (fv_OrderID inp) @ ''|'' @ Sprintd (fv_SlotIndex inp)
        @ (if fv_LineSequence inp > 0 then ''|'' @ Sprintd (fv_LineSequence inp) else []))"

definition success_request :: "finalize_after_vend_input \<Rightarrow> fulfill_successful_vend_input" where
  "success_request inp =
     \<lparr>fs_OrderID = fv_OrderID inp, fs_SlotIndex = fv_SlotIndex inp, fs_LineSequence = fv_LineSequence inp,
      fs_InventoryDedupeKey = inventory_dedupe_key inp, fs_CorrelationID = fv_CorrelationID inp,
      fs_Evidence = fv_Evidence inp, fs_VerificationStatus = fv_VerificationStatus inp,
      fs_OutboxTopic = fv_OutboxTopic inp, fs_OutboxEventType = fv_OutboxEventType inp,
      fs_OutboxAggregateType = fv_OutboxAggregateType inp, fs_OutboxIdempotencyKey = fv_OutboxIdempotencyKey inp,
      fs_ReconciliationEventType = fv_ReconciliationEventType inp, fs_Simulated = False, fs_SimulationRunID = [],
      fs_SimulationScenario = []\<rparr>"

definition failure_request :: "finalize_after_vend_input \<Rightarrow> fulfill_failed_vend_input" where
  "failure_request inp =
     \<lparr>ff_OrderID = fv_OrderID inp, ff_SlotIndex = fv_SlotIndex inp, ff_LineSequence = fv_LineSequence inp,
      ff_FailureReason = fv_FailureReason inp, ff_Evidence = fv_Evidence inp,
      ff_VerificationStatus = fv_VerificationStatus inp, ff_OutboxTopic = fv_OutboxTopic inp,
      ff_OutboxEventType = fv_OutboxEventType inp, ff_OutboxAggregateType = fv_OutboxAggregateType inp,
      ff_OutboxIdempotencyKey = fv_OutboxIdempotencyKey inp,
      ff_ReconciliationEventType = fv_ReconciliationEventType inp, ff_RefundRequired = fv_RefundRequired inp,
      ff_LocalCashRefundRequired = fv_LocalCashRefundRequired inp, ff_Simulated = False, ff_SimulationRunID = [],
      ff_SimulationScenario = []\<rparr>"

definition finalize_success :: "finalize_after_vend_input \<Rightarrow> (finalize_outcome \<times> vend_failure_start option) q" where
  "finalize_success inp =
     bnd (FulfillSuccessfulVendAtomically (success_request inp)) (\<lambda>res.
       ret (\<lparr>fo_Order = fsr_Order res, fo_Vend = fsr_Vend res, fo_OrderVendReplay = fsr_OrderVendReplay res,
             fo_InventoryReplay = fsr_InventoryReplay res\<rparr>, None))"

definition failure_follow_up :: "service \<Rightarrow> finalize_after_vend_input \<Rightarrow> fulfill_failed_vend_result \<Rightarrow> vend_failure_start option q" where
  "failure_follow_up sv inp fr =
     bnd (attempt (resolveAuthoritativePayment sv (fv_OrderID inp))) (\<lambda>r. case r of
         Inl e \<Rightarrow> if errors_Is e ErrNotFound then ret None else raise e
       | Inr pay \<Rightarrow> bnd (reads db_now) (\<lambda>now.
           ret (if \<not> ffr_Replay fr \<and> (p_State pay = ''captured'' \<or> p_State pay = ''partially_refunded'') \<and> sv_workflow sv
                then Some \<lparr>vf_OrderID = fv_OrderID inp, vf_PaymentID = p_ID pay, vf_VendID = v_ID (ffr_Vend fr),
                           vf_SlotIndex = fv_SlotIndex inp, vf_FailureReason = derefStr (fv_FailureReason inp),
                           vf_ObservedAt = now\<rparr>
                else None)))"

definition finalize_failure :: "service \<Rightarrow> finalize_after_vend_input \<Rightarrow> (finalize_outcome \<times> vend_failure_start option) q" where
  "finalize_failure sv inp =
     bnd (FulfillFailedVendAtomically (failure_request inp)) (\<lambda>fr.
     bnd (failure_follow_up sv inp fr) (\<lambda>start.
       ret (\<lparr>fo_Order = ffr_Order fr, fo_Vend = ffr_Vend fr, fo_OrderVendReplay = ffr_Replay fr,
             fo_InventoryReplay = False\<rparr>, start)))"

definition FinalizeOrderAfterVend ::
  "service \<Rightarrow> finalize_after_vend_input \<Rightarrow> (finalize_outcome \<times> vend_failure_start option) q" where
  "FinalizeOrderAfterVend sv inp =
     configured (sv_life sv)
       (if fv_OrderID inp = uuid_Nil then raise order_id_required
        else if fv_TerminalVendState inp \<noteq> ''success'' \<and> fv_TerminalVendState inp \<noteq> ''failed''
        then raise (GoErr ErrInvalidArgument ''terminal vend state must be success or failed'')
        else seq (GetOrderByID (fv_OrderID inp))
          (bnd (lookupVendSession (fv_OrderID inp) (fv_SlotIndex inp) (fv_LineSequence inp)) (\<lambda>v.
            if EqualFold (fv_TerminalVendState inp) ''success'' then finalize_success inp
            else if v_State v = ''failed''
            then bnd (GetOrderByID (fv_OrderID inp)) (\<lambda>o2.
              ret (\<lparr>fo_Order = o2, fo_Vend = v, fo_OrderVendReplay = True, fo_InventoryReplay = False\<rparr>, None))
            else if fv_TerminalVendState inp \<notin> set (vendTransitions (v_State v)) then raise (Err ErrIllegalTransition)
            else finalize_failure sv inp)))"

definition CancelOrder :: "service \<Rightarrow> uuid \<Rightarrow> uuid \<Rightarrow> order q" where
  "CancelOrder sv companyID orderID =
     configured (sv_life sv)
       (if orderID = uuid_Nil then raise order_id_required
        else bnd (GetOrderByID orderID) (\<lambda>ord.
          seq (own_company companyID)
          (if o_Status ord \<noteq> ''created'' \<and> o_Status ord \<noteq> ''quoted'' then raise (Err ErrCancelNotAllowed)
           else bnd (attempt (resolveAuthoritativePayment sv orderID)) (\<lambda>r. case r of
               Inr pay \<Rightarrow> if p_State pay = ''captured'' \<or> p_State pay = ''partially_refunded''
                          then raise (Err ErrCancelNotAllowed) else UpdateOrderStatus orderID companyID ''cancelled''
             | Inl e \<Rightarrow> if errors_Is e ErrNotFound then UpdateOrderStatus orderID companyID ''cancelled'' else raise e))))"

definition MarkOrderUnknown :: "service \<Rightarrow> uuid \<Rightarrow> uuid \<Rightarrow> order q" where
  "MarkOrderUnknown sv companyID orderID =
     configured (sv_life sv)
       (if orderID = uuid_Nil then raise order_id_required
        else bnd (GetOrderByID orderID) (\<lambda>ord.
          seq (own_company companyID)
          (let st = ToLower (TrimSpace (o_Status ord))
           in if st = ''unknown'' then ret ord
              else if orderStatusTerminal st then raise (Err ErrIllegalTransition)
              else UpdateOrderStatus orderID companyID ''unknown'')))"

definition EnsureOrderCompany :: "service \<Rightarrow> uuid \<Rightarrow> uuid \<Rightarrow> unit q" where
  "EnsureOrderCompany sv companyID orderID =
     configured (sv_life sv) (seq (GetOrderByID orderID) (own_company companyID))"

record principal =
  pr_Roles :: "string list"
  pr_MachineIDs :: "uuid list"

definition HasRole :: "principal \<Rightarrow> string \<Rightarrow> bool" where
  "HasRole p want \<longleftrightarrow> list_ex (\<lambda>r. EqualFold (TrimSpace r) (TrimSpace want)) (pr_Roles p)"

definition AllowsMachine :: "principal \<Rightarrow> uuid \<Rightarrow> bool" where
  "AllowsMachine p machineID \<longleftrightarrow> machineID \<noteq> uuid_Nil \<and> list_ex (\<lambda>m. m = machineID) (pr_MachineIDs p)"

definition EnsureCommerceCallerOrderAccess :: "service \<Rightarrow> uuid \<Rightarrow> uuid \<Rightarrow> principal \<Rightarrow> unit q" where
  "EnsureCommerceCallerOrderAccess sv companyID orderID p =
     seq (EnsureOrderCompany sv companyID orderID)
       (if \<not> HasRole p ''machine'' then ret ()
        else bnd (GetOrderByID orderID) (\<lambda>ord. guard (AllowsMachine p (o_MachineID ord)) (Err ErrOrgMismatch)))"

section \<open>Views\<close>

definition with_payment :: "service \<Rightarrow> uuid \<Rightarrow> order \<Rightarrow> vend_session option \<Rightarrow> checkout_status_view q" where
  "with_payment sv orderID ord v =
     bnd (attempt (resolveAuthoritativePayment sv orderID)) (\<lambda>r. case r of
         Inr pay \<Rightarrow> ret \<lparr>cs_Order = ord, cs_Vend = v, cs_Payment = Some pay\<rparr>
       | Inl e \<Rightarrow> if errors_Is e ErrNotFound then ret \<lparr>cs_Order = ord, cs_Vend = v, cs_Payment = None\<rparr>
                  else raise e)"

definition getCheckoutStatus :: "service \<Rightarrow> uuid \<Rightarrow> uuid \<Rightarrow> int \<Rightarrow> int \<Rightarrow> checkout_status_view q" where
  "getCheckoutStatus sv companyID orderID slotIndex lineSequence =
     configured (sv_life sv)
       (bnd (GetOrderByID orderID) (\<lambda>ord.
        seq (own_company companyID)
        (bnd (lookupVendSession orderID slotIndex lineSequence) (\<lambda>v. with_payment sv orderID ord (Some v)))))"

definition GetCheckoutStatus :: "service \<Rightarrow> uuid \<Rightarrow> uuid \<Rightarrow> int \<Rightarrow> checkout_status_view q" where
  "GetCheckoutStatus sv companyID orderID slotIndex = getCheckoutStatus sv companyID orderID slotIndex 0"

definition GetCheckoutStatusByLineSequence :: "service \<Rightarrow> uuid \<Rightarrow> uuid \<Rightarrow> int \<Rightarrow> checkout_status_view q" where
  "GetCheckoutStatusByLineSequence sv companyID orderID lineSequence =
     getCheckoutStatus sv companyID orderID 0 lineSequence"

text \<open>No line is the zero session of the code.\<close>

definition resolveVendForOrderStatusRead :: "uuid \<Rightarrow> int \<Rightarrow> int \<Rightarrow> vend_session option q" where
  "resolveVendForOrderStatusRead orderID slotIndex lineSequence =
     (if lineSequence > 0
      then bnd (attempt (GetVendSessionByOrderAndLineSequence orderID lineSequence)) (\<lambda>r. case r of
          Inr v \<Rightarrow> ret (Some v)
        | Inl e \<Rightarrow> if errors_Is e ErrNotFound then ret None else raise e)
      else bnd (attempt (GetVendSessionByOrderAndSlot orderID slotIndex)) (\<lambda>r. case r of
          Inr v \<Rightarrow> ret (Some v)
        | Inl e \<Rightarrow> if \<not> errors_Is e ErrNotFound then raise e
                  else bnd (ListVendSessionsForOrder orderID) (\<lambda>sessions.
                    ret (case sessions of [] \<Rightarrow> None | v # _ \<Rightarrow> Some v))))"

definition GetOrderStatusView :: "service \<Rightarrow> uuid \<Rightarrow> uuid \<Rightarrow> int \<Rightarrow> int \<Rightarrow> checkout_status_view q" where
  "GetOrderStatusView sv companyID orderID slotIndex lineSequence =
     configured (sv_life sv)
       (bnd (GetOrderByID orderID) (\<lambda>ord.
        seq (own_company companyID)
        (bnd (resolveVendForOrderStatusRead orderID slotIndex lineSequence) (\<lambda>v. with_payment sv orderID ord v))))"

definition EnsureVendInProgressForPaidOrder :: "service \<Rightarrow> uuid \<Rightarrow> uuid \<Rightarrow> int \<Rightarrow> unit q" where
  "EnsureVendInProgressForPaidOrder sv companyID orderID slotIndex =
     configured (sv_life sv)
       (bnd (GetCheckoutStatus sv companyID orderID slotIndex) (\<lambda>st.
         if (case cs_Vend st of Some v \<Rightarrow> v_State v = ''pending'' | None \<Rightarrow> False)
            \<and> (o_Status (cs_Order st) = ''paid'' \<or> o_Status (cs_Order st) = ''vending'')
         then bnd (attempt (AdvanceVend sv \<lparr>av_OrderID = orderID, av_SlotIndex = slotIndex, av_LineSequence = 0,
                     av_ToState = ''in_progress'', av_FailureReason = None\<rparr>)) (\<lambda>r. case r of
             Inr _ \<Rightarrow> ret ()
           | Inl e \<Rightarrow> if errors_Is e ErrIllegalTransition then ret () else raise e)
         else ret ()))"

section \<open>Refunds\<close>

definition EvaluateRefundEligibility :: "service \<Rightarrow> uuid \<Rightarrow> int \<Rightarrow> refund_eligibility q" where
  "EvaluateRefundEligibility sv orderID slotIndex =
     configured (sv_life sv)
       (if orderID = uuid_Nil then raise order_id_required
        else if slotIndex < 0 then raise (GoErr ErrInvalidArgument ''slot_index must be non-negative'')
        else bnd (GetOrderByID orderID) (\<lambda>ord.
          bnd (attempt (resolveAuthoritativePayment sv orderID)) (\<lambda>r. case r of
              Inl e \<Rightarrow> if errors_Is e ErrNotFound
                then ret \<lparr>re_Eligible = False, re_Reason = ''no payment on file'', re_PaymentState = [], re_VendState = []\<rparr>
                else raise e
            | Inr pay \<Rightarrow>
                bnd (attempt (GetVendSessionByOrderAndSlot orderID slotIndex)) (\<lambda>w.
                  let advice = (\<lambda>vs. case refund_decision (p_State pay) vs (o_Status ord) of (ok, why) \<Rightarrow>
                        \<lparr>re_Eligible = ok, re_Reason = why, re_PaymentState = p_State pay, re_VendState = vs\<rparr>)
                  in case w of
                       Inr v \<Rightarrow> ret (advice (v_State v))
                     | Inl e \<Rightarrow> if errors_Is e ErrNotFound then ret (advice []) else raise e))))"

definition refund_audit :: "service \<Rightarrow> create_refund_input \<Rightarrow> payment \<Rightarrow> string \<Rightarrow> refund_row \<Rightarrow> unit q" where
  "refund_audit sv inp pay cur row =
     whenM (sv_audit sv) (writes (\<lambda>s. s\<lparr>db_audit := db_audit s @
       [\<lparr>ae_Action = ''refund.requested'', ae_ResourceID = uuid_String (rf_ID row), ae_MachineID = None,
         ae_Metadata = RequiredString (SanitizeJSONBytes (Bytes (JObj
           [(''amount_minor'', JNum (cr_AmountMinor inp)), (''currency'', JStr cur),
            (''idempotency_key'', JStr (TrimSpace (cr_IdempotencyKey inp))),
            (''order_id'', JStr (uuid_String (cr_OrderID inp))), (''payment_id'', JStr (uuid_String (p_ID pay))),
            (''refund_id'', JStr (uuid_String (rf_ID row)))])))\<rparr>]\<rparr>))"

definition refund_row_input :: "create_refund_input \<Rightarrow> payment \<Rightarrow> string \<Rightarrow> insert_refund_row_input" where
  "refund_row_input inp pay cur =
     \<lparr>ir_PaymentID = p_ID pay, ir_OrderID = cr_OrderID inp, ir_AmountMinor = cr_AmountMinor inp, ir_Currency = cur,
      ir_State = ''requested'', ir_Reason = TrimSpace (cr_Reason inp),
      ir_IdempotencyKey = TrimSpace (cr_IdempotencyKey inp),
      ir_Metadata = (if cr_Metadata inp = NoBytes then Bytes (JObj []) else cr_Metadata inp)\<rparr>"

text \<open>The refunded sum and the requested amount are \<open>int64\<close> values, and so is their sum.\<close>

definition request_refund :: "service \<Rightarrow> create_refund_input \<Rightarrow> payment \<Rightarrow> string \<Rightarrow> refund_row q" where
  "request_refund sv inp pay cur =
     bnd (SumNonFailedRefundAmountForPayment (p_ID pay)) (\<lambda>refunded.
       if i64 (refunded + cr_AmountMinor inp) > p_AmountMinor pay then raise (Err ErrRefundNotAllowed)
       else bnd (attempt (InsertRefundRow (refund_row_input inp pay cur))) (\<lambda>r. case r of
           Inl e \<Rightarrow> if errors_Is e ErrUniqueViolation
                    then GetRefundByOrderIdempotency (cr_OrderID inp) (cr_IdempotencyKey inp) else raise e
         | Inr row \<Rightarrow> seq (refund_audit sv inp pay cur row) (ret row)))"

definition CreateRefund :: "service \<Rightarrow> create_refund_input \<Rightarrow> refund_row q" where
  "CreateRefund sv inp =
     configured (sv_life sv)
       (let cur = ToUpper (TrimSpace (cr_Currency inp))
        in if cr_OrderID inp = uuid_Nil then raise order_id_required
           else if cr_AmountMinor inp \<le> 0 then raise (GoErr ErrInvalidArgument ''amount_minor must be positive'')
           else if TrimSpace (cr_IdempotencyKey inp) = [] then raise (GoErr ErrInvalidArgument ''idempotency_key is required'')
           else if length cur \<noteq> 3 then raise (GoErr ErrInvalidArgument ''currency must be a 3-letter ISO code'')
           else seq (GetOrderByID (cr_OrderID inp))
             (bnd (resolveAuthoritativePayment sv (cr_OrderID inp)) (\<lambda>pay.
               if p_State pay \<noteq> ''captured'' \<and> p_State pay \<noteq> ''partially_refunded'' then raise (Err ErrRefundNotAllowed)
               else if ToUpper (TrimSpace (p_Currency pay)) \<noteq> cur
               then raise (GoErr ErrInvalidArgument ''currency does not match payment'')
               else bnd (attempt (GetRefundByOrderIdempotency (cr_OrderID inp) (cr_IdempotencyKey inp))) (\<lambda>r. case r of
                   Inr already \<Rightarrow> ret already
                 | Inl e \<Rightarrow> if errors_Is e ErrNotFound then request_refund sv inp pay cur else raise e))))"

definition svc_ListRefundsForOrder :: "service \<Rightarrow> uuid \<Rightarrow> uuid \<Rightarrow> refund_row list q" where
  "svc_ListRefundsForOrder sv companyID orderID =
     configured (sv_life sv) (seq (EnsureOrderCompany sv companyID orderID) (ListRefundsForOrder orderID))"

definition GetRefundForOrder :: "service \<Rightarrow> uuid \<Rightarrow> uuid \<Rightarrow> uuid \<Rightarrow> refund_row q" where
  "GetRefundForOrder sv companyID orderID refundID =
     configured (sv_life sv) (seq (EnsureOrderCompany sv companyID orderID) (GetRefundByIDForOrder orderID refundID))"

end
