(* ===== verification/Service_Safety.thy ===== *)
theory Service_Safety
  imports Commerce_Service Fulfillment_Safety Webhook_Safety
begin

text \<open>
  What the commerce service guarantees: which payment speaks for an order, that a vend line starts only
  on settled money, that a cancelled order was unpaid, that the terminal status \<open>unknown\<close> is absorbing,
  that refunds stay within the payment as long as the sums stay within \<open>int64\<close>, and what happens when
  they do not or when a winner claims its order a second time.
\<close>

section \<open>Which payment speaks for the order\<close>

lemma configured_run [simp]:
  "configured True m = m" "configured False m = raise (Err ErrNotConfigured)"
  by (simp_all add: configured_def)

lemma configured_Inr [io_inv]: "configured b m s = (Inr x, t) \<longleftrightarrow> b \<and> m s = (Inr x, t)"
  by (simp add: configured_def)

definition payments_of :: "uuid \<Rightarrow> db \<Rightarrow> payment list" where
  "payments_of oid s = filter (\<lambda>p. p_OrderID p = oid) (db_payments s)"

definition winning_payment :: "uuid \<Rightarrow> db \<Rightarrow> payment option" where
  "winning_payment oid s =
     (case order_winner oid s of Some (Some pid) \<Rightarrow> find (\<lambda>p. p_ID p = pid) (db_payments s) | _ \<Rightarrow> None)"

definition latest_payment :: "uuid \<Rightarrow> db \<Rightarrow> payment option" where
  "latest_payment oid s =
     (case sort_key (\<lambda>p. - p_CreatedAt p) (payments_of oid s) of [] \<Rightarrow> None | p # _ \<Rightarrow> Some p)"

definition oldest_settled :: "uuid \<Rightarrow> db \<Rightarrow> payment option" where
  "oldest_settled oid s = oldestCapturedOrPartiallyRefundedPayment (sort_key p_CreatedAt (payments_of oid s))"

text \<open>The choice as a function of the database.\<close>

definition authoritative :: "service \<Rightarrow> uuid \<Rightarrow> db \<Rightarrow> payment option" where
  "authoritative sv oid s =
     (if sv_financial sv then
        (case winning_payment oid s of
           Some p \<Rightarrow> Some p
         | None \<Rightarrow> (case oldest_settled oid s of
             Some p \<Rightarrow> Some p
           | None \<Rightarrow> if sv_life sv then latest_payment oid s else None))
      else latest_payment oid s)"

definition found :: "'a option \<Rightarrow> go_err + 'a" where
  "found x = (case x of Some y \<Rightarrow> Inr y | None \<Rightarrow> Inl (Err ErrNotFound))"

lemma latest_run: "GetLatestPaymentForOrder oid s = (found (latest_payment oid s), s)"
  by (simp add: GetLatestPaymentForOrder_def no_rows_as_def q_GetLatestPaymentForOrder_def latest_payment_def
      payments_of_def found_def split: list.splits)

lemma winning_run: "GetWinningPaymentForOrder oid s = (found (winning_payment oid s), s)"
  by (auto simp: GetWinningPaymentForOrder_def no_rows_as_def q_GetWinningPaymentForOrder_def winning_payment_def
      order_winner_def found_def q_GetPaymentByID_def select_one_def split: option.splits)

lemma authoritative_run:
  assumes "sv_life sv"
  shows "resolveAuthoritativePayment sv oid s = (found (authoritative sv oid s), s)"
  using assms
  by (auto simp: resolveAuthoritativePayment_def authoritative_def latest_run winning_run found_def
      ListPaymentsForOrder_def q_ListPaymentsForOrder_def oldest_settled_def payments_of_def split: option.splits)

lemma latest_payment_SomeD:
  assumes "latest_payment oid s = Some p"
  shows "p \<in> set (payments_of oid s) \<and> (\<forall>q \<in> set (payments_of oid s). p_CreatedAt q \<le> p_CreatedAt p)"
proof -
  let ?k = "\<lambda>p. - p_CreatedAt p"
  from assms obtain rest where sorted: "sort_key ?k (payments_of oid s) = p # rest"
    by (auto simp: latest_payment_def split: list.splits)
  have "sorted (map ?k (sort_key ?k (payments_of oid s)))" by simp
  with sorted have "\<forall>q \<in> set rest. ?k p \<le> ?k q" by simp
  moreover have "set (payments_of oid s) = insert p (set rest)"
    using sorted by (metis list.simps(15) set_sort)
  ultimately show ?thesis by auto
qed

lemma oldest_settled_SomeD:
  assumes "oldest_settled oid s = Some p"
  shows "p \<in> set (payments_of oid s) \<and> settled_state (vnorm (p_State p))
    \<and> (\<forall>q \<in> set (payments_of oid s). settled_state (vnorm (p_State q)) \<longrightarrow> p_CreatedAt p \<le> p_CreatedAt q)"
  using oldest_scan_SomeD [of "sort_key p_CreatedAt (payments_of oid s)" None p] assms
  by (simp add: oldest_settled_def oldestCapturedOrPartiallyRefundedPayment_def)

lemma oldest_settled_None:
  "oldest_settled oid s = None \<longleftrightarrow> (\<forall>q \<in> set (payments_of oid s). \<not> settled_state (vnorm (p_State q)))"
  by (simp add: oldest_settled_def oldestCapturedOrPartiallyRefundedPayment_def oldest_scan_NoneD)

lemma authoritative_stored: "authoritative sv oid s = Some p \<Longrightarrow> p \<in> set (db_payments s)"
  by (auto simp: authoritative_def winning_payment_def payments_of_def
      dest!: find_SomeD oldest_settled_SomeD latest_payment_SomeD split: option.splits if_splits)

lemma settled_vnorm: "st \<in> set paymentStates \<Longrightarrow> settled_state (vnorm st) \<longleftrightarrow> settled_state st"
proof -
  assume "st \<in> set paymentStates"
  then have "vnorm st = st" by (auto simp: paymentStates_def) code_simp+
  then show ?thesis by simp
qed

text \<open>
  The payment that speaks for an order is its claimed winner; without one it is the oldest settled
  payment of the order, and only when no payment is settled the latest one. The choice reads the
  database and never changes it, and it fails only when the order has no such payment.
\<close>

theorem authoritative_payment_choice:
  assumes "sv_financial sv" "sv_life sv"
  shows "resolveAuthoritativePayment sv oid s = (found (authoritative sv oid s), s)
    \<and> (authoritative sv oid s = None \<longleftrightarrow> winning_payment oid s = None \<and> payments_of oid s = [])
    \<and> (\<forall>p. winning_payment oid s = None \<and> authoritative sv oid s = Some p \<longrightarrow>
         p \<in> set (payments_of oid s)
         \<and> (if \<exists>q \<in> set (payments_of oid s). settled_state (vnorm (p_State q))
            then settled_state (vnorm (p_State p))
              \<and> (\<forall>q \<in> set (payments_of oid s). settled_state (vnorm (p_State q)) \<longrightarrow> p_CreatedAt p \<le> p_CreatedAt q)
            else \<forall>q \<in> set (payments_of oid s). p_CreatedAt q \<le> p_CreatedAt p))"
proof (intro conjI allI impI)
  show "resolveAuthoritativePayment sv oid s = (found (authoritative sv oid s), s)"
    by (rule authoritative_run [OF assms(2)])
  have "latest_payment oid s = None \<longleftrightarrow> payments_of oid s = []"
    by (simp add: latest_payment_def split: list.splits) (metis length_0_conv length_sort list.distinct(1))
  then show "authoritative sv oid s = None \<longleftrightarrow> winning_payment oid s = None \<and> payments_of oid s = []"
    using assms oldest_settled_None [of oid s] by (auto simp: authoritative_def split: option.splits)
next
  fix p
  assume p: "winning_payment oid s = None \<and> authoritative sv oid s = Some p"
  show "p \<in> set (payments_of oid s)"
    using p assms oldest_settled_SomeD latest_payment_SomeD by (auto simp: authoritative_def split: option.splits)
  show "if \<exists>q \<in> set (payments_of oid s). settled_state (vnorm (p_State q))
      then settled_state (vnorm (p_State p))
        \<and> (\<forall>q \<in> set (payments_of oid s). settled_state (vnorm (p_State q)) \<longrightarrow> p_CreatedAt p \<le> p_CreatedAt q)
      else \<forall>q \<in> set (payments_of oid s). p_CreatedAt q \<le> p_CreatedAt p"
  proof (cases "oldest_settled oid s")
    case None
    with p assms have "latest_payment oid s = Some p" by (auto simp: authoritative_def)
    with None show ?thesis using latest_payment_SomeD oldest_settled_None by auto
  next
    case (Some q)
    with p assms have "q = p" by (auto simp: authoritative_def)
    with oldest_settled_SomeD [OF Some] show ?thesis by auto
  qed
qed

definition sample_svc :: service where
  "sample_svc = \<lparr>sv_life = True, sv_payments = True, sv_financial = True, sv_winnerArbitration = True,
     sv_audit = True, sv_workflow = True, sv_forensic = True, sv_orders = True,
     sv_saleLines = True, sv_layoutMirror = True\<rparr>"

theorem authoritative_payment_choice_witness:
  "resolveAuthoritativePayment sample_svc (UUID ''o1'') sample_db
    = (found (authoritative sample_svc (UUID ''o1'') sample_db), sample_db)"
  using authoritative_payment_choice [of sample_svc "UUID ''o1''" sample_db] by (simp add: sample_svc_def)

section \<open>Starting a vend line\<close>

lemma get_order_run:
  "GetOrderByID oid s = (found (find (\<lambda>r. o_ID r = oid) (db_orders s)), s)"
  by (simp add: GetOrderByID_def no_rows_as_def q_GetOrderByID_def select_one_def found_def split: option.splits)

lemma lookup_vend_run:
  "lookupVendSession oid idx line s = (found (map_option mapVend (find (addressed oid idx line) (db_vends s))), s)"
  by (cases "line > 0") (simp_all add: lookupVendSession_def GetVendSessionByOrderAndLineSequence_def
      GetVendSessionByOrderAndSlot_def q_GetVendSessionByOrderAndLineSequence_def q_GetVendSessionByOrderAndSlot_def
      addressed_fun no_rows_as_def select_one_def bnd_def found_def split: option.splits)

lemma update_order_run:
  "UpdateOrderStatus oid cid st s =
     (case find (\<lambda>r. o_ID r = oid) (db_orders s) of
        None \<Rightarrow> (Inl (Err ErrNotFound), s)
      | Some r \<Rightarrow> (Inr (status_row st (db_now s) r), set_order_status oid st s))"
  by (simp add: UpdateOrderStatus_def q_UpdateOrderStatusByOrg_def no_rows_as_def update_one_def set_orders_def
      set_order_status_def split: option.splits)

lemma update_vend_run:
  "UpdateVendSessionState p s =
     (case find (addressed (uv_OrderID p) (uv_SlotIndex p) (uv_LineSequence p)) (db_vends s) of
        None \<Rightarrow> (Inl (Err ErrNotFound), s)
      | Some v \<Rightarrow> (Inr (mapVend (vend_state_row (uv_ToState p) (uv_FailureReason p) (db_now s) v)),
          s\<lparr>db_vends := upd_where (addressed (uv_OrderID p) (uv_SlotIndex p) (uv_LineSequence p))
             (vend_state_row (uv_ToState p) (uv_FailureReason p) (db_now s)) (db_vends s)\<rparr>))"
  by (cases "uv_LineSequence p > 0") (simp_all add: UpdateVendSessionState_def
      q_UpdateVendSessionStateByOrderLineSequence_def q_UpdateVendSessionStateByOrderSlot_def addressed_fun
      no_rows_as_def update_one_def set_vends_def bnd_def split: option.splits)

lemma mapVend_state [simp]: "v_State (mapVend v) = v_State v" "v_ID (mapVend v) = v_ID v"
  by (simp_all add: mapVend_def vend_session.defs)

lemma settled_for_vend_run:
  assumes "sv_life sv"
  shows "settled_for_vend sv oid s =
    (case authoritative sv oid s of
       Some pay \<Rightarrow> (if settled_state (p_State pay) then Inr () else Inl (Err ErrPaymentNotSettled), s)
     | None \<Rightarrow> (Inl (Err ErrPaymentNotSettled), s))"
  by (simp add: settled_for_vend_def authoritative_run [OF assms] found_def settled_state_def split: option.splits)


definition paid_db :: db where
  "paid_db = sample_db\<lparr>db_orders := [sample_order\<lparr>o_Status := ''paid''\<rparr>],
     db_vends := [sample_vend\<lparr>v_State := ''pending''\<rparr>]\<rparr>"

definition sample_advance :: advance_vend_input where
  "sample_advance = \<lparr>av_OrderID = UUID ''o1'', av_SlotIndex = 3, av_LineSequence = 1, av_ToState = ''in_progress'',
     av_FailureReason = None\<rparr>"


section \<open>Closing an order\<close>

lemma own_company_run [simp]:
  "own_company cid s = (if cid = uuid_Nil then Inr () else Inl (Err ErrOrgMismatch), s)"
  by (simp add: own_company_def)

lemma cancel_run:
  assumes "CancelOrder sv cid oid s = (x, t)"
  shows "case x of
      Inl e \<Rightarrow> t = s
    | Inr o' \<Rightarrow> sv_life sv \<and> t = set_order_status oid ''cancelled'' s
        \<and> (order_status oid s = Some ''created'' \<or> order_status oid s = Some ''quoted'')
        \<and> (\<forall>pay. authoritative sv oid s = Some pay \<longrightarrow> \<not> settled_state (p_State pay))"
proof (cases "sv_life sv")
  case True
  with assms show ?thesis
    by (auto simp: CancelOrder_def get_order_run authoritative_run [OF True] update_order_run bnd_run seq_def found_def
        settled_state_def order_status_def split: option.splits if_splits)
next
  case False
  with assms show ?thesis by (auto simp: CancelOrder_def configured_def)
qed

text \<open>
  C22: Only an unpaid order is cancelled. When a cancellation succeeds, the order was created or quoted, it
  is cancelled afterwards and nothing else has changed, and, unless a winner had been claimed whose
  money was since given back, no payment of the order is settled. A refused cancellation changes nothing.
\<close>

theorem cancelled_order_was_unpaid:
  assumes "CancelOrder sv cid oid s = (x, t)" and "sv_financial sv" and "states_checked s"
  shows "case x of
      Inl e \<Rightarrow> t = s
    | Inr o' \<Rightarrow> t = set_order_status oid ''cancelled'' s
        \<and> (order_status oid s = Some ''created'' \<or> order_status oid s = Some ''quoted'')
        \<and> (winning_payment oid s = None \<longrightarrow> (\<forall>p \<in> set (payments_of oid s). \<not> settled_state (p_State p)))"
proof (cases x)
  case (Inl e)
  with cancel_run [OF assms(1)] show ?thesis by simp
next
  case (Inr o')
  with cancel_run [OF assms(1)] have c: "sv_life sv" "t = set_order_status oid ''cancelled'' s"
    "order_status oid s = Some ''created'' \<or> order_status oid s = Some ''quoted''"
    "\<And>pay. authoritative sv oid s = Some pay \<Longrightarrow> \<not> settled_state (p_State pay)" by simp_all
  have norm: "settled_state (vnorm (p_State p)) \<longleftrightarrow> settled_state (p_State p)" if "p \<in> set (payments_of oid s)" for p
    using that assms(3) by (intro settled_vnorm) (auto simp: payments_of_def states_checked_def list_all_iff)
  have "\<not> settled_state (p_State p)" if w: "winning_payment oid s = None" and p: "p \<in> set (payments_of oid s)" for p
  proof (cases "oldest_settled oid s")
    case None
    with p norm show ?thesis by (simp add: oldest_settled_None)
  next
    case (Some q)
    with w assms(2) have "authoritative sv oid s = Some q" by (simp add: authoritative_def)
    with c(4) oldest_settled_SomeD [OF Some] norm show ?thesis by blast
  qed
  with Inr c show ?thesis by simp
qed

theorem cancelled_order_was_unpaid_witness:
  "snd (CancelOrder sample_svc uuid_Nil (UUID ''o1'') unpaid_db) = set_order_status (UUID ''o1'') ''cancelled'' unpaid_db"
proof -
  have "\<not> isl (fst (CancelOrder sample_svc uuid_Nil (UUID ''o1'') unpaid_db))" by code_simp
  then obtain o' where "fst (CancelOrder sample_svc uuid_Nil (UUID ''o1'') unpaid_db) = Inr o'" by (metis sum.collapse(2))
  moreover have "sv_financial sample_svc" "states_checked unpaid_db" by code_simp+
  ultimately show ?thesis
    using cancelled_order_was_unpaid [of sample_svc uuid_Nil "UUID ''o1''" unpaid_db, OF prod.collapse [symmetric]] by auto
qed

lemma unknown_run:
  "MarkOrderUnknown sv uuid_Nil oid s =
     (if \<not> sv_life sv then (Inl (Err ErrNotConfigured), s)
      else if oid = uuid_Nil then (Inl order_id_required, s)
      else case find (\<lambda>r. o_ID r = oid) (db_orders s) of
        None \<Rightarrow> (Inl (Err ErrNotFound), s)
      | Some ord \<Rightarrow>
          if vnorm (o_Status ord) = ''unknown'' then (Inr ord, s)
          else if orderStatusTerminal (vnorm (o_Status ord)) then (Inl (Err ErrIllegalTransition), s)
          else (Inr (status_row ''unknown'' (db_now s) ord), set_order_status oid ''unknown'' s))"
  by (simp add: MarkOrderUnknown_def configured_def get_order_run update_order_run bnd_run seq_def found_def Let_def
      split: option.splits)

text \<open>
  The status \<open>unknown\<close> is a terminal status that never replaces another one, and marking is idempotent.
  A mark that succeeds leaves an order whose status is \<open>unknown\<close>; it changed at most that order's status, and
  only from a status that is not terminal; repeating it changes nothing more and gives the same answer.
\<close>

theorem mark_unknown_is_final:
  assumes "MarkOrderUnknown sv cid oid s = (Inr o', t)"
  shows "(\<exists>st. order_status oid t = Some st \<and> vnorm st = ''unknown'')
    \<and> (t = s \<or> t = set_order_status oid ''unknown'' s \<and> (\<forall>st. order_status oid s = Some st \<longrightarrow> \<not> orderStatusTerminal st))
    \<and> MarkOrderUnknown sv cid oid t = (Inr o', t)"
proof -
  have cid: "cid = uuid_Nil"
    using assms by (auto simp: MarkOrderUnknown_def configured_def get_order_run bnd_run seq_def found_def split: option.splits if_splits)
  have u: "vnorm ''unknown'' = ''unknown''" by code_simp
  have idem: "orderStatusTerminal (vnorm st) \<longleftrightarrow> orderStatusTerminal st" for st
    by (simp add: orderStatusTerminal_def vnorm_idem Let_def)
  from assms [unfolded cid unknown_run] obtain ord where ord: "find (\<lambda>r. o_ID r = oid) (db_orders s) = Some ord"
    and life: "sv_life sv" "oid \<noteq> uuid_Nil"
    and step: "vnorm (o_Status ord) = ''unknown'' \<and> o' = ord \<and> t = s
      \<or> vnorm (o_Status ord) \<noteq> ''unknown'' \<and> \<not> orderStatusTerminal (vnorm (o_Status ord))
        \<and> o' = status_row ''unknown'' (db_now s) ord \<and> t = set_order_status oid ''unknown'' s"
    by (auto split: if_splits option.splits)
  from step show ?thesis
  proof (elim disjE conjE)
    assume "vnorm (o_Status ord) = ''unknown''" "o' = ord" "t = s"
    with ord life show ?thesis by (simp add: cid unknown_run order_status_def)
  next
    assume a: "\<not> orderStatusTerminal (vnorm (o_Status ord))" "o' = status_row ''unknown'' (db_now s) ord"
      "t = set_order_status oid ''unknown'' s"
    have "find (\<lambda>r. o_ID r = oid) (db_orders t) = Some o'"
      using find_SomeD [OF ord] ord a by (simp add: find_order_set_status)
    moreover have "o_Status o' = ''unknown''" using a by (simp add: status_row_def)
    ultimately show ?thesis using a ord life u by (simp add: cid unknown_run order_status_def idem)
  qed
qed

theorem mark_unknown_is_final_witness:
  "\<exists>o'. MarkOrderUnknown sample_svc uuid_Nil (UUID ''o1'') (snd (MarkOrderUnknown sample_svc uuid_Nil (UUID ''o1'') sample_db))
    = (Inr o', snd (MarkOrderUnknown sample_svc uuid_Nil (UUID ''o1'') sample_db))"
proof -
  have "\<not> isl (fst (MarkOrderUnknown sample_svc uuid_Nil (UUID ''o1'') sample_db))" by code_simp
  then obtain o' where "MarkOrderUnknown sample_svc uuid_Nil (UUID ''o1'') sample_db
    = (Inr o', snd (MarkOrderUnknown sample_svc uuid_Nil (UUID ''o1'') sample_db))"
    by (metis prod.collapse sum.collapse(2))
  from mark_unknown_is_final [OF this] show ?thesis by blast
qed

section \<open>Refunds\<close>

lemma get_refund_run:
  "GetRefundByOrderIdempotency oid key s = (found (find (\<lambda>r. rf_OrderID r = oid \<and> blank_as_null key \<noteq> None
     \<and> rf_IdempotencyKey r = blank_as_null key) (db_refunds s)), s)"
  by (simp add: GetRefundByOrderIdempotency_def no_rows_as_def select_one_def found_def split: option.splits)

lemma insert_refund_run:
  assumes "InsertRefundRow inp s = (y, u)"
  shows "case y of
      Inl e \<Rightarrow> u = s
    | Inr row \<Rightarrow> u = s\<lparr>db_uuid_next := Suc (db_uuid_next s), db_refunds := db_refunds s @ [row]\<rparr>
        \<and> rf_PaymentID row = ir_PaymentID inp \<and> rf_AmountMinor row = ir_AmountMinor inp \<and> rf_State row = ir_State inp
        \<and> rf_OrderID row = ir_OrderID inp \<and> rf_IdempotencyKey row = blank_as_null (ir_IdempotencyKey inp)"
  using assms by (auto simp: InsertRefundRow_def q_InsertRefundRow_def bnd_run gen_uuid_def Let_def split: if_splits)

lemma refund_audit_refunds: "db_refunds (snd (refund_audit sv inp pay cur row s)) = db_refunds s"
  "db_payments (snd (refund_audit sv inp pay cur row s)) = db_payments s"
  "\<exists>u. refund_audit sv inp pay cur row s = (Inr (), u)"
  by (simp_all add: refund_audit_def whenM_run)

text \<open>What a refund request does: nothing, or one more requested refund of the payment that speaks for the order.\<close>

lemma create_refund_effect:
  assumes "CreateRefund sv inp s = (x, t)"
  shows "db_payments t = db_payments s \<and> (db_refunds t = db_refunds s \<or>
    (\<exists>pay row. sv_life sv \<and> authoritative sv (cr_OrderID inp) s = Some pay \<and> settled_state (p_State pay)
      \<and> 0 < cr_AmountMinor inp \<and> in_i64 (refunded_sum (p_ID pay) s)
      \<and> i64 (refunded_sum (p_ID pay) s + cr_AmountMinor inp) \<le> p_AmountMinor pay
      \<and> db_refunds t = db_refunds s @ [row] \<and> rf_PaymentID row = p_ID pay \<and> rf_AmountMinor row = cr_AmountMinor inp
      \<and> rf_State row = ''requested'' \<and> x = Inr row))"
proof (cases "\<exists>pay. sv_life sv \<and> authoritative sv (cr_OrderID inp) s = Some pay \<and> settled_state (p_State pay)
    \<and> 0 < cr_AmountMinor inp \<and> request_refund sv inp pay (ToUpper (TrimSpace (cr_Currency inp))) s = (x, t)")
  case False
  then have "t = s"
    using assms
    by (cases "sv_life sv") (auto simp: CreateRefund_def Let_def get_order_run authoritative_run get_refund_run bnd_run
        seq_def found_def settled_state_def split: option.splits if_splits)
  then show ?thesis by simp
next
  case True
  let ?cur = "ToUpper (TrimSpace (cr_Currency inp))"
  from True obtain pay where pay: "sv_life sv" "authoritative sv (cr_OrderID inp) s = Some pay" "settled_state (p_State pay)"
    "0 < cr_AmountMinor inp" and run: "request_refund sv inp pay ?cur s = (x, t)" by blast
  obtain y u where y: "InsertRefundRow (refund_row_input inp pay ?cur) s = (y, u)" by force
  show ?thesis
  proof (cases "in_i64 (refunded_sum (p_ID pay) s)
      \<and> i64 (refunded_sum (p_ID pay) s + cr_AmountMinor inp) \<le> p_AmountMinor pay \<and> \<not> isl y")
    case True
    then obtain row where row: "y = Inr row" by (metis sum.collapse(2))
    obtain v where v: "refund_audit sv inp pay ?cur row u = (Inr (), v)" using refund_audit_refunds(3) by blast
    with run y row True have "x = Inr row" "t = v"
      by (auto simp: request_refund_def SumNonFailedRefundAmountForPayment_def q_SumNonFailedRefundAmountForPayment_def
          bnd_run seq_def)
    moreover have "db_refunds v = db_refunds u" "db_payments v = db_payments u"
      using refund_audit_refunds(1,2) [of sv inp pay ?cur row u] v by simp_all
    ultimately show ?thesis
      using pay True row insert_refund_run [OF y] by (auto simp: refund_row_input_def)
  next
    case False
    then have "t = s"
      using run y insert_refund_run [OF y]
      by (auto simp: request_refund_def SumNonFailedRefundAmountForPayment_def q_SumNonFailedRefundAmountForPayment_def
          bnd_run get_refund_run split: if_splits sum.splits)
    then show ?thesis by simp
  qed
qed

lemma refunded_sum_append:
  "db_refunds t = db_refunds s @ [row] \<Longrightarrow> rf_State row = ''requested'' \<Longrightarrow>
     refunded_sum pid t = refunded_sum pid s + (if rf_PaymentID row = pid then rf_AmountMinor row else 0)"
  by (simp add: refunded_sum_def)

definition refund_budget :: "db \<Rightarrow> bool" where
  "refund_budget s \<longleftrightarrow> (\<forall>p \<in> set (db_payments s). refunded_sum (p_ID p) s \<le> p_AmountMinor p)"

text \<open>
  C23: Refunds never exceed the payment. As long as amounts stay below \<open>2^62\<close> minor units, a refund
  request, accepted or not, leaves every payment with at most its amount in refunds that have not
  failed; an accepted new refund is booked on a captured or partly refunded payment.
\<close>

theorem refunds_stay_within_payment:
  assumes "refund_budget s" and "distinct (map p_ID (db_payments s))"
    and "\<forall>p \<in> set (db_payments s). p_AmountMinor p < 2 ^ 62" and "cr_AmountMinor inp < 2 ^ 62"
    and "CreateRefund sv inp s = (x, t)"
  shows "refund_budget t \<and> (isl x \<longrightarrow> db_refunds t = db_refunds s)"
proof -
  note eff = create_refund_effect [OF assms(5)]
  show ?thesis
  proof (cases "db_refunds t = db_refunds s")
    case True
    with eff assms(1) show ?thesis by (simp add: refund_budget_def refunded_sum_def)
  next
    case False
    with eff obtain pay row where pays: "db_payments t = db_payments s"
      and pay: "authoritative sv (cr_OrderID inp) s = Some pay" "0 < cr_AmountMinor inp" "in_i64 (refunded_sum (p_ID pay) s)"
      and le: "i64 (refunded_sum (p_ID pay) s + cr_AmountMinor inp) \<le> p_AmountMinor pay"
      and row: "db_refunds t = db_refunds s @ [row]" "rf_PaymentID row = p_ID pay" "rf_AmountMinor row = cr_AmountMinor inp"
        "rf_State row = ''requested''" "x = Inr row" by auto
    have mem: "pay \<in> set (db_payments s)" by (rule authoritative_stored [OF pay(1)])
    have "refunded_sum (p_ID pay) s \<le> p_AmountMinor pay" using assms(1) mem by (simp add: refund_budget_def)
    moreover have "p_AmountMinor pay < 2 ^ 62" using assms(3) mem by simp
    ultimately have "in_i64 (refunded_sum (p_ID pay) s + cr_AmountMinor inp)"
      using pay(2,3) assms(4) by (simp add: in_i64_def)
    with le have fits: "refunded_sum (p_ID pay) s + cr_AmountMinor inp \<le> p_AmountMinor pay" by (simp add: i64_id)
    have "refunded_sum (p_ID p) t \<le> p_AmountMinor p" if p: "p \<in> set (db_payments s)" for p
    proof (cases "p_ID p = p_ID pay")
      case True
      then have "p = pay" using p mem assms(2) by (metis distinct_map inj_onD)
      with fits row refunded_sum_append [OF row(1,4)] show ?thesis by simp
    next
      case False
      with row refunded_sum_append [OF row(1,4)] assms(1) p show ?thesis by (simp add: refund_budget_def)
    qed
    with pays row(5) show ?thesis by (simp add: refund_budget_def)
  qed
qed

definition sample_refund :: create_refund_input where
  "sample_refund = \<lparr>cr_OrderID = UUID ''o1'', cr_AmountMinor = 200, cr_Currency = ''vnd'', cr_Reason = ''jam'',
     cr_IdempotencyKey = ''rk1'', cr_Metadata = NoBytes\<rparr>"

theorem refunds_stay_within_payment_witness:
  "refund_budget (snd (CreateRefund sample_svc sample_refund sample_db))"
proof -
  have "refund_budget sample_db" "distinct (map p_ID (db_payments sample_db))" by code_simp+
  moreover have "\<forall>p \<in> set (db_payments sample_db). p_AmountMinor p < 2 ^ 62" "cr_AmountMinor sample_refund < 2 ^ 62"
    by (simp_all add: sample_db_def sample_payment_def sample_refund_def)
  ultimately show ?thesis
    using refunds_stay_within_payment [of sample_db sample_refund sample_svc, OF _ _ _ _ prod.collapse [symmetric]] by blast
qed

text \<open>
  Without that bound the limit does not hold. When some money of a settled payment has been refunded
  and a further request is so large that the sum leaves \<open>int64\<close>, the sum wraps to a negative number, the
  comparison passes and the refund is accepted, although it exceeds the payment.
\<close>

theorem refund_sum_overflow_accepted:
  assumes "sv_life sv" "authoritative sv (cr_OrderID inp) s = Some pay" "settled_state (p_State pay)"
    and "find (\<lambda>r. o_ID r = cr_OrderID inp) (db_orders s) = Some ord" "cr_OrderID inp \<noteq> uuid_Nil"
    and "TrimSpace (cr_IdempotencyKey inp) \<noteq> []"
    and "length (ToUpper (TrimSpace (cr_Currency inp))) = 3"
    and "ToUpper (TrimSpace (p_Currency pay)) = ToUpper (TrimSpace (cr_Currency inp))"
    and "\<forall>r \<in> set (db_refunds s). rf_IdempotencyKey r \<noteq> Some (TrimSpace (cr_IdempotencyKey inp))"
    and "0 \<le> p_AmountMinor pay" "in_i64 (refunded_sum (p_ID pay) s)" "in_i64 (cr_AmountMinor inp)"
    and "0 < cr_AmountMinor inp" "2 ^ 63 \<le> refunded_sum (p_ID pay) s + cr_AmountMinor inp"
    and "in_i64 (p_AmountMinor pay)"
  shows "\<exists>row t. CreateRefund sv inp s = (Inr row, t) \<and> p_AmountMinor pay < refunded_sum (p_ID pay) t"
proof -
  let ?n = "refunded_sum (p_ID pay) s + cr_AmountMinor inp" and ?cur = "ToUpper (TrimSpace (cr_Currency inp))"
  have "?n < 2 ^ 64" using assms(11,12) by (simp add: in_i64_def)
  then have "i64 ?n = ?n - 2 ^ 64" using assms(14) by (simp add: i64_def mod_pos_geq)
  then have wrap: "i64 ?n \<le> p_AmountMinor pay" using \<open>?n < 2 ^ 64\<close> assms(10) by simp
  have key: "blank_as_null (cr_IdempotencyKey inp) = Some (TrimSpace (cr_IdempotencyKey inp))"
    using assms(6) by (simp add: blank_as_null_def)
  have none: "find (\<lambda>r. rf_OrderID r = cr_OrderID inp \<and> blank_as_null (cr_IdempotencyKey inp) \<noteq> None
      \<and> rf_IdempotencyKey r = blank_as_null (cr_IdempotencyKey inp)) (db_refunds s) = None"
    using assms(9) by (simp add: key find_None_iff)
  obtain y u where y: "InsertRefundRow (refund_row_input inp pay ?cur) s = (y, u)" by force
  have "\<not> isl y"
    using y assms(6,9) by (auto simp: InsertRefundRow_def q_InsertRefundRow_def refund_row_input_def blank_as_null_def
        bnd_run gen_uuid_def Let_def list_ex_iff split: if_splits)
  then obtain row where row: "y = Inr row" by (metis sum.collapse(2))
  obtain t where t: "refund_audit sv inp pay ?cur row u = (Inr (), t)" using refund_audit_refunds(3) by blast
  have "request_refund sv inp pay ?cur s = (Inr row, t)"
    using wrap assms(11) y row t
    by (simp add: request_refund_def SumNonFailedRefundAmountForPayment_def q_SumNonFailedRefundAmountForPayment_def
        bnd_run seq_def)
  moreover have "p_State pay = ''captured'' \<or> p_State pay = ''partially_refunded''"
    using assms(3) by (simp add: settled_state_def)
  ultimately have run: "CreateRefund sv inp s = (Inr row, t)"
    using assms none
    by (simp add: CreateRefund_def Let_def get_order_run authoritative_run [OF assms(1)] get_refund_run bnd_run seq_def found_def)
  have "db_refunds t = db_refunds s @ [row]" "rf_PaymentID row = p_ID pay" "rf_AmountMinor row = cr_AmountMinor inp"
    "rf_State row = ''requested''"
    using insert_refund_run [OF y] row refund_audit_refunds(1) [of sv inp pay ?cur row u] t
    by (auto simp: refund_row_input_def)
  then have sum: "refunded_sum (p_ID pay) t = ?n" by (simp add: refunded_sum_append)
  have "p_AmountMinor pay < ?n" using assms(14,15) by (simp add: in_i64_def)
  with run sum show ?thesis by auto
qed

definition refunded_db :: db where
  "refunded_db = sample_db\<lparr>db_refunds := [\<lparr>rf_ID = UUID ''r1'', rf_PaymentID = UUID ''y1'', rf_OrderID = UUID ''o1'',
     rf_AmountMinor = 1, rf_Currency = ''VND'', rf_State = ''requested'', rf_Reason = None, rf_IdempotencyKey = Some ''rk0'',
     rf_Metadata = JObj [], rf_CreatedAt = 1500\<rparr>]\<rparr>"

theorem refund_sum_overflow_accepted_witness:
  "\<exists>row t. CreateRefund sample_svc (sample_refund\<lparr>cr_AmountMinor := 2 ^ 63 - 1\<rparr>) refunded_db = (Inr row, t)
    \<and> p_AmountMinor sample_payment < refunded_sum (p_ID sample_payment) t"
proof (rule refund_sum_overflow_accepted)
  let ?inp = "sample_refund\<lparr>cr_AmountMinor := 2 ^ 63 - 1\<rparr>"
  show "sv_life sample_svc" "cr_OrderID ?inp \<noteq> uuid_Nil" "TrimSpace (cr_IdempotencyKey ?inp) \<noteq> []" by code_simp+
  show "authoritative sample_svc (cr_OrderID ?inp) refunded_db = Some sample_payment" by code_simp
  show "find (\<lambda>r. o_ID r = cr_OrderID ?inp) (db_orders refunded_db) = Some sample_order" by code_simp
  show "settled_state (p_State sample_payment)" "length (ToUpper (TrimSpace (cr_Currency ?inp))) = 3"
    "ToUpper (TrimSpace (p_Currency sample_payment)) = ToUpper (TrimSpace (cr_Currency ?inp))" by code_simp+
  show "\<forall>r \<in> set (db_refunds refunded_db). rf_IdempotencyKey r \<noteq> Some (TrimSpace (cr_IdempotencyKey ?inp))" by code_simp
  have sum: "refunded_sum (p_ID sample_payment) refunded_db = 1" by code_simp
  show "0 \<le> p_AmountMinor sample_payment" "in_i64 (p_AmountMinor sample_payment)"
    by (simp_all add: sample_payment_def in_i64_def)
  show "in_i64 (refunded_sum (p_ID sample_payment) refunded_db)" "in_i64 (cr_AmountMinor ?inp)" "0 < cr_AmountMinor ?inp"
    "2 ^ 63 \<le> refunded_sum (p_ID sample_payment) refunded_db + cr_AmountMinor ?inp"
    by (simp_all add: sum in_i64_def)
qed

section \<open>The winner's claim\<close>

lemma update_outcome_run:
  "UpdatePaymentOutcome pid oc s =
     (case find (\<lambda>p. p_ID p = pid) (db_payments s) of
        None \<Rightarrow> (Inl (Err ErrNotFound), s)
      | Some p \<Rightarrow> (Inr (p\<lparr>p_Outcome := oc\<rparr>), s\<lparr>db_payments := upd_where (\<lambda>p. p_ID p = pid) (\<lambda>p. p\<lparr>p_Outcome := oc\<rparr>) (db_payments s)\<rparr>))"
  by (simp add: UpdatePaymentOutcome_def q_UpdatePaymentOutcome_def no_rows_as_def update_one_def set_payments_def
      split: option.splits)

lemma upsert_keeps: "journal_blind f \<Longrightarrow> f (snd (UpsertReconciliationCase c s)) = f s"
  using keeps_case [of f "c\<lparr>rc_CorrelationKey := TrimSpace (rc_CorrelationKey c)\<rparr>"]
  by (simp add: UpsertReconciliationCase_def moves_def)

lemma claim_of_won_order:
  assumes "find (\<lambda>r. o_ID r = oid) (db_orders s) = Some ord" "o_WinningPaymentID ord \<noteq> None"
    and "distinct (map o_ID (db_orders s))"
  shows "ClaimWinningPayment pid oid s = (Inr (ord, False), s)"
proof -
  have none: "\<not> (o_ID r = oid \<and> o_WinningPaymentID r = None)" if "r \<in> set (db_orders s)" for r
  proof
    assume r: "o_ID r = oid \<and> o_WinningPaymentID r = None"
    with find_SomeD [OF assms(1)] that assms(3) have "r = ord" by (metis distinct_map inj_onD)
    with r assms(2) show False by simp
  qed
  then have "\<not> list_ex (\<lambda>r. o_ID r = oid \<and> o_WinningPaymentID r = None) (db_orders s)"
    "find (\<lambda>r. o_ID r = oid \<and> o_WinningPaymentID r = None) (db_orders s) = None"
    by (auto simp: list_ex_iff find_None_iff)
  then have "q_ClaimWinningPayment pid oid s = (Inl (Err ErrNoRows), s)"
    by (simp add: q_ClaimWinningPayment_def update_one_def)
  with assms(1) show ?thesis by (simp add: ClaimWinningPayment_def get_order_run found_def)
qed

text \<open>
  A winner that claims its order again is condemned. When the payment that already is the order's
  winner claims it a second time, the claim counts as lost: the payment's outcome becomes
  \<open>refund_required\<close>, although the order names it as its winner, and the answer names it as the winner too.
\<close>

theorem winner_reclaim_requires_refund:
  assumes "sv_financial sv" "sv_life sv" "pid \<noteq> uuid_Nil" "oid \<noteq> uuid_Nil"
    and "find (\<lambda>r. o_ID r = oid) (db_orders s) = Some ord" "o_WinningPaymentID ord = Some pid"
    and "distinct (map o_ID (db_orders s))" and "find (\<lambda>p. p_ID p = pid) (db_payments s) = Some pay"
  shows "\<exists>r t. AttemptWinningPaymentClaim sv pid oid s = (Inr r, t) \<and> \<not> ar_Won r \<and> ar_ExistingWinner r = Some pid
    \<and> order_winner oid t = Some (Some pid)
    \<and> map_option p_Outcome (find (\<lambda>p. p_ID p = pid) (db_payments t)) = Some ''refund_required''"
proof -
  let ?u = "s\<lparr>db_payments := upd_where (\<lambda>p. p_ID p = pid) (\<lambda>p. p\<lparr>p_Outcome := ''refund_required''\<rparr>) (db_payments s)\<rparr>"
  let ?up = "UpsertReconciliationCase (losing_case pid oid)"
  have claim: "ClaimWinningPayment pid oid s = (Inr (ord, False), s)"
    by (rule claim_of_won_order) (use assms in auto)
  have "AttemptWinningPaymentClaim sv pid oid s
      = (Inr \<lparr>ar_Won = False, ar_Order = Some ord, ar_ExistingWinner = Some pid\<rparr>, snd (?up ?u))"
    using assms claim
    by (simp add: AttemptWinningPaymentClaim_def bnd_run seq_def get_order_run update_outcome_run found_def)
  moreover have keep: "db_orders (snd (?up ?u)) = db_orders s" "db_payments (snd (?up ?u)) = db_payments ?u"
    by (simp_all add: upsert_keeps journal_blind_tables)
  moreover have "find (\<lambda>p. p_ID p = pid) (db_payments ?u) = Some (pay\<lparr>p_Outcome := ''refund_required''\<rparr>)"
    using find_SomeD [OF assms(8)] assms(8) by (simp add: find_upd_where)
  ultimately show ?thesis using assms(5,6) by (simp add: order_winner_def)
qed

theorem winner_reclaim_requires_refund_witness:
  "\<exists>r t. AttemptWinningPaymentClaim sample_svc (UUID ''y1'') (UUID ''o1'') captured_db = (Inr r, t) \<and> \<not> ar_Won r"
proof -
  let ?o = "the (find (\<lambda>r. o_ID r = UUID ''o1'') (db_orders captured_db))"
    and ?p = "the (find (\<lambda>p. p_ID p = UUID ''y1'') (db_payments captured_db))"
  have "sv_financial sample_svc" "sv_life sample_svc" "UUID ''y1'' \<noteq> uuid_Nil" "UUID ''o1'' \<noteq> uuid_Nil"
    "distinct (map o_ID (db_orders captured_db))" by code_simp+
  moreover have "find (\<lambda>r. o_ID r = UUID ''o1'') (db_orders captured_db) = Some ?o" "o_WinningPaymentID ?o = Some (UUID ''y1'')"
    by code_simp+
  moreover have "find (\<lambda>p. p_ID p = UUID ''y1'') (db_payments captured_db) = Some ?p" by code_simp
  ultimately show ?thesis using winner_reclaim_requires_refund by metis
qed

end
