(* ===== verification/Commerce_System.thy ===== *)
theory Commerce_System
  imports Service_Safety Order_Safety
begin

text \<open>
  The commerce core as a whole: the operations of the store, the service, the webhook and the reconciler
  as the steps of one system, in any order and with any input, succeeding or failing. The theorems hold
  for every sequence of steps: nothing that was recorded is ever rewritten or lost, and an order that has
  a winning payment keeps it for ever.
\<close>

section \<open>Tables that only grow\<close>

definition grows :: "('r \<Rightarrow> 'r \<Rightarrow> bool) \<Rightarrow> 'r list \<Rightarrow> 'r list \<Rightarrow> bool" where
  "grows R xs ys \<longleftrightarrow> (\<exists>us vs. ys = us @ vs \<and> list_all2 R xs us)"

locale row_evolution =
  fixes R :: "'r \<Rightarrow> 'r \<Rightarrow> bool"
  assumes row_refl: "R r r"
    and row_trans: "R a b \<Longrightarrow> R b c \<Longrightarrow> R a c"
begin

lemma grows_refl: "grows R xs xs"
  unfolding grows_def by (rule exI [of _ xs], rule exI [of _ "[]"]) (simp add: list_all2_refl row_refl)

lemma grows_append: "grows R xs (xs @ ys)"
  unfolding grows_def by (rule exI [of _ xs], rule exI [of _ ys]) (simp add: list_all2_refl row_refl)

lemma grows_upd: "(\<And>r. P r \<Longrightarrow> R r (f r)) \<Longrightarrow> grows R xs (upd_where P f xs)"
  unfolding grows_def
  by (rule exI [of _ "upd_where P f xs"], rule exI [of _ "[]"])
    (auto simp: upd_where_def list_all2_map2 list_all2_same row_refl)

lemma grows_trans:
  assumes "grows R xs ys" "grows R ys zs"
  shows "grows R xs zs"
proof -
  from assms(1) obtain us vs where a: "ys = us @ vs" "list_all2 R xs us" by (auto simp: grows_def)
  from assms(2) a obtain us' vs' where b: "zs = us' @ vs'" "list_all2 R (us @ vs) us'" by (auto simp: grows_def)
  from b(2) obtain p q where c: "us' = p @ q" "list_all2 R us p" by (auto simp: list_all2_append1)
  have "list_all2 R xs p" by (rule list_all2_trans [OF _ a(2) c(2)]) (rule row_trans)
  with b c show ?thesis unfolding grows_def by (intro exI [of _ p] exI [of _ "q @ vs'"]) simp
qed

end

text \<open>What never changes in an order, a payment and a vend line, and that a claimed winner stays.\<close>

definition order_evolves :: "order \<Rightarrow> order \<Rightarrow> bool" where
  "order_evolves a b \<longleftrightarrow>
     o_ID b = o_ID a \<and> o_MachineID b = o_MachineID a \<and> o_Currency b = o_Currency a
     \<and> o_SubtotalMinor b = o_SubtotalMinor a \<and> o_TaxMinor b = o_TaxMinor a \<and> o_TotalMinor b = o_TotalMinor a
     \<and> o_IdempotencyKey b = o_IdempotencyKey a \<and> o_CreatedAt b = o_CreatedAt a
     \<and> (o_WinningPaymentID a \<noteq> None \<longrightarrow> o_WinningPaymentID b = o_WinningPaymentID a)"

definition payment_evolves :: "payment \<Rightarrow> payment \<Rightarrow> bool" where
  "payment_evolves a b \<longleftrightarrow>
     p_ID b = p_ID a \<and> p_OrderID b = p_OrderID a \<and> p_Provider b = p_Provider a \<and> p_AmountMinor b = p_AmountMinor a
     \<and> p_Currency b = p_Currency a \<and> p_IdempotencyKey b = p_IdempotencyKey a \<and> p_AttemptSeq b = p_AttemptSeq a
     \<and> p_CreatedAt b = p_CreatedAt a"

definition vend_evolves :: "vend_row \<Rightarrow> vend_row \<Rightarrow> bool" where
  "vend_evolves a b \<longleftrightarrow>
     v_ID b = v_ID a \<and> v_OrderID b = v_OrderID a \<and> v_MachineID b = v_MachineID a \<and> v_SlotIndex b = v_SlotIndex a
     \<and> v_ProductID b = v_ProductID a \<and> vr_LineSequence b = vr_LineSequence a"

interpretation orders: row_evolution order_evolves
  by unfold_locales (auto simp: order_evolves_def)

interpretation payments: row_evolution payment_evolves
  by unfold_locales (auto simp: payment_evolves_def)

interpretation vends: row_evolution vend_evolves
  by unfold_locales (auto simp: vend_evolves_def)

interpretation journal: row_evolution "(=)"
  by unfold_locales auto

definition history_kept :: "db \<Rightarrow> db \<Rightarrow> bool" where
  "history_kept s t \<longleftrightarrow>
     grows order_evolves (db_orders s) (db_orders t) \<and> grows payment_evolves (db_payments s) (db_payments t)
     \<and> grows vend_evolves (db_vends s) (db_vends t) \<and> grows (=) (db_refunds s) (db_refunds t)
     \<and> grows (=) (db_attempts s) (db_attempts t) \<and> grows (=) (db_provider_events s) (db_provider_events t)
     \<and> grows (=) (db_timelines s) (db_timelines t) \<and> grows (=) (db_ledger s) (db_ledger t)
     \<and> grows (=) (db_evidence s) (db_evidence t) \<and> grows (=) (db_inventory s) (db_inventory t)
     \<and> grows (=) (db_outbox s) (db_outbox t) \<and> grows (=) (db_audit s) (db_audit t)"

lemmas grows_refls = orders.grows_refl payments.grows_refl vends.grows_refl journal.grows_refl
lemmas grows_appends = orders.grows_append payments.grows_append vends.grows_append journal.grows_append

interpretation hist: evolution history_kept
proof
  show "history_kept s s" for s by (simp add: history_kept_def grows_refls)
  show "history_kept s u" if "history_kept s t" "history_kept t u" for s t u
    using that unfolding history_kept_def
    by (meson orders.grows_trans payments.grows_trans vends.grows_trans journal.grows_trans)
qed

section \<open>Statements\<close>

named_theorems hist_intros \<open>statements and operations that keep the history\<close>

abbreviation keeps_history :: "'a q \<Rightarrow> bool" where
  "keeps_history m \<equiv> moves history_kept m"

lemma history_update_orders [hist_intros]:
  "(\<And>now r. P r \<Longrightarrow> order_evolves r (f now r)) \<Longrightarrow> keeps_history (update_one db_orders set_orders P f)"
  by (auto simp: moves_def update_one_def set_orders_def history_kept_def grows_refls intro: orders.grows_upd
      split: option.splits)

lemma history_update_payments [hist_intros]:
  "(\<And>now r. P r \<Longrightarrow> payment_evolves r (f now r)) \<Longrightarrow> keeps_history (update_one db_payments set_payments P f)"
  by (auto simp: moves_def update_one_def set_payments_def history_kept_def grows_refls intro: payments.grows_upd
      split: option.splits)

lemma history_update_vends [hist_intros]:
  "(\<And>now r. P r \<Longrightarrow> vend_evolves r (f now r)) \<Longrightarrow> keeps_history (update_one db_vends set_vends P f)"
  by (auto simp: moves_def update_one_def set_vends_def history_kept_def grows_refls intro: vends.grows_upd
      split: option.splits)

lemma history_other_statements [hist_intros]:
  "keeps_history (update_one db_cases set_cases P f)" "keeps_history gen_uuid" "keeps_history next_serial"
  "keeps_history (select_one tbl Q)" "keeps_history (select_all tbl Q)"
  by (auto simp: moves_def update_one_def set_cases_def gen_uuid_def next_serial_def select_one_def select_all_def
      history_kept_def grows_refls split: option.splits)

lemma history_writes:
  "(\<And>s. history_kept s (f s)) \<Longrightarrow> keeps_history (writes f)"
  by (rule hist.moves_writes)

lemmas [hist_intros] = hist.moves_rules moves_no_rows_as moves_unless_aborted

lemma history_reads [hist_intros]:
  "keeps_history (q_GetLatestPaymentForOrder oid)" "keeps_history (q_GetWinningPaymentForOrder oid)"
  "keeps_history (q_GetFirstVendSessionByOrder oid)"
  by (auto simp: moves_def q_GetLatestPaymentForOrder_def q_GetWinningPaymentForOrder_def q_GetPaymentByID_def
      select_one_def q_GetFirstVendSessionByOrder_def history_kept_def grows_refls split: list.splits option.splits)

lemma history_order_statements [hist_intros]:
  "keeps_history (q_UpdateOrderStatusByOrg st i)" "keeps_history (q_ClaimWinningPayment pid i)"
  unfolding q_UpdateOrderStatusByOrg_def q_ClaimWinningPayment_def
  by (intro hist_intros; simp add: order_evolves_def status_row_def claim_row_def)+

lemma history_payment_statements [hist_intros]:
  "keeps_history (q_UpdatePaymentState i st)" "keeps_history (q_ForceUpdatePaymentStateCaptured i)"
  "keeps_history (q_UpdatePaymentStateForReconciliation st i)" "keeps_history (q_UpdatePaymentOutcome i oc)"
  unfolding q_UpdatePaymentState_def q_ForceUpdatePaymentStateCaptured_def q_UpdatePaymentStateForReconciliation_def
    q_UpdatePaymentOutcome_def
  by (intro hist_intros; simp add: payment_evolves_def)+

lemma history_vend_statements [hist_intros]:
  "keeps_history (q_UpdateVendSessionStateByOrderSlot st fr oid i)"
  "keeps_history (q_UpdateVendSessionStateByOrderLineSequence st fr oid i)"
  "keeps_history (set_verification_where vs P)"
  unfolding q_UpdateVendSessionStateByOrderSlot_def q_UpdateVendSessionStateByOrderLineSequence_def set_verification_where_def
  by (intro hist_intros; simp add: vend_evolves_def vend_state_row_def)+

lemma history_inserts [hist_intros]:
  "keeps_history (writes (\<lambda>s. s\<lparr>db_orders := db_orders s @ [r1]\<rparr>))"
  "keeps_history (writes (\<lambda>s. s\<lparr>db_payments := db_payments s @ [r2]\<rparr>))"
  "keeps_history (writes (\<lambda>s. s\<lparr>db_vends := db_vends s @ [r3]\<rparr>))"
  "keeps_history (writes (\<lambda>s. s\<lparr>db_refunds := db_refunds s @ [r4]\<rparr>))"
  "keeps_history (writes (\<lambda>s. s\<lparr>db_attempts := db_attempts s @ [r5]\<rparr>))"
  "keeps_history (writes (\<lambda>s. s\<lparr>db_provider_events := db_provider_events s @ [r6]\<rparr>))"
  "keeps_history (writes (\<lambda>s. s\<lparr>db_timelines := db_timelines s @ [r7]\<rparr>))"
  "keeps_history (writes (\<lambda>s. s\<lparr>db_ledger := db_ledger s @ [r8]\<rparr>))"
  "keeps_history (writes (\<lambda>s. s\<lparr>db_evidence := db_evidence s @ [r9]\<rparr>))"
  "keeps_history (writes (\<lambda>s. s\<lparr>db_inventory := db_inventory s @ [r10]\<rparr>))"
  "keeps_history (writes (\<lambda>s. s\<lparr>db_outbox := db_outbox s @ [r11]\<rparr>))"
  "keeps_history (writes (\<lambda>s. s\<lparr>db_audit := db_audit s @ [r12]\<rparr>))"
  "keeps_history (writes (\<lambda>s. s\<lparr>db_cases := db_cases s @ [r13]\<rparr>))"
  by (auto intro!: history_writes simp: history_kept_def grows_refls grows_appends)

lemma history_stock_statements [hist_intros]:
  "keeps_history (q_UpsertMachineSlotState r)" "keeps_history (q_RelinkSlotConfig i n)"
  unfolding q_UpsertMachineSlotState_def q_RelinkSlotConfig_def
  by (auto simp: moves_def history_kept_def grows_refls)

lemma history_insert_statements [hist_intros]:
  "keeps_history (q_InsertPaymentAttempt pid ref st payload)"
  "keeps_history (q_InsertOutboxEvent topic et pl ty aid idem sim run scen)"
  "keeps_history (q_InsertOutboxEventIdempotent topic et pl ty aid idem sim run scen)"
  "keeps_history (q_UpsertCommerceReconciliationCase c)" "keeps_history (q_InsertRefundRow rr)"
  "keeps_history (q_InsertPaymentProviderEvent ev)" "keeps_history (q_InsertOrder i created ord)"
  "keeps_history (q_InsertVendSession v)" "keeps_history (q_InsertPayment p)"
  unfolding q_InsertPaymentAttempt_def q_InsertOutboxEventIdempotent_def q_InsertOutboxEvent_def
    q_UpsertCommerceReconciliationCase_def q_InsertRefundRow_def q_InsertPaymentProviderEvent_def q_InsertOrder_def
    q_InsertVendSession_def q_InsertPayment_def Let_def
  by (intro hist_intros)+

section \<open>Operations\<close>

lemma history_maybe_row [hist_intros]: "keeps_history m \<Longrightarrow> keeps_history (maybe_row m)"
  unfolding maybe_row_def by (intro hist_intros)

lemma history_configured [hist_intros]: "keeps_history m \<Longrightarrow> keeps_history (configured b m)"
  unfolding configured_def by (intro hist_intros)

lemma history_ignoring [hist_intros]: "keeps_history m \<Longrightarrow> keeps_history (ignoring b m)"
  unfolding ignoring_def by (intro hist_intros)

lemma history_CreateOrder: "keeps_history (CreateOrderWithVendSession inp)"
  unfolding CreateOrderWithVendSession_def create_order_tx_def find_or_insert_order_def slot_line_or_insert_def
    q_GetOrderByMachineAndIdempotencyKey_def q_GetVendSessionByOrderAndSlot_def
  by (intro hist_intros)

lemma history_CreatePayment [hist_intros]: "keeps_history (CreatePaymentWithOutbox inp)"
  unfolding CreatePaymentWithOutbox_def create_payment_tx_def payment_replay_def payment_event_def bind_attempt_def
    allocatePaymentAttemptSeq_def q_LockOrderForPaymentAttempt_def q_NextPaymentAttemptSeqForOrder_def
    q_GetPaymentByOrderAndIdempotencyKey_def q_GetOutboxByTopicAndIdempotency_def
  by (intro hist_intros)

lemma history_webhook [hist_intros]: "keeps_history (store_ApplyPaymentProviderWebhook a inp)"
proof -
  have replay [hist_intros]: "keeps_history (webhookReplayResultFromEvent b ev inp)" for b ev
    unfolding webhookReplayResultFromEvent_def promoteCapturedOrderIfNeeded_def q_GetPaymentByID_def q_GetOrderByID_def
    by (intro hist_intros)
  have audit [hist_intros]: "keeps_history (auditPaymentWebhookTx a inp b m)" for b m
    unfolding auditPaymentWebhookTx_def Let_def by (intro hist_intros)
  have settle [hist_intros]: "keeps_history (webhook_settle a inp ord pay late ev)" for ord pay late ev
    unfolding webhook_settle_def webhook_claim_def webhook_late_claim_def webhook_outbox_def Let_def
    by (intro hist_intros)
  have stored [hist_intros]: "keeps_history (webhook_record a inp ord pay late)" for ord pay late
    unfolding webhook_record_def webhook_insert_event_def by (intro hist_intros)
  show ?thesis
    unfolding store_ApplyPaymentProviderWebhook_def webhook_tx_def webhook_replay_tx_def webhook_apply_tx_def
      webhook_set_state_def webhookReplayAfterUniqueViolation_def webhookReplayByProviderRef_def
      webhookReplayByWebhookEventID_def q_GetPaymentProviderEventByProviderRef_def
      q_GetPaymentProviderEventByWebhookEventID_def q_GetPaymentByID_def q_GetOrderByID_def Let_def
    by (intro hist_intros)
qed

lemma history_reconciler: "keeps_history (ApplyReconciledPaymentTransition txt inp)"
  unfolding ApplyReconciledPaymentTransition_def reconcile_tx_def q_GetPaymentByID_def q_GetOrderByID_def Let_def
  by (intro hist_intros)

lemma history_sale [hist_intros]:
  "keeps_history (applyCommerceVendSuccessInventoryTx scope mid oid idx line pid key corr)"
proof -
  have codes [hist_intros]: "keeps_history (config_by_codes cfgs idx pid cs)" for cfgs cs
  proof (induction cs)
    case (Cons c cs)
    show ?case unfolding config_by_codes.simps by (intro hist_intros Cons.IH)
  qed (simp only: config_by_codes.simps hist.moves_ret)
  have plan [hist_intros]: "keeps_history (config_by_planogram mid idx pid cs)" for cs
    by (rule hist.moves_read_only [OF keeps_config_by_planogram [of "\<lambda>s. s"]])
  show ?thesis
    unfolding applyCommerceVendSuccessInventoryTx_def resolveVendSlotSnapshot_def resolveVendSlotConfigWithFallbacks_def
      resolveVendLegacyPlanogramID_def resolveMachineGridCols_def record_sale_def vend_of_sale_def q_GetMachineByIDForUpdate_def
      q_GetVendSessionByOrderAndSlot_def q_GetVendSessionByOrderAndLineSequence_def q_CountInventoryEvents_def
      q_ListMachineSlots_def q_ListCurrentSlotConfigs_def q_GetActiveGridCols_def q_GetMachineLegacyPlanogramID_def
      q_GetPublishedPlanogramID_def q_InsertInventoryEvent_def Let_def
    by (intro hist_intros)
qed

lemma history_fulfilment_parts [hist_intros]:
  "keeps_history (lockVendSessionForUpdate oid idx line)" "keeps_history (resolveAuthoritativePaymentRow oid w)"
  "keeps_history (mark_vend_line st fr oid idx line)" "keeps_history (set_verification vs oid idx line)"
  "keeps_history (insertOutboxEventIdempotent prm)" "keeps_history (persistVendHardwareEvidenceTx oid vid mid idx ev key)"
  "keeps_history (emitVendSuccessFinancialLedgerTx mid oid pid amt cur corr key)"
  unfolding lockVendSessionForUpdate_def resolveAuthoritativePaymentRow_def settled_or_latest_def mark_vend_line_def
    set_verification_def insertOutboxEventIdempotent_def persistVendHardwareEvidenceTx_def emitVendSuccessFinancialLedgerTx_def
    q_GetVendSessionByOrderAndSlot_def q_GetVendSessionByOrderAndLineSequence_def q_GetPaymentByID_def q_ListPaymentsForOrder_def
    q_SetVendSessionVerificationStatus_def q_SetVendSessionVerificationStatusByLineSequence_def
    q_GetOutboxByTopicAndIdempotency_def q_InsertVendHardwareEvidence_def q_InsertFinancialLedgerEntry_def Let_def
  by (intro hist_intros)+

lemma history_success [hist_intros]: "keeps_history (FulfillSuccessfulVendAtomically inp)"
proof -
  have records [hist_intros]: "keeps_history (success_records inp ord lv pay a b)" for ord lv pay a b
    unfolding success_records_def success_timeline_def success_reconciliation_def q_InsertOrderTimelineEvent_def Let_def
    by (intro hist_intros)
  show ?thesis
    unfolding FulfillSuccessfulVendAtomically_def success_tx_def success_transition_def settle_order_status_def
      lockSuccessfulVendSessionForUpdate_def q_GetOrderByID_def q_ListVendSessionsByOrder_def Let_def
    by (intro hist_intros)
qed

lemma history_failure [hist_intros]: "keeps_history (FulfillFailedVendAtomically inp)"
  unfolding FulfillFailedVendAtomically_def failed_tx_def fail_records_def fail_refund_flags_def fail_notices_def
    resolveOrderStatusAfterFailedVend_def lockFailedVendSessionForUpdate_def q_GetOrderByID_def q_ListVendSessionsByOrder_def
    q_InsertOrderTimelineEvent_def Let_def
  by (intro hist_intros)

lemma history_store_parts [hist_intros]:
  "keeps_history (GetOrderByID oid)" "keeps_history (UpdateOrderStatus oid cid st)"
  "keeps_history (UpdateVendSessionState prm)" "keeps_history (lookupVendSession oid idx line)"
  "keeps_history (UpdatePaymentOutcome pid oc)" "keeps_history (UpsertReconciliationCase c)"
  "keeps_history (resolveAuthoritativePayment sv oid)" "keeps_history (ClaimWinningPayment pid oid)"
  "keeps_history (GetRefundByOrderIdempotency oid key)" "keeps_history (SumNonFailedRefundAmountForPayment pid)"
  "keeps_history (own_company cid)"
  unfolding GetOrderByID_def UpdateOrderStatus_def UpdateVendSessionState_def lookupVendSession_def
    GetVendSessionByOrderAndSlot_def GetVendSessionByOrderAndLineSequence_def UpdatePaymentOutcome_def
    UpsertReconciliationCase_def resolveAuthoritativePayment_def ClaimWinningPayment_def GetWinningPaymentForOrder_def
    GetLatestPaymentForOrder_def ListPaymentsForOrder_def GetRefundByOrderIdempotency_def
    SumNonFailedRefundAmountForPayment_def q_SumNonFailedRefundAmountForPayment_def q_ListPaymentsForOrder_def
    q_GetVendSessionByOrderAndSlot_def q_GetVendSessionByOrderAndLineSequence_def q_GetOrderByID_def own_company_def
  by (intro hist_intros)+

lemma history_claim [hist_intros]: "keeps_history (AttemptWinningPaymentClaim sv pid oid)"
  unfolding AttemptWinningPaymentClaim_def by (intro hist_intros)

lemma history_advance [hist_intros]: "keeps_history (AdvanceVend sv inp)"
  unfolding AdvanceVend_def settled_for_vend_def by (intro hist_intros)

lemma history_service:
  "keeps_history (StartPaymentWithOutbox sv pin)" "keeps_history (BindPaymentAttempt sv bin)"
  "keeps_history (MarkOrderPaidAfterPaymentCapture sv cid oid)" "keeps_history (CancelOrder sv cid oid)"
  "keeps_history (MarkOrderUnknown sv cid oid)" "keeps_history (svc_ApplyPaymentProviderWebhook a win)"
  "keeps_history (EnsureVendInProgressForPaidOrder sv cid oid idx)" "keeps_history (FinalizeOrderAfterVend sv fin)"
  "keeps_history (CreateRefund sv rin)"
  unfolding StartPaymentWithOutbox_def BindPaymentAttempt_def InsertPaymentAttempt_def MarkOrderPaidAfterPaymentCapture_def
    CancelOrder_def MarkOrderUnknown_def svc_ApplyPaymentProviderWebhook_def EnsureVendInProgressForPaidOrder_def
    GetCheckoutStatus_def getCheckoutStatus_def with_payment_def FinalizeOrderAfterVend_def finalize_success_def
    finalize_failure_def failure_follow_up_def CreateRefund_def request_refund_def InsertRefundRow_def refund_audit_def Let_def
  by (intro hist_intros)+

section \<open>The system\<close>

text \<open>One step is one call of an operation, with any input and whatever its outcome, or the passing of time.\<close>

inductive commerce_step :: "db \<Rightarrow> db \<Rightarrow> bool" where
  create_order: "commerce_step s (snd (CreateOrderWithVendSession inp s))"
| start_payment: "commerce_step s (snd (StartPaymentWithOutbox sv inp s))"
| bind_attempt: "commerce_step s (snd (BindPaymentAttempt sv inp s))"
| webhook: "commerce_step s (snd (svc_ApplyPaymentProviderWebhook a inp s))"
| reconcile: "commerce_step s (snd (ApplyReconciledPaymentTransition txt inp s))"
| claim: "commerce_step s (snd (AttemptWinningPaymentClaim sv pid oid s))"
| mark_paid: "commerce_step s (snd (MarkOrderPaidAfterPaymentCapture sv cid oid s))"
| advance: "commerce_step s (snd (AdvanceVend sv inp s))"
| ensure_started: "commerce_step s (snd (EnsureVendInProgressForPaidOrder sv cid oid idx s))"
| finalize: "commerce_step s (snd (FinalizeOrderAfterVend sv inp s))"
| cancel: "commerce_step s (snd (CancelOrder sv cid oid s))"
| mark_unknown: "commerce_step s (snd (MarkOrderUnknown sv cid oid s))"
| refund: "commerce_step s (snd (CreateRefund sv inp s))"
| tick: "db_now s \<le> n \<Longrightarrow> commerce_step s (s\<lparr>db_now := n\<rparr>)"

lemma step_history: "commerce_step s t \<Longrightarrow> history_kept s t"
proof (induction rule: commerce_step.induct)
  case (tick s n)
  then show ?case by (simp add: history_kept_def grows_refls)
qed (use history_CreateOrder history_reconciler history_claim history_advance history_service in
    \<open>auto simp: moves_def\<close>)


lemma sample_steps: "commerce_step\<^sup>*\<^sup>* unpaid_db (snd (MarkOrderUnknown sample_svc uuid_Nil (UUID ''o1'')
    (snd (svc_ApplyPaymentProviderWebhook True sample_capture unpaid_db))))"
  by (meson converse_rtranclp_into_rtranclp rtranclp.rtrancl_refl webhook mark_unknown)


lemma find_grows:
  assumes "grows order_evolves xs ys" and "find (\<lambda>r. o_ID r = i) xs = Some a"
  shows "\<exists>b. find (\<lambda>r. o_ID r = i) ys = Some b \<and> order_evolves a b"
proof -
  from assms(1) obtain us vs where ys: "ys = us @ vs" and "list_all2 order_evolves xs us" by (auto simp: grows_def)
  from this(2) assms(2) have "\<exists>b. find (\<lambda>r. o_ID r = i) us = Some b \<and> order_evolves a b"
    by (induction rule: list_all2_induct) (auto simp: order_evolves_def split: if_splits)
  with ys show ?thesis by (auto simp: find_append)
qed

text \<open>
  C5: An order is paid for once. Once an order has a winning payment, no sequence of operations, by
  whichever of the webhook, the service and the reconciler, gives it another one or none.
\<close>

theorem winner_is_for_ever:
  assumes "commerce_step\<^sup>*\<^sup>* s t" and "order_winner oid s = Some (Some pid)"
  shows "order_winner oid t = Some (Some pid)"
proof -
  from assms(1) have "history_kept s t"
    by (induction rule: rtranclp_induct) (blast intro: hist.R_refl hist.R_trans step_history)+
  then have g: "grows order_evolves (db_orders s) (db_orders t)" by (simp add: history_kept_def)
  from assms(2) obtain a where "find (\<lambda>r. o_ID r = oid) (db_orders s) = Some a" "o_WinningPaymentID a = Some pid"
    by (auto simp: order_winner_def)
  with find_grows [OF g] show ?thesis by (force simp: order_winner_def order_evolves_def)
qed

theorem winner_is_for_ever_witness:
  "order_winner (UUID ''o1'') (snd (AttemptWinningPaymentClaim sample_svc (UUID ''y2'') (UUID ''o1'') captured_db))
    = Some (Some (UUID ''y1''))"
proof (rule winner_is_for_ever)
  show "commerce_step\<^sup>*\<^sup>* captured_db (snd (AttemptWinningPaymentClaim sample_svc (UUID ''y2'') (UUID ''o1'') captured_db))"
    by (rule r_into_rtranclp [of commerce_step, OF claim])
  show "order_winner (UUID ''o1'') captured_db = Some (Some (UUID ''y1''))" by code_simp
qed

end
