(* ===== verification/Machine_Idempotency.thy ===== *)
theory Machine_Idempotency
  imports Commerce_Types
begin

text \<open>
  The idempotency ledger of machine mutations, \<open>internal/app/machineidempotency\<close>, with the method tables
  of \<open>internal/grpcserver/machine_replay_ledger.go\<close>: a unary call that changes state is recorded under
  (machine, operation, idempotency key) before its handler runs, and the stored response answers every
  repetition.

  A protobuf message is the list of its populated fields in descriptor order. The serialisations of the
  protobuf library and SHA-256 are a record of functions, \<open>codec\<close>. The statements of
  \<open>db/queries/machine_idempotency.sql\<close> act on a table with its own clock, since \<open>now()\<close> is the clock of the
  database while the ledger compares with the clock of the process. Metrics and log lines are left out.
\<close>

section \<open>Protobuf messages\<close>

datatype pval =
    PString string
  | PScalar int
  | PMessage "(string \<times> pval) list"
  | PRepeated "pval list"

record proto_message =
  pm_type :: string
  pm_fields :: "(string \<times> pval) list"

record codec =
  cd_sha256 :: "string \<Rightarrow> string"
  cd_Marshal :: "proto_message \<Rightarrow> string option"
  cd_protojson :: "proto_message \<Rightarrow> json option"
  cd_Unmarshal :: "string \<Rightarrow> json \<Rightarrow> proto_message option"

definition isVolatileTimestampField :: "string \<Rightarrow> bool" where
  "isVolatileTimestampField name \<longleftrightarrow>
     name \<in> {''client_created_at'', ''captured_at'', ''generated_at'', ''occurred_at''}"

fun scrubVolatileFieldsForLedger :: "(string \<times> pval) list \<Rightarrow> (string \<times> pval) list" where
  "scrubVolatileFieldsForLedger [] = []"
| "scrubVolatileFieldsForLedger ((name, PMessage fs) # rest) =
     (if isVolatileTimestampField name then scrubVolatileFieldsForLedger rest
      else (name, PMessage (scrubVolatileFieldsForLedger fs)) # scrubVolatileFieldsForLedger rest)"
| "scrubVolatileFieldsForLedger ((name, PString v) # rest) =
     (if name = ''request_id'' \<or> name = ''client_event_id'' \<or> name = ''simulation_run_id''
      then scrubVolatileFieldsForLedger rest
      else (name, PString v) # scrubVolatileFieldsForLedger rest)"
| "scrubVolatileFieldsForLedger (f # rest) = f # scrubVolatileFieldsForLedger rest"

definition StableProtoHash :: "codec \<Rightarrow> proto_message \<Rightarrow> string option" where
  "StableProtoHash cd msg = map_option (cd_sha256 cd) (cd_Marshal cd msg)"

definition HashMutationRequest :: "codec \<Rightarrow> proto_message \<Rightarrow> string option" where
  "HashMutationRequest cd msg =
     StableProtoHash cd (msg\<lparr>pm_fields := scrubVolatileFieldsForLedger (pm_fields msg)\<rparr>)"

text \<open>
  The search keeps the first key it finds in nested messages; a key field of the message itself replaces
  what was found before it.
\<close>

fun inspectIdempotencyKey :: "string \<Rightarrow> (string \<times> pval) list \<Rightarrow> string" where
  "inspectIdempotencyKey out [] = out"
| "inspectIdempotencyKey out ((name, PString v) # rest) =
     (if name = ''idempotency_key'' then TrimSpace v else inspectIdempotencyKey out rest)"
| "inspectIdempotencyKey out ((name, PMessage fs) # rest) =
     inspectIdempotencyKey (if out \<noteq> [] then out else inspectIdempotencyKey [] fs) rest"
| "inspectIdempotencyKey out (f # rest) = inspectIdempotencyKey out rest"

definition MachineRequestIdempotencyKey :: "proto_message \<Rightarrow> string" where
  "MachineRequestIdempotencyKey msg = inspectIdempotencyKey [] (pm_fields msg)"

fun repeated_strings :: "pval list \<Rightarrow> string list" where
  "repeated_strings [] = []"
| "repeated_strings (PString v # rest) = v # repeated_strings rest"
| "repeated_strings (_ # rest) = repeated_strings rest"

definition GetIdempotencyKeys :: "proto_message \<Rightarrow> string list" where
  "GetIdempotencyKeys msg =
     (case map_of (pm_fields msg) ''idempotency_keys'' of
        Some (PRepeated vs) \<Rightarrow> repeated_strings vs | _ \<Rightarrow> [])"

definition hex_digit :: "nat \<Rightarrow> char" where
  "hex_digit n = (if n < 10 then char_of (48 + n) else char_of (87 + n))"

definition EncodeToString :: "string \<Rightarrow> string" where
  "EncodeToString b = concat (map (\<lambda>c. [hex_digit (code c div 16), hex_digit (code c mod 16)]) b)"

fun str_le :: "string \<Rightarrow> string \<Rightarrow> bool" where
  "str_le [] t \<longleftrightarrow> True"
| "str_le (a # s) [] \<longleftrightarrow> False"
| "str_le (a # s) (b # t) \<longleftrightarrow> code a < code b \<or> (code a = code b \<and> str_le s t)"

fun insert_str :: "string \<Rightarrow> string list \<Rightarrow> string list" where
  "insert_str x [] = [x]"
| "insert_str x (y # ys) = (if str_le x y then x # y # ys else y # insert_str x ys)"

definition sort_Strings :: "string list \<Rightarrow> string list" where
  "sort_Strings xs = foldr insert_str xs []"

definition reconcileEventsSyntheticKey :: "codec \<Rightarrow> string list \<Rightarrow> string" where
  "reconcileEventsSyntheticKey cd keys =
     ''telemetry.reconcile.v1.sha256-'' @
       EncodeToString (cd_sha256 cd (concat (map (\<lambda>k. k @ [char_of (0::nat)]) (sort_Strings (map TrimSpace keys)))))"

definition MutationIdempotencyKey :: "codec \<Rightarrow> proto_message \<Rightarrow> string + string" where
  "MutationIdempotencyKey cd msg =
     (if pm_type msg = ''ReconcileEventsRequest''
      then let keys = GetIdempotencyKeys msg
           in if length keys < 1 \<or> length keys > 500
              then Inl ''reconcile idempotency_keys must contain 1 to 500 entries''
              else if list_ex (\<lambda>k. TrimSpace k = []) keys
              then Inl ''reconcile idempotency_keys must not include empty strings''
              else Inr (reconcileEventsSyntheticKey cd keys)
      else let key = MachineRequestIdempotencyKey msg
           in if TrimSpace key = [] then Inl ''idempotency_key required'' else Inr key)"

section \<open>The table\<close>

record idem_row =
  mi_MachineID :: uuid
  mi_Operation :: string
  mi_IdempotencyKey :: string
  mi_RequestHash :: string
  mi_ResponseSnapshot :: "json option"
  mi_Status :: string
  mi_FirstSeenAt :: time
  mi_LastSeenAt :: time
  mi_ExpiresAt :: time
  mi_TraceID :: string

record ledger_audit =
  la_MachineID :: uuid
  la_Action :: string
  la_Metadata :: json

text \<open>\<open>lg_now\<close> is the clock of the database, \<open>lg_machines\<close> the machines a row may refer to.\<close>

record ledger_db =
  lg_now :: time
  lg_machines :: "uuid list"
  lg_rows :: "idem_row list"
  lg_audit :: "ledger_audit list"

record idem_call =
  ic_Machine :: uuid
  ic_Operation :: string
  ic_Key :: string
  ic_Hash :: string
  ic_TraceID :: string

definition row_of :: "uuid \<Rightarrow> string \<Rightarrow> string \<Rightarrow> idem_row \<Rightarrow> bool" where
  "row_of machine operation key r \<longleftrightarrow>
     mi_MachineID r = machine \<and> mi_Operation r = operation \<and> mi_IdempotencyKey r = key"

definition new_idem_row :: "idem_call \<Rightarrow> time \<Rightarrow> time \<Rightarrow> idem_row" where
  "new_idem_row c exp now =
     \<lparr>mi_MachineID = ic_Machine c, mi_Operation = ic_Operation c, mi_IdempotencyKey = ic_Key c,
      mi_RequestHash = ic_Hash c, mi_ResponseSnapshot = None, mi_Status = ''in_progress'',
      mi_FirstSeenAt = now, mi_LastSeenAt = now, mi_ExpiresAt = exp, mi_TraceID = ic_TraceID c\<rparr>"

definition seen_row :: "idem_call \<Rightarrow> time \<Rightarrow> time \<Rightarrow> idem_row \<Rightarrow> idem_row" where
  "seen_row c exp now r = r\<lparr>mi_LastSeenAt := now, mi_ExpiresAt := exp, mi_TraceID := ic_TraceID c\<rparr>"

text \<open>The row as it is after the statement, and whether the statement inserted it.\<close>

definition q_UpsertMachineIdempotencyKey ::
  "idem_call \<Rightarrow> time \<Rightarrow> ledger_db \<Rightarrow> ((idem_row \<times> bool) \<times> ledger_db) option" where
  "q_UpsertMachineIdempotencyKey c exp s =
     (let P = row_of (ic_Machine c) (ic_Operation c) (ic_Key c)
      in case find P (lg_rows s) of
           Some r \<Rightarrow> Some ((seen_row c exp (lg_now s) r, False),
                           s\<lparr>lg_rows := upd_where P (seen_row c exp (lg_now s)) (lg_rows s)\<rparr>)
         | None \<Rightarrow> if ic_Machine c \<notin> set (lg_machines s) then None
                   else Some ((new_idem_row c exp (lg_now s), True),
                              s\<lparr>lg_rows := lg_rows s @ [new_idem_row c exp (lg_now s)]\<rparr>))"

definition q_DeleteStaleMachineIdempotencyInProgress :: "idem_call \<Rightarrow> time \<Rightarrow> ledger_db \<Rightarrow> ledger_db" where
  "q_DeleteStaleMachineIdempotencyInProgress c cutoff s =
     s\<lparr>lg_rows := filter (\<lambda>r. \<not> (row_of (ic_Machine c) (ic_Operation c) (ic_Key c) r
                              \<and> mi_Status r = ''in_progress'' \<and> mi_LastSeenAt r < cutoff)) (lg_rows s)\<rparr>"

definition q_MarkMachineIdempotencySucceeded ::
  "uuid \<Rightarrow> string \<Rightarrow> string \<Rightarrow> json \<Rightarrow> string \<Rightarrow> ledger_db \<Rightarrow> ledger_db option" where
  "q_MarkMachineIdempotencySucceeded machine operation key snap trace s =
     (if list_ex (row_of machine operation key) (lg_rows s)
      then Some (s\<lparr>lg_rows := upd_where (row_of machine operation key)
             (\<lambda>r. r\<lparr>mi_Status := ''succeeded'', mi_ResponseSnapshot := Some snap, mi_LastSeenAt := lg_now s,
                    mi_TraceID := trace\<rparr>) (lg_rows s)\<rparr>)
      else None)"

definition q_MarkMachineIdempotencyFailed :: "uuid \<Rightarrow> string \<Rightarrow> string \<Rightarrow> string \<Rightarrow> ledger_db \<Rightarrow> ledger_db" where
  "q_MarkMachineIdempotencyFailed machine operation key trace s =
     s\<lparr>lg_rows := upd_where (\<lambda>r. row_of machine operation key r \<and> mi_Status r = ''in_progress'')
        (\<lambda>r. r\<lparr>mi_Status := ''failed'', mi_LastSeenAt := lg_now s, mi_TraceID := trace\<rparr>) (lg_rows s)\<rparr>"

definition q_MarkMachineIdempotencyConflict :: "uuid \<Rightarrow> string \<Rightarrow> string \<Rightarrow> ledger_db \<Rightarrow> ledger_db" where
  "q_MarkMachineIdempotencyConflict machine operation key s =
     s\<lparr>lg_rows := upd_where (row_of machine operation key)
        (\<lambda>r. r\<lparr>mi_Status := ''conflict'', mi_LastSeenAt := lg_now s\<rparr>) (lg_rows s)\<rparr>"

section \<open>The ledger\<close>

datatype grpc_code =
    Canceled | Unknown | InvalidArgument | DeadlineExceeded | NotFound | AlreadyExists | PermissionDenied
  | ResourceExhausted | FailedPrecondition | Aborted | OutOfRange | Unimplemented | Internal | Unavailable
  | DataLoss | Unauthenticated

datatype grpc_status = Status (st_code: grpc_code) (st_msg: string)

record ledger =
  ld_idempotencyTTL :: int
  ld_staleInProgress :: int
  ld_audit :: bool

definition DefaultTTL :: int where
  "DefaultTTL = 24 * 3600 * 1000000000"

definition DefaultInProgressStale :: int where
  "DefaultInProgressStale = 2 * 60 * 1000000000"

definition NewLedger :: "bool \<Rightarrow> ledger" where
  "NewLedger audit = \<lparr>ld_idempotencyTTL = DefaultTTL, ld_staleInProgress = DefaultInProgressStale, ld_audit = audit\<rparr>"

definition stale_age :: "ledger \<Rightarrow> int" where
  "stale_age l = (if ld_staleInProgress l \<le> 0 then DefaultInProgressStale else ld_staleInProgress l)"

definition expiry :: "ledger \<Rightarrow> time \<Rightarrow> time" where
  "expiry l now = now + (if ld_idempotencyTTL l \<le> 0 then DefaultTTL else ld_idempotencyTTL l)"

definition hashFingerprint :: "codec \<Rightarrow> string \<Rightarrow> string" where
  "hashFingerprint cd b = (if b = [] then [] else take 12 (EncodeToString (cd_sha256 cd b)))"

definition recordAudit :: "ledger \<Rightarrow> uuid \<Rightarrow> string \<Rightarrow> (string \<times> json) list \<Rightarrow> ledger_db \<Rightarrow> ledger_db" where
  "recordAudit l machine action meta s =
     (if ld_audit l
      then s\<lparr>lg_audit := lg_audit s @ [\<lparr>la_MachineID = machine, la_Action = action, la_Metadata = JObj meta\<rparr>]\<rparr>
      else s)"

text \<open>The loop of two attempts; \<open>None\<close> is the error of the statement.\<close>

fun upsert_attempts ::
  "nat \<Rightarrow> ledger \<Rightarrow> idem_call \<Rightarrow> time \<Rightarrow> ledger_db \<Rightarrow> (idem_row \<times> bool) option \<times> ledger_db" where
  "upsert_attempts 0 l c now s = (None, s)"
| "upsert_attempts (Suc n) l c now s =
     (case q_UpsertMachineIdempotencyKey c (expiry l now) s of
        None \<Rightarrow> (None, s)
      | Some ((row, inserted), t) \<Rightarrow>
          let cutoff = now - stale_age l
          in if EqualFold (TrimSpace (mi_Status row)) ''in_progress'' \<and> \<not> inserted \<and> mi_LastSeenAt row < cutoff
             then let u = q_DeleteStaleMachineIdempotencyInProgress c cutoff t
                  in if n = 0 then (Some (row, inserted), u) else upsert_attempts n l c now u
             else (Some (row, inserted), t))"

definition conflict_metadata :: "codec \<Rightarrow> idem_call \<Rightarrow> idem_row \<Rightarrow> (string \<times> json) list" where
  "conflict_metadata cd c row =
     [(''idempotency_key'', JStr (ic_Key c)),
      (''idempotency_key_fingerprint'', JStr (hashFingerprint cd (ic_Key c))),
      (''incoming_hash_fingerprint'', JStr (hashFingerprint cd (ic_Hash c))),
      (''operation'', JStr (ic_Operation c)), (''status'', JStr (mi_Status row)),
      (''stored_hash_fingerprint'', JStr (hashFingerprint cd (mi_RequestHash row)))]"

text \<open>The answer for a row whose hash agrees: a stored response, permission to run, or an error.\<close>

definition replay_or_start ::
  "codec \<Rightarrow> (string \<Rightarrow> string option) \<Rightarrow> ledger \<Rightarrow> idem_call \<Rightarrow> time \<Rightarrow> idem_row \<Rightarrow> bool \<Rightarrow> ledger_db \<Rightarrow>
     (grpc_status + proto_message option) \<times> ledger_db" where
  "replay_or_start cd newResponse l c since row inserted s =
     (let st = ToLower (TrimSpace (mi_Status row))
      in if st = ''succeeded''
         then case mi_ResponseSnapshot row of
                None \<Rightarrow> (Inl (Status FailedPrecondition ''idempotency response unavailable''), s)
              | Some snap \<Rightarrow>
                  (case newResponse (ic_Operation c) of
                     None \<Rightarrow> (Inl (Status Internal ''machine idempotency response type unavailable''), s)
                   | Some ty \<Rightarrow>
                       (case cd_Unmarshal cd ty snap of
                          None \<Rightarrow> (Inl (Status Internal ''machine idempotency response decode failed''), s)
                        | Some resp \<Rightarrow>
                            (Inr (Some resp),
                             recordAudit l (ic_Machine c) ''machine.idempotency.replayed''
                               [(''idempotency_key'', JStr (ic_Key c)), (''operation'', JStr (ic_Operation c))] s)))
         else if st = ''in_progress''
         then if inserted then (Inr None, s)
              else if since - mi_LastSeenAt row > stale_age l
              then (Inl (Status FailedPrecondition ''idempotent operation still recovering; retry later''), s)
              else (Inl (Status Aborted ''idempotent operation already in progress''), s)
         else if st = ''failed''
         then (Inl (Status FailedPrecondition ''idempotent operation failed_final; use a new idempotency key''), s)
         else if st = ''conflict''
         then (Inl (Status FailedPrecondition ''idempotency_payload_mismatch''), s)
         else if st = ''expired'' then (Inl (Status FailedPrecondition ''idempotency key expired''), s)
         else (Inl (Status FailedPrecondition ''idempotency key unavailable''), s))"

text \<open>
  \<open>now\<close> is the clock of the process when the call arrives, \<open>since\<close> when the age of a running call is
  computed.
\<close>

definition BeginMutation ::
  "codec \<Rightarrow> (string \<Rightarrow> string option) \<Rightarrow> ledger \<Rightarrow> time \<Rightarrow> time \<Rightarrow> idem_call \<Rightarrow> ledger_db \<Rightarrow>
     (grpc_status + proto_message option) \<times> ledger_db" where
  "BeginMutation cd newResponse l now since call s =
     (let c = call\<lparr>ic_Key := TrimSpace (ic_Key call)\<rparr>
      in case upsert_attempts 2 l c now s of
           (None, t) \<Rightarrow> (Inl (Status Internal ''machine idempotency lookup failed''), t)
         | (Some (row, inserted), t) \<Rightarrow>
             if now > mi_ExpiresAt row then (Inl (Status FailedPrecondition ''idempotency key expired''), t)
             else if mi_RequestHash row \<noteq> ic_Hash c
             then (Inl (Status FailedPrecondition ''idempotency_payload_mismatch''),
                   recordAudit l (ic_Machine c) ''machine.idempotency.conflict'' (conflict_metadata cd c row)
                     (q_MarkMachineIdempotencyConflict (ic_Machine c) (ic_Operation c) (ic_Key c) t))
             else replay_or_start cd newResponse l c since row inserted t)"

definition MarkSucceeded :: "codec \<Rightarrow> idem_call \<Rightarrow> proto_message \<Rightarrow> ledger_db \<Rightarrow> bool \<times> ledger_db" where
  "MarkSucceeded cd c resp s =
     (case cd_protojson cd resp of
        None \<Rightarrow> (False, s)
      | Some snap \<Rightarrow>
          (case q_MarkMachineIdempotencySucceeded (ic_Machine c) (ic_Operation c) (TrimSpace (ic_Key c))
                  (RequiredString (Bytes snap)) (ic_TraceID c) s of
             None \<Rightarrow> (False, s)
           | Some t \<Rightarrow> (True, t)))"

definition MarkFailed :: "idem_call \<Rightarrow> ledger_db \<Rightarrow> ledger_db" where
  "MarkFailed c s = q_MarkMachineIdempotencyFailed (ic_Machine c) (ic_Operation c) (TrimSpace (ic_Key c)) (ic_TraceID c) s"

section \<open>Which methods take part\<close>

datatype machine_service =
    MachineCommerceService
  | MachineInventoryService
  | MachineSaleService
  | MachineOperatorService
  | MachineTelemetryService
  | MachineBootstrapService
  | MachineCatalogService
  | MachineMediaService
  | MachineCommandService
  | MachineOfflineSyncService

fun service_name :: "machine_service \<Rightarrow> string" where
  "service_name MachineCommerceService = ''MachineCommerceService''"
| "service_name MachineInventoryService = ''MachineInventoryService''"
| "service_name MachineSaleService = ''MachineSaleService''"
| "service_name MachineOperatorService = ''MachineOperatorService''"
| "service_name MachineTelemetryService = ''MachineTelemetryService''"
| "service_name MachineBootstrapService = ''MachineBootstrapService''"
| "service_name MachineCatalogService = ''MachineCatalogService''"
| "service_name MachineMediaService = ''MachineMediaService''"
| "service_name MachineCommandService = ''MachineCommandService''"
| "service_name MachineOfflineSyncService = ''MachineOfflineSyncService''"

definition full_method :: "machine_service \<times> string \<Rightarrow> string" where
  "full_method m = (case m of (service, name) \<Rightarrow> ''/avf.machine.v1.'' @ service_name service @ ''/'' @ name)"

definition canonical_methods :: "((machine_service \<times> string) \<times> (machine_service \<times> string)) list" where
  "canonical_methods =
     [((MachineCommerceService, ''CreateCashCheckout''), (MachineCommerceService, ''ConfirmCashPayment'')),
      ((MachineCommerceService, ''AttachPaymentResult''), (MachineCommerceService, ''CreatePaymentSession'')),
      ((MachineCommerceService, ''ReportVendSuccess''), (MachineCommerceService, ''ConfirmVendSuccess'')),
      ((MachineInventoryService, ''SubmitFillReport''), (MachineInventoryService, ''SubmitFillResult'')),
      ((MachineInventoryService, ''SubmitStockAdjustment''), (MachineInventoryService, ''SubmitInventoryAdjustment''))]"

definition canonicalMachineMutationOperation :: "string \<Rightarrow> string" where
  "canonicalMachineMutationOperation m =
     (case find (\<lambda>(a, b). full_method a = m) canonical_methods of None \<Rightarrow> m | Some (a, b) \<Rightarrow> full_method b)"

definition idempotent_mutations :: "(machine_service \<times> string) list" where
  "idempotent_mutations =
     [(MachineCommerceService, ''CreateQuote''), (MachineCommerceService, ''CreateOrderFromQuote''),
      (MachineCommerceService, ''CreateOrder''), (MachineCommerceService, ''CreatePaymentSession''),
      (MachineCommerceService, ''AttachPaymentResult''), (MachineCommerceService, ''ConfirmCashPayment''),
      (MachineCommerceService, ''CreateCashCheckout''), (MachineCommerceService, ''StartVend''),
      (MachineCommerceService, ''ConfirmVendSuccess''), (MachineCommerceService, ''ReportVendSuccess''),
      (MachineCommerceService, ''ReportVendFailure''), (MachineCommerceService, ''CancelOrder''),
      (MachineCommerceService, ''MarkOrderUnknown''), (MachineSaleService, ''CreateSale''),
      (MachineSaleService, ''AttachPayment''), (MachineSaleService, ''ConfirmCashReceived''),
      (MachineSaleService, ''StartVend''), (MachineSaleService, ''CompleteVend''),
      (MachineSaleService, ''FailVend''), (MachineSaleService, ''CancelSale''),
      (MachineInventoryService, ''PushInventoryDelta''),
      (MachineInventoryService, ''SubmitStockSnapshot''), (MachineInventoryService, ''SubmitFillResult''),
      (MachineInventoryService, ''SubmitFillReport''), (MachineInventoryService, ''SubmitRestock''),
      (MachineInventoryService, ''SubmitInventoryAdjustment''),
      (MachineInventoryService, ''SubmitStockAdjustment''),
      (MachineOperatorService, ''SubmitFillReport''), (MachineOperatorService, ''SubmitStockAdjustment''),
      (MachineOperatorService, ''HeartbeatOperatorSession''), (MachineTelemetryService, ''CheckIn''),
      (MachineTelemetryService, ''SubmitTelemetryBatch''),
      (MachineTelemetryService, ''PushTelemetryBatch''), (MachineTelemetryService, ''PushCriticalEvent''),
      (MachineTelemetryService, ''ReconcileEvents''), (MachineBootstrapService, ''CheckIn''),
      (MachineBootstrapService, ''AckConfigVersion''), (MachineCatalogService, ''AckCatalogVersion''),
      (MachineInventoryService, ''AckInventorySync''), (MachineMediaService, ''AckMediaVersion''),
      (MachineCommandService, ''ReportUpdateStatus''),
      (MachineCommandService, ''ReportDiagnosticBundleResult'')]"

definition isMachineIdempotentMutation :: "string \<Rightarrow> bool" where
  "isMachineIdempotentMutation m \<longleftrightarrow> list_ex (\<lambda>x. full_method x = m) idempotent_mutations"

definition response_types :: "((machine_service \<times> string) \<times> string) list" where
  "response_types =
     [((MachineCommerceService, ''CreateQuote''), ''CreateQuoteResponse''),
      ((MachineCommerceService, ''CreateOrderFromQuote''), ''CreateOrderFromQuoteResponse''),
      ((MachineCommerceService, ''CreateOrder''), ''CreateOrderResponse''),
      ((MachineCommerceService, ''CreatePaymentSession''), ''CreatePaymentSessionResponse''),
      ((MachineCommerceService, ''ConfirmCashPayment''), ''ConfirmCashPaymentResponse''),
      ((MachineCommerceService, ''StartVend''), ''StartVendResponse''),
      ((MachineCommerceService, ''ConfirmVendSuccess''), ''ConfirmVendSuccessResponse''),
      ((MachineCommerceService, ''ReportVendSuccess''), ''ReportVendSuccessResponse''),
      ((MachineCommerceService, ''ReportVendFailure''), ''ReportVendFailureResponse''),
      ((MachineCommerceService, ''CancelOrder''), ''CancelOrderResponse''),
      ((MachineCommerceService, ''MarkOrderUnknown''), ''MarkOrderUnknownResponse''),
      ((MachineSaleService, ''CreateSale''), ''CreateSaleResponse''),
      ((MachineSaleService, ''AttachPayment''), ''AttachPaymentResponse''),
      ((MachineSaleService, ''ConfirmCashReceived''), ''ConfirmCashReceivedResponse''),
      ((MachineSaleService, ''StartVend''), ''StartVendResponse''),
      ((MachineSaleService, ''CompleteVend''), ''ConfirmVendSuccessResponse''),
      ((MachineSaleService, ''FailVend''), ''ReportVendFailureResponse''),
      ((MachineSaleService, ''CancelSale''), ''CancelOrderResponse''),
      ((MachineInventoryService, ''PushInventoryDelta''), ''ReportInventoryDeltaResponse''),
      ((MachineInventoryService, ''SubmitStockSnapshot''), ''SubmitStockSnapshotResponse''),
      ((MachineInventoryService, ''SubmitFillResult''), ''SubmitFillResultResponse''),
      ((MachineInventoryService, ''SubmitRestock''), ''SubmitRestockResponse''),
      ((MachineInventoryService, ''SubmitInventoryAdjustment''), ''SubmitInventoryAdjustmentResponse''),
      ((MachineOperatorService, ''SubmitFillReport''), ''SubmitFillReportResponse''),
      ((MachineOperatorService, ''SubmitStockAdjustment''), ''SubmitStockAdjustmentResponse''),
      ((MachineOperatorService, ''HeartbeatOperatorSession''), ''HeartbeatOperatorSessionResponse''),
      ((MachineTelemetryService, ''CheckIn''), ''CheckInResponse''),
      ((MachineTelemetryService, ''SubmitTelemetryBatch''), ''SubmitTelemetryBatchResponse''),
      ((MachineTelemetryService, ''PushTelemetryBatch''), ''PushTelemetryBatchResponse''),
      ((MachineTelemetryService, ''PushCriticalEvent''), ''PushCriticalEventResponse''),
      ((MachineTelemetryService, ''ReconcileEvents''), ''ReconcileEventsResponse''),
      ((MachineOfflineSyncService, ''PushOfflineEvents''), ''SyncOfflineEventsResponse''),
      ((MachineBootstrapService, ''CheckIn''), ''MachineBootstrapServiceCheckInResponse''),
      ((MachineBootstrapService, ''AckConfigVersion''), ''AckConfigVersionResponse''),
      ((MachineCatalogService, ''AckCatalogVersion''), ''AckCatalogVersionResponse''),
      ((MachineInventoryService, ''AckInventorySync''), ''AckInventorySyncResponse''),
      ((MachineMediaService, ''AckMediaVersion''), ''AckMediaVersionResponse''),
      ((MachineCommandService, ''ReportUpdateStatus''), ''ReportUpdateStatusResponse''),
      ((MachineCommandService, ''ReportDiagnosticBundleResult''), ''ReportDiagnosticBundleResultResponse'')]"

text \<open>\<open>None\<close> is the panic of the code for a method without a response type.\<close>

definition newMachineMutationResponse :: "string \<Rightarrow> string option" where
  "newMachineMutationResponse m =
     map_option snd (find (\<lambda>(a, ty). full_method a = canonicalMachineMutationOperation m) response_types)"

section \<open>The interceptor\<close>

record interceptor_config =
  cf_IsIdempotentMutation :: "string \<Rightarrow> bool"
  cf_NewMutationResponse :: "string \<Rightarrow> string option"
  cf_CanonicalOperation :: "string \<Rightarrow> string"
  cf_Decorate :: "proto_message \<Rightarrow> proto_message"

definition shouldMarkLedgerRowFailed :: "grpc_status \<Rightarrow> bool" where
  "shouldMarkLedgerRowFailed e \<longleftrightarrow>
     st_code e \<notin> {Unknown, Aborted, ResourceExhausted, Internal, Unavailable}"

definition ledger_operation :: "interceptor_config \<Rightarrow> string \<Rightarrow> string" where
  "ledger_operation cfg fullMethod =
     (let c = TrimSpace (cf_CanonicalOperation cfg fullMethod) in if c \<noteq> [] then c else fullMethod)"

text \<open>A call as it arrives: the machine of its credentials and the request, when it is a message.\<close>

record unary_call =
  uc_FullMethod :: string
  uc_Machine :: "uuid option"
  uc_Request :: "proto_message option"
  uc_TraceID :: string

definition ledger_call :: "codec \<Rightarrow> interceptor_config \<Rightarrow> unary_call \<Rightarrow> grpc_status + idem_call" where
  "ledger_call cd cfg uc =
     (case uc_Machine uc of
        None \<Rightarrow> Inl (Status Unauthenticated ''missing machine credentials'')
      | Some machine \<Rightarrow>
          (case uc_Request uc of
             None \<Rightarrow> Inl (Status InvalidArgument ''invalid machine mutation request'')
           | Some pm \<Rightarrow>
               (case MutationIdempotencyKey cd pm of
                  Inl msg \<Rightarrow> Inl (Status InvalidArgument msg)
                | Inr key \<Rightarrow>
                    (case HashMutationRequest cd pm of
                       None \<Rightarrow> Inl (Status InvalidArgument ''request hash failed'')
                     | Some hash \<Rightarrow>
                         Inr \<lparr>ic_Machine = machine, ic_Operation = ledger_operation cfg (uc_FullMethod uc),
                              ic_Key = key, ic_Hash = hash, ic_TraceID = uc_TraceID uc\<rparr>))))"

text \<open>
  The part before the handler: an answer, or the call that the handler runs for. The part after it takes
  what the handler returned, where \<open>None\<close> is a response that is no message.
\<close>

datatype begun = Answered "grpc_status + proto_message" | Started idem_call

definition intercept_begin ::
  "codec \<Rightarrow> interceptor_config \<Rightarrow> ledger \<Rightarrow> time \<Rightarrow> time \<Rightarrow> unary_call \<Rightarrow> ledger_db \<Rightarrow> begun \<times> ledger_db" where
  "intercept_begin cd cfg l now since uc s =
     (case ledger_call cd cfg uc of
        Inl e \<Rightarrow> (Answered (Inl e), s)
      | Inr c \<Rightarrow>
          (case BeginMutation cd (cf_NewMutationResponse cfg) l now since c s of
             (Inl e, t) \<Rightarrow> (Answered (Inl e), t)
           | (Inr (Some replay), t) \<Rightarrow> (Answered (Inr (cf_Decorate cfg replay)), t)
           | (Inr None, t) \<Rightarrow> (Started c, t)))"

definition intercept_end ::
  "codec \<Rightarrow> idem_call \<Rightarrow> grpc_status + proto_message option \<Rightarrow> ledger_db \<Rightarrow> (grpc_status + proto_message) \<times> ledger_db" where
  "intercept_end cd c outcome s =
     (case outcome of
        Inl e \<Rightarrow> (Inl e, if shouldMarkLedgerRowFailed e then MarkFailed c s else s)
      | Inr None \<Rightarrow> (Inl (Status Internal ''machine mutation response is not protobuf''), MarkFailed c s)
      | Inr (Some resp) \<Rightarrow>
          (case MarkSucceeded cd c resp s of
             (True, t) \<Rightarrow> (Inr resp, t)
           | (False, t) \<Rightarrow> (Inl (Status FailedPrecondition ''machine_idempotency_finalize_failed''), MarkFailed c t)))"

text \<open>The state is the ledger's database and whatever the handlers work on.\<close>

definition UnaryServerInterceptor ::
  "codec \<Rightarrow> interceptor_config \<Rightarrow> ledger option \<Rightarrow> time \<Rightarrow> time \<Rightarrow> unary_call \<Rightarrow>
     ('w \<Rightarrow> (grpc_status + proto_message option) \<times> 'w) \<Rightarrow> ledger_db \<times> 'w \<Rightarrow>
     (grpc_status + proto_message option) \<times> ledger_db \<times> 'w" where
  "UnaryServerInterceptor cd cfg ledger now since uc handler = (\<lambda>(s, w).
     (case ledger of
        None \<Rightarrow> (case handler w of (r, v) \<Rightarrow> (r, s, v))
      | Some l \<Rightarrow>
          if \<not> cf_IsIdempotentMutation cfg (uc_FullMethod uc)
          then (case handler w of (r, v) \<Rightarrow> (r, s, v))
          else (case intercept_begin cd cfg l now since uc s of
                  (Answered r, t) \<Rightarrow> (map_sum id Some r, t, w)
                | (Started c, t) \<Rightarrow>
                    (case handler w of (outcome, v) \<Rightarrow>
                       (case intercept_end cd c outcome t of (r, u) \<Rightarrow> (map_sum id Some r, u, v))))))"

end
