(* ===== verification/Ledger_Safety.thy ===== *)
theory Ledger_Safety
  imports Machine_Idempotency
begin

text \<open>
  What the idempotency ledger guarantees when calls overlap. A handler may run for as long as it likes
  between the two parts of the interceptor, so a run is a sequence of events: the clock of the database is
  set, a call arrives, a started call ends. A process that dies is a started call that never ends.
\<close>

section \<open>Starting at most once\<close>

text \<open>A run of a labelled step relation: its events and the labels of the steps that have one.\<close>

inductive labelled_run ::
  "('s \<Rightarrow> 'e \<Rightarrow> 'k option \<Rightarrow> 's \<Rightarrow> bool) \<Rightarrow> 's \<Rightarrow> 'e list \<Rightarrow> 'k list \<Rightarrow> 's \<Rightarrow> bool"
  for step where
  run_nil: "labelled_run step s [] [] s"
| run_quiet: "step s e None t \<Longrightarrow> labelled_run step t es ks u \<Longrightarrow> labelled_run step s (e # es) ks u"
| run_label: "step s e (Some k) t \<Longrightarrow> labelled_run step t es ks u \<Longrightarrow> labelled_run step s (e # es) (k # ks) u"

inductive_cases labelled_run_NilE: "labelled_run step s [] ks u"
inductive_cases labelled_run_ConsE: "labelled_run step s (e # es) ks u"

text \<open>
  The contract of a gate that lets a call pass only when it is the first of its name: a step labelled with
  a name enters a name that was not seen before, and no step forgets a name.
\<close>

locale once_gate =
  fixes seen :: "'s \<Rightarrow> 'k set"
    and step :: "'s \<Rightarrow> 'e \<Rightarrow> 'k option \<Rightarrow> 's \<Rightarrow> bool"
  assumes enters_fresh: "step s e (Some k) t \<Longrightarrow> k \<notin> seen s \<and> k \<in> seen t"
    and remembers: "step s e r t \<Longrightarrow> seen s \<subseteq> seen t"
begin

lemma passes_once: "labelled_run step s es ks t \<Longrightarrow> distinct ks \<and> set ks \<inter> seen s = {}"
proof (induction rule: labelled_run.induct)
  case (run_quiet s e t es ks u)
  then show ?case using remembers by blast
next
  case (run_label s e k t es ks u)
  then show ?case using remembers enters_fresh by fastforce
qed simp

end

section \<open>Rows of the table\<close>

type_synonym call_name = "uuid \<times> string \<times> string"

definition call_id :: "idem_call \<Rightarrow> call_name" where
  "call_id c = (ic_Machine c, ic_Operation c, TrimSpace (ic_Key c))"

definition row_id :: "idem_row \<Rightarrow> call_name" where
  "row_id r = (mi_MachineID r, mi_Operation r, mi_IdempotencyKey r)"

definition idem_lookup :: "ledger_db \<Rightarrow> call_name \<Rightarrow> idem_row option" where
  "idem_lookup s i = find (\<lambda>r. row_id r = i) (lg_rows s)"

text \<open>The clock of the process is at most the patience of the ledger ahead of the clock of the database.\<close>

definition in_step :: "ledger \<Rightarrow> time \<Rightarrow> ledger_db \<Rightarrow> bool" where
  "in_step l now s \<longleftrightarrow> now \<le> lg_now s + stale_age l"

lemma row_of_iff: "row_of m p k r \<longleftrightarrow> row_id r = (m, p, k)"
  by (auto simp: row_of_def row_id_def)

lemma row_of_fun: "row_of m p k = (\<lambda>r. row_id r = (m, p, k))"
  by (simp add: row_of_iff fun_eq_iff)

lemma row_id_seen [simp]: "row_id (seen_row c e n r) = row_id r"
  by (simp add: row_id_def seen_row_def)

lemma row_id_new [simp]: "row_id (new_idem_row c e n) = (ic_Machine c, ic_Operation c, ic_Key c)"
  by (simp add: row_id_def new_idem_row_def)

lemma expiry_later: "now < expiry l now"
  by (simp add: expiry_def DefaultTTL_def)

text \<open>The statement refreshes the row it finds, so in step the row is never stale and never expired.\<close>

lemma upsert_in_step:
  assumes "in_step l now s"
  shows "upsert_attempts 2 l c now s =
    (case idem_lookup s (ic_Machine c, ic_Operation c, ic_Key c) of
       Some r \<Rightarrow> (Some (seen_row c (expiry l now) (lg_now s) r, False),
          s\<lparr>lg_rows := upd_where (\<lambda>q. row_id q = (ic_Machine c, ic_Operation c, ic_Key c))
                       (seen_row c (expiry l now) (lg_now s)) (lg_rows s)\<rparr>)
     | None \<Rightarrow> if ic_Machine c \<in> set (lg_machines s)
               then (Some (new_idem_row c (expiry l now) (lg_now s), True),
                     s\<lparr>lg_rows := lg_rows s @ [new_idem_row c (expiry l now) (lg_now s)]\<rparr>)
               else (None, s))"
  using assms
  by (auto simp: numeral_2_eq_2 q_UpsertMachineIdempotencyKey_def idem_lookup_def row_of_fun in_step_def
      seen_row_def Let_def split: option.splits)

lemma idem_lookup_rows: "idem_lookup (s\<lparr>lg_rows := rows\<rparr>) i = find (\<lambda>r. row_id r = i) rows"
  by (simp add: idem_lookup_def)

lemma idem_lookup_upd:
  assumes "\<And>r. row_id (f r) = row_id r" and "\<And>r. P r \<Longrightarrow> row_id r = j"
  shows "find (\<lambda>r. row_id r = i) (upd_where P f rows) =
    (if i = j then map_option (\<lambda>r. if P r then f r else r) (find (\<lambda>r. row_id r = i) rows)
     else find (\<lambda>r. row_id r = i) rows)"
  using assms by (induction rows) (auto simp: upd_where_def)

section \<open>One call\<close>

definition core :: "idem_row \<Rightarrow> string \<times> string \<times> json option" where
  "core r = (mi_RequestHash r, mi_Status r, mi_ResponseSnapshot r)"

definition standing :: "ledger_db \<Rightarrow> call_name \<Rightarrow> (string \<times> string \<times> json option) option" where
  "standing s i = map_option core (idem_lookup s i)"

lemma standing_clock [simp]:
  "standing (s\<lparr>lg_now := n\<rparr>) i = standing s i" "standing (s\<lparr>lg_machines := ms\<rparr>) i = standing s i"
  "standing (s\<lparr>lg_audit := a\<rparr>) i = standing s i"
  by (simp_all add: standing_def idem_lookup_def)

lemma standing_audit [simp]: "standing (recordAudit l m a meta s) i = standing s i"
  by (simp add: recordAudit_def)

text \<open>An update of one name that looks at the core of a row and rewrites it.\<close>

lemma standing_where:
  assumes "\<And>r. row_id (f r) = row_id r" and "\<And>r. core (f r) = g (core r)"
    and "\<And>r. P r \<longleftrightarrow> row_id r = j \<and> Q (core r)"
  shows "standing (s\<lparr>lg_rows := upd_where P f (lg_rows s)\<rparr>) i =
    (if i = j then map_option (\<lambda>x. if Q x then g x else x) (standing s i) else standing s i)"
proof -
  have "map_option core (find (\<lambda>r. row_id r = i) (upd_where P f rows)) =
      (if i = j then map_option (\<lambda>x. if Q x then g x else x) (map_option core (find (\<lambda>r. row_id r = i) rows))
       else map_option core (find (\<lambda>r. row_id r = i) rows))" for rows
    using assms by (induction rows) auto
  then show ?thesis by (simp add: standing_def idem_lookup_def)
qed

lemma core_seen [simp]: "core (seen_row c e n r) = core r"
  by (simp add: core_def seen_row_def)

lemma standing_seen [simp]:
  "standing (s\<lparr>lg_rows := upd_where (\<lambda>q. row_id q = j) (seen_row c e n) (lg_rows s)\<rparr>) i = standing s i"
  by (subst standing_where [where g = id and Q = "\<lambda>_. True" and j = j]) (simp_all add: option.map_ident)

lemma standing_append:
  "standing (s\<lparr>lg_rows := lg_rows s @ [r]\<rparr>) i =
     (case standing s i of None \<Rightarrow> if row_id r = i then Some (core r) else None | Some x \<Rightarrow> Some x)"
  by (auto simp: standing_def idem_lookup_rows find_append idem_lookup_def split: option.splits)

lemma standing_conflict:
  "standing (q_MarkMachineIdempotencyConflict m p k s) i =
     (if i = (m, p, k) then map_option (\<lambda>(h, st, snap). (h, ''conflict'', snap)) (standing s i) else standing s i)"
  unfolding q_MarkMachineIdempotencyConflict_def row_of_fun
  by (subst standing_where [where Q = "\<lambda>_. True" and j = "(m, p, k)" and g = "\<lambda>(h, st, snap). (h, ''conflict'', snap)"])
     (simp_all add: row_id_def core_def)

lemma standing_failed:
  "standing (q_MarkMachineIdempotencyFailed m p k tr s) i =
     (if i = (m, p, k)
      then map_option (\<lambda>(h, st, snap). (h, if st = ''in_progress'' then ''failed'' else st, snap)) (standing s i)
      else standing s i)"
  unfolding q_MarkMachineIdempotencyFailed_def row_of_fun
  by (subst standing_where [where Q = "\<lambda>(h, st, snap). st = ''in_progress''" and j = "(m, p, k)"
        and g = "\<lambda>(h, st, snap). (h, ''failed'', snap)"])
     (auto simp: row_id_def core_def intro!: option.map_cong)

lemma standing_succeeded:
  "q_MarkMachineIdempotencySucceeded m p k snap tr s = Some t \<Longrightarrow>
     standing t i = (if i = (m, p, k) then map_option (\<lambda>(h, _). (h, ''succeeded'', Some snap)) (standing s i)
                     else standing s i)"
  unfolding q_MarkMachineIdempotencySucceeded_def row_of_fun
  using standing_where [where Q = "\<lambda>_. True" and j = "(m, p, k)" and P = "\<lambda>r. row_id r = (m, p, k)"
      and g = "\<lambda>(h, _). (h, ''succeeded'', Some snap)"
      and f = "\<lambda>r. r\<lparr>mi_Status := ''succeeded'', mi_ResponseSnapshot := Some snap, mi_LastSeenAt := lg_now s, mi_TraceID := tr\<rparr>"
      and s = s and i = i]
  by (auto simp: row_id_def core_def split: if_splits)

lemma replay_or_start_standing:
  "replay_or_start cd nr l c since row b s = (r, t) \<Longrightarrow> standing t i = standing s i"
  by (auto simp: replay_or_start_def Let_def split: if_splits option.splits)

text \<open>What a call finds under its name decides what it gets and what it leaves behind.\<close>

lemma begin_unknown:
  assumes "in_step l now s" and "standing s (call_id c) = None"
  shows "BeginMutation cd nr l now since c s =
    (if ic_Machine c \<in> set (lg_machines s)
     then (Inr None, s\<lparr>lg_rows := lg_rows s @ [new_idem_row (c\<lparr>ic_Key := TrimSpace (ic_Key c)\<rparr>) (expiry l now) (lg_now s)]\<rparr>)
     else (Inl (Status Internal ''machine idempotency lookup failed''), s))"
  using assms(2) expiry_later [of now l]
  by (simp add: BeginMutation_def Let_def upsert_in_step [OF assms(1)] standing_def call_id_def)
     (simp add: new_idem_row_def replay_or_start_def str_simps)

lemma begin_known:
  assumes "in_step l now s" and "idem_lookup s (call_id c) = Some row"
  shows "BeginMutation cd nr l now since c s =
    (let c' = c\<lparr>ic_Key := TrimSpace (ic_Key c)\<rparr>; row' = seen_row c' (expiry l now) (lg_now s) row;
         t = s\<lparr>lg_rows := upd_where (\<lambda>q. row_id q = call_id c) (seen_row c' (expiry l now) (lg_now s)) (lg_rows s)\<rparr>
     in if mi_RequestHash row \<noteq> ic_Hash c
        then (Inl (Status FailedPrecondition ''idempotency_payload_mismatch''),
              recordAudit l (ic_Machine c) ''machine.idempotency.conflict'' (conflict_metadata cd c' row')
                (q_MarkMachineIdempotencyConflict (ic_Machine c) (ic_Operation c) (TrimSpace (ic_Key c)) t))
        else replay_or_start cd nr l c' since row' False t)"
  using assms(2) expiry_later [of now l]
  by (simp add: BeginMutation_def Let_def upsert_in_step [OF assms(1)] call_id_def)
     (simp add: seen_row_def)

lemma begin_standing:
  assumes "in_step l now s" and "BeginMutation cd nr l now since c s = (r, t)"
  shows "standing t i =
    (if i \<noteq> call_id c then standing s i
     else case standing s i of
       None \<Rightarrow> if ic_Machine c \<in> set (lg_machines s) then Some (ic_Hash c, ''in_progress'', None) else None
     | Some (h, st, snap) \<Rightarrow> if h = ic_Hash c then Some (h, st, snap) else Some (h, ''conflict'', snap))"
proof (cases "idem_lookup s (call_id c)")
  case None
  then have "standing s (call_id c) = None" by (simp add: standing_def)
  with assms(2) begin_unknown [OF assms(1) this] show ?thesis
    by (auto simp: standing_append call_id_def new_idem_row_def row_id_def core_def split: if_splits option.splits)
next
  case (Some row)
  then have "standing s (call_id c) = Some (core row)" by (simp add: standing_def)
  with assms(2) begin_known [OF assms(1) Some] show ?thesis
    by (auto simp: Let_def standing_conflict core_def call_id_def split: if_splits dest!: replay_or_start_standing)
qed

lemma begin_starts_unknown:
  assumes "in_step l now s" and "BeginMutation cd nr l now since c s = (Inr None, t)"
  shows "standing s (call_id c) = None \<and> ic_Machine c \<in> set (lg_machines s)"
proof (cases "idem_lookup s (call_id c)")
  case None
  then have "standing s (call_id c) = None" by (simp add: standing_def)
  with assms(2) begin_unknown [OF assms(1) this] show ?thesis by (simp split: if_splits)
next
  case (Some row)
  with assms(2) begin_known [OF assms(1) Some] show ?thesis
    by (auto simp: Let_def replay_or_start_def split: if_splits option.splits)
qed

section \<open>Runs\<close>

datatype ledger_event =
    ClockSet time "uuid list"
  | Arrives unary_call time time
  | Ends idem_call "grpc_status + proto_message option"

inductive ledger_step ::
  "codec \<Rightarrow> interceptor_config \<Rightarrow> ledger \<Rightarrow> ledger_db \<Rightarrow> ledger_event \<Rightarrow> call_name option \<Rightarrow> ledger_db \<Rightarrow> bool"
  for cd cfg l where
  clock_set: "ledger_step cd cfg l s (ClockSet n ms) None (s\<lparr>lg_now := n, lg_machines := ms\<rparr>)"
| call_answered: "in_step l now s \<Longrightarrow> intercept_begin cd cfg l now since uc s = (Answered r, t) \<Longrightarrow>
     ledger_step cd cfg l s (Arrives uc now since) None t"
| call_started: "in_step l now s \<Longrightarrow> intercept_begin cd cfg l now since uc s = (Started c, t) \<Longrightarrow>
     ledger_step cd cfg l s (Arrives uc now since) (Some (call_id c)) t"
| call_ended: "intercept_end cd c outcome s = (r, t) \<Longrightarrow> ledger_step cd cfg l s (Ends c outcome) None t"

inductive_cases ledger_step_cases: "ledger_step cd cfg l s e r t"

definition names_seen :: "ledger_db \<Rightarrow> call_name set" where
  "names_seen s = {i. standing s i \<noteq> None}"

lemma MarkFailed_standing:
  "standing (MarkFailed c s) i =
     (if i = call_id c
      then map_option (\<lambda>(h, st, snap). (h, if st = ''in_progress'' then ''failed'' else st, snap)) (standing s i)
      else standing s i)"
  by (simp add: MarkFailed_def standing_failed call_id_def)

lemma MarkSucceeded_other: "MarkSucceeded cd c resp s = (b, t) \<Longrightarrow> i \<noteq> call_id c \<Longrightarrow> standing t i = standing s i"
  by (auto simp: MarkSucceeded_def call_id_def standing_succeeded split: option.splits)

lemma MarkSucceeded_known: "MarkSucceeded cd c resp s = (b, t) \<Longrightarrow> standing t i = None \<longleftrightarrow> standing s i = None"
  by (auto simp: MarkSucceeded_def standing_succeeded split: option.splits if_splits)

lemma intercept_end_other: "intercept_end cd c outcome s = (r, t) \<Longrightarrow> i \<noteq> call_id c \<Longrightarrow> standing t i = standing s i"
  by (auto simp: intercept_end_def MarkFailed_standing MarkSucceeded_other
      split: sum.splits option.splits prod.splits bool.splits if_splits)

lemma intercept_end_known: "intercept_end cd c outcome s = (r, t) \<Longrightarrow> standing t i = None \<longleftrightarrow> standing s i = None"
  by (auto simp: intercept_end_def MarkFailed_standing MarkSucceeded_known
      split: sum.splits option.splits prod.splits bool.splits if_splits)

lemma intercept_begin_standing:
  assumes "in_step l now s" and "intercept_begin cd cfg l now since uc s = (b, t)"
  shows "standing t i =
    (case ledger_call cd cfg uc of
       Inl e \<Rightarrow> standing s i
     | Inr c \<Rightarrow>
         if i \<noteq> call_id c then standing s i
         else case standing s i of
           None \<Rightarrow> if ic_Machine c \<in> set (lg_machines s) then Some (ic_Hash c, ''in_progress'', None) else None
         | Some (h, st, snap) \<Rightarrow> if h = ic_Hash c then Some (h, st, snap) else Some (h, ''conflict'', snap))"
  using assms(2)
  by (auto simp: intercept_begin_def begin_standing [OF assms(1)] split: sum.splits prod.splits option.splits)

lemma intercept_begin_started:
  assumes "in_step l now s" and "intercept_begin cd cfg l now since uc s = (Started c, t)"
  shows "ledger_call cd cfg uc = Inr c \<and> standing s (call_id c) = None
    \<and> standing t (call_id c) = Some (ic_Hash c, ''in_progress'', None)"
proof -
  from assms(2) have "ledger_call cd cfg uc = Inr c \<and> standing s (call_id c) = None \<and> ic_Machine c \<in> set (lg_machines s)"
    by (auto simp: intercept_begin_def split: sum.splits prod.splits option.splits
        dest: begin_starts_unknown [OF assms(1)])
  with intercept_begin_standing [OF assms, of "call_id c"] show ?thesis by simp
qed

lemma ledger_step_known:
  assumes "ledger_step cd cfg l s e r t" and "standing s i \<noteq> None"
  shows "standing t i \<noteq> None"
  using assms(1)
proof (cases rule: ledger_step.cases)
  case (call_ended c outcome r')
  then show ?thesis using assms(2) intercept_end_known by metis
qed (use assms(2) in \<open>auto simp: intercept_begin_standing split: sum.splits\<close>)

interpretation ledger_gate: once_gate names_seen "ledger_step cd cfg l" for cd cfg l
proof
  fix s e k t
  assume "ledger_step cd cfg l s e (Some k) t"
  then show "k \<notin> names_seen s \<and> k \<in> names_seen t"
    by (cases rule: ledger_step_cases) (auto simp: names_seen_def dest: intercept_begin_started)
next
  fix s e r t
  assume "ledger_step cd cfg l s e r t"
  then show "names_seen s \<subseteq> names_seen t"
    using ledger_step_known unfolding names_seen_def by blast
qed

text \<open>
  Events that do not disturb a name with a given request hash: calls of the name repeat the hash, and no
  started call of the name ends.
\<close>

fun undisturbed :: "codec \<Rightarrow> interceptor_config \<Rightarrow> call_name \<Rightarrow> string \<Rightarrow> ledger_event \<Rightarrow> bool" where
  "undisturbed cd cfg i h (ClockSet n ms) \<longleftrightarrow> True"
| "undisturbed cd cfg i h (Arrives uc now since) \<longleftrightarrow>
     (case ledger_call cd cfg uc of Inl e \<Rightarrow> True | Inr c \<Rightarrow> call_id c \<noteq> i \<or> ic_Hash c = h)"
| "undisturbed cd cfg i h (Ends c outcome) \<longleftrightarrow> call_id c \<noteq> i"

lemma undisturbed_step:
  assumes "ledger_step cd cfg l s e r t" and "undisturbed cd cfg i h e" and "standing s i = Some (h, st, snap)"
  shows "standing t i = Some (h, st, snap)"
  using assms(1)
proof (cases rule: ledger_step.cases)
  case (call_ended c outcome r')
  with assms(2,3) show ?thesis by (simp add: intercept_end_other [of cd c outcome s r' t i])
qed (use assms(2,3) in \<open>auto simp: intercept_begin_standing split: sum.splits\<close>)

lemma undisturbed_run:
  "labelled_run (ledger_step cd cfg l) s es ks t \<Longrightarrow> list_all (undisturbed cd cfg i h) es \<Longrightarrow>
     standing s i = Some (h, st, snap) \<Longrightarrow> standing t i = Some (h, st, snap)"
  by (induction rule: labelled_run.induct) (auto dest: undisturbed_step)

text \<open>What the interceptor answers for a name it knows.\<close>

lemma intercept_begin_known:
  assumes "in_step l now s" and "ledger_call cd cfg uc = Inr c" and "standing s (call_id c) = Some (h, st, snap)"
    and "ic_Hash c = h"
  shows "\<exists>t. intercept_begin cd cfg l now since uc s =
    ((if ToLower (TrimSpace st) = ''succeeded''
      then Answered (case snap of
          None \<Rightarrow> Inl (Status FailedPrecondition ''idempotency response unavailable'')
        | Some j \<Rightarrow> (case cf_NewMutationResponse cfg (ic_Operation c) of
             None \<Rightarrow> Inl (Status Internal ''machine idempotency response type unavailable'')
           | Some ty \<Rightarrow> (case cd_Unmarshal cd ty j of
                None \<Rightarrow> Inl (Status Internal ''machine idempotency response decode failed'')
              | Some resp \<Rightarrow> Inr (cf_Decorate cfg resp))))
      else if ToLower (TrimSpace st) = ''in_progress''
      then Answered (Inl (if since - lg_now s > stale_age l
             then Status FailedPrecondition ''idempotent operation still recovering; retry later''
             else Status Aborted ''idempotent operation already in progress''))
      else if ToLower (TrimSpace st) = ''failed''
      then Answered (Inl (Status FailedPrecondition ''idempotent operation failed_final; use a new idempotency key''))
      else if ToLower (TrimSpace st) = ''conflict''
      then Answered (Inl (Status FailedPrecondition ''idempotency_payload_mismatch''))
      else if ToLower (TrimSpace st) = ''expired''
      then Answered (Inl (Status FailedPrecondition ''idempotency key expired''))
      else Answered (Inl (Status FailedPrecondition ''idempotency key unavailable''))), t)"
proof -
  obtain row where row: "idem_lookup s (call_id c) = Some row" "core row = (h, st, snap)"
    using assms(3) by (auto simp: standing_def)
  with assms(2,4) show ?thesis
    by (auto simp: intercept_begin_def begin_known [OF assms(1) row(1)] core_def Let_def replay_or_start_def
        seen_row_def split: option.splits)
qed

section \<open>Guarantees\<close>


text \<open>
  C15: A completed mutation answers its repetitions. After a call that succeeded, and any run that neither
  reuses its key for another request nor ends it again, a repetition of the request gets the stored
  response, marked as a replay, and the handler does not run.
\<close>

theorem stored_response_answers_retries:
  assumes first: "UnaryServerInterceptor cd cfg (Some l) now0 since0 uc0 handler (s0, w0) = (Inr (Some resp), s, w)"
    and name0: "ledger_call cd cfg uc0 = Inr c0" "standing s0 (call_id c0) = None" "in_step l now0 s0"
    and mutation: "cf_IsIdempotentMutation cfg (uc_FullMethod uc0)" "cf_IsIdempotentMutation cfg (uc_FullMethod uc)"
    and run: "labelled_run (ledger_step cd cfg l) s es ks t" "list_all (undisturbed cd cfg (call_id c0) (ic_Hash c0)) es"
    and codec: "cf_NewMutationResponse cfg (ic_Operation c0) = Some ty"
      "\<And>snap. cd_protojson cd resp = Some snap \<Longrightarrow> cd_Unmarshal cd ty (RequiredString (Bytes snap)) = Some resp"
    and retry: "ledger_call cd cfg uc = Inr c" "call_id c = call_id c0" "ic_Hash c = ic_Hash c0" "in_step l now t"
  shows "\<exists>u. UnaryServerInterceptor cd cfg (Some l) now since uc handler2 (t, w2) =
           (Inr (Some (cf_Decorate cfg resp)), u, w2)"
proof -
  obtain b u where beg: "intercept_begin cd cfg l now0 since0 uc0 s0 = (b, u)" by force
  from name0 have row0: "ic_Machine c0 \<in> set (lg_machines s0) \<Longrightarrow> b = Started c0"
    and none: "ic_Machine c0 \<notin> set (lg_machines s0) \<Longrightarrow> \<exists>e. b = Answered (Inl e)"
    using beg begin_unknown [OF name0(3,2), of cd "cf_NewMutationResponse cfg" since0]
    by (auto simp: intercept_begin_def)
  have started: "b = Started c0"
    using first mutation beg none row0
    by (cases "ic_Machine c0 \<in> set (lg_machines s0)") (auto simp: UnaryServerInterceptor_def)
  obtain outcome v where h: "handler w0 = (outcome, v)" by force
  obtain r s' where e: "intercept_end cd c0 outcome u = (r, s')" by force
  from first mutation beg started h e have "map_sum id Some r = Inr (Some resp)" "s' = s"
    by (auto simp: UnaryServerInterceptor_def)
  then have r: "r = Inr resp" and e: "intercept_end cd c0 outcome u = (Inr resp, s)"
    using e by (cases r; auto)+
  then obtain snap where snap: "cd_protojson cd resp = Some snap" and
    mark: "q_MarkMachineIdempotencySucceeded (ic_Machine c0) (ic_Operation c0) (TrimSpace (ic_Key c0))
             (RequiredString (Bytes snap)) (ic_TraceID c0) u = Some s"
    by (auto simp: intercept_end_def MarkSucceeded_def split: sum.splits option.splits prod.splits bool.splits)
  have "standing u (call_id c0) = Some (ic_Hash c0, ''in_progress'', None)"
    using intercept_begin_started [OF name0(3)] beg started by blast
  then have "standing s (call_id c0) = Some (ic_Hash c0, ''succeeded'', Some (RequiredString (Bytes snap)))"
    using standing_succeeded [OF mark, of "call_id c0"] by (simp add: call_id_def)
  from undisturbed_run [OF run this]
  have "standing t (call_id c) = Some (ic_Hash c0, ''succeeded'', Some (RequiredString (Bytes snap)))"
    by (simp add: retry(2))
  moreover have "ic_Operation c = ic_Operation c0" using retry(2) by (simp add: call_id_def)
  ultimately show ?thesis
    using intercept_begin_known [OF retry(4,1) _ retry(3), of "''succeeded''" _ since] codec snap mutation
    by (auto simp: UnaryServerInterceptor_def str_simps)
qed

text \<open>
  An abandoned mutation blocks its key for ever. When a started call never ends, however long ago it was
  last seen, every repetition that the two clocks agree on is refused with \<open>Aborted\<close> and leaves the name
  in progress: the statement that looks for the row also refreshes it, so the row is never found stale.
\<close>

theorem abandoned_call_blocks_key:
  assumes "standing s i = Some (h, ''in_progress'', snap)"
    and "labelled_run (ledger_step cd cfg l) s es ks t" and "list_all (undisturbed cd cfg i h) es"
    and "ledger_call cd cfg uc = Inr c" and "call_id c = i" and "ic_Hash c = h"
    and "in_step l now t" and "since \<le> lg_now t + stale_age l"
  shows "\<exists>u. intercept_begin cd cfg l now since uc t =
           (Answered (Inl (Status Aborted ''idempotent operation already in progress'')), u)
         \<and> standing u i = Some (h, ''in_progress'', snap)"
proof -
  from undisturbed_run [OF assms(2,3,1)] have st: "standing t (call_id c) = Some (h, ''in_progress'', snap)"
    by (simp add: assms(5))
  from intercept_begin_known [OF assms(7,4) st assms(6), of since] assms(8)
  obtain u where u: "intercept_begin cd cfg l now since uc t =
      (Answered (Inl (Status Aborted ''idempotent operation already in progress'')), u)"
    by (auto simp: str_simps)
  with intercept_begin_standing [OF assms(7) u, of i] assms st show ?thesis by simp
qed

text \<open>
  One request with a wrong body takes a stored response away. When a call reuses a known key for another
  request it is refused, and from then on the original request is refused too, even if it had succeeded.
\<close>

theorem mismatch_revokes_response:
  assumes "standing s i = Some (h, st, snap)"
    and "ledger_call cd cfg bad = Inr b" and "call_id b = i" and "ic_Hash b \<noteq> h" and "in_step l now1 s"
    and "intercept_begin cd cfg l now1 since1 bad s = (r, s1)"
    and "labelled_run (ledger_step cd cfg l) s1 es ks t" and "list_all (undisturbed cd cfg i h) es"
    and "ledger_call cd cfg uc = Inr c" and "call_id c = i" and "ic_Hash c = h" and "in_step l now t"
  shows "\<exists>u. intercept_begin cd cfg l now since uc t =
           (Answered (Inl (Status FailedPrecondition ''idempotency_payload_mismatch'')), u)"
proof -
  from intercept_begin_standing [OF assms(5,6), of i] assms(1-4)
  have "standing s1 i = Some (h, ''conflict'', snap)" by simp
  from undisturbed_run [OF assms(7,8) this] have "standing t (call_id c) = Some (h, ''conflict'', snap)"
    by (simp add: assms(10))
  from intercept_begin_known [OF assms(12,9) this assms(11), of since] show ?thesis by (simp add: str_simps)
qed

lemma full_method_inj [simp]: "full_method m = full_method n \<longleftrightarrow> m = n"
  by (cases m; cases n; cases "fst m"; cases "fst n") (simp_all add: full_method_def)

lemma find_full_method: "find (\<lambda>(a, b). full_method a = full_method m) xs = find (\<lambda>(a, b). a = m) xs"
  by simp

definition canonical_pair :: "machine_service \<times> string \<Rightarrow> machine_service \<times> string" where
  "canonical_pair m = (case find (\<lambda>(a, b). a = m) canonical_methods of None \<Rightarrow> m | Some (a, b) \<Rightarrow> b)"

lemma canonical_full_method: "canonicalMachineMutationOperation (full_method m) = full_method (canonical_pair m)"
  by (auto simp: canonicalMachineMutationOperation_def canonical_pair_def split: option.splits)

text \<open>
  C28: Every mutation the ledger covers can be answered from it: its canonical operation is covered, is its
  own canonical operation, and has a response type, so the lookup of the type never panics.
\<close>

theorem mutation_table_total:
  assumes "isMachineIdempotentMutation m"
  shows "isMachineIdempotentMutation (canonicalMachineMutationOperation m)
    \<and> canonicalMachineMutationOperation (canonicalMachineMutationOperation m) = canonicalMachineMutationOperation m
    \<and> (\<exists>ty. newMachineMutationResponse (canonicalMachineMutationOperation m) = Some ty)"
proof -
  have table: "list_all (\<lambda>p. list_ex (\<lambda>x. x = canonical_pair p) idempotent_mutations
      \<and> canonical_pair (canonical_pair p) = canonical_pair p
      \<and> \<not> Option.is_none (find (\<lambda>(a, ty). a = canonical_pair p) response_types)) idempotent_mutations"
    by code_simp
  obtain p where p: "m = full_method p" "p \<in> set idempotent_mutations"
    using assms by (auto simp: isMachineIdempotentMutation_def list_ex_iff)
  with table show ?thesis
    by (auto simp: list_all_iff canonical_full_method isMachineIdempotentMutation_def
        newMachineMutationResponse_def list_ex_iff Option.is_none_def)
qed

section \<open>A sample ledger\<close>

definition sample_codec :: codec where
  "sample_codec =
     \<lparr>cd_sha256 = rev,
      cd_Marshal = (\<lambda>m. Some (concat (map (\<lambda>(n, v). case v of PString x \<Rightarrow> n @ x | _ \<Rightarrow> n) (pm_fields m)))),
      cd_protojson = (\<lambda>m. Some (JObj (map (\<lambda>(n, v). (n, case v of PString x \<Rightarrow> JStr x | _ \<Rightarrow> JNull)) (pm_fields m)))),
      cd_Unmarshal = (\<lambda>ty j. case j of
          JObj kvs \<Rightarrow> Some \<lparr>pm_type = ty, pm_fields = map (\<lambda>(n, v). (n, case v of JStr x \<Rightarrow> PString x | _ \<Rightarrow> PScalar 0)) kvs\<rparr>
        | _ \<Rightarrow> None)\<rparr>"

definition sample_cfg :: interceptor_config where
  "sample_cfg =
     \<lparr>cf_IsIdempotentMutation = isMachineIdempotentMutation, cf_NewMutationResponse = newMachineMutationResponse,
      cf_CanonicalOperation = canonicalMachineMutationOperation, cf_Decorate = id\<rparr>"

definition sample_machine :: uuid where
  "sample_machine = UUID ''m''"

definition sample_method :: string where
  "sample_method = full_method (MachineCommerceService, ''CancelOrder'')"

definition sample_unary :: "string \<Rightarrow> string \<Rightarrow> unary_call" where
  "sample_unary orderID requestID =
     \<lparr>uc_FullMethod = sample_method, uc_Machine = Some sample_machine,
      uc_Request = Some \<lparr>pm_type = ''CancelOrderRequest'', pm_fields =
        [(''idempotency_key'', PString ''k''), (''request_id'', PString requestID), (''order_id'', PString orderID)]\<rparr>,
      uc_TraceID = requestID\<rparr>"

definition sample_response :: proto_message where
  "sample_response = \<lparr>pm_type = ''CancelOrderResponse'', pm_fields = [(''order_status'', PString ''cancelled'')]\<rparr>"

definition sample_ledger_db :: ledger_db where
  "sample_ledger_db = \<lparr>lg_now = 0, lg_machines = [sample_machine], lg_rows = [], lg_audit = []\<rparr>"

definition sample_idem_call :: "string \<Rightarrow> string \<Rightarrow> idem_call" where
  "sample_idem_call orderID requestID =
     \<lparr>ic_Machine = sample_machine, ic_Operation = sample_method, ic_Key = ''k'',
      ic_Hash = rev (''idempotency_keykorder_id'' @ orderID), ic_TraceID = requestID\<rparr>"

definition sample_started_db :: ledger_db where
  "sample_started_db = snd (intercept_begin sample_codec sample_cfg (NewLedger True) 0 0 (sample_unary ''o'' ''r1'') sample_ledger_db)"

definition sample_done_db :: ledger_db where
  "sample_done_db = snd (intercept_end sample_codec (sample_idem_call ''o'' ''r1'') (Inr (Some sample_response)) sample_started_db)"

definition day :: time where
  "day = 24 * 3600 * 1000000000"

text \<open>The request identifier is volatile: two deliveries of a request have the same name and hash.\<close>

lemma sample_call: "ledger_call sample_codec sample_cfg (sample_unary ''o'' ''r1'') = Inr (sample_idem_call ''o'' ''r1'')"
    "ledger_call sample_codec sample_cfg (sample_unary ''o'' ''r2'') = Inr (sample_idem_call ''o'' ''r2'')"
    "ledger_call sample_codec sample_cfg (sample_unary ''p'' ''r3'') = Inr (sample_idem_call ''p'' ''r3'')"
  by code_simp+

lemma sample_start:
  "intercept_begin sample_codec sample_cfg (NewLedger True) 0 0 (sample_unary ''o'' ''r1'') sample_ledger_db =
     (Started (sample_idem_call ''o'' ''r1''), sample_started_db)"
proof -
  have "fst (intercept_begin sample_codec sample_cfg (NewLedger True) 0 0 (sample_unary ''o'' ''r1'') sample_ledger_db)
      = Started (sample_idem_call ''o'' ''r1'')" by code_simp
  then show ?thesis by (simp add: prod_eq_iff sample_started_db_def)
qed

lemma sample_end:
  "intercept_end sample_codec (sample_idem_call ''o'' ''r1'') (Inr (Some sample_response)) sample_started_db =
     (Inr sample_response, sample_done_db)"
proof -
  have "fst (intercept_end sample_codec (sample_idem_call ''o'' ''r1'') (Inr (Some sample_response)) sample_started_db)
      = Inr sample_response" by code_simp
  then show ?thesis by (simp add: prod_eq_iff sample_done_db_def)
qed

lemma sample_in_step: "in_step (NewLedger True) 0 sample_ledger_db"
    "in_step (NewLedger True) day (s\<lparr>lg_now := day, lg_machines := ms\<rparr>)" "in_step (NewLedger True) 0 sample_done_db"
  by (simp_all add: in_step_def NewLedger_def stale_age_def DefaultInProgressStale_def)
     code_simp+

lemma sample_next_day:
  "labelled_run (ledger_step cd cfg l) s [ClockSet day ms] [] (s\<lparr>lg_now := day, lg_machines := ms\<rparr>)"
  by (rule run_quiet, rule clock_set, rule run_nil)

lemma sample_ids: "call_id (sample_idem_call x r) = (sample_machine, sample_method, ''k'')"
    "ic_Hash (sample_idem_call x r) = rev (''idempotency_keykorder_id'' @ x)"
  by (simp_all add: call_id_def sample_idem_call_def str_simps)

lemma sample_standing:
  "standing sample_ledger_db (sample_machine, sample_method, ''k'') = None"
  "standing sample_started_db (sample_machine, sample_method, ''k'') = Some (rev ''idempotency_keykorder_ido'', ''in_progress'', None)"
  "standing sample_done_db (sample_machine, sample_method, ''k'') =
     Some (rev ''idempotency_keykorder_ido'', ''succeeded'', Some (JObj [(''order_status'', JStr ''cancelled'')]))"
  by code_simp+


theorem stored_response_answers_retries_witness:
  "\<exists>u. UnaryServerInterceptor sample_codec sample_cfg (Some (NewLedger True)) day day (sample_unary ''o'' ''r2'')
         (\<lambda>w. (Inl (Status Internal ''not run''), w + 1))
         (sample_done_db\<lparr>lg_now := day, lg_machines := [sample_machine]\<rparr>, (1::int)) =
       (Inr (Some sample_response), u, 1)"
proof -
  have mut: "cf_IsIdempotentMutation sample_cfg (uc_FullMethod (sample_unary ''o'' r))" for r
    by (simp add: sample_cfg_def sample_unary_def sample_method_def isMachineIdempotentMutation_def
        idempotent_mutations_def)
  have first: "UnaryServerInterceptor sample_codec sample_cfg (Some (NewLedger True)) 0 0 (sample_unary ''o'' ''r1'')
      (\<lambda>w. (Inr (Some sample_response), w + 1)) (sample_ledger_db, 0::int) = (Inr (Some sample_response), sample_done_db, 1)"
    by (simp add: UnaryServerInterceptor_def mut sample_start sample_end)
  have ty: "cf_NewMutationResponse sample_cfg (ic_Operation (sample_idem_call ''o'' ''r1'')) = Some ''CancelOrderResponse''"
    by code_simp
  have codec: "cd_Unmarshal sample_codec ''CancelOrderResponse'' (RequiredString (Bytes snap)) = Some sample_response"
    if "cd_protojson sample_codec sample_response = Some snap" for snap
    using that by (auto simp: sample_codec_def sample_response_def RequiredString_def)
  have "cf_Decorate sample_cfg sample_response = sample_response" by (simp add: sample_cfg_def)
  then show ?thesis
    using stored_response_answers_retries [OF first sample_call(1) _ sample_in_step(1) mut mut sample_next_day _ ty codec
        sample_call(2) _ _ sample_in_step(2)]
    by (simp add: sample_ids sample_standing)
qed

theorem abandoned_call_blocks_key_witness:
  "\<exists>u. intercept_begin sample_codec sample_cfg (NewLedger True) day day (sample_unary ''o'' ''r2'')
         (sample_started_db\<lparr>lg_now := day, lg_machines := [sample_machine]\<rparr>) =
       (Answered (Inl (Status Aborted ''idempotent operation already in progress'')), u)"
  using abandoned_call_blocks_key [OF sample_standing(2) sample_next_day _ sample_call(2) _ _ sample_in_step(2), where since = day]
  by (simp add: sample_ids NewLedger_def stale_age_def DefaultInProgressStale_def) blast

theorem mismatch_revokes_response_witness:
  "\<exists>u. intercept_begin sample_codec sample_cfg (NewLedger True) day day (sample_unary ''o'' ''r2'')
         (snd (intercept_begin sample_codec sample_cfg (NewLedger True) 0 0 (sample_unary ''p'' ''r3'') sample_done_db)
            \<lparr>lg_now := day, lg_machines := [sample_machine]\<rparr>) =
       (Answered (Inl (Status FailedPrecondition ''idempotency_payload_mismatch'')), u)"
  using mismatch_revokes_response [OF sample_standing(3) sample_call(3) _ _ sample_in_step(3) surjective_pairing
      sample_next_day _ sample_call(2) _ _ sample_in_step(2)]
  by (simp add: sample_ids)

theorem mutation_table_total_witness:
  "\<exists>ty. newMachineMutationResponse (canonicalMachineMutationOperation
     (full_method (MachineCommerceService, ''ReportVendSuccess''))) = Some ty"
proof -
  have "isMachineIdempotentMutation (full_method (MachineCommerceService, ''ReportVendSuccess''))"
    by (simp add: isMachineIdempotentMutation_def idempotent_mutations_def)
  from mutation_table_total [OF this] show ?thesis by blast
qed

end
