(* ===== verification/Cash_Movements.thy ===== *)
theory Cash_Movements
  imports Commerce_Service
begin

text \<open>
  The cash evidence of a machine, \<open>internal/modules/postgres/cash_forensic.go\<close> with
  \<open>internal/app/commerce/cash_movement_identity.go\<close> and \<open>cash_forensic_service.go\<close>: the identity under which
  one physical bill is recorded, the batch of movements a machine reports, the binding of bills to an order
  and operator adjustments, over the statements of \<open>db/queries/cash_forensic.sql\<close> and
  \<open>financial_correctness.sql\<close>. A statement fails when a \<open>CHECK\<close>, a foreign key or a unique index other than
  the one it names in \<open>ON CONFLICT\<close> forbids the row; with \<open>DO NOTHING\<close> a repeated row is \<open>ErrNoRows\<close>.
\<close>

section \<open>The identity of a bill\<close>

definition isIctHexDeviceEventID :: "string \<Rightarrow> bool" where
  "isIctHexDeviceEventID v \<longleftrightarrow> length v = 6 \<and> list_all is_hex v"

definition cashEpisodeDigits :: "string \<Rightarrow> bool" where
  "cashEpisodeDigits v \<longleftrightarrow> list_all is_digit v"

definition is_colon :: "char \<Rightarrow> bool" where
  "is_colon c \<longleftrightarrow> c = CHR '':''"

text \<open>What stands before and after the last colon.\<close>

definition last_colon :: "string \<Rightarrow> (string \<times> string) option" where
  "last_colon s =
     (case dropWhile (\<lambda>c. \<not> is_colon c) (rev s) of
        [] \<Rightarrow> None
      | _ # r \<Rightarrow> Some (rev r, rev (takeWhile (\<lambda>c. \<not> is_colon c) (rev s))))"

definition CanonicalizeCashMovementDeviceEventID :: "string \<Rightarrow> string" where
  "CanonicalizeCashMovementDeviceEventID deviceEventID =
     (let i = TrimSpace deviceEventID
      in if i = [] then i
         else case last_colon i of
                None \<Rightarrow> i
              | Some (head, tail) \<Rightarrow>
                  if head = [] \<or> tail = [] \<or> length tail > 8 \<or> \<not> cashEpisodeDigits tail then i
                  else let hexPart = (case last_colon head of None \<Rightarrow> head | Some (_, t) \<Rightarrow> t)
                       in if \<not> isIctHexDeviceEventID hexPart then i else head)"

definition shouldPrefixCashMovementBoot :: "string \<Rightarrow> bool" where
  "shouldPrefixCashMovementBoot deviceEventID =
     (let i = TrimSpace deviceEventID
      in if list_ex (HasPrefix i) [''payout:'', ''bill_reject:'', ''record_ambiguous:'', ''returned:'',
               ''escrow:'', ''fault:'', ''stacked:'', ''stored:''] then False
         else if isIctHexDeviceEventID i then True
         else if length (takeWhile (\<lambda>c. \<not> is_colon c) i) \<noteq> 6 \<or> length i = 6 \<or> \<not> isIctHexDeviceEventID (take 6 i) then False
         else drop 7 i \<noteq> [] \<and> list_all is_digit (drop 7 i))"

definition QualifyCashMovementDeviceEventID :: "string \<Rightarrow> string \<Rightarrow> string" where
  "QualifyCashMovementDeviceEventID deviceEventID bootID =
     (let i = CanonicalizeCashMovementDeviceEventID deviceEventID; boot = TrimSpace bootID
      in if i = [] \<or> boot = [] then i
         else if HasPrefix i (boot @ '':'') then i
         else if \<not> shouldPrefixCashMovementBoot i then i
         else boot @ '':'' @ i)"

section \<open>Statements\<close>

definition machine_known :: "uuid \<Rightarrow> uuid option \<Rightarrow> unit q" where
  "machine_known machineID orderID =
     bnd (reads (\<lambda>s. machineID \<in> set (db_machines s)
                   \<and> (case orderID of None \<Rightarrow> True | Some i \<Rightarrow> list_ex (\<lambda>r. o_ID r = i) (db_orders s)))) (\<lambda>ok.
       guard ok (GoErr ErrOther ''foreign key violation''))"

text \<open>\<open>INSERT ... ON CONFLICT ... DO NOTHING RETURNING\<close>.\<close>

definition insert_or_nothing ::
  "bool \<Rightarrow> ('r \<Rightarrow> bool) \<Rightarrow> ('r \<Rightarrow> bool) \<Rightarrow> (db \<Rightarrow> 'r list) \<Rightarrow> unit q \<Rightarrow> (db \<Rightarrow> db) \<Rightarrow> unit q" where
  "insert_or_nothing checks same clash tbl refs add =
     (if \<not> checks then raise (Err ErrCheckViolation)
      else bnd (reads (\<lambda>s. list_ex same (tbl s))) (\<lambda>known.
        if known then raise (Err ErrNoRows)
        else bnd (reads (\<lambda>s. list_ex clash (tbl s))) (\<lambda>other.
          if other then raise (Err ErrUniqueViolation) else seq refs (writes add))))"

definition q_InsertCashAcceptanceEvent :: "cash_acceptance \<Rightarrow> unit q" where
  "q_InsertCashAcceptanceEvent row =
     insert_or_nothing (ca_DenominationMinor row > 0 \<and> length (ca_Currency row) \<le> 3)
       (\<lambda>r. ca_MachineID r = ca_MachineID row \<and> ca_DeviceEventID r = ca_DeviceEventID row) (\<lambda>_. False)
       db_acceptances (machine_known (ca_MachineID row) (ca_OrderID row))
       (\<lambda>s. s\<lparr>db_acceptances := db_acceptances s @ [row]\<rparr>)"

definition lifecycle_types :: "string list" where
  "lifecycle_types = [''escrow_held'', ''returned_customer'', ''transfer_to_escrow'', ''transfer_to_cashbox'',
     ''record_ambiguous'', ''fault'']"

definition q_InsertCashBillLifecycleEvent :: "cash_lifecycle \<Rightarrow> unit q" where
  "q_InsertCashBillLifecycleEvent row =
     insert_or_nothing (cy_LifecycleType row \<in> set lifecycle_types \<and> cy_DenominationMinor row \<ge> 0 \<and> length (cy_Currency row) \<le> 3)
       (\<lambda>r. cy_MachineID r = cy_MachineID row \<and> cy_DeviceEventID r = cy_DeviceEventID row) (\<lambda>_. False)
       db_lifecycle (machine_known (cy_MachineID row) (cy_OrderID row))
       (\<lambda>s. s\<lparr>db_lifecycle := db_lifecycle s @ [row]\<rparr>)"

definition payout_event_types :: "string list" where
  "payout_event_types = [''BEGUN'', ''NOTE_DISPENSE_REQUESTED'', ''NOTE_COMMAND_ACCEPTED'', ''NOTE_CONFIRMED'',
     ''NOTE_MONITOR_FAILED'', ''NOTE_RECONCILIATION_STARTED'', ''NOTE_FINALITY_PENDING'', ''NOTE_DELIVERED_AFTER_FAULT'',
     ''NOTE_FAILED'', ''NOTE_NOT_DELIVERED'', ''NOTE_AMBIGUOUS'', ''COMPLETED'', ''PARTIAL'', ''PARTIAL_AFTER_FAULT'',
     ''FAILED'', ''AMBIGUOUS'', ''RECOVERY'']"

definition q_InsertCashPayoutEvent :: "cash_payout \<Rightarrow> unit q" where
  "q_InsertCashPayoutEvent row =
     insert_or_nothing (cp_EventType row \<in> set payout_event_types \<and> cp_DenominationMinor row \<ge> 0
         \<and> cp_AmountMinor row \<ge> 0 \<and> length (cp_Currency row) \<le> 3)
       (\<lambda>r. cp_MachineID r = cp_MachineID row \<and> cp_DeviceEventID r = cp_DeviceEventID row)
       (\<lambda>r. cp_MachineID r = cp_MachineID row \<and> cp_WithdrawalID r = cp_WithdrawalID row
            \<and> cp_NoteSequence r = cp_NoteSequence row \<and> cp_EventType r = cp_EventType row)
       db_payouts (machine_known (cp_MachineID row) (cp_OrderID row))
       (\<lambda>s. s\<lparr>db_payouts := db_payouts s @ [row]\<rparr>)"

definition q_InsertCashHardwareObservation :: "cash_observation \<Rightarrow> unit q" where
  "q_InsertCashHardwareObservation row =
     insert_or_nothing (cv_RecyclerDenominationMinor row > 0 \<and> cv_RecyclerCount row \<ge> 0
         \<and> cv_Source row \<in> {''poll'', ''payout'', ''startup_recovery'', ''collection''} \<and> length (cv_Currency row) \<le> 3)
       (\<lambda>r. cv_MachineID r = cv_MachineID row \<and> cv_DeviceEventID r = cv_DeviceEventID row) (\<lambda>_. False)
       db_observations (machine_known (cv_MachineID row) None)
       (\<lambda>s. s\<lparr>db_observations := db_observations s @ [row]\<rparr>)"

definition q_UpdateCashAcceptanceEventOrder :: "uuid \<Rightarrow> string \<Rightarrow> uuid \<Rightarrow> unit q" where
  "q_UpdateCashAcceptanceEventOrder machineID deviceEventID orderID =
     writes (\<lambda>s. s\<lparr>db_acceptances := upd_where (\<lambda>r. ca_MachineID r = machineID \<and> ca_DeviceEventID r = deviceEventID
        \<and> (ca_OrderID r = None \<or> ca_OrderID r = Some orderID)) (\<lambda>r. r\<lparr>ca_OrderID := Some orderID\<rparr>) (db_acceptances s)\<rparr>)"

text \<open>With \<open>ON CONFLICT (idempotency_key) DO UPDATE\<close> of the key itself, a repetition returns the old row.\<close>

definition q_InsertCashAdjustment :: "cash_adjustment \<Rightarrow> cash_adjustment q" where
  "q_InsertCashAdjustment row =
     (if cj_Bucket row \<notin> {''cashbox'', ''recycler'', ''unallocated_wallet''} \<or> length (cj_Currency row) > 3
      then raise (Err ErrCheckViolation)
      else bnd (reads (\<lambda>s. find (\<lambda>r. cj_IdempotencyKey r = cj_IdempotencyKey row) (db_adjustments s))) (\<lambda>old. case old of
          Some r \<Rightarrow> ret r
        | None \<Rightarrow> seq (machine_known (cj_MachineID row) None)
            (bnd gen_uuid (\<lambda>i. bnd (reads db_now) (\<lambda>now.
              let r = row\<lparr>cj_ID := i, cj_CreatedAt := now\<rparr>
              in seq (writes (\<lambda>s. s\<lparr>db_adjustments := db_adjustments s @ [r]\<rparr>)) (ret r))))))"

section \<open>Movements\<close>

record cash_movement_event =
  mv_Kind :: string
  mv_DeviceEventID :: string
  mv_OccurredAt :: "time option"
  mv_DenominationMinor :: int
  mv_AmountMinor :: int
  mv_CreditSource :: string
  mv_LifecycleType :: string
  mv_WithdrawalID :: string
  mv_NoteSequence :: int
  mv_EventType :: string
  mv_RecyclerCountBefore :: "int option"
  mv_RecyclerCountAfter :: "int option"
  mv_OutcomeFinality :: string
  mv_RawRecordHex :: string
  mv_BootID :: string
  mv_OrderID :: "uuid option"
  mv_Currency :: string
  mv_CashboxCount :: "int option"
  mv_ObservationSource :: string
  mv_RecyclerDenominationMinor :: int
  mv_RawMetadata :: raw

record cash_movements_input =
  mi_Machine :: uuid
  mi_Key :: string
  mi_Events :: "cash_movement_event list"

record cash_movements_result =
  mr_Replay :: bool
  mr_AcceptedCount :: int
  mr_DuplicateCount :: int

definition normalizeMovementKind :: "string \<Rightarrow> string" where
  "normalizeMovementKind kind = TrimSpace (ToLower kind)"

definition normalizeOutcomeFinality :: "string \<Rightarrow> string" where
  "normalizeOutcomeFinality s =
     (if TrimSpace (ToLower s) \<in> {''command_accepted'', ''confirmed'', ''ambiguous'', ''failed'', ''not_delivered'', ''requested''}
      then TrimSpace (ToLower s) else ''requested'')"

definition mapPayoutJournalToFinality :: "string \<Rightarrow> string \<Rightarrow> string" where
  "mapPayoutJournalToFinality eventType outcome =
     (if normalizeOutcomeFinality outcome \<noteq> ''requested'' then normalizeOutcomeFinality outcome
      else let t = TrimSpace (ToUpper eventType)
           in if t = ''NOTE_COMMAND_ACCEPTED'' then ''command_accepted''
              else if t \<in> {''NOTE_CONFIRMED'', ''NOTE_DELIVERED_AFTER_FAULT'', ''COMPLETED''} then ''confirmed''
              else if t \<in> {''NOTE_AMBIGUOUS'', ''AMBIGUOUS''} then ''ambiguous''
              else if t \<in> {''NOTE_FAILED'', ''FAILED'', ''NOTE_NOT_DELIVERED''} then ''not_delivered''
              else ''requested'')"

definition cashMovementInsertResult :: "unit q \<Rightarrow> bool q" where
  "cashMovementInsertResult m =
     bnd (attempt m) (\<lambda>r. case r of
         Inr _ \<Rightarrow> ret True
       | Inl e \<Rightarrow> if errors_Is e ErrNoRows then ret False else raise e)"

definition movement_device_id :: "cash_movement_event \<Rightarrow> string" where
  "movement_device_id ev = QualifyCashMovementDeviceEventID (mv_DeviceEventID ev) (mv_BootID ev)"

definition movement_currency :: "cash_movement_event \<Rightarrow> string" where
  "movement_currency ev = (let cur = ToUpper (TrimSpace (mv_Currency ev)) in if cur = [] then ''VND'' else cur)"

definition optional_text :: "string \<Rightarrow> string option" where
  "optional_text s = (if TrimSpace s = [] then None else Some (TrimSpace s))"

definition cash_ledger_entry ::
  "uuid \<Rightarrow> uuid option \<Rightarrow> string \<Rightarrow> int \<Rightarrow> string \<Rightarrow> time \<Rightarrow> raw \<Rightarrow> ledger_entry" where
  "cash_ledger_entry machineID orderID entryType amount cur at meta =
     \<lparr>le_EntryType = entryType, le_SignedAmountMinor = amount, le_Currency = cur, le_OccurredAt = at,
      le_MachineID = Some machineID, le_OrderID = orderID, le_PaymentID = None, le_CorrelationID = None,
      le_Metadata = RequiredString meta\<rparr>"

definition record_bill :: "uuid \<Rightarrow> cash_movement_event \<Rightarrow> time \<Rightarrow> bool q" where
  "record_bill machineID ev at =
     bnd (cashMovementInsertResult (q_InsertCashAcceptanceEvent
            \<lparr>ca_MachineID = machineID, ca_OrderID = mv_OrderID ev, ca_DeviceEventID = movement_device_id ev,
             ca_DenominationMinor = mv_DenominationMinor ev, ca_CreditSource = TrimSpace (mv_CreditSource ev),
             ca_Currency = movement_currency ev, ca_AcceptedAt = at, ca_BootID = optional_text (mv_BootID ev),
             ca_OccurredAtDevice = at, ca_RawMetadata = RequiredString (mv_RawMetadata ev)\<rparr>)) (\<lambda>inserted.
       seq (whenM inserted (InsertLedgerEntry (cash_ledger_entry machineID (mv_OrderID ev) ''cash_accepted''
              (mv_DenominationMinor ev) (movement_currency ev) at (mv_RawMetadata ev))))
         (ret inserted))"

definition record_lifecycle :: "uuid \<Rightarrow> cash_movement_event \<Rightarrow> time \<Rightarrow> bool q" where
  "record_lifecycle machineID ev at =
     cashMovementInsertResult (q_InsertCashBillLifecycleEvent
       \<lparr>cy_MachineID = machineID, cy_OrderID = mv_OrderID ev, cy_DeviceEventID = movement_device_id ev,
        cy_LifecycleType = TrimSpace (ToLower (mv_LifecycleType ev)), cy_DenominationMinor = mv_DenominationMinor ev,
        cy_RawRecordHex = TrimSpace (mv_RawRecordHex ev), cy_Currency = movement_currency ev, cy_OccurredAtDevice = at,
        cy_RawMetadata = RequiredString (mv_RawMetadata ev)\<rparr>)"

definition record_payout :: "uuid \<Rightarrow> cash_movement_event \<Rightarrow> time \<Rightarrow> bool q" where
  "record_payout machineID ev at =
     (let finality = mapPayoutJournalToFinality (mv_EventType ev) (mv_OutcomeFinality ev)
      in bnd (cashMovementInsertResult (q_InsertCashPayoutEvent
            \<lparr>cp_MachineID = machineID, cp_OrderID = mv_OrderID ev,
             cp_WithdrawalID = (if TrimSpace (mv_WithdrawalID ev) = [] then ''unknown'' else TrimSpace (mv_WithdrawalID ev)),
             cp_NoteSequence = mv_NoteSequence ev, cp_EventType = TrimSpace (ToUpper (mv_EventType ev)),
             cp_DeviceEventID = movement_device_id ev, cp_DenominationMinor = mv_DenominationMinor ev,
             cp_AmountMinor = mv_AmountMinor ev, cp_RecyclerCountBefore = mv_RecyclerCountBefore ev,
             cp_RecyclerCountAfter = mv_RecyclerCountAfter ev, cp_OutcomeFinality = finality,
             cp_Currency = movement_currency ev, cp_OccurredAtDevice = at,
             cp_RawMetadata = RequiredString (mv_RawMetadata ev)\<rparr>)) (\<lambda>inserted.
         seq (whenM (inserted \<and> finality = ''confirmed'' \<and> mv_AmountMinor ev > 0)
               (InsertLedgerEntry (cash_ledger_entry machineID (mv_OrderID ev) ''change_dispensed''
                  (- mv_AmountMinor ev) (movement_currency ev) at (mv_RawMetadata ev))))
           (ret inserted)))"

definition record_observation :: "uuid \<Rightarrow> cash_movement_event \<Rightarrow> time \<Rightarrow> bool q" where
  "record_observation machineID ev at =
     cashMovementInsertResult (q_InsertCashHardwareObservation
       \<lparr>cv_MachineID = machineID, cv_DeviceEventID = movement_device_id ev, cv_ObservedAtDevice = at,
        cv_RecyclerDenominationMinor = (if mv_RecyclerDenominationMinor ev \<le> 0 then mv_DenominationMinor ev
                                        else mv_RecyclerDenominationMinor ev),
        cv_RecyclerCount = (case mv_RecyclerCountAfter ev of None \<Rightarrow> i32 (mv_AmountMinor ev) | Some n \<Rightarrow> n),
        cv_CashboxCount = mv_CashboxCount ev,
        cv_Source = (let src = TrimSpace (ToLower (mv_ObservationSource ev)) in if src = [] then ''poll'' else src),
        cv_Currency = movement_currency ev, cv_RawMetadata = RequiredString (mv_RawMetadata ev)\<rparr>)"

text \<open>An event without identity is skipped, which is \<open>None\<close>; otherwise it was inserted or is a duplicate.\<close>

definition record_movement :: "uuid \<Rightarrow> cash_movement_event \<Rightarrow> bool option q" where
  "record_movement machineID ev =
     (if movement_device_id ev = [] then ret None
      else bnd (reads (\<lambda>s. case mv_OccurredAt ev of None \<Rightarrow> db_now s | Some t \<Rightarrow> t)) (\<lambda>at.
        let kind = normalizeMovementKind (mv_Kind ev)
        in bnd (if kind \<in> {''bill_credit'', ''acceptance'', []} then record_bill machineID ev at
                else if kind \<in> {''bill_lifecycle'', ''lifecycle''} then record_lifecycle machineID ev at
                else if kind \<in> {''payout'', ''withdrawal''} then record_payout machineID ev at
                else if kind \<in> {''recycler_observation'', ''observation''} then record_observation machineID ev at
                else raise (GoErr ErrOther ''unknown cash movement kind'')) (\<lambda>inserted. ret (Some inserted))))"

fun record_movements :: "uuid \<Rightarrow> cash_movement_event list \<Rightarrow> int \<Rightarrow> int \<Rightarrow> cash_movements_result q" where
  "record_movements machineID [] accepted dup =
     ret \<lparr>mr_Replay = False, mr_AcceptedCount = accepted, mr_DuplicateCount = dup\<rparr>"
| "record_movements machineID (ev # evs) accepted dup =
     bnd (record_movement machineID ev) (\<lambda>r. case r of
         None \<Rightarrow> record_movements machineID evs accepted dup
       | Some True \<Rightarrow> record_movements machineID evs (accepted + 1) dup
       | Some False \<Rightarrow> record_movements machineID evs accepted (dup + 1))"

definition RecordCashMovements :: "cash_movements_input \<Rightarrow> cash_movements_result q" where
  "RecordCashMovements inp = record_movements (mi_Machine inp) (mi_Events inp) 0 0"

definition ReportCashMovements :: "service \<Rightarrow> cash_movements_input \<Rightarrow> cash_movements_result q" where
  "ReportCashMovements sv inp =
     configured (sv_forensic sv)
       (if mi_Machine inp = uuid_Nil then raise (GoErr ErrInvalidArgument ''machine_id required'')
        else if TrimSpace (mi_Key inp) = [] then raise (GoErr ErrInvalidArgument ''idempotency_key required'')
        else RecordCashMovements inp)"

fun BindAcceptanceEventsToOrder :: "uuid \<Rightarrow> uuid \<Rightarrow> string list \<Rightarrow> unit q" where
  "BindAcceptanceEventsToOrder machineID orderID [] = ret ()"
| "BindAcceptanceEventsToOrder machineID orderID (i # ids) =
     seq (whenM (TrimSpace i \<noteq> []) (q_UpdateCashAcceptanceEventOrder machineID (TrimSpace i) orderID))
       (BindAcceptanceEventsToOrder machineID orderID ids)"

definition store_InsertCashAdjustment :: "cash_adjustment \<Rightarrow> raw \<Rightarrow> cash_adjustment q" where
  "store_InsertCashAdjustment inp meta =
     bnd (q_InsertCashAdjustment (inp\<lparr>cj_Metadata := RequiredString meta\<rparr>)) (\<lambda>row.
       seq (InsertLedgerEntry (cash_ledger_entry (cj_MachineID inp) None ''adjustment'' (cj_AmountMinor inp)
              (cj_Currency inp) (cj_CreatedAt row) meta))
         (ret row))"

end
