(* ===== verification/Cash_Safety.thy ===== *)
theory Cash_Safety
  imports Cash_Movements
begin

text \<open>
  Cash evidence and the financial ledger agree, batches may be repeated, one bill has one identity; and what
  a repeated adjustment does.
\<close>

section \<open>What one movement does\<close>

definition refs_ok :: "uuid \<Rightarrow> uuid option \<Rightarrow> db \<Rightarrow> bool" where
  "refs_ok machineID orderID s \<longleftrightarrow> machineID \<in> set (db_machines s)
     \<and> (case orderID of None \<Rightarrow> True | Some i \<Rightarrow> list_ex (\<lambda>r. o_ID r = i) (db_orders s))"

lemma insert_result_run:
  "cashMovementInsertResult (insert_or_nothing ch same clash tbl (machine_known m i) add) s =
     (if \<not> ch then (Inl (Err ErrCheckViolation), s)
      else if list_ex same (tbl s) then (Inr False, s)
      else if list_ex clash (tbl s) then (Inl (Err ErrUniqueViolation), s)
      else if refs_ok m i s then (Inr True, add s)
      else (Inl (GoErr ErrOther ''foreign key violation''), s))"
  by (simp add: cashMovementInsertResult_def insert_or_nothing_def machine_known_def refs_ok_def bnd_run seq_def)

definition booked :: "uuid \<Rightarrow> db \<Rightarrow> int" where
  "booked m s = (\<Sum>e \<leftarrow> db_ledger s.
     if le_MachineID e = Some m \<and> le_EntryType e \<in> {''cash_accepted'', ''change_dispensed''}
     then le_SignedAmountMinor e else 0)"

definition cash_in :: "uuid \<Rightarrow> db \<Rightarrow> int" where
  "cash_in m s = (\<Sum>a \<leftarrow> db_acceptances s. if ca_MachineID a = m then ca_DenominationMinor a else 0)"

definition cash_out :: "uuid \<Rightarrow> db \<Rightarrow> int" where
  "cash_out m s = (\<Sum>p \<leftarrow> db_payouts s.
     if cp_MachineID p = m \<and> cp_OutcomeFinality p = ''confirmed'' then cp_AmountMinor p else 0)"

definition unbooked :: "uuid \<Rightarrow> db \<Rightarrow> int" where
  "unbooked m s = cash_in m s - cash_out m s - booked m s"

lemmas unbooked_defs = unbooked_def booked_def cash_in_def cash_out_def

lemma keeps_record_bill: "keeps (unbooked m) (record_bill mid ev at)"
  by (auto simp: moves_def record_bill_def q_InsertCashAcceptanceEvent_def bnd_run insert_result_run seq_def
      whenM_run InsertLedgerEntry_def q_InsertFinancialLedgerEntry_def unbooked_defs cash_ledger_entry_def)

lemma keeps_record_payout: "keeps (unbooked m) (record_payout mid ev at)"
  by (auto simp: moves_def record_payout_def q_InsertCashPayoutEvent_def bnd_run insert_result_run seq_def Let_def
      whenM_run InsertLedgerEntry_def q_InsertFinancialLedgerEntry_def unbooked_defs cash_ledger_entry_def)

lemma keeps_record_lifecycle: "keeps (unbooked m) (record_lifecycle mid ev at)"
  by (auto simp: moves_def record_lifecycle_def q_InsertCashBillLifecycleEvent_def insert_result_run unbooked_defs)

lemma keeps_record_observation: "keeps (unbooked m) (record_observation mid ev at)"
  by (auto simp: moves_def record_observation_def q_InsertCashHardwareObservation_def insert_result_run unbooked_defs)

lemma keeps_record_movement: "keeps (unbooked m) (record_movement mid ev)"
  unfolding record_movement_def Let_def
  by (intro keeps_intros keeps_record_bill keeps_record_payout keeps_record_lifecycle keeps_record_observation)

lemma keeps_record_movements: "keeps (unbooked m) (record_movements mid evs a d)"
proof (induction evs arbitrary: a d)
  case (Cons ev evs)
  show ?case
    by (auto intro!: kept.moves_bnd keeps_record_movement Cons.IH split: option.splits bool.splits)
qed (simp add: kept.moves_ret)

text \<open>
  C12: The ledger follows the evidence. For every machine, a batch of cash movements changes the money booked
  as accepted or dispensed by exactly the bills it adds minus the payouts it adds as confirmed, whatever
  part of the batch is new, repeated or rejected.
\<close>

theorem cash_ledger_follows_evidence:
  "booked m (snd (RecordCashMovements inp s)) - booked m s =
     (cash_in m (snd (RecordCashMovements inp s)) - cash_in m s)
   - (cash_out m (snd (RecordCashMovements inp s)) - cash_out m s)"
proof -
  have "unbooked m s = unbooked m (snd (RecordCashMovements inp s))"
    using keeps_record_movements [of m "mi_Machine inp" "mi_Events inp" 0 0]
    unfolding moves_def RecordCashMovements_def by blast
  then show ?thesis by (simp add: unbooked_def)
qed

section \<open>Repeated batches\<close>

definition movement_kind :: "cash_movement_event \<Rightarrow> string" where
  "movement_kind ev = normalizeMovementKind (mv_Kind ev)"

text \<open>The row of a movement passes its checks and is in its table.\<close>

definition recorded :: "uuid \<Rightarrow> cash_movement_event \<Rightarrow> db \<Rightarrow> bool" where
  "recorded mid ev s \<longleftrightarrow>
     movement_device_id ev = [] \<or>
     (if movement_kind ev \<in> {''bill_credit'', ''acceptance'', []}
      then mv_DenominationMinor ev > 0 \<and> length (movement_currency ev) \<le> 3
        \<and> list_ex (\<lambda>r. ca_MachineID r = mid \<and> ca_DeviceEventID r = movement_device_id ev) (db_acceptances s)
      else if movement_kind ev \<in> {''bill_lifecycle'', ''lifecycle''}
      then TrimSpace (ToLower (mv_LifecycleType ev)) \<in> set lifecycle_types \<and> mv_DenominationMinor ev \<ge> 0
        \<and> length (movement_currency ev) \<le> 3
        \<and> list_ex (\<lambda>r. cy_MachineID r = mid \<and> cy_DeviceEventID r = movement_device_id ev) (db_lifecycle s)
      else if movement_kind ev \<in> {''payout'', ''withdrawal''}
      then TrimSpace (ToUpper (mv_EventType ev)) \<in> set payout_event_types \<and> mv_DenominationMinor ev \<ge> 0
        \<and> mv_AmountMinor ev \<ge> 0 \<and> length (movement_currency ev) \<le> 3
        \<and> list_ex (\<lambda>r. cp_MachineID r = mid \<and> cp_DeviceEventID r = movement_device_id ev) (db_payouts s)
      else movement_kind ev \<in> {''recycler_observation'', ''observation''}
        \<and> (if mv_RecyclerDenominationMinor ev \<le> 0 then mv_DenominationMinor ev else mv_RecyclerDenominationMinor ev) > 0
        \<and> (case mv_RecyclerCountAfter ev of None \<Rightarrow> i32 (mv_AmountMinor ev) | Some n \<Rightarrow> n) \<ge> 0
        \<and> (let src = TrimSpace (ToLower (mv_ObservationSource ev)) in if src = [] then ''poll'' else src)
            \<in> {''poll'', ''payout'', ''startup_recovery'', ''collection''}
        \<and> length (movement_currency ev) \<le> 3
        \<and> list_ex (\<lambda>r. cv_MachineID r = mid \<and> cv_DeviceEventID r = movement_device_id ev) (db_observations s))"

lemmas movement_runs = record_bill_def record_lifecycle_def record_payout_def record_observation_def
  q_InsertCashAcceptanceEvent_def q_InsertCashBillLifecycleEvent_def q_InsertCashPayoutEvent_def
  q_InsertCashHardwareObservation_def insert_result_run bnd_run seq_def whenM_run
  InsertLedgerEntry_def q_InsertFinancialLedgerEntry_def

lemma recorded_clock [simp]: "recorded mid ev (s\<lparr>db_now := n\<rparr>) = recorded mid ev s"
  by (simp add: recorded_def)

lemma record_movement_again:
  "recorded mid ev s \<Longrightarrow>
     record_movement mid ev s = (Inr (if movement_device_id ev = [] then None else Some False), s)"
  unfolding recorded_def record_movement_def movement_kind_def
  by (cases "movement_device_id ev = []")
     (auto simp: movement_runs Let_def split: if_splits)

lemma record_movement_records:
  assumes "record_movement mid ev s = (Inr r, t)"
  shows "recorded mid ev t"
proof (cases "movement_device_id ev = []")
  case False
  with assms show ?thesis
    unfolding recorded_def record_movement_def movement_kind_def
    by (auto simp: movement_runs Let_def split: if_splits)
qed (simp add: recorded_def)

text \<open>Evidence is only ever added.\<close>

definition evidence_grows :: "db \<Rightarrow> db \<Rightarrow> bool" where
  "evidence_grows s t \<longleftrightarrow> set (db_acceptances s) \<subseteq> set (db_acceptances t) \<and> set (db_lifecycle s) \<subseteq> set (db_lifecycle t)
     \<and> set (db_payouts s) \<subseteq> set (db_payouts t) \<and> set (db_observations s) \<subseteq> set (db_observations t)"

interpretation evidence: evolution evidence_grows
  by unfold_locales (auto simp: evidence_grows_def)

lemma recorded_mono: "evidence_grows s t \<Longrightarrow> recorded m e s \<Longrightarrow> recorded m e t"
  unfolding recorded_def evidence_grows_def list_ex_iff
  by (cases "movement_device_id e = []"; simp split del: if_split) (auto split: if_split_asm)

lemma grows_record_bill: "moves evidence_grows (record_bill mid ev at)"
  by (auto simp: moves_def movement_runs evidence_grows_def)

lemma grows_record_lifecycle: "moves evidence_grows (record_lifecycle mid ev at)"
  by (auto simp: moves_def movement_runs evidence_grows_def)

lemma grows_record_payout: "moves evidence_grows (record_payout mid ev at)"
  by (auto simp: moves_def movement_runs evidence_grows_def Let_def)

lemma grows_record_observation: "moves evidence_grows (record_observation mid ev at)"
  by (auto simp: moves_def movement_runs evidence_grows_def)

lemma grows_record_movement: "moves evidence_grows (record_movement mid ev)"
  unfolding record_movement_def Let_def
  by (intro evidence.moves_rules grows_record_bill grows_record_lifecycle grows_record_payout grows_record_observation)

lemma grows_record_movements: "moves evidence_grows (record_movements mid evs a d)"
proof (induction evs arbitrary: a d)
  case (Cons ev evs)
  show ?case
    by (auto intro!: evidence.moves_bnd grows_record_movement Cons.IH split: option.splits bool.splits)
qed (simp add: evidence.moves_ret)

lemma record_movements_records:
  assumes "record_movements mid evs a d s = (Inr r, t)" and "ev \<in> set evs"
  shows "recorded mid ev t"
  using assms
proof (induction evs arbitrary: a d s)
  case (Cons e evs)
  from Cons.prems(1) obtain b u a' d' where first: "record_movement mid e s = (Inr b, u)"
    and rest: "record_movements mid evs a' d' u = (Inr r, t)"
    by (auto simp: bnd_Inr split: option.splits bool.splits)
  show ?case
  proof (cases "ev \<in> set evs")
    case True
    with Cons.IH [OF rest] show ?thesis .
  next
    case False
    with Cons.prems(2) have "recorded mid ev u" using record_movement_records [OF first] by simp
    moreover have "evidence_grows u t" using grows_record_movements [of mid evs a' d'] rest
      unfolding moves_def by (metis snd_conv)
    ultimately show ?thesis by (rule recorded_mono [rotated])
  qed
qed simp

lemma record_movements_again:
  "(\<And>ev. ev \<in> set evs \<Longrightarrow> recorded mid ev s) \<Longrightarrow>
     record_movements mid evs a d s =
       (Inr \<lparr>mr_Replay = False, mr_AcceptedCount = a,
             mr_DuplicateCount = d + int (length (filter (\<lambda>ev. movement_device_id ev \<noteq> []) evs))\<rparr>, s)"
  by (induction evs arbitrary: d) (auto simp: bnd_run record_movement_again)

text \<open>
  C13: A batch of cash movements may be repeated. When a batch was accepted, the same batch at any later time is
  accepted again, counts every identified movement as a duplicate, and changes nothing.
\<close>

theorem cash_movements_replay:
  assumes "RecordCashMovements inp s = (Inr r, t)"
  shows "RecordCashMovements inp (t\<lparr>db_now := n\<rparr>) =
    (Inr \<lparr>mr_Replay = False, mr_AcceptedCount = 0,
          mr_DuplicateCount = int (length (filter (\<lambda>ev. movement_device_id ev \<noteq> []) (mi_Events inp)))\<rparr>, t\<lparr>db_now := n\<rparr>)"
  using record_movements_again [of "mi_Events inp" "mi_Machine inp" "t\<lparr>db_now := n\<rparr>" 0 0]
    record_movements_records [OF assms [unfolded RecordCashMovements_def]]
  by (simp add: RecordCashMovements_def)

section \<open>Identity of bills\<close>

lemma is_hex_not_colon: "is_hex c \<Longrightarrow> \<not> is_colon c"
  by (auto simp: is_hex_def is_colon_def is_digit_def code_def)

lemma is_hex_not_space: "is_hex c \<Longrightarrow> \<not> is_space c"
  by (auto simp: is_hex_def is_space_def is_digit_def code_def)

lemma is_digit_hex: "is_digit c \<Longrightarrow> is_hex c"
  by (simp add: is_hex_def)

lemma last_colon_none: "list_all (\<lambda>c. \<not> is_colon c) s \<Longrightarrow> last_colon s = None"
proof -
  assume "list_all (\<lambda>c. \<not> is_colon c) s"
  then have "dropWhile (\<lambda>c. \<not> is_colon c) (rev s) = []" by (simp add: list_all_iff)
  then show ?thesis unfolding last_colon_def by (simp only: list.case)
qed

lemma until_colon:
  "list_all (\<lambda>c. \<not> is_colon c) xs \<Longrightarrow>
     dropWhile (\<lambda>c. \<not> is_colon c) (xs @ CHR '':'' # ys) = CHR '':'' # ys
     \<and> takeWhile (\<lambda>c. \<not> is_colon c) (xs @ CHR '':'' # ys) = xs"
  by (induction xs) (simp_all add: is_colon_def)

lemma last_colon_some: "list_all (\<lambda>c. \<not> is_colon c) r \<Longrightarrow> last_colon (b @ CHR '':'' # r) = Some (b, r)"
proof -
  assume "list_all (\<lambda>c. \<not> is_colon c) r"
  then have "list_all (\<lambda>c. \<not> is_colon c) (rev r)" by (simp add: list_all_iff)
  from until_colon [OF this, of "rev b"] show ?thesis by (simp add: last_colon_def)
qed

lemma TrimSpace_id: "s \<noteq> [] \<Longrightarrow> \<not> is_space (hd s) \<Longrightarrow> \<not> is_space (last s) \<Longrightarrow> TrimSpace s = s"
  by (simp add: TrimSpace_def TrimLeft_id hd_rev)

text \<open>A boot identifier that is not itself mistaken for a register.\<close>

definition plain_boot :: "string \<Rightarrow> bool" where
  "plain_boot b \<longleftrightarrow> b \<noteq> [] \<and> TrimSpace b = b
     \<and> \<not> isIctHexDeviceEventID (case last_colon b of None \<Rightarrow> b | Some (_, t) \<Rightarrow> t)"

lemma ict_facts:
  assumes "isIctHexDeviceEventID r"
  shows "r \<noteq> []" "list_all (\<lambda>c. \<not> is_colon c) r" "TrimSpace r = r" "\<not> is_space (last r)" "last_colon r = None"
proof -
  show ne: "r \<noteq> []" using assms by (auto simp: isIctHexDeviceEventID_def)
  show nc: "list_all (\<lambda>c. \<not> is_colon c) r"
    using assms by (auto simp: isIctHexDeviceEventID_def list_all_iff is_hex_not_colon)
  show l: "\<not> is_space (last r)"
    using assms ne by (auto simp: isIctHexDeviceEventID_def list_all_iff is_hex_not_space)
  show "TrimSpace r = r"
    using assms ne l by (intro TrimSpace_id) (auto simp: isIctHexDeviceEventID_def list_all_iff is_hex_not_space)
  show "last_colon r = None" by (rule last_colon_none [OF nc])
qed

lemma ict_no_prefix: "isIctHexDeviceEventID r \<Longrightarrow> \<not> HasPrefix r (p @ '':'')"
proof
  assume "isIctHexDeviceEventID r" and "HasPrefix r (p @ '':'')"
  then have "CHR '':'' \<in> set r" unfolding HasPrefix_iff by force
  with ict_facts(2) [OF \<open>isIctHexDeviceEventID r\<close>] show False by (auto simp: list_all_iff is_colon_def)
qed

lemma qualify_register:
  assumes "isIctHexDeviceEventID r" and "plain_boot b"
  shows "QualifyCashMovementDeviceEventID r b = b @ '':'' @ r"
proof -
  note r = ict_facts [OF assms(1)]
  have can: "CanonicalizeCashMovementDeviceEventID r = r"
    using r by (simp add: CanonicalizeCashMovementDeviceEventID_def)
  have "shouldPrefixCashMovementBoot r"
    using ict_no_prefix [OF assms(1), of "''payout''"] ict_no_prefix [OF assms(1), of "''bill_reject''"]
      ict_no_prefix [OF assms(1), of "''record_ambiguous''"] ict_no_prefix [OF assms(1), of "''returned''"]
      ict_no_prefix [OF assms(1), of "''escrow''"] ict_no_prefix [OF assms(1), of "''fault''"]
      ict_no_prefix [OF assms(1), of "''stacked''"] ict_no_prefix [OF assms(1), of "''stored''"] r assms(1)
    by (simp add: shouldPrefixCashMovementBoot_def)
  then show ?thesis
    using can ict_no_prefix [OF assms(1), of b] assms(2) r
    by (simp add: QualifyCashMovementDeviceEventID_def plain_boot_def)
qed

lemma qualify_episode:
  assumes "isIctHexDeviceEventID r" and "plain_boot b" and "e \<noteq> []" "length e \<le> 8" "list_all is_digit e"
  shows "QualifyCashMovementDeviceEventID (r @ '':'' @ e) b = b @ '':'' @ r"
proof -
  note r = ict_facts [OF assms(1)]
  have ncolon: "list_all (\<lambda>c. \<not> is_colon c) e"
    using assms(5) by (auto simp: list_all_iff is_digit_hex is_hex_not_colon)
  have "TrimSpace (r @ '':'' @ e) = r @ '':'' @ e"
  proof (rule TrimSpace_id)
    show "\<not> is_space (hd (r @ '':'' @ e))"
      using assms(1) r(1) by (auto simp: isIctHexDeviceEventID_def list_all_iff is_hex_not_space)
    show "\<not> is_space (last (r @ '':'' @ e))"
      using assms(3,5) by (auto simp: list_all_iff is_digit_hex is_hex_not_space)
  qed simp
  with last_colon_some [OF ncolon, of r] r assms
  have "CanonicalizeCashMovementDeviceEventID (r @ '':'' @ e) = r"
    by (simp add: CanonicalizeCashMovementDeviceEventID_def cashEpisodeDigits_def)
  moreover have "CanonicalizeCashMovementDeviceEventID r = r"
    using r by (simp add: CanonicalizeCashMovementDeviceEventID_def)
  ultimately show ?thesis
    using qualify_register [OF assms(1,2)] by (simp add: QualifyCashMovementDeviceEventID_def)
qed

lemma qualify_again:
  assumes "isIctHexDeviceEventID r" and "plain_boot b"
  shows "QualifyCashMovementDeviceEventID (b @ '':'' @ r) b = b @ '':'' @ r"
proof -
  note r = ict_facts [OF assms(1)]
  have "TrimSpace (b @ '':'' @ r) = b @ '':'' @ r"
  proof (rule TrimSpace_id)
    show "\<not> is_space (hd (b @ '':'' @ r))"
      using assms(2) TrimSpace_hd [of b] by (auto simp: plain_boot_def)
    show "\<not> is_space (last (b @ '':'' @ r))" using r by simp
  qed simp
  with last_colon_some [OF r(2), of b] assms(2)
  have "CanonicalizeCashMovementDeviceEventID (b @ '':'' @ r) = b @ '':'' @ r"
    by (auto simp: CanonicalizeCashMovementDeviceEventID_def plain_boot_def Let_def split: option.splits)
  with assms(2) show ?thesis by (simp add: QualifyCashMovementDeviceEventID_def plain_boot_def HasPrefix_iff)
qed

text \<open>
  One bill has one identity. A register read in a boot is identified by both, the same with an episode
  suffix and when it is qualified a second time; different boots or registers give different identities.
\<close>

theorem bill_identity:
  assumes "isIctHexDeviceEventID r" and "plain_boot b" and "isIctHexDeviceEventID r'" and "plain_boot b'"
    and "e \<noteq> []" and "length e \<le> 8" and "list_all is_digit e"
  shows "QualifyCashMovementDeviceEventID (r @ '':'' @ e) b = QualifyCashMovementDeviceEventID r b
    \<and> QualifyCashMovementDeviceEventID (QualifyCashMovementDeviceEventID r b) b = QualifyCashMovementDeviceEventID r b
    \<and> (QualifyCashMovementDeviceEventID r b = QualifyCashMovementDeviceEventID r' b' \<longleftrightarrow> r = r' \<and> b = b')"
  using assms qualify_register [of r b] qualify_register [of r' b'] qualify_episode [of r b e] qualify_again [of r b]
  by (auto simp: isIctHexDeviceEventID_def)

section \<open>Adjustments\<close>

text \<open>
  A repeated adjustment is booked again. The statement returns the row that the key already has, but the
  ledger entry is written each time, with the amount of the repeated request.
\<close>

theorem repeated_adjustment_booked_again:
  assumes "store_InsertCashAdjustment inp meta s = (Inr row, t)"
  shows "\<exists>u. store_InsertCashAdjustment inp meta t = (Inr row, u)
    \<and> db_adjustments u = db_adjustments t
    \<and> db_ledger u = db_ledger t @ [cash_ledger_entry (cj_MachineID inp) None ''adjustment'' (cj_AmountMinor inp)
                                     (cj_Currency inp) (cj_CreatedAt row) meta]"
  using assms
  by (auto simp: store_InsertCashAdjustment_def q_InsertCashAdjustment_def machine_known_def bnd_run seq_def Let_def
      gen_uuid_def InsertLedgerEntry_def q_InsertFinancialLedgerEntry_def find_append split: option.splits if_splits)

section \<open>A sample batch\<close>

definition sample_bill :: cash_movement_event where
  "sample_bill =
     \<lparr>mv_Kind = ''bill_credit'', mv_DeviceEventID = ''560204:9'', mv_OccurredAt = Some 5, mv_DenominationMinor = 1000,
      mv_AmountMinor = 0, mv_CreditSource = ''stacked_cashbox'', mv_LifecycleType = [], mv_WithdrawalID = [],
      mv_NoteSequence = 0, mv_EventType = [], mv_RecyclerCountBefore = None, mv_RecyclerCountAfter = None,
      mv_OutcomeFinality = [], mv_RawRecordHex = [], mv_BootID = ''boot-1'', mv_OrderID = None, mv_Currency = [],
      mv_CashboxCount = None, mv_ObservationSource = [], mv_RecyclerDenominationMinor = 0, mv_RawMetadata = NoBytes\<rparr>"

definition sample_batch :: cash_movements_input where
  "sample_batch = \<lparr>mi_Machine = o_MachineID sample_order, mi_Key = ''k'', mi_Events = [sample_bill]\<rparr>"

definition sample_adjustment :: cash_adjustment where
  "sample_adjustment =
     \<lparr>cj_ID = uuid_Nil, cj_MachineID = o_MachineID sample_order, cj_AmountMinor = 500, cj_Bucket = ''cashbox'', cj_Reason = ''count'',
      cj_OperatorAccountID = None, cj_IdempotencyKey = ''a'', cj_Currency = ''VND'', cj_Metadata = JNull, cj_CreatedAt = 0\<rparr>"

theorem cash_movements_replay_witness:
  "\<exists>t. RecordCashMovements sample_batch (t\<lparr>db_now := 9\<rparr>) =
     (Inr \<lparr>mr_Replay = False, mr_AcceptedCount = 0, mr_DuplicateCount = 1\<rparr>, t\<lparr>db_now := 9\<rparr>)"
proof -
  have "\<not> isl (fst (RecordCashMovements sample_batch sample_db))" by code_simp
  from Inr_runI [of "RecordCashMovements sample_batch", OF this] obtain r t where "RecordCashMovements sample_batch sample_db = (Inr r, t)" by blast
  moreover have "length (filter (\<lambda>ev. movement_device_id ev \<noteq> []) (mi_Events sample_batch)) = 1" by code_simp
  ultimately show ?thesis using cash_movements_replay [of sample_batch sample_db r t 9] by auto
qed

theorem bill_identity_witness:
  "QualifyCashMovementDeviceEventID (''560204'' @ '':'' @ ''9'') ''boot-1'' = QualifyCashMovementDeviceEventID ''560204'' ''boot-1''"
proof -
  have "isIctHexDeviceEventID ''560204''" "plain_boot ''boot-1''" "list_all is_digit ''9''" by code_simp+
  then show ?thesis using bill_identity [of "''560204''" "''boot-1''" "''560204''" "''boot-1''" "''9''"] by simp
qed

theorem repeated_adjustment_booked_again_witness:
  "\<exists>row t u. store_InsertCashAdjustment sample_adjustment NoBytes t = (Inr row, u) \<and> db_adjustments u = db_adjustments t
     \<and> length (db_ledger u) = length (db_ledger t) + 1"
proof -
  have "\<not> isl (fst (store_InsertCashAdjustment sample_adjustment NoBytes sample_db))" by code_simp
  from Inr_runI [of "store_InsertCashAdjustment sample_adjustment NoBytes", OF this] obtain row t where "store_InsertCashAdjustment sample_adjustment NoBytes sample_db = (Inr row, t)"
    by blast
  from repeated_adjustment_booked_again [OF this] show ?thesis by force
qed

end
