(* ===== verification/Cash_Payment.thy ===== *)
theory Cash_Payment
  imports Cash_Movements
begin

text \<open>
  Paying with cash, \<open>internal/app/commerce/cash_confirm.go\<close>, with the cash part of
  \<open>internal/modules/postgres/financial_correctness.go\<close>: the confirmation of a cash payment (evidence,
  payment, allocation, change, claim of the order), the cancellation of an open payment and the money view of
  an order. The confirmation is not a transaction: every store call commits by itself, so an error leaves
  what was done before it.
\<close>

section \<open>Inputs and results\<close>

record cash_acceptance_event_input =
  ae_DeviceEventID :: string
  ae_DenominationMinor :: int
  ae_CreditSource :: string
  ae_AcceptedAt :: time
  ae_BootID :: string
  ae_RawMetadata :: raw

record confirm_cash_payment_input =
  cf_OrderID :: uuid
  cf_MachineID :: uuid
  cf_IdempotencyKey :: string
  cf_GrossAcceptedMinor :: int
  cf_AllocatedMinor :: int
  cf_PreOrderCreditMinor :: int
  cf_PostOrderInsertedMinor :: int
  cf_ChangeDueMinor :: int
  cf_ChangeDispensedMinor :: int
  cf_ChangeOutcome :: string
  cf_ConsentSource :: string
  cf_ConsentedAt :: "time option"
  cf_Currency :: string
  cf_AcceptanceEvents :: "cash_acceptance_event_input list"
  cf_Simulated :: bool
  cf_SimulationRunID :: string
  cf_SimulationScenario :: string
  cf_FakeBill :: bool
  cf_FakeBoard :: bool
  cf_OutboxTopic :: string
  cf_OutboxEventType :: string
  cf_OutboxAggregateType :: string

record confirm_cash_payment_result =
  cq_Replay :: bool
  cq_Payment :: payment
  cq_Order :: order
  cq_Allocation :: "cash_allocation option"
  cq_ChangeEvent :: "cash_change option"

section \<open>Statements\<close>

definition cash_refs :: "uuid \<Rightarrow> uuid \<Rightarrow> uuid \<Rightarrow> unit q" where
  "cash_refs machineID orderID paymentID =
     seq (machine_known machineID (Some orderID))
       (bnd (reads (\<lambda>s. list_ex (\<lambda>p. p_ID p = paymentID) (db_payments s))) (\<lambda>ok.
         guard ok (GoErr ErrOther ''foreign key violation'')))"

definition consent_sources :: "string list" where
  "consent_sources = [''explicit_confirm'', ''implicit_post_order'', ''operator'', ''unknown'', ''wallet_auto_settlement'']"

definition q_InsertCashAllocation :: "cash_allocation \<Rightarrow> cash_allocation q" where
  "q_InsertCashAllocation row =
     (if cl_AmountMinor row < 0 \<or> cl_PreOrderCreditMinor row < 0 \<or> cl_PostOrderInsertedMinor row < 0
         \<or> cl_ConsentSource row \<notin> set consent_sources \<or> length (cl_Currency row) > 3
      then raise (Err ErrCheckViolation)
      else bnd (reads (\<lambda>s. find (\<lambda>r. cl_OrderID r = cl_OrderID row \<and> cl_IdempotencyKey row \<noteq> None
               \<and> cl_IdempotencyKey r = cl_IdempotencyKey row) (db_allocations s))) (\<lambda>old. case old of
          Some r \<Rightarrow> ret r
        | None \<Rightarrow> seq (cash_refs (cl_MachineID row) (cl_OrderID row) (cl_PaymentID row))
            (bnd gen_uuid (\<lambda>i. bnd (reads db_now) (\<lambda>now.
              let r = row\<lparr>cl_ID := i, cl_CreatedAt := now\<rparr>
              in seq (writes (\<lambda>s. s\<lparr>db_allocations := db_allocations s @ [r]\<rparr>)) (ret r))))))"

definition change_outcomes :: "string list" where
  "change_outcomes = [''delivered'', ''delivered_after_fault'', ''not_delivered'', ''ambiguous'', ''none'']"

definition q_InsertCashChangeEvent :: "cash_change \<Rightarrow> cash_change q" where
  "q_InsertCashChangeEvent row =
     (if cc_ChangeDueMinor row < 0 \<or> cc_ChangeDispensedMinor row < 0 \<or> cc_Outcome row \<notin> set change_outcomes
         \<or> cc_LiabilityMinor row < 0 \<or> length (cc_Currency row) > 3
      then raise (Err ErrCheckViolation)
      else bnd (reads (\<lambda>s. find (\<lambda>r. cc_OrderID r = cc_OrderID row \<and> cc_IdempotencyKey row \<noteq> None
               \<and> cc_IdempotencyKey r = cc_IdempotencyKey row) (db_changes s))) (\<lambda>old. case old of
          Some r \<Rightarrow> ret r
        | None \<Rightarrow> seq (cash_refs (cc_MachineID row) (cc_OrderID row) (cc_PaymentID row))
            (bnd gen_uuid (\<lambda>i. bnd (reads db_now) (\<lambda>now.
              let r = row\<lparr>cc_ID := i, cc_CreatedAt := now\<rparr>
              in seq (writes (\<lambda>s. s\<lparr>db_changes := db_changes s @ [r]\<rparr>)) (ret r))))))"

definition newest :: "('r \<Rightarrow> time) \<Rightarrow> 'r list \<Rightarrow> 'r option" where
  "newest at rows = (case sort_key (\<lambda>r. - at r) rows of [] \<Rightarrow> None | r # _ \<Rightarrow> Some r)"

definition q_GetCashAllocationForOrder :: "uuid \<Rightarrow> cash_allocation option q" where
  "q_GetCashAllocationForOrder orderID =
     reads (\<lambda>s. newest cl_CreatedAt (filter (\<lambda>r. cl_OrderID r = orderID) (db_allocations s)))"

definition q_GetCashChangeEventForOrder :: "uuid \<Rightarrow> cash_change option q" where
  "q_GetCashChangeEventForOrder orderID =
     reads (\<lambda>s. newest cc_CreatedAt (filter (\<lambda>r. cc_OrderID r = orderID) (db_changes s)))"

definition q_ListCashAcceptanceEventsForOrder :: "uuid \<Rightarrow> cash_acceptance list q" where
  "q_ListCashAcceptanceEventsForOrder orderID =
     reads (\<lambda>s. sort_key ca_AcceptedAt (filter (\<lambda>r. ca_OrderID r = Some orderID) (db_acceptances s)))"

section \<open>The store\<close>

fun RecordCashAcceptanceEvents :: "uuid \<Rightarrow> uuid \<Rightarrow> string \<Rightarrow> cash_acceptance_event_input list \<Rightarrow> unit q" where
  "RecordCashAcceptanceEvents machineID orderID currency [] = ret ()"
| "RecordCashAcceptanceEvents machineID orderID currency (ev # evs) =
     seq (cashMovementInsertResult (q_InsertCashAcceptanceEvent
            \<lparr>ca_MachineID = machineID, ca_OrderID = Some orderID,
             ca_DeviceEventID = QualifyCashMovementDeviceEventID (ae_DeviceEventID ev) (ae_BootID ev),
             ca_DenominationMinor = ae_DenominationMinor ev, ca_CreditSource = ae_CreditSource ev,
             ca_Currency = currency, ca_AcceptedAt = ae_AcceptedAt ev, ca_BootID = optional_text (ae_BootID ev),
             ca_OccurredAtDevice = ae_AcceptedAt ev, ca_RawMetadata = RequiredString (ae_RawMetadata ev)\<rparr>))
       (RecordCashAcceptanceEvents machineID orderID currency evs)"

record payment_money_view =
  pv_Payment :: payment
  pv_IsWinner :: bool
  pv_IsLosingCapture :: bool

record order_money_view =
  ov_OrderID :: uuid
  ov_WinningPaymentID :: "uuid option"
  ov_Payments :: "payment_money_view list"
  ov_CashAllocation :: "cash_allocation option"
  ov_CashChange :: "cash_change option"
  ov_OutstandingLiability :: int
  ov_AcceptanceEvents :: "cash_acceptance list"

definition money_view_of :: "uuid option \<Rightarrow> payment \<Rightarrow> payment_money_view" where
  "money_view_of winner p =
     \<lparr>pv_Payment = p, pv_IsWinner = (winner = Some (p_ID p)),
      pv_IsLosingCapture = (winner \<noteq> Some (p_ID p) \<and> p_State p = ''captured'' \<and> winner \<noteq> None)\<rparr>"

definition store_GetOrderMoneyView :: "uuid \<Rightarrow> order_money_view q" where
  "store_GetOrderMoneyView orderID =
     bnd (no_rows_as ErrNotFound (q_GetOrderByID orderID)) (\<lambda>ord.
     bnd (q_ListPaymentsForOrder orderID) (\<lambda>payments.
     bnd (q_GetCashAllocationForOrder orderID) (\<lambda>alloc.
     bnd (q_GetCashChangeEventForOrder orderID) (\<lambda>chg.
     bnd (q_ListCashAcceptanceEventsForOrder orderID) (\<lambda>events.
       ret \<lparr>ov_OrderID = orderID, ov_WinningPaymentID = o_WinningPaymentID ord,
            ov_Payments = map (money_view_of (o_WinningPaymentID ord)) payments, ov_CashAllocation = alloc,
            ov_CashChange = chg, ov_OutstandingLiability = (case chg of None \<Rightarrow> 0 | Some c \<Rightarrow> cc_LiabilityMinor c),
            ov_AcceptanceEvents = events\<rparr>)))))"

section \<open>Confirmation\<close>

definition validateCashConfirmConsent :: "string \<Rightarrow> confirm_cash_payment_input \<Rightarrow> go_err + unit" where
  "validateCashConfirmConsent consent inp =
     (if cf_PreOrderCreditMinor inp \<le> 0 then Inr ()
      else if consent = ''explicit_confirm'' \<or> consent = ''unknown'' \<or> consent = ''operator'' then Inr ()
      else if consent = ''wallet_auto_settlement''
      then if cf_PostOrderInsertedMinor inp \<noteq> 0
           then Inl (GoErr ErrInvalidArgument ''wallet_auto_settlement requires post_order_inserted_minor=0'')
           else if cf_AcceptanceEvents inp = []
           then Inl (GoErr ErrInvalidArgument ''wallet_auto_settlement requires cash_acceptance_events'')
           else Inr ()
      else Inl (GoErr ErrInvalidArgument ''pre_order_credit requires explicit_confirm or wallet_auto_settlement consent''))"

definition legacy_thin :: "confirm_cash_payment_input \<Rightarrow> bool" where
  "legacy_thin inp \<longleftrightarrow> cf_GrossAcceptedMinor inp = 0 \<and> cf_AllocatedMinor inp = 0"

text \<open>The amount to allocate and the consent it rests on.\<close>

definition cash_terms :: "confirm_cash_payment_input \<Rightarrow> order \<Rightarrow> go_err + int \<times> string" where
  "cash_terms inp ord =
     (let legacyThin = legacy_thin inp;
          allocated = (if legacyThin then o_TotalMinor ord else cf_AllocatedMinor inp);
          consent = (if legacyThin then ''unknown'' else normalizeConsentSource (cf_ConsentSource inp))
      in if \<not> legacyThin \<and> allocated \<le> 0 then Inl (GoErr ErrInvalidArgument ''allocated_minor must be positive'')
         else if \<not> legacyThin \<and> allocated \<noteq> o_TotalMinor ord
         then Inl (GoErr ErrInvalidArgument ''allocated_minor must match order total'')
         else case validateCashConfirmConsent consent inp of
                Inl e \<Rightarrow> Inl e
              | Inr _ \<Rightarrow>
                  if \<not> legacyThin \<and> cf_GrossAcceptedMinor inp > 0
                     \<and> cf_GrossAcceptedMinor inp < i64 (cf_PreOrderCreditMinor inp + cf_PostOrderInsertedMinor inp)
                  then Inl (GoErr ErrInvalidArgument ''gross_accepted_minor must cover pre_order and post_order credit'')
                  else Inr (allocated, consent))"

definition cash_currency :: "confirm_cash_payment_input \<Rightarrow> order \<Rightarrow> string" where
  "cash_currency inp ord =
     (let c = ToUpper (TrimSpace (cf_Currency inp)) in if c = [] then ToUpper (TrimSpace (o_Currency ord)) else c)"

definition cash_payment_request :: "confirm_cash_payment_input \<Rightarrow> int \<Rightarrow> string \<Rightarrow> start_payment_input" where
  "cash_payment_request inp allocated currency =
     (let key = TrimSpace (cf_IdempotencyKey inp)
      in \<lparr>po_OrderID = cf_OrderID inp, po_Provider = ''cash'', po_PaymentState = ''captured'', po_AmountMinor = allocated,
          po_Currency = currency, po_IdempotencyKey = key @ '':cash:payment'', po_OutboxTopic = cf_OutboxTopic inp,
          po_OutboxEventType = cf_OutboxEventType inp,
          po_OutboxPayload = Bytes (JObj [(''source'', JStr ''machine_grpc_cash'')]),
          po_OutboxAggregateType = cf_OutboxAggregateType inp, po_OutboxAggregateID = cf_OrderID inp,
          po_OutboxIdempotencyKey = key @ '':cash:payment:outbox:'' @ uuid_String (cf_OrderID inp),
          po_Simulated = cf_Simulated inp, po_SimulationRunID = cf_SimulationRunID inp,
          po_SimulationScenario = cf_SimulationScenario inp, po_FakeBill = cf_FakeBill inp, po_FakeBoard = cf_FakeBoard inp,
          po_AttemptSeq = 0, po_SupersedesPaymentID = None, po_BindAttemptState = [], po_BindProviderReference = [],
          po_BindPayload = NoBytes, sp_SkipOrderLookup = False\<rparr>)"

definition replay_conflict :: "payment_outbox_result \<Rightarrow> int \<Rightarrow> string \<Rightarrow> bool" where
  "replay_conflict res allocated currency \<longleftrightarrow>
     por_Replay res \<and> (p_AmountMinor (por_Payment res) \<noteq> allocated
       \<or> ToUpper (TrimSpace (p_Currency (por_Payment res))) \<noteq> currency \<or> p_State (por_Payment res) \<noteq> ''captured'')"

definition cash_evidence :: "service \<Rightarrow> confirm_cash_payment_input \<Rightarrow> string \<Rightarrow> unit q" where
  "cash_evidence sv inp currency =
     whenM (cf_AcceptanceEvents inp \<noteq> [])
       (seq (RecordCashAcceptanceEvents (cf_MachineID inp) (cf_OrderID inp) currency (cf_AcceptanceEvents inp))
         (let deviceIDs = filter (\<lambda>i. i \<noteq> []) (map (\<lambda>ev. TrimSpace (ae_DeviceEventID ev)) (cf_AcceptanceEvents inp))
          in whenM (sv_forensic sv \<and> deviceIDs \<noteq> [])
               (seq (attempt (BindAcceptanceEventsToOrder (cf_MachineID inp) (cf_OrderID inp) deviceIDs)) (ret ()))))"

definition change_liability :: "confirm_cash_payment_input \<Rightarrow> string \<Rightarrow> int" where
  "change_liability inp outcome =
     (if outcome = ''not_delivered'' \<or> outcome = ''ambiguous''
      then let l = i64 (cf_ChangeDueMinor inp - cf_ChangeDispensedMinor inp)
           in if l < 0 then cf_ChangeDueMinor inp else l
      else 0)"

definition cash_change_record :: "confirm_cash_payment_input \<Rightarrow> uuid \<Rightarrow> string \<Rightarrow> cash_change option q" where
  "cash_change_record inp paymentID currency =
     (let outcome = normalizeChangeOutcome (cf_ChangeOutcome inp)
      in if cf_ChangeDueMinor inp > 0 \<or> outcome \<noteq> ''none''
         then bnd (q_InsertCashChangeEvent
             \<lparr>cc_ID = uuid_Nil, cc_OrderID = cf_OrderID inp, cc_PaymentID = paymentID, cc_MachineID = cf_MachineID inp,
              cc_ChangeDueMinor = cf_ChangeDueMinor inp, cc_ChangeDispensedMinor = cf_ChangeDispensedMinor inp,
              cc_Outcome = outcome, cc_LiabilityMinor = change_liability inp outcome, cc_Currency = currency,
              cc_IdempotencyKey = Some (TrimSpace (cf_IdempotencyKey inp) @ '':cash:change''), cc_CreatedAt = 0\<rparr>) (\<lambda>ce.
           ret (Some ce))
         else ret None)"

definition legacy_cash_case :: "confirm_cash_payment_input \<Rightarrow> uuid \<Rightarrow> reconciliation_case_input" where
  "legacy_cash_case inp paymentID =
     \<lparr>rc_CaseType = ''legacy_cash_confirm_unknown_consent'', rc_Severity = ''info'', rc_OrderID = Some (cf_OrderID inp),
      rc_PaymentID = Some paymentID, rc_VendSessionID = None, rc_RefundID = None, rc_MachineID = Some (cf_MachineID inp),
      rc_Provider = None, rc_ProviderEventID = None,
      rc_CorrelationKey = ''financial_correctness:legacy_cash:'' @ uuid_String (cf_OrderID inp),
      rc_Reason = ''Legacy thin cash confirm without consent or amount evidence'', rc_Metadata = JObj []\<rparr>"

definition cash_records ::
  "service \<Rightarrow> confirm_cash_payment_input \<Rightarrow> uuid \<Rightarrow> int \<Rightarrow> string \<Rightarrow> string \<Rightarrow> (cash_allocation \<times> cash_change option) q" where
  "cash_records sv inp paymentID allocated consent currency =
     seq (cash_evidence sv inp currency)
     (bnd (q_InsertCashAllocation
         \<lparr>cl_ID = uuid_Nil, cl_OrderID = cf_OrderID inp, cl_PaymentID = paymentID, cl_MachineID = cf_MachineID inp,
          cl_AmountMinor = allocated, cl_PreOrderCreditMinor = cf_PreOrderCreditMinor inp,
          cl_PostOrderInsertedMinor = cf_PostOrderInsertedMinor inp, cl_ConsentSource = consent,
          cl_ConsentedAt = cf_ConsentedAt inp, cl_Currency = currency,
          cl_IdempotencyKey = Some (TrimSpace (cf_IdempotencyKey inp) @ '':cash:allocation''), cl_CreatedAt = 0\<rparr>) (\<lambda>alloc.
      bnd (cash_change_record inp paymentID currency) (\<lambda>chg.
      bnd (reads db_now) (\<lambda>now.
      seq (attempt (InsertLedgerEntry
          \<lparr>le_EntryType = ''cash_allocated'', le_SignedAmountMinor = allocated, le_Currency = currency, le_OccurredAt = now,
           le_MachineID = Some (cf_MachineID inp), le_OrderID = Some (cf_OrderID inp), le_PaymentID = Some paymentID,
           le_CorrelationID = None, le_Metadata = JObj []\<rparr>))
      (seq (whenM (consent = ''unknown'')
             (seq (attempt (UpsertReconciliationCase (legacy_cash_case inp paymentID))) (ret ())))
        (ret (alloc, chg)))))))"

definition cash_claim :: "service \<Rightarrow> uuid \<Rightarrow> uuid \<Rightarrow> order q" where
  "cash_claim sv paymentID orderID =
     (if sv_winnerArbitration sv \<and> sv_financial sv
      then bnd (AttemptWinningPaymentClaim sv paymentID orderID) (\<lambda>arb.
        case (ar_Won arb, ar_Order arb) of
          (True, Some ord) \<Rightarrow> ret ord
        | _ \<Rightarrow> raise (GoErr ErrIllegalTransition ''payment lost winner arbitration''))
      else MarkOrderPaidAfterPaymentCapture sv uuid_Nil orderID)"

definition ConfirmCashPayment :: "service \<Rightarrow> confirm_cash_payment_input \<Rightarrow> confirm_cash_payment_result q" where
  "ConfirmCashPayment sv inp =
     configured (sv_payments sv \<and> sv_life sv)
       (if cf_OrderID inp = uuid_Nil \<or> cf_MachineID inp = uuid_Nil
        then raise (GoErr ErrInvalidArgument ''order_id and machine_id required'')
        else if TrimSpace (cf_IdempotencyKey inp) = [] then raise (GoErr ErrInvalidArgument ''idempotency_key required'')
        else bnd (GetOrderByID (cf_OrderID inp)) (\<lambda>ord.
          if o_MachineID ord \<noteq> cf_MachineID inp then raise (GoErr ErrInvalidArgument ''order machine mismatch'')
          else if orderStatusTerminal (o_Status ord) then raise (GoErr ErrIllegalTransition ''order is terminal'')
          else bnd (lift_res (cash_terms inp ord)) (\<lambda>(allocated, consent).
            let currency = cash_currency inp ord
            in bnd (StartPaymentWithOutbox sv (cash_payment_request inp allocated currency)) (\<lambda>payRes.
              if replay_conflict payRes allocated currency then raise (Err ErrIdempotencyPayloadConflict)
              else bnd (if sv_financial sv
                        then bnd (cash_records sv inp (p_ID (por_Payment payRes)) allocated consent currency) (\<lambda>(alloc, chg).
                          ret (Some alloc, chg))
                        else ret (None, None)) (\<lambda>(alloc, chg).
                bnd (cash_claim sv (p_ID (por_Payment payRes)) (cf_OrderID inp)) (\<lambda>paid.
                  ret \<lparr>cq_Replay = por_Replay payRes, cq_Payment = por_Payment payRes, cq_Order = paid,
                       cq_Allocation = alloc, cq_ChangeEvent = chg\<rparr>))))))"

section \<open>Cancelling an open payment\<close>

record cancel_payment_session_input =
  cx_OrderID :: uuid
  cx_MachineID :: uuid
  cx_PaymentID :: "uuid option"

record cancel_payment_session_result =
  cz_Order :: order
  cz_Payment :: "payment option"

definition latest_open_payment :: "uuid \<Rightarrow> payment option q" where
  "latest_open_payment orderID =
     bnd (attempt (GetLatestNonCapturedPaymentForOrder orderID)) (\<lambda>r. case r of
         Inr pay \<Rightarrow> ret (Some pay)
       | Inl e \<Rightarrow> if errors_Is e ErrNotFound then ret None else raise e)"

definition payment_to_cancel :: "cancel_payment_session_input \<Rightarrow> payment option q" where
  "payment_to_cancel inp =
     (case cx_PaymentID inp of
        None \<Rightarrow> latest_open_payment (cx_OrderID inp)
      | Some i \<Rightarrow>
          if i = uuid_Nil then latest_open_payment (cx_OrderID inp)
          else bnd (GetPaymentByID i) (\<lambda>pay.
            if p_OrderID pay \<noteq> cx_OrderID inp then raise (GoErr ErrInvalidArgument ''payment order mismatch'')
            else ret (Some pay)))"

definition CancelPaymentSession :: "service \<Rightarrow> cancel_payment_session_input \<Rightarrow> cancel_payment_session_result q" where
  "CancelPaymentSession sv inp =
     configured (sv_life sv)
       (if cx_OrderID inp = uuid_Nil then raise (GoErr ErrInvalidArgument ''order_id required'')
        else bnd (GetOrderByID (cx_OrderID inp)) (\<lambda>ord.
          if o_MachineID ord \<noteq> cx_MachineID inp then raise (GoErr ErrInvalidArgument ''order machine mismatch'')
          else if orderStatusTerminal (o_Status ord) then raise (GoErr ErrIllegalTransition ''order is terminal'')
          else configured (sv_financial sv)
            (bnd (payment_to_cancel inp) (\<lambda>found. case found of
                None \<Rightarrow> ret \<lparr>cz_Order = ord, cz_Payment = None\<rparr>
              | Some pay \<Rightarrow> bnd (CancelPaymentByID (p_ID pay)) (\<lambda>canceled.
                  ret \<lparr>cz_Order = ord, cz_Payment = Some canceled\<rparr>)))))"

definition GetOrderMoneyView :: "service \<Rightarrow> uuid \<Rightarrow> order_money_view q" where
  "GetOrderMoneyView sv orderID = configured (sv_financial sv) (store_GetOrderMoneyView orderID)"

end
