(* ===== verification/Cash_Confirm_Safety.thy ===== *)
theory Cash_Confirm_Safety
  imports Cash_Payment Service_Safety Order_Safety
begin

text \<open>
  What a cash confirmation guarantees when it succeeds, what its repetition does, and that cancelling a
  payment leaves the order payable.
\<close>

section \<open>What the parts keep\<close>

lemma orders_payment_event [keeps_intros]: "keeps db_orders (q_InsertOutboxEvent topic et pl ty aid idem sim run scen)"
  unfolding q_InsertOutboxEvent_def Let_def by (intro keeps_intros) simp_all

lemma orders_CreatePayment: "keeps db_orders (CreatePaymentWithOutbox inp)"
  unfolding CreatePaymentWithOutbox_def create_payment_tx_def payment_replay_def payment_event_def bind_attempt_def
    allocatePaymentAttemptSeq_def q_LockOrderForPaymentAttempt_def q_NextPaymentAttemptSeqForOrder_def maybe_row_def
    q_InsertPayment_def q_InsertPaymentAttempt_def
    q_GetPaymentByOrderAndIdempotencyKey_def q_GetOutboxByTopicAndIdempotency_def Let_def
  by (intro keeps_intros; simp)

lemma orders_StartPayment: "keeps db_orders (StartPaymentWithOutbox sv inp)"
  unfolding StartPaymentWithOutbox_def configured_def GetOrderByID_def q_GetOrderByID_def
  by (intro keeps_intros orders_CreatePayment)

text \<open>Projections that do not look at the journals nor at the cash tables.\<close>

definition cash_blind :: "(db \<Rightarrow> 'a) \<Rightarrow> bool" where
  "cash_blind f \<longleftrightarrow> journal_blind f \<and> (\<forall>s x. f (s\<lparr>db_allocations := x\<rparr>) = f s) \<and> (\<forall>s x. f (s\<lparr>db_changes := x\<rparr>) = f s)
     \<and> (\<forall>s x. f (s\<lparr>db_acceptances := x\<rparr>) = f s)"

lemma cash_blind_tables: "cash_blind db_orders" "cash_blind db_payments"
  by (simp_all add: cash_blind_def journal_blind_tables)

lemma cash_statements [keeps_intros]:
  assumes "cash_blind f"
  shows "keeps f (q_InsertCashAllocation a)" "keeps f (q_InsertCashChangeEvent c)" "keeps f (q_InsertCashAcceptanceEvent e)"
  using assms unfolding q_InsertCashAllocation_def q_InsertCashChangeEvent_def q_InsertCashAcceptanceEvent_def
    insert_or_nothing_def cash_refs_def machine_known_def Let_def cash_blind_def journal_blind_def
  by (intro keeps_intros; simp)+

lemma cash_acceptances [keeps_intros]: "cash_blind f \<Longrightarrow> keeps f (RecordCashAcceptanceEvents mid oid cur evs)"
proof (induction evs)
  case (Cons ev evs)
  show ?case unfolding RecordCashAcceptanceEvents.simps cashMovementInsertResult_def
    by (intro keeps_intros Cons)
qed (simp only: RecordCashAcceptanceEvents.simps kept.moves_ret)

lemma cash_bind [keeps_intros]: "cash_blind f \<Longrightarrow> keeps f (BindAcceptanceEventsToOrder mid oid ids)"
proof (induction ids)
  case (Cons i ids)
  then show ?case unfolding BindAcceptanceEventsToOrder.simps q_UpdateCashAcceptanceEventOrder_def
    by (intro keeps_intros Cons) (simp add: cash_blind_def)
qed (simp only: BindAcceptanceEventsToOrder.simps kept.moves_ret)

lemma keeps_cash_records: "cash_blind f \<Longrightarrow> keeps f (cash_records sv inp pid allocated consent currency)"
  unfolding cash_records_def cash_evidence_def cash_change_record_def InsertLedgerEntry_def
    q_InsertFinancialLedgerEntry_def UpsertReconciliationCase_def Let_def
  by (intro keeps_intros; simp add: cash_blind_def journal_blind_def)

section \<open>Confirmation\<close>

lemma new_payment_as_requested:
  assumes "CreatePaymentWithOutbox inp s = (Inr res, t)" and "\<not> por_Replay res"
  shows "p_AmountMinor (por_Payment res) = po_AmountMinor inp \<and> p_State (por_Payment res) = po_PaymentState inp"
  using assms
  by (auto simp: CreatePaymentWithOutbox_def create_payment_tx_def payment_replay_def q_InsertPayment_def new_payment_def
      bnd_Inr seq_Inr tx_Inr Let_def split: if_splits option.splits)

lemma start_payment_amount:
  assumes "StartPaymentWithOutbox sv (cash_payment_request inp allocated currency) s = (Inr res, t)"
    and "\<not> replay_conflict res allocated currency"
  shows "p_AmountMinor (por_Payment res) = allocated \<and> p_State (por_Payment res) = ''captured''"
proof (cases "por_Replay res")
  case True
  with assms(2) show ?thesis by (simp add: replay_conflict_def)
next
  case False
  from assms(1) obtain q u where "CreatePaymentWithOutbox q u = (Inr res, t)" "po_AmountMinor q = allocated"
    "po_PaymentState q = ''captured''"
    by (auto simp: StartPaymentWithOutbox_def configured_def bnd_Inr seq_Inr cash_payment_request_def Let_def
        payment_outbox_input.truncate_def split: if_splits)
  with new_payment_as_requested [OF _ False] show ?thesis by auto
qed

lemma cash_terms_total:
  "cash_terms inp ord = Inr (allocated, consent) \<Longrightarrow>
     allocated = o_TotalMinor ord \<and> (cf_AllocatedMinor inp \<noteq> 0 \<longrightarrow> allocated = cf_AllocatedMinor inp)"
  by (auto simp: cash_terms_def legacy_thin_def Let_def split: if_splits sum.splits)

lemma claim_wins:
  assumes "AttemptWinningPaymentClaim sv pid oid s = (Inr arb, t)" and "ar_Won arb"
    and "distinct (map o_ID (db_orders s))"
  shows "order_winner oid s = Some None \<and> order_winner oid t = Some (Some pid)
    \<and> (\<exists>q now. find (\<lambda>r. o_ID r = oid) (db_orders s) = Some q \<and> find (\<lambda>r. o_ID r = oid) (db_orders t) = Some (claim_row pid now q))"
proof -
  from assms(1,2) obtain ord u where "ClaimWinningPayment pid oid s = (Inr (ord, True), u)" and t: "db_orders t = db_orders u"
    by (auto simp: AttemptWinningPaymentClaim_def configured_def bnd_Inr seq_Inr update_outcome_run
        split: if_splits option.splits sum.splits)
  then have "q_ClaimWinningPayment pid oid s = (Inr ord, u)"
    by (auto simp: ClaimWinningPayment_def bnd_Inr split: sum.splits if_splits) (metis prod.collapse)+
  then obtain q where q: "find (\<lambda>r. o_ID r = oid \<and> o_WinningPaymentID r = None) (db_orders s) = Some q"
    and u: "db_orders u = upd_where (\<lambda>r. o_ID r = oid \<and> o_WinningPaymentID r = None) (claim_row pid (db_now s)) (db_orders s)"
    by (auto simp: q_ClaimWinningPayment_def bnd_Inr update_one_Inr set_orders_def split: if_splits)
  from find_SomeD [OF q] have qs: "q \<in> set (db_orders s)" "o_ID q = oid" "o_WinningPaymentID q = None" by auto
  have "\<exists>r. find (\<lambda>r. o_ID r = oid) (db_orders s) = Some r"
    using qs by (metis (mono_tags, lifting) find_None_iff not_Some_eq)
  then obtain r where r: "find (\<lambda>r. o_ID r = oid) (db_orders s) = Some r" by blast
  with find_SomeD [OF r] qs assms(3) have "r = q" by (metis distinct_map inj_onD)
  moreover have "find (\<lambda>r. o_ID r = oid) (db_orders u) = Some (claim_row pid (db_now s) q)"
    using r \<open>r = q\<close> qs unfolding u by (subst find_upd_where) (auto simp: claim_row_def)
  ultimately show ?thesis using r qs t by (auto simp: order_winner_def claim_row_def)
qed

text \<open>What is never changed of a stored payment on the way to its claim.\<close>

definition pay_facts :: "db \<Rightarrow> (uuid \<times> uuid \<times> int \<times> string) list" where
  "pay_facts s = map (\<lambda>p. (p_ID p, p_OrderID p, p_AmountMinor p, p_State p)) (db_payments s)"

lemma facts_outcome [keeps_intros]: "keeps pay_facts (UpdatePaymentOutcome i oc)"
proof -
  have eq: "map (\<lambda>p. (p_ID p, p_OrderID p, p_AmountMinor p, p_State p)) (upd_where P (\<lambda>p. p\<lparr>p_Outcome := oc\<rparr>) rows)
    = map (\<lambda>p. (p_ID p, p_OrderID p, p_AmountMinor p, p_State p)) rows" for P rows
    by (rule map_upd_where) simp
  show ?thesis by (simp add: moves_def update_outcome_run pay_facts_def eq split: option.splits)
qed

lemma facts_claim: "keeps pay_facts (AttemptWinningPaymentClaim sv pid oid)"
  unfolding AttemptWinningPaymentClaim_def ClaimWinningPayment_def q_ClaimWinningPayment_def configured_def
    GetOrderByID_def q_GetOrderByID_def UpsertReconciliationCase_def q_UpsertCommerceReconciliationCase_def Let_def
  by (intro keeps_intros kept.moves_case_prod; simp add: pay_facts_def set_orders_def set_cases_def)

lemma payments_events [keeps_intros]: "keeps db_payments (payment_event inp)" "keeps db_payments (bind_attempt inp i)"
  unfolding payment_event_def bind_attempt_def q_InsertOutboxEvent_def q_InsertPaymentAttempt_def Let_def
  by (intro keeps_intros; simp)+

lemma create_payment_stored:
  assumes "CreatePaymentWithOutbox inp s = (Inr res, t)"
  shows "por_Payment res \<in> set (db_payments t) \<and> p_OrderID (por_Payment res) = po_OrderID inp"
proof -
  let ?old = "find (\<lambda>p. p_OrderID p = po_OrderID inp \<and> pgTextOrEmpty (po_IdempotencyKey inp) \<noteq> None
    \<and> p_IdempotencyKey p = pgTextOrEmpty (po_IdempotencyKey inp)) (db_payments s)"
  from assms have run: "create_payment_tx inp s = (Inr res, t)"
    by (auto simp: CreatePaymentWithOutbox_def tx_Inr split: if_splits)
  show ?thesis
  proof (cases ?old)
    case (Some pay)
    with run have re: "payment_replay inp pay s = (Inr res, t)"
      by (auto simp: create_payment_tx_def q_GetPaymentByOrderAndIdempotencyKey_def bnd_Inr)
    then have pay: "por_Payment res = pay" by (auto simp: payment_replay_def bnd_Inr split: option.splits)
    have "keeps db_payments (payment_replay inp pay)"
      unfolding payment_replay_def maybe_row_def q_GetOutboxByTopicAndIdempotency_def by (intro keeps_intros)
    from keeps_run [OF this re] pay find_SomeD [OF Some] show ?thesis by simp
  next
    case None
    with run obtain sq u pay v ob w x where ins: "q_InsertPayment (new_payment inp sq) u = (Inr pay, v)"
      and ev: "payment_event inp v = (Inr ob, w)" and at: "bind_attempt inp (p_ID pay) w = (Inr x, t)" and r: "por_Payment res = pay"
      by (auto simp: create_payment_tx_def q_GetPaymentByOrderAndIdempotencyKey_def bnd_Inr seq_Inr)
    have "pay \<in> set (db_payments v) \<and> p_OrderID pay = po_OrderID inp"
      using ins by (auto simp: q_InsertPayment_def new_payment_def bnd_Inr seq_Inr Let_def split: if_splits)
    with keeps_run [OF payments_events(1) ev] keeps_run [OF payments_events(2) at] r show ?thesis by simp
  qed
qed

lemma start_payment_stored:
  assumes "StartPaymentWithOutbox sv inp s = (Inr res, t)"
  shows "por_Payment res \<in> set (db_payments t) \<and> p_OrderID (por_Payment res) = po_OrderID inp"
proof -
  from assms obtain q u where "CreatePaymentWithOutbox q u = (Inr res, t)" "po_OrderID q = po_OrderID inp"
    by (auto simp: StartPaymentWithOutbox_def configured_def bnd_Inr seq_Inr payment_outbox_input.truncate_def split: if_splits)
  with create_payment_stored show ?thesis by metis
qed

text \<open>An order of a machine, settled by a captured payment over its total.\<close>

definition settled_by :: "db \<Rightarrow> uuid \<Rightarrow> uuid \<Rightarrow> int \<Rightarrow> bool" where
  "settled_by s machineID orderID amount \<longleftrightarrow>
     (\<exists>ord. find (\<lambda>r. o_ID r = orderID) (db_orders s) = Some ord \<and> o_MachineID ord = machineID \<and> o_TotalMinor ord = amount
       \<and> (\<exists>pay \<in> set (db_payments s). o_WinningPaymentID ord = Some (p_ID pay) \<and> p_OrderID pay = orderID
            \<and> p_AmountMinor pay = amount \<and> p_State pay = ''captured''))"

lemma confirm_inv:
  assumes "ConfirmCashPayment sv inp s = (Inr r, t)" and "sv_financial sv"
  obtains ord allocated consent res u ac v paid where
    "found (find (\<lambda>x. o_ID x = cf_OrderID inp) (db_orders s)) = Inr ord"
    "o_MachineID ord = cf_MachineID inp" "\<not> orderStatusTerminal (o_Status ord)"
    "cash_terms inp ord = Inr (allocated, consent)"
    "StartPaymentWithOutbox sv (cash_payment_request inp allocated (cash_currency inp ord)) s = (Inr res, u)"
    "\<not> replay_conflict res allocated (cash_currency inp ord)"
    "cash_records sv inp (p_ID (por_Payment res)) allocated consent (cash_currency inp ord) u = (Inr ac, v)"
    "cash_claim sv (p_ID (por_Payment res)) (cf_OrderID inp) v = (Inr paid, t)" "cq_Payment r = por_Payment res"
  using assms
  by (auto simp: ConfirmCashPayment_def configured_def bnd_Inr lift_res_run_Inr get_order_run Let_def
      split: if_splits prod.splits)

lemma claimed_payment_stored:
  assumes "StartPaymentWithOutbox sv (cash_payment_request inp allocated currency) s = (Inr res, u)"
    and "cash_records sv inp pid allocated consent currency u = (Inr ac, v)"
    and "AttemptWinningPaymentClaim sv pid' oid v = (Inr arb, t)"
  shows "\<exists>p \<in> set (db_payments t). p_ID p = p_ID (por_Payment res) \<and> p_OrderID p = cf_OrderID inp
    \<and> p_AmountMinor p = p_AmountMinor (por_Payment res) \<and> p_State p = p_State (por_Payment res)"
proof -
  let ?f = "\<lambda>p. (p_ID p, p_OrderID p, p_AmountMinor p, p_State p)"
  have "map ?f (db_payments t) = map ?f (db_payments u)"
    using keeps_run [OF facts_claim assms(3)] keeps_run [OF keeps_cash_records [OF cash_blind_tables(2)] assms(2)]
    by (simp add: pay_facts_def)
  from arg_cong [OF this, of set] have "?f ` set (db_payments t) = ?f ` set (db_payments u)" by simp
  moreover have stored: "por_Payment res \<in> set (db_payments u)" "p_OrderID (por_Payment res) = cf_OrderID inp"
    using start_payment_stored [OF assms(1)] by (simp_all add: cash_payment_request_def Let_def)
  ultimately have "?f (por_Payment res) \<in> ?f ` set (db_payments t)" using imageI [OF stored(1), of ?f] by (simp only:)
  then obtain p where "?f (por_Payment res) = ?f p" "p \<in> set (db_payments t)" by (rule imageE)
  with stored(2) show ?thesis by (intro bexI [of _ p]) simp_all
qed

lemma confirm_settles:
  assumes "ConfirmCashPayment sv inp s = (Inr r, t)" and "sv_winnerArbitration sv" "sv_financial sv"
    and "distinct (map o_ID (db_orders s))"
  shows "\<exists>ord. find (\<lambda>x. o_ID x = cf_OrderID inp) (db_orders s) = Some ord
    \<and> o_MachineID ord = cf_MachineID inp \<and> \<not> orderStatusTerminal (o_Status ord) \<and> o_WinningPaymentID ord = None
    \<and> p_AmountMinor (cq_Payment r) = o_TotalMinor ord \<and> p_State (cq_Payment r) = ''captured''
    \<and> order_winner (cf_OrderID inp) t = Some (Some (p_ID (cq_Payment r)))
    \<and> settled_by t (cf_MachineID inp) (cf_OrderID inp) (o_TotalMinor ord)
    \<and> (cf_AllocatedMinor inp \<noteq> 0 \<longrightarrow> o_TotalMinor ord = cf_AllocatedMinor inp)"
proof -
  obtain ord allocated consent res u ac v paid where
    ord: "found (find (\<lambda>x. o_ID x = cf_OrderID inp) (db_orders s)) = Inr ord"
    and mach: "o_MachineID ord = cf_MachineID inp" "\<not> orderStatusTerminal (o_Status ord)"
    and terms: "cash_terms inp ord = Inr (allocated, consent)"
    and start: "StartPaymentWithOutbox sv (cash_payment_request inp allocated (cash_currency inp ord)) s = (Inr res, u)"
    and ok: "\<not> replay_conflict res allocated (cash_currency inp ord)"
    and recs: "cash_records sv inp (p_ID (por_Payment res)) allocated consent (cash_currency inp ord) u = (Inr ac, v)"
    and claim: "cash_claim sv (p_ID (por_Payment res)) (cf_OrderID inp) v = (Inr paid, t)"
    and pay: "cq_Payment r = por_Payment res"
    by (rule confirm_inv [OF assms(1,3)])
  have same: "db_orders v = db_orders s"
    using keeps_run [OF orders_StartPayment start] keeps_run [OF keeps_cash_records [OF cash_blind_tables(1)] recs] by simp
  from claim assms(2,3) obtain arb where att: "AttemptWinningPaymentClaim sv (p_ID (por_Payment res)) (cf_OrderID inp) v = (Inr arb, t)"
    and arb: "ar_Won arb"
    by (auto simp: cash_claim_def bnd_Inr split: bool.splits option.splits)
  from claim_wins [OF att arb] assms(4) same obtain q now where
    won: "order_winner (cf_OrderID inp) v = Some None" "order_winner (cf_OrderID inp) t = Some (Some (p_ID (por_Payment res)))"
    and q: "find (\<lambda>r. o_ID r = cf_OrderID inp) (db_orders s) = Some q"
      "find (\<lambda>r. o_ID r = cf_OrderID inp) (db_orders t) = Some (claim_row (p_ID (por_Payment res)) now q)"
    by auto
  from ord have f: "find (\<lambda>x. o_ID x = cf_OrderID inp) (db_orders s) = Some ord"
    by (simp add: found_def split: option.splits)
  with won(1) same have "o_WinningPaymentID ord = None" by (simp add: order_winner_def)
  moreover obtain p where "p \<in> set (db_payments t)" "p_ID p = p_ID (por_Payment res)" "p_OrderID p = cf_OrderID inp"
    "p_AmountMinor p = p_AmountMinor (por_Payment res)" "p_State p = p_State (por_Payment res)"
    using claimed_payment_stored [OF start recs att] by blast
  then have "settled_by t (cf_MachineID inp) (cf_OrderID inp) (o_TotalMinor ord)"
    using q f mach(1) start_payment_amount [OF start ok] cash_terms_total [OF terms]
    by (auto simp: settled_by_def claim_row_def intro!: bexI [of _ p])
  ultimately show ?thesis
    using f mach won(2) pay start_payment_amount [OF start ok] cash_terms_total [OF terms] by auto
qed

text \<open>
  C11: A confirmed cash payment settles the order. When a confirmation succeeds under winner arbitration, the
  order belongs to the machine, was not terminal and had no winner; the payment is captured over exactly the
  order's total, stored with the order's identity, and it is now the order's winning payment.
\<close>

theorem cash_confirm_settles_order:
  assumes "ConfirmCashPayment sv inp s = (Inr r, t)" and "sv_winnerArbitration sv" "sv_financial sv"
    and "distinct (map o_ID (db_orders s))"
  shows "\<exists>ord. find (\<lambda>x. o_ID x = cf_OrderID inp) (db_orders s) = Some ord
    \<and> o_MachineID ord = cf_MachineID inp \<and> \<not> orderStatusTerminal (o_Status ord) \<and> o_WinningPaymentID ord = None
    \<and> p_AmountMinor (cq_Payment r) = o_TotalMinor ord \<and> p_State (cq_Payment r) = ''captured''
    \<and> order_winner (cf_OrderID inp) t = Some (Some (p_ID (cq_Payment r)))
    \<and> settled_by t (cf_MachineID inp) (cf_OrderID inp) (o_TotalMinor ord)"
  using confirm_settles [OF assms] by blast

section \<open>Repeating a confirmation\<close>

definition cash_db :: db where
  "cash_db = sample_db\<lparr>db_orders := [sample_order\<lparr>o_Status := ''created''\<rparr>],
     db_vends := [sample_vend\<lparr>v_State := ''pending''\<rparr>], db_payments := []\<rparr>"

definition sample_confirm :: confirm_cash_payment_input where
  "sample_confirm =
     \<lparr>cf_OrderID = UUID ''o1'', cf_MachineID = UUID ''m1'', cf_IdempotencyKey = ''k'', cf_GrossAcceptedMinor = 500,
      cf_AllocatedMinor = 500, cf_PreOrderCreditMinor = 0, cf_PostOrderInsertedMinor = 500, cf_ChangeDueMinor = 0,
      cf_ChangeDispensedMinor = 0, cf_ChangeOutcome = [], cf_ConsentSource = ''explicit_confirm'', cf_ConsentedAt = None,
      cf_Currency = ''VND'',
      cf_AcceptanceEvents = [\<lparr>ae_DeviceEventID = ''560204'', ae_DenominationMinor = 500, ae_CreditSource = ''stacked_cashbox'',
         ae_AcceptedAt = 1500, ae_BootID = ''boot-1'', ae_RawMetadata = NoBytes\<rparr>],
      cf_Simulated = False, cf_SimulationRunID = [], cf_SimulationScenario = [], cf_FakeBill = False, cf_FakeBoard = False,
      cf_OutboxTopic = ''commerce.payments'', cf_OutboxEventType = ''payment.captured'', cf_OutboxAggregateType = ''payment''\<rparr>"

definition confirmed_db :: db where
  "confirmed_db = snd (ConfirmCashPayment sample_svc sample_confirm cash_db)"

theorem cash_confirm_settles_order_witness:
  "\<exists>r. ConfirmCashPayment sample_svc sample_confirm cash_db = (Inr r, confirmed_db) \<and> p_AmountMinor (cq_Payment r) = 500"
proof -
  have "\<not> isl (fst (ConfirmCashPayment sample_svc sample_confirm cash_db))" by code_simp
  then obtain r where r: "ConfirmCashPayment sample_svc sample_confirm cash_db = (Inr r, confirmed_db)"
    unfolding confirmed_db_def by (metis prod.collapse sum.collapse(2))
  have "sv_winnerArbitration sample_svc" "sv_financial sample_svc" "distinct (map o_ID (db_orders cash_db))"
    by code_simp+
  from cash_confirm_settles_order [OF r this] have "p_AmountMinor (cq_Payment r) = 500"
    by (auto simp: cash_db_def sample_confirm_def sample_order_def)
  with r show ?thesis by blast
qed

text \<open>
  A repeated cash confirmation condemns the payment it confirmed. A machine inserts the exact amount and
  confirms; the confirmation succeeds and its payment wins the order. When the same request arrives again,
  it is answered with an error, the captured payment, still the winner of the order, is marked
  \<open>refund_required\<close>, a critical case is opened, and the allocation is booked in the ledger a second time.
\<close>

theorem cash_confirm_retry_condemns:
  "\<not> isl (fst (ConfirmCashPayment sample_svc sample_confirm cash_db))
   \<and> fst (ConfirmCashPayment sample_svc sample_confirm confirmed_db)
       = Inl (GoErr ErrIllegalTransition ''payment lost winner arbitration'')
   \<and> (let t = snd (ConfirmCashPayment sample_svc sample_confirm confirmed_db)
      in map (\<lambda>p. (p_State p, p_Outcome p)) (db_payments t) = [(''captured'', ''refund_required'')]
         \<and> order_winner (UUID ''o1'') t = Some (map_option p_ID (find (\<lambda>p. True) (db_payments t)))
         \<and> map rc_CaseType (db_cases t) = [''late_capture_refund_required'']
         \<and> map le_EntryType (db_ledger t) = [''cash_allocated'', ''cash_allocated''])"
  by code_simp

section \<open>Cancelling a payment\<close>

lemma sort_key_hd: "sort_key f xs = y # ys \<Longrightarrow> y \<in> set xs"
  by (metis list.set_intros(1) set_sort)

lemma latest_non_captured_Inr:
  "q_GetLatestNonCapturedPaymentForOrder oid s = (Inr pay, t) \<Longrightarrow>
     t = s \<and> pay \<in> set (db_payments s) \<and> p_OrderID pay = oid"
  by (auto simp: q_GetLatestNonCapturedPaymentForOrder_def dest: sort_key_hd split: list.splits)

lemma latest_open_payment_Inr:
  assumes "latest_open_payment oid s = (Inr r, t)"
  shows "t = s \<and> (\<forall>pay. r = Some pay \<longrightarrow> pay \<in> set (db_payments s) \<and> p_OrderID pay = oid)"
proof -
  let ?m = "GetLatestNonCapturedPaymentForOrder oid"
  have still: "snd (?m s) = s"
    by (auto simp: GetLatestNonCapturedPaymentForOrder_def no_rows_as_def q_GetLatestNonCapturedPaymentForOrder_def
        split: list.splits)
  have hit: "t = s \<and> pay \<in> set (db_payments s) \<and> p_OrderID pay = oid" if "?m s = (Inr pay, t)" for pay t
    using latest_non_captured_Inr that by (simp add: GetLatestNonCapturedPaymentForOrder_def no_rows_as_Inr)
  show ?thesis
  proof (cases "fst (?m s)")
    case (Inl e)
    with assms still show ?thesis by (auto simp: latest_open_payment_def bnd_Inr split: if_splits)
  next
    case (Inr pay)
    with still have "?m s = (Inr pay, s)" by (metis prod.collapse)
    from hit [OF this] assms Inr show ?thesis by (auto simp: latest_open_payment_def bnd_Inr \<open>?m s = (Inr pay, s)\<close>)
  qed
qed

lemma payment_to_cancel_Inr:
  assumes "payment_to_cancel inp s = (Inr r, t)"
  shows "t = s \<and> (\<forall>pay. r = Some pay \<longrightarrow> pay \<in> set (db_payments s) \<and> p_OrderID pay = cx_OrderID inp)"
  using assms latest_open_payment_Inr [of "cx_OrderID inp" s r t]
  by (auto simp: payment_to_cancel_def GetPaymentByID_def q_GetPaymentByID_def bnd_Inr no_rows_as_Inr select_one_Inr
      dest: find_SomeD split: option.splits if_splits)

lemma cancel_hits_one:
  assumes "CancelPaymentByID (p_ID pay) s = (Inr c, t)" and "pay \<in> set (db_payments s)"
    and "distinct (map p_ID (db_payments s))"
  shows "(p_State pay = ''created'' \<or> p_State pay = ''authorized'') \<and> c = cancel_row (db_now s) pay
    \<and> t = s\<lparr>db_payments := upd_where (\<lambda>p. p_ID p = p_ID pay) (cancel_row (db_now s)) (db_payments s)\<rparr>"
proof -
  let ?P = "\<lambda>p. p_ID p = p_ID pay \<and> (p_State p = ''created'' \<or> p_State p = ''authorized'')"
  from assms(1) obtain q where q: "find ?P (db_payments s) = Some q" "c = cancel_row (db_now s) q"
    and t: "t = set_payments (upd_where ?P (cancel_row (db_now s)) (db_payments s)) s"
    by (auto simp: CancelPaymentByID_def q_CancelPaymentByID_def no_rows_as_Inr update_one_Inr)
  have uniq: "p = pay" if "p \<in> set (db_payments s)" "p_ID p = p_ID pay" for p
    using that assms(2,3) by (metis distinct_map inj_onD)
  with find_SomeD [OF q(1)] have "q = pay" "p_State pay = ''created'' \<or> p_State pay = ''authorized''" by auto
  moreover from this uniq
  have "upd_where ?P (cancel_row (db_now s)) (db_payments s)
      = upd_where (\<lambda>p. p_ID p = p_ID pay) (cancel_row (db_now s)) (db_payments s)"
    unfolding upd_where_def by (intro map_cong refl) (metis (no_types, lifting))
  ultimately show ?thesis using q t by (simp add: set_payments_def)
qed

text \<open>
  Cancelling a payment session keeps the order payable. When it succeeds it changes nothing, or exactly one
  payment: one of that order, still only created or authorized, which is now canceled. No order changes, so
  another payment can still be opened and win.
\<close>

theorem cancel_session_keeps_order:
  assumes "CancelPaymentSession sv inp s = (Inr r, t)" and "distinct (map p_ID (db_payments s))"
  shows "t = s \<and> cz_Payment r = None
    \<or> (\<exists>pay \<in> set (db_payments s). p_OrderID pay = cx_OrderID inp
          \<and> (p_State pay = ''created'' \<or> p_State pay = ''authorized'')
          \<and> cz_Payment r = Some (cancel_row (db_now s) pay)
          \<and> t = s\<lparr>db_payments := upd_where (\<lambda>p. p_ID p = p_ID pay) (cancel_row (db_now s)) (db_payments s)\<rparr>)"
proof -
  from assms(1) obtain f u where f: "payment_to_cancel inp s = (Inr f, u)"
    and rest: "case f of None \<Rightarrow> t = u \<and> cz_Payment r = None
      | Some pay \<Rightarrow> \<exists>c. CancelPaymentByID (p_ID pay) u = (Inr c, t) \<and> cz_Payment r = Some c"
    by (auto simp: CancelPaymentSession_def configured_def bnd_Inr get_order_run split: if_splits option.splits)
  from payment_to_cancel_Inr [OF f] have "u = s" by blast
  with rest payment_to_cancel_Inr [OF f] cancel_hits_one [OF _ _ assms(2)] show ?thesis
    by (cases f) fastforce+
qed

definition open_session_db :: db where
  "open_session_db = cash_db\<lparr>db_payments := [sample_payment\<lparr>p_State := ''created'', p_Outcome := ''pending''\<rparr>]\<rparr>"

definition sample_cancel :: cancel_payment_session_input where
  "sample_cancel = \<lparr>cx_OrderID = UUID ''o1'', cx_MachineID = UUID ''m1'', cx_PaymentID = None\<rparr>"

theorem cancel_session_keeps_order_witness:
  "map p_State (db_payments (snd (CancelPaymentSession sample_svc sample_cancel open_session_db))) = [''canceled'']
   \<and> db_orders (snd (CancelPaymentSession sample_svc sample_cancel open_session_db)) = db_orders open_session_db"
proof -
  let ?run = "CancelPaymentSession sample_svc sample_cancel open_session_db"
  have "\<not> isl (fst ?run)" by code_simp
  then obtain r where r: "?run = (Inr r, snd ?run)" by (metis prod.collapse sum.collapse(2))
  have "distinct (map p_ID (db_payments open_session_db))" by code_simp
  from cancel_session_keeps_order [OF r this] have "db_orders (snd ?run) = db_orders open_session_db" by auto
  moreover have "map p_State (db_payments (snd ?run)) = [''canceled'']" by code_simp
  ultimately show ?thesis by blast
qed

end
