(* ===== verification/Go_Float.thy ===== *)
theory Go_Float
  imports Go_Prelude "HOL-Library.Log_Nat"
begin

text \<open>
  Go's \<open>float64\<close> where the code computes with it: finite values are rationals, and the result of an operation
  is the exact result rounded to 53 significant bits, ties to even, with the exponent bounded below as in
  IEEE 754. Values beyond the largest finite one are kept as rationals: the code converts them to \<open>int64\<close> at
  once, where every value out of range gives the same result on the platform the service is built for.
\<close>

section \<open>Rounding\<close>

definition pow2 :: "int \<Rightarrow> rat" where
  "pow2 e = (if 0 \<le> e then of_int (2 ^ nat e) else 1 / of_int (2 ^ nat (- e)))"

lemma pow2_pos [simp]: "0 < pow2 e" "pow2 e \<noteq> 0"
  by (auto simp: pow2_def)

lemma pow2_powi: "pow2 e = 2 powi e"
  by (simp add: pow2_def power_int_def field_simps)

lemma pow2_add: "pow2 (a + b) = pow2 a * pow2 b"
  by (simp add: pow2_powi power_int_add)

lemma pow2_mono: "a \<le> b \<Longrightarrow> pow2 a \<le> pow2 b"
  by (simp add: pow2_powi power_int_increasing)

text \<open>The exponent \<open>e\<close> with \<open>2^e \<le> x < 2^(e+1)\<close> of a positive rational, from the bit lengths of its fraction.\<close>

definition ilog2 :: "rat \<Rightarrow> int" where
  "ilog2 x = (let (p, q) = quotient_of x;
                  e = int (floorlog 2 (nat p)) - int (floorlog 2 (nat q))
              in if pow2 e \<le> x then e else e - 1)"

definition round_even :: "rat \<Rightarrow> int" where
  "round_even x = (let f = \<lfloor>x\<rfloor>; d = x - of_int f
                   in if d < 1/2 then f else if d > 1/2 then f + 1 else if even f then f else f + 1)"

definition f64 :: "rat \<Rightarrow> rat" where
  "f64 x = (if x = 0 then 0
            else let e = max (ilog2 \<bar>x\<bar> - 52) (- 1074) in of_int (round_even (x / pow2 e)) * pow2 e)"

definition f64_mul :: "rat \<Rightarrow> rat \<Rightarrow> rat" where
  "f64_mul a b = f64 (a * b)"

definition f64_div :: "rat \<Rightarrow> rat \<Rightarrow> rat" where
  "f64_div a b = f64 (a / b)"

definition f64_of_int :: "int \<Rightarrow> rat" where
  "f64_of_int i = f64 (of_int i)"

text \<open>\<open>int64(x)\<close>: towards zero; out of range it is the smallest \<open>int64\<close>, as amd64 converts.\<close>

definition i64_of_f64 :: "rat \<Rightarrow> int" where
  "i64_of_f64 x = (let t = (if 0 \<le> x then \<lfloor>x\<rfloor> else \<lceil>x\<rceil>) in if in_i64 t then t else - (2 ^ 63))"

section \<open>Error bounds\<close>

lemma bit_length_bounds: "0 < p \<Longrightarrow> 2 ^ (floorlog 2 (nat p) - 1) \<le> p \<and> p < 2 ^ floorlog 2 (nat p)"
  for p :: int
  using Log_Nat.floorlog_bounds [of "nat p" 2] by (simp add: le_nat_iff nat_less_iff)

lemma round_even_error: "\<bar>of_int (round_even x) - x\<bar> \<le> 1/2"
  unfolding round_even_def Let_def by (auto simp: abs_if; linarith)

lemma ilog2_lower:
  assumes "0 < x"
  shows "pow2 (ilog2 x) \<le> x"
proof -
  obtain p q where pq: "quotient_of x = (p, q)" by fastforce
  define a where "a = floorlog 2 (nat p)"
  define b where "b = floorlog 2 (nat q)"
  have q: "0 < q" using quotient_of_denom_pos [OF pq] .
  have x: "x = of_int p / of_int q" using quotient_of_div [OF pq] .
  have p: "0 < p" using assms q unfolding x by (simp add: zero_less_divide_iff)
  have pa: "2 ^ (a - 1) \<le> p" and qb: "q < 2 ^ b" and a: "1 \<le> a"
    using bit_length_bounds [OF p] bit_length_bounds [OF q] p unfolding a_def b_def
    by (auto simp: floorlog_def)
  have "pow2 (int a - int b - 1) = 2 ^ (a - 1) / 2 ^ b"
    using a by (simp add: pow2_powi power_int_diff power_diff)
  also have "\<dots> \<le> of_int p / of_int q"
  proof (rule frac_le)
    show "(2 :: rat) ^ (a - 1) \<le> of_int p" using pa by (metis of_int_le_iff of_int_numeral of_int_power)
    show "of_int q \<le> (2 :: rat) ^ b" using qb by (metis less_imp_le of_int_le_iff of_int_numeral of_int_power)
  qed (use p q in auto)
  finally have "pow2 (int a - int b - 1) \<le> x" unfolding x .
  then show ?thesis by (auto simp: ilog2_def pq Let_def a_def b_def)
qed

lemma ilog2_upper:
  assumes "0 < x"
  shows "x < pow2 (ilog2 x + 1)"
proof -
  obtain p q where pq: "quotient_of x = (p, q)" by fastforce
  define a where "a = floorlog 2 (nat p)"
  define b where "b = floorlog 2 (nat q)"
  have q: "0 < q" using quotient_of_denom_pos [OF pq] .
  have x: "x = of_int p / of_int q" using quotient_of_div [OF pq] .
  have p: "0 < p" using assms q unfolding x by (simp add: zero_less_divide_iff)
  have pa: "p < 2 ^ a" and qb: "2 ^ (b - 1) \<le> q" and b: "1 \<le> b"
    using bit_length_bounds [OF p] bit_length_bounds [OF q] q unfolding a_def b_def by (auto simp: floorlog_def)
  have "of_int p / of_int q < (2 ^ a / 2 ^ (b - 1) :: rat)"
  proof (rule frac_less)
    show "of_int p < (2 :: rat) ^ a" using pa by (metis of_int_less_iff of_int_numeral of_int_power)
    show "(2 :: rat) ^ (b - 1) \<le> of_int q" using qb by (metis of_int_le_iff of_int_numeral of_int_power)
  qed (use p in auto)
  also have "\<dots> = pow2 (int a - int b + 1)"
    using b by (simp add: pow2_powi power_int_diff power_int_add power_diff)
  finally have "x < pow2 (int a - int b + 1)" unfolding x .
  then show ?thesis by (auto simp: ilog2_def pq Let_def a_def b_def)
qed

lemma pow2_less_D: "pow2 a < pow2 b \<Longrightarrow> a < b"
  using pow2_mono [of b a] by linarith

lemma ilog2_eqI: "pow2 e \<le> x \<Longrightarrow> x < pow2 (e + 1) \<Longrightarrow> ilog2 x = e"
proof -
  assume a: "pow2 e \<le> x" "x < pow2 (e + 1)"
  then have "0 < x" using pow2_pos(1) [of e] by linarith
  from a ilog2_lower [OF this] ilog2_upper [OF this] have "pow2 e < pow2 (ilog2 x + 1)" "pow2 (ilog2 x) < pow2 (e + 1)"
    by linarith+
  from this [THEN pow2_less_D] show ?thesis by simp
qed

lemma round_even_eqI:
  assumes "\<bar>x - of_int n\<bar> < 1/2"
  shows "round_even x = n"
proof -
  from assms round_even_error [of x] have "\<bar>of_int (round_even x) - of_int n\<bar> < (1 :: rat)" by linarith
  then have "\<bar>round_even x - n\<bar> < 1" by (metis of_int_1 of_int_abs of_int_diff of_int_less_iff)
  then show ?thesis by simp
qed

text \<open>Rounding with a known exponent and mantissa.\<close>

lemma f64_eqI:
  assumes "pow2 e \<le> x" and "x < pow2 (e + 1)" and "- 1022 \<le> e" and "\<bar>x / pow2 (e - 52) - of_int n\<bar> < 1/2"
  shows "f64 x = of_int n * pow2 (e - 52)"
proof -
  have "0 < x" using assms(1) pow2_pos(1) [of e] by linarith
  moreover have "max (e - 52) (- 1074) = e - 52" using assms(3) by simp
  ultimately show ?thesis using ilog2_eqI [OF assms(1,2)] round_even_eqI [OF assms(4)]
    by (simp only: f64_def Let_def abs_of_pos) simp
qed

text \<open>Rounding moves a number of at least \<open>2^-1022\<close> by at most one part in \<open>2^53\<close>.\<close>

lemma f64_error:
  assumes "pow2 (- 1022) \<le> x"
  shows "\<bar>f64 x - x\<bar> \<le> x / 2 ^ 53"
proof -
  have x: "0 < x" using assms pow2_pos(1) [of "- 1022"] by linarith
  define e where "e = max (ilog2 x - 52) (- 1074)"
  have f: "f64 x = of_int (round_even (x / pow2 e)) * pow2 e"
    using x by (simp add: f64_def e_def Let_def)
  have "\<bar>f64 x - x\<bar> = \<bar>of_int (round_even (x / pow2 e)) - x / pow2 e\<bar> * pow2 e"
  proof -
    have "f64 x - x = (of_int (round_even (x / pow2 e)) - x / pow2 e) * pow2 e"
      unfolding f by (simp add: field_simps)
    then show ?thesis by (simp add: abs_mult less_imp_le)
  qed
  also have "\<dots> \<le> 1/2 * pow2 e"
    by (rule mult_right_mono [OF round_even_error]) (simp add: less_imp_le)
  also have "\<dots> = pow2 (e - 1)" by (simp add: pow2_powi power_int_diff)
  also have "\<dots> \<le> x / 2 ^ 53"
  proof (cases "e = ilog2 x - 52")
    case True
    then have "pow2 (e - 1) * 2 ^ 53 = pow2 (ilog2 x)"
      using pow2_add [of "e - 1" 53] by (simp add: pow2_def)
    with ilog2_lower [OF x] show ?thesis by (simp add: field_simps)
  next
    case False
    then have "pow2 (e - 1) * 2 ^ 53 = pow2 (- 1022)"
      using pow2_add [of "e - 1" 53] by (simp add: pow2_def e_def max_def split: if_splits)
    with assms show ?thesis by (simp add: field_simps)
  qed
  finally show ?thesis .
qed

lemma round_even_nonneg: "0 \<le> x \<Longrightarrow> 0 \<le> round_even x"
  by (auto simp: round_even_def Let_def)

lemma f64_nonneg: "0 \<le> x \<Longrightarrow> 0 \<le> f64 x"
  by (auto simp: f64_def Let_def intro!: mult_nonneg_nonneg round_even_nonneg divide_nonneg_pos less_imp_le [OF pow2_pos(1)])

text \<open>Integers of less than 53 bits are represented exactly.\<close>

lemma round_even_of_int [simp]: "round_even (of_int i) = i"
  by (simp add: round_even_def)

lemma ilog2_less: "0 < x \<Longrightarrow> x < pow2 k \<Longrightarrow> ilog2 x < k"
  using ilog2_lower [of x] pow2_mono [of k "ilog2 x"] by linarith

lemma f64_of_int_exact:
  assumes "0 \<le> i" and "i < 2 ^ 53"
  shows "f64_of_int i = of_int i"
proof (cases "i = 0")
  case False
  let ?x = "of_int i :: rat"
  define e where "e = max (ilog2 ?x - 52) (- 1074)"
  have pos: "0 < ?x" using assms False by simp
  have "pow2 53 = of_int (2 ^ 53)" by (simp add: pow2_def)
  with assms(2) have "?x < pow2 53" by (simp only: of_int_less_iff)
  from ilog2_less [OF pos this] have e: "e \<le> 0" by (simp add: e_def)
  define n where "n = nat (- e)"
  have pe: "pow2 e = 1 / 2 ^ n" using e by (auto simp: pow2_def n_def)
  have "?x / pow2 e = of_int (i * 2 ^ n)" unfolding pe by simp
  then have "round_even (?x / pow2 e) = i * 2 ^ n" by (simp only: round_even_of_int)
  moreover have "of_int (i * 2 ^ n) * pow2 e = ?x" unfolding pe by simp
  moreover have "f64_of_int i = of_int (round_even (?x / pow2 e)) * pow2 e"
    using False assms(1) unfolding f64_of_int_def f64_def Let_def e_def by simp
  ultimately show ?thesis by simp
qed (simp add: f64_of_int_def f64_def)

end
