(* ===== verification/Pricing_Engine.thy ===== *)
theory Pricing_Engine
  imports Pricing_Tables Go_Float "HOL-Library.List_Lexorder" "HOL-Library.Char_ord"
begin

text \<open>
  The pricing engine, \<open>internal/app/pricingengine\<close>: promotions in their order of evaluation, the discount of a
  rule, of a promotion and of a chain of promotions (\<open>promotions.go\<close>), the state that one evaluation loads
  (\<open>batch.go\<close>, \<open>product_meta.go\<close>) and the price of a line. The engine only reads the catalog here.
\<close>

section \<open>Promotions\<close>

record promo_eval_ctx =
  ec_Org :: uuid
  ec_MachineID :: "uuid option"
  ec_SiteID :: "uuid option"
  ec_ProductID :: uuid
  ec_CategoryID :: "uuid option"
  ec_TagIDs :: "uuid list"

record skipped_rule =
  sk_PromotionID :: uuid
  sk_RuleID :: uuid
  sk_RuleType :: string
  sk_Reason :: string

definition promoLess :: "promotion \<Rightarrow> promotion \<Rightarrow> bool" where
  "promoLess a b =
     (if pm_Priority a \<noteq> pm_Priority b then pm_Priority a > pm_Priority b
      else if pm_StartsAt a \<noteq> pm_StartsAt b then pm_StartsAt a > pm_StartsAt b
      else uuid_String (pm_ID a) < uuid_String (pm_ID b))"

definition SortPromotions :: "promotion list \<Rightarrow> promotion list" where
  "SortPromotions ps = SliceStable promoLess ps"

definition targetMatches :: "promo_eval_ctx \<Rightarrow> promotion_target \<Rightarrow> bool" where
  "targetMatches ctx t =
     (if tg_TargetType t = ''site'' then ec_SiteID ctx \<noteq> None \<and> tg_SiteID t = ec_SiteID ctx
      else if tg_TargetType t = ''machine'' then ec_MachineID ctx \<noteq> None \<and> tg_MachineID t = ec_MachineID ctx
      else if tg_TargetType t = ''product'' then tg_ProductID t = Some (ec_ProductID ctx)
      else if tg_TargetType t = ''category'' then ec_CategoryID ctx \<noteq> None \<and> tg_CategoryID t = ec_CategoryID ctx
      else if tg_TargetType t = ''tag''
      then (case tg_TagID t of None \<Rightarrow> False | Some tid \<Rightarrow> tid \<in> set (ec_TagIDs ctx))
      else False)"

definition promotionApplicable :: "promo_eval_ctx \<Rightarrow> uuid \<Rightarrow> promotion_target list \<Rightarrow> bool" where
  "promotionApplicable ctx promoID targets =
     (let promoTargets = filter (\<lambda>t. tg_PromotionID t = promoID) targets
      in promoTargets = [] \<or> list_ex (targetMatches ctx) promoTargets)"

text \<open>\<open>json.Unmarshal\<close> of the fields of a payload; a number that does not fit its field is an error.\<close>

definition float_field :: "jfield \<Rightarrow> rat option" where
  "float_field j =
     (let finite = (\<lambda>x. let y = f64 x in if y = 0 \<or> ilog2 \<bar>y\<bar> < 1024 then Some y else None)
      in case j of Absent \<Rightarrow> Some 0 | IntLit i \<Rightarrow> finite (of_int i) | DecLit m k \<Rightarrow> finite (of_int m / 10 ^ k) | NoNumber \<Rightarrow> None)"

definition int_field :: "jfield \<Rightarrow> int option" where
  "int_field j = (case j of Absent \<Rightarrow> Some 0 | IntLit i \<Rightarrow> (if in_i64 i then Some i else None) | _ \<Rightarrow> None)"

definition int_ptr_field :: "jfield \<Rightarrow> int option option" where
  "int_ptr_field j = (case j of Absent \<Rightarrow> Some None | IntLit i \<Rightarrow> (if in_i64 i then Some (Some i) else None) | _ \<Rightarrow> None)"

definition rulePayloadPct :: "rule_payload \<Rightarrow> (rat \<times> int option) option" where
  "rulePayloadPct p =
     (if \<not> pl_Object p then None
      else case (float_field (pl_Percent p), int_ptr_field (pl_MaxDiscountMinor p)) of
             (Some x, Some m) \<Rightarrow> Some (x, m) | _ \<Rightarrow> None)"

definition rulePayloadFixed :: "rule_payload \<Rightarrow> (int \<times> int option) option" where
  "rulePayloadFixed p =
     (if \<not> pl_Object p then None
      else case (int_field (pl_AmountMinor p), int_ptr_field (pl_MaxDiscountMinor p)) of
             (Some x, Some m) \<Rightarrow> Some (x, m) | _ \<Rightarrow> None)"

definition skip_rule :: "promotion_rule \<Rightarrow> string \<Rightarrow> skipped_rule" where
  "skip_rule rule reason =
     \<lparr>sk_PromotionID = ru_PromotionID rule, sk_RuleID = ru_ID rule, sk_RuleType = ru_RuleType rule, sk_Reason = reason\<rparr>"

definition skip_promo :: "uuid \<Rightarrow> string \<Rightarrow> skipped_rule" where
  "skip_promo i reason = \<lparr>sk_PromotionID = i, sk_RuleID = uuid_Nil, sk_RuleType = [], sk_Reason = reason\<rparr>"

definition cap_discount :: "int option \<Rightarrow> int \<Rightarrow> int" where
  "cap_discount m d = (case m of None \<Rightarrow> d | Some k \<Rightarrow> if k \<ge> 0 \<and> d > k then k else d)"

definition percent_of :: "int \<Rightarrow> rat \<Rightarrow> int" where
  "percent_of base pct = i64_of_f64 (f64_mul (f64_of_int base) (f64_div pct 100))"

definition discountFromRule :: "int \<Rightarrow> promotion_rule \<Rightarrow> int \<times> skipped_rule list" where
  "discountFromRule basePriceMinor rule =
     (if ru_RuleType rule = ''buy_x_get_y''
      then (0, [skip_rule rule ''rule_type_not_implemented_buy_x_get_y_deferred''])
      else if ru_RuleType rule = ''percentage_discount''
      then (case rulePayloadPct (ru_Payload rule) of
              None \<Rightarrow> (0, [skip_rule rule ''invalid_payload_percentage_discount''])
            | Some (pct, m) \<Rightarrow>
                if pct \<le> 0 then (0, [skip_rule rule ''invalid_payload_percentage_discount''])
                else let d = cap_discount m (percent_of basePriceMinor pct);
                         d = (if d > basePriceMinor then basePriceMinor else d)
                     in (if d < 0 then 0 else d, []))
      else if ru_RuleType rule = ''fixed_amount_discount''
      then (case rulePayloadFixed (ru_Payload rule) of
              None \<Rightarrow> (0, [skip_rule rule ''invalid_payload_fixed_amount_discount''])
            | Some (amount, m) \<Rightarrow>
                if amount \<le> 0 then (0, [skip_rule rule ''invalid_payload_fixed_amount_discount''])
                else let d = cap_discount m amount
                     in (if d > basePriceMinor then basePriceMinor else d, []))
      else (0, [skip_rule rule ''unknown_rule_type'']))"

text \<open>The loop over the rules of one promotion: the best discount so far, its rule, and what was skipped.\<close>

fun best_scan :: "int \<Rightarrow> promotion_rule list \<Rightarrow> int \<Rightarrow> promotion_rule option \<Rightarrow> skipped_rule list \<Rightarrow> int \<times> promotion_rule option \<times> skipped_rule list" where
  "best_scan base [] best rule skipped = (best, rule, skipped)"
| "best_scan base (r # rs) best rule skipped =
     (let (d, sk) = discountFromRule base r; skipped = skipped @ sk
      in if d \<le> 0 \<and> sk \<noteq> [] then best_scan base rs best rule skipped
         else if rule = None \<or> d > best then best_scan base rs d (Some r) skipped
         else best_scan base rs best rule skipped)"

definition bestDiscountForPromotion :: "int \<Rightarrow> promotion_rule list \<Rightarrow> int \<times> uuid \<times> skipped_rule list" where
  "bestDiscountForPromotion base rules =
     (case best_scan base rules 0 None [] of
        (best, rule, skipped) \<Rightarrow> (best, (case rule of None \<Rightarrow> uuid_Nil | Some r \<Rightarrow> ru_ID r), skipped))"

type_synonym applied = "int \<times> uuid list \<times> string list \<times> skipped_rule list"

definition rule_label :: "uuid \<Rightarrow> string list" where
  "rule_label rid = (if rid = uuid_Nil then [] else [''promotion_rule:'' @ uuid_String rid])"

fun first_promotion ::
  "int \<Rightarrow> (uuid \<Rightarrow> promotion_rule list) \<Rightarrow> promotion_target list \<Rightarrow> promo_eval_ctx \<Rightarrow> promotion list \<Rightarrow> skipped_rule list \<Rightarrow> applied" where
  "first_promotion base rulesByPromo targets ctx [] skipped = (0, [], [], skipped)"
| "first_promotion base rulesByPromo targets ctx (pr # prs) skipped =
     (if \<not> promotionApplicable ctx (pm_ID pr) targets
      then first_promotion base rulesByPromo targets ctx prs (skipped @ [skip_promo (pm_ID pr) ''target_not_matched''])
      else case bestDiscountForPromotion base (rulesByPromo (pm_ID pr)) of (d, rid, sk) \<Rightarrow>
        let skipped = skipped @ sk
        in if d \<le> 0
           then first_promotion base rulesByPromo targets ctx prs (skipped @ [skip_promo (pm_ID pr) ''no_discount_from_rules''])
           else (d, [pm_ID pr], rule_label rid, skipped))"

fun stack_promotions ::
  "(uuid \<Rightarrow> promotion_rule list) \<Rightarrow> promotion_target list \<Rightarrow> promo_eval_ctx \<Rightarrow> promotion list \<Rightarrow> int \<Rightarrow> applied \<Rightarrow> applied" where
  "stack_promotions rulesByPromo targets ctx [] remaining acc = acc"
| "stack_promotions rulesByPromo targets ctx (pr # prs) remaining (tot, ids, rules, skipped) =
     (if \<not> promotionApplicable ctx (pm_ID pr) targets
      then stack_promotions rulesByPromo targets ctx prs remaining
             (tot, ids, rules, skipped @ [skip_promo (pm_ID pr) ''target_not_matched''])
      else case bestDiscountForPromotion remaining (rulesByPromo (pm_ID pr)) of (d, rid, sk) \<Rightarrow>
        let skipped = skipped @ sk
        in if d \<le> 0
           then stack_promotions rulesByPromo targets ctx prs remaining
                  (tot, ids, rules, skipped @ [skip_promo (pm_ID pr) ''no_discount_from_rules''])
           else let d = (if d > remaining then remaining else d);
                    acc = (i64 (tot + d), ids @ [pm_ID pr], rules @ rule_label rid, skipped);
                    remaining = i64 (remaining - d)
                in if remaining \<le> 0 then acc
                   else stack_promotions rulesByPromo targets ctx prs remaining acc)"

definition applyPromotionsToBase ::
  "int \<Rightarrow> promotion list \<Rightarrow> (uuid \<Rightarrow> promotion_rule list) \<Rightarrow> promotion_target list \<Rightarrow> promo_eval_ctx \<Rightarrow> bool \<Rightarrow> applied" where
  "applyPromotionsToBase base promos rulesByPromo targets ctx stackChain =
     (if \<not> stackChain then first_promotion base rulesByPromo targets ctx (SortPromotions promos) []
      else stack_promotions rulesByPromo targets ctx (SortPromotions promos) base (0, [], [], []))"

definition EvaluatePromotionDiscountForProduct ::
  "int \<Rightarrow> promotion list \<Rightarrow> (uuid \<Rightarrow> promotion_rule list) \<Rightarrow> promotion_target list \<Rightarrow> promo_eval_ctx \<Rightarrow> applied" where
  "EvaluatePromotionDiscountForProduct baseBeforePromotions sortedPs rulesByPromo targets eCtx =
     (let applies = (\<lambda>pr. promotionApplicable eCtx (pm_ID pr) targets);
          skipped = map (\<lambda>pr. skip_promo (pm_ID pr) ''target_not_matched'') (filter (\<lambda>pr. \<not> applies pr) sortedPs);
          nonStack = filter (\<lambda>pr. applies pr \<and> \<not> pm_Stackable pr) sortedPs;
          stack = filter (\<lambda>pr. applies pr \<and> pm_Stackable pr) sortedPs;
          (d1, ids1, rr1, sk1) = (if nonStack = [] then (0, [], [], [])
             else applyPromotionsToBase baseBeforePromotions nonStack rulesByPromo targets eCtx False);
          remaining = i64 (baseBeforePromotions - d1);
          remaining = (if nonStack = [] then baseBeforePromotions else if remaining < 0 then 0 else remaining);
          (d2, ids2, rr2, sk2) = (if stack = [] then (0, [], [], [])
             else applyPromotionsToBase remaining stack rulesByPromo targets eCtx True)
      in (i64 (d1 + d2), ids1 @ ids2, rr1 @ rr2, skipped @ sk1 @ sk2))"

section \<open>The state of one evaluation\<close>

definition dedupeUUIDs :: "uuid list \<Rightarrow> uuid list" where
  "dedupeUUIDs xs = rev (fold (\<lambda>i out. if i = uuid_Nil \<or> i \<in> set out then out else i # out) xs [])"

record product_promo_meta =
  me_Category :: "uuid option"
  me_Tags :: "uuid list"

definition q_PromotionAdminGetProductCategory :: "catalog \<Rightarrow> uuid \<Rightarrow> go_err + uuid option" where
  "q_PromotionAdminGetProductCategory c productID =
     (case find (\<lambda>r. pd_ID r = productID) (ct_products c) of
        None \<Rightarrow> Inl (Err ErrNoRows) | Some r \<Rightarrow> Inr (pd_CategoryID r))"

definition q_PromotionAdminListProductTagIDs :: "catalog \<Rightarrow> uuid \<Rightarrow> uuid list" where
  "q_PromotionAdminListProductTagIDs c productID = map snd (filter (\<lambda>(p, t). p = productID) (ct_product_tags c))"

definition q_PromotionAdminGetProductCategories :: "catalog \<Rightarrow> uuid list \<Rightarrow> product_row list" where
  "q_PromotionAdminGetProductCategories c ids = filter (\<lambda>r. pd_ID r \<in> set ids) (ct_products c)"

definition q_PromotionAdminListProductTagIDsForProducts :: "catalog \<Rightarrow> uuid list \<Rightarrow> (uuid \<times> uuid) list" where
  "q_PromotionAdminListProductTagIDsForProducts c ids = filter (\<lambda>(p, t). p \<in> set ids) (ct_product_tags c)"

definition LoadProductPromoMetaBatch :: "catalog \<Rightarrow> uuid list \<Rightarrow> (uuid \<Rightarrow> product_promo_meta option)" where
  "LoadProductPromoMetaBatch c productIDs =
     (if productIDs = [] then (\<lambda>_. None)
      else let ids = dedupeUUIDs productIDs;
               cats = fold (\<lambda>row m. m(pd_ID row \<mapsto> \<lparr>me_Category = pd_CategoryID row, me_Tags = []\<rparr>))
                        (q_PromotionAdminGetProductCategories c ids) (\<lambda>_. None)
           in fold (\<lambda>(p, t) m. let x = (case m p of None \<Rightarrow> \<lparr>me_Category = None, me_Tags = []\<rparr> | Some x \<Rightarrow> x)
                                 in m(p \<mapsto> x\<lparr>me_Tags := me_Tags x @ [t]\<rparr>))
                (q_PromotionAdminListProductTagIDsForProducts c ids) cats)"

record batch =
  ba_scopeID :: uuid
  ba_machineID :: uuid
  ba_siteID :: uuid
  ba_at :: time
  ba_currency :: string
  ba_sortedPromos :: "promotion list"
  ba_rulesByPromo :: "uuid \<Rightarrow> promotion_rule list"
  ba_targets :: "promotion_target list"
  ba_promoNames :: "uuid \<Rightarrow> string option"
  ba_overridePrice :: "uuid \<Rightarrow> int option"
  ba_overrideCur :: "uuid \<Rightarrow> string option"
  ba_productMeta :: "(uuid \<Rightarrow> product_promo_meta option) option"

text \<open>The currency of the newest default price book of highest priority, or \<open>USD\<close>.\<close>

definition q_InventoryAdminGetOrgDefaultCurrency :: "catalog \<Rightarrow> time \<Rightarrow> string" where
  "q_InventoryAdminGetOrgDefaultCurrency c now =
     (case sort_key (\<lambda>b. - pb_Priority b) (sort_key (\<lambda>b. - pb_EffectiveFrom b)
             (filter (\<lambda>b. pb_IsDefault b \<and> pb_Level b = ''global'' \<and> pb_SiteID b = None \<and> pb_MachineID b = None
                \<and> (case pb_EffectiveTo b of None \<Rightarrow> True | Some u \<Rightarrow> u > now)) (ct_price_books c))) of
        [] \<Rightarrow> ''USD'' | b # _ \<Rightarrow> TrimSpace (pb_Currency b))"

definition q_CatalogAdminGetMachineSiteForOrg :: "catalog \<Rightarrow> uuid \<Rightarrow> go_err + uuid" where
  "q_CatalogAdminGetMachineSiteForOrg c machineID =
     (case map_of (ct_sites c) machineID of None \<Rightarrow> Inl (Err ErrNoRows) | Some i \<Rightarrow> Inr i)"

text \<open>\<open>SELECT DISTINCT ON (product_id)\<close>: per product the override that is valid since the latest instant.\<close>

definition q_PricingRuntimeListMachineOverridesAt :: "catalog \<Rightarrow> uuid \<Rightarrow> time \<Rightarrow> price_override list" where
  "q_PricingRuntimeListMachineOverridesAt c machineID evalAt =
     (let live = filter (\<lambda>r. ox_MachineID r = machineID \<and> ox_ValidFrom r \<le> evalAt
                   \<and> (case ox_ValidTo r of None \<Rightarrow> True | Some u \<Rightarrow> u > evalAt)) (ct_overrides c)
      in concat (map (\<lambda>p. take 1 (sort_key (\<lambda>r. - ox_ValidFrom r) (filter (\<lambda>r. ox_ProductID r = p) live)))
           (remdups (map ox_ProductID live))))"

definition q_PromotionAdminListPromotionsForPreview :: "catalog \<Rightarrow> time \<Rightarrow> promotion list" where
  "q_PromotionAdminListPromotionsForPreview c evalAt =
     rev (sort_key pm_Priority (sort_key pm_StartsAt (sort_key (\<lambda>p. uuid_String (pm_ID p))
       (filter (\<lambda>p. pm_LifecycleStatus p = ''active'' \<and> pm_ApprovalStatus p = ''approved''
          \<and> pm_StartsAt p \<le> evalAt \<and> pm_EndsAt p > evalAt) (ct_promotions c)))))"

definition q_PromotionAdminListRulesForPromotions :: "catalog \<Rightarrow> uuid list \<Rightarrow> promotion_rule list" where
  "q_PromotionAdminListRulesForPromotions c ids =
     sort_key (\<lambda>r. uuid_String (ru_PromotionID r)) (sort_key (\<lambda>r. - ru_Priority r) (sort_key ru_RuleType
       (filter (\<lambda>r. ru_PromotionID r \<in> set ids) (ct_rules c))))"

definition q_PromotionAdminListTargetsForOrgPromotions :: "catalog \<Rightarrow> promotion_target list" where
  "q_PromotionAdminListTargetsForOrgPromotions c =
     sort_key (\<lambda>t. uuid_String (tg_PromotionID t)) (sort_key tg_CreatedAt (ct_targets c))"

definition PromotionNameByID :: "promotion list \<Rightarrow> uuid \<Rightarrow> string option" where
  "PromotionNameByID promos = map_of (rev (map (\<lambda>p. (pm_ID p, pm_Name p)) promos))"

definition newBatch :: "catalog \<Rightarrow> time \<Rightarrow> uuid \<Rightarrow> uuid \<Rightarrow> time \<Rightarrow> go_err + batch" where
  "newBatch c now scopeID machineID evalAt =
     (let cur = ToUpper (TrimSpace (q_InventoryAdminGetOrgDefaultCurrency c now));
          currency = (if cur = [] then ''USD'' else cur)
      in case q_CatalogAdminGetMachineSiteForOrg c machineID of
           Inl e \<Rightarrow> Inl e
         | Inr siteID \<Rightarrow>
             let ovRows = q_PricingRuntimeListMachineOverridesAt c machineID evalAt;
                 sortedPromos = SortPromotions (q_PromotionAdminListPromotionsForPreview c evalAt);
                 ids = map pm_ID sortedPromos;
                 ruleRows = (if ids = [] then [] else q_PromotionAdminListRulesForPromotions c ids);
                 tgtRows = (if ids = [] then [] else q_PromotionAdminListTargetsForOrgPromotions c)
             in Inr \<lparr>ba_scopeID = scopeID, ba_machineID = machineID, ba_siteID = siteID, ba_at = evalAt, ba_currency = currency,
                     ba_sortedPromos = sortedPromos,
                     ba_rulesByPromo = (\<lambda>i. filter (\<lambda>r. ru_PromotionID r = i) ruleRows), ba_targets = tgtRows,
                     ba_promoNames = PromotionNameByID sortedPromos,
                     ba_overridePrice = map_of (rev (map (\<lambda>r. (ox_ProductID r, ox_UnitPriceMinor r)) ovRows)),
                     ba_overrideCur = map_of (rev (map (\<lambda>r. (ox_ProductID r, ToUpper (TrimSpace (ox_Currency r)))) ovRows)),
                     ba_productMeta = None\<rparr>)"

definition PrefetchProductMeta :: "catalog \<Rightarrow> batch \<Rightarrow> uuid list \<Rightarrow> batch" where
  "PrefetchProductMeta c b productIDs = b\<lparr>ba_productMeta := Some (LoadProductPromoMetaBatch c productIDs)\<rparr>"

definition productCategoryAndTags :: "catalog \<Rightarrow> batch \<Rightarrow> uuid \<Rightarrow> go_err + uuid option \<times> uuid list" where
  "productCategoryAndTags c b productID =
     (case Option.bind (ba_productMeta b) (\<lambda>m. m productID) of
        Some m \<Rightarrow> Inr (me_Category m, me_Tags m)
      | None \<Rightarrow>
          (case q_PromotionAdminGetProductCategory c productID of
             Inl e \<Rightarrow> Inl e
           | Inr cat \<Rightarrow> Inr (cat, q_PromotionAdminListProductTagIDs c productID)))"

section \<open>The price of a line\<close>

record price_line_input =
  li_MachineID :: uuid
  li_ProductID :: uuid
  li_SlotListUnitMinor :: int
  li_SlotConfigID :: uuid
  li_CabinetCode :: string
  li_SlotCode :: string
  li_SlotIndex :: int
  li_Quantity :: int

record line_price_result =
  lp_SlotListUnitMinor :: int
  lp_RegisterUnitMinor :: int
  lp_DiscountUnitMinor :: int
  lp_EffectiveUnitMinor :: int
  lp_SubtotalMinor :: int
  lp_TaxMinor :: int
  lp_TotalMinor :: int
  lp_Currency :: string
  lp_AppliedPromotionIDs :: "uuid list"
  lp_PromotionLabel :: string
  lp_PricingFingerprint :: string
  lp_CalcTrace :: "string list"

text \<open>SHA-256 with its hexadecimal text is the parameter \<open>sha\<close>.\<close>

definition hashStringsFingerprint :: "(string \<Rightarrow> string) \<Rightarrow> string \<Rightarrow> string list \<Rightarrow> string" where
  "hashStringsFingerprint sha prefix parts =
     sha (prefix @ [char_of (0::nat)] @ concat (map (\<lambda>p. p @ [char_of (0::nat)]) parts))"

definition SortedKeyFingerprint :: "(string \<Rightarrow> string) \<Rightarrow> string \<Rightarrow> string list \<Rightarrow> string" where
  "SortedKeyFingerprint sha prefix parts = hashStringsFingerprint sha prefix (sort parts)"

definition LinePricingFingerprint ::
  "(string \<Rightarrow> string) \<Rightarrow> uuid \<Rightarrow> uuid \<Rightarrow> uuid \<Rightarrow> int \<Rightarrow> uuid \<Rightarrow> int \<Rightarrow> int \<Rightarrow> int \<Rightarrow> uuid list \<Rightarrow> string" where
  "LinePricingFingerprint sha scopeID machineID slotCfg slotIdx productID slotList register eff promoIDs =
     SortedKeyFingerprint sha ''price_line_v1''
       ([''org:'' @ uuid_String scopeID, ''mach:'' @ uuid_String machineID, ''slot_cfg:'' @ uuid_String slotCfg,
         ''idx:'' @ Sprintd slotIdx, ''prod:'' @ uuid_String productID, ''slot_list:'' @ Sprintd slotList,
         ''reg:'' @ Sprintd register, ''eff:'' @ Sprintd eff] @ map (\<lambda>i. ''promo:'' @ uuid_String i) promoIDs)"

definition register_price :: "batch \<Rightarrow> price_line_input \<Rightarrow> go_err + int \<times> string list" where
  "register_price b inp =
     (let slotList = li_SlotListUnitMinor inp; trace = [''slot_list:'' @ Sprintd slotList]
      in case ba_overridePrice b (li_ProductID inp) of
           None \<Rightarrow> Inr (slotList, trace)
         | Some ov \<Rightarrow>
             let oc = ToUpper (TrimSpace (case ba_overrideCur b (li_ProductID inp) of None \<Rightarrow> [] | Some x \<Rightarrow> x))
             in if oc \<noteq> [] \<and> oc \<noteq> ba_currency b
                then Inl (GoErr ErrOther (''pricingengine: machine price override currency '' @ oc
                       @ '' does not match org currency '' @ ba_currency b))
                else Inr (ov, trace @ [''machine_override:'' @ Sprintd ov]))"

definition PriceLine :: "(string \<Rightarrow> string) \<Rightarrow> catalog \<Rightarrow> batch \<Rightarrow> price_line_input \<Rightarrow> go_err + line_price_result" where
  "PriceLine sha c b inp =
     (if uuid_Nil \<noteq> ba_scopeID b \<or> li_MachineID inp \<noteq> ba_machineID b
      then Inl (GoErr ErrOther ''pricingengine: batch org/machine mismatch'')
      else let qty = (if li_Quantity inp \<le> 0 then 1 else li_Quantity inp)
      in case register_price b inp of
           Inl e \<Rightarrow> Inl e
         | Inr (register, trace) \<Rightarrow>
             (case productCategoryAndTags c b (li_ProductID inp) of
                Inl e \<Rightarrow> Inl e
              | Inr (cat, tags) \<Rightarrow>
                  let eCtx = \<lparr>ec_Org = uuid_Nil, ec_MachineID = Some (ba_machineID b), ec_SiteID = Some (ba_siteID b),
                              ec_ProductID = li_ProductID inp, ec_CategoryID = cat, ec_TagIDs = tags\<rparr>;
                      (disc, applied, rules, skipped) =
                        (if ba_sortedPromos b = [] then (0, [], [], [])
                         else EvaluatePromotionDiscountForProduct register (ba_sortedPromos b) (ba_rulesByPromo b) (ba_targets b) eCtx);
                      eff = (let e = i64 (register - disc) in if e < 0 then 0 else e);
                      sub = i64 (eff * qty);
                      label = (case applied of [] \<Rightarrow> [] | i # _ \<Rightarrow> (case ba_promoNames b i of None \<Rightarrow> [] | Some n \<Rightarrow> n))
                  in Inr \<lparr>lp_SlotListUnitMinor = li_SlotListUnitMinor inp, lp_RegisterUnitMinor = register,
                          lp_DiscountUnitMinor = disc, lp_EffectiveUnitMinor = eff, lp_SubtotalMinor = sub, lp_TaxMinor = 0,
                          lp_TotalMinor = sub, lp_Currency = ba_currency b, lp_AppliedPromotionIDs = applied,
                          lp_PromotionLabel = label,
                          lp_PricingFingerprint = LinePricingFingerprint sha uuid_Nil (li_MachineID inp) (li_SlotConfigID inp)
                            (li_SlotIndex inp) (li_ProductID inp) (li_SlotListUnitMinor inp) register eff applied,
                          lp_CalcTrace = trace @ [''promo_discount:'' @ Sprintd disc]\<rparr>))"

end
