(* ===== verification/Pricing_Safety.thy ===== *)
theory Pricing_Safety
  imports Pricing_Engine "HOL-Library.Multiset"
begin

text \<open>
  What a discount may be: between nothing and the price, a percentage within one and a half minor units of
  the exact one, and the same in whatever order the promotions are read.
\<close>

section \<open>Order of evaluation\<close>

text \<open>A comparison that separates all rows with different keys.\<close>

locale separating_order =
  fixes lt :: "'a \<Rightarrow> 'a \<Rightarrow> bool" and key :: "'a \<Rightarrow> 'k"
  assumes irrefl: "\<not> lt x x"
    and trans: "lt x y \<Longrightarrow> lt y z \<Longrightarrow> lt x z"
    and separates: "key x \<noteq> key y \<Longrightarrow> lt x y \<or> lt y x"
begin

lemma mset_insert_stable: "mset (insert_stable lt x ys) = add_mset x (mset ys)"
  by (induction ys) auto

lemma mset_SliceStable [simp]: "mset (SliceStable lt xs) = mset xs"
  unfolding SliceStable_def by (induction xs) (auto simp: mset_insert_stable)

lemma set_SliceStable [simp]: "set (SliceStable lt xs) = set xs"
  by (metis mset_SliceStable set_mset_mset)

lemma sorted_insert_stable:
  "sorted_wrt lt ys \<Longrightarrow> key x \<notin> key ` set ys \<Longrightarrow> sorted_wrt lt (insert_stable lt x ys)"
proof (induction ys)
  case (Cons y ys)
  have in_ys: "set (insert_stable lt x ys) = insert x (set ys)"
    by (metis mset_insert_stable set_mset_add_mset_insert set_mset_mset)
  show ?case
  proof (cases "lt y x")
    case True
    with Cons in_ys show ?thesis by auto
  next
    case False
    with separates [of x y] Cons.prems have "lt x y" by auto
    with Cons.prems False show ?thesis by (auto intro: trans)
  qed
qed simp

lemma sorted_SliceStable: "distinct (map key xs) \<Longrightarrow> sorted_wrt lt (SliceStable lt xs)"
proof (induction xs)
  case (Cons x xs)
  have "key x \<notin> key ` set (SliceStable lt xs)" using Cons.prems by auto
  with Cons show ?case unfolding SliceStable_def by (auto intro: sorted_insert_stable)
qed (simp add: SliceStable_def)

lemma sorted_unique: "sorted_wrt lt xs \<Longrightarrow> sorted_wrt lt ys \<Longrightarrow> set xs = set ys \<Longrightarrow> xs = ys"
proof (induction xs arbitrary: ys)
  case (Cons x xs)
  then obtain y zs where ys: "ys = y # zs" by (cases ys) auto
  have x: "x \<notin> set xs" and y: "y \<notin> set zs" using Cons.prems irrefl by (auto simp: ys)
  have "x = y"
  proof (rule ccontr)
    assume "x \<noteq> y"
    with Cons.prems have "lt x y" "lt y x" by (auto simp: ys)
    then show False using trans irrefl by blast
  qed
  moreover from this x y Cons.prems(3) have "set xs = set zs" by (auto simp: ys)
  ultimately show ?case using Cons by (simp add: ys)
qed simp

lemma order_independent:
  assumes "mset xs = mset ys" and "distinct (map key xs)"
  shows "SliceStable lt xs = SliceStable lt ys"
proof -
  have "distinct (map key ys)" using assms by (metis mset_eq_imp_distinct_iff mset_map)
  with assms sorted_SliceStable [of xs] sorted_SliceStable [of ys] show ?thesis
    by (intro sorted_unique) (auto dest: mset_eq_setD)
qed

end

interpretation promo_order: separating_order promoLess pm_ID
proof
  show "\<not> promoLess x x" for x by (simp add: promoLess_def)
  show "promoLess x z" if "promoLess x y" "promoLess y z" for x y z
    using that by (auto simp: promoLess_def split: if_splits)
  show "promoLess x y \<or> promoLess y x" if "pm_ID x \<noteq> pm_ID y" for x y
  proof -
    have "uuid_String (pm_ID x) \<noteq> uuid_String (pm_ID y)" using that by (metis uuid.expand)
    then show ?thesis by (auto simp: promoLess_def)
  qed
qed

lemma SortPromotions_perm:
  "mset ps = mset qs \<Longrightarrow> distinct (map pm_ID ps) \<Longrightarrow> SortPromotions ps = SortPromotions qs"
  unfolding SortPromotions_def by (rule promo_order.order_independent)

lemma applyPromotions_perm:
  "mset ps = mset qs \<Longrightarrow> distinct (map pm_ID ps) \<Longrightarrow>
     applyPromotionsToBase base ps R T ctx st = applyPromotionsToBase base qs R T ctx st"
  using SortPromotions_perm [of ps qs] by (simp add: applyPromotionsToBase_def)

text \<open>
  C30: The price does not depend on the order of the promotions. Whatever order the rows come in, the discount,
  the promotions applied and their rules are the same.
\<close>

theorem discount_order_independent:
  assumes "mset ps = mset qs" and "distinct (map pm_ID ps)"
    and "EvaluatePromotionDiscountForProduct base ps R T ctx = (d, ids, rs, sk)"
    and "EvaluatePromotionDiscountForProduct base qs R T ctx = (d', ids', rs', sk')"
  shows "d = d' \<and> ids = ids' \<and> rs = rs'"
proof -
  have m: "mset (filter P ps) = mset (filter P qs)" for P using assms(1) by (simp add: mset_filter)
  have dist: "distinct (map pm_ID (filter P ps))" for P using assms(2) by (simp add: distinct_map_filter)
  have "filter P ps = [] \<longleftrightarrow> filter P qs = []" for P using m by (metis mset_zero_iff)
  with assms(3,4) applyPromotions_perm [OF m dist] show ?thesis
    by (auto simp: EvaluatePromotionDiscountForProduct_def Let_def split: prod.splits if_splits)
qed

section \<open>Discounts\<close>

lemma discountFromRule_bounds:
  "0 \<le> base \<Longrightarrow> discountFromRule base r = (d, sk) \<Longrightarrow> 0 \<le> d \<and> d \<le> base"
  by (auto simp: discountFromRule_def cap_discount_def Let_def split: if_splits option.splits prod.splits)

lemma best_scan_bounds:
  assumes "0 \<le> base"
  shows "best_scan base rs best rule skipped = (d, rule', sk) \<Longrightarrow> 0 \<le> best \<Longrightarrow> best \<le> base \<Longrightarrow> 0 \<le> d \<and> d \<le> base"
proof (induction rs arbitrary: best rule skipped)
  case (Cons r rs)
  obtain e sk1 where r: "discountFromRule base r = (e, sk1)" by fastforce
  with discountFromRule_bounds [OF assms] Cons show ?case by (auto simp: Let_def split: if_splits)
qed simp

lemma bestDiscount_bounds:
  "bestDiscountForPromotion base rules = (d, rid, sk) \<Longrightarrow> 0 \<le> base \<Longrightarrow> 0 \<le> d \<and> d \<le> base"
  using best_scan_bounds [of base rules 0 None "[]" d] by (auto simp: bestDiscountForPromotion_def split: prod.splits)

definition applicable_ids :: "promo_eval_ctx \<Rightarrow> promotion_target list \<Rightarrow> promotion list \<Rightarrow> uuid set" where
  "applicable_ids ctx T ps = pm_ID ` {p \<in> set ps. promotionApplicable ctx (pm_ID p) T}"

lemma applicable_ids_Cons:
  "applicable_ids ctx T (p # ps) =
     (if promotionApplicable ctx (pm_ID p) T then insert (pm_ID p) (applicable_ids ctx T ps) else applicable_ids ctx T ps)"
  by (auto simp: applicable_ids_def)

lemma first_promotion_bounds:
  assumes "0 \<le> base"
  shows "first_promotion base R T ctx ps skipped = (d, ids, rs, sk) \<Longrightarrow>
     0 \<le> d \<and> d \<le> base \<and> length ids \<le> 1 \<and> set ids \<subseteq> applicable_ids ctx T ps"
proof (induction ps arbitrary: skipped)
  case (Cons pr prs)
  obtain e rid sk1 where e: "bestDiscountForPromotion base (R (pm_ID pr)) = (e, rid, sk1)" by (metis prod_cases3)
  from bestDiscount_bounds [OF this assms] Cons e show ?case
    by (auto simp: Let_def applicable_ids_Cons split: if_splits; blast)
qed (use assms in auto)

lemma stack_promotions_bounds:
  "stack_promotions R T ctx ps remaining (tot, ids, rs, sk) = (d, ids', rs', sk') \<Longrightarrow>
     0 \<le> remaining \<Longrightarrow> 0 \<le> tot \<Longrightarrow> in_i64 (tot + remaining) \<Longrightarrow>
     tot \<le> d \<and> d \<le> tot + remaining \<and> set ids' \<subseteq> set ids \<union> applicable_ids ctx T ps"
proof (induction ps arbitrary: remaining tot ids rs sk)
  case (Cons pr prs)
  obtain e rid sk1 where e: "bestDiscountForPromotion remaining (R (pm_ID pr)) = (e, rid, sk1)" by (metis prod_cases3)
  have b: "0 \<le> e" "e \<le> remaining" using bestDiscount_bounds [OF e Cons.prems(2)] by auto
  have w: "i64 (tot + e) = tot + e" "i64 (remaining - e) = remaining - e"
    using Cons.prems(2-4) b by (auto intro!: i64_id simp: in_i64_def)
  show ?case
  proof (cases "promotionApplicable ctx (pm_ID pr) T \<and> 0 < e \<and> e < remaining")
    case True
    with Cons.prems(1) e b w
    have "stack_promotions R T ctx prs (remaining - e) (tot + e, ids @ [pm_ID pr], rs @ rule_label rid, sk @ sk1) = (d, ids', rs', sk')"
      by (simp add: Let_def)
    from Cons.IH [OF this] Cons.prems b True show ?thesis by (auto simp: applicable_ids_Cons)
  next
    case False
    with Cons.prems e b w Cons.IH show ?thesis
      by (auto simp: Let_def applicable_ids_Cons split: if_splits; fastforce)
  qed
qed simp

lemma applicable_ids_sub: "set ps \<subseteq> set qs \<Longrightarrow> applicable_ids ctx T ps \<subseteq> applicable_ids ctx T qs"
  by (auto simp: applicable_ids_def)

lemma applicable_ids_Sort [simp]: "applicable_ids ctx T (SortPromotions ps) = applicable_ids ctx T ps"
  by (simp add: applicable_ids_def SortPromotions_def)

lemma evaluate_parts:
  assumes "EvaluatePromotionDiscountForProduct base ps R T ctx = (d, ids, rs, sk)" and "0 \<le> base" and "in_i64 base"
  obtains d1 ids1 d2 ids2 where "d = d1 + d2" "ids = ids1 @ ids2" "0 \<le> d1" "0 \<le> d2" "d1 + d2 \<le> base" "length ids1 \<le> 1"
    "set ids1 \<subseteq> applicable_ids ctx T (filter (\<lambda>p. \<not> pm_Stackable p) ps)"
    "set ids2 \<subseteq> applicable_ids ctx T (filter pm_Stackable ps)"
proof -
  let ?non = "filter (\<lambda>pr. promotionApplicable ctx (pm_ID pr) T \<and> \<not> pm_Stackable pr) ps"
  let ?st = "filter (\<lambda>pr. promotionApplicable ctx (pm_ID pr) T \<and> pm_Stackable pr) ps"
  obtain d1 ids1 rr1 sk1 where a1: "(if ?non = [] then (0, [], [], []) else applyPromotionsToBase base ?non R T ctx False)
      = (d1, ids1, rr1, sk1)" by (metis prod_cases4)
  have b1: "0 \<le> d1" "d1 \<le> base" "length ids1 \<le> 1" "set ids1 \<subseteq> applicable_ids ctx T ?non"
    using a1 assms(2) first_promotion_bounds [OF assms(2), of R T ctx "SortPromotions ?non" "[]" d1 ids1 rr1 sk1]
    by (auto simp: applyPromotionsToBase_def split: if_splits)
  have rem: "i64 (base - d1) = base - d1" using assms b1 by (intro i64_id) (auto simp: in_i64_def)
  obtain d2 ids2 rr2 sk2 where a2: "(if ?st = [] then (0, [], [], []) else applyPromotionsToBase (base - d1) ?st R T ctx True)
      = (d2, ids2, rr2, sk2)" by (metis prod_cases4)
  have b2: "0 \<le> d2 \<and> d2 \<le> base - d1 \<and> set ids2 \<subseteq> applicable_ids ctx T ?st"
    using a2 b1 assms
      stack_promotions_bounds [of R T ctx "SortPromotions ?st" "base - d1" 0 "[]" "[]" "[]" d2 ids2 rr2 sk2]
    by (auto simp: applyPromotionsToBase_def in_i64_def split: if_splits)
  have "?non = [] \<Longrightarrow> d1 = 0" using a1 by auto
  then have base': "(if ?non = [] then base else if i64 (base - d1) < 0 then 0 else i64 (base - d1)) = base - d1"
    using rem b1 by auto
  have "EvaluatePromotionDiscountForProduct base ps R T ctx =
      (i64 (d1 + d2), ids1 @ ids2, rr1 @ rr2, map (\<lambda>pr. skip_promo (pm_ID pr) ''target_not_matched'')
         (filter (\<lambda>pr. \<not> promotionApplicable ctx (pm_ID pr) T) ps) @ sk1 @ sk2)"
    unfolding EvaluatePromotionDiscountForProduct_def Let_def a1 prod.case base' a2 by simp
  moreover have "i64 (d1 + d2) = d1 + d2" using b1 b2 assms by (intro i64_id) (auto simp: in_i64_def)
  ultimately show ?thesis
    using assms(1) b1 b2 applicable_ids_sub [of ?non "filter (\<lambda>p. \<not> pm_Stackable p) ps" ctx T]
      applicable_ids_sub [of ?st "filter pm_Stackable ps" ctx T]
    by (intro that [of d1 d2 ids1 ids2]) auto
qed


section \<open>Percentages\<close>

text \<open>
  A percentage is exact up to one and a half minor units. For prices below \<open>2^51\<close> and percentages up to a
  hundred the two roundings of the floating point computation and the final truncation together move the
  discount by less than one and a half.
\<close>

theorem percent_discount_accurate:
  assumes "0 < base" and "base < 2 ^ 51" and "pow2 (- 1000) \<le> pct" and "pct \<le> 100"
  shows "\<bar>of_int (percent_of base pct) - of_int base * pct / 100\<bar> < 3 / 2"
proof -
  define x where "x = of_int base * pct / 100"
  define q where "q = f64 (pct / 100)"
  define r where "r = f64 (of_int base * q)"
  have pos: "0 < pow2 (- 1000)" by (rule pow2_pos)
  have "pow2 (- 1000) = pow2 (- 1022) * 2 ^ 22" using pow2_add [of "- 1022" 22] by (simp add: pow2_def)
  with assms(3) have small: "pow2 (- 1022) * 4194304 \<le> pct" by simp
  have w: "0 < pow2 (- 1022)" by (rule pow2_pos)
  have p: "0 < pct" using assms(3) pos by linarith
  have "pow2 (- 1022) * 100 \<le> pct" using small w by linarith
  then have pq: "pow2 (- 1022) \<le> pct / 100" by simp
  have "base \<le> 2 ^ 51 - 1" using assms(2) by simp
  then have "(of_int base :: rat) \<le> of_int (2 ^ 51 - 1)" by (simp only: of_int_le_iff)
  then have b: "1 \<le> (of_int base :: rat)" "(of_int base :: rat) \<le> 2251799813685247" using assms(1) by simp_all
  have x: "0 < x" "x \<le> of_int base"
    using assms(4) p b mult_left_mono [of pct 100 "of_int base"] by (auto simp: x_def)
  have q: "\<bar>q - pct / 100\<bar> \<le> pct / 100 / 2 ^ 53" using f64_error [OF pq] by (simp add: q_def)
  have e53: "(2 :: rat) ^ 53 = 9007199254740992" by simp
  have "pct / 100 / 2 \<le> q" using q p unfolding e53 by linarith
  with small w have "pow2 (- 1022) \<le> q" by linarith
  also have "q \<le> of_int base * q" using b(1) calculation w mult_right_mono [of 1 "of_int base" q] by linarith
  finally have r: "\<bar>r - of_int base * q\<bar> \<le> of_int base * q / 2 ^ 53" using f64_error by (simp add: r_def)
  have y: "\<bar>of_int base * q - x\<bar> \<le> x / 2 ^ 53"
  proof -
    have "of_int base * q - x = of_int base * (q - pct / 100)" by (simp add: x_def algebra_simps)
    then have "\<bar>of_int base * q - x\<bar> = of_int base * \<bar>q - pct / 100\<bar>" using b(1) by (simp add: abs_mult)
    also have "\<dots> \<le> of_int base * (pct / 100 / 2 ^ 53)" using q b(1) by (intro mult_left_mono) auto
    finally show ?thesis by (simp add: x_def)
  qed
  have "\<bar>r - x\<bar> < 1 / 2" using r y x b unfolding e53 by linarith
  moreover have "0 \<le> r" unfolding r_def q_def using b p by (intro f64_nonneg mult_nonneg_nonneg) auto
  moreover have "percent_of base pct = \<lfloor>r\<rfloor>"
  proof -
    have "f64_of_int base = of_int base" using assms(1,2) by (intro f64_of_int_exact) auto
    then have "percent_of base pct = i64_of_f64 r" by (simp add: percent_of_def f64_mul_def f64_div_def r_def q_def)
    moreover have bound: "r < 9223372036854775808" using \<open>\<bar>r - x\<bar> < 1 / 2\<close> x b by linarith
    moreover have "in_i64 \<lfloor>r\<rfloor>" using \<open>0 \<le> r\<close> bound by (auto simp: in_i64_def floor_less_iff)
    ultimately show ?thesis using \<open>0 \<le> r\<close> by (simp add: i64_of_f64_def)
  qed
  ultimately show ?thesis unfolding x_def [symmetric] by linarith
qed

section \<open>Concrete promotions\<close>

definition percent_rule :: "int \<Rightarrow> promotion_rule" where
  "percent_rule n = \<lparr>ru_ID = UUID ''r1'', ru_PromotionID = UUID ''pr1'', ru_RuleType = ''percentage_discount'',
     ru_Payload = \<lparr>pl_Object = True, pl_Percent = IntLit n, pl_AmountMinor = Absent, pl_MaxDiscountMinor = Absent\<rparr>,
     ru_Priority = 0\<rparr>"

definition sample_promo :: "string \<Rightarrow> bool \<Rightarrow> promotion" where
  "sample_promo i st = \<lparr>pm_ID = UUID i, pm_Name = ''Summer'', pm_ApprovalStatus = ''approved'', pm_LifecycleStatus = ''active'',
     pm_Priority = 5, pm_Stackable = st, pm_StartsAt = 0, pm_EndsAt = 9000\<rparr>"

definition sample_ctx :: promo_eval_ctx where
  "sample_ctx = \<lparr>ec_Org = uuid_Nil, ec_MachineID = Some (UUID ''m1''), ec_SiteID = None, ec_ProductID = UUID ''p1'',
     ec_CategoryID = None, ec_TagIDs = []\<rparr>"

lemma percent_29_of_100: "percent_of 100 29 = 28"
proof -
  have q: "f64 (29 / 100) = 5224175567749775 / 18014398509481984"
    using f64_eqI [of "- 2" "29 / 100" 5224175567749775] by (simp add: pow2_def)
  have r: "f64 (100 * (5224175567749775 / 18014398509481984)) = 8162774324609023 / 281474976710656"
    using f64_eqI [of 4 "100 * (5224175567749775 / 18014398509481984)" 8162774324609023] by (simp add: pow2_def)
  have b: "f64_of_int 100 = 100" using f64_of_int_exact [of 100] by simp
  have "\<lfloor>8162774324609023 / 281474976710656 :: rat\<rfloor> = 28" by (rule floor_unique) simp_all
  then show ?thesis
    unfolding percent_of_def f64_mul_def f64_div_def b q r by (simp add: i64_of_f64_def in_i64_def)
qed

definition fixed_rule :: "int \<Rightarrow> promotion_rule" where
  "fixed_rule n = (percent_rule 0)\<lparr>ru_RuleType := ''fixed_amount_discount'',
     ru_Payload := \<lparr>pl_Object = True, pl_Percent = Absent, pl_AmountMinor = IntLit n, pl_MaxDiscountMinor = Absent\<rparr>\<rparr>"

text \<open>
  Twenty-nine percent of a hundred is twenty-eight. The quotient 29/100 is rounded down to a float and the
  product is cut off instead of rounded, so the discount is one unit less than the promotion promises.
\<close>

theorem percent_loses_a_unit: "discountFromRule 100 (percent_rule 29) = (28, [])"
proof -
  have "f64 29 = 29" using f64_of_int_exact [of 29] by (simp add: f64_of_int_def)
  then have "rulePayloadPct (ru_Payload (percent_rule 29)) = Some (29, None)"
    using ilog2_eqI [of 4 29]
    by (simp add: rulePayloadPct_def percent_rule_def float_field_def int_ptr_field_def pow2_def)
  moreover have "percent_of 100 29 = 28" by (rule percent_29_of_100)
  ultimately show ?thesis by (simp add: discountFromRule_def percent_rule_def cap_discount_def)
qed

theorem percent_discount_accurate_witness: "\<bar>of_int (percent_of 100 29) - of_int 100 * 29 / 100\<bar> < (3 / 2 :: rat)"
proof -
  have "pow2 (- 1000) \<le> pow2 0" by (rule pow2_mono) simp
  then have "pow2 (- 1000) \<le> 29" by (simp add: pow2_def)
  then show ?thesis using percent_discount_accurate [of 100 29] by simp
qed

theorem discount_order_independent_witness:
  "fst (EvaluatePromotionDiscountForProduct 1000 [sample_promo ''a'' True, sample_promo ''b'' False] (\<lambda>_. [fixed_rule 100]) [] sample_ctx)
   = fst (EvaluatePromotionDiscountForProduct 1000 [sample_promo ''b'' False, sample_promo ''a'' True] (\<lambda>_. [fixed_rule 100]) [] sample_ctx)"
proof -
  let ?e = "\<lambda>ps. EvaluatePromotionDiscountForProduct 1000 ps (\<lambda>_. [fixed_rule 100]) [] sample_ctx"
  let ?ps = "[sample_promo ''a'' True, sample_promo ''b'' False]" and ?qs = "[sample_promo ''b'' False, sample_promo ''a'' True]"
  have perm: "mset ?ps = mset ?qs" by simp
  have ids: "distinct (map pm_ID ?ps)" by (simp add: sample_promo_def)
  obtain d ids rs sk where a: "?e ?ps = (d, ids, rs, sk)" by (metis prod_cases4)
  obtain d' ids' rs' sk' where b: "?e ?qs = (d', ids', rs', sk')" by (metis prod_cases4)
  from discount_order_independent [OF perm ids a b] show ?thesis unfolding a b by simp
qed


end
