(* ===== verification/Sale_Lines.thy ===== *)
theory Sale_Lines
  imports Pricing_Engine Slot_Inventory
begin

text \<open>
  Which slot a sale line means and what it costs: \<open>sale_line.go\<close> and \<open>sale_line_batch.go\<close> of the pricing
  engine and the resolver methods of the store (\<open>commerce_sale_line.go\<close>, \<open>commerce_sale_line_batch.go\<close>). A
  product that a slot holds but the machine's published assortment lacks is added to the assortment first
  (\<open>SyncAssortmentFromCurrentSlotConfigs\<close> of \<open>internal/app/fleet/commerce_topology_bootstrap.go\<close>).
\<close>

section \<open>The slot of a line\<close>

record sale_line_selector =
  sl_MachineID :: uuid
  sl_ProductID :: uuid
  sl_SlotID :: "uuid option"
  sl_CabinetCode :: string
  sl_SlotCode :: string
  sl_SlotIndex :: "int option"

definition set_uuid :: "uuid option \<Rightarrow> bool" where
  "set_uuid i \<longleftrightarrow> i \<noteq> None \<and> i \<noteq> Some uuid_Nil"

definition matchSlotRow :: "sale_line_selector \<Rightarrow> slot_config \<Rightarrow> bool" where
  "matchSlotRow inp r \<longleftrightarrow>
     sc_ProductID r = Some (sl_ProductID inp)
     \<and> (if set_uuid (sl_SlotID inp) then Some (sc_ID r) = sl_SlotID inp
        else if TrimSpace (sl_CabinetCode inp) \<noteq> [] \<and> TrimSpace (sl_SlotCode inp) \<noteq> []
        then TrimSpace (sc_CabinetCode r) = TrimSpace (sl_CabinetCode inp)
             \<and> TrimSpace (sc_SlotCode r) = TrimSpace (sl_SlotCode inp)
        else (case sl_SlotIndex inp of None \<Rightarrow> False | Some i \<Rightarrow> i \<ge> 0 \<and> sc_SlotIndex r = Some i))"

definition pickSlotRow :: "slot_config list \<Rightarrow> uuid \<Rightarrow> sale_line_selector \<Rightarrow> go_err + slot_config" where
  "pickSlotRow rows org inp =
     (let hits = (if uuid_Nil \<noteq> org then [] else filter (matchSlotRow inp) rows)
      in case hits of
           [] \<Rightarrow> Inl (GoErr ErrInvalidArgument ''no matching current slot config for this product and slot selector'')
         | [r] \<Rightarrow> Inr r
         | _ \<Rightarrow> Inl (GoErr ErrInvalidArgument ''ambiguous slot selector; multiple slot configs matched''))"

section \<open>The published assortment\<close>

definition set_catalog :: "(catalog \<Rightarrow> catalog) \<Rightarrow> unit q" where
  "set_catalog f = writes (\<lambda>s. s\<lparr>db_catalog := f (db_catalog s)\<rparr>)"

definition primary_bindings :: "catalog \<Rightarrow> uuid \<Rightarrow> assortment_binding list" where
  "primary_bindings c machineID =
     filter (\<lambda>b. ab_MachineID b = machineID \<and> ab_IsPrimary b \<and> ab_ValidTo b = None) (ct_bindings c)"

definition q_CommerceIsProductInMachinePublishedAssortment :: "uuid \<Rightarrow> uuid \<Rightarrow> bool q" where
  "q_CommerceIsProductInMachinePublishedAssortment productID machineID =
     reads (\<lambda>s. machineID \<in> set (db_machines s)
       \<and> list_ex (\<lambda>b. list_ex (\<lambda>a. as_ID a = ab_AssortmentID b \<and> as_Status a = ''published'') (ct_assortments (db_catalog s))
            \<and> list_ex (\<lambda>i. ai_AssortmentID i = ab_AssortmentID b \<and> ai_ProductID i = productID) (ct_items (db_catalog s)))
          (primary_bindings (db_catalog s) machineID))"

text \<open>The assortments of the items of the machine's primary assortment, by sort order and product name.\<close>

definition q_FleetAdminListAssortmentProductsByMachine :: "uuid \<Rightarrow> uuid list q" where
  "q_FleetAdminListAssortmentProductsByMachine machineID =
     reads (\<lambda>s. let c = db_catalog s in
       if machineID \<notin> set (db_machines s) then []
       else map (\<lambda>(i, p). ai_AssortmentID i) (sort_key (\<lambda>(i, p). ai_SortOrder i) (sort_key (\<lambda>(i, p). pd_Name p)
         (concat (map (\<lambda>b. concat (map (\<lambda>a. concat (map (\<lambda>i. map (\<lambda>p. (i, p)) (filter (\<lambda>p. pd_ID p = ai_ProductID i) (ct_products c)))
            (filter (\<lambda>i. ai_AssortmentID i = as_ID a) (ct_items c))))
            (filter (\<lambda>a. as_ID a = ab_AssortmentID b) (ct_assortments c))))
            (primary_bindings c machineID))))))"

definition q_FleetAdminInsertAssortment :: "string \<Rightarrow> uuid q" where
  "q_FleetAdminInsertAssortment status =
     bnd gen_uuid (\<lambda>i.
       seq (set_catalog (\<lambda>c. c\<lparr>ct_assortments := ct_assortments c @ [\<lparr>as_ID = i, as_Status = status\<rparr>]\<rparr>)) (ret i))"

definition q_FleetAdminBindMachinePrimaryAssortment :: "uuid \<Rightarrow> uuid \<Rightarrow> int q" where
  "q_FleetAdminBindMachinePrimaryAssortment machineID assortmentID =
     bnd (reads db_now) (\<lambda>now.
     bnd (reads (\<lambda>s. machineID \<in> set (db_machines s)
            \<and> list_ex (\<lambda>a. as_ID a = assortmentID) (ct_assortments (db_catalog s)))) (\<lambda>known.
     seq (set_catalog (\<lambda>c. c\<lparr>ct_bindings :=
            upd_where (\<lambda>b. ab_MachineID b = machineID \<and> ab_IsPrimary b \<and> ab_ValidTo b = None)
              (\<lambda>b. b\<lparr>ab_ValidTo := Some now\<rparr>) (ct_bindings c)
            @ (if known then [\<lparr>ab_MachineID = machineID, ab_AssortmentID = assortmentID, ab_IsPrimary = True,
                               ab_ValidFrom = now, ab_ValidTo = None\<rparr>] else [])\<rparr>))
       (ret (if known then 1 else 0))))"

definition q_FleetAdminUpsertAssortmentItem :: "uuid \<Rightarrow> uuid \<Rightarrow> int \<Rightarrow> unit q" where
  "q_FleetAdminUpsertAssortmentItem assortmentID productID sortOrder =
     set_catalog (\<lambda>c. c\<lparr>ct_items :=
       (let same = (\<lambda>i. ai_AssortmentID i = assortmentID \<and> ai_ProductID i = productID)
        in if list_ex same (ct_items c) then upd_where same (\<lambda>i. i\<lparr>ai_SortOrder := sortOrder\<rparr>) (ct_items c)
           else ct_items c @ [\<lparr>ai_AssortmentID = assortmentID, ai_ProductID = productID, ai_SortOrder = sortOrder\<rparr>])\<rparr>)"

fun upsert_items :: "uuid \<Rightarrow> uuid list \<Rightarrow> int \<Rightarrow> unit q" where
  "upsert_items assortmentID [] i = ret ()"
| "upsert_items assortmentID (pid # pids) i =
     seq (q_FleetAdminUpsertAssortmentItem assortmentID pid i) (upsert_items assortmentID pids (i + 1))"

definition assigned_products :: "slot_config list \<Rightarrow> uuid list" where
  "assigned_products rows =
     sort_key uuid_String (remdups (filter (\<lambda>p. p \<noteq> uuid_Nil) (List.map_filter sc_ProductID rows)))"

definition syncAssortmentFromCurrentSlotConfigsInTx :: "uuid \<Rightarrow> unit q" where
  "syncAssortmentFromCurrentSlotConfigsInTx machineID =
     bnd (q_ListCurrentSlotConfigs machineID) (\<lambda>rows.
       let pids = assigned_products rows
       in if pids = [] then ret ()
          else bnd (q_FleetAdminListAssortmentProductsByMachine machineID) (\<lambda>asmRows.
            bnd (case asmRows of
                   a # _ \<Rightarrow> ret a
                 | [] \<Rightarrow> bnd (q_FleetAdminInsertAssortment ''published'') (\<lambda>i.
                     bnd (q_FleetAdminBindMachinePrimaryAssortment machineID i) (\<lambda>n.
                       if n = 0 then raise (GoErr ErrOther ''fleet: bind primary assortment affected 0 rows'')
                       else ret i))) (\<lambda>assortmentID.
              upsert_items assortmentID pids 0)))"

definition SyncAssortmentFromCurrentSlotConfigs :: "uuid \<Rightarrow> unit q" where
  "SyncAssortmentFromCurrentSlotConfigs machineID =
     (if machineID = uuid_Nil then raise (GoErr ErrOther ''invalid pool or machineId'')
      else tx (syncAssortmentFromCurrentSlotConfigsInTx machineID))"

definition repairPublishedAssortmentFromSlotConfigs :: "uuid \<Rightarrow> uuid \<Rightarrow> bool q" where
  "repairPublishedAssortmentFromSlotConfigs machineID productID =
     (if machineID = uuid_Nil \<or> productID = uuid_Nil then ret False
      else bnd (q_ListCurrentSlotConfigs machineID) (\<lambda>rows.
        if \<not> list_ex (\<lambda>r. sc_ProductID r = Some productID) rows then ret False
        else seq (SyncAssortmentFromCurrentSlotConfigs machineID) (ret True)))"

definition published_or_repaired :: "uuid \<Rightarrow> uuid \<Rightarrow> unit q" where
  "published_or_repaired machineID productID =
     bnd (q_CommerceIsProductInMachinePublishedAssortment productID machineID) (\<lambda>ok.
     bnd (if ok then ret True
          else bnd (repairPublishedAssortmentFromSlotConfigs machineID productID) (\<lambda>repaired.
            if repaired then q_CommerceIsProductInMachinePublishedAssortment productID machineID else ret False)) (\<lambda>ok.
       guard ok (GoErr ErrInvalidArgument ''product is not in the machine's published assortment'')))"

section \<open>The price of a sale line\<close>

definition load_batch :: "uuid \<Rightarrow> time \<Rightarrow> batch q" where
  "load_batch machineID evalAt =
     bnd (reads (\<lambda>s. newBatch (db_catalog s) (db_now s) uuid_Nil machineID evalAt)) lift_res"

definition price_slot :: "(string \<Rightarrow> string) \<Rightarrow> batch \<Rightarrow> uuid \<Rightarrow> sale_line_selector \<Rightarrow> slot_config \<Rightarrow> int \<Rightarrow> int \<Rightarrow> line_price_result q" where
  "price_slot sha b machineID inp row si qty =
     bnd (reads db_catalog) (\<lambda>c. lift_res (PriceLine sha c b
       \<lparr>li_MachineID = machineID, li_ProductID = sl_ProductID inp, li_SlotListUnitMinor = sc_PriceMinor row,
        li_SlotConfigID = sc_ID row, li_CabinetCode = sc_CabinetCode row, li_SlotCode = sc_SlotCode row,
        li_SlotIndex = si, li_Quantity = qty\<rparr>))"

definition slot_index_of :: "string \<Rightarrow> slot_config \<Rightarrow> int q" where
  "slot_index_of msg row = (case sc_SlotIndex row of None \<Rightarrow> raise (GoErr ErrOther msg) | Some i \<Rightarrow> ret i)"

definition EvaluateSaleLine ::
  "(string \<Rightarrow> string) \<Rightarrow> sale_line_selector \<Rightarrow> time \<Rightarrow> int \<Rightarrow> (line_price_result \<times> slot_config) q" where
  "EvaluateSaleLine sha inp evalAt qty =
     seq (published_or_repaired (sl_MachineID inp) (sl_ProductID inp))
     (bnd (q_ListCurrentSlotConfigs (sl_MachineID inp)) (\<lambda>rows.
      bnd (lift_res (pickSlotRow rows uuid_Nil inp)) (\<lambda>row.
      bnd (slot_index_of ''pricingengine: slot config has no slot_index'' row) (\<lambda>si.
      bnd (load_batch (sl_MachineID inp) evalAt) (\<lambda>b.
      bnd (price_slot sha b (sl_MachineID inp) inp row si qty) (\<lambda>res. ret (res, row)))))))"

type_synonym sale_line_request = "sale_line_selector \<times> int"

fun evaluate_each ::
  "(string \<Rightarrow> string) \<Rightarrow> slot_config list \<Rightarrow> batch \<Rightarrow> uuid \<Rightarrow> sale_line_request list \<Rightarrow> (line_price_result \<times> slot_config) list q" where
  "evaluate_each sha rows b machineID [] = ret []"
| "evaluate_each sha rows b machineID ((inp, q) # reqs) =
     (let qty = (if q \<le> 0 then 1 else q)
      in seq (published_or_repaired machineID (sl_ProductID inp))
         (bnd (lift_res (pickSlotRow rows uuid_Nil inp)) (\<lambda>row.
          bnd (slot_index_of ''pricingengine: slot config has no slot_index'' row) (\<lambda>si.
          bnd (price_slot sha b machineID inp row si qty) (\<lambda>res.
          bnd (evaluate_each sha rows b machineID reqs) (\<lambda>rest. ret ((res, row) # rest)))))))"

definition prefetch_products :: "batch \<Rightarrow> uuid list \<Rightarrow> batch q" where
  "prefetch_products b productIDs =
     (if productIDs = [] then ret b else reads (\<lambda>s. PrefetchProductMeta (db_catalog s) b productIDs))"

definition EvaluateSaleLines ::
  "(string \<Rightarrow> string) \<Rightarrow> sale_line_request list \<Rightarrow> time \<Rightarrow> (line_price_result \<times> slot_config) list q" where
  "EvaluateSaleLines sha reqs evalAt =
     (case reqs of
        [] \<Rightarrow> raise (GoErr ErrInvalidArgument ''at least one sale line required'')
      | (first, _) # _ \<Rightarrow>
          let machineID = sl_MachineID first
          in if machineID = uuid_Nil then raise (GoErr ErrInvalidArgument ''machine_id required'')
             else if list_ex (\<lambda>(inp, _). sl_MachineID inp \<noteq> machineID) reqs
             then raise (GoErr ErrInvalidArgument ''all sale lines must share machine_id'')
             else bnd (q_ListCurrentSlotConfigs machineID) (\<lambda>rows.
               bnd (load_batch machineID evalAt) (\<lambda>b.
               bnd (prefetch_products b (dedupeUUIDs (map (\<lambda>(inp, _). sl_ProductID inp) reqs))) (\<lambda>b.
                 evaluate_each sha rows b machineID reqs))))"

section \<open>The resolver of the store\<close>

record resolved_sale_line =
  rl_SlotConfigID :: uuid
  rl_CabinetCode :: string
  rl_SlotCode :: string
  rl_SlotIndex :: int
  rl_PriceMinor :: int
  rl_SubtotalMinor :: int
  rl_TaxMinor :: int
  rl_TotalMinor :: int
  rl_BasePriceMinor :: int
  rl_DiscountUnitMinor :: int
  rl_PromotionLabel :: string
  rl_Currency :: string
  rl_PricingFingerprint :: string
  rl_AppliedPromotionIDs :: "uuid list"

definition MapToResolvedSaleLine :: "uuid \<Rightarrow> string \<Rightarrow> string \<Rightarrow> int \<Rightarrow> line_price_result \<Rightarrow> resolved_sale_line" where
  "MapToResolvedSaleLine slotCfgID cab slot slotIdx r =
     \<lparr>rl_SlotConfigID = slotCfgID, rl_CabinetCode = cab, rl_SlotCode = slot, rl_SlotIndex = slotIdx,
      rl_PriceMinor = lp_EffectiveUnitMinor r, rl_SubtotalMinor = lp_SubtotalMinor r, rl_TaxMinor = lp_TaxMinor r,
      rl_TotalMinor = lp_TotalMinor r, rl_BasePriceMinor = lp_RegisterUnitMinor r,
      rl_DiscountUnitMinor = lp_DiscountUnitMinor r, rl_PromotionLabel = lp_PromotionLabel r, rl_Currency = lp_Currency r,
      rl_PricingFingerprint = lp_PricingFingerprint r, rl_AppliedPromotionIDs = lp_AppliedPromotionIDs r\<rparr>"

definition resolved_of :: "line_price_result \<times> slot_config \<Rightarrow> resolved_sale_line q" where
  "resolved_of p =
     bnd (slot_index_of ''postgres: slot config has no slot_index'' (snd p)) (\<lambda>si.
       ret (MapToResolvedSaleLine (sc_ID (snd p)) (sc_CabinetCode (snd p)) (sc_SlotCode (snd p)) si (fst p)))"

definition EvaluateSaleLineAt :: "(string \<Rightarrow> string) \<Rightarrow> sale_line_selector \<Rightarrow> time \<Rightarrow> int \<Rightarrow> resolved_sale_line q" where
  "EvaluateSaleLineAt sha inp evalAt qty = bnd (EvaluateSaleLine sha inp evalAt qty) resolved_of"

definition ResolveSaleLine :: "(string \<Rightarrow> string) \<Rightarrow> sale_line_selector \<Rightarrow> resolved_sale_line q" where
  "ResolveSaleLine sha inp = bnd (reads db_now) (\<lambda>now. bnd (EvaluateSaleLine sha inp now 1) resolved_of)"

definition ResolveSaleLineWithQuantity :: "(string \<Rightarrow> string) \<Rightarrow> sale_line_selector \<Rightarrow> int \<Rightarrow> resolved_sale_line q" where
  "ResolveSaleLineWithQuantity sha inp qty =
     bnd (reads db_now) (\<lambda>now. EvaluateSaleLineAt sha inp now (if qty \<le> 0 then 1 else qty))"

definition LookupSlotDisplay :: "(string \<Rightarrow> string) \<Rightarrow> uuid \<Rightarrow> uuid \<Rightarrow> int \<Rightarrow> resolved_sale_line q" where
  "LookupSlotDisplay sha machineID productID slotIndex =
     ResolveSaleLine sha \<lparr>sl_MachineID = machineID, sl_ProductID = productID, sl_SlotID = None, sl_CabinetCode = [],
       sl_SlotCode = [], sl_SlotIndex = Some slotIndex\<rparr>"

definition LookupCurrentSlotConfigByCode :: "uuid \<Rightarrow> string \<Rightarrow> slot_config q" where
  "LookupCurrentSlotConfigByCode machineID slotCode =
     (let code = TrimSpace slotCode
      in if machineID = uuid_Nil \<or> code = [] then raise (GoErr ErrInvalidArgument ''machine_id and slot_code required'')
         else bnd (q_ListCurrentSlotConfigs machineID) (\<lambda>rows.
           case find (\<lambda>r. EqualFold (TrimSpace (sc_SlotCode r)) code) rows of
             None \<Rightarrow> raise (Err ErrNotFound) | Some r \<Rightarrow> ret r))"

fun resolve_all :: "(line_price_result \<times> slot_config) list \<Rightarrow> resolved_sale_line list q" where
  "resolve_all [] = ret []"
| "resolve_all (p # ps) = bnd (resolved_of p) (\<lambda>r. bnd (resolve_all ps) (\<lambda>rs. ret (r # rs)))"

definition ResolveQuoteSaleLines ::
  "(string \<Rightarrow> string) \<Rightarrow> uuid \<Rightarrow> (sale_line_selector \<times> int) list \<Rightarrow> resolved_sale_line list q" where
  "ResolveQuoteSaleLines sha machineID lines =
     (if machineID = uuid_Nil \<or> lines = [] then raise (GoErr ErrInvalidArgument ''machine_id and lines required'')
      else bnd (reads db_now) (\<lambda>now.
        bnd (EvaluateSaleLines sha
               (map (\<lambda>(inp, qty). (inp\<lparr>sl_MachineID := machineID\<rparr>, if qty \<le> 0 then 1 else qty)) lines) now) resolve_all))"

end
