(* ===== verification/Sale_Line_Safety.thy ===== *)
theory Sale_Line_Safety
  imports Sale_Lines Pricing_Safety
begin

text \<open>
  The batched evaluation of a cart prices every line as the evaluation of that line alone, and a price is
  what the register shows less the discount, times the quantity.
\<close>

section \<open>Products loaded together\<close>

definition catalog_ok :: "catalog \<Rightarrow> bool" where
  "catalog_ok c \<longleftrightarrow> distinct (map pd_ID (ct_products c)) \<and> fst ` set (ct_product_tags c) \<subseteq> pd_ID ` set (ct_products c)"

lemma categories_at:
  "distinct (map pd_ID rows) \<Longrightarrow>
     fold (\<lambda>row m. m(pd_ID row \<mapsto> f row)) rows m0 p = (case find (\<lambda>r. pd_ID r = p) rows of None \<Rightarrow> m0 p | Some r \<Rightarrow> Some (f r))"
proof (induction rows arbitrary: m0)
  case (Cons r rows)
  have "p = pd_ID r \<Longrightarrow> find (\<lambda>q. pd_ID q = p) rows = None" using Cons.prems by (auto simp: find_None_iff image_iff)
  with Cons show ?case by (auto split: option.splits)
qed simp

definition meta_at :: "(uuid \<Rightarrow> product_promo_meta option) \<Rightarrow> uuid \<Rightarrow> product_promo_meta" where
  "meta_at m p = (case m p of None \<Rightarrow> \<lparr>me_Category = None, me_Tags = []\<rparr> | Some x \<Rightarrow> x)"

lemma tags_at:
  "fold (\<lambda>(q, t) m. m(q \<mapsto> (meta_at m q)\<lparr>me_Tags := me_Tags (meta_at m q) @ [t]\<rparr>)) ts m p =
     (if filter (\<lambda>(q, t). q = p) ts = [] then m p
      else Some ((meta_at m p)\<lparr>me_Tags := me_Tags (meta_at m p) @ map snd (filter (\<lambda>(q, t). q = p) ts)\<rparr>))"
proof (induction ts arbitrary: m)
  case (Cons a ts)
  then show ?case by (cases a) (auto simp: meta_at_def)
qed simp

lemma dedupe_set: "set (dedupeUUIDs ids) = set ids - {uuid_Nil}"
proof -
  have "set (fold (\<lambda>i out. if i = uuid_Nil \<or> i \<in> set out then out else i # out) ids acc) = set acc \<union> (set ids - {uuid_Nil})" for acc
    by (induction ids arbitrary: acc) auto
  from this [of "[]"] show ?thesis by (simp add: dedupeUUIDs_def)
qed

lemma find_filter: "find P (filter Q xs) = find (\<lambda>x. P x \<and> Q x) xs"
  by (induction xs) auto

lemma loaded_meta:
  assumes "catalog_ok c"
  shows "LoadProductPromoMetaBatch c ids p =
    (if p \<in> set ids \<and> p \<noteq> uuid_Nil
     then map_option (\<lambda>r. \<lparr>me_Category = pd_CategoryID r, me_Tags = q_PromotionAdminListProductTagIDs c p\<rparr>)
            (find (\<lambda>r. pd_ID r = p) (ct_products c))
     else None)"
proof -
  let ?I = "set (dedupeUUIDs ids)"
  have tags: "filter (\<lambda>(q, t). q = p) (filter (\<lambda>(q, t). q \<in> ?I) (ct_product_tags c))
      = (if p \<in> ?I then filter (\<lambda>(q, t). q = p) (ct_product_tags c) else [])"
    by (auto simp: filter_empty_conv intro!: filter_cong)
  have prods: "find (\<lambda>r. pd_ID r = p) (filter (\<lambda>r. pd_ID r \<in> ?I) (ct_products c))
      = (if p \<in> ?I then find (\<lambda>r. pd_ID r = p) (ct_products c) else None)"
    unfolding find_filter by (auto simp: find_None_iff intro!: find_cong)
  have none: "filter (\<lambda>(q, t). q = p) (ct_product_tags c) = []" if "find (\<lambda>r. pd_ID r = p) (ct_products c) = None"
    using that assms by (force simp: find_None_iff filter_empty_conv catalog_ok_def)
  have dist: "distinct (map pd_ID (filter P (ct_products c)))" for P
    using assms by (simp add: catalog_ok_def distinct_map_filter)
  have "LoadProductPromoMetaBatch c ids p = (if ids = [] then None else
      fold (\<lambda>(q, t) m. m(q \<mapsto> (meta_at m q)\<lparr>me_Tags := me_Tags (meta_at m q) @ [t]\<rparr>))
        (filter (\<lambda>(q, t). q \<in> ?I) (ct_product_tags c))
        (fold (\<lambda>row m. m(pd_ID row \<mapsto> \<lparr>me_Category = pd_CategoryID row, me_Tags = []\<rparr>))
           (filter (\<lambda>r. pd_ID r \<in> ?I) (ct_products c)) (\<lambda>_. None)) p)"
    by (simp add: LoadProductPromoMetaBatch_def Let_def meta_at_def q_PromotionAdminGetProductCategories_def
        q_PromotionAdminListProductTagIDsForProducts_def)
  also have "\<dots> = (if p \<in> ?I then map_option (\<lambda>r. \<lparr>me_Category = pd_CategoryID r,
      me_Tags = q_PromotionAdminListProductTagIDs c p\<rparr>) (find (\<lambda>r. pd_ID r = p) (ct_products c)) else None)"
    unfolding tags_at tags
    unfolding meta_at_def categories_at [OF dist] prods q_PromotionAdminListProductTagIDs_def
    using none by (auto simp: dedupe_set split: option.splits)
  finally show ?thesis by (simp add: dedupe_set)
qed

lemma prefetch_sel:
  "ba_scopeID (PrefetchProductMeta c b ids) = ba_scopeID b" "ba_machineID (PrefetchProductMeta c b ids) = ba_machineID b"
  "ba_siteID (PrefetchProductMeta c b ids) = ba_siteID b" "ba_currency (PrefetchProductMeta c b ids) = ba_currency b"
  "ba_sortedPromos (PrefetchProductMeta c b ids) = ba_sortedPromos b"
  "ba_rulesByPromo (PrefetchProductMeta c b ids) = ba_rulesByPromo b" "ba_targets (PrefetchProductMeta c b ids) = ba_targets b"
  "ba_promoNames (PrefetchProductMeta c b ids) = ba_promoNames b"
  "ba_overridePrice (PrefetchProductMeta c b ids) = ba_overridePrice b"
  "ba_overrideCur (PrefetchProductMeta c b ids) = ba_overrideCur b"
  by (simp_all add: PrefetchProductMeta_def)

lemma prefetch_same_price:
  assumes "catalog_ok c" and "ba_productMeta b = None"
  shows "PriceLine sha c (PrefetchProductMeta c b ids) inp = PriceLine sha c b inp"
proof -
  have meta: "productCategoryAndTags c (PrefetchProductMeta c b ids) p = productCategoryAndTags c b p" for p
    using assms by (auto simp: productCategoryAndTags_def PrefetchProductMeta_def loaded_meta
        q_PromotionAdminGetProductCategory_def split: option.splits)
  show ?thesis unfolding PriceLine_def register_price_def prefetch_sel meta ..
qed

section \<open>Lines priced together\<close>

definition published :: "db \<Rightarrow> uuid \<Rightarrow> uuid \<Rightarrow> bool" where
  "published s machineID productID \<longleftrightarrow> fst (q_CommerceIsProductInMachinePublishedAssortment productID machineID s) = Inr True"

lemma published_run: "published s m p \<Longrightarrow> published_or_repaired m p s = (Inr (), s)"
  by (simp add: published_def published_or_repaired_def q_CommerceIsProductInMachinePublishedAssortment_def bnd_run)

definition slot_rows :: "db \<Rightarrow> uuid \<Rightarrow> slot_config list" where
  "slot_rows s m = sort_key sc_CabinetOrder (sort_key sc_CabinetCode (sort_key sc_SlotCode
     (filter (\<lambda>c. sc_MachineID c = m \<and> sc_IsCurrent c) (db_slot_configs s))))"

lemma slot_rows_run: "q_ListCurrentSlotConfigs m s = (Inr (slot_rows s m), s)"
  by (simp add: q_ListCurrentSlotConfigs_def slot_rows_def)

text \<open>One line over given rows and a given batch.\<close>

definition line_of :: "(string \<Rightarrow> string) \<Rightarrow> db \<Rightarrow> batch \<Rightarrow> uuid \<Rightarrow> sale_line_selector \<Rightarrow> int \<Rightarrow> (line_price_result \<times> slot_config) \<Rightarrow> bool" where
  "line_of sha s b m inp qty out \<longleftrightarrow>
     (\<exists>si. pickSlotRow (slot_rows s m) uuid_Nil inp = Inr (snd out) \<and> sc_SlotIndex (snd out) = Some si
       \<and> PriceLine sha (db_catalog s) b
           \<lparr>li_MachineID = m, li_ProductID = sl_ProductID inp, li_SlotListUnitMinor = sc_PriceMinor (snd out),
            li_SlotConfigID = sc_ID (snd out), li_CabinetCode = sc_CabinetCode (snd out), li_SlotCode = sc_SlotCode (snd out),
            li_SlotIndex = si, li_Quantity = qty\<rparr> = Inr (fst out))"

lemma load_batch_Inr:
  "load_batch m evalAt s = (Inr b, t) \<longleftrightarrow> t = s \<and> newBatch (db_catalog s) (db_now s) uuid_Nil m evalAt = Inr b"
  by (auto simp: load_batch_def bnd_Inr lift_res_run_Inr)

lemma slot_index_of_Inr: "slot_index_of msg row s = (Inr i, t) \<longleftrightarrow> t = s \<and> sc_SlotIndex row = Some i"
  by (auto simp: slot_index_of_def split: option.splits)

lemma price_slot_Inr:
  "price_slot sha b m inp row si qty s = (Inr r, t) \<longleftrightarrow> t = s \<and> PriceLine sha (db_catalog s) b
     \<lparr>li_MachineID = m, li_ProductID = sl_ProductID inp, li_SlotListUnitMinor = sc_PriceMinor row,
      li_SlotConfigID = sc_ID row, li_CabinetCode = sc_CabinetCode row, li_SlotCode = sc_SlotCode row,
      li_SlotIndex = si, li_Quantity = qty\<rparr> = Inr r"
  by (auto simp: price_slot_def bnd_Inr lift_res_run_Inr)

lemma single_line:
  assumes "published s (sl_MachineID inp) (sl_ProductID inp)"
  shows "EvaluateSaleLine sha inp evalAt qty s = (Inr out, t) \<longleftrightarrow>
    t = s \<and> (\<exists>b. newBatch (db_catalog s) (db_now s) uuid_Nil (sl_MachineID inp) evalAt = Inr b
              \<and> line_of sha s b (sl_MachineID inp) inp qty out)"
  unfolding EvaluateSaleLine_def line_of_def
  by (cases out) (auto simp: seq_Inr bnd_Inr published_run [OF assms] slot_rows_run lift_res_run_Inr slot_index_of_Inr
      load_batch_Inr price_slot_Inr)

lemma line_of_qty: "line_of sha s b m inp (if q \<le> 0 then 1 else q) out \<longleftrightarrow> line_of sha s b m inp q out"
proof -
  have once: "(if (if q \<le> 0 then 1 else q) \<le> 0 then 1 else if q \<le> 0 then 1 else q) = (if q \<le> 0 then 1 else q)" by simp
  have "PriceLine sha c b \<lparr>li_MachineID = m, li_ProductID = p, li_SlotListUnitMinor = u, li_SlotConfigID = i, li_CabinetCode = cc,
      li_SlotCode = sc, li_SlotIndex = si, li_Quantity = if q \<le> 0 then 1 else q\<rparr>
    = PriceLine sha c b \<lparr>li_MachineID = m, li_ProductID = p, li_SlotListUnitMinor = u, li_SlotConfigID = i, li_CabinetCode = cc,
      li_SlotCode = sc, li_SlotIndex = si, li_Quantity = q\<rparr>" for c p u i cc sc si
    unfolding PriceLine_def register_price_def price_line_input.simps once ..
  then show ?thesis by (simp only: line_of_def)
qed

lemma each_line:
  assumes "\<forall>(inp, q) \<in> set reqs. published s m (sl_ProductID inp)"
  shows "evaluate_each sha (slot_rows s m) b m reqs s = (Inr outs, t) \<longleftrightarrow>
    t = s \<and> list_all2 (\<lambda>(inp, q) out. line_of sha s b m inp q out) reqs outs"
  using assms
proof (induction reqs arbitrary: outs)
  case (Cons r reqs)
  obtain inp q where r: "r = (inp, q)" by (cases r)
  have pub: "published s m (sl_ProductID inp)" and rest: "\<forall>(inp, q) \<in> set reqs. published s m (sl_ProductID inp)"
    using Cons.prems by (auto simp: r)
  let ?q = "if q \<le> 0 then 1 else q"
  have "evaluate_each sha (slot_rows s m) b m (r # reqs) s = (Inr outs, t) \<longleftrightarrow>
      (\<exists>out os. outs = out # os \<and> t = s \<and> line_of sha s b m inp ?q out \<and> evaluate_each sha (slot_rows s m) b m reqs s = (Inr os, s))"
    unfolding r line_of_def using Cons.IH [OF rest]
    by (auto simp: Let_def seq_Inr bnd_Inr published_run [OF pub] lift_res_run_Inr slot_index_of_Inr price_slot_Inr; blast)
  then show ?case using Cons.IH [OF rest] by (cases outs) (auto simp: r line_of_qty)
qed auto

lemma line_of_prefetch:
  assumes "catalog_ok (db_catalog s)" and "newBatch (db_catalog s) now sc m evalAt = Inr b"
  shows "line_of sha s (PrefetchProductMeta (db_catalog s) b ids) m inp q out \<longleftrightarrow> line_of sha s b m inp q out"
proof -
  have "ba_productMeta b = None" using assms(2) by (auto simp: newBatch_def Let_def split: sum.splits)
  then show ?thesis using assms(1) by (simp add: line_of_def prefetch_same_price)
qed

text \<open>
  C31: A cart is priced line by line. When the products of a cart are in the machine's published assortment,
  the batched evaluation, which loads the slots, promotions and products once, succeeds exactly when the
  evaluation of every line alone does, with the same prices and slots, and changes nothing.
\<close>

theorem cart_priced_like_single_lines:
  assumes "reqs \<noteq> []" and "m \<noteq> uuid_Nil" and "catalog_ok (db_catalog s)"
    and "\<forall>(inp, q) \<in> set reqs. sl_MachineID inp = m \<and> published s m (sl_ProductID inp)"
  shows "EvaluateSaleLines sha reqs evalAt s = (Inr outs, t) \<longleftrightarrow>
    t = s \<and> list_all2 (\<lambda>(inp, q) out. EvaluateSaleLine sha inp evalAt q s = (Inr out, s)) reqs outs"
proof -
  let ?new = "newBatch (db_catalog s) (db_now s) uuid_Nil m evalAt"
  obtain first q0 rest where reqs: "reqs = (first, q0) # rest" using assms(1) by (cases reqs) auto
  have m: "sl_MachineID first = m" "\<not> list_ex (\<lambda>(inp, _). sl_MachineID inp \<noteq> m) reqs" using assms(4) by (auto simp: reqs list_ex_iff)
  have pub: "\<forall>(inp, q) \<in> set reqs. published s m (sl_ProductID inp)" using assms(4) by auto
  have after: "bnd (prefetch_products b ids) (\<lambda>b. evaluate_each sha (slot_rows s m) b m reqs) s = (Inr outs, t) \<longleftrightarrow>
      t = s \<and> list_all2 (\<lambda>(inp, q) out. line_of sha s b m inp q out) reqs outs" if "?new = Inr b" for b ids
  proof -
    have "line_of sha s (PrefetchProductMeta (db_catalog s) b ids) m = line_of sha s b m"
      by (intro ext) (rule line_of_prefetch [OF assms(3) that])
    then show ?thesis by (auto simp: prefetch_products_def bnd_Inr each_line [OF pub])
  qed
  have "EvaluateSaleLines sha reqs evalAt = bnd (q_ListCurrentSlotConfigs m) (\<lambda>rows. bnd (load_batch m evalAt) (\<lambda>b.
      bnd (prefetch_products b (dedupeUUIDs (map (\<lambda>(inp, _). sl_ProductID inp) reqs))) (\<lambda>b. evaluate_each sha rows b m reqs)))"
    using assms(2) m by (simp only: EvaluateSaleLines_def reqs list.case prod.case Let_def if_False)
  then have batched: "EvaluateSaleLines sha reqs evalAt s = (Inr outs, t) \<longleftrightarrow>
      t = s \<and> (\<exists>b. ?new = Inr b \<and> list_all2 (\<lambda>(inp, q) out. line_of sha s b m inp q out) reqs outs)"
    using after by (simp add: bnd_Inr [of "q_ListCurrentSlotConfigs m"] bnd_Inr [of "load_batch m evalAt"] slot_rows_run
        load_batch_Inr) metis
  have single: "EvaluateSaleLine sha inp evalAt q s = (Inr out, s) \<longleftrightarrow> (\<exists>b. ?new = Inr b \<and> line_of sha s b m inp q out)"
    if "(inp, q) \<in> set reqs" for inp q out
    using single_line [of s inp sha evalAt q out s] that assms(4) by auto
  have "list_all2 (\<lambda>(inp, q) out. EvaluateSaleLine sha inp evalAt q s = (Inr out, s)) reqs outs \<longleftrightarrow>
      list_all2 (\<lambda>(inp, q) out. \<exists>b. ?new = Inr b \<and> line_of sha s b m inp q out) reqs outs"
    by (rule list.rel_cong) (auto simp: single)
  also have "\<dots> \<longleftrightarrow> (\<exists>b. ?new = Inr b \<and> list_all2 (\<lambda>(inp, q) out. line_of sha s b m inp q out) reqs outs)"
    using assms(1) by (cases ?new) (auto simp: list_all2_conv_all_nth split_def intro: exI [of _ 0])
  finally show ?thesis using batched by blast
qed

definition priced_db :: db where
  "priced_db = sample_db\<lparr>
     db_slot_configs := [\<lparr>sc_ID = UUID ''c1'', sc_MachineID = UUID ''m1'', sc_CabinetCode = ''A'', sc_CabinetOrder = 1,
        sc_SlotCode = ''A1'', sc_SlotIndex = Some 3, sc_ProductID = Some (UUID ''p1''), sc_MaxQuantity = 8, sc_PriceMinor = 500,
        sc_IsCurrent = True\<rparr>],
     db_catalog := (db_catalog sample_db)\<lparr>ct_sites := [(UUID ''m1'', UUID ''s1'')],
        ct_products := [\<lparr>pd_ID = UUID ''p1'', pd_Name = ''Cola'', pd_CategoryID = None\<rparr>],
        ct_promotions := [sample_promo ''pr1'' False], ct_rules := [fixed_rule 100],
        ct_assortments := [\<lparr>as_ID = UUID ''a1'', as_Status = ''published''\<rparr>],
        ct_bindings := [\<lparr>ab_MachineID = UUID ''m1'', ab_AssortmentID = UUID ''a1'', ab_IsPrimary = True, ab_ValidFrom = 0,
           ab_ValidTo = None\<rparr>],
        ct_items := [\<lparr>ai_AssortmentID = UUID ''a1'', ai_ProductID = UUID ''p1'', ai_SortOrder = 0\<rparr>]\<rparr>\<rparr>"

definition sample_selector :: sale_line_selector where
  "sample_selector = \<lparr>sl_MachineID = UUID ''m1'', sl_ProductID = UUID ''p1'', sl_SlotID = None, sl_CabinetCode = ''A'',
     sl_SlotCode = ''A1'', sl_SlotIndex = None\<rparr>"

theorem cart_priced_like_single_lines_witness:
  "\<exists>out. EvaluateSaleLines id [(sample_selector, 2)] 2000 priced_db = (Inr [out], priced_db)
     \<and> EvaluateSaleLine id sample_selector 2000 2 priced_db = (Inr out, priced_db)"
proof -
  let ?run = "EvaluateSaleLines id [(sample_selector, 2)] 2000 priced_db"
  have hyps: "UUID ''m1'' \<noteq> uuid_Nil" "catalog_ok (db_catalog priced_db)" "sl_MachineID sample_selector = UUID ''m1''"
    "published priced_db (UUID ''m1'') (sl_ProductID sample_selector)"
    by code_simp+
  then have iff: "?run = (Inr outs, t) \<longleftrightarrow> t = priced_db \<and>
      list_all2 (\<lambda>(inp, q) out. EvaluateSaleLine id inp 2000 q priced_db = (Inr out, priced_db)) [(sample_selector, 2)] outs" for outs t
    by (intro cart_priced_like_single_lines [where m = "UUID ''m1''"]) auto
  have "\<not> isl (fst ?run)" by code_simp
  then obtain outs t where run: "?run = (Inr outs, t)" by (metis prod.collapse sum.collapse(2))
  from run [unfolded iff] obtain out where "t = priced_db" "outs = [out]"
    "EvaluateSaleLine id sample_selector 2000 2 priced_db = (Inr out, priced_db)" by (auto simp: list_all2_Cons1)
  with run show ?thesis by blast
qed

lemma sample_line_price:
  "map_sum id (lp_TotalMinor \<circ> fst) (fst (EvaluateSaleLine id sample_selector 2000 2 priced_db)) = Inr 800"
  by code_simp

end
