(* ===== verification/Checkout_Pricing.thy ===== *)
theory Checkout_Pricing
  imports Sale_Lines Json_Sanitize
begin

text \<open>
  Prices that a machine declares: \<open>internal/app/commerce/pricing_snapshot_quote.go\<close> and
  \<open>offline_sale_pricing.go\<close>. A machine sends the prices it showed as a snapshot; the backend checks that the
  amounts add up, compares them with the layout the machine has reported or with its own price, and stores
  the snapshot as JSON.
\<close>

section \<open>Snapshots\<close>

record snapshot_line =
  sx_LineSequence :: int
  sx_ProductID :: uuid
  sx_CabinetCode :: string
  sx_SlotCode :: string
  sx_SlotIndex :: int
  sx_Quantity :: int
  sx_UnitPriceMinor :: int
  sx_LineSubtotalMinor :: int
  sx_PricingSyncState :: string

record pricing_snapshot =
  sp_SubtotalMinor :: int
  sp_TaxMinor :: int
  sp_TotalMinor :: int
  sp_UnitPriceMinor :: int
  sp_LocalPricingRevision :: int
  sp_PricingFingerprint :: string
  sp_CapturedAt :: "time option"
  sp_SnapshotID :: string
  sp_SlotConfigVersion :: int
  sp_ServerPricingFingerprint :: string
  sp_Lines :: "snapshot_line list"

definition invalid :: "string \<Rightarrow> go_err + 'a" where
  "invalid msg = Inl (GoErr ErrInvalidArgument msg)"

subsection \<open>Snapshots of the wire\<close>

text \<open>
  The message of \<open>commerce.proto\<close>; a list may hold nil messages, the slot may be absent. An instant that is
  missing, invalid or the zero time is \<open>None\<close>. \<open>parse\<close> is \<open>uuid.Parse\<close>: the identifier, which is
  meaningful only when the text was one.
\<close>

type_synonym uuid_parser = "string \<Rightarrow> uuid \<times> bool"

record proto_snapshot_line =
  pn_LineSequence :: int
  pn_ProductId :: string
  pn_Slot :: "(string \<times> string \<times> int) option"
  pn_Quantity :: int
  pn_UnitPriceMinor :: int
  pn_LineSubtotalMinor :: int
  pn_PricingSyncState :: string

record proto_snapshot =
  px_SubtotalMinor :: int
  px_TaxMinor :: int
  px_TotalMinor :: int
  px_UnitPriceMinor :: int
  px_LocalPricingRevision :: int
  px_PricingFingerprint :: string
  px_CapturedAt :: "time option"
  px_SnapshotId :: string
  px_Lines :: "proto_snapshot_line option list"
  px_SlotConfigVersion :: int
  px_ServerPricingFingerprint :: string

fun snapshot_lines_from_proto :: "uuid_parser \<Rightarrow> proto_snapshot_line option list \<Rightarrow> go_err + snapshot_line list" where
  "snapshot_lines_from_proto parse [] = Inr []"
| "snapshot_lines_from_proto parse (None # ls) = snapshot_lines_from_proto parse ls"
| "snapshot_lines_from_proto parse (Some l # ls) =
     (case parse (TrimSpace (pn_ProductId l)) of
        (productID, ok) \<Rightarrow>
          if \<not> ok \<or> productID = uuid_Nil then invalid ''pricing_snapshot line product_id invalid''
          else case snapshot_lines_from_proto parse ls of
                 Inl e \<Rightarrow> Inl e
               | Inr rest \<Rightarrow>
                   let (cab, slotCode, slotIdx) = (case pn_Slot l of None \<Rightarrow> ([], [], 0)
                         | Some (c, sc, i) \<Rightarrow> (TrimSpace c, TrimSpace sc, i))
                   in Inr (\<lparr>sx_LineSequence = pn_LineSequence l, sx_ProductID = productID, sx_CabinetCode = cab,
                            sx_SlotCode = slotCode, sx_SlotIndex = slotIdx, sx_Quantity = pn_Quantity l,
                            sx_UnitPriceMinor = pn_UnitPriceMinor l, sx_LineSubtotalMinor = pn_LineSubtotalMinor l,
                            sx_PricingSyncState = TrimSpace (pn_PricingSyncState l)\<rparr> # rest))"

definition machinePricingSnapshotFromProto :: "uuid_parser \<Rightarrow> proto_snapshot option \<Rightarrow> go_err + pricing_snapshot" where
  "machinePricingSnapshotFromProto parse snap =
     (case snap of
        None \<Rightarrow> invalid ''pricing_snapshot is required''
      | Some m \<Rightarrow>
          (case snapshot_lines_from_proto parse (px_Lines m) of
             Inl e \<Rightarrow> Inl e
           | Inr ls \<Rightarrow> Inr \<lparr>sp_SubtotalMinor = px_SubtotalMinor m, sp_TaxMinor = px_TaxMinor m,
               sp_TotalMinor = px_TotalMinor m, sp_UnitPriceMinor = px_UnitPriceMinor m,
               sp_LocalPricingRevision = px_LocalPricingRevision m,
               sp_PricingFingerprint = TrimSpace (px_PricingFingerprint m), sp_CapturedAt = px_CapturedAt m,
               sp_SnapshotID = TrimSpace (px_SnapshotId m), sp_SlotConfigVersion = px_SlotConfigVersion m,
               sp_ServerPricingFingerprint = TrimSpace (px_ServerPricingFingerprint m), sp_Lines = ls\<rparr>))"

subsection \<open>Validation\<close>

definition maxInt64 :: int where
  "maxInt64 = 9223372036854775807"

definition pricingMaxUnitPriceMinor :: int where
  "pricingMaxUnitPriceMinor = 100000000"

definition pricingSnapshotMaxSkew :: time where
  "pricingSnapshotMaxSkew = 24 * 60 * nanos_Minute"

definition pricingSnapshotMaxFutureSkew :: time where
  "pricingSnapshotMaxFutureSkew = 5 * nanos_Minute"

definition validateMachinePricingSnapshotTotals :: "pricing_snapshot \<Rightarrow> go_err + unit" where
  "validateMachinePricingSnapshotTotals snap =
     (if sp_TotalMinor snap \<le> 0 then invalid ''pricing_snapshot total_minor must be positive''
      else if sp_SubtotalMinor snap < 0 \<or> sp_TaxMinor snap < 0 then invalid ''pricing_snapshot amounts must be non-negative''
      else if i64 (sp_SubtotalMinor snap + sp_TaxMinor snap) \<noteq> sp_TotalMinor snap
      then invalid ''pricing_snapshot line sum does not match total_minor''
      else if sp_LocalPricingRevision snap < 0 then invalid ''pricing_snapshot local_pricing_revision must be non-negative''
      else Inr ())"

definition validateMachinePricingSnapshotLegacySingleLine :: "pricing_snapshot \<Rightarrow> go_err + unit" where
  "validateMachinePricingSnapshotLegacySingleLine snap =
     (case validateMachinePricingSnapshotTotals snap of
        Inl e \<Rightarrow> Inl e
      | Inr _ \<Rightarrow>
          if sp_UnitPriceMinor snap \<le> 0 then invalid ''pricing_snapshot unit_price_minor must be positive''
          else if sp_UnitPriceMinor snap \<noteq> sp_SubtotalMinor snap
          then invalid ''pricing_snapshot unit_price_minor must match subtotal_minor for single-line order''
          else Inr ())"

definition line_identity :: "snapshot_line \<Rightarrow> string" where
  "line_identity l =
     ToUpper (TrimSpace (sx_CabinetCode l)) @ ''|'' @ ToUpper (TrimSpace (sx_SlotCode l)) @ ''|'' @ uuid_String (sx_ProductID l)"

text \<open>The loop over the lines: the sum so far, the sequence numbers and the identities seen.\<close>

fun snapshot_line_sum :: "snapshot_line list \<Rightarrow> int \<Rightarrow> int list \<Rightarrow> string list \<Rightarrow> go_err + int" where
  "snapshot_line_sum [] lineSum seenSeq seenIdentity = Inr lineSum"
| "snapshot_line_sum (l # ls) lineSum seenSeq seenIdentity =
     (if sx_LineSequence l \<le> 0 then invalid ''pricing_snapshot line_sequence must be positive''
      else if sx_LineSequence l \<in> set seenSeq then invalid ''pricing_snapshot duplicate line_sequence''
      else if line_identity l \<in> set seenIdentity then invalid ''pricing_snapshot duplicate line identity''
      else if sx_Quantity l \<le> 0 then invalid ''pricing_snapshot quantity must be positive''
      else if sx_UnitPriceMinor l \<le> 0 \<or> sx_UnitPriceMinor l > pricingMaxUnitPriceMinor
      then invalid ''pricing_snapshot unit_price_minor out of range''
      else if sx_UnitPriceMinor l > maxInt64 div sx_Quantity l then invalid ''pricing_snapshot line subtotal overflow''
      else if sx_LineSubtotalMinor l \<noteq> i64 (sx_UnitPriceMinor l * sx_Quantity l)
      then invalid ''pricing_snapshot line subtotal mismatch''
      else if lineSum > i64 (maxInt64 - sx_LineSubtotalMinor l) then invalid ''pricing_snapshot subtotal overflow''
      else snapshot_line_sum ls (i64 (lineSum + sx_LineSubtotalMinor l)) (sx_LineSequence l # seenSeq)
             (line_identity l # seenIdentity))"

definition outside_skew :: "time \<Rightarrow> time option \<Rightarrow> bool" where
  "outside_skew now captured =
     (case captured of None \<Rightarrow> False
      | Some c \<Rightarrow> now - c < - pricingSnapshotMaxFutureSkew \<or> now - c > pricingSnapshotMaxSkew)"

definition validateMachinePricingSnapshotMultiLine :: "time \<Rightarrow> pricing_snapshot \<Rightarrow> int \<Rightarrow> go_err + unit" where
  "validateMachinePricingSnapshotMultiLine now snap lineCount =
     (case validateMachinePricingSnapshotTotals snap of
        Inl e \<Rightarrow> Inl e
      | Inr _ \<Rightarrow>
          if sp_Lines snap = []
          then if lineCount = 1 then validateMachinePricingSnapshotLegacySingleLine snap
               else invalid ''pricing_snapshot lines required for multi-line quote''
          else if lineCount > 0 \<and> int (length (sp_Lines snap)) \<noteq> lineCount then invalid ''pricing_snapshot line count mismatch''
          else if outside_skew now (sp_CapturedAt snap) then invalid ''pricing_snapshot captured_at outside allowed skew''
          else case snapshot_line_sum (sp_Lines snap) 0 [] [] of
                 Inl e \<Rightarrow> Inl e
               | Inr lineSum \<Rightarrow>
                   if lineSum \<noteq> sp_SubtotalMinor snap then invalid ''pricing_snapshot subtotal does not match line sum''
                   else if length (sp_Lines snap) = 1 \<and> sp_UnitPriceMinor snap > 0
                           \<and> sp_UnitPriceMinor snap \<noteq> sx_UnitPriceMinor (hd (sp_Lines snap))
                   then invalid ''pricing_snapshot unit_price_minor must match the single line unit price''
                   else Inr ())"

definition validateMachinePricingSnapshot :: "time \<Rightarrow> pricing_snapshot \<Rightarrow> go_err + unit" where
  "validateMachinePricingSnapshot now snap =
     (if sp_Lines snap \<noteq> [] then validateMachinePricingSnapshotMultiLine now snap (int (length (sp_Lines snap)))
      else validateMachinePricingSnapshotLegacySingleLine snap)"

definition snapshotLineUnitPrice :: "pricing_snapshot \<Rightarrow> int \<Rightarrow> int \<Rightarrow> int" where
  "snapshotLineUnitPrice snap sequence fallback =
     (case find (\<lambda>l. sx_LineSequence l = sequence) (sp_Lines snap) of None \<Rightarrow> fallback | Some l \<Rightarrow> sx_UnitPriceMinor l)"

section \<open>Where a price comes from\<close>

definition isMachineLocalPricingSource :: "string \<Rightarrow> bool" where
  "isMachineLocalPricingSource source \<longleftrightarrow>
     TrimSpace source = ''machine_local_verified'' \<or> TrimSpace source = ''machine_local_unverified''"

definition validateReplayPricingSnapshot :: "pricing_snapshot option \<Rightarrow> int \<Rightarrow> int \<Rightarrow> int \<Rightarrow> string \<Rightarrow> go_err + unit" where
  "validateReplayPricingSnapshot snap tot sub tax source =
     (case snap of None \<Rightarrow> Inr ()
      | Some sn \<Rightarrow>
          if \<not> isMachineLocalPricingSource source then Inr ()
          else if sp_TotalMinor sn \<noteq> tot \<or> sp_SubtotalMinor sn \<noteq> sub \<or> sp_TaxMinor sn \<noteq> tax
          then Inl (Err ErrIdempotencyPayloadConflict) else Inr ())"

definition classifyMachineLocalPricingSource :: "pricing_snapshot \<Rightarrow> resolved_sale_line \<Rightarrow> string" where
  "classifyMachineLocalPricingSource snap server =
     (if sp_UnitPriceMinor snap = rl_PriceMinor server \<and> sp_SubtotalMinor snap = rl_SubtotalMinor server
         \<and> sp_TotalMinor snap = rl_TotalMinor server
      then ''machine_local_verified'' else ''machine_local_unverified'')"

definition mirrorSlotKey :: "string \<Rightarrow> string \<Rightarrow> string" where
  "mirrorSlotKey slotCode productID = ToUpper slotCode @ ''|'' @ TrimSpace productID"

text \<open>A mirror without slots gives no map; later slots of the same key replace earlier ones.\<close>

definition parseMirrorSlotPrices :: "local_layout_mirror \<Rightarrow> go_err + (string \<times> mirror_slot_price) list" where
  "parseMirrorSlotPrices mirror =
     (case lm_Slots mirror of
        None \<Rightarrow> Inl (GoErr ErrOther ''invalid JSON'')
      | Some slots \<Rightarrow> Inr (rev (map (\<lambda>sl. (mirrorSlotKey (TrimSpace (ms_SlotCode sl)) (TrimSpace (ms_ProductID sl)), sl))
          (filter (\<lambda>sl. TrimSpace (ms_SlotCode sl) \<noteq> []) slots))))"

definition line_verified :: "pricing_snapshot \<Rightarrow> (string \<times> mirror_slot_price) list \<Rightarrow> snapshot_line \<Rightarrow> bool" where
  "line_verified snap prices l =
     (case map_of prices (mirrorSlotKey (sx_SlotCode l) (uuid_String (sx_ProductID l))) of
        None \<Rightarrow> False
      | Some sl \<Rightarrow> ms_PriceMinor sl = sx_UnitPriceMinor l
          \<and> \<not> (sp_LocalPricingRevision snap > 0 \<and> ms_LocalPricingRevision sl > 0
               \<and> ms_LocalPricingRevision sl < sp_LocalPricingRevision snap))"

definition classifyMachineLocalPricingSourceFromMirror :: "pricing_snapshot \<Rightarrow> local_layout_mirror \<Rightarrow> string" where
  "classifyMachineLocalPricingSourceFromMirror snap mirror =
     (if sp_Lines snap = [] then ''machine_local_unverified''
      else case parseMirrorSlotPrices mirror of
             Inl _ \<Rightarrow> ''machine_local_unverified''
           | Inr prices \<Rightarrow>
               if prices \<noteq> [] \<and> list_all (line_verified snap prices) (sp_Lines snap)
               then ''machine_local_verified'' else ''machine_local_unverified'')"

text \<open>\<open>json.Marshal\<close> writes the keys in order; \<open>rfc\<close> formats an instant as RFC 3339.\<close>

definition machinePricingSnapshotJSON :: "(time \<Rightarrow> string) \<Rightarrow> pricing_snapshot \<Rightarrow> raw" where
  "machinePricingSnapshotJSON rfc snap =
     Bytes (JObj (
       (case sp_CapturedAt snap of None \<Rightarrow> [] | Some t \<Rightarrow> [(''captured_at'', JStr (rfc t))])
       @ (if sp_Lines snap = [] then []
          else [(''lines'', JArr (map (\<lambda>l. JObj
             [(''cabinet_code'', JStr (sx_CabinetCode l)), (''line_sequence'', JNum (sx_LineSequence l)),
              (''line_subtotal_minor'', JNum (sx_LineSubtotalMinor l)), (''pricing_sync_state'', JStr (sx_PricingSyncState l)),
              (''product_id'', JStr (uuid_String (sx_ProductID l))), (''quantity'', JNum (sx_Quantity l)),
              (''slot_code'', JStr (sx_SlotCode l)), (''slot_index'', JNum (sx_SlotIndex l)),
              (''unit_price_minor'', JNum (sx_UnitPriceMinor l))]) (sp_Lines snap)))])
       @ [(''local_pricing_revision'', JNum (sp_LocalPricingRevision snap)),
          (''pricing_fingerprint'', JStr (sp_PricingFingerprint snap)), (''schema_version'', JNum 2),
          (''server_pricing_fingerprint'', JStr (sp_ServerPricingFingerprint snap)),
          (''slot_config_version'', JNum (sp_SlotConfigVersion snap)), (''snapshot_id'', JStr (TrimSpace (sp_SnapshotID snap))),
          (''subtotal_minor'', JNum (sp_SubtotalMinor snap)), (''tax_minor'', JNum (sp_TaxMinor snap)),
          (''total_minor'', JNum (sp_TotalMinor snap)), (''unit_price_minor'', JNum (sp_UnitPriceMinor snap))]))"

section \<open>Lines priced by the machine\<close>

definition IsAssortmentStaleError :: "go_err \<Rightarrow> bool" where
  "IsAssortmentStaleError e =
     (case e of GoErr k m \<Rightarrow>
        Contains (ToLower m) ''no matching current slot config''
        \<or> Contains (ToLower m) ''product is not in the machine's published assortment'')"

definition snapshotLineForSelector :: "pricing_snapshot \<Rightarrow> sale_line_selector \<Rightarrow> snapshot_line option" where
  "snapshotLineForSelector snap inp =
     (let slotCode = TrimSpace (sl_SlotCode inp); productID = sl_ProductID inp
      in if sp_Lines snap = []
         then if slotCode = [] \<or> productID = uuid_Nil then None
              else Some \<lparr>sx_LineSequence = 1, sx_ProductID = productID, sx_CabinetCode = [], sx_SlotCode = slotCode, sx_SlotIndex = 0,
                         sx_Quantity = 1, sx_UnitPriceMinor = sp_UnitPriceMinor snap, sx_LineSubtotalMinor = sp_SubtotalMinor snap,
                         sx_PricingSyncState = []\<rparr>
         else find (\<lambda>l. \<not> (productID \<noteq> uuid_Nil \<and> sx_ProductID l \<noteq> uuid_Nil \<and> sx_ProductID l \<noteq> productID)
                      \<and> \<not> (slotCode \<noteq> [] \<and> \<not> EqualFold (TrimSpace (sx_SlotCode l)) slotCode)) (sp_Lines snap))"

definition machine_priced_line :: "string \<Rightarrow> string \<Rightarrow> int \<Rightarrow> uuid \<Rightarrow> int \<Rightarrow> int \<Rightarrow> string \<Rightarrow> resolved_sale_line" where
  "machine_priced_line cab slot si cfgID unit lineTotal fp =
     \<lparr>rl_SlotConfigID = cfgID, rl_CabinetCode = cab, rl_SlotCode = slot, rl_SlotIndex = si, rl_PriceMinor = unit,
      rl_SubtotalMinor = lineTotal, rl_TaxMinor = 0, rl_TotalMinor = lineTotal, rl_BasePriceMinor = 0,
      rl_DiscountUnitMinor = 0, rl_PromotionLabel = [], rl_Currency = [], rl_PricingFingerprint = fp,
      rl_AppliedPromotionIDs = []\<rparr>"

definition snapshot_quantity :: "int \<Rightarrow> snapshot_line \<Rightarrow> int" where
  "snapshot_quantity qty l = (let q = (if qty \<le> 0 then sx_Quantity l else qty) in if q \<le> 0 then 1 else q)"

definition resolveSaleLineFromPricingSnapshot ::
  "sale_line_selector \<Rightarrow> pricing_snapshot \<Rightarrow> int \<Rightarrow> resolved_sale_line q" where
  "resolveSaleLineFromPricingSnapshot inp snap qty =
     bnd (reads db_now) (\<lambda>now.
     seq (lift_res (validateMachinePricingSnapshot now snap))
       (let slotCode = TrimSpace (sl_SlotCode inp)
        in if slotCode = [] then raise (GoErr ErrInvalidArgument ''slot_code required for mirror checkout resolution'')
           else case snapshotLineForSelector snap inp of
             None \<Rightarrow> raise (GoErr ErrInvalidArgument ''pricing_snapshot missing line for slot selector'')
           | Some l \<Rightarrow>
               let q = snapshot_quantity qty l;
                   unit = (if sx_UnitPriceMinor l \<le> 0 then sp_UnitPriceMinor snap else sx_UnitPriceMinor l)
               in if unit \<le> 0 then raise (GoErr ErrInvalidArgument ''pricing_snapshot unit_price_minor invalid'')
                  else bnd (LookupCurrentSlotConfigByCode (sl_MachineID inp) slotCode) (\<lambda>row.
                    case sc_SlotIndex row of
                      None \<Rightarrow> raise (GoErr ErrInvalidArgument ''slot config has no slot_index'')
                    | Some si \<Rightarrow>
                        let cab = (if TrimSpace (sc_CabinetCode row) = [] then TrimSpace (sl_CabinetCode inp)
                                   else TrimSpace (sc_CabinetCode row))
                        in ret (machine_priced_line cab (TrimSpace (sc_SlotCode row)) si (sc_ID row) unit (i64 (unit * q))
                                  (TrimSpace (sp_PricingFingerprint snap))))))"

text \<open>The store's resolver knows quantities.\<close>

definition resolveCheckoutSaleLine ::
  "(string \<Rightarrow> string) \<Rightarrow> sale_line_selector \<Rightarrow> pricing_snapshot option \<Rightarrow> int \<Rightarrow> resolved_sale_line q" where
  "resolveCheckoutSaleLine sha inp snap qty =
     bnd (attempt (ResolveSaleLineWithQuantity sha inp qty)) (\<lambda>r. case r of
         Inr line \<Rightarrow> ret line
       | Inl e \<Rightarrow> (case snap of
           None \<Rightarrow> raise e
         | Some sn \<Rightarrow> if \<not> IsAssortmentStaleError e then raise e else resolveSaleLineFromPricingSnapshot inp sn qty))"

fun snapshot_topology :: "slot_config list \<Rightarrow> pricing_snapshot \<Rightarrow> uuid \<Rightarrow> (sale_line_selector \<times> int) list \<Rightarrow> int \<Rightarrow> resolved_sale_line list q" where
  "snapshot_topology rows snap machineID [] i = ret []"
| "snapshot_topology rows snap machineID ((inp, q) # lines) i =
     (let qty = (if q \<le> 0 then 1 else q)
      in bnd (lift_res (pickSlotRow rows uuid_Nil (inp\<lparr>sl_MachineID := machineID\<rparr>))) (\<lambda>row.
         bnd (slot_index_of ''postgres: slot config has no slot_index'' row) (\<lambda>si.
           let unit = snapshotLineUnitPrice snap (i + 1) 0;
               unit = (if unit \<le> 0 then sp_UnitPriceMinor snap else unit)
           in if unit \<le> 0 then raise (GoErr ErrInvalidArgument ''pricing_snapshot unit_price_minor invalid'')
              else bnd (snapshot_topology rows snap machineID lines (i + 1)) (\<lambda>rest.
                ret (machine_priced_line (TrimSpace (sc_CabinetCode row)) (TrimSpace (sc_SlotCode row)) si (sc_ID row) unit
                       (i64 (unit * qty)) (TrimSpace (sp_PricingFingerprint snap)) # rest)))))"

definition ResolveQuoteLinesFromMachineSnapshot ::
  "uuid \<Rightarrow> (sale_line_selector \<times> int) list \<Rightarrow> pricing_snapshot \<Rightarrow> resolved_sale_line list q" where
  "ResolveQuoteLinesFromMachineSnapshot machineID lines snap =
     (if machineID = uuid_Nil \<or> lines = [] then raise (GoErr ErrInvalidArgument ''machine_id and lines required'')
      else bnd (q_ListCurrentSlotConfigs machineID) (\<lambda>rows. snapshot_topology rows snap machineID lines 0))"

end
