(* ===== verification/Checkout.thy ===== *)
theory Checkout
  imports Checkout_Pricing Cash_Payment
begin

text \<open>
  Checkout: orders of one line (\<open>CreateOrder\<close> of \<open>service.go\<close>), carts, which are quoted and then ordered
  (\<open>quote_service.go\<close>, \<open>quote_sale_lines.go\<close> over \<open>internal/modules/postgres/checkout_quotes.go\<close>), and the sale
  that a machine made offline and reports later (\<open>offline_sale.go\<close>). The amounts come from the pricing engine
  or from a snapshot that the machine declares. Instants of the database have the resolution of the clock.
\<close>

section \<open>Rows of quotes\<close>

record persist_quote_line =
  pql_LineSequence :: int
  pql_ProductID :: uuid
  pql_SlotConfigID :: uuid
  pql_CabinetCode :: string
  pql_SlotCode :: string
  pql_SlotIndex :: int
  pql_Quantity :: int
  pql_UnitPriceMinor :: int
  pql_LineSubtotalMinor :: int
  pql_PricingFingerprint :: string
  pql_MachineUnitPriceMinor :: "int option"
  pql_ServerReferenceUnitPriceMinor :: "int option"

record persist_quote_input =
  pqi_MachineID :: uuid
  pqi_Currency :: string
  pqi_PaymentMethod :: string
  pqi_SubtotalMinor :: int
  pqi_DiscountMinor :: int
  pqi_PayableMinor :: int
  pqi_IdempotencyKey :: string
  pqi_ExpiresAt :: time
  pqi_PricingSource :: string
  pqi_MachinePricingRevision :: "int option"
  pqi_MachinePricingSnapshot :: raw
  pqi_ServerReferencePayableMinor :: "int option"
  pqi_Lines :: "persist_quote_line list"

record persist_quote_result =
  pqr_QuoteID :: uuid
  pqr_MachineID :: uuid
  pqr_Currency :: string
  pqr_PaymentMethod :: string
  pqr_SubtotalMinor :: int
  pqr_DiscountMinor :: int
  pqr_PayableMinor :: int
  pqr_ExpiresAt :: time
  pqr_State :: string
  pqr_PricingSource :: string
  pqr_ServerReferencePayableMinor :: int
  pqr_Lines :: "persist_quote_line list"
  pqr_Replay :: bool

definition mapQuoteLine :: "checkout_quote_line \<Rightarrow> persist_quote_line" where
  "mapQuoteLine l =
     \<lparr>pql_LineSequence = ql_LineSequence l, pql_ProductID = ql_ProductID l,
      pql_SlotConfigID = (case ql_SlotConfigID l of None \<Rightarrow> uuid_Nil | Some i \<Rightarrow> i), pql_CabinetCode = ql_CabinetCode l,
      pql_SlotCode = ql_SlotCode l, pql_SlotIndex = ql_SlotIndex l, pql_Quantity = ql_Quantity l,
      pql_UnitPriceMinor = ql_UnitPriceMinor l, pql_LineSubtotalMinor = ql_LineSubtotalMinor l,
      pql_PricingFingerprint = ql_PricingFingerprint l, pql_MachineUnitPriceMinor = None,
      pql_ServerReferenceUnitPriceMinor = None\<rparr>"

definition mapPersistQuote :: "checkout_quote \<Rightarrow> checkout_quote_line list \<Rightarrow> bool \<Rightarrow> persist_quote_result" where
  "mapPersistQuote row ls replay =
     \<lparr>pqr_QuoteID = qt_ID row, pqr_MachineID = qt_MachineID row, pqr_Currency = qt_Currency row,
      pqr_PaymentMethod = qt_PaymentMethod row, pqr_SubtotalMinor = qt_SubtotalMinor row,
      pqr_DiscountMinor = qt_DiscountMinor row, pqr_PayableMinor = qt_PayableMinor row, pqr_ExpiresAt = qt_ExpiresAt row,
      pqr_State = qt_State row, pqr_PricingSource = qt_PricingSource row,
      pqr_ServerReferencePayableMinor = (case qt_ServerReferencePayableMinor row of None \<Rightarrow> 0 | Some v \<Rightarrow> v),
      pqr_Lines = map mapQuoteLine ls, pqr_Replay = replay\<rparr>"

section \<open>Statements\<close>

definition set_quotes :: "checkout_quote list \<Rightarrow> db \<Rightarrow> db" where
  "set_quotes rows s = s\<lparr>db_quotes := rows\<rparr>"

definition quote_clash :: "checkout_quote \<Rightarrow> checkout_quote \<Rightarrow> bool" where
  "quote_clash row r \<longleftrightarrow> qt_ID r = qt_ID row \<or>
     (qt_MachineID r = qt_MachineID row \<and> qt_IdempotencyKey r = qt_IdempotencyKey row
      \<and> (case qt_IdempotencyKey row of None \<Rightarrow> False | Some k \<Rightarrow> TrimSpace k \<noteq> []))"

definition q_InsertCheckoutQuote :: "checkout_quote \<Rightarrow> checkout_quote q" where
  "q_InsertCheckoutQuote row =
     bnd gen_uuid (\<lambda>i. bnd (reads db_now) (\<lambda>now.
       let r = row\<lparr>qt_ID := i, qt_CreatedAt := now\<rparr>
       in if qt_State r \<notin> set [''active'', ''consumed'', ''expired''] \<or> qt_PricingSource r \<notin> set supportedPricingSources
          then raise (Err ErrCheckViolation)
          else bnd (reads (\<lambda>s. list_ex (quote_clash r) (db_quotes s))) (\<lambda>clash.
            if clash then raise (Err ErrUniqueViolation)
            else bnd (reads (\<lambda>s. qt_MachineID r \<in> set (db_machines s))) (\<lambda>known.
              if \<not> known then raise (GoErr ErrOther ''foreign key violation'')
              else seq (writes (\<lambda>s. s\<lparr>db_quotes := db_quotes s @ [r]\<rparr>)) (ret r)))))"

definition q_GetCheckoutQuoteByID :: "uuid \<Rightarrow> checkout_quote q" where
  "q_GetCheckoutQuoteByID i = select_one db_quotes (\<lambda>r. qt_ID r = i)"

definition q_GetCheckoutQuoteByMachineAndIdempotencyKey :: "uuid \<Rightarrow> string option \<Rightarrow> checkout_quote q" where
  "q_GetCheckoutQuoteByMachineAndIdempotencyKey mid key =
     select_one db_quotes (\<lambda>r. qt_MachineID r = mid \<and> key \<noteq> None \<and> qt_IdempotencyKey r = key)"

definition consumed_row :: "time \<Rightarrow> checkout_quote \<Rightarrow> checkout_quote" where
  "consumed_row now r = r\<lparr>qt_State := ''consumed''\<rparr>"

definition q_MarkCheckoutQuoteConsumed :: "uuid \<Rightarrow> checkout_quote q" where
  "q_MarkCheckoutQuoteConsumed i =
     update_one db_quotes set_quotes (\<lambda>r. qt_ID r = i \<and> qt_State r = ''active'') consumed_row"

definition q_InsertCheckoutQuoteLine :: "checkout_quote_line \<Rightarrow> checkout_quote_line q" where
  "q_InsertCheckoutQuoteLine row =
     (if ql_Quantity row \<le> 0 then raise (Err ErrCheckViolation)
      else bnd (reads (\<lambda>s. list_ex (\<lambda>r. ql_QuoteID r = ql_QuoteID row \<and> ql_LineSequence r = ql_LineSequence row)
                             (db_quote_lines s))) (\<lambda>clash.
        if clash then raise (Err ErrUniqueViolation)
        else bnd (reads (\<lambda>s. list_ex (\<lambda>r. qt_ID r = ql_QuoteID row) (db_quotes s)
                            \<and> list_ex (\<lambda>p. pd_ID p = ql_ProductID row) (ct_products (db_catalog s)))) (\<lambda>known.
          if \<not> known then raise (GoErr ErrOther ''foreign key violation'')
          else bnd gen_uuid (\<lambda>i.
            let r = row\<lparr>ql_ID := i\<rparr>
            in seq (writes (\<lambda>s. s\<lparr>db_quote_lines := db_quote_lines s @ [r]\<rparr>)) (ret r)))))"

definition q_ListCheckoutQuoteLines :: "uuid \<Rightarrow> checkout_quote_line list q" where
  "q_ListCheckoutQuoteLines i =
     reads (\<lambda>s. sort_key ql_LineSequence (filter (\<lambda>r. ql_QuoteID r = i) (db_quote_lines s)))"

definition q_InsertVendSessionWithLineSequence :: "vend_row \<Rightarrow> vend_row q" where
  "q_InsertVendSessionWithLineSequence row = q_InsertVendSession row"

definition q_GetMachineLocalLayoutMirror :: "uuid \<Rightarrow> local_layout_mirror q" where
  "q_GetMachineLocalLayoutMirror mid =
     bnd (reads (\<lambda>s. map_of (ct_mirrors (db_catalog s)) mid)) (\<lambda>m.
       case m of None \<Rightarrow> raise (Err ErrNoRows) | Some x \<Rightarrow> ret x)"

section \<open>The store's quotes\<close>

definition new_quote :: "persist_quote_input \<Rightarrow> string \<Rightarrow> checkout_quote" where
  "new_quote inp source =
     \<lparr>qt_ID = uuid_Nil, qt_MachineID = pqi_MachineID inp, qt_Currency = pqi_Currency inp,
      qt_PaymentMethod = pqi_PaymentMethod inp, qt_SubtotalMinor = pqi_SubtotalMinor inp,
      qt_DiscountMinor = pqi_DiscountMinor inp, qt_PayableMinor = pqi_PayableMinor inp, qt_State = ''active'',
      qt_IdempotencyKey = optional_text (TrimSpace (pqi_IdempotencyKey inp)), qt_ExpiresAt = pqi_ExpiresAt inp,
      qt_PricingSource = source, qt_MachinePricingRevision = pqi_MachinePricingRevision inp,
      qt_MachinePricingSnapshot = (case OptionalString (pqi_MachinePricingSnapshot inp) of None \<Rightarrow> NoBytes | Some j \<Rightarrow> Bytes j),
      qt_ServerReferencePayableMinor = pqi_ServerReferencePayableMinor inp, qt_CreatedAt = 0\<rparr>"

definition new_quote_line :: "uuid \<Rightarrow> persist_quote_line \<Rightarrow> checkout_quote_line" where
  "new_quote_line quoteID l =
     \<lparr>ql_ID = uuid_Nil, ql_QuoteID = quoteID, ql_LineSequence = pql_LineSequence l, ql_ProductID = pql_ProductID l,
      ql_SlotConfigID = optional_uuid (pql_SlotConfigID l), ql_CabinetCode = pql_CabinetCode l, ql_SlotCode = pql_SlotCode l,
      ql_SlotIndex = pql_SlotIndex l, ql_Quantity = pql_Quantity l, ql_UnitPriceMinor = pql_UnitPriceMinor l,
      ql_LineSubtotalMinor = pql_LineSubtotalMinor l, ql_PricingFingerprint = pql_PricingFingerprint l,
      ql_MachineUnitPriceMinor = pql_MachineUnitPriceMinor l,
      ql_ServerReferenceUnitPriceMinor = pql_ServerReferenceUnitPriceMinor l\<rparr>"

fun insert_quote_lines :: "uuid \<Rightarrow> persist_quote_line list \<Rightarrow> checkout_quote_line list q" where
  "insert_quote_lines quoteID [] = ret []"
| "insert_quote_lines quoteID (l # ls) =
     bnd (q_InsertCheckoutQuoteLine (new_quote_line quoteID l)) (\<lambda>row.
     bnd (insert_quote_lines quoteID ls) (\<lambda>rows. ret (row # rows)))"

definition insert_quote :: "persist_quote_input \<Rightarrow> persist_quote_result q" where
  "insert_quote inp =
     (let source = (if TrimSpace (pqi_PricingSource inp) = [] then ''server_priced'' else TrimSpace (pqi_PricingSource inp))
      in bnd (lift_res (validatePricingSourceForPersist source)) (\<lambda>source.
         bnd (q_InsertCheckoutQuote (new_quote inp source)) (\<lambda>row.
         bnd (insert_quote_lines (qt_ID row) (pqi_Lines inp)) (\<lambda>rows.
           ret (mapPersistQuote row rows False)))))"

definition quote_of_key :: "uuid \<Rightarrow> string \<Rightarrow> persist_quote_result option q" where
  "quote_of_key machineID key =
     bnd (maybe_row (q_GetCheckoutQuoteByMachineAndIdempotencyKey machineID (optional_text key))) (\<lambda>found. case found of
         None \<Rightarrow> ret None
       | Some row \<Rightarrow> bnd (q_ListCheckoutQuoteLines (qt_ID row)) (\<lambda>rows. ret (Some (mapPersistQuote row rows True))))"

definition CreateQuoteWithLines :: "persist_quote_input \<Rightarrow> persist_quote_result q" where
  "CreateQuoteWithLines inp =
     tx (let key = TrimSpace (pqi_IdempotencyKey inp)
         in bnd (if key = [] then ret None else quote_of_key (pqi_MachineID inp) key) (\<lambda>existing. case existing of
              Some res \<Rightarrow> ret res
            | None \<Rightarrow> insert_quote inp))"

definition TryReplayQuoteByIdempotency :: "uuid \<Rightarrow> string \<Rightarrow> persist_quote_result option q" where
  "TryReplayQuoteByIdempotency machineID idempotencyKey =
     (let key = TrimSpace idempotencyKey
      in if key = [] \<or> machineID = uuid_Nil then ret None else quote_of_key machineID key)"

definition GetQuoteWithLines :: "uuid \<Rightarrow> persist_quote_result q" where
  "GetQuoteWithLines quoteID =
     bnd (q_GetCheckoutQuoteByID quoteID) (\<lambda>row.
     bnd (q_ListCheckoutQuoteLines (qt_ID row)) (\<lambda>rows. ret (mapPersistQuote row rows False)))"

section \<open>The store's orders from quotes\<close>

record order_from_quote_input =
  poq_Quote :: persist_quote_result
  poq_IdempotencyKey :: string
  poq_Simulated :: bool
  poq_SimulationRunID :: string
  poq_SimulationScenario :: string
  poq_FakeBill :: bool
  poq_FakeBoard :: bool
  poq_ClientOrderID :: uuid
  poq_CreatedAt :: "time option"

record quote_vend_line =
  qv_VendSessionID :: uuid
  qv_LineSequence :: int
  qv_SlotIndex :: int
  qv_ProductID :: uuid
  qv_CabinetCode :: string
  qv_SlotCode :: string
  qv_VendState :: string

record order_from_quote_result =
  pox_Order :: order
  pox_Lines :: "quote_vend_line list"
  pox_Replay :: bool

definition mapPersistVendLines :: "vend_row list \<Rightarrow> quote_vend_line list" where
  "mapPersistVendLines vends =
     map (\<lambda>v. \<lparr>qv_VendSessionID = v_ID v, qv_LineSequence = vr_LineSequence v, qv_SlotIndex = v_SlotIndex v,
               qv_ProductID = v_ProductID v, qv_CabinetCode = [], qv_SlotCode = [], qv_VendState = v_State v\<rparr>) vends"

definition TryReplayOrderFromQuote :: "uuid \<Rightarrow> string \<Rightarrow> order_from_quote_result option q" where
  "TryReplayOrderFromQuote machineID idempotencyKey =
     (let key = TrimSpace idempotencyKey
      in if key = [] then ret None
         else bnd (TryReplayCreateOrderWithVend machineID key) (\<lambda>replay. case replay of
             None \<Rightarrow> ret None
           | Some r \<Rightarrow> bnd (q_ListVendSessionsByOrder (o_ID (cor_Order r))) (\<lambda>vends.
               ret (Some \<lparr>pox_Order = cor_Order r, pox_Lines = mapPersistVendLines vends, pox_Replay = True\<rparr>))))"

definition quote_order :: "order_from_quote_input \<Rightarrow> checkout_quote \<Rightarrow> string \<Rightarrow> order" where
  "quote_order inp locked source =
     (let quote = poq_Quote inp
      in \<lparr>o_ID = uuid_Nil, o_MachineID = pqr_MachineID quote, o_Status = ''created'', o_Currency = pqr_Currency quote,
          o_SubtotalMinor = pqr_SubtotalMinor quote, o_TaxMinor = 0, o_TotalMinor = pqr_PayableMinor quote,
          o_IdempotencyKey = optional_text (TrimSpace (poq_IdempotencyKey inp)), o_Simulated = poq_Simulated inp,
          o_SimulationRunID = optional_text (poq_SimulationRunID inp),
          o_SimulationScenario = optional_text (poq_SimulationScenario inp), o_FakeBill = poq_FakeBill inp,
          o_FakeBoard = poq_FakeBoard inp, o_WinningPaymentID = None, o_WinningClaimedAt = None, o_PricingSource = source,
          o_MachinePricingRevision = qt_MachinePricingRevision locked,
          o_MachinePricingSnapshot = (case OptionalString (qt_MachinePricingSnapshot locked) of None \<Rightarrow> NoBytes | Some j \<Rightarrow> Bytes j),
          o_ServerReferenceTotalMinor = (case qt_ServerReferencePayableMinor locked of None \<Rightarrow> 0 | Some v \<Rightarrow> v),
          o_CreatedAt = 0, o_UpdatedAt = 0\<rparr>)"

definition quote_vend :: "order_from_quote_input \<Rightarrow> uuid \<Rightarrow> checkout_quote_line \<Rightarrow> int \<Rightarrow> vend_row" where
  "quote_vend inp orderID l lineSeq =
     \<lparr>v_ID = uuid_Nil, v_OrderID = orderID, v_MachineID = pqr_MachineID (poq_Quote inp), v_SlotIndex = ql_SlotIndex l,
      v_ProductID = ql_ProductID l, v_State = ''pending'', v_FinalCommandAttemptID = None, v_Simulated = poq_Simulated inp,
      v_SimulationRunID = optional_text (poq_SimulationRunID inp),
      v_SimulationScenario = optional_text (poq_SimulationScenario inp), v_CreatedAt = 0, vr_LineSequence = lineSeq,
      vr_FailureReason = None, vr_CorrelationID = None, vr_StartedAt = None, vr_CompletedAt = None,
      vr_VerificationStatus = ''unverified''\<rparr>"

definition quote_vend_view :: "checkout_quote_line \<Rightarrow> vend_row \<Rightarrow> quote_vend_line" where
  "quote_vend_view l v =
     \<lparr>qv_VendSessionID = v_ID v, qv_LineSequence = vr_LineSequence v, qv_SlotIndex = v_SlotIndex v,
      qv_ProductID = v_ProductID v, qv_CabinetCode = ql_CabinetCode l, qv_SlotCode = ql_SlotCode l, qv_VendState = v_State v\<rparr>"

text \<open>The units of the quote's lines, one vend session each, numbered through the order.\<close>

definition quote_units :: "checkout_quote_line list \<Rightarrow> checkout_quote_line list" where
  "quote_units ls = concat (map (\<lambda>l. replicate (nat (if ql_Quantity l \<le> 0 then 1 else ql_Quantity l)) l) ls)"

fun insert_units :: "order_from_quote_input \<Rightarrow> uuid \<Rightarrow> checkout_quote_line list \<Rightarrow> int \<Rightarrow> quote_vend_line list q" where
  "insert_units inp orderID [] lineSeq = ret []"
| "insert_units inp orderID (l # ls) lineSeq =
     bnd (q_InsertVendSessionWithLineSequence (quote_vend inp orderID l (lineSeq + 1))) (\<lambda>v.
     bnd (insert_units inp orderID ls (lineSeq + 1)) (\<lambda>rest. ret (quote_vend_view l v # rest)))"

definition locked_quote :: "uuid \<Rightarrow> checkout_quote q" where
  "locked_quote quoteID =
     bnd (q_GetCheckoutQuoteByID quoteID) (\<lambda>locked.
     bnd (reads db_now) (\<lambda>now.
       if ToLower (TrimSpace (qt_State locked)) \<noteq> ''active'' then raise (GoErr ErrOther ''postgres: quote not active'')
       else if now > qt_ExpiresAt locked then raise (GoErr ErrOther ''postgres: quote expired'')
       else ret locked))"

definition insert_quote_order :: "order_from_quote_input \<Rightarrow> order_from_quote_result q" where
  "insert_quote_order inp =
     (let quoteID = pqr_QuoteID (poq_Quote inp)
      in bnd (locked_quote quoteID) (\<lambda>locked.
         bnd (lift_res (validatePricingSourceForPersist (qt_PricingSource locked))) (\<lambda>source.
         bnd (q_InsertOrder (optional_uuid (poq_ClientOrderID inp)) (poq_CreatedAt inp) (quote_order inp locked source)) (\<lambda>ord.
         bnd (q_ListCheckoutQuoteLines quoteID) (\<lambda>ls.
         bnd (insert_units inp (o_ID ord) (quote_units ls) 0) (\<lambda>vendLines.
         bnd (q_MarkCheckoutQuoteConsumed quoteID) (\<lambda>_.
           ret \<lparr>pox_Order = ord, pox_Lines = vendLines, pox_Replay = False\<rparr>)))))))"

definition CreateOrderFromQuoteWithVendSessions :: "order_from_quote_input \<Rightarrow> order_from_quote_result q" where
  "CreateOrderFromQuoteWithVendSessions inp =
     (let quote = poq_Quote inp; key = TrimSpace (poq_IdempotencyKey inp)
      in if pqr_QuoteID quote = uuid_Nil then raise (GoErr ErrOther ''postgres: quote_id required'')
         else if key = [] then raise (GoErr ErrOther ''postgres: idempotency_key required'')
         else tx (bnd (maybe_row (q_GetOrderByMachineAndIdempotencyKey (pqr_MachineID quote) (optional_text key))) (\<lambda>existing.
           case existing of
             Some ord \<Rightarrow> bnd (q_ListVendSessionsByOrder (o_ID ord)) (\<lambda>vends.
               ret \<lparr>pox_Order = ord, pox_Lines = mapPersistVendLines vends, pox_Replay = True\<rparr>)
           | None \<Rightarrow> insert_quote_order inp)))"

end
