(* ===== verification/Checkout_Service.thy ===== *)
theory Checkout_Service
  imports Checkout
begin

text \<open>
  The checkout operations of the service: \<open>CreateOrder\<close> of \<open>internal/app/commerce/service.go\<close>, \<open>CreateQuote\<close>
  and \<open>CreateOrderFromQuote\<close> of \<open>quote_service.go\<close>. The store is the \<open>orders\<close> and the \<open>saleLines\<close> dependency;
  \<open>sha\<close> is SHA-256 in hexadecimal and \<open>rfc\<close> the format of an instant.
\<close>

section \<open>Quotes\<close>

record quote_line_input =
  qli_ProductID :: uuid
  qli_SlotID :: "uuid option"
  qli_CabinetCode :: string
  qli_SlotCode :: string
  qli_SlotIndex :: "int option"
  qli_Quantity :: int

record create_quote_input =
  cqi_MachineID :: uuid
  cqi_Currency :: string
  cqi_PaymentMethod :: string
  cqi_Lines :: "quote_line_input list"
  cqi_IdempotencyKey :: string
  cqi_QuoteTTL :: time
  cqi_PricingSnapshot :: "pricing_snapshot option"

record quote_line_view =
  qlv_LineSequence :: int
  qlv_ProductID :: uuid
  qlv_SlotConfigID :: uuid
  qlv_CabinetCode :: string
  qlv_SlotCode :: string
  qlv_SlotIndex :: int
  qlv_Quantity :: int
  qlv_UnitPriceMinor :: int
  qlv_LineSubtotalMinor :: int
  qlv_PricingFingerprint :: string
  qlv_PromotionLabel :: string

record create_quote_result =
  cqr_QuoteID :: uuid
  cqr_MachineID :: uuid
  cqr_Currency :: string
  cqr_PaymentMethod :: string
  cqr_SubtotalMinor :: int
  cqr_DiscountMinor :: int
  cqr_PayableMinor :: int
  cqr_ExpiresAt :: time
  cqr_Lines :: "quote_line_view list"
  cqr_Replay :: bool
  cqr_PricingSource :: string
  cqr_ServerReferencePayableMinor :: int

definition quoteStore :: "service \<Rightarrow> 'a q \<Rightarrow> 'a q" where
  "quoteStore sv m = configured (sv_orders sv) m"

definition defaultQuoteTTL :: time where
  "defaultQuoteTTL = 15 * nanos_Minute"

definition validateCreateQuote :: "create_quote_input \<Rightarrow> go_err + unit" where
  "validateCreateQuote inp =
     (if cqi_MachineID inp = uuid_Nil then Inl (GoErr ErrOther ''machine_id is required'')
      else if cqi_Lines inp = [] then Inl (GoErr ErrOther ''at least one cart line is required'')
      else if list_ex (\<lambda>l. qli_ProductID l = uuid_Nil) (cqi_Lines inp)
      then Inl (GoErr ErrOther ''product_id is required on each line'')
      else Inr ())"

definition one_at_least :: "int \<Rightarrow> int" where
  "one_at_least qty = (if qty \<le> 0 then 1 else qty)"

definition line_selector :: "uuid \<Rightarrow> quote_line_input \<Rightarrow> sale_line_selector" where
  "line_selector machineID l =
     \<lparr>sl_MachineID = machineID, sl_ProductID = qli_ProductID l, sl_SlotID = qli_SlotID l, sl_CabinetCode = qli_CabinetCode l,
      sl_SlotCode = qli_SlotCode l, sl_SlotIndex = qli_SlotIndex l\<rparr>"

definition quote_resolve_inputs :: "create_quote_input \<Rightarrow> (sale_line_selector \<times> int) list" where
  "quote_resolve_inputs inp = map (\<lambda>l. (line_selector (cqi_MachineID inp) l, one_at_least (qli_Quantity l))) (cqi_Lines inp)"

definition resolveQuoteLinesFromMachineSnapshot :: "service \<Rightarrow> create_quote_input \<Rightarrow> pricing_snapshot \<Rightarrow> resolved_sale_line list q" where
  "resolveQuoteLinesFromMachineSnapshot sv inp snap =
     configured (sv_saleLines sv) (ResolveQuoteLinesFromMachineSnapshot (cqi_MachineID inp) (quote_resolve_inputs inp) snap)"

text \<open>The topology of a valid snapshot; nothing when there is none, it is invalid, or the assortment is stale.\<close>

definition lines_of_snapshot :: "service \<Rightarrow> create_quote_input \<Rightarrow> resolved_sale_line list option q" where
  "lines_of_snapshot sv inp =
     (case cqi_PricingSnapshot inp of
        None \<Rightarrow> ret None
      | Some snap \<Rightarrow> bnd (reads db_now) (\<lambda>now.
          case validateMachinePricingSnapshotMultiLine now snap (int (length (cqi_Lines inp))) of
            Inl _ \<Rightarrow> ret None
          | Inr _ \<Rightarrow> bnd (attempt (resolveQuoteLinesFromMachineSnapshot sv inp snap)) (\<lambda>r. case r of
                Inr ls \<Rightarrow> ret (Some ls)
              | Inl e \<Rightarrow> if IsAssortmentStaleError e then ret None else raise e)))"

definition lines_of_batch :: "(string \<Rightarrow> string) \<Rightarrow> service \<Rightarrow> create_quote_input \<Rightarrow> resolved_sale_line list option q" where
  "lines_of_batch sha sv inp =
     (if \<not> sv_saleLines sv then ret None
      else bnd (attempt (ResolveQuoteSaleLines sha (cqi_MachineID inp) (quote_resolve_inputs inp))) (\<lambda>r. case r of
          Inr ls \<Rightarrow> ret (Some ls)
        | Inl e \<Rightarrow> if cqi_PricingSnapshot inp = None \<or> \<not> IsAssortmentStaleError e then raise e else ret None))"

fun lines_one_by_one :: "(string \<Rightarrow> string) \<Rightarrow> service \<Rightarrow> pricing_snapshot option \<Rightarrow> (sale_line_selector \<times> int) list \<Rightarrow> resolved_sale_line list q" where
  "lines_one_by_one sha sv snap [] = ret []"
| "lines_one_by_one sha sv snap ((sel, qty) # ls) =
     bnd (configured (sv_saleLines sv) (resolveCheckoutSaleLine sha sel snap qty)) (\<lambda>r.
     bnd (lines_one_by_one sha sv snap ls) (\<lambda>rs. ret (r # rs)))"

definition resolveCreateQuoteSaleLines :: "(string \<Rightarrow> string) \<Rightarrow> service \<Rightarrow> create_quote_input \<Rightarrow> resolved_sale_line list q" where
  "resolveCreateQuoteSaleLines sha sv inp =
     (if cqi_Lines inp = [] then raise (Err ErrInvalidArgument)
      else bnd (lines_of_snapshot sv inp) (\<lambda>a. case a of
          Some ls \<Rightarrow> ret ls
        | None \<Rightarrow> bnd (lines_of_batch sha sv inp) (\<lambda>b. case b of
            Some ls \<Rightarrow> ret ls
          | None \<Rightarrow> lines_one_by_one sha sv (cqi_PricingSnapshot inp) (quote_resolve_inputs inp))))"

fun persist_lines :: "int \<Rightarrow> quote_line_input list \<Rightarrow> resolved_sale_line list \<Rightarrow> persist_quote_line list" where
  "persist_lines i (l # ls) (r # rs) =
     \<lparr>pql_LineSequence = i + 1, pql_ProductID = qli_ProductID l, pql_SlotConfigID = rl_SlotConfigID r,
      pql_CabinetCode = rl_CabinetCode r, pql_SlotCode = rl_SlotCode r, pql_SlotIndex = rl_SlotIndex r,
      pql_Quantity = one_at_least (qli_Quantity l), pql_UnitPriceMinor = rl_PriceMinor r,
      pql_LineSubtotalMinor = rl_TotalMinor r, pql_PricingFingerprint = rl_PricingFingerprint r,
      pql_MachineUnitPriceMinor = None, pql_ServerReferenceUnitPriceMinor = None\<rparr> # persist_lines (i + 1) ls rs"
| "persist_lines i _ _ = []"

definition quote_subtotal :: "resolved_sale_line list \<Rightarrow> int" where
  "quote_subtotal rs = fold (\<lambda>r subtotal. i64 (subtotal + rl_TotalMinor r)) rs 0"

definition machine_line :: "pricing_snapshot \<Rightarrow> persist_quote_line \<Rightarrow> persist_quote_line" where
  "machine_line snap l =
     (let machineUnit = snapshotLineUnitPrice snap (pql_LineSequence l) (pql_UnitPriceMinor l)
      in l\<lparr>pql_UnitPriceMinor := machineUnit, pql_LineSubtotalMinor := i64 (machineUnit * pql_Quantity l),
           pql_MachineUnitPriceMinor := Some machineUnit, pql_ServerReferenceUnitPriceMinor := Some (pql_UnitPriceMinor l)\<rparr>)"

definition line_view_of :: "string \<Rightarrow> persist_quote_line \<Rightarrow> quote_line_view" where
  "line_view_of label l =
     \<lparr>qlv_LineSequence = pql_LineSequence l, qlv_ProductID = pql_ProductID l, qlv_SlotConfigID = pql_SlotConfigID l,
      qlv_CabinetCode = pql_CabinetCode l, qlv_SlotCode = pql_SlotCode l, qlv_SlotIndex = pql_SlotIndex l,
      qlv_Quantity = pql_Quantity l, qlv_UnitPriceMinor = pql_UnitPriceMinor l,
      qlv_LineSubtotalMinor = pql_LineSubtotalMinor l, qlv_PricingFingerprint = pql_PricingFingerprint l,
      qlv_PromotionLabel = label\<rparr>"

definition mapPersistQuoteResult :: "persist_quote_result \<Rightarrow> create_quote_result" where
  "mapPersistQuoteResult p =
     \<lparr>cqr_QuoteID = pqr_QuoteID p, cqr_MachineID = pqr_MachineID p, cqr_Currency = pqr_Currency p,
      cqr_PaymentMethod = pqr_PaymentMethod p, cqr_SubtotalMinor = pqr_SubtotalMinor p,
      cqr_DiscountMinor = pqr_DiscountMinor p, cqr_PayableMinor = pqr_PayableMinor p, cqr_ExpiresAt = pqr_ExpiresAt p,
      cqr_Lines = map (line_view_of []) (pqr_Lines p), cqr_Replay = pqr_Replay p, cqr_PricingSource = pqr_PricingSource p,
      cqr_ServerReferencePayableMinor = pqr_ServerReferencePayableMinor p\<rparr>"

definition GetLocalLayoutMirror :: "uuid \<Rightarrow> local_layout_mirror q" where
  "GetLocalLayoutMirror machineID = q_GetMachineLocalLayoutMirror machineID"

text \<open>A mirror that is missing or cannot be read is the empty one.\<close>

definition mirror_or_empty :: "service \<Rightarrow> uuid \<Rightarrow> local_layout_mirror q" where
  "mirror_or_empty sv machineID =
     (if \<not> sv_layoutMirror sv then ret \<lparr>lm_Revision = 0, lm_Slots = Some []\<rparr>
      else bnd (attempt (GetLocalLayoutMirror machineID)) (\<lambda>r. case r of
          Inr m \<Rightarrow> ret m | Inl _ \<Rightarrow> ret \<lparr>lm_Revision = 0, lm_Slots = Some []\<rparr>))"

text \<open>What is stored for a cart: priced by the server, or as the snapshot declares.\<close>

definition quote_to_persist ::
  "(time \<Rightarrow> string) \<Rightarrow> service \<Rightarrow> create_quote_input \<Rightarrow> time \<Rightarrow> resolved_sale_line list \<Rightarrow> persist_quote_input q" where
  "quote_to_persist rfc sv inp expiresAt rs =
     (let subtotal = quote_subtotal rs;
          server = \<lparr>pqi_MachineID = cqi_MachineID inp, pqi_Currency = ToUpper (TrimSpace (cqi_Currency inp)),
            pqi_PaymentMethod = TrimSpace (cqi_PaymentMethod inp), pqi_SubtotalMinor = subtotal, pqi_DiscountMinor = 0,
            pqi_PayableMinor = subtotal, pqi_IdempotencyKey = TrimSpace (cqi_IdempotencyKey inp), pqi_ExpiresAt = expiresAt,
            pqi_PricingSource = ''server_priced'', pqi_MachinePricingRevision = None, pqi_MachinePricingSnapshot = NoBytes,
            pqi_ServerReferencePayableMinor = Some subtotal, pqi_Lines = persist_lines 0 (cqi_Lines inp) rs\<rparr>
      in case cqi_PricingSnapshot inp of
           None \<Rightarrow> ret server
         | Some snap \<Rightarrow>
             bnd (reads db_now) (\<lambda>now.
             seq (lift_res (validateMachinePricingSnapshotMultiLine now snap (int (length (cqi_Lines inp)))))
             (bnd (mirror_or_empty sv (cqi_MachineID inp)) (\<lambda>mirror.
               ret (server\<lparr>pqi_SubtotalMinor := sp_SubtotalMinor snap, pqi_PayableMinor := sp_TotalMinor snap,
                 pqi_PricingSource := classifyMachineLocalPricingSourceFromMirror snap mirror,
                 pqi_MachinePricingRevision := (if sp_LocalPricingRevision snap > 0 then Some (sp_LocalPricingRevision snap) else None),
                 pqi_MachinePricingSnapshot := machinePricingSnapshotJSON rfc snap,
                 pqi_Lines := map (machine_line snap) (pqi_Lines server)\<rparr>)))))"

definition quote_views :: "resolved_sale_line list \<Rightarrow> persist_quote_line list \<Rightarrow> quote_line_view list" where
  "quote_views rs ls = map (\<lambda>(r, l). line_view_of (rl_PromotionLabel r) l) (zip rs ls)"

definition CreateQuote :: "(string \<Rightarrow> string) \<Rightarrow> (time \<Rightarrow> string) \<Rightarrow> service \<Rightarrow> create_quote_input \<Rightarrow> create_quote_result q" where
  "CreateQuote sha rfc sv inp =
     seq (lift_res (validateCreateQuote inp))
     (quoteStore sv
       (bnd (TryReplayQuoteByIdempotency (cqi_MachineID inp) (TrimSpace (cqi_IdempotencyKey inp))) (\<lambda>replay. case replay of
           Some p \<Rightarrow> ret (mapPersistQuoteResult p)
         | None \<Rightarrow>
             let ttl = (if cqi_QuoteTTL inp \<le> 0 then defaultQuoteTTL else cqi_QuoteTTL inp)
             in bnd (reads db_now) (\<lambda>now.
                bnd (resolveCreateQuoteSaleLines sha sv inp) (\<lambda>rs.
                bnd (quote_to_persist rfc sv inp (now + ttl) rs) (\<lambda>pq.
                bnd (CreateQuoteWithLines pq) (\<lambda>persisted.
                  ret ((mapPersistQuoteResult persisted)\<lparr>cqr_Lines := quote_views rs (pqi_Lines pq)\<rparr>))))))))"

section \<open>Orders from quotes\<close>

record create_order_from_quote_input =
  cfq_MachineID :: uuid
  cfq_QuoteID :: uuid
  cfq_PaymentMethod :: string
  cfq_IdempotencyKey :: string
  cfq_Simulated :: bool
  cfq_SimulationRunID :: string
  cfq_SimulationScenario :: string
  cfq_FakeBill :: bool
  cfq_FakeBoard :: bool
  cfq_PricingSnapshot :: "pricing_snapshot option"
  cfq_ClientOrderID :: uuid
  cfq_CreatedAt :: "time option"

record create_order_from_quote_result =
  cfr_OrderID :: uuid
  cfr_OrderStatus :: string
  cfr_Currency :: string
  cfr_SubtotalMinor :: int
  cfr_TaxMinor :: int
  cfr_TotalMinor :: int
  cfr_Lines :: "quote_vend_line list"
  cfr_Replay :: bool
  cfr_PricingSource :: string
  cfr_ServerReferenceTotalMinor :: int

definition mapPersistOrderFromQuote :: "order_from_quote_result \<Rightarrow> create_order_from_quote_result" where
  "mapPersistOrderFromQuote p =
     (let r = pox_Order p
      in \<lparr>cfr_OrderID = o_ID r, cfr_OrderStatus = o_Status r, cfr_Currency = o_Currency r,
          cfr_SubtotalMinor = o_SubtotalMinor r, cfr_TaxMinor = o_TaxMinor r, cfr_TotalMinor = o_TotalMinor r,
          cfr_Lines = pox_Lines p, cfr_Replay = pox_Replay p, cfr_PricingSource = o_PricingSource r,
          cfr_ServerReferenceTotalMinor = o_ServerReferenceTotalMinor r\<rparr>)"

definition validateCreateOrderFromQuote :: "create_order_from_quote_input \<Rightarrow> go_err + unit" where
  "validateCreateOrderFromQuote inp =
     (if cfq_MachineID inp = uuid_Nil then Inl (GoErr ErrOther ''machine_id is required'')
      else if cfq_QuoteID inp = uuid_Nil then Inl (GoErr ErrOther ''quote_id is required'')
      else if TrimSpace (cfq_IdempotencyKey inp) = [] then Inl (GoErr ErrOther ''idempotency_key is required'')
      else Inr ())"

definition quote_order_request :: "create_order_from_quote_input \<Rightarrow> persist_quote_result \<Rightarrow> order_from_quote_input" where
  "quote_order_request inp quote =
     \<lparr>poq_Quote = quote, poq_IdempotencyKey = TrimSpace (cfq_IdempotencyKey inp), poq_Simulated = cfq_Simulated inp,
      poq_SimulationRunID = TrimSpace (cfq_SimulationRunID inp), poq_SimulationScenario = TrimSpace (cfq_SimulationScenario inp),
      poq_FakeBill = cfq_FakeBill inp, poq_FakeBoard = cfq_FakeBoard inp, poq_ClientOrderID = cfq_ClientOrderID inp,
      poq_CreatedAt = cfq_CreatedAt inp\<rparr>"

definition order_active_quote :: "create_order_from_quote_input \<Rightarrow> persist_quote_result \<Rightarrow> create_order_from_quote_result q" where
  "order_active_quote inp quote =
     bnd (reads db_now) (\<lambda>now.
       if pqr_MachineID quote \<noteq> cfq_MachineID inp then raise (GoErr ErrOther ''quote machine mismatch'')
       else seq (lift_res (validateReplayPricingSnapshot (cfq_PricingSnapshot inp) (pqr_PayableMinor quote)
                    (pqr_SubtotalMinor quote) 0 (pqr_PricingSource quote)))
         (if ToLower (TrimSpace (pqr_State quote)) \<noteq> ''active'' then raise (GoErr ErrOther ''quote is not active'')
          else if now > pqr_ExpiresAt quote then raise (GoErr ErrOther ''quote expired'')
          else bnd (CreateOrderFromQuoteWithVendSessions (quote_order_request inp quote)) (\<lambda>created.
            ret (mapPersistOrderFromQuote created))))"

definition CreateOrderFromQuote :: "service \<Rightarrow> create_order_from_quote_input \<Rightarrow> create_order_from_quote_result q" where
  "CreateOrderFromQuote sv inp =
     seq (lift_res (validateCreateOrderFromQuote inp))
     (quoteStore sv
       (bnd (TryReplayOrderFromQuote (cfq_MachineID inp) (TrimSpace (cfq_IdempotencyKey inp))) (\<lambda>replay. case replay of
           Some p \<Rightarrow> ret (mapPersistOrderFromQuote p)
         | None \<Rightarrow> bnd (GetQuoteWithLines (cfq_QuoteID inp)) (order_active_quote inp))))"

section \<open>Orders of one line\<close>

record create_order_input =
  coi_MachineID :: uuid
  coi_ProductID :: uuid
  coi_SlotID :: "uuid option"
  coi_CabinetCode :: string
  coi_SlotCode :: string
  coi_SlotIndex :: "int option"
  coi_Currency :: string
  coi_SubtotalMinor :: int
  coi_TaxMinor :: int
  coi_TotalMinor :: int
  coi_IdempotencyKey :: string
  coi_Simulated :: bool
  coi_SimulationRunID :: string
  coi_SimulationScenario :: string
  coi_FakeBill :: bool
  coi_FakeBoard :: bool
  coi_PricingSnapshot :: "pricing_snapshot option"
  coi_ClientOrderID :: uuid
  coi_CreatedAt :: "time option"

record create_order_result =
  cos_Base :: create_order_vend_result
  cos_SaleLine :: resolved_sale_line

definition validateCreateOrder :: "create_order_input \<Rightarrow> go_err + unit" where
  "validateCreateOrder inp =
     (let cur = ToUpper (TrimSpace (coi_Currency inp));
          hasCodes = (TrimSpace (coi_CabinetCode inp) \<noteq> [] \<and> TrimSpace (coi_SlotCode inp) \<noteq> []);
          hasSlotIdx = (case coi_SlotIndex inp of None \<Rightarrow> False | Some i \<Rightarrow> i \<ge> 0)
      in if coi_MachineID inp = uuid_Nil \<or> coi_ProductID inp = uuid_Nil
         then invalid ''machine_id and product_id must be set''
         else if TrimSpace (coi_IdempotencyKey inp) = [] then invalid ''idempotency_key is required''
         else if length cur \<noteq> 3 \<or> \<not> isAllAlpha cur then invalid ''currency must be a 3-letter ISO code''
         else if coi_SubtotalMinor inp \<noteq> 0 \<or> coi_TaxMinor inp \<noteq> 0 \<or> coi_TotalMinor inp \<noteq> 0
         then invalid ''subtotal_minor, tax_minor, and total_minor must be omitted or zero; totals are resolved from the published assortment''
         else if set_uuid (coi_SlotID inp) \<or> hasCodes \<or> hasSlotIdx then Inr ()
         else invalid ''set slot_id, or cabinet_code with slot_code, or slot_index (deprecated)'')"

definition plain_line :: resolved_sale_line where
  "plain_line =
     \<lparr>rl_SlotConfigID = uuid_Nil, rl_CabinetCode = [], rl_SlotCode = [], rl_SlotIndex = 0, rl_PriceMinor = 0,
      rl_SubtotalMinor = 0, rl_TaxMinor = 0, rl_TotalMinor = 0, rl_BasePriceMinor = 0, rl_DiscountUnitMinor = 0,
      rl_PromotionLabel = [], rl_Currency = [], rl_PricingFingerprint = [], rl_AppliedPromotionIDs = []\<rparr>"

definition order_amounts :: "order \<Rightarrow> resolved_sale_line \<Rightarrow> resolved_sale_line" where
  "order_amounts r line =
     line\<lparr>rl_PriceMinor := o_SubtotalMinor r, rl_SubtotalMinor := o_SubtotalMinor r, rl_TaxMinor := o_TaxMinor r,
          rl_TotalMinor := o_TotalMinor r\<rparr>"

definition saleLineFromReplay :: "create_order_vend_result \<Rightarrow> resolved_sale_line" where
  "saleLineFromReplay replay = order_amounts (cor_Order replay) (plain_line\<lparr>rl_SlotIndex := v_SlotIndex (cor_Vend replay)\<rparr>)"

definition order_selector :: "create_order_input \<Rightarrow> sale_line_selector" where
  "order_selector inp =
     \<lparr>sl_MachineID = coi_MachineID inp, sl_ProductID = coi_ProductID inp, sl_SlotID = coi_SlotID inp,
      sl_CabinetCode = coi_CabinetCode inp, sl_SlotCode = coi_SlotCode inp, sl_SlotIndex = coi_SlotIndex inp\<rparr>"

definition snapshot_order_line :: "create_order_input \<Rightarrow> pricing_snapshot \<Rightarrow> resolved_sale_line \<Rightarrow> resolved_sale_line" where
  "snapshot_order_line inp snap identity =
     plain_line\<lparr>rl_SlotConfigID := rl_SlotConfigID identity, rl_CabinetCode := rl_CabinetCode identity,
       rl_SlotCode := rl_SlotCode identity, rl_SlotIndex := rl_SlotIndex identity, rl_PriceMinor := sp_UnitPriceMinor snap,
       rl_SubtotalMinor := sp_SubtotalMinor snap, rl_TaxMinor := sp_TaxMinor snap, rl_TotalMinor := sp_TotalMinor snap,
       rl_Currency := ToUpper (TrimSpace (coi_Currency inp)), rl_PricingFingerprint := sp_PricingFingerprint snap\<rparr>"

text \<open>The line that is charged, where its price comes from, and the machine's evidence for it.\<close>

definition order_price ::
  "(string \<Rightarrow> string) \<Rightarrow> (time \<Rightarrow> string) \<Rightarrow> service \<Rightarrow> create_order_input \<Rightarrow> (resolved_sale_line \<times> string \<times> int option \<times> raw) q" where
  "order_price sha rfc sv inp =
     (case coi_PricingSnapshot inp of
        None \<Rightarrow> bnd (if sv_saleLines sv then ResolveSaleLine sha (order_selector inp) else raise nil_panic) (\<lambda>line.
          ret (line, ''server_priced'', None, NoBytes))
      | Some snap \<Rightarrow>
          bnd (reads db_now) (\<lambda>now.
          seq (lift_res (validateMachinePricingSnapshot now snap))
          (bnd (configured (sv_saleLines sv) (resolveCheckoutSaleLine sha (order_selector inp) (Some snap) 1)) (\<lambda>identity.
            ret (snapshot_order_line inp snap identity, classifyMachineLocalPricingSource snap identity,
                 Some (sp_LocalPricingRevision snap), machinePricingSnapshotJSON rfc snap)))))"

definition order_request ::
  "create_order_input \<Rightarrow> resolved_sale_line \<times> string \<times> int option \<times> raw \<Rightarrow> create_order_vend_input" where
  "order_request inp priced =
     (case priced of (line, source, revision, snapshot) \<Rightarrow>
       \<lparr>co_MachineID = coi_MachineID inp, co_ProductID = coi_ProductID inp, co_SlotIndex = rl_SlotIndex line,
        co_Currency = ToUpper (TrimSpace (coi_Currency inp)), co_SubtotalMinor = rl_SubtotalMinor line,
        co_TaxMinor = rl_TaxMinor line, co_TotalMinor = rl_TotalMinor line,
        co_IdempotencyKey = TrimSpace (coi_IdempotencyKey inp), co_OrderStatus = ''created'', co_VendState = ''pending'',
        co_Simulated = coi_Simulated inp, co_SimulationRunID = TrimSpace (coi_SimulationRunID inp),
        co_SimulationScenario = TrimSpace (coi_SimulationScenario inp), co_FakeBill = coi_FakeBill inp,
        co_FakeBoard = coi_FakeBoard inp, co_PricingSource = source, co_MachinePricingRevision = revision,
        co_MachinePricingSnapshot = snapshot, co_OrderID = coi_ClientOrderID inp, co_CreatedAt = coi_CreatedAt inp\<rparr>)"

definition replayed_order :: "(string \<Rightarrow> string) \<Rightarrow> service \<Rightarrow> create_order_input \<Rightarrow> create_order_vend_result \<Rightarrow> create_order_result q" where
  "replayed_order sha sv inp replay =
     (let r = cor_Order replay; v = cor_Vend replay
      in if \<not> sv_saleLines sv then raise nil_panic
         else bnd (attempt (LookupSlotDisplay sha (o_MachineID r) (v_ProductID v) (v_SlotIndex v))) (\<lambda>disp.
         let line = (case disp of Inl _ \<Rightarrow> saleLineFromReplay replay | Inr d \<Rightarrow> order_amounts r d)
         in seq (lift_res (validateReplayPricingSnapshot (coi_PricingSnapshot inp) (o_TotalMinor r) (o_SubtotalMinor r)
                    (o_TaxMinor r) (o_PricingSource r)))
              (ret \<lparr>cos_Base = replay, cos_SaleLine = line\<rparr>)))"

definition CreateOrder :: "(string \<Rightarrow> string) \<Rightarrow> (time \<Rightarrow> string) \<Rightarrow> service \<Rightarrow> create_order_input \<Rightarrow> create_order_result q" where
  "CreateOrder sha rfc sv inp =
     seq (lift_res (validateCreateOrder inp))
     (if \<not> sv_orders sv then raise nil_panic
      else bnd (TryReplayCreateOrderWithVend (coi_MachineID inp) (TrimSpace (coi_IdempotencyKey inp))) (\<lambda>replay. case replay of
          Some r \<Rightarrow> replayed_order sha sv inp r
        | None \<Rightarrow>
            bnd (order_price sha rfc sv inp) (\<lambda>priced.
            bnd (CreateOrderWithVendSession (order_request inp priced)) (\<lambda>base.
              ret \<lparr>cos_Base = base, cos_SaleLine = fst priced\<rparr>))))"

end
