(* ===== verification/Offline_Sale.thy ===== *)
theory Offline_Sale
  imports Checkout_Service
begin

text \<open>
  A sale that a machine made without a connection, \<open>internal/app/commerce/offline_sale.go\<close>: the machine
  reports the cart with the prices it charged and the cash it took; the backend creates the order, directly
  for one line and over a quote for several, and confirms the cash payment. The same code materialises the
  order of a payment session from a snapshot.
\<close>

section \<open>The reported sale\<close>

text \<open>
  The report after \<open>json.Unmarshal\<close>. The pricing snapshot is an object or a string that holds one; it may be
  absent, an invalid string, or a document that does not have the fields.
\<close>

record app_checkout_line =
  al_SlotCode :: string
  al_ProductID :: string
  al_UnitPriceMinor :: int
  al_Quantity :: int

record app_snapshot =
  as_SnapshotID :: string
  as_MachineID :: string
  as_PayableTotalMinor :: int
  as_Currency :: string
  as_LocalPricingRevision :: int
  as_SlotConfigVersion :: int
  as_CapturedAtEpochMs :: int
  as_Lines :: "app_checkout_line list"

datatype wire_snapshot = NoSnapshot | BadSnapshotString | BadSnapshot string | WireSnapshot app_snapshot

record offline_sale_wire =
  ow_OrderID :: string
  ow_MachineID :: string
  ow_CashReceivedMinor :: int
  ow_PricingSnapshot :: wire_snapshot
  ow_PayableTotalMinor :: int
  ow_Currency :: string

datatype offline_payload = EmptyPayload | BadPayload string | OfflineSalePayload offline_sale_wire

record offline_sale_outbox =
  oo_Topic :: string
  oo_EventType :: string
  oo_AggregateType :: string

definition parseOfflineSalePayload :: "offline_payload \<Rightarrow> go_err + offline_sale_wire \<times> app_snapshot" where
  "parseOfflineSalePayload payload =
     (case payload of
        EmptyPayload \<Rightarrow> invalid ''offline_sale payload required''
      | BadPayload msg \<Rightarrow> invalid (''invalid offline_sale payload: '' @ msg)
      | OfflineSalePayload wire \<Rightarrow>
          (case ow_PricingSnapshot wire of
             NoSnapshot \<Rightarrow> invalid ''pricing_snapshot required''
           | BadSnapshotString \<Rightarrow> invalid ''pricing_snapshot string invalid''
           | BadSnapshot msg \<Rightarrow> invalid (''invalid pricing_snapshot: '' @ msg)
           | WireSnapshot snap \<Rightarrow>
               if as_Lines snap = [] then invalid ''pricing_snapshot lines required''
               else if list_ex (\<lambda>l. TrimSpace (al_ProductID l) = []) (as_Lines snap)
               then invalid (''pricing_snapshot product_id required at line ''
                       @ Sprintd (int (length (takeWhile (\<lambda>l. TrimSpace (al_ProductID l) \<noteq> []) (as_Lines snap)))))
               else Inr (wire, snap)))"

section \<open>The snapshot of a reported sale\<close>

text \<open>The unit price and the subtotal of a line; a missing price is a share of what was paid.\<close>

definition app_line_amounts :: "app_snapshot \<Rightarrow> int \<Rightarrow> app_checkout_line \<Rightarrow> int \<times> int" where
  "app_line_amounts snap payable l =
     (let qty = one_at_least (al_Quantity l);
          unit = (if al_UnitPriceMinor l \<le> 0 \<and> length (as_Lines snap) = 1 then payable div qty else al_UnitPriceMinor l)
      in if unit \<le> 0
         then let lineSubtotal = payable div int (length (as_Lines snap)) in (lineSubtotal div qty, lineSubtotal)
         else (unit, i64 (unit * qty)))"

fun app_lines :: "uuid_parser \<Rightarrow> app_snapshot \<Rightarrow> int \<Rightarrow> int \<Rightarrow> app_checkout_line list \<Rightarrow> snapshot_line list" where
  "app_lines parse snap payable i [] = []"
| "app_lines parse snap payable i (l # ls) =
     (let (unit, lineSubtotal) = app_line_amounts snap payable l
      in \<lparr>sx_LineSequence = i + 1, sx_ProductID = fst (parse (TrimSpace (al_ProductID l))), sx_CabinetCode = [],
          sx_SlotCode = TrimSpace (al_SlotCode l), sx_SlotIndex = 0, sx_Quantity = i32 (one_at_least (al_Quantity l)),
          sx_UnitPriceMinor = unit, sx_LineSubtotalMinor = lineSubtotal, sx_PricingSyncState = []\<rparr>
         # app_lines parse snap payable (i + 1) ls)"

definition unix_epoch :: time where
  "unix_epoch = 62135596800 * nanos_Second"

definition app_snapshot_id :: "app_snapshot \<Rightarrow> string" where
  "app_snapshot_id snap =
     (if TrimSpace (as_SnapshotID snap) \<noteq> [] then TrimSpace (as_SnapshotID snap)
      else case as_Lines snap of [] \<Rightarrow> [] | l # _ \<Rightarrow> TrimSpace (al_SlotCode l))"

definition machinePricingSnapshotFromAppCheckout :: "uuid_parser \<Rightarrow> app_snapshot \<Rightarrow> int \<Rightarrow> pricing_snapshot" where
  "machinePricingSnapshotFromAppCheckout parse snap payable =
     \<lparr>sp_SubtotalMinor = payable, sp_TaxMinor = 0, sp_TotalMinor = payable,
      sp_UnitPriceMinor = (case as_Lines snap of [] \<Rightarrow> 0 | l # _ \<Rightarrow> fst (app_line_amounts snap payable l)),
      sp_LocalPricingRevision = as_LocalPricingRevision snap, sp_PricingFingerprint = app_snapshot_id snap,
      sp_CapturedAt = (if as_CapturedAtEpochMs snap > 0 then Some (unix_epoch + as_CapturedAtEpochMs snap * (nanos_Second div 1000)) else None),
      sp_SnapshotID = app_snapshot_id snap, sp_SlotConfigVersion = as_SlotConfigVersion snap,
      sp_ServerPricingFingerprint = [], sp_Lines = app_lines parse snap payable 0 (as_Lines snap)\<rparr>"

definition AppCheckoutPricingSnapshotFromPricingInput :: "pricing_snapshot \<Rightarrow> string \<Rightarrow> app_snapshot" where
  "AppCheckoutPricingSnapshotFromPricingInput inp currency =
     \<lparr>as_SnapshotID = TrimSpace (sp_SnapshotID inp), as_MachineID = [],
      as_PayableTotalMinor = (if sp_TotalMinor inp \<le> 0 then sp_SubtotalMinor inp else sp_TotalMinor inp),
      as_Currency = TrimSpace currency, as_LocalPricingRevision = sp_LocalPricingRevision inp,
      as_SlotConfigVersion = sp_SlotConfigVersion inp, as_CapturedAtEpochMs = 0,
      as_Lines = map (\<lambda>l. \<lparr>al_SlotCode = TrimSpace (sx_SlotCode l), al_ProductID = uuid_String (sx_ProductID l),
                          al_UnitPriceMinor = sx_UnitPriceMinor l, al_Quantity = sx_Quantity l\<rparr>) (sp_Lines inp)\<rparr>"

definition optionalClientOrderID :: "uuid_parser \<Rightarrow> string \<Rightarrow> uuid" where
  "optionalClientOrderID parse rw = (case parse (TrimSpace rw) of (i, ok) \<Rightarrow> if ok then i else uuid_Nil)"

definition resolveOfflineOrderCreatedAt :: "time option \<Rightarrow> time option \<Rightarrow> time option" where
  "resolveOfflineOrderCreatedAt occurredAt capturedAt = (case occurredAt of Some t \<Rightarrow> Some t | None \<Rightarrow> capturedAt)"

section \<open>The order of a reported sale\<close>

definition offline_selector :: "uuid \<Rightarrow> uuid \<Rightarrow> app_checkout_line \<Rightarrow> sale_line_selector" where
  "offline_selector machineID productID l =
     \<lparr>sl_MachineID = machineID, sl_ProductID = productID, sl_SlotID = None, sl_CabinetCode = [],
      sl_SlotCode = TrimSpace (al_SlotCode l), sl_SlotIndex = None\<rparr>"

definition offline_identity ::
  "(string \<Rightarrow> string) \<Rightarrow> uuid_parser \<Rightarrow> service \<Rightarrow> uuid \<Rightarrow> pricing_snapshot \<Rightarrow> app_checkout_line \<Rightarrow> int \<Rightarrow> (uuid \<times> resolved_sale_line) q" where
  "offline_identity sha parse sv machineID pricingSnap l qty =
     (case parse (TrimSpace (al_ProductID l)) of
        (productID, ok) \<Rightarrow>
          if \<not> ok \<or> productID = uuid_Nil then raise (GoErr ErrInvalidArgument ''invalid product_id in pricing_snapshot'')
          else bnd (configured (sv_saleLines sv) (resolveCheckoutSaleLine sha (offline_selector machineID productID l) (Some pricingSnap) qty)) (\<lambda>identity.
            ret (productID, identity)))"

fun offline_quote_lines ::
  "(string \<Rightarrow> string) \<Rightarrow> uuid_parser \<Rightarrow> service \<Rightarrow> uuid \<Rightarrow> pricing_snapshot \<Rightarrow> app_checkout_line list \<Rightarrow> quote_line_input list q" where
  "offline_quote_lines sha parse sv machineID pricingSnap [] = ret []"
| "offline_quote_lines sha parse sv machineID pricingSnap (l # ls) =
     (let qty = one_at_least (i32 (al_Quantity l))
      in bnd (offline_identity sha parse sv machineID pricingSnap l qty) (\<lambda>(productID, identity).
         bnd (offline_quote_lines sha parse sv machineID pricingSnap ls) (\<lambda>rest.
           ret (\<lparr>qli_ProductID = productID, qli_SlotID = Some (rl_SlotConfigID identity), qli_CabinetCode = rl_CabinetCode identity,
                 qli_SlotCode = rl_SlotCode identity, qli_SlotIndex = Some (rl_SlotIndex identity), qli_Quantity = qty\<rparr> # rest))))"

definition offline_order_input ::
  "uuid \<Rightarrow> uuid \<Rightarrow> resolved_sale_line \<Rightarrow> string \<Rightarrow> string \<Rightarrow> pricing_snapshot \<Rightarrow> uuid \<Rightarrow> time option \<Rightarrow> create_order_input" where
  "offline_order_input machineID productID identity currency key pricingSnap clientOrderID createdAt =
     \<lparr>coi_MachineID = machineID, coi_ProductID = productID, coi_SlotID = Some (rl_SlotConfigID identity),
      coi_CabinetCode = rl_CabinetCode identity, coi_SlotCode = rl_SlotCode identity, coi_SlotIndex = Some (rl_SlotIndex identity),
      coi_Currency = currency, coi_SubtotalMinor = 0, coi_TaxMinor = 0, coi_TotalMinor = 0,
      coi_IdempotencyKey = key @ '':offline:create_order'', coi_Simulated = False, coi_SimulationRunID = [],
      coi_SimulationScenario = [], coi_FakeBill = False, coi_FakeBoard = False, coi_PricingSnapshot = Some pricingSnap,
      coi_ClientOrderID = clientOrderID, coi_CreatedAt = createdAt\<rparr>"

definition offline_quote_input :: "uuid \<Rightarrow> string \<Rightarrow> string \<Rightarrow> string \<Rightarrow> quote_line_input list \<Rightarrow> pricing_snapshot \<Rightarrow> create_quote_input" where
  "offline_quote_input machineID currency pm key lines pricingSnap =
     \<lparr>cqi_MachineID = machineID, cqi_Currency = currency, cqi_PaymentMethod = pm, cqi_Lines = lines,
      cqi_IdempotencyKey = key @ '':offline:create_quote'', cqi_QuoteTTL = 0, cqi_PricingSnapshot = Some pricingSnap\<rparr>"

definition offline_quote_order :: "uuid \<Rightarrow> uuid \<Rightarrow> string \<Rightarrow> string \<Rightarrow> pricing_snapshot \<Rightarrow> uuid \<Rightarrow> time option \<Rightarrow> create_order_from_quote_input" where
  "offline_quote_order machineID quoteID pm key pricingSnap clientOrderID createdAt =
     \<lparr>cfq_MachineID = machineID, cfq_QuoteID = quoteID, cfq_PaymentMethod = pm,
      cfq_IdempotencyKey = key @ '':offline:create_order'', cfq_Simulated = False, cfq_SimulationRunID = [],
      cfq_SimulationScenario = [], cfq_FakeBill = False, cfq_FakeBoard = False, cfq_PricingSnapshot = Some pricingSnap,
      cfq_ClientOrderID = clientOrderID, cfq_CreatedAt = createdAt\<rparr>"

definition createOfflineOrderFromSnapshot ::
  "(string \<Rightarrow> string) \<Rightarrow> (time \<Rightarrow> string) \<Rightarrow> uuid_parser \<Rightarrow> service \<Rightarrow> uuid \<Rightarrow> app_snapshot \<Rightarrow> pricing_snapshot \<Rightarrow> string \<Rightarrow> string \<Rightarrow> string \<Rightarrow> uuid \<Rightarrow> time option \<Rightarrow> uuid q" where
  "createOfflineOrderFromSnapshot sha rfc parse sv machineID snap pricingSnap currency paymentMethod key clientOrderID createdAt =
     (let pm = (if TrimSpace paymentMethod = [] then ''default'' else TrimSpace paymentMethod)
      in case as_Lines snap of
           [l] \<Rightarrow>
             bnd (offline_identity sha parse sv machineID pricingSnap l 1) (\<lambda>(productID, identity).
             bnd (CreateOrder sha rfc sv (offline_order_input machineID productID identity currency key pricingSnap clientOrderID createdAt))
               (\<lambda>r. ret (o_ID (cor_Order (cos_Base r)))))
         | ls \<Rightarrow>
             bnd (offline_quote_lines sha parse sv machineID pricingSnap ls) (\<lambda>lines.
             bnd (CreateQuote sha rfc sv (offline_quote_input machineID currency pm key lines pricingSnap)) (\<lambda>quote.
             bnd (CreateOrderFromQuote sv (offline_quote_order machineID (cqr_QuoteID quote) pm key pricingSnap clientOrderID createdAt))
               (\<lambda>r. ret (cfr_OrderID r)))))"

record materialize_order_input =
  mo_MachineID :: uuid
  mo_PricingSnapshot :: pricing_snapshot
  mo_Currency :: string
  mo_PaymentMethod :: string
  mo_IdempotencyKey :: string

definition MaterializeOrderFromPricingSnapshotInput ::
  "(string \<Rightarrow> string) \<Rightarrow> (time \<Rightarrow> string) \<Rightarrow> uuid_parser \<Rightarrow> service \<Rightarrow> uuid \<Rightarrow> pricing_snapshot \<Rightarrow> app_snapshot \<Rightarrow> string \<Rightarrow> string \<Rightarrow> string \<Rightarrow> uuid q" where
  "MaterializeOrderFromPricingSnapshotInput sha rfc parse sv machineID pricingSnap wireSnap currency paymentMethod key =
     createOfflineOrderFromSnapshot sha rfc parse sv machineID wireSnap pricingSnap currency
       (if TrimSpace paymentMethod = [] then ''default'' else TrimSpace paymentMethod) key uuid_Nil None"

definition MaterializeOrderForPaymentSession ::
  "(string \<Rightarrow> string) \<Rightarrow> (time \<Rightarrow> string) \<Rightarrow> uuid_parser \<Rightarrow> service \<Rightarrow> materialize_order_input \<Rightarrow> uuid q" where
  "MaterializeOrderForPaymentSession sha rfc parse sv inp =
     (let cur = ToUpper (TrimSpace (mo_Currency inp))
      in MaterializeOrderFromPricingSnapshotInput sha rfc parse sv (mo_MachineID inp) (mo_PricingSnapshot inp)
           (AppCheckoutPricingSnapshotFromPricingInput (mo_PricingSnapshot inp) cur) cur (mo_PaymentMethod inp)
           (mo_IdempotencyKey inp))"

section \<open>The sale\<close>

definition offline_currency :: "offline_sale_wire \<Rightarrow> app_snapshot \<Rightarrow> string" where
  "offline_currency wire snap =
     (if ToUpper (TrimSpace (ow_Currency wire)) = [] then ToUpper (TrimSpace (as_Currency snap))
      else ToUpper (TrimSpace (ow_Currency wire)))"

definition offline_payable :: "offline_sale_wire \<Rightarrow> app_snapshot \<Rightarrow> int" where
  "offline_payable wire snap = (if ow_PayableTotalMinor wire \<le> 0 then as_PayableTotalMinor snap else ow_PayableTotalMinor wire)"

definition offline_cash ::
  "uuid \<Rightarrow> uuid \<Rightarrow> string \<Rightarrow> int \<Rightarrow> int \<Rightarrow> string \<Rightarrow> offline_sale_outbox \<Rightarrow> confirm_cash_payment_input" where
  "offline_cash orderID machineID key cashReceived payable currency outbox =
     \<lparr>cf_OrderID = orderID, cf_MachineID = machineID, cf_IdempotencyKey = key @ '':offline:cash'',
      cf_GrossAcceptedMinor = cashReceived, cf_AllocatedMinor = payable, cf_PreOrderCreditMinor = 0,
      cf_PostOrderInsertedMinor = 0, cf_ChangeDueMinor = 0, cf_ChangeDispensedMinor = 0, cf_ChangeOutcome = [],
      cf_ConsentSource = ''implicit_post_order'', cf_ConsentedAt = None, cf_Currency = currency, cf_AcceptanceEvents = [],
      cf_Simulated = False, cf_SimulationRunID = [], cf_SimulationScenario = [], cf_FakeBill = False, cf_FakeBoard = False,
      cf_OutboxTopic = TrimSpace (oo_Topic outbox), cf_OutboxEventType = TrimSpace (oo_EventType outbox),
      cf_OutboxAggregateType = TrimSpace (oo_AggregateType outbox)\<rparr>"

definition ProcessOfflineSale ::
  "(string \<Rightarrow> string) \<Rightarrow> (time \<Rightarrow> string) \<Rightarrow> uuid_parser \<Rightarrow> service \<Rightarrow> uuid \<Rightarrow> string \<Rightarrow> string \<Rightarrow> offline_payload \<Rightarrow> offline_sale_outbox \<Rightarrow> time option \<Rightarrow> unit q" where
  "ProcessOfflineSale sha rfc parse sv machineID idempotencyKey clientEventID payload outbox occurredAt =
     (let key = TrimSpace idempotencyKey
      in if machineID = uuid_Nil then raise (GoErr ErrInvalidArgument ''machine_id required'')
         else if key = [] then raise (GoErr ErrInvalidArgument ''idempotency_key required'')
         else if TrimSpace clientEventID = [] then raise (GoErr ErrInvalidArgument ''client_event_id required'')
         else bnd (lift_res (parseOfflineSalePayload payload)) (\<lambda>(wire, snap).
           let (mid, ok) = parse (TrimSpace (ow_MachineID wire)); currency = offline_currency wire snap;
               payable = offline_payable wire snap;
               cashReceived = (if ow_CashReceivedMinor wire \<le> 0 then payable else ow_CashReceivedMinor wire);
               pricingSnap = machinePricingSnapshotFromAppCheckout parse snap payable
           in if ok \<and> mid \<noteq> uuid_Nil \<and> mid \<noteq> machineID then raise (GoErr ErrInvalidArgument ''machine_id mismatch'')
              else if length currency \<noteq> 3 then raise (GoErr ErrInvalidArgument ''currency must be a 3-letter ISO code'')
              else if payable \<le> 0 then raise (GoErr ErrInvalidArgument ''payable_total_minor must be positive'')
              else bnd (createOfflineOrderFromSnapshot sha rfc parse sv machineID snap pricingSnap currency ''cash'' key
                     (optionalClientOrderID parse (ow_OrderID wire))
                     (resolveOfflineOrderCreatedAt occurredAt (sp_CapturedAt pricingSnap))) (\<lambda>orderID.
                seq (ConfirmCashPayment sv (offline_cash orderID machineID key cashReceived payable currency outbox)) (ret ()))))"

end
