(* ===== verification/Checkout_Safety.thy ===== *)
theory Checkout_Safety
  imports Offline_Sale Cash_Confirm_Safety Order_Safety Sale_Line_Safety
begin

text \<open>
  What checkout guarantees: a declared snapshot that is accepted adds up without overflow; a quote becomes at
  most one order, with one numbered vend line per unit and the quoted total; an order without a snapshot
  costs what the pricing engine says; a sale reported by a machine ends as a paid order. The last theorems
  show limits: the quantities of a cart are not compared with those of its snapshot.
\<close>

section \<open>Snapshots add up\<close>

definition lines_total :: "snapshot_line list \<Rightarrow> int" where
  "lines_total ls = (\<Sum>l\<leftarrow>ls. sx_UnitPriceMinor l * sx_Quantity l)"

definition line_ok :: "snapshot_line \<Rightarrow> bool" where
  "line_ok l \<longleftrightarrow> 0 < sx_LineSequence l \<and> 0 < sx_Quantity l \<and> 0 < sx_UnitPriceMinor l
     \<and> sx_UnitPriceMinor l \<le> pricingMaxUnitPriceMinor \<and> sx_LineSubtotalMinor l = sx_UnitPriceMinor l * sx_Quantity l"

lemma checked_product:
  assumes "0 < q" "0 < u" "\<not> u > maxInt64 div q"
  shows "i64 (u * q) = u * q" "0 < u * q" "u * q \<le> maxInt64"
proof -
  have "u * q \<le> (maxInt64 div q) * q" using assms by (intro mult_right_mono) auto
  also have "\<dots> \<le> maxInt64" by (simp add: minus_mod_eq_div_mult [symmetric] assms(1) less_imp_le maxInt64_def)
  finally show le: "u * q \<le> maxInt64" .
  show "0 < u * q" using assms by simp
  with le show "i64 (u * q) = u * q" by (intro i64_small) (auto simp: maxInt64_def)
qed

lemma line_sum_exact:
  assumes "snapshot_line_sum ls acc seqs ids = Inr n" and "0 \<le> acc" "acc \<le> maxInt64"
  shows "n = acc + lines_total ls \<and> n \<le> maxInt64 \<and> list_all line_ok ls
    \<and> distinct (map sx_LineSequence ls) \<and> set (map sx_LineSequence ls) \<inter> set seqs = {}
    \<and> distinct (map line_identity ls) \<and> set (map line_identity ls) \<inter> set ids = {}"
  using assms
proof (induction ls arbitrary: acc seqs ids)
  case Nil
  then show ?case by (simp add: lines_total_def)
next
  case (Cons l ls)
  let ?p = "sx_UnitPriceMinor l * sx_Quantity l"
  from Cons.prems(1) have l: "0 < sx_LineSequence l" "sx_LineSequence l \<notin> set seqs" "line_identity l \<notin> set ids"
    "0 < sx_Quantity l" "0 < sx_UnitPriceMinor l" "sx_UnitPriceMinor l \<le> pricingMaxUnitPriceMinor"
    "\<not> sx_UnitPriceMinor l > maxInt64 div sx_Quantity l" "sx_LineSubtotalMinor l = i64 ?p"
    "\<not> acc > i64 (maxInt64 - sx_LineSubtotalMinor l)"
    and rest: "snapshot_line_sum ls (i64 (acc + sx_LineSubtotalMinor l)) (sx_LineSequence l # seqs) (line_identity l # ids) = Inr n"
    by (auto simp: invalid_def split: if_splits)
  note p = checked_product [OF l(4,5,7)]
  have sub: "sx_LineSubtotalMinor l = ?p" using l(8) p(1) by simp
  have "i64 (maxInt64 - ?p) = maxInt64 - ?p" using p by (intro i64_small) (auto simp: maxInt64_def)
  then have le: "acc + ?p \<le> maxInt64" using l(9) sub by simp
  then have "i64 (acc + ?p) = acc + ?p" using Cons.prems(2) p(2) by (intro i64_small) (auto simp: maxInt64_def)
  with rest sub le Cons.prems(2) p(2) have "n = (acc + ?p) + lines_total ls \<and> n \<le> maxInt64 \<and> list_all line_ok ls
    \<and> distinct (map sx_LineSequence ls) \<and> set (map sx_LineSequence ls) \<inter> set (sx_LineSequence l # seqs) = {}
    \<and> distinct (map line_identity ls) \<and> set (map line_identity ls) \<inter> set (line_identity l # ids) = {}"
    by (intro Cons.IH) auto
  moreover have "line_ok l" using l sub by (simp add: line_ok_def)
  ultimately show ?case using l by (auto simp: lines_total_def)
qed

lemma totals_exact:
  assumes "validateMachinePricingSnapshotTotals snap = Inr ()" and "in_i64 (sp_SubtotalMinor snap)" "in_i64 (sp_TaxMinor snap)"
  shows "0 < sp_TotalMinor snap \<and> 0 \<le> sp_TaxMinor snap \<and> 0 \<le> sp_SubtotalMinor snap
    \<and> sp_TotalMinor snap = sp_SubtotalMinor snap + sp_TaxMinor snap"
proof -
  let ?x = "sp_SubtotalMinor snap + sp_TaxMinor snap"
  from assms(1) have v: "0 < sp_TotalMinor snap" "0 \<le> sp_SubtotalMinor snap" "0 \<le> sp_TaxMinor snap" "i64 ?x = sp_TotalMinor snap"
    by (auto simp: validateMachinePricingSnapshotTotals_def invalid_def split: if_splits)
  have "?x < 2 ^ 63"
  proof (rule ccontr)
    assume "\<not> ?x < 2 ^ 63"
    moreover have "?x < 2 ^ 64" using assms(2,3) by (auto simp: in_i64_def)
    ultimately have "(?x + 2 ^ 63) mod 2 ^ 64 = ?x + 2 ^ 63 - 2 ^ 64"
      using mod_pos_pos_trivial [of "?x + 2 ^ 63 - 2 ^ 64" "2 ^ 64"] minus_mod_self2 [of "?x + 2 ^ 63" "2 ^ 64"] by simp
    then have "i64 ?x < 0" using \<open>?x < 2 ^ 64\<close> by (simp add: i64_def)
    with v show False by simp
  qed
  with v have "i64 ?x = ?x" by (intro i64_small) auto
  with v show ?thesis by simp
qed

text \<open>
  C33: An accepted snapshot adds up. The total a machine declares is positive and is the sum of the units times
  their prices plus the tax, over the integers and not only modulo \<open>2^64\<close>; every line has a positive quantity
  and a bounded price, and no sequence number and no slot with its product occurs twice.
\<close>

theorem snapshot_adds_up:
  assumes "validateMachinePricingSnapshot now snap = Inr ()" and "in_i64 (sp_SubtotalMinor snap)" "in_i64 (sp_TaxMinor snap)"
  shows "0 < sp_TotalMinor snap \<and> 0 \<le> sp_TaxMinor snap \<and>
    (if sp_Lines snap = [] then 0 < sp_UnitPriceMinor snap \<and> sp_TotalMinor snap = sp_UnitPriceMinor snap + sp_TaxMinor snap
     else sp_TotalMinor snap = lines_total (sp_Lines snap) + sp_TaxMinor snap \<and> list_all line_ok (sp_Lines snap)
       \<and> distinct (map sx_LineSequence (sp_Lines snap)) \<and> distinct (map line_identity (sp_Lines snap)))"
proof -
  from assms(1) have tot: "validateMachinePricingSnapshotTotals snap = Inr ()"
    by (auto simp: validateMachinePricingSnapshot_def validateMachinePricingSnapshotMultiLine_def
        validateMachinePricingSnapshotLegacySingleLine_def split: if_splits sum.splits)
  note t = totals_exact [OF tot assms(2,3)]
  show ?thesis
  proof (cases "sp_Lines snap = []")
    case True
    with assms(1) t show ?thesis
      by (auto simp: validateMachinePricingSnapshot_def validateMachinePricingSnapshotLegacySingleLine_def invalid_def
          split: if_splits sum.splits)
  next
    case False
    with assms(1) have "snapshot_line_sum (sp_Lines snap) 0 [] [] = Inr (sp_SubtotalMinor snap)"
      by (auto simp: validateMachinePricingSnapshot_def validateMachinePricingSnapshotMultiLine_def invalid_def
          split: if_splits sum.splits)
    from line_sum_exact [OF this] t False show ?thesis by (simp add: maxInt64_def)
  qed
qed

section \<open>Quotes become orders\<close>

definition quote_lines :: "db \<Rightarrow> uuid \<Rightarrow> checkout_quote_line list" where
  "quote_lines s i = sort_key ql_LineSequence (filter (\<lambda>r. ql_QuoteID r = i) (db_quote_lines s))"

definition quote_row :: "db \<Rightarrow> uuid \<Rightarrow> checkout_quote option" where
  "quote_row s i = find (\<lambda>q. qt_ID q = i) (db_quotes s)"

lemma list_lines_run [simp]: "q_ListCheckoutQuoteLines i s = (Inr (quote_lines s i), s)"
  by (simp add: q_ListCheckoutQuoteLines_def quote_lines_def reads_def)

lemma get_quote_run: "GetQuoteWithLines i s = (Inr p, t) \<longleftrightarrow>
    t = s \<and> (\<exists>row. quote_row s i = Some row \<and> p = mapPersistQuote row (quote_lines s (qt_ID row)) False)"
  by (auto simp: GetQuoteWithLines_def q_GetCheckoutQuoteByID_def quote_row_def bnd_Inr select_one_Inr)

lemma insert_vend_row:
  assumes "q_InsertVendSession row s = (Inr v, t)"
  shows "\<exists>i now. v = row\<lparr>v_ID := i, v_CreatedAt := now\<rparr> \<and> db_vends t = db_vends s @ [v] \<and> db_orders t = db_orders s
    \<and> db_quotes t = db_quotes s \<and> v_State row \<in> set vendStates"
  using assms unfolding q_InsertVendSession_def
  by (auto simp: bnd_def gen_uuid_def Let_def split: if_splits)

lemma insert_units_run:
  assumes "insert_units inp oid ls n s = (Inr views, t)"
  shows "\<exists>vs. db_vends t = db_vends s @ vs \<and> db_orders t = db_orders s \<and> db_quotes t = db_quotes s
    \<and> map vr_LineSequence vs = map (\<lambda>i. n + 1 + int i) [0..<length ls]
    \<and> map v_ProductID vs = map ql_ProductID ls \<and> map v_SlotIndex vs = map ql_SlotIndex ls
    \<and> (\<forall>v \<in> set vs. v_OrderID v = oid \<and> v_State v = ''pending'' \<and> v_MachineID v = pqr_MachineID (poq_Quote inp))"
  using assms
proof (induction ls arbitrary: n s views)
  case Nil
  then show ?case by simp
next
  case (Cons l ls)
  from Cons.prems obtain v u rest where v: "q_InsertVendSession (quote_vend inp oid l (n + 1)) s = (Inr v, u)"
    and rest: "insert_units inp oid ls (n + 1) u = (Inr rest, t)"
    by (auto simp: bnd_Inr q_InsertVendSessionWithLineSequence_def)
  from insert_vend_row [OF v] obtain i now where row: "v = (quote_vend inp oid l (n + 1))\<lparr>v_ID := i, v_CreatedAt := now\<rparr>"
    "db_vends u = db_vends s @ [v]" "db_orders u = db_orders s" "db_quotes u = db_quotes s" by blast
  from Cons.IH [OF rest] obtain vs where vs: "db_vends t = db_vends u @ vs" "db_orders t = db_orders u" "db_quotes t = db_quotes u"
    "map vr_LineSequence vs = map (\<lambda>i. (n + 1) + 1 + int i) [0..<length ls]"
    "map v_ProductID vs = map ql_ProductID ls" "map v_SlotIndex vs = map ql_SlotIndex ls"
    "\<forall>v \<in> set vs. v_OrderID v = oid \<and> v_State v = ''pending'' \<and> v_MachineID v = pqr_MachineID (poq_Quote inp)" by blast
  have seqs: "map (\<lambda>i. n + 1 + int i) [0..<length (l # ls)] = (n + 1) # map (\<lambda>i. (n + 1) + 1 + int i) [0..<length ls]"
    by (simp add: upt_conv_Cons map_Suc_upt [symmetric] del: upt_Suc)
  show ?case
    unfolding seqs using vs row by (intro exI [of _ "v # vs"]) (auto simp: quote_vend_def)
qed

lemma insert_order_quotes: "keeps db_quotes (q_InsertOrder i created row)" "keeps db_quote_lines (q_InsertOrder i created row)"
  unfolding q_InsertOrder_def Let_def by (intro keeps_intros; simp)+

lemma insert_order_row:
  assumes "q_InsertOrder i created row s = (Inr r, t)"
  shows "\<exists>oid c now. r = row\<lparr>o_ID := oid, o_CreatedAt := c, o_UpdatedAt := now\<rparr> \<and> (\<forall>x. i = Some x \<longrightarrow> oid = x)"
  using assms unfolding q_InsertOrder_def
  by (auto simp: bnd_Inr Let_def seq_Inr split: if_splits option.splits)

lemma try_replay_order_run:
  assumes "TryReplayOrderFromQuote m k s = (Inr x, t)"
  shows "t = s \<and> (\<forall>p. x = Some p \<longrightarrow> pox_Replay p)"
  using assms
  by (auto simp: TryReplayOrderFromQuote_def TryReplayCreateOrderWithVend_def q_ListVendSessionsByOrder_def bnd_Inr Let_def
      split: if_splits option.splits)

lemma mapPersistQuote_sel [simp]:
  "pqr_QuoteID (mapPersistQuote row ls b) = qt_ID row" "pqr_MachineID (mapPersistQuote row ls b) = qt_MachineID row"
  "pqr_State (mapPersistQuote row ls b) = qt_State row" "pqr_ExpiresAt (mapPersistQuote row ls b) = qt_ExpiresAt row"
  "pqr_PayableMinor (mapPersistQuote row ls b) = qt_PayableMinor row" "pqr_Currency (mapPersistQuote row ls b) = qt_Currency row"
  "pqr_SubtotalMinor (mapPersistQuote row ls b) = qt_SubtotalMinor row"
  by (simp_all add: mapPersistQuote_def)

lemma mapOrder_sel [simp]:
  "cfr_Replay (mapPersistOrderFromQuote p) = pox_Replay p" "cfr_OrderID (mapPersistOrderFromQuote p) = o_ID (pox_Order p)"
  by (simp_all add: mapPersistOrderFromQuote_def Let_def)

text \<open>A successful request is answered by a replay or goes on with the row of the quote.\<close>

lemma from_quote_cases:
  assumes "CreateOrderFromQuote sv inp s = (Inr r, t)"
  obtains (replay) "cfr_Replay r" "t = s"
  | (fresh) row where "quote_row s (cfq_QuoteID inp) = Some row"
      "order_active_quote inp (mapPersistQuote row (quote_lines s (qt_ID row)) False) s = (Inr r, t)"
proof -
  from assms obtain x u where x: "TryReplayOrderFromQuote (cfq_MachineID inp) (TrimSpace (cfq_IdempotencyKey inp)) s = (Inr x, u)"
    and rest: "(case x of Some p \<Rightarrow> ret (mapPersistOrderFromQuote p)
       | None \<Rightarrow> bnd (GetQuoteWithLines (cfq_QuoteID inp)) (order_active_quote inp)) u = (Inr r, t)"
    by (auto simp: CreateOrderFromQuote_def quoteStore_def configured_def bnd_Inr seq_Inr lift_res_run_Inr split: if_splits)
  from try_replay_order_run [OF x] rest show ?thesis
    by (cases x) (auto simp: bnd_Inr get_quote_run intro: replay fresh)
qed

lemma active_quote_run:
  assumes "order_active_quote inp quote s = (Inr r, t)"
  obtains p where "pqr_MachineID quote = cfq_MachineID inp" "ToLower (TrimSpace (pqr_State quote)) = ''active''"
    "CreateOrderFromQuoteWithVendSessions (quote_order_request inp quote) s = (Inr p, t)" "r = mapPersistOrderFromQuote p"
  using assms by (auto simp: order_active_quote_def bnd_Inr seq_Inr lift_res_run_Inr split: if_splits)

lemma from_quote_inv:
  assumes "CreateOrderFromQuote sv inp s = (Inr r, t)" and "\<not> cfr_Replay r"
  obtains row p where "quote_row s (cfq_QuoteID inp) = Some row" "qt_MachineID row = cfq_MachineID inp"
    "insert_quote_order (quote_order_request inp (mapPersistQuote row (quote_lines s (qt_ID row)) False)) s = (Inr p, t)"
    "r = mapPersistOrderFromQuote p"
  using assms(1)
proof (cases rule: from_quote_cases)
  case replay
  with assms(2) show ?thesis by simp
next
  case (fresh row)
  from fresh(2) obtain p where p: "qt_MachineID row = cfq_MachineID inp" "r = mapPersistOrderFromQuote p"
    "CreateOrderFromQuoteWithVendSessions (quote_order_request inp (mapPersistQuote row (quote_lines s (qt_ID row)) False)) s = (Inr p, t)"
    by (auto elim: active_quote_run)
  with assms(2) have "insert_quote_order (quote_order_request inp (mapPersistQuote row (quote_lines s (qt_ID row)) False)) s = (Inr p, t)"
    by (auto simp: CreateOrderFromQuoteWithVendSessions_def bnd_Inr tx_Inr Let_def split: if_splits option.splits)
  with fresh p that show ?thesis by blast
qed

lemma consumed_quote_refused:
  assumes "quote_row s (cfq_QuoteID inp) = Some row" and "qt_State row = ''consumed''"
    and "CreateOrderFromQuote sv inp s = (Inr r, t)"
  shows "cfr_Replay r \<and> t = s"
  using assms(3)
proof (cases rule: from_quote_cases)
  case (fresh row')
  have "ToLower (TrimSpace ''consumed'') \<noteq> ''active''" by code_simp
  with fresh assms(1,2) show ?thesis by (auto elim!: active_quote_run)
qed simp

lemma mark_consumes:
  assumes "q_MarkCheckoutQuoteConsumed i w = (Inr q, t)" and "distinct (map qt_ID (db_quotes w))" and "quote_row w i = Some row"
  shows "qt_State row = ''active''" "quote_row t i = Some (row\<lparr>qt_State := ''consumed''\<rparr>)"
    "db_orders t = db_orders w" "db_vends t = db_vends w"
proof -
  from assms(1) obtain q where f: "find (\<lambda>r. qt_ID r = i \<and> qt_State r = ''active'') (db_quotes w) = Some q"
    and t: "t = set_quotes (upd_where (\<lambda>r. qt_ID r = i \<and> qt_State r = ''active'') (consumed_row (db_now w)) (db_quotes w)) w"
    by (auto simp: q_MarkCheckoutQuoteConsumed_def update_one_Inr)
  from find_SomeD [OF f] find_SomeD [OF assms(3) [unfolded quote_row_def]] assms(2) have q: "q = row" "qt_State row = ''active''" "qt_ID row = i"
    by (auto simp: distinct_map dest: inj_onD)
  then show "qt_State row = ''active''" by simp
  show "db_orders t = db_orders w" "db_vends t = db_vends w" by (simp_all add: t set_quotes_def)
  show "quote_row t i = Some (row\<lparr>qt_State := ''consumed''\<rparr>)"
    unfolding t set_quotes_def quote_row_def using assms(3) q
    by (simp add: quote_row_def) (subst find_upd_where, auto simp: consumed_row_def)
qed

text \<open>
  C32: A quote becomes at most one order. When a request for a quote creates an order, the quote was active, not
  expired and of that machine; the order has the quoted total and one pending vend line for every unit of the
  quote, numbered from one; and from then on every request for the quote, with whatever key, is refused or
  answered with an existing order without changing anything.
\<close>

theorem quote_becomes_one_order:
  assumes "CreateOrderFromQuote sv inp s = (Inr r, t)" and "\<not> cfr_Replay r" and "distinct (map qt_ID (db_quotes s))"
  shows "\<exists>quote ord vs. quote_row s (cfq_QuoteID inp) = Some quote \<and> qt_State quote = ''active''
    \<and> db_now s \<le> qt_ExpiresAt quote \<and> qt_MachineID quote = cfq_MachineID inp
    \<and> db_orders t = db_orders s @ [ord] \<and> o_ID ord = cfr_OrderID r \<and> o_MachineID ord = cfq_MachineID inp
    \<and> o_Status ord = ''created'' \<and> o_TotalMinor ord = qt_PayableMinor quote
    \<and> db_vends t = db_vends s @ vs \<and> map vr_LineSequence vs = map (\<lambda>i. 1 + int i) [0..<length vs]
    \<and> map v_ProductID vs = map ql_ProductID (quote_units (quote_lines s (cfq_QuoteID inp)))
    \<and> (\<forall>v \<in> set vs. v_OrderID v = o_ID ord \<and> v_State v = ''pending'' \<and> v_MachineID v = cfq_MachineID inp)
    \<and> (\<forall>sv' inp' r' t'. cfq_QuoteID inp' = cfq_QuoteID inp \<longrightarrow> CreateOrderFromQuote sv' inp' t = (Inr r', t')
         \<longrightarrow> cfr_Replay r' \<and> t' = t)"
proof -
  let ?i = "cfq_QuoteID inp"
  obtain row p where row: "quote_row s ?i = Some row" "qt_MachineID row = cfq_MachineID inp" and
    ins: "insert_quote_order (quote_order_request inp (mapPersistQuote row (quote_lines s (qt_ID row)) False)) s = (Inr p, t)"
    and r: "r = mapPersistOrderFromQuote p"
    by (rule from_quote_inv [OF assms(1,2)])
  let ?inp = "quote_order_request inp (mapPersistQuote row (quote_lines s (qt_ID row)) False)"
  have i: "qt_ID row = ?i" using find_SomeD [OF row(1) [unfolded quote_row_def]] by simp
  from ins i obtain locked source ord u views w q where
    live: "quote_row s ?i = Some locked" "db_now s \<le> qt_ExpiresAt locked" and
    ord: "q_InsertOrder (optional_uuid (poq_ClientOrderID ?inp)) (poq_CreatedAt ?inp) (quote_order ?inp locked source) s = (Inr ord, u)" and
    units: "insert_units ?inp (o_ID ord) (quote_units (quote_lines u ?i)) 0 u = (Inr views, w)" and
    mark: "q_MarkCheckoutQuoteConsumed ?i w = (Inr q, t)" and
    p: "p = \<lparr>pox_Order = ord, pox_Lines = views, pox_Replay = False\<rparr>"
    by (auto simp: insert_quote_order_def locked_quote_def q_GetCheckoutQuoteByID_def
        quote_order_request_def quote_row_def bnd_Inr lift_res_run_Inr select_one_Inr Let_def split: if_splits)
  have same: "db_quotes u = db_quotes s" "quote_lines u ?i = quote_lines s ?i"
    using keeps_run [OF insert_order_quotes(1) ord] keeps_run [OF insert_order_quotes(2) ord] by (simp_all add: quote_lines_def)
  from insert_units_run [OF units] same obtain vs where vs: "db_vends w = db_vends u @ vs" "db_orders w = db_orders u"
    "db_quotes w = db_quotes s" "map vr_LineSequence vs = map (\<lambda>i. 0 + 1 + int i) [0..<length (quote_units (quote_lines s ?i))]"
    "map v_ProductID vs = map ql_ProductID (quote_units (quote_lines s ?i))"
    "\<forall>v \<in> set vs. v_OrderID v = o_ID ord \<and> v_State v = ''pending'' \<and> v_MachineID v = pqr_MachineID (poq_Quote ?inp)" by auto
  have len: "length vs = length (quote_units (quote_lines s ?i))" using vs(5) by (metis length_map)
  have "locked = row" using live(1) row(1) by simp
  note gone = mark_consumes [OF mark, of row] 
  have w: "distinct (map qt_ID (db_quotes w))" "quote_row w ?i = Some row" using assms(3) row(1) vs(3) by (simp_all add: quote_row_def)
  have refused: "cfr_Replay r' \<and> t' = t" if "cfq_QuoteID inp' = ?i" "CreateOrderFromQuote sv' inp' t = (Inr r', t')" for sv' inp' r' t'
    by (rule consumed_quote_refused [OF gone(2) [OF w, folded that(1)] _ that(2)]) simp
  have tabs: "db_orders t = db_orders s @ [ord]" "db_vends t = db_vends s @ vs"
    using insert_order_run [OF ord] vs(1,2) gone(3,4) [OF w] by simp_all
  have ord': "o_MachineID ord = cfq_MachineID inp" "o_Status ord = ''created''" "o_TotalMinor ord = qt_PayableMinor row"
    using insert_order_row [OF ord] row(2) by (auto simp: quote_order_def quote_order_request_def Let_def)
  have "o_ID ord = cfr_OrderID r" using r p by simp
  then show ?thesis
    using row live(2) tabs ord' vs len gone(1) [OF w] \<open>locked = row\<close> refused
    by (intro exI [of _ row] exI [of _ ord] exI [of _ vs]) (auto simp: quote_order_request_def)
qed

end
