(* ===== verification/Checkout_Orders.thy ===== *)
theory Checkout_Orders
  imports Checkout_Safety
begin

text \<open>
  Orders of one line and reported sales: what an order costs, that checkout only appends orders, and that a
  reported sale ends as a paid order.
\<close>

section \<open>Checkout only appends orders\<close>

definition orders_extend :: "db \<Rightarrow> db \<Rightarrow> bool" where
  "orders_extend s t \<longleftrightarrow> (\<exists>new. db_orders t = db_orders s @ new)
     \<and> (distinct (map o_ID (db_orders s)) \<longrightarrow> distinct (map o_ID (db_orders t)))"

interpretation extend: evolution orders_extend
proof
  show "orders_extend s s" for s by (simp add: orders_extend_def)
  show "orders_extend s u" if "orders_extend s t" "orders_extend t u" for s t u
    using that by (fastforce simp: orders_extend_def)
qed

named_theorems extend_intros \<open>operations that only append orders\<close>

lemma extend_keeps: "keeps db_orders m \<Longrightarrow> moves orders_extend m"
  by (auto simp: moves_def orders_extend_def dest: spec)

lemmas [extend_intros] = extend.moves_rules

lemma extend_insert_order [extend_intros]: "moves orders_extend (q_InsertOrder i created row)"
  unfolding moves_def
proof
  fix s
  obtain r t where run: "q_InsertOrder i created row s = (r, t)" by force
  show "orders_extend s (snd (q_InsertOrder i created row s))"
  proof (cases r)
    case (Inr x)
    from insert_order_run [OF run [unfolded Inr]] have "db_orders t = db_orders s @ [x]" "\<forall>y \<in> set (db_orders s). o_ID y \<noteq> o_ID x"
      by (auto simp: list_ex_iff order_clash_def)
    then show ?thesis using run by (auto simp: orders_extend_def)
  next
    case (Inl e)
    from run [unfolded Inl] have "db_orders t = db_orders s"
      unfolding q_InsertOrder_def by (auto simp: bnd_run gen_uuid_def Let_def split: if_splits option.splits)
    then show ?thesis using run by (simp add: orders_extend_def)
  qed
qed

section \<open>What pricing and quotes leave alone\<close>

text \<open>Projections that do not look at the catalog, the generated identifiers, or the quotes.\<close>

definition price_blind :: "(db \<Rightarrow> 'b) \<Rightarrow> bool" where
  "price_blind f \<longleftrightarrow> (\<forall>s x. f (s\<lparr>db_catalog := x\<rparr>) = f s) \<and> (\<forall>s x. f (s\<lparr>db_uuid_next := x\<rparr>) = f s)"

definition quote_blind :: "(db \<Rightarrow> 'b) \<Rightarrow> bool" where
  "quote_blind f \<longleftrightarrow> price_blind f \<and> (\<forall>s x. f (s\<lparr>db_quotes := x\<rparr>) = f s) \<and> (\<forall>s x. f (s\<lparr>db_quote_lines := x\<rparr>) = f s)"

lemma price_blind_tables: "price_blind db_orders" "price_blind db_quotes" "price_blind db_quote_lines" "price_blind db_now"
  by (simp_all add: price_blind_def)

lemma quote_blind_orders: "quote_blind db_orders"
  by (simp add: quote_blind_def price_blind_tables)

lemma blind_statements [keeps_intros]:
  assumes "price_blind f"
  shows "keeps f (set_catalog g)" "keeps f gen_uuid" "keeps f (q_ListCurrentSlotConfigs m)"
  using assms unfolding set_catalog_def q_ListCurrentSlotConfigs_def price_blind_def
  by (auto intro!: keeps_intros)

lemma blind_upsert [keeps_intros]: "price_blind f \<Longrightarrow> keeps f (upsert_items a pids i)"
proof (induction pids arbitrary: i)
  case (Cons p pids)
  show ?case unfolding upsert_items.simps q_FleetAdminUpsertAssortmentItem_def Let_def
    by (intro keeps_intros Cons)
qed (simp only: upsert_items.simps kept.moves_ret)

lemma blind_case_list [keeps_intros]:
  "keeps f m \<Longrightarrow> (\<And>x xs. keeps f (g x xs)) \<Longrightarrow> keeps f (case l of [] \<Rightarrow> m | x # xs \<Rightarrow> g x xs)"
  by (cases l) simp_all

lemma blind_published [keeps_intros]: "price_blind f \<Longrightarrow> keeps f (published_or_repaired m p)"
  unfolding published_or_repaired_def repairPublishedAssortmentFromSlotConfigs_def SyncAssortmentFromCurrentSlotConfigs_def
    syncAssortmentFromCurrentSlotConfigsInTx_def q_CommerceIsProductInMachinePublishedAssortment_def
    q_FleetAdminListAssortmentProductsByMachine_def q_FleetAdminInsertAssortment_def
    q_FleetAdminBindMachinePrimaryAssortment_def Let_def
  by (intro keeps_intros; assumption)

lemma blind_slot_index [keeps_intros]: "keeps f (slot_index_of msg row)"
  unfolding slot_index_of_def by (intro keeps_intros)

lemma blind_evaluate [keeps_intros]: "price_blind f \<Longrightarrow> keeps f (EvaluateSaleLine sha inp a q)"
  unfolding EvaluateSaleLine_def load_batch_def price_slot_def
  by (intro keeps_intros; assumption)

lemma blind_evaluate_each [keeps_intros]: "price_blind f \<Longrightarrow> keeps f (evaluate_each sha rows b m reqs)"
proof (induction reqs)
  case (Cons r reqs)
  obtain inp q where r: "r = (inp, q)" by force
  show ?case unfolding r evaluate_each.simps price_slot_def Let_def by (intro keeps_intros Cons)
qed (simp only: evaluate_each.simps kept.moves_ret)

lemma blind_resolve [keeps_intros]:
  assumes "price_blind f"
  shows "keeps f (resolved_of p)" "keeps f (resolve_all ps)" "keeps f (ResolveSaleLine sha inp)"
    "keeps f (ResolveSaleLineWithQuantity sha inp q)" "keeps f (LookupSlotDisplay sha m pr i)"
proof -
  show r: "keeps f (resolved_of p)" for p unfolding resolved_of_def by (intro keeps_intros)
  show "keeps f (resolve_all ps)"
  proof (induction ps)
    case (Cons p ps)
    show ?case unfolding resolve_all.simps by (intro keeps_intros r Cons)
  qed (simp only: resolve_all.simps kept.moves_ret)
  show s: "keeps f (ResolveSaleLine sha inp)" for inp unfolding ResolveSaleLine_def by (intro keeps_intros assms r)
  show "keeps f (ResolveSaleLineWithQuantity sha inp q)"
    unfolding ResolveSaleLineWithQuantity_def EvaluateSaleLineAt_def by (intro keeps_intros assms r)
  show "keeps f (LookupSlotDisplay sha m pr i)" unfolding LookupSlotDisplay_def by (rule s)
qed

lemma blind_checkout_line [keeps_intros]:
  assumes "price_blind f"
  shows "keeps f (resolveCheckoutSaleLine sha inp snap q)" "keeps f (snapshot_topology rows sn m ls i)"
proof -
  show "keeps f (snapshot_topology rows sn m ls i)"
  proof (induction ls arbitrary: i)
    case (Cons l ls)
    obtain inp q where l: "l = (inp, q)" by force
    show ?case unfolding l snapshot_topology.simps Let_def by (intro keeps_intros Cons)
  qed (simp only: snapshot_topology.simps kept.moves_ret)
  show "keeps f (resolveCheckoutSaleLine sha inp snap q)"
    unfolding resolveCheckoutSaleLine_def resolveSaleLineFromPricingSnapshot_def LookupCurrentSlotConfigByCode_def Let_def
    by (intro keeps_intros assms)
qed

lemma blind_quote_lines [keeps_intros]:
  assumes "price_blind f"
  shows "keeps f (lines_one_by_one sha sv snap ls)" "keeps f (resolveCreateQuoteSaleLines sha sv inp)"
proof -
  show one: "keeps f (lines_one_by_one sha sv snap ls)" for snap ls
  proof (induction ls)
    case (Cons l ls)
    obtain sel q where l: "l = (sel, q)" by force
    show ?case unfolding l lines_one_by_one.simps configured_def by (intro keeps_intros Cons assms)
  qed (simp only: lines_one_by_one.simps kept.moves_ret)
  show "keeps f (resolveCreateQuoteSaleLines sha sv inp)"
    unfolding resolveCreateQuoteSaleLines_def lines_of_snapshot_def lines_of_batch_def resolveQuoteLinesFromMachineSnapshot_def
      ResolveQuoteLinesFromMachineSnapshot_def ResolveQuoteSaleLines_def EvaluateSaleLines_def load_batch_def
      prefetch_products_def configured_def Let_def
    by (intro keeps_intros kept.moves_case_prod assms one)
qed

lemma blind_insert_lines [keeps_intros]: "quote_blind f \<Longrightarrow> keeps f (insert_quote_lines i ls)"
proof (induction ls)
  case (Cons l ls)
  have w: "keeps f (writes (\<lambda>s. s\<lparr>db_quote_lines := g s\<rparr>))" for g using Cons.prems by (simp add: quote_blind_def moves_def)
  have p: "price_blind f" using Cons.prems by (simp add: quote_blind_def)
  show ?case unfolding insert_quote_lines.simps q_InsertCheckoutQuoteLine_def Let_def by (intro keeps_intros w p Cons)
qed (simp only: insert_quote_lines.simps kept.moves_ret)

lemma blind_create_quote: "quote_blind f \<Longrightarrow> keeps f (CreateQuote sha rfc sv inp)"
proof -
  assume f: "quote_blind f"
  then have w: "keeps f (writes (\<lambda>s. s\<lparr>db_quotes := g s\<rparr>))" and p: "price_blind f" for g
    by (simp_all add: quote_blind_def moves_def)
  show ?thesis
    unfolding CreateQuote_def quoteStore_def configured_def TryReplayQuoteByIdempotency_def quote_of_key_def maybe_row_def
      q_GetCheckoutQuoteByMachineAndIdempotencyKey_def q_ListCheckoutQuoteLines_def quote_to_persist_def mirror_or_empty_def
      GetLocalLayoutMirror_def q_GetMachineLocalLayoutMirror_def CreateQuoteWithLines_def insert_quote_def q_InsertCheckoutQuote_def
      Let_def
    by (intro keeps_intros f p w)
qed

lemma orders_insert_vend [keeps_intros]: "keeps db_orders (q_InsertVendSession row)"
  unfolding q_InsertVendSession_def Let_def by (intro keeps_intros; simp)

lemma orders_insert_units: "keeps db_orders (insert_units inp oid ls n)"
proof (induction ls arbitrary: n)
  case (Cons l ls)
  show ?case unfolding insert_units.simps q_InsertVendSessionWithLineSequence_def by (intro keeps_intros Cons)
qed (simp only: insert_units.simps kept.moves_ret)

lemma orders_reads [keeps_intros]:
  "keeps f (q_GetFirstVendSessionByOrder oid)" "keeps f (q_ListVendSessionsByOrder oid)"
  "keeps f (q_GetOrderByMachineAndIdempotencyKey m k)" "keeps f (q_GetVendSessionByOrderAndSlot oid i)"
  unfolding q_GetFirstVendSessionByOrder_def q_ListVendSessionsByOrder_def q_GetOrderByMachineAndIdempotencyKey_def
    q_GetVendSessionByOrderAndSlot_def
  by (auto simp: moves_def select_one_def split: list.splits option.splits)

lemma orders_replays [keeps_intros]:
  "keeps f (TryReplayCreateOrderWithVend m k)" "keeps f (TryReplayOrderFromQuote m k)" "keeps f (GetQuoteWithLines i)"
  unfolding TryReplayCreateOrderWithVend_def TryReplayOrderFromQuote_def TryReplayCreateOrderWithVend_def maybe_row_def
    GetQuoteWithLines_def q_GetCheckoutQuoteByID_def q_ListCheckoutQuoteLines_def Let_def
  by (intro keeps_intros)+

lemma extend_from_quote [extend_intros]: "moves orders_extend (CreateOrderFromQuote sv inp)"
  unfolding CreateOrderFromQuote_def quoteStore_def configured_def order_active_quote_def
    CreateOrderFromQuoteWithVendSessions_def insert_quote_order_def locked_quote_def q_GetCheckoutQuoteByID_def
    q_MarkCheckoutQuoteConsumed_def q_ListCheckoutQuoteLines_def maybe_row_def Let_def
  by (intro extend_intros extend_keeps [OF orders_insert_units] extend_keeps [OF orders_replays(2)]
      extend_keeps [OF orders_replays(3)] extend_keeps [OF orders_reads(2)] extend_keeps [OF orders_reads(3)]
      extend_keeps [OF keeps_select_one] extend_keeps [OF keeps_update_one]) (simp add: set_quotes_def)

lemma extend_create_order_tx: "moves orders_extend (CreateOrderWithVendSession inp)"
  unfolding CreateOrderWithVendSession_def create_order_tx_def find_or_insert_order_def slot_line_or_insert_def maybe_row_def
  by (intro extend_intros extend_keeps [OF orders_reads(1)] extend_keeps [OF orders_reads(3)] extend_keeps [OF orders_reads(4)]
      extend_keeps [OF orders_insert_vend])

lemma blind_order_price: "price_blind f \<Longrightarrow> keeps f (order_price sha rfc sv inp)"
  unfolding order_price_def configured_def by (intro keeps_intros)

lemma extend_create_order [extend_intros]: "moves orders_extend (CreateOrder sha rfc sv inp)"
  unfolding CreateOrder_def replayed_order_def Let_def
  by (intro extend_intros extend_keeps [OF orders_replays(1)] extend_keeps [OF blind_order_price] extend_create_order_tx
      extend_keeps [OF blind_resolve(5)] price_blind_tables)

lemma extend_case_list [extend_intros]:
  "moves orders_extend m \<Longrightarrow> (\<And>x xs. moves orders_extend (g x xs)) \<Longrightarrow> moves orders_extend (case l of [] \<Rightarrow> m | x # xs \<Rightarrow> g x xs)"
  by (cases l) simp_all

lemma blind_offline_lines:
  assumes "price_blind f"
  shows "keeps f (offline_identity sha parse sv m ps l q)" "keeps f (offline_quote_lines sha parse sv m ps ls)"
proof -
  show i: "keeps f (offline_identity sha parse sv m ps l q)" for l q
    unfolding offline_identity_def configured_def by (intro keeps_intros kept.moves_case_prod assms)
  show "keeps f (offline_quote_lines sha parse sv m ps ls)"
  proof (induction ls)
    case (Cons l ls)
    show ?case unfolding offline_quote_lines.simps Let_def by (intro keeps_intros kept.moves_case_prod i Cons)
  qed (simp only: offline_quote_lines.simps kept.moves_ret)
qed

lemma extend_offline_order:
  "moves orders_extend (createOfflineOrderFromSnapshot sha rfc parse sv m snap ps cur pm key cid created)"
  unfolding createOfflineOrderFromSnapshot_def Let_def
  by (intro extend_intros extend_keeps [OF blind_offline_lines(1)] extend_keeps [OF blind_offline_lines(2)]
      extend_keeps [OF blind_create_quote] quote_blind_orders price_blind_tables)

section \<open>What an order costs\<close>

lemma find_or_insert_new:
  assumes "find_or_insert_order inp s = (Inr (ord, inserted), t)"
    and "order_of_key (co_MachineID inp) (pgTextOrEmpty (co_IdempotencyKey inp)) s = None"
  obtains src where "inserted"
    "resolvePricingSourceForOrderPersist (co_PricingSource inp)
       (hasMachinePricingEvidence (co_MachinePricingRevision inp) (co_MachinePricingSnapshot inp)) = Inr src"
    "q_InsertOrder (optional_uuid (co_OrderID inp)) (co_CreatedAt inp) (new_order inp src) s = (Inr ord, t)"
proof -
  from assms obtain src where src: "resolvePricingSourceForOrderPersist (co_PricingSource inp)
       (hasMachinePricingEvidence (co_MachinePricingRevision inp) (co_MachinePricingSnapshot inp)) = Inr src"
    and run: "bnd (attempt (tx (q_InsertOrder (optional_uuid (co_OrderID inp)) (co_CreatedAt inp) (new_order inp src))))
      (\<lambda>r. case r of Inr ord \<Rightarrow> ret (ord, True)
         | Inl e \<Rightarrow> if \<not> errors_Is e ErrUniqueViolation then raise e
             else bnd (maybe_row (q_GetOrderByMachineAndIdempotencyKey (co_MachineID inp) (pgTextOrEmpty (co_IdempotencyKey inp))))
               (\<lambda>again. case again of Some ord \<Rightarrow> ret (ord, False)
                  | None \<Rightarrow> raise (GoErr ErrOther ''postgres: duplicate order idempotency key race''))) s
      = (Inr (ord, inserted), t)"
    by (auto simp: find_or_insert_order_def bnd_Inr lift_res_run_Inr simp del: attempt_run)
  obtain y u where y: "tx (q_InsertOrder (optional_uuid (co_OrderID inp)) (co_CreatedAt inp) (new_order inp src)) s = (y, u)"
    by force
  show ?thesis
  proof (cases y)
    case (Inl e)
    with y have "u = s" by (simp add: tx_Inl)
    with run y Inl assms(2) show ?thesis by (simp split: if_splits)
  next
    case (Inr x)
    with run y src show ?thesis by (intro that) (simp_all add: tx_Inr)
  qed
qed

lemma new_order_stored:
  assumes "CreateOrderWithVendSession inp s = (Inr r, t)" and "\<not> cor_Replay r"
    and "order_of_key (co_MachineID inp) (pgTextOrEmpty (co_IdempotencyKey inp)) s = None"
  shows "db_orders t = db_orders s @ [cor_Order r] \<and> v_SlotIndex (cor_Vend r) = co_SlotIndex inp
    \<and> (\<exists>src i c now. resolvePricingSourceForOrderPersist (co_PricingSource inp)
         (hasMachinePricingEvidence (co_MachinePricingRevision inp) (co_MachinePricingSnapshot inp)) = Inr src
       \<and> cor_Order r = (new_order inp src)\<lparr>o_ID := i, o_CreatedAt := c, o_UpdatedAt := now\<rparr>)"
proof -
  from assms(1) obtain ord inserted u where f: "find_or_insert_order inp s = (Inr (ord, inserted), u)"
    and rest: "(if inserted then slot_line_or_insert inp ord
       else bnd (maybe_row (q_GetFirstVendSessionByOrder (o_ID ord))) (\<lambda>first. case first of
           Some v \<Rightarrow> ret (order_result ord v True) | None \<Rightarrow> slot_line_or_insert inp ord)) u = (Inr r, t)"
    by (auto simp: CreateOrderWithVendSession_def create_order_tx_def tx_Inr bnd_Inr split: if_splits)
  obtain src where src: "inserted" "resolvePricingSourceForOrderPersist (co_PricingSource inp)
       (hasMachinePricingEvidence (co_MachinePricingRevision inp) (co_MachinePricingSnapshot inp)) = Inr src"
    "q_InsertOrder (optional_uuid (co_OrderID inp)) (co_CreatedAt inp) (new_order inp src) s = (Inr ord, u)"
    by (rule find_or_insert_new [OF f assms(3)])
  from rest src(1) assms(2) obtain v where v: "q_InsertVendSession (new_vend inp (o_ID ord)) u = (Inr v, t)"
    and r: "r = order_result ord v False"
    by (auto simp: slot_line_or_insert_def q_GetVendSessionByOrderAndSlot_def bnd_Inr order_result_def split: option.splits)
  show ?thesis
    using insert_order_run [OF src(3)] insert_order_row [OF src(3)] insert_vend_row [OF v] src(2)
    unfolding r by (auto simp: order_result_def mapVend_def vend_session.truncate_def new_vend_def)
qed

lemma create_order_inv:
  assumes "CreateOrder sha rfc sv inp s = (Inr r, t)" and "\<not> cor_Replay (cos_Base r)"
  obtains "order_of_key (coi_MachineID inp) (pgTextOrEmpty (TrimSpace (coi_IdempotencyKey inp))) s = None"
    "coi_SubtotalMinor inp = 0" "coi_TaxMinor inp = 0" "coi_TotalMinor inp = 0"
    "bnd (order_price sha rfc sv inp) (\<lambda>priced. bnd (CreateOrderWithVendSession (order_request inp priced)) (\<lambda>base.
              ret \<lparr>cos_Base = base, cos_SaleLine = fst priced\<rparr>)) s = (Inr r, t)"
proof -
  from assms(1) have valid: "validateCreateOrder inp = Inr ()" and
    run: "bnd (TryReplayCreateOrderWithVend (coi_MachineID inp) (TrimSpace (coi_IdempotencyKey inp))) (\<lambda>replay. case replay of
          Some r \<Rightarrow> replayed_order sha sv inp r
        | None \<Rightarrow> bnd (order_price sha rfc sv inp) (\<lambda>priced. bnd (CreateOrderWithVendSession (order_request inp priced)) (\<lambda>base.
              ret \<lparr>cos_Base = base, cos_SaleLine = fst priced\<rparr>))) s = (Inr r, t)"
    by (auto simp: CreateOrder_def seq_Inr lift_res_run_Inr split: if_splits)
  from valid have v: "coi_MachineID inp \<noteq> uuid_Nil" "TrimSpace (coi_IdempotencyKey inp) \<noteq> []"
    "coi_SubtotalMinor inp = 0" "coi_TaxMinor inp = 0" "coi_TotalMinor inp = 0"
    by (auto simp: validateCreateOrder_def invalid_def Let_def split: if_splits)
  show ?thesis
  proof (cases "order_of_key (coi_MachineID inp) (pgTextOrEmpty (TrimSpace (coi_IdempotencyKey inp))) s")
    case None
    with run v show ?thesis by (intro that) (auto simp: TryReplayCreateOrderWithVend_def bnd_Inr Let_def)
  next
    case (Some ord)
    with run v assms(2) have False
      by (auto simp: TryReplayCreateOrderWithVend_def replayed_order_def order_result_def bnd_Inr seq_Inr Let_def
          split: option.splits if_splits)
    then show ?thesis ..
  qed
qed

lemma validate_server: "validatePricingSourceForPersist (TrimSpace ''server_priced'') = Inr ''server_priced''"
  "TrimSpace ''server_priced'' \<noteq> []"
  by code_simp+

text \<open>
  Without a declared snapshot an order costs what the pricing engine says. When a request creates an order,
  its amounts are those of the engine's evaluation of one unit at that moment, its source is the server, and the
  order stands at the end of the table, unpaid and open; amounts in the request are refused.
\<close>

theorem order_costs_engine_price:
  assumes "CreateOrder sha rfc sv inp s = (Inr r, t)" and "coi_PricingSnapshot inp = None" and "\<not> cor_Replay (cos_Base r)"
  shows "\<exists>res row u ord. EvaluateSaleLine sha (order_selector inp) (db_now s) 1 s = (Inr (res, row), u)
    \<and> db_orders t = db_orders s @ [ord] \<and> ord = cor_Order (cos_Base r) \<and> o_MachineID ord = coi_MachineID inp
    \<and> o_TotalMinor ord = lp_TotalMinor res \<and> o_SubtotalMinor ord = lp_SubtotalMinor res \<and> o_TaxMinor ord = lp_TaxMinor res
    \<and> o_PricingSource ord = ''server_priced'' \<and> o_Status ord = ''created'' \<and> o_WinningPaymentID ord = None
    \<and> Some (v_SlotIndex (cor_Vend (cos_Base r))) = sc_SlotIndex row
    \<and> coi_SubtotalMinor inp = 0 \<and> coi_TaxMinor inp = 0 \<and> coi_TotalMinor inp = 0"
proof -
  from assms(1,3) obtain u where none: "order_of_key (coi_MachineID inp) (pgTextOrEmpty (TrimSpace (coi_IdempotencyKey inp))) s = None"
    and amounts: "coi_SubtotalMinor inp = 0" "coi_TaxMinor inp = 0" "coi_TotalMinor inp = 0"
    and rest: "bnd (order_price sha rfc sv inp) (\<lambda>priced. bnd (CreateOrderWithVendSession (order_request inp priced)) (\<lambda>base.
              ret \<lparr>cos_Base = base, cos_SaleLine = fst priced\<rparr>)) s = (Inr r, t)"
    by (rule create_order_inv)
  from rest assms(2) obtain line u where line: "ResolveSaleLine sha (order_selector inp) s = (Inr line, u)"
    and new: "CreateOrderWithVendSession (order_request inp (line, ''server_priced'', None, NoBytes)) u = (Inr (cos_Base r), t)"
    by (auto simp: order_price_def bnd_Inr split: if_splits)
  let ?req = "order_request inp (line, ''server_priced'', None, NoBytes)"
  from line obtain res row where ev: "EvaluateSaleLine sha (order_selector inp) (db_now s) 1 s = (Inr (res, row), u)"
    and l: "rl_TotalMinor line = lp_TotalMinor res" "rl_SubtotalMinor line = lp_SubtotalMinor res" "rl_TaxMinor line = lp_TaxMinor res"
      "sc_SlotIndex row = Some (rl_SlotIndex line)"
    by (auto simp: ResolveSaleLine_def resolved_of_def MapToResolvedSaleLine_def bnd_Inr slot_index_of_Inr)
  have same: "db_orders u = db_orders s" by (rule keeps_run [OF blind_evaluate [OF price_blind_tables(1)] ev])
  with none have "order_of_key (co_MachineID ?req) (pgTextOrEmpty (co_IdempotencyKey ?req)) u = None"
    by (simp add: order_request_def order_of_key_def)
  from new_order_stored [OF new assms(3) this] same l ev amounts show ?thesis
    by (auto simp: order_request_def new_order_def resolvePricingSourceForOrderPersist_def validate_server)
qed

section \<open>Reported sales\<close>


end
