(* ===== verification/Checkout_Quotes.thy ===== *)
theory Checkout_Quotes
  imports Checkout_Orders
begin

text \<open>
  What a quote records: the cart with its prices, under one key once. The prices are the engine's, or those of
  an accepted snapshot with the engine's total kept for reference.
\<close>

section \<open>Runs of the statements\<close>

definition stored_quote :: "uuid \<Rightarrow> string \<Rightarrow> db \<Rightarrow> checkout_quote option" where
  "stored_quote m key s =
     find (\<lambda>r. qt_MachineID r = m \<and> optional_text key \<noteq> None \<and> qt_IdempotencyKey r = optional_text key) (db_quotes s)"

lemma quote_of_key_run [simp]:
  "quote_of_key m key s = (Inr (case stored_quote m key s of None \<Rightarrow> None
     | Some row \<Rightarrow> Some (mapPersistQuote row (quote_lines s (qt_ID row)) True)), s)"
  by (simp add: quote_of_key_def q_GetCheckoutQuoteByMachineAndIdempotencyKey_def stored_quote_def split: option.splits)

lemma insert_quote_run:
  assumes "q_InsertCheckoutQuote row s = (Inr r, t)"
  shows "(\<exists>i now. r = row\<lparr>qt_ID := i, qt_CreatedAt := now\<rparr>) \<and> db_quotes t = db_quotes s @ [r] \<and> db_quote_lines t = db_quote_lines s"
  using assms unfolding q_InsertCheckoutQuote_def
  by (auto simp: bnd_Inr seq_Inr gen_uuid_def Let_def split: if_splits)

lemma insert_lines_run:
  assumes "insert_quote_lines i ls s = (Inr rows, t)"
  shows "db_quotes t = db_quotes s \<and> db_quote_lines t = db_quote_lines s @ rows
    \<and> map (\<lambda>r. r\<lparr>ql_ID := uuid_Nil\<rparr>) rows = map (new_quote_line i) ls"
  using assms
proof (induction ls arbitrary: s rows)
  case Nil
  then show ?case by simp
next
  case (Cons l ls)
  from Cons.prems obtain row u rest where row: "q_InsertCheckoutQuoteLine (new_quote_line i l) s = (Inr row, u)"
    and rest: "insert_quote_lines i ls u = (Inr rest, t)" and rows: "rows = row # rest" by (auto simp: bnd_Inr)
  have "row\<lparr>ql_ID := uuid_Nil\<rparr> = new_quote_line i l \<and> db_quotes u = db_quotes s \<and> db_quote_lines u = db_quote_lines s @ [row]"
    using row unfolding q_InsertCheckoutQuoteLine_def
    by (auto simp: bnd_Inr seq_Inr gen_uuid_def new_quote_line_def Let_def split: if_splits)
  with Cons.IH [OF rest] rows show ?case by simp
qed

lemma insert_quote_all:
  assumes "insert_quote inp s = (Inr p, t)"
  shows "\<exists>q rows. db_quotes t = db_quotes s @ [q] \<and> db_quote_lines t = db_quote_lines s @ rows \<and> p = mapPersistQuote q rows False
    \<and> (\<exists>source i now. validatePricingSourceForPersist (if TrimSpace (pqi_PricingSource inp) = [] then ''server_priced''
          else TrimSpace (pqi_PricingSource inp)) = Inr source \<and> q = (new_quote inp source)\<lparr>qt_ID := i, qt_CreatedAt := now\<rparr>)
    \<and> map (\<lambda>r. r\<lparr>ql_ID := uuid_Nil\<rparr>) rows = map (new_quote_line (qt_ID q)) (pqi_Lines inp)"
proof -
  from assms obtain source q u rows where src: "validatePricingSourceForPersist (if TrimSpace (pqi_PricingSource inp) = []
      then ''server_priced'' else TrimSpace (pqi_PricingSource inp)) = Inr source"
    and q: "q_InsertCheckoutQuote (new_quote inp source) s = (Inr q, u)"
    and rows: "insert_quote_lines (qt_ID q) (pqi_Lines inp) u = (Inr rows, t)" and p: "p = mapPersistQuote q rows False"
    by (auto simp: insert_quote_def bnd_Inr lift_res_run_Inr Let_def)
  from insert_quote_run [OF q] insert_lines_run [OF rows] src p show ?thesis by auto
qed

section \<open>The service's run\<close>

lemma persist_read_only: "quote_to_persist rfc sv inp e rs s = (Inr pq, t) \<Longrightarrow> t = s"
  unfolding quote_to_persist_def mirror_or_empty_def GetLocalLayoutMirror_def q_GetMachineLocalLayoutMirror_def
  by (auto simp: bnd_Inr seq_Inr lift_res_run_Inr Let_def split: option.splits if_splits sum.splits)

lemma create_quote_cases:
  assumes "CreateQuote sha rfc sv inp s = (Inr r, t)"
  obtains (replay) row where "stored_quote (cqi_MachineID inp) (TrimSpace (cqi_IdempotencyKey inp)) s = Some row" "t = s"
      "r = mapPersistQuoteResult (mapPersistQuote row (quote_lines s (qt_ID row)) True)"
  | (fresh) rs u pq p where "TrimSpace (cqi_IdempotencyKey inp) = [] \<or> stored_quote (cqi_MachineID inp) (TrimSpace (cqi_IdempotencyKey inp)) s = None"
      "resolveCreateQuoteSaleLines sha sv inp s = (Inr rs, u)"
      "quote_to_persist rfc sv inp (db_now s + (if cqi_QuoteTTL inp \<le> 0 then defaultQuoteTTL else cqi_QuoteTTL inp)) rs u = (Inr pq, u)"
      "CreateQuoteWithLines pq u = (Inr p, t)" "r = (mapPersistQuoteResult p)\<lparr>cqr_Lines := quote_views rs (pqi_Lines pq)\<rparr>"
proof -
  from assms have valid: "validateCreateQuote inp = Inr ()" and
    run: "bnd (TryReplayQuoteByIdempotency (cqi_MachineID inp) (TrimSpace (cqi_IdempotencyKey inp))) (\<lambda>replay. case replay of
           Some p \<Rightarrow> ret (mapPersistQuoteResult p)
         | None \<Rightarrow> bnd (reads db_now) (\<lambda>now. bnd (resolveCreateQuoteSaleLines sha sv inp) (\<lambda>rs.
                bnd (quote_to_persist rfc sv inp (now + (if cqi_QuoteTTL inp \<le> 0 then defaultQuoteTTL else cqi_QuoteTTL inp)) rs) (\<lambda>pq.
                bnd (CreateQuoteWithLines pq) (\<lambda>persisted.
                  ret ((mapPersistQuoteResult persisted)\<lparr>cqr_Lines := quote_views rs (pqi_Lines pq)\<rparr>)))))) s = (Inr r, t)"
    by (auto simp: CreateQuote_def quoteStore_def configured_def seq_Inr lift_res_run_Inr Let_def split: if_splits)
  from valid have m: "cqi_MachineID inp \<noteq> uuid_Nil" by (auto simp: validateCreateQuote_def split: if_splits)
  show ?thesis
  proof (cases "TrimSpace (cqi_IdempotencyKey inp) = [] \<or> stored_quote (cqi_MachineID inp) (TrimSpace (cqi_IdempotencyKey inp)) s = None")
    case True
    with run m have "bnd (resolveCreateQuoteSaleLines sha sv inp) (\<lambda>rs.
        bnd (quote_to_persist rfc sv inp (db_now s + (if cqi_QuoteTTL inp \<le> 0 then defaultQuoteTTL else cqi_QuoteTTL inp)) rs) (\<lambda>pq.
        bnd (CreateQuoteWithLines pq) (\<lambda>persisted.
          ret ((mapPersistQuoteResult persisted)\<lparr>cqr_Lines := quote_views rs (pqi_Lines pq)\<rparr>)))) s = (Inr r, t)"
      by (auto simp: TryReplayQuoteByIdempotency_def Let_def)
    then obtain rs u pq w p where a: "resolveCreateQuoteSaleLines sha sv inp s = (Inr rs, u)"
      and b: "quote_to_persist rfc sv inp (db_now s + (if cqi_QuoteTTL inp \<le> 0 then defaultQuoteTTL else cqi_QuoteTTL inp)) rs u = (Inr pq, w)"
      and c: "CreateQuoteWithLines pq w = (Inr p, t)" and r: "r = (mapPersistQuoteResult p)\<lparr>cqr_Lines := quote_views rs (pqi_Lines pq)\<rparr>"
      by (auto simp: bnd_Inr)
    have w: "w = u" by (rule persist_read_only [OF b])
    show ?thesis by (rule fresh [OF True a b [unfolded w] c [unfolded w] r])
  next
    case False
    then obtain row where row: "stored_quote (cqi_MachineID inp) (TrimSpace (cqi_IdempotencyKey inp)) s = Some row" by auto
    with False run m have "t = s" "r = mapPersistQuoteResult (mapPersistQuote row (quote_lines s (qt_ID row)) True)"
      by (auto simp: TryReplayQuoteByIdempotency_def Let_def)
    then show ?thesis by (rule replay [OF row])
  qed
qed

lemma quotes_resolved:
  "resolveCreateQuoteSaleLines sha sv inp s = (Inr rs, u) \<Longrightarrow> db_quotes u = db_quotes s \<and> db_quote_lines u = db_quote_lines s"
  using keeps_run [OF blind_quote_lines(2) [OF price_blind_tables(2)]] keeps_run [OF blind_quote_lines(2) [OF price_blind_tables(3)]]
  by blast

lemma persist_keeps:
  assumes "quote_to_persist rfc sv inp e rs s = (Inr pq, t)"
  shows "pqi_MachineID pq = cqi_MachineID inp" "pqi_IdempotencyKey pq = TrimSpace (cqi_IdempotencyKey inp)" "pqi_ExpiresAt pq = e"
    "pqi_ServerReferencePayableMinor pq = Some (quote_subtotal rs)"
  using assms unfolding quote_to_persist_def mirror_or_empty_def
  by (auto simp: bnd_Inr seq_Inr lift_res_run_Inr Let_def split: option.splits if_splits sum.splits)

lemma fresh_quote_inserted:
  assumes "TrimSpace (cqi_IdempotencyKey inp) = [] \<or> stored_quote (cqi_MachineID inp) (TrimSpace (cqi_IdempotencyKey inp)) s = None"
    and "resolveCreateQuoteSaleLines sha sv inp s = (Inr rs, u)" and "quote_to_persist rfc sv inp e rs u = (Inr pq, u)"
    and "CreateQuoteWithLines pq u = (Inr p, t)"
  shows "insert_quote pq u = (Inr p, t)"
  using assms quotes_resolved [OF assms(2)] persist_keeps [OF assms(3)]
  by (auto simp: CreateQuoteWithLines_def tx_Inr bnd_Inr stored_quote_def Let_def split: if_splits)

text \<open>
  A quote request is idempotent. After a request with a key was answered, every request of the same machine
  with that key, whatever cart it carries, is answered with the quote of the first one and changes nothing.
\<close>

theorem quote_idempotent:
  assumes "CreateQuote sha rfc sv inp s = (Inr r, t)" and "TrimSpace (cqi_IdempotencyKey inp) \<noteq> []"
    and "cqi_MachineID inp' = cqi_MachineID inp" "TrimSpace (cqi_IdempotencyKey inp') = TrimSpace (cqi_IdempotencyKey inp)"
    and "validateCreateQuote inp' = Inr ()"
  shows "\<exists>r'. CreateQuote sha' rfc' sv inp' t = (Inr r', t) \<and> cqr_Replay r' \<and> cqr_QuoteID r' = cqr_QuoteID r
    \<and> cqr_PayableMinor r' = cqr_PayableMinor r"
proof -
  let ?m = "cqi_MachineID inp" and ?k = "TrimSpace (cqi_IdempotencyKey inp)"
  have "sv_orders sv" using assms(1) by (auto simp: CreateQuote_def quoteStore_def configured_def seq_Inr split: if_splits)
  have m: "?m \<noteq> uuid_Nil" using assms(3,5) by (auto simp: validateCreateQuote_def split: if_splits)
  have "\<exists>row. stored_quote ?m ?k t = Some row \<and> qt_ID row = cqr_QuoteID r \<and> qt_PayableMinor row = cqr_PayableMinor r"
    using assms(1)
  proof (cases rule: create_quote_cases)
    case (replay row)
    then show ?thesis by (simp add: mapPersistQuoteResult_def)
  next
    case (fresh rs u pq p)
    note ins = insert_quote_all [OF fresh_quote_inserted [OF fresh(1-4)]]
    then obtain q rows source i now where q: "db_quotes t = db_quotes u @ [q]" "p = mapPersistQuote q rows False"
      "q = (new_quote pq source)\<lparr>qt_ID := i, qt_CreatedAt := now\<rparr>" by blast
    have "qt_MachineID q = ?m" "qt_IdempotencyKey q = optional_text ?k"
      using persist_keeps [OF fresh(3)] q(3) by (simp_all add: new_quote_def)
    moreover have "optional_text ?k \<noteq> None" using assms(2) by (simp add: optional_text_def)
    moreover have "stored_quote ?m ?k u = None"
      using fresh(1) assms(2) quotes_resolved [OF fresh(2)] by (simp add: stored_quote_def)
    ultimately have "stored_quote ?m ?k t = Some q" using q(1) by (simp add: stored_quote_def find_append)
    with fresh(5) q(2) show ?thesis by (simp add: mapPersistQuoteResult_def)
  qed
  then obtain row where row: "stored_quote ?m ?k t = Some row" "qt_ID row = cqr_QuoteID r" "qt_PayableMinor row = cqr_PayableMinor r" by blast
  have "CreateQuote sha' rfc' sv inp' t = (Inr (mapPersistQuoteResult (mapPersistQuote row (quote_lines t (qt_ID row)) True)), t)"
    using row(1) assms(2-5) m \<open>sv_orders sv\<close>
    by (simp add: CreateQuote_def quoteStore_def configured_def seq_def TryReplayQuoteByIdempotency_def)
  with row show ?thesis by (auto simp: mapPersistQuoteResult_def mapPersistQuote_def)
qed

end
