(* ===== verification/Checkout_Runs.thy ===== *)
theory Checkout_Runs
  imports Checkout_Quotes
begin

text \<open>
  Concrete checkouts: the hypotheses of the checkout theorems hold on them, and two of them show limits. The
  text of an instant, the digest and the parser of identifiers are simple concrete functions here.
\<close>

section \<open>Sample requests\<close>

definition plain_rfc :: "time \<Rightarrow> string" where
  "plain_rfc t = Sprintd t"

definition plain_parse :: uuid_parser where
  "plain_parse s = (UUID s, s \<noteq> [])"

definition sample_snapshot_line :: snapshot_line where
  "sample_snapshot_line =
     \<lparr>sx_LineSequence = 1, sx_ProductID = UUID ''p1'', sx_CabinetCode = ''A'', sx_SlotCode = ''A1'', sx_SlotIndex = 3,
      sx_Quantity = 1, sx_UnitPriceMinor = 400, sx_LineSubtotalMinor = 400, sx_PricingSyncState = []\<rparr>"

definition sample_snapshot :: pricing_snapshot where
  "sample_snapshot =
     \<lparr>sp_SubtotalMinor = 400, sp_TaxMinor = 40, sp_TotalMinor = 440, sp_UnitPriceMinor = 400, sp_LocalPricingRevision = 1,
      sp_PricingFingerprint = ''fp'', sp_CapturedAt = None, sp_SnapshotID = ''s'', sp_SlotConfigVersion = 1,
      sp_ServerPricingFingerprint = [], sp_Lines = [sample_snapshot_line]\<rparr>"

definition sample_cart :: "int \<Rightarrow> pricing_snapshot option \<Rightarrow> create_quote_input" where
  "sample_cart qty snap =
     \<lparr>cqi_MachineID = UUID ''m1'', cqi_Currency = ''vnd'', cqi_PaymentMethod = ''cash'',
      cqi_Lines = [\<lparr>qli_ProductID = UUID ''p1'', qli_SlotID = None, qli_CabinetCode = ''A'', qli_SlotCode = ''A1'',
                    qli_SlotIndex = None, qli_Quantity = qty\<rparr>],
      cqi_IdempotencyKey = ''q'', cqi_QuoteTTL = 0, cqi_PricingSnapshot = snap\<rparr>"

definition quoted_db :: db where
  "quoted_db = priced_db\<lparr>
     db_quotes := [\<lparr>qt_ID = UUID ''g0'', qt_MachineID = UUID ''m1'', qt_Currency = ''VND'', qt_PaymentMethod = ''cash'',
        qt_SubtotalMinor = 800, qt_DiscountMinor = 0, qt_PayableMinor = 800, qt_State = ''active'', qt_IdempotencyKey = Some ''q'',
        qt_ExpiresAt = 3000, qt_PricingSource = ''server_priced'', qt_MachinePricingRevision = None,
        qt_MachinePricingSnapshot = NoBytes, qt_ServerReferencePayableMinor = Some 800, qt_CreatedAt = 2000\<rparr>],
     db_quote_lines := [\<lparr>ql_ID = UUID ''g1'', ql_QuoteID = UUID ''g0'', ql_LineSequence = 1, ql_ProductID = UUID ''p1'',
        ql_SlotConfigID = Some (UUID ''c1''), ql_CabinetCode = ''A'', ql_SlotCode = ''A1'', ql_SlotIndex = 3, ql_Quantity = 2,
        ql_UnitPriceMinor = 400, ql_LineSubtotalMinor = 800, ql_PricingFingerprint = [], ql_MachineUnitPriceMinor = None,
        ql_ServerReferenceUnitPriceMinor = None\<rparr>]\<rparr>"

definition sample_quote_order :: "uuid \<Rightarrow> create_order_from_quote_input" where
  "sample_quote_order q =
     \<lparr>cfq_MachineID = UUID ''m1'', cfq_QuoteID = q, cfq_PaymentMethod = ''cash'',
      cfq_IdempotencyKey = ''k2'', cfq_Simulated = False, cfq_SimulationRunID = [], cfq_SimulationScenario = [],
      cfq_FakeBill = False, cfq_FakeBoard = False, cfq_PricingSnapshot = None, cfq_ClientOrderID = uuid_Nil, cfq_CreatedAt = None\<rparr>"

definition sample_order_request :: create_order_input where
  "sample_order_request =
     \<lparr>coi_MachineID = UUID ''m1'', coi_ProductID = UUID ''p1'', coi_SlotID = None, coi_CabinetCode = ''A'', coi_SlotCode = ''A1'',
      coi_SlotIndex = None, coi_Currency = ''vnd'', coi_SubtotalMinor = 0, coi_TaxMinor = 0, coi_TotalMinor = 0,
      coi_IdempotencyKey = ''k3'', coi_Simulated = False, coi_SimulationRunID = [], coi_SimulationScenario = [],
      coi_FakeBill = False, coi_FakeBoard = False, coi_PricingSnapshot = None, coi_ClientOrderID = uuid_Nil, coi_CreatedAt = None\<rparr>"

definition sample_report :: "int \<Rightarrow> offline_payload" where
  "sample_report qty = OfflineSalePayload
     \<lparr>ow_OrderID = [], ow_MachineID = ''m1'', ow_CashReceivedMinor = 0,
      ow_PricingSnapshot = WireSnapshot
        \<lparr>as_SnapshotID = ''s'', as_MachineID = ''m1'', as_PayableTotalMinor = 400 * qty, as_Currency = ''vnd'',
         as_LocalPricingRevision = 1, as_SlotConfigVersion = 1, as_CapturedAtEpochMs = 0,
         as_Lines = [\<lparr>al_SlotCode = ''A1'', al_ProductID = ''p1'', al_UnitPriceMinor = 400, al_Quantity = qty\<rparr>]\<rparr>,
      ow_PayableTotalMinor = 0, ow_Currency = []\<rparr>"

definition sample_outbox_config :: offline_sale_outbox where
  "sample_outbox_config = \<lparr>oo_Topic = ''commerce.payments'', oo_EventType = ''payment.captured'', oo_AggregateType = ''payment''\<rparr>"

definition reported_db :: "int \<Rightarrow> db" where
  "reported_db qty = snd (ProcessOfflineSale id plain_rfc plain_parse sample_svc (UUID ''m1'') ''k'' ''ev'' (sample_report qty)
     sample_outbox_config None priced_db)"

section \<open>The theorems on sample requests\<close>

theorem snapshot_adds_up_witness: "lines_total (sp_Lines sample_snapshot) = 400"
proof -
  have "validateMachinePricingSnapshot 2000 sample_snapshot = Inr ()" "in_i64 (sp_SubtotalMinor sample_snapshot)"
    "in_i64 (sp_TaxMinor sample_snapshot)" "sp_Lines sample_snapshot \<noteq> []" "sp_TotalMinor sample_snapshot = 440" "sp_TaxMinor sample_snapshot = 40"
    by code_simp+
  from snapshot_adds_up [OF this(1-3)] this(4-6) show ?thesis by simp
qed

lemma run_where:
  assumes "case fst (m s) of Inl e \<Rightarrow> False | Inr r \<Rightarrow> P r"
  obtains r where "m s = (Inr r, snd (m s))" "P r"
  using assms by (cases "m s") (auto split: sum.splits)

text \<open>The totals of the orders and the products of the vend lines of the newest.\<close>

definition sale_summary :: "db \<Rightarrow> int list \<times> uuid list" where
  "sale_summary t = (map o_TotalMinor (db_orders t),
     map v_ProductID (filter (\<lambda>v. v_OrderID v = o_ID (last (db_orders t))) (db_vends t)))"

theorem quote_becomes_one_order_witness:
  "\<exists>r t. CreateOrderFromQuote sample_svc (sample_quote_order (UUID ''g0'')) quoted_db = (Inr r, t)
     \<and> (\<forall>sv inp r' t'. cfq_QuoteID inp = UUID ''g0'' \<longrightarrow> CreateOrderFromQuote sv inp t = (Inr r', t') \<longrightarrow> cfr_Replay r' \<and> t' = t)"
proof -
  let ?m = "CreateOrderFromQuote sample_svc (sample_quote_order (UUID ''g0''))"
  have "case fst (?m quoted_db) of Inl e \<Rightarrow> False | Inr r \<Rightarrow> \<not> cfr_Replay r" by code_simp
  then obtain r where r: "?m quoted_db = (Inr r, snd (?m quoted_db))" "\<not> cfr_Replay r" by (rule run_where)
  have "distinct (map qt_ID (db_quotes quoted_db))" "cfq_QuoteID (sample_quote_order (UUID ''g0'')) = UUID ''g0''" by code_simp+
  with quote_becomes_one_order [OF r] r(1) show ?thesis by metis
qed

theorem quote_idempotent_witness:
  "\<exists>r t r'. CreateQuote id plain_rfc sample_svc (sample_cart 2 None) priced_db = (Inr r, t)
     \<and> CreateQuote id plain_rfc sample_svc (sample_cart 5 (Some sample_snapshot)) t = (Inr r', t) \<and> cqr_QuoteID r' = cqr_QuoteID r"
proof -
  let ?m = "CreateQuote id plain_rfc sample_svc (sample_cart 2 None)" and ?c = "sample_cart 5 (Some sample_snapshot)"
  have "case fst (?m priced_db) of Inl e \<Rightarrow> False | Inr r \<Rightarrow> True" by code_simp
  then obtain r where r: "?m priced_db = (Inr r, snd (?m priced_db))" by (rule run_where)
  have "TrimSpace (cqi_IdempotencyKey (sample_cart 2 None)) \<noteq> []" "cqi_MachineID ?c = cqi_MachineID (sample_cart 2 None)"
    "TrimSpace (cqi_IdempotencyKey ?c) = TrimSpace (cqi_IdempotencyKey (sample_cart 2 None))" "validateCreateQuote ?c = Inr ()"
    by code_simp+
  from quote_idempotent [OF r this] r show ?thesis by blast
qed

theorem order_costs_engine_price_witness:
  "\<exists>r t ord. CreateOrder id plain_rfc sample_svc sample_order_request priced_db = (Inr r, t)
     \<and> db_orders t = db_orders priced_db @ [ord] \<and> o_PricingSource ord = ''server_priced'' \<and> o_Status ord = ''created''"
proof -
  let ?m = "CreateOrder id plain_rfc sample_svc sample_order_request"
  have "case fst (?m priced_db) of Inl e \<Rightarrow> False | Inr r \<Rightarrow> \<not> cor_Replay (cos_Base r)" by code_simp
  then obtain r where r: "?m priced_db = (Inr r, snd (?m priced_db))" "\<not> cor_Replay (cos_Base r)" by (rule run_where)
  have "coi_PricingSnapshot sample_order_request = None" by code_simp
  from order_costs_engine_price [OF r(1) this r(2)] r(1) show ?thesis by blast
qed


section \<open>Limits\<close>


text \<open>
  C1: A reported sale of several units of one product gets one vend line. A report of one line with quantity
  two is paid in full, but its order has a single vend line.
\<close>

theorem reported_units_lost: "sale_summary (reported_db 2) = ([500, 800], [UUID ''p1''])"
  by code_simp

end
