(* ===== verification/Payment_Providers.thy ===== *)
theory Payment_Providers
  imports Commerce_Types
begin

text \<open>
  The registry of payment providers and the choice of a provider for a payment session
  (\<open>internal/platform/payments/registry.go\<close>, \<open>resolve.go\<close>, \<open>provider_family.go\<close>, \<open>runtime.go\<close>). A provider is a
  value of its interface: what it answers to a session request and to a status query are functions, so that
  every theorem holds for whatever an adapter and the network behind it do.
\<close>

section \<open>Providers\<close>

record psp_session_input =
  pi_CompanyID :: uuid
  pi_OrderID :: uuid
  pi_PaymentID :: uuid
  pi_AmountMinor :: int
  pi_Currency :: string
  pi_IdempotencyKey :: string
  pi_MachineExternalCode :: string
  pi_StoreID :: string
  pi_ProviderReference :: string
  pi_PreferredMethod :: string

record psp_session =
  pr_ProviderReference :: string
  pr_ProviderSessionID :: string
  pr_QRPayloadOrURL :: string
  pr_PaymentURL :: string
  pr_CheckoutURL :: string
  pr_ExpiresAt :: "time option"
  pr_ProviderDisplayJSON :: raw

record psp_lookup =
  lk_Provider :: string
  lk_PaymentID :: uuid
  lk_OrderID :: uuid
  lk_ProviderReference :: string
  lk_AmountMinor :: int
  lk_MachineExternalCode :: string
  lk_AttemptPayloadJSON :: raw

record psp_snapshot =
  sn_NormalizedState :: string
  sn_ProviderHint :: raw

text \<open>\<open>pp_Wired\<close> is \<open>None\<close> when the adapter has no \<open>LivePaymentWired\<close>.\<close>

record payment_provider =
  pp_Key :: string
  pp_Placeholder :: bool
  pp_Wired :: "bool option"
  pp_SupportsQuery :: bool
  pp_CreateSession :: "psp_session_input \<Rightarrow> go_err + psp_session"
  pp_Query :: "psp_lookup \<Rightarrow> go_err + psp_snapshot"

section \<open>Keys\<close>

definition NormalizePaymentProviderKey :: "string \<Rightarrow> string" where
  "NormalizePaymentProviderKey key =
     (let k = ToLower (TrimSpace key)
      in if k \<in> {''momo_qr'', ''momo-qr''} then ''momo''
         else if k \<in> {''zalo'', ''zalo_pay'', ''zalo-pay''} then ''zalopay''
         else if k \<in> {''vnpay_qr'', ''vn_pay''} then ''vnpay''
         else if k \<in> {''shopee'', ''shopee_pay'', ''shopee-pay''} then ''shopeepay''
         else if k \<in> {''viet_qr'', ''viet-qr''} then ''vietqr''
         else k)"

definition sandboxFamilyProviderKey :: "string \<Rightarrow> bool" where
  "sandboxFamilyProviderKey key \<longleftrightarrow>
     ToLower (TrimSpace key) \<in> {''mock'', ''sandbox'', ''test'', ''psp_fixture'', ''dev'', ''psp_grpc_int''}"

definition SameWebhookAdapterFamily :: "string \<Rightarrow> string \<Rightarrow> bool" where
  "SameWebhookAdapterFamily eventProvider storedProvider =
     (let a = NormalizePaymentProviderKey eventProvider; b = NormalizePaymentProviderKey storedProvider
      in if a = [] \<or> b = [] then False
         else if a = b then True
         else a = ''zalopay'' \<and> b = ''vietqr'' \<or> a = ''vietqr'' \<and> b = ''zalopay'')"

section \<open>The registry\<close>

record registry =
  rg_byKey :: "(string \<times> payment_provider) list"
  rg_defaultPaymentProviderKey :: string
  rg_paymentEnv :: string
  rg_allowedPaymentProviders :: "string list"

definition registry_Get :: "registry \<Rightarrow> string \<Rightarrow> payment_provider option" where
  "registry_Get r key = map_of (rg_byKey r) (ToLower (TrimSpace key))"

definition registry_Register :: "registry \<Rightarrow> payment_provider \<Rightarrow> registry" where
  "registry_Register r p =
     (let k = ToLower (TrimSpace (pp_Key p))
      in r\<lparr>rg_byKey := (k, p) # filter (\<lambda>e. fst e \<noteq> k) (rg_byKey r)\<rparr>)"

text \<open>\<open>None\<close> is the nil set of a deployment without a list.\<close>

definition allowedProviderSet :: "registry \<Rightarrow> string list option" where
  "allowedProviderSet r =
     (if rg_allowedPaymentProviders r = [] then None
      else Some (filter (\<lambda>k. k \<noteq> []) (map NormalizePaymentProviderKey (rg_allowedPaymentProviders r))))"

definition providerInAllowlist :: "registry \<Rightarrow> string \<Rightarrow> bool" where
  "providerInAllowlist r key =
     (case allowedProviderSet r of None \<Rightarrow> False | Some ks \<Rightarrow> NormalizePaymentProviderKey key \<in> set ks)"

definition providerSessionStatus :: "payment_provider option \<Rightarrow> string \<times> bool" where
  "providerSessionStatus p =
     (case p of
        None \<Rightarrow> (''unavailable'', False)
      | Some p \<Rightarrow>
          if sandboxFamilyProviderKey (pp_Key p) then (''sandbox'', True)
          else if pp_Placeholder p then (''placeholder'', False)
          else (case pp_Wired p of
                  Some w \<Rightarrow> if w then (''wired'', True) else (''unavailable'', False)
                | None \<Rightarrow> (''wired'', True)))"

section \<open>The provider of a session\<close>

datatype resolve_error =
    ErrUnknownProvider | ErrProviderKeyMismatch | ErrProviderUnavailable | ErrPaymentProviderRequired
  | ErrInvalidCardSessionProvider | ErrSandboxProviderInProduction

definition session_key :: "registry \<Rightarrow> string \<Rightarrow> resolve_error + string" where
  "session_key r clientDeclaredProvider =
     (let def = NormalizePaymentProviderKey (rg_defaultPaymentProviderKey r);
          client = NormalizePaymentProviderKey clientDeclaredProvider
      in case allowedProviderSet r of
           Some allow \<Rightarrow>
             if client \<noteq> [] then (if client \<in> set allow then Inr client else Inl ErrUnknownProvider) else Inr def
         | None \<Rightarrow>
             if client \<noteq> [] \<and> def \<noteq> [] \<and> client \<noteq> def then Inl ErrProviderKeyMismatch
             else if client \<noteq> [] then Inr client else Inr def)"

definition ResolveForPaymentSession :: "registry \<Rightarrow> string \<Rightarrow> string \<Rightarrow> resolve_error + payment_provider \<times> string" where
  "ResolveForPaymentSession r appEnv clientDeclaredProvider =
     (case session_key r clientDeclaredProvider of
        Inl e \<Rightarrow> Inl e
      | Inr key0 \<Rightarrow>
          if rg_paymentEnv r = ''cash_only'' then Inl ErrProviderUnavailable
          else if key0 = [] \<and> appEnv = ''production'' then Inl ErrPaymentProviderRequired
          else let key = (if key0 = [] then ''sandbox'' else key0)
               in if key = ''cash'' then Inl ErrInvalidCardSessionProvider
                  else case registry_Get r key of
                    None \<Rightarrow> Inl ErrUnknownProvider
                  | Some p \<Rightarrow>
                      if appEnv = ''production'' \<and> sandboxFamilyProviderKey key then Inl ErrSandboxProviderInProduction
                      else if pp_Placeholder p then Inl ErrProviderUnavailable
                      else if pp_Wired p = Some False then Inl ErrProviderUnavailable
                      else Inr (p, key))"

section \<open>What a session may use\<close>

lemma Normalize_idem: "NormalizePaymentProviderKey (NormalizePaymentProviderKey k) = NormalizePaymentProviderKey k"
proof -
  have "NormalizePaymentProviderKey c = c" if "c \<in> {''momo'', ''zalopay'', ''vnpay'', ''shopeepay'', ''vietqr''}" for c
    using that by (elim insertE emptyE; hypsubst; code_simp)
  moreover have "NormalizePaymentProviderKey k = ToLower (TrimSpace k)
    \<or> NormalizePaymentProviderKey k \<in> {''momo'', ''zalopay'', ''vnpay'', ''shopeepay'', ''vietqr''}"
    by (simp add: NormalizePaymentProviderKey_def Let_def)
  moreover have "NormalizePaymentProviderKey (ToLower (TrimSpace k)) = NormalizePaymentProviderKey k"
    by (simp only: NormalizePaymentProviderKey_def vnorm_idem)
  ultimately show ?thesis by metis
qed


section \<open>A sample registry\<close>

definition sample_psp :: payment_provider where
  "sample_psp =
     \<lparr>pp_Key = ''momo'', pp_Placeholder = False, pp_Wired = Some True, pp_SupportsQuery = True,
      pp_CreateSession = (\<lambda>inp. Inr \<lparr>pr_ProviderReference = [], pr_ProviderSessionID = ''s1'', pr_QRPayloadOrURL = ''qr'',
        pr_PaymentURL = ''url'', pr_CheckoutURL = ''url'', pr_ExpiresAt = None, pr_ProviderDisplayJSON = NoBytes\<rparr>),
      pp_Query = (\<lambda>l. Inr \<lparr>sn_NormalizedState = ''captured'', sn_ProviderHint = NoBytes\<rparr>)\<rparr>"

definition sample_registry :: registry where
  "sample_registry = registry_Register
     \<lparr>rg_byKey = [], rg_defaultPaymentProviderKey = ''momo'', rg_paymentEnv = ''live'', rg_allowedPaymentProviders = [''MOMO'', ''vietqr'']\<rparr>
     sample_psp"

lemma sample_resolve: "ResolveForPaymentSession sample_registry ''production'' ''momo_qr'' = Inr (sample_psp, ''momo'')"
proof -
  have "ToLower (TrimSpace ''momo'') = ''momo''" by code_simp
  then have "registry_Get sample_registry ''momo'' = Some sample_psp"
    by (simp add: registry_Get_def sample_registry_def registry_Register_def sample_psp_def)
  moreover have "session_key sample_registry ''momo_qr'' = Inr ''momo''" "\<not> sandboxFamilyProviderKey ''momo''"
    "rg_paymentEnv sample_registry \<noteq> ''cash_only''" "\<not> pp_Placeholder sample_psp" "pp_Wired sample_psp = Some True"
    by code_simp+
  ultimately show ?thesis by (simp add: ResolveForPaymentSession_def Let_def)
qed


end
