(* ===== verification/Provider_Reference.thy ===== *)
theory Provider_Reference
  imports Go_Prelude "HOL-Library.Word"
begin

text \<open>
  Short references of payments at a provider (\<open>internal/platform/payments/psp/ref/ref.go\<close>). A UUID is its
  sixteen bytes here. The inner loop of the encoder is a \<open>partial_function\<close>, so that a run that does not end
  would be \<open>None\<close>; the accumulator keeps its 64 bits and is shifted out on the left.
\<close>

unbundle bit_operations_syntax

section \<open>The encoder\<close>

definition MaxLength :: nat where
  "MaxLength = 21"

definition crockfordAlphabet :: string where
  "crockfordAlphabet = ''0123456789ABCDEFGHJKMNPQRSTVWXYZ''"

definition crockford_char :: "64 word \<Rightarrow> char" where
  "crockford_char w = crockfordAlphabet ! unat (w AND 0x1F)"

partial_function (option) emit_groups :: "64 word \<Rightarrow> nat \<Rightarrow> string \<Rightarrow> (nat \<times> string) option" where
  "emit_groups bits nbits b =
     (if nbits \<ge> 5
      then emit_groups bits (nbits - 5) (b @ [crockford_char (drop_bit (nbits - 5) bits)])
      else Some (nbits, b))"

fun encode_bytes :: "8 word list \<Rightarrow> 64 word \<Rightarrow> nat \<Rightarrow> string \<Rightarrow> (64 word \<times> nat \<times> string) option" where
  "encode_bytes [] bits nbits b = Some (bits, nbits, b)"
| "encode_bytes (byt # data) bits nbits b =
     (let bits = push_bit 8 bits OR ucast byt
      in Option.bind (emit_groups bits (nbits + 8) b) (\<lambda>(nbits, b). encode_bytes data bits nbits b))"

definition encodeCrockford :: "8 word list \<Rightarrow> string option" where
  "encodeCrockford data =
     (if data = [] then Some []
      else Option.bind (encode_bytes data 0 0 []) (\<lambda>(bits, nbits, b).
        Some (if nbits > 0 then b @ [crockford_char (push_bit (5 - nbits) bits)] else b)))"

definition GenerateFromUUID :: "8 word list \<Rightarrow> string option" where
  "GenerateFromUUID u =
     Option.bind (encodeCrockford u) (\<lambda>s. Some (if length s > MaxLength then take MaxLength s else s))"

definition ref_Validate :: "string \<Rightarrow> go_err + unit" where
  "ref_Validate r =
     (if r = [] then Inl (GoErr ErrOther ''provider reference is required'')
      else if length r > MaxLength then Inl (GoErr ErrOther ''provider reference must be at most 21 characters'')
      else Inr ())"

declare emit_groups.simps [code]

section \<open>Base 32 numerals\<close>

text \<open>The reference definition: the bytes are one big-endian number, written with a given number of digits.\<close>

definition be_number :: "8 word list \<Rightarrow> nat" where
  "be_number data = foldl (\<lambda>n byt. 256 * n + unat byt) 0 data"

fun numeral32 :: "nat \<Rightarrow> nat \<Rightarrow> string" where
  "numeral32 0 n = []"
| "numeral32 (Suc e) n = numeral32 e (n div 32) @ [crockfordAlphabet ! (n mod 32)]"

lemma length_numeral32 [simp]: "length (numeral32 e n) = e"
  by (induction e arbitrary: n) auto

lemma alphabet_distinct: "distinct crockfordAlphabet" "length crockfordAlphabet = 32"
  by (code_simp, code_simp)

lemma numeral32_eq_iff: "numeral32 e m = numeral32 e n \<longleftrightarrow> m mod 32 ^ e = n mod 32 ^ e"
proof (induction e arbitrary: m n)
  case (Suc e)
  have "32 * a + r = 32 * b + t \<longleftrightarrow> a = b \<and> r = t" if "r < 32" "t < 32" for a b r t :: nat
    using that by presburger
  from this [of "m mod 32" "n mod 32" "m div 32 mod 32 ^ e" "n div 32 mod 32 ^ e"]
  have "m mod 32 ^ Suc e = n mod 32 ^ Suc e \<longleftrightarrow> m div 32 mod 32 ^ e = n div 32 mod 32 ^ e \<and> m mod 32 = n mod 32"
    by (simp add: mod_mult2_eq)
  then show ?case using Suc alphabet_distinct by (auto simp: nth_eq_iff_index_eq)
qed simp

lemma take_numeral32: "take k (numeral32 (k + d) n) = numeral32 k (n div 32 ^ d)"
  by (induction d arbitrary: n) (simp_all add: div_mult2_eq)

lemma set_numeral32: "set (numeral32 e n) \<subseteq> set crockfordAlphabet"
  using alphabet_distinct by (induction e arbitrary: n) (auto intro!: nth_mem)

lemma crockford_char_unat: "crockford_char w = crockfordAlphabet ! take_bit 5 (unat w)"
proof -
  have "w AND 0x1F = take_bit 5 w" by (simp add: take_bit_eq_mask mask_eq_exp_minus_1)
  then show ?thesis by (simp only: crockford_char_def unsigned_take_bit_eq)
qed

section \<open>The encoder writes the numeral\<close>

text \<open>The groups that are ready: as many digits as fit into the bits, the rest stays in the accumulator.\<close>

lemma shifted_char: "k + 5 \<le> 64 \<Longrightarrow> crockford_char (drop_bit k (of_nat n)) = crockfordAlphabet ! (n div 2 ^ k mod 32)"
proof -
  assume "k + 5 \<le> 64"
  then have "5 \<le> 64 - k" by simp
  then have "take_bit 5 (unat (drop_bit k (of_nat n :: 64 word))) = take_bit 5 (drop_bit k n)"
    by (simp add: unsigned_drop_bit_eq unsigned_of_nat drop_bit_take_bit min_def)
  then show ?thesis by (simp add: crockford_char_unat take_bit_eq_mod drop_bit_eq_div)
qed

lemma last_char: "k < 5 \<Longrightarrow> crockford_char (push_bit (5 - k) (of_nat n)) = crockfordAlphabet ! (n * 2 ^ (5 - k) mod 32)"
proof -
  have "take_bit 5 (unat (push_bit (5 - k) (of_nat n :: 64 word))) = take_bit 5 (push_bit (5 - k) n)"
    by (simp add: unsigned_push_bit_eq unsigned_of_nat take_bit_push_bit)
  then show ?thesis by (simp add: crockford_char_unat take_bit_eq_mod push_bit_eq_mult)
qed

lemma next_byte:
  fixes byt :: "8 word"
  shows "push_bit 8 (of_nat n) OR ucast byt = (of_nat (256 * n + unat byt) :: 64 word)"
proof -
  have "push_bit 8 (of_nat n :: 64 word) AND ucast byt = 0"
    by (rule bit_eqI) (auto simp: bit_simps dest: bit_imp_le_length)
  then have "push_bit 8 (of_nat n :: 64 word) OR ucast byt = push_bit 8 (of_nat n) + ucast byt"
    by (rule disjunctive_add_eq_or [symmetric])
  then show ?thesis by (simp add: push_bit_eq_mult mult.commute)
qed

lemma emit_groups_done:
  assumes "nbits \<le> 64" and "b = numeral32 e (n div 2 ^ nbits)"
  shows "emit_groups (of_nat n) nbits b = Some (nbits mod 5, numeral32 (e + nbits div 5) (n div 2 ^ (nbits mod 5)))"
  using assms
proof (induction nbits arbitrary: e b rule: less_induct)
  case (less nbits)
  show ?case
  proof (cases "nbits \<ge> 5")
    case True
    then obtain k where k: "nbits = k + 5" by (metis le_add_diff_inverse2)
    have "n div 2 ^ k div 32 = n div 2 ^ nbits" by (simp add: k power_add div_mult2_eq)
    then have "b @ [crockford_char (drop_bit k (of_nat n))] = numeral32 (Suc e) (n div 2 ^ k)"
      using less.prems k by (simp add: shifted_char)
    with less.IH [of k _ "Suc e"] less.prems k
    have "emit_groups (of_nat n) nbits b = Some (k mod 5, numeral32 (Suc e + k div 5) (n div 2 ^ (k mod 5)))"
      by (subst emit_groups.simps) (simp del: numeral32.simps)
    moreover have "nbits mod 5 = k mod 5" "e + nbits div 5 = Suc e + k div 5" by (simp_all add: k)
    ultimately show ?thesis by (simp only:)
  next
    case False
    with less.prems show ?thesis by (subst emit_groups.simps) simp
  qed
qed

lemma encode_bytes_done:
  assumes "nbits < 5" and "b = numeral32 e (n div 2 ^ nbits)"
  shows "\<exists>k m. encode_bytes data (of_nat n) nbits b =
    Some (of_nat (foldl (\<lambda>n byt. 256 * n + unat byt) n data), k, numeral32 m (foldl (\<lambda>n byt. 256 * n + unat byt) n data div 2 ^ k))
    \<and> k < 5 \<and> 5 * m + k = 5 * e + nbits + 8 * length data"
  using assms
proof (induction data arbitrary: n nbits e b)
  case (Cons byt data)
  let ?n = "256 * n + unat byt" and ?k = "nbits + 8"
  have "(2 :: nat) ^ ?k = 256 * 2 ^ nbits" by (simp add: power_add)
  moreover have "?n div 256 = n" using unsigned_less [of byt, where ?'a = nat] by simp
  ultimately have "?n div 2 ^ ?k = n div 2 ^ nbits" by (simp add: div_mult2_eq)
  then have "emit_groups (of_nat ?n) ?k b = Some (?k mod 5, numeral32 (e + ?k div 5) (?n div 2 ^ (?k mod 5)))"
    using Cons.prems by (intro emit_groups_done) auto
  with Cons.IH [of "?k mod 5" _ "e + ?k div 5" ?n] Cons.prems next_byte [of n byt] show ?case by (simp add: Let_def ac_simps)
qed auto

lemma encodeCrockford_numeral:
  "\<exists>m d. encodeCrockford data = Some (numeral32 m (be_number data * 2 ^ d)) \<and> 5 * m = 8 * length data + d \<and> d < 5"
proof (cases "data = []")
  case False
  obtain k m where run: "encode_bytes data 0 0 [] = Some (of_nat (be_number data), k, numeral32 m (be_number data div 2 ^ k))"
    and k: "k < 5" "5 * m + k = 8 * length data"
    using encode_bytes_done [of 0 "[]" 0 0 data] by (auto simp: be_number_def)
  show ?thesis
  proof (cases "k = 0")
    case True
    with run k False show ?thesis by (intro exI [of _ m] exI [of _ 0]) (simp add: encodeCrockford_def)
  next
    case pos: False
    have "2 ^ (5 - k) * 2 ^ k = (32 :: nat)" using k by (simp flip: power_add)
    then have "be_number data * 2 ^ (5 - k) div 32 = be_number data div 2 ^ k"
      by (metis div_mult2_eq mult.commute nonzero_mult_div_cancel_right power_not_zero zero_neq_numeral)
    with run k False pos have "encodeCrockford data = Some (numeral32 (Suc m) (be_number data * 2 ^ (5 - k)))"
      by (simp add: encodeCrockford_def last_char)
    with k pos show ?thesis by (intro exI [of _ "Suc m"] exI [of _ "5 - k"]) simp
  qed
qed (simp add: encodeCrockford_def exI [of _ 0])

text \<open>
  C39: The encoder terminates on every input. The result has one character of the alphabet for every started
  group of five bits.
\<close>

theorem crockford_terminates:
  "\<exists>s. encodeCrockford data = Some s \<and> length s = (8 * length data + 4) div 5 \<and> set s \<subseteq> set crockfordAlphabet"
proof -
  obtain m d where "encodeCrockford data = Some (numeral32 m (be_number data * 2 ^ d))" "5 * m = 8 * length data + d" "d < 5"
    using encodeCrockford_numeral by blast
  moreover from this have "m = (8 * length data + 4) div 5" by linarith
  ultimately show ?thesis using set_numeral32 by auto
qed

lemma generate_run:
  assumes "length u = 16"
  shows "GenerateFromUUID u = Some (numeral32 21 (be_number u div 2 ^ 23))"
proof -
  obtain m d where e: "encodeCrockford u = Some (numeral32 m (be_number u * 2 ^ d))" "5 * m = 8 * length u + d" "d < 5"
    using encodeCrockford_numeral by blast
  with assms have "m = 21 + 5" "d = 2" by presburger+
  moreover have "take 21 (numeral32 (21 + 5) (be_number u * 4)) = numeral32 21 (be_number u div 2 ^ 23)"
    unfolding take_numeral32 by simp
  ultimately show ?thesis using e(1) by (simp add: GenerateFromUUID_def MaxLength_def del: numeral32.simps)
qed

lemma be_number_snoc: "be_number (data @ [byt]) = 256 * be_number data + unat byt"
  by (simp add: be_number_def)

lemma be_number_bound: "be_number data < 256 ^ length data"
proof (induction data rule: rev_induct)
  case (snoc byt data)
  then show ?case using unsigned_less [of byt, where ?'a = nat] by (simp add: be_number_snoc)
qed (simp add: be_number_def)

text \<open>
  C40: The reference of a payment is always accepted by the provider's limit, and two UUIDs have the same
  reference exactly when they agree in their first 105 bits.
\<close>

theorem provider_reference_identifies:
  assumes "length u = 16" and "length v = 16"
  shows "\<exists>r. GenerateFromUUID u = Some r \<and> ref_Validate r = Inr () \<and> length r = MaxLength \<and> set r \<subseteq> set crockfordAlphabet
    \<and> (GenerateFromUUID v = Some r \<longleftrightarrow> be_number u div 2 ^ 23 = be_number v div 2 ^ 23)"
proof -
  let ?r = "numeral32 21 (be_number u div 2 ^ 23)"
  have small: "be_number w div 2 ^ 23 < 32 ^ 21" if "length w = 16" for w
    using be_number_bound [of w] that by (simp add: less_mult_imp_div_less)
  have "numeral32 21 (be_number v div 2 ^ 23) = ?r \<longleftrightarrow> be_number u div 2 ^ 23 = be_number v div 2 ^ 23"
    unfolding numeral32_eq_iff using small [OF assms(1)] small [OF assms(2)] by auto
  moreover have "length ?r = 21" by (rule length_numeral32)
  moreover from this have "?r \<noteq> []" by (metis list.size(3) zero_neq_numeral)
  ultimately have "ref_Validate ?r = Inr ()" "numeral32 21 (be_number v div 2 ^ 23) = ?r \<longleftrightarrow> be_number u div 2 ^ 23 = be_number v div 2 ^ 23"
    by (simp_all add: ref_Validate_def MaxLength_def)
  then show ?thesis
    using generate_run [OF assms(1)] generate_run [OF assms(2)] set_numeral32 by (auto simp: MaxLength_def)
qed

theorem provider_reference_identifies_witness:
  "\<exists>r. GenerateFromUUID (replicate 16 0) = Some r \<and> GenerateFromUUID (replicate 15 0 @ [255]) = Some r \<and> length r = 21"
proof -
  have "length (replicate 16 (0 :: 8 word)) = 16" "length (replicate 15 (0 :: 8 word) @ [255]) = 16" by simp_all
  moreover have "be_number (replicate k 0) = 0" for k by (induction k) (simp_all add: be_number_def)
  then have "be_number (replicate 16 0) div 2 ^ 23 = 0" "be_number (replicate 15 0 @ [255]) div 2 ^ 23 = 0"
    by (simp_all add: be_number_snoc)
  ultimately show ?thesis
    using provider_reference_identifies [of "replicate 16 0" "replicate 15 0 @ [255]"] by (auto simp: MaxLength_def)
qed

end
