(* ===== verification/Payment_Session.thy ===== *)
theory Payment_Session
  imports Payment_Providers Provider_Reference Commerce_Service Payment_Webhook Outbox_Pipeline
begin

text \<open>
  Payment sessions of a machine (\<open>machine_payment_session.go\<close>, \<open>payment_status_view.go\<close>) and the queries that
  ask a provider about open payments (\<open>payment_query_refresh.go\<close>, \<open>payment_query_refresh_by_payment.go\<close>). The
  bytes of a UUID are the parameter \<open>bytes\<close>. The throttle of the queries is a map of the process, not of
  the database: it is passed and returned beside the outcome.
\<close>

section \<open>The session of a payment\<close>

record session_input =
  mi_OrderID :: uuid
  mi_MachineID :: uuid
  mi_IdempotencyKey :: string
  mi_ClientProvider :: string
  mi_ClientPayState :: string
  mi_AmountMinor :: int
  mi_Currency :: string
  mi_AppEnv :: string
  mi_OutboxTopic :: string
  mi_OutboxEventType :: string
  mi_OutboxAggregate :: string
  mi_MachineExternalCode :: string
  mi_StoreID :: string
  mi_ProviderReference :: string
  mi_PreferredMethod :: string
  mi_AttemptSeq :: int
  mi_SupersedesPaymentID :: "uuid option"
  mi_LoadedOrder :: "order option"

record session_result =
  mq_Replay :: bool
  mq_Payment :: payment
  mq_Outbox :: outbox_event
  mq_ProviderKey :: string
  mq_ProviderReference :: string
  mq_ProviderSessionID :: string
  mq_QRPayloadOrURL :: string
  mq_PaymentURL :: string
  mq_CheckoutURL :: string
  mq_ExpiresAt :: "time option"

definition session_order :: "session_input \<Rightarrow> order q" where
  "session_order inp =
     (case mi_LoadedOrder inp of
        Some ord \<Rightarrow> if o_ID ord = mi_OrderID inp then ret ord else GetOrderByID (mi_OrderID inp)
      | None \<Rightarrow> GetOrderByID (mi_OrderID inp))"

definition session_terms :: "session_input \<Rightarrow> order \<Rightarrow> go_err + unit" where
  "session_terms inp ord =
     (if o_MachineID ord \<noteq> mi_MachineID inp then Inl (GoErr ErrInvalidArgument ''order machine mismatch'')
      else if o_TotalMinor ord \<noteq> mi_AmountMinor inp then Inl (GoErr ErrInvalidArgument ''amount_minor does not match order total'')
      else if ToUpper (TrimSpace (o_Currency ord)) \<noteq> ToUpper (TrimSpace (mi_Currency inp))
        then Inl (GoErr ErrInvalidArgument ''currency does not match order'')
      else if orderStatusTerminal (o_Status ord) then Inl (GoErr ErrIllegalTransition ''order is terminal'')
      else Inr ())"

definition resolve_failure :: "resolve_error \<Rightarrow> go_err" where
  "resolve_failure e =
     GoErr ErrOther (case e of
        ErrUnknownProvider \<Rightarrow> ''payments: unknown payment provider''
      | ErrProviderKeyMismatch \<Rightarrow> ''payments: client provider does not match server COMMERCE_PAYMENT_PROVIDER''
      | ErrProviderUnavailable \<Rightarrow> ''provider_unavailable''
      | ErrPaymentProviderRequired \<Rightarrow> ''payments: COMMERCE_PAYMENT_PROVIDER is required''
      | ErrInvalidCardSessionProvider \<Rightarrow> ''payments: invalid provider for card/QR payment session''
      | ErrSandboxProviderInProduction \<Rightarrow> ''payments: sandbox or mock payment provider is not allowed in production'')"

text \<open>The reference of a payment made from a UUID.\<close>

definition reference_of :: "(uuid \<Rightarrow> 8 word list) \<Rightarrow> uuid \<Rightarrow> string" where
  "reference_of bytes u = (case GenerateFromUUID (bytes u) of Some r \<Rightarrow> r | None \<Rightarrow> [])"

definition session_reference :: "(uuid \<Rightarrow> 8 word list) \<Rightarrow> session_input \<Rightarrow> string q" where
  "session_reference bytes inp =
     (if TrimSpace (mi_ProviderReference inp) = [] then bnd gen_uuid (\<lambda>u. ret (reference_of bytes u))
      else ret (TrimSpace (mi_ProviderReference inp)))"

definition derefString :: "string option \<Rightarrow> string" where
  "derefString v = (case v of None \<Rightarrow> [] | Some s \<Rightarrow> s)"

definition session_payment :: "session_input \<Rightarrow> order \<Rightarrow> string \<Rightarrow> string \<Rightarrow> string \<Rightarrow> start_payment_input" where
  "session_payment inp ord pkey key providerRef =
     \<lparr>po_OrderID = mi_OrderID inp, po_Provider = pkey, po_PaymentState = ''created'', po_AmountMinor = o_TotalMinor ord,
      po_Currency = o_Currency ord, po_IdempotencyKey = key, po_OutboxTopic = mi_OutboxTopic inp,
      po_OutboxEventType = mi_OutboxEventType inp,
      po_OutboxPayload = Bytes (JObj [(''idempotency'', JStr key), (''order_id'', JStr (uuid_String (mi_OrderID inp))),
        (''provider'', JStr pkey), (''schema_version'', JNum 1), (''source'', JStr ''machine_payment_session'')]),
      po_OutboxAggregateType = mi_OutboxAggregate inp, po_OutboxAggregateID = mi_OrderID inp,
      po_OutboxIdempotencyKey = key @ '':outbox:'' @ uuid_String (mi_OrderID inp), po_Simulated = o_Simulated ord,
      po_SimulationRunID = derefString (o_SimulationRunID ord), po_SimulationScenario = derefString (o_SimulationScenario ord),
      po_FakeBill = o_FakeBill ord, po_FakeBoard = o_FakeBoard ord, po_AttemptSeq = mi_AttemptSeq inp,
      po_SupersedesPaymentID = mi_SupersedesPaymentID inp, po_BindAttemptState = ''created'',
      po_BindProviderReference = providerRef,
      po_BindPayload = Bytes (JObj [(''bind_phase'', JStr ''pre_create''), (''provider_reference'', JStr providerRef)]),
      sp_SkipOrderLookup = True\<rparr>"

text \<open>\<open>json.Unmarshal\<close> into a map keeps the last of equal keys; a field of another type is not a string.\<close>

definition string_field :: "(string \<times> json) list \<Rightarrow> string \<Rightarrow> string" where
  "string_field kvs k = (case map_of (rev kvs) k of Some (JStr v) \<Rightarrow> TrimSpace v | _ \<Rightarrow> [])"

definition qrFromAttemptPayload :: "json \<Rightarrow> string" where
  "qrFromAttemptPayload j =
     (case j of
        JObj kvs \<Rightarrow> (case find (\<lambda>v. v \<noteq> []) (map (string_field kvs) [''qr_code_url'', ''qr_url'', ''qr_payload_or_url'']) of
                      Some v \<Rightarrow> v | None \<Rightarrow> [])
      | _ \<Rightarrow> [])"

definition replayQRPayloadFromStoredAttempt :: "uuid \<Rightarrow> string q" where
  "replayQRPayloadFromStoredAttempt paymentID =
     (if paymentID = uuid_Nil then ret []
      else bnd (attempt (GetLatestPaymentAttemptPayload paymentID)) (\<lambda>r.
        ret (case r of Inr (Some payload) \<Rightarrow> qrFromAttemptPayload payload | _ \<Rightarrow> [])))"

definition started_session :: "string \<Rightarrow> payment_outbox_result \<Rightarrow> session_result" where
  "started_session pkey payRes =
     \<lparr>mq_Replay = por_Replay payRes, mq_Payment = por_Payment payRes, mq_Outbox = por_Outbox payRes, mq_ProviderKey = pkey,
      mq_ProviderReference = [], mq_ProviderSessionID = [], mq_QRPayloadOrURL = [], mq_PaymentURL = [], mq_CheckoutURL = [],
      mq_ExpiresAt = None\<rparr>"

definition replayed_session :: "order \<Rightarrow> string \<Rightarrow> payment_outbox_result \<Rightarrow> session_result q" where
  "replayed_session ord pkey payRes =
     (let pay = por_Payment payRes
      in if TrimSpace (p_Provider pay) \<noteq> [] \<and> \<not> EqualFold (TrimSpace (p_Provider pay)) pkey then raise (Err ErrIdempotencyPayloadConflict)
         else if p_AmountMinor pay \<noteq> o_TotalMinor ord
              \<or> ToUpper (TrimSpace (p_Currency pay)) \<noteq> ToUpper (TrimSpace (o_Currency ord)) \<or> p_State pay \<noteq> ''created''
         then raise (Err ErrIdempotencyPayloadConflict)
         else bnd (replayQRPayloadFromStoredAttempt (p_ID pay)) (\<lambda>qr.
           ret ((started_session pkey payRes)\<lparr>mq_QRPayloadOrURL := qr\<rparr>)))"

definition psp_request :: "session_input \<Rightarrow> order \<Rightarrow> string \<Rightarrow> string \<Rightarrow> payment \<Rightarrow> psp_session_input" where
  "psp_request inp ord key providerRef pay =
     \<lparr>pi_CompanyID = uuid_Nil, pi_OrderID = mi_OrderID inp, pi_PaymentID = p_ID pay, pi_AmountMinor = o_TotalMinor ord,
      pi_Currency = o_Currency ord, pi_IdempotencyKey = key, pi_MachineExternalCode = TrimSpace (mi_MachineExternalCode inp),
      pi_StoreID = TrimSpace (mi_StoreID inp), pi_ProviderReference = providerRef,
      pi_PreferredMethod = TrimSpace (mi_PreferredMethod inp)\<rparr>"

definition bound_reference :: "string \<Rightarrow> psp_session \<Rightarrow> string" where
  "bound_reference providerRef sess =
     (if TrimSpace (pr_ProviderReference sess) = [] then providerRef else TrimSpace (pr_ProviderReference sess))"

definition attempt_payload :: "string \<Rightarrow> psp_session \<Rightarrow> raw" where
  "attempt_payload boundRef sess =
     (if pr_ProviderDisplayJSON sess = NoBytes
      then Bytes (JObj [(''checkout_url'', JStr (pr_CheckoutURL sess)), (''payment_url'', JStr (pr_PaymentURL sess)),
             (''provider_reference'', JStr boundRef), (''provider_session_id'', JStr (pr_ProviderSessionID sess)),
             (''qr_url'', JStr (pr_QRPayloadOrURL sess))])
      else pr_ProviderDisplayJSON sess)"

definition session_of :: "string \<Rightarrow> payment_outbox_result \<Rightarrow> string \<Rightarrow> psp_session \<Rightarrow> session_result" where
  "session_of pkey payRes boundRef sess =
     (started_session pkey payRes)
       \<lparr>mq_QRPayloadOrURL := (if TrimSpace (pr_QRPayloadOrURL sess) = [] then TrimSpace (pr_PaymentURL sess)
                              else TrimSpace (pr_QRPayloadOrURL sess)),
        mq_PaymentURL := TrimSpace (pr_PaymentURL sess), mq_CheckoutURL := TrimSpace (pr_CheckoutURL sess),
        mq_ExpiresAt := pr_ExpiresAt sess, mq_ProviderReference := boundRef,
        mq_ProviderSessionID := TrimSpace (pr_ProviderSessionID sess)\<rparr>"

definition provider_session ::
  "service \<Rightarrow> session_input \<Rightarrow> payment_provider \<Rightarrow> string \<Rightarrow> string \<Rightarrow> string \<Rightarrow> order \<Rightarrow> payment_outbox_result \<Rightarrow> session_result q" where
  "provider_session sv inp prov pkey key providerRef ord payRes =
     bnd (lift_res (pp_CreateSession prov (psp_request inp ord key providerRef (por_Payment payRes)))) (\<lambda>sess.
     let boundRef = bound_reference providerRef sess; payload = attempt_payload boundRef sess
     in if boundRef = [] then raise (GoErr ErrNotConfigured ''payment provider returned empty provider_reference'')
        else if \<not> json_Valid payload then raise (GoErr ErrNotConfigured ''payment provider returned invalid attempt payload json'')
        else seq (BindPaymentAttempt sv \<lparr>ia_PaymentID = p_ID (por_Payment payRes), ia_State = ''created'',
                    ia_ProviderReference = Some boundRef, ia_Payload = payload\<rparr>)
          (ret (session_of pkey payRes boundRef sess)))"

definition open_session ::
  "(uuid \<Rightarrow> 8 word list) \<Rightarrow> service \<Rightarrow> session_input \<Rightarrow> payment_provider \<Rightarrow> string \<Rightarrow> string \<Rightarrow> order \<Rightarrow> session_result q" where
  "open_session bytes sv inp prov pkey key ord =
     bnd (session_reference bytes inp) (\<lambda>providerRef.
     bnd (StartPaymentWithOutbox sv (session_payment inp ord pkey key providerRef)) (\<lambda>payRes.
       if por_Replay payRes then replayed_session ord pkey payRes
       else provider_session sv inp prov pkey key providerRef ord payRes))"

definition CreateMachinePaymentSession ::
  "(uuid \<Rightarrow> 8 word list) \<Rightarrow> service \<Rightarrow> registry option \<Rightarrow> session_input \<Rightarrow> session_result q" where
  "CreateMachinePaymentSession bytes sv reg inp =
     configured (sv_payments sv \<and> sv_life sv)
       (case reg of
          None \<Rightarrow> raise (Err ErrNotConfigured)
        | Some r \<Rightarrow>
            let key = TrimSpace (mi_IdempotencyKey inp); ps = TrimSpace (mi_ClientPayState inp)
            in if mi_OrderID inp = uuid_Nil \<or> mi_MachineID inp = uuid_Nil
               then raise (GoErr ErrInvalidArgument ''order_id and machine_id are required'')
               else if key = [] then raise (GoErr ErrInvalidArgument ''idempotency_key is required'')
               else if ps \<noteq> [] \<and> ToLower ps \<noteq> ''created''
               then raise (GoErr ErrInvalidArgument ''payment_state must be empty or created for PSP sessions'')
               else bnd (session_order inp) (\<lambda>ord.
                 seq (lift_res (session_terms inp ord))
                   (case ResolveForPaymentSession r (mi_AppEnv inp) (mi_ClientProvider inp) of
                      Inl e \<Rightarrow> raise (resolve_failure e)
                    | Inr (prov, pkey) \<Rightarrow> open_session bytes sv inp prov pkey key ord)))"

section \<open>The status of one payment\<close>

record payment_status_view =
  sw_OrderID :: uuid
  sw_Payment :: payment
  sw_Outcome :: string
  sw_IsWinningPayment :: bool
  sw_PaymentDiagnostic :: string

definition isPendingPaymentQueryState :: "string \<Rightarrow> bool" where
  "isPendingPaymentQueryState state \<longleftrightarrow> ToLower (TrimSpace state) \<in> {''created'', ''authorized'', ''pending''}"

definition GetPaymentStatusView :: "service \<Rightarrow> uuid \<Rightarrow> uuid \<Rightarrow> uuid \<Rightarrow> payment_status_view q" where
  "GetPaymentStatusView sv companyID orderID paymentID =
     configured (sv_life sv)
       (if orderID = uuid_Nil \<or> paymentID = uuid_Nil then raise (GoErr ErrInvalidArgument ''order_id and payment_id required'')
        else bnd (GetOrderByID orderID) (\<lambda>ord.
          seq (own_company companyID)
          (bnd (GetPaymentByID paymentID) (\<lambda>pay.
            if p_OrderID pay \<noteq> orderID then raise (GoErr ErrInvalidArgument ''payment order mismatch'')
            else ret \<lparr>sw_OrderID = orderID, sw_Payment = pay, sw_Outcome = TrimSpace (p_Outcome pay),
                      sw_IsWinningPayment = (o_WinningPaymentID ord = Some paymentID),
                      sw_PaymentDiagnostic = (if isPendingPaymentQueryState (p_State pay) then ''awaiting_callback'' else [])\<rparr>))))"

definition paymentLifecycleClientStatus :: "string \<Rightarrow> string" where
  "paymentLifecycleClientStatus dbPaymentState =
     (let st = TrimSpace (ToLower dbPaymentState)
      in if st = [] \<or> st = ''created'' then ''pending''
         else if st = ''captured'' then ''paid''
         else if st \<in> {''authorized'', ''failed'', ''expired'', ''canceled''} then st
         else if st \<in> {''refunded'', ''partially_refunded''} then ''refunded''
         else TrimSpace dbPaymentState)"

section \<open>Queries to the provider\<close>

record refresh_outcome =
  ro_Diagnostic :: string
  ro_Skipped :: bool

type_synonym throttle = "(uuid \<times> time) list"

definition paymentQueryMinIntervalDefault :: int where
  "paymentQueryMinIntervalDefault = 5 * nanos_Second"

definition paymentQueryMinIntervalActiveQR :: int where
  "paymentQueryMinIntervalActiveQR = 1500 * (nanos_Second div 1000)"

definition paymentQueryAcceleratedWindow :: int where
  "paymentQueryAcceleratedWindow = 2 * nanos_Minute"

definition paymentQueryMinInterval :: "time \<Rightarrow> time \<Rightarrow> int" where
  "paymentQueryMinInterval paymentCreatedAt now =
     (if paymentCreatedAt = 0 then paymentQueryMinIntervalDefault
      else if time_Sub now paymentCreatedAt \<le> paymentQueryAcceleratedWindow then paymentQueryMinIntervalActiveQR
      else paymentQueryMinIntervalDefault)"

definition paymentQueryThrottleAllows :: "throttle \<Rightarrow> uuid \<Rightarrow> time \<Rightarrow> time \<Rightarrow> bool" where
  "paymentQueryThrottleAllows th paymentID paymentCreatedAt now =
     (paymentID = uuid_Nil
      \<or> (case map_of th paymentID of
           None \<Rightarrow> True
         | Some prev \<Rightarrow> \<not> time_Sub now prev < paymentQueryMinInterval paymentCreatedAt now))"

definition throttle_Store :: "uuid \<Rightarrow> time \<Rightarrow> throttle \<Rightarrow> throttle" where
  "throttle_Store i t th = (i, t) # filter (\<lambda>e. fst e \<noteq> i) th"

definition diagnosed :: "string \<Rightarrow> bool \<Rightarrow> refresh_outcome" where
  "diagnosed d skipped = \<lparr>ro_Diagnostic = d, ro_Skipped = skipped\<rparr>"

definition attempt_reference :: "(uuid \<Rightarrow> 8 word list) \<Rightarrow> payment \<Rightarrow> (string \<times> raw) q" where
  "attempt_reference bytes pay =
     (if p_ID pay = uuid_Nil then ret ([], NoBytes)
      else bnd (attempt (GetLatestPaymentAttemptProviderReference (p_ID pay))) (\<lambda>ref.
           bnd (attempt (GetLatestPaymentAttemptPayload (p_ID pay))) (\<lambda>payload.
             let stored = (case ref of Inr r \<Rightarrow> TrimSpace r | Inl e \<Rightarrow> [])
             in ret (if stored = [] then reference_of bytes (p_ID pay) else stored,
                     case payload of Inr (Some j) \<Rightarrow> Bytes j | _ \<Rightarrow> NoBytes))))"

definition query_lookup :: "string \<Rightarrow> uuid \<Rightarrow> payment \<Rightarrow> string \<Rightarrow> string \<Rightarrow> raw \<Rightarrow> psp_lookup" where
  "query_lookup provKey orderID pay providerRef machineExternalCode payload =
     \<lparr>lk_Provider = provKey, lk_PaymentID = p_ID pay, lk_OrderID = orderID, lk_ProviderReference = providerRef,
      lk_AmountMinor = p_AmountMinor pay, lk_MachineExternalCode = TrimSpace machineExternalCode,
      lk_AttemptPayloadJSON = payload\<rparr>"

definition query_event :: "string \<Rightarrow> uuid \<Rightarrow> payment \<Rightarrow> string \<Rightarrow> psp_snapshot \<Rightarrow> webhook_input" where
  "query_event provKey orderID pay providerRef snap =
     \<lparr>wi_OrderID = orderID, wi_PaymentID = p_ID pay, wi_Provider = provKey, wi_ProviderReference = providerRef,
      wi_WebhookEventID = ''query_refresh:'' @ uuid_String (p_ID pay) @ '':captured'', wi_EventType = ''provider.query_refresh'',
      wi_NormalizedPaymentState = ToLower (TrimSpace (sn_NormalizedState snap)), wi_Payload = sn_ProviderHint snap,
      wi_ProviderAmountMinor = None, wi_Currency = None, wi_WebhookValidationStatus = ''provider_native_verified'',
      wi_ProviderMetadata = NoBytes, wi_OutboxTopic = [], wi_OutboxEventType = [], wi_OutboxPayload = NoBytes,
      wi_OutboxAggregateType = [], wi_OutboxAggregateID = uuid_Nil, wi_OutboxIdempotencyKey = []\<rparr>"

definition refreshPaymentFromProvider ::
  "(uuid \<Rightarrow> 8 word list) \<Rightarrow> service \<Rightarrow> registry \<Rightarrow> uuid \<Rightarrow> payment \<Rightarrow> string \<Rightarrow> time \<Rightarrow> throttle \<Rightarrow> (refresh_outcome \<times> throttle) q" where
  "refreshPaymentFromProvider bytes sv r orderID pay machineExternalCode started th =
     (let provKey = ToLower (TrimSpace (p_Provider pay))
      in case registry_Get r provKey of
           None \<Rightarrow> ret (diagnosed ''provider_unsupported'' True, th)
         | Some p \<Rightarrow>
             if \<not> pp_SupportsQuery p then ret (diagnosed ''provider_unsupported'' True, th)
             else bnd (attempt_reference bytes pay) (\<lambda>(providerRef, payload).
               let th = throttle_Store (p_ID pay) started th
               in case pp_Query p (query_lookup provKey orderID pay providerRef machineExternalCode payload) of
                    Inl e \<Rightarrow> ret (diagnosed ''provider_error'' False, th)
                  | Inr snap \<Rightarrow>
                      if ToLower (TrimSpace (sn_NormalizedState snap)) \<noteq> ''captured''
                      then ret (diagnosed (if ToLower (TrimSpace (sn_NormalizedState snap)) = ''failed''
                                           then ''provider_reported_failure'' else ''provider_pending'') False, th)
                      else bnd (attempt (svc_ApplyPaymentProviderWebhook (sv_audit sv) (query_event provKey orderID pay providerRef snap))) (\<lambda>res.
                        ret (diagnosed (case res of Inl e \<Rightarrow> ''apply_rejected'' | Inr w \<Rightarrow> ''captured'') False, th))))"

definition RefreshPendingPaymentFromProviderForPayment ::
  "(uuid \<Rightarrow> 8 word list) \<Rightarrow> service \<Rightarrow> registry option \<Rightarrow> bool \<Rightarrow> uuid \<Rightarrow> uuid \<Rightarrow> string \<Rightarrow> throttle \<Rightarrow> (refresh_outcome \<times> throttle) q" where
  "RefreshPendingPaymentFromProviderForPayment bytes sv reg webhook orderID paymentID machineExternalCode th =
     (case reg of
        None \<Rightarrow> ret (diagnosed ''not_configured'' False, th)
      | Some r \<Rightarrow>
          if \<not> sv_life sv \<or> \<not> webhook then ret (diagnosed ''not_configured'' False, th)
          else if orderID = uuid_Nil \<or> paymentID = uuid_Nil then ret (diagnosed ''invalid_ids'' False, th)
          else bnd (reads db_now) (\<lambda>started.
               bnd (attempt (GetPaymentByID paymentID)) (\<lambda>found. case found of
                 Inl e \<Rightarrow> ret (diagnosed ''payment_lookup_error'' False, th)
               | Inr pay \<Rightarrow>
                   if p_OrderID pay \<noteq> orderID then ret (diagnosed ''payment_order_mismatch'' False, th)
                   else if \<not> isPendingPaymentQueryState (p_State pay) then ret (diagnosed ''skipped_terminal_state'' True, th)
                   else if \<not> paymentQueryThrottleAllows th (p_ID pay) (p_CreatedAt pay) started
                   then ret (diagnosed ''provider_throttled'' True, th)
                   else refreshPaymentFromProvider bytes sv r orderID pay machineExternalCode started th)))"

definition pendingPaymentsForQueryRefresh :: "service \<Rightarrow> uuid \<Rightarrow> payment list q" where
  "pendingPaymentsForQueryRefresh sv orderID =
     bnd (if sv_financial sv then ListPaymentsForOrder orderID
          else if sv_life sv then bnd (GetLatestPaymentForOrder orderID) (\<lambda>pay. ret [pay])
          else raise (Err ErrNotConfigured))
       (\<lambda>all. ret (filter (\<lambda>pay. isPendingPaymentQueryState (p_State pay)) all))"

text \<open>\<open>asked\<close> is the number of payments asked so far; \<open>cancelled\<close> tells whether the context has ended by then.\<close>

fun refresh_each ::
  "(uuid \<Rightarrow> 8 word list) \<Rightarrow> service \<Rightarrow> registry option \<Rightarrow> bool \<Rightarrow> (nat \<Rightarrow> bool) \<Rightarrow> uuid \<Rightarrow> string
   \<Rightarrow> nat \<Rightarrow> string \<Rightarrow> payment list \<Rightarrow> throttle \<Rightarrow> (refresh_outcome \<times> throttle) q" where
  "refresh_each bytes sv reg webhook cancelled orderID machineCode asked latest [] th = ret (diagnosed latest False, th)"
| "refresh_each bytes sv reg webhook cancelled orderID machineCode asked latest (pay # pending) th =
     (if cancelled asked then ret (diagnosed latest False, th)
      else bnd (RefreshPendingPaymentFromProviderForPayment bytes sv reg webhook orderID (p_ID pay) machineCode th) (\<lambda>(refresh, th).
        let d = TrimSpace (ro_Diagnostic refresh); d = (if d = [] then ''awaiting_callback'' else d)
        in if d = ''captured'' then ret (diagnosed ''captured'' False, th)
           else refresh_each bytes sv reg webhook cancelled orderID machineCode (Suc asked) d pending th))"

definition RefreshPendingPaymentFromProvider ::
  "(uuid \<Rightarrow> 8 word list) \<Rightarrow> service \<Rightarrow> registry option \<Rightarrow> bool \<Rightarrow> (nat \<Rightarrow> bool) \<Rightarrow> uuid \<Rightarrow> string \<Rightarrow> throttle \<Rightarrow> (refresh_outcome \<times> throttle) q" where
  "RefreshPendingPaymentFromProvider bytes sv reg webhook cancelled orderID machineCode th =
     (if reg = None \<or> \<not> sv_life sv \<or> \<not> webhook then ret (diagnosed ''not_configured'' False, th)
      else bnd (attempt (resolveAuthoritativePayment sv orderID)) (\<lambda>winner.
        if (case winner of Inr pay \<Rightarrow> ToLower (TrimSpace (p_State pay)) = ''captured'' | Inl e \<Rightarrow> False)
        then ret (diagnosed ''skipped_terminal_state'' True, th)
        else bnd (attempt (pendingPaymentsForQueryRefresh sv orderID)) (\<lambda>listed. case listed of
          Inl e \<Rightarrow> ret (diagnosed ''checkout_status_error'' False, th)
        | Inr [] \<Rightarrow> ret (diagnosed ''no_payment'' False, th)
        | Inr pending \<Rightarrow>
            refresh_each bytes sv reg webhook cancelled orderID machineCode 0 ''awaiting_callback'' (sort_key p_CreatedAt pending) th)))"

definition oldest_step :: "time \<Rightarrow> payment \<Rightarrow> time" where
  "oldest_step oldest pay =
     (if oldest = 0 \<or> p_CreatedAt pay \<noteq> 0 \<and> p_CreatedAt pay < oldest then p_CreatedAt pay else oldest)"

definition OldestPendingPaymentCreatedAt :: "service \<Rightarrow> uuid \<Rightarrow> time option q" where
  "OldestPendingPaymentCreatedAt sv orderID =
     bnd (pendingPaymentsForQueryRefresh sv orderID) (\<lambda>pending. case pending of
       [] \<Rightarrow> ret None
     | pay # rest \<Rightarrow> ret (Some (foldl oldest_step (p_CreatedAt pay) rest)))"

end
