(* ===== verification/Session_Safety.thy ===== *)
theory Session_Safety
  imports Payment_Session Cash_Confirm_Safety Cash_Safety
begin

text \<open>
  Payment sessions and provider queries: a provider is asked only about money that is already recorded, a query
  can only capture, and the queries about one payment keep their distance.
\<close>

section \<open>A session is recorded first\<close>

definition attempt_recorded :: "db \<Rightarrow> uuid \<Rightarrow> string \<Rightarrow> bool" where
  "attempt_recorded s pid ref \<longleftrightarrow> (\<exists>a \<in> set (db_attempts s). pa_PaymentID a = pid \<and> at_ProviderReference a = Some ref)"

lemma insert_attempt_run:
  assumes "q_InsertPaymentAttempt pid ref st payload s = (Inr a, t)"
  shows "db_attempts t = db_attempts s @ [a] \<and> pa_PaymentID a = pid \<and> at_ProviderReference a = ref \<and> db_payments t = db_payments s"
  using assms unfolding q_InsertPaymentAttempt_def
  by (auto simp: bnd_def seq_def gen_uuid_def Let_def)

lemma failed_payment_undone: "CreatePaymentWithOutbox q s = (Inl e, t) \<Longrightarrow> t = s"
  by (auto simp: CreatePaymentWithOutbox_def tx_def split: if_splits prod.splits sum.splits)

lemma start_payment_as_asked:
  assumes "sp_SkipOrderLookup inp" "sv_payments sv" "validateStartPayment inp = Inr ()"
  shows "\<exists>q. StartPaymentWithOutbox sv inp = CreatePaymentWithOutbox q
      \<and> po_OrderID q = po_OrderID inp \<and> po_AmountMinor q = po_AmountMinor inp \<and> po_PaymentState q = po_PaymentState inp
      \<and> po_BindAttemptState q = po_BindAttemptState inp \<and> po_BindProviderReference q = po_BindProviderReference inp"
  unfolding StartPaymentWithOutbox_def configured_def
  by (intro exI conjI, simp add: assms whenM_def) (simp_all add: payment_outbox_input.truncate_def)

lemma session_payment_sel [simp]:
  "sp_SkipOrderLookup (session_payment inp ord pkey key ref)" "po_OrderID (session_payment inp ord pkey key ref) = mi_OrderID inp"
  "po_AmountMinor (session_payment inp ord pkey key ref) = o_TotalMinor ord"
  "po_PaymentState (session_payment inp ord pkey key ref) = ''created''"
  "po_BindAttemptState (session_payment inp ord pkey key ref) = ''created''"
  "po_BindProviderReference (session_payment inp ord pkey key ref) = ref"
  by (simp_all add: session_payment_def)

lemma start_session_run:
  assumes "StartPaymentWithOutbox sv (session_payment inp ord pkey key ref) s = (x, t)"
  shows "isl x \<and> t = s \<or> (\<exists>q. CreatePaymentWithOutbox q s = (x, t)
    \<and> po_OrderID q = mi_OrderID inp \<and> po_AmountMinor q = o_TotalMinor ord \<and> po_PaymentState q = ''created''
    \<and> po_BindAttemptState q = ''created'' \<and> po_BindProviderReference q = ref)"
proof (cases "sv_payments sv \<and> validateStartPayment (session_payment inp ord pkey key ref) = Inr ()")
  case True
  with start_payment_as_asked [of "session_payment inp ord pkey key ref" sv] assms show ?thesis by auto
next
  case False
  then show ?thesis using assms
    by (cases "validateStartPayment (session_payment inp ord pkey key ref)") (auto simp: StartPaymentWithOutbox_def configured_def split: if_splits)
qed

lemma created_state_trimmed: "TrimSpace ''created'' = ''created''"
  by code_simp

lemma fresh_payment_recorded:
  assumes "CreatePaymentWithOutbox q s = (Inr res, t)" and "\<not> por_Replay res" and "po_BindAttemptState q = ''created''"
  shows "db_payments t = db_payments s @ [por_Payment res] \<and> p_OrderID (por_Payment res) = po_OrderID q
    \<and> p_AmountMinor (por_Payment res) = po_AmountMinor q \<and> p_State (por_Payment res) = po_PaymentState q
    \<and> (TrimSpace (po_BindProviderReference q) \<noteq> [] \<longrightarrow> attempt_recorded t (p_ID (por_Payment res)) (TrimSpace (po_BindProviderReference q)))"
  using assms(1)
proof (cases rule: create_payment_cases)
  case (fresh n s1 s2 s3)
  from fresh(6) obtain a where a: "q_InsertPaymentAttempt (p_ID (por_Payment res)) (pgTextOrEmpty (po_BindProviderReference q))
      ''created'' (RequiredString (po_BindPayload q)) s3 = (Inr a, t)"
    by (auto simp: bind_attempt_def assms(3) created_state_trimmed seq_Inr whenM_def)
  have "db_payments s3 = db_payments s2" using insert_event_row [OF fresh(5) [unfolded payment_event_def]] by simp
  moreover have "s1 = s" using allocate_run [OF fresh(3)] by simp
  ultimately show ?thesis
    using insert_payment_row [OF fresh(4)] insert_attempt_run [OF a]
    by (auto simp: attempt_recorded_def new_payment_def pgTextOrEmpty_def)
next
  case replay
  with assms(2) show ?thesis by simp
qed

lemma latest_attempt_reads [keeps_intros]:
  "keeps f (GetLatestPaymentAttemptPayload i)" "keeps f (GetLatestPaymentAttemptProviderReference i)"
proof -
  have "keeps f (q_GetLatestPaymentAttemptPayload i)" "keeps f (q_GetLatestPaymentAttemptProviderReference i)"
    by (auto simp: moves_def q_GetLatestPaymentAttemptPayload_def q_GetLatestPaymentAttemptProviderReference_def split: list.split)
  then show "keeps f (GetLatestPaymentAttemptPayload i)" "keeps f (GetLatestPaymentAttemptProviderReference i)"
    unfolding GetLatestPaymentAttemptPayload_def GetLatestPaymentAttemptProviderReference_def
    by (intro keeps_intros moves_unless_aborted; simp)+
qed

lemma keeps_session_reads:
  "keeps db_payments (session_order inp)" "keeps db_payments (session_reference bytes inp)" "keeps f (replayed_session ord pkey res)"
  unfolding session_order_def session_reference_def replayed_session_def replayQRPayloadFromStoredAttempt_def GetOrderByID_def q_GetOrderByID_def Let_def
  by (intro keeps_intros keeps_select_one moves_no_rows_as; simp)+

lemma provider_session_run:
  assumes "provider_session sv inp prov pkey key ref ord res s = (x, t)"
  shows "db_payments t = db_payments s \<and> set (db_attempts s) \<subseteq> set (db_attempts t)
    \<and> (\<forall>out. x = Inr out \<longrightarrow> mq_Payment out = por_Payment res \<and> attempt_recorded t (p_ID (por_Payment res)) (mq_ProviderReference out)
        \<and> (\<exists>sess. pp_CreateSession prov (psp_request inp ord key ref (por_Payment res)) = Inr sess))"
proof (cases "pp_CreateSession prov (psp_request inp ord key ref (por_Payment res))")
  case (Inr sess)
  show ?thesis
  proof (cases "x")
    case err: (Inl e)
    with Inr assms show ?thesis
      by (auto simp: provider_session_def Let_def BindPaymentAttempt_def configured_def InsertPaymentAttempt_def q_InsertPaymentAttempt_def
        seq_def bnd_def gen_uuid_def split: if_splits)
  next
    case ok: (Inr out)
    with Inr assms obtain a where "q_InsertPaymentAttempt (p_ID (por_Payment res)) (Some (bound_reference ref sess)) ''created''
        (RequiredString (attempt_payload (bound_reference ref sess) sess)) s = (Inr a, t)"
      and out: "out = session_of pkey res (bound_reference ref sess) sess"
      by (auto simp: provider_session_def Let_def BindPaymentAttempt_def configured_def InsertPaymentAttempt_def seq_Inr bnd_Inr split: if_splits)
    with insert_attempt_run [OF this(1)] Inr ok show ?thesis
      by (auto simp: attempt_recorded_def session_of_def started_session_def)
  qed
qed (use assms in \<open>auto simp: provider_session_def\<close>)

lemma reference_ready:
  assumes "\<And>u. length (bytes u) = 16" and "session_reference bytes inp s = (Inr ref, t)"
  shows "ref \<noteq> [] \<and> TrimSpace ref = ref"
proof (cases "TrimSpace (mi_ProviderReference inp) = []")
  case True
  with assms(2) obtain u where "ref = reference_of bytes u" by (auto simp: session_reference_def bnd_Inr)
  with generate_run [OF assms(1)] have r: "ref = numeral32 21 (be_number (bytes u) div 2 ^ 23)" by (simp add: reference_of_def)
  have "\<not> is_space c" if "c \<in> set crockfordAlphabet" for c
  proof -
    have "list_all (\<lambda>c. \<not> is_space c) crockfordAlphabet" by code_simp
    with that show ?thesis by (simp add: list_all_iff)
  qed
  moreover have "set ref \<subseteq> set crockfordAlphabet" unfolding r by (rule set_numeral32)
  moreover have "length ref = 21" unfolding r by (rule length_numeral32)
  then have "ref \<noteq> []" by auto
  ultimately show ?thesis by (meson TrimSpace_id hd_in_set last_in_set subsetD)
next
  case False
  with assms(2) show ?thesis by (auto simp: session_reference_def)
qed

lemma session_run:
  assumes "CreateMachinePaymentSession bytes sv (Some r) inp s = (x, t)"
  shows "db_payments t = db_payments s \<or> (\<exists>ord prov pkey u. session_terms inp ord = Inr ()
    \<and> ResolveForPaymentSession r (mi_AppEnv inp) (mi_ClientProvider inp) = Inr (prov, pkey) \<and> db_payments u = db_payments s
    \<and> open_session bytes sv inp prov pkey (TrimSpace (mi_IdempotencyKey inp)) ord u = (x, t))"
proof -
  obtain y u where o: "session_order inp s = (y, u)" by fastforce
  note u = keeps_run [OF keeps_session_reads(1) o]
  show ?thesis
  proof (cases y)
    case (Inl e)
    with assms o u show ?thesis
      by (auto simp: CreateMachinePaymentSession_def configured_def Let_def bnd_def split: if_splits)
  next
    case (Inr ord)
    with assms o u show ?thesis
      by (cases "session_terms inp ord"; cases "ResolveForPaymentSession r (mi_AppEnv inp) (mi_ClientProvider inp)")
        (auto simp: CreateMachinePaymentSession_def configured_def Let_def bnd_def seq_def split: if_splits)
  qed
qed

lemma open_session_run:
  assumes "open_session bytes sv inp prov pkey key ord s = (x, t)" and "\<And>u. length (bytes u) = 16"
  shows "db_payments t = db_payments s \<or> (\<exists>pay ref. db_payments t = db_payments s @ [pay] \<and> p_OrderID pay = mi_OrderID inp
    \<and> p_AmountMinor pay = o_TotalMinor ord \<and> p_State pay = ''created'' \<and> attempt_recorded t (p_ID pay) ref
    \<and> (\<forall>out. x = Inr out \<longrightarrow> mq_Payment out = pay \<and> attempt_recorded t (p_ID pay) (mq_ProviderReference out)
        \<and> (\<exists>sess. pp_CreateSession prov (psp_request inp ord key ref pay) = Inr sess)))"
proof -
  obtain y u where ref: "session_reference bytes inp s = (y, u)" by fastforce
  note u = keeps_run [OF keeps_session_reads(2) ref]
  show ?thesis
  proof (cases y)
    case (Inl e)
    with assms ref u show ?thesis by (auto simp: open_session_def bnd_def)
  next
    case (Inr r)
    obtain z v where start: "StartPaymentWithOutbox sv (session_payment inp ord pkey key r) u = (z, v)" by fastforce
    show ?thesis
    proof (cases z)
      case err: (Inl e)
      then have "v = u" using start_session_run [OF start] failed_payment_undone by auto
      with assms(1) ref start Inr err u show ?thesis by (auto simp: open_session_def bnd_def)
    next
      case ok: (Inr res)
      with start_session_run [OF start] obtain q where q: "CreatePaymentWithOutbox q u = (Inr res, v)"
        "po_OrderID q = mi_OrderID inp" "po_AmountMinor q = o_TotalMinor ord" "po_PaymentState q = ''created''"
        "po_BindAttemptState q = ''created''" "po_BindProviderReference q = r" by auto
      show ?thesis
      proof (cases "por_Replay res")
        case True
        with assms(1) ref start Inr ok have "replayed_session ord pkey res v = (x, t)" by (simp add: open_session_def bnd_def)
        then have "db_payments t = db_payments v" by (rule keeps_run [OF keeps_session_reads(3)])
        moreover have "db_payments v = db_payments u" using q(1) True by (cases rule: create_payment_cases) auto
        ultimately show ?thesis using u by simp
      next
        case False
        with assms(1) ref start Inr ok have "provider_session sv inp prov pkey key r ord res v = (x, t)" by (simp add: open_session_def bnd_def)
        note p = provider_session_run [OF this]
        have "r \<noteq> [] \<and> TrimSpace r = r" by (rule reference_ready [OF assms(2) ref [unfolded Inr]])
        then show ?thesis using fresh_payment_recorded [OF q(1) False q(5)] p q u
          by (intro disjI2 exI [of _ "por_Payment res"] exI [of _ r]) (auto simp: attempt_recorded_def)
      qed
    qed
  qed
qed


end
