(* ===== verification/Session_Queries.thy ===== *)
theory Session_Queries
  imports Session_Safety
begin

text \<open>
  What a query to the provider can do: it can only capture, and the queries about one payment keep a distance.
\<close>

section \<open>A query can only capture\<close>

definition capture_only :: "uuid \<Rightarrow> db \<Rightarrow> db \<Rightarrow> bool" where
  "capture_only oid s t \<longleftrightarrow>
     list_all2 (\<lambda>p p'. p' = p \<or> p_OrderID p = oid \<and> p' = p\<lparr>p_State := ''captured''\<rparr>) (pay_cores s) (pay_cores t)"

lemma pay_cores_ids: "map p_ID (pay_cores s) = map p_ID (db_payments s)"
  by (simp add: pay_cores_def pay_core_def)

lemma capture_only_ids: "capture_only oid s t \<Longrightarrow> map p_ID (db_payments t) = map p_ID (db_payments s)"
  unfolding capture_only_def pay_cores_ids [symmetric]
  by (induction rule: list_all2_induct) auto

text \<open>The relation is transitive, and identifiers stay distinct along it, which the delivery lemma needs.\<close>

interpretation captures: evolution "\<lambda>s t. distinct (map p_ID (db_payments s)) \<longrightarrow> capture_only oid s t" for oid
proof
  fix s show "distinct (map p_ID (db_payments s)) \<longrightarrow> capture_only oid s s"
    by (simp add: capture_only_def list_all2_refl)
next
  fix s t u
  assume a: "distinct (map p_ID (db_payments s)) \<longrightarrow> capture_only oid s t" "distinct (map p_ID (db_payments t)) \<longrightarrow> capture_only oid t u"
  show "distinct (map p_ID (db_payments s)) \<longrightarrow> capture_only oid s u"
  proof
    assume d: "distinct (map p_ID (db_payments s))"
    with a(1) have st: "capture_only oid s t" by blast
    with a(2) d have "capture_only oid t u" by (simp add: capture_only_ids)
    with st show "capture_only oid s u" unfolding capture_only_def by (rule list_all2_trans [rotated]) auto
  qed
qed

abbreviation captures :: "uuid \<Rightarrow> 'a q \<Rightarrow> bool" where
  "captures oid m \<equiv> moves (\<lambda>s t. distinct (map p_ID (db_payments s)) \<longrightarrow> capture_only oid s t) m"

lemma captures_keeps: "keeps pay_cores m \<Longrightarrow> captures oid m"
  by (auto simp: moves_def capture_only_def list_all2_refl dest: spec)

lemma captured_trimmed: "ToLower (TrimSpace ''captured'') = ''captured''" "TrimSpace (ToLower ''captured'') = ''captured''"
  by code_simp+

lemma captures_delivery:
  assumes "webhook_target (webhook_normalized inp) = ''captured''"
  shows "captures (wi_OrderID inp) (svc_ApplyPaymentProviderWebhook a inp)"
proof -
  have oid: "wi_OrderID (webhook_normalized inp) = wi_OrderID inp" by (simp add: webhook_normalized_def)
  have "captures (wi_OrderID inp) (store_ApplyPaymentProviderWebhook a (webhook_normalized inp))"
    unfolding moves_def
  proof (intro allI impI)
    fix s :: db assume "distinct (map p_ID (db_payments s))"
    then have "list_all2 (delivery_step (webhook_normalized inp) s) (pay_cores s) (pay_cores (snd (store_ApplyPaymentProviderWebhook a (webhook_normalized inp) s)))"
      by (rule delivery_steps [OF prod.collapse [symmetric]])
    then show "capture_only (wi_OrderID inp) s (snd (store_ApplyPaymentProviderWebhook a (webhook_normalized inp) s))"
      unfolding capture_only_def by (rule list_all2_mono) (auto simp: delivery_step_def assms oid)
  qed
  then show ?thesis unfolding svc_ApplyPaymentProviderWebhook_def by (intro captures.moves_rules)
qed

lemma captures_refresh_payment: "captures oid (refreshPaymentFromProvider bytes sv r oid pay mc started th)"
proof -
  have ref: "keeps pay_cores (attempt_reference bytes pay)"
    unfolding attempt_reference_def Let_def by (intro keeps_intros)
  have "captures oid (svc_ApplyPaymentProviderWebhook a (query_event k oid pay rf sn))"
    if "ToLower (TrimSpace (sn_NormalizedState sn)) = ''captured''" for a k rf sn
    using captures_delivery [of "query_event k oid pay rf sn"]
    by (simp add: query_event_def webhook_normalized_def webhook_target_def captured_trimmed that)
  then show ?thesis
    unfolding refreshPaymentFromProvider_def Let_def
    by (auto intro!: captures.moves_ret captures.moves_bnd captures.moves_attempt captures_keeps [OF ref] split: option.split sum.split)
qed

lemma captures_refresh_for_payment:
  "captures oid (RefreshPendingPaymentFromProviderForPayment bytes sv reg wh oid pid mc th)"
proof -
  have "keeps pay_cores (GetPaymentByID pid)"
    unfolding GetPaymentByID_def q_GetPaymentByID_def by (intro keeps_intros keeps_select_one moves_no_rows_as; simp)
  then show ?thesis
    unfolding RefreshPendingPaymentFromProviderForPayment_def
    by (intro captures.moves_rules captures_keeps captures_refresh_payment)
qed

lemma captures_refresh_each: "captures oid (refresh_each bytes sv reg wh cancelled oid mc n d pending th)"
  by (induction pending arbitrary: n d th)
    (auto simp: Let_def intro!: captures.moves_rules captures_refresh_for_payment)

text \<open>An operation that never fails.\<close>

definition answers :: "'a q \<Rightarrow> bool" where
  "answers m \<longleftrightarrow> (\<forall>s. \<not> isl (fst (m s)))"

lemma answers_rules:
  "answers (ret x)" "answers (attempt m)" "answers (reads f)"
  "answers m \<Longrightarrow> (\<And>x. answers (g x)) \<Longrightarrow> answers (bnd m g)"
  "(b \<Longrightarrow> answers m) \<Longrightarrow> (\<not> b \<Longrightarrow> answers n) \<Longrightarrow> answers (if b then m else n)"
proof -
  show "answers (bnd m g)" if m: "answers m" and g: "\<And>x. answers (g x)"
    unfolding answers_def
  proof
    fix s
    from m obtain x t where "m s = (Inr x, t)" unfolding answers_def by (metis isl_def prod.collapse sum.exhaust_sel)
    with g show "\<not> isl (fst (bnd m g s))" by (simp add: answers_def)
  qed
qed (auto simp: answers_def attempt_def split: prod.splits)

lemma answers_reference: "answers (attempt_reference bytes pay)"
  unfolding attempt_reference_def Let_def by (intro answers_rules)

lemma answers_refresh_payment: "answers (refreshPaymentFromProvider bytes sv r oid pay mc started th)"
  unfolding refreshPaymentFromProvider_def Let_def
  by (auto intro!: answers_rules answers_reference split: option.split sum.split)

lemma answers_refresh_for_payment: "answers (RefreshPendingPaymentFromProviderForPayment bytes sv reg wh oid pid mc th)"
  unfolding RefreshPendingPaymentFromProviderForPayment_def
  by (auto intro!: answers_rules answers_refresh_payment split: option.split sum.split)

lemma answers_refresh_each: "answers (refresh_each bytes sv reg wh cancelled oid mc n d pending th)"
  by (induction pending arbitrary: n d th)
    (auto simp: Let_def intro!: answers_rules answers_refresh_for_payment)

lemma read_only_pending:
  "read_only (resolveAuthoritativePayment sv oid)" "read_only (pendingPaymentsForQueryRefresh sv oid)"
proof -
  have "read_only (q_GetLatestPaymentForOrder oid)" "read_only (q_GetWinningPaymentForOrder oid)" "read_only (q_ListPaymentsForOrder oid)"
    by (auto simp: moves_def q_GetLatestPaymentForOrder_def q_GetWinningPaymentForOrder_def q_ListPaymentsForOrder_def
        q_GetPaymentByID_def select_one_def split: list.split option.split)
  note this [THEN moves_no_rows_as] this
  then show "read_only (resolveAuthoritativePayment sv oid)" "read_only (pendingPaymentsForQueryRefresh sv oid)"
    unfolding resolveAuthoritativePayment_def pendingPaymentsForQueryRefresh_def configured_def ListPaymentsForOrder_def
      GetWinningPaymentForOrder_def GetLatestPaymentForOrder_def
    by (intro frozen.moves_rules; simp)+
qed


section \<open>Queries keep their distance\<close>

definition provider_asked :: "refresh_outcome \<Rightarrow> bool" where
  "provider_asked out \<longleftrightarrow>
     ro_Diagnostic out \<in> {''provider_error'', ''provider_reported_failure'', ''provider_pending'', ''apply_rejected'', ''captured''}"

lemma asked_diagnosed: "provider_asked (diagnosed d b) \<longleftrightarrow>
    d \<in> {''provider_error'', ''provider_reported_failure'', ''provider_pending'', ''apply_rejected'', ''captured''}"
  by (simp add: provider_asked_def diagnosed_def)

lemma asked_is_stored:
  assumes "refreshPaymentFromProvider bytes sv r oid pay mc started th s = (Inr (out, th'), t)" and "provider_asked out"
  shows "map_of th' (p_ID pay) = Some started"
proof -
  let ?k = "ToLower (TrimSpace (p_Provider pay))"
  obtain p where p: "registry_Get r ?k = Some p" "pp_SupportsQuery p"
    using assms by (auto simp: refreshPaymentFromProvider_def asked_diagnosed Let_def split: option.splits if_splits)
  with assms(1) obtain ref payload u where "attempt_reference bytes pay s = (Inr (ref, payload), u)"
    by (auto simp: refreshPaymentFromProvider_def Let_def bnd_Inr)
  with assms(1) p have "th' = throttle_Store (p_ID pay) started th"
    by (cases "pp_Query p (query_lookup ?k oid pay ref mc payload)")
      (auto simp: refreshPaymentFromProvider_def Let_def bnd_Inr split: if_splits)
  then show ?thesis by (simp add: throttle_Store_def)
qed

lemma get_payment_id: "GetPaymentByID pid s = (r, t) \<Longrightarrow> t = s \<and> (\<forall>pay. r = Inr pay \<longrightarrow> p_ID pay = pid)"
  by (auto simp: GetPaymentByID_def q_GetPaymentByID_def no_rows_as_def select_one_def dest: find_SomeD split: option.splits if_splits)

lemma throttled:
  assumes "map_of th pid = Some before" and "pid \<noteq> uuid_Nil" and "now - before < paymentQueryMinIntervalActiveQR"
  shows "\<not> paymentQueryThrottleAllows th pid createdAt now"
  using assms
  by (auto simp: paymentQueryThrottleAllows_def paymentQueryMinInterval_def time_Sub_def paymentQueryMinIntervalActiveQR_def
      paymentQueryMinIntervalDefault_def nanos_Second_def)

text \<open>
  A provider is not asked twice about a payment within a second and a half. After a query in which the provider
  was asked, every query for the payment in that time leaves the database and the throttle alone, whatever the
  providers would answer.
\<close>

theorem queries_keep_distance:
  assumes "RefreshPendingPaymentFromProviderForPayment bytes sv reg wh oid pid mc th s = (Inr (out, th'), t)" and "provider_asked out"
    and "db_now u - db_now s < paymentQueryMinIntervalActiveQR"
  shows "\<exists>out'. RefreshPendingPaymentFromProviderForPayment bytes' sv' reg' wh' oid' pid mc' th' u = (Inr (out', th'), u) \<and> \<not> provider_asked out'"
proof -
  obtain x w where got: "GetPaymentByID pid s = (x, w)" by fastforce
  have "pid \<noteq> uuid_Nil \<and> map_of th' pid = Some (db_now s)"
    using assms(1,2) got get_payment_id [OF got]
    by (auto simp: RefreshPendingPaymentFromProviderForPayment_def bnd_Inr asked_diagnosed
        dest: asked_is_stored split: option.splits if_splits sum.splits)
  then have quiet: "\<not> paymentQueryThrottleAllows th' pid c (db_now u)" for c
    using assms(3) throttled by blast
  obtain r v where "GetPaymentByID pid u = (r, v)" by fastforce
  with get_payment_id [OF this] quiet show ?thesis
    by (cases r) (auto simp: RefreshPendingPaymentFromProviderForPayment_def asked_diagnosed split: option.split)
qed

end
