(* ===== verification/Session_Runs.thy ===== *)
theory Session_Runs
  imports Session_Queries
begin

text \<open>Concrete sessions and queries: the hypotheses of the session theorems hold on them, and one shows a limit.\<close>

section \<open>Sample sessions\<close>

definition zero_bytes :: "uuid \<Rightarrow> 8 word list" where
  "zero_bytes u = replicate 16 0"

definition sample_session :: session_input where
  "sample_session =
     \<lparr>mi_OrderID = UUID ''o1'', mi_MachineID = UUID ''m1'', mi_IdempotencyKey = ''session-1'', mi_ClientProvider = ''momo_qr'',
      mi_ClientPayState = [], mi_AmountMinor = 500, mi_Currency = ''vnd'', mi_AppEnv = ''production'',
      mi_OutboxTopic = ''commerce.payments'', mi_OutboxEventType = ''payment.session'', mi_OutboxAggregate = ''payment'',
      mi_MachineExternalCode = ''M1'', mi_StoreID = [], mi_ProviderReference = ''R1'', mi_PreferredMethod = [], mi_AttemptSeq = 0,
      mi_SupersedesPaymentID = None, mi_LoadedOrder = None\<rparr>"

text \<open>The registry while the provider does not answer.\<close>

definition down_registry :: registry where
  "down_registry = registry_Register sample_registry (sample_psp\<lparr>pp_CreateSession := \<lambda>inp. Inl (GoErr ErrOther ''timeout'')\<rparr>)"

definition session_db :: db where
  "session_db = snd (CreateMachinePaymentSession zero_bytes sample_svc (Some sample_registry) sample_session unpaid_db)"

lemma run_split: "m s = (fst (m s), snd (m s))"
  by simp



theorem queries_keep_distance_witness:
  "\<exists>pid out th' out'. RefreshPendingPaymentFromProviderForPayment zero_bytes sample_svc (Some sample_registry) True (UUID ''o1'') pid ''M1'' [] session_db
       = (Inr (out, th'), snd (RefreshPendingPaymentFromProviderForPayment zero_bytes sample_svc (Some sample_registry) True (UUID ''o1'') pid ''M1'' [] session_db))
     \<and> RefreshPendingPaymentFromProviderForPayment zero_bytes sample_svc (Some sample_registry) True (UUID ''o1'') pid ''M1'' th' session_db
       = (Inr (out', th'), session_db) \<and> \<not> provider_asked out'"
proof -
  let ?p = "p_ID (last (db_payments session_db))"
  let ?m = "RefreshPendingPaymentFromProviderForPayment zero_bytes sample_svc (Some sample_registry) True (UUID ''o1'') ?p ''M1''"
  have "case fst (?m [] session_db) of Inl e \<Rightarrow> False | Inr r \<Rightarrow> provider_asked (fst r)" by code_simp
  then obtain out th' where run: "?m [] session_db = (Inr (out, th'), snd (?m [] session_db))" "provider_asked out"
    by (cases "?m [] session_db") (auto split: sum.splits)
  have "db_now session_db - db_now session_db < paymentQueryMinIntervalActiveQR" by (simp add: paymentQueryMinIntervalActiveQR_def nanos_Second_def)
  from queries_keep_distance [OF run this] run(1) show ?thesis by blast
qed

text \<open>
  C1: A session whose provider call failed cannot be obtained by repeating the request. The first request stores
  the payment and its attempt before the provider fails; the repetition, with the provider available again, finds
  them, is answered as a success, and carries neither a code to show nor a reference, and the provider is not asked.
\<close>

theorem session_retry_without_code:
  "(case CreateMachinePaymentSession zero_bytes sample_svc (Some down_registry) sample_session unpaid_db of
      (Inr out, t) \<Rightarrow> False
    | (Inl e, t) \<Rightarrow>
        err_msg e = ''timeout''
        \<and> (case CreateMachinePaymentSession zero_bytes sample_svc (Some sample_registry) sample_session t of
             (Inl e, u) \<Rightarrow> False
           | (Inr out, u) \<Rightarrow> mq_Replay out \<and> mq_QRPayloadOrURL out = [] \<and> mq_ProviderReference out = [] \<and> mq_PaymentURL out = []))"
  by code_simp

end
