(* ===== verification/Operator_Sessions.thy ===== *)
theory Operator_Sessions
  imports Commerce_Types
begin

text \<open>
  Login sessions of service personnel at a machine: the domain rules of \<open>internal/domain/operator\<close>, the
  repository \<open>internal/modules/postgres/operator_repository.go\<close> with the statements of
  \<open>db/queries/operator.sql\<close> and the constraints of their tables, and the application service of
  \<open>internal/app/operator\<close>. The state holds the three tables, the fleet rows that are consulted, and
  two clocks: \<open>od_now\<close> is the database's \<open>now()\<close>, \<open>od_clock\<close> the \<open>time.Now()\<close> of the server; each is
  constant during one operation. Rows that \<open>ORDER BY\<close> leaves tied keep the order of the table.
\<close>

section \<open>Errors\<close>

definition operator_error :: "string \<Rightarrow> go_err" where
  "operator_error m = GoErr ErrOther (''operator: '' @ m)"

definition ErrInvalidActor :: go_err where
  "ErrInvalidActor = operator_error ''actor_type does not match technician_id/user_principal''"

definition ErrCompanyMismatch :: go_err where
  "ErrCompanyMismatch = operator_error ''company context does not match machine or technician''"

definition ErrActiveSessionExists :: go_err where
  "ErrActiveSessionExists = operator_error ''machine already has an active session''"

definition ErrNoActiveSession :: go_err where
  "ErrNoActiveSession = operator_error ''no active session for machine''"

definition ErrSessionNotFound :: go_err where
  "ErrSessionNotFound = operator_error ''session not found''"

definition ErrSessionMachineMismatch :: go_err where
  "ErrSessionMachineMismatch = operator_error ''session does not belong to this machine''"

definition ErrSessionNotActive :: go_err where
  "ErrSessionNotActive = operator_error ''session is not active''"

definition ErrOperatorSessionRequired :: go_err where
  "ErrOperatorSessionRequired = operator_error ''operator_session_id is required for this physical machine action''"

definition ErrTimeoutNotApplicable :: go_err where
  "ErrTimeoutNotApplicable = operator_error ''session is not eligible for expiry timeout''"

definition ErrInvalidAuthMethod :: go_err where
  "ErrInvalidAuthMethod = operator_error ''unknown auth_method''"

definition ErrInvalidAuthEventType :: go_err where
  "ErrInvalidAuthEventType = operator_error ''unknown auth event_type''"

definition ErrInvalidActionOriginType :: go_err where
  "ErrInvalidActionOriginType = operator_error ''unknown action_origin_type''"

definition ErrInvalidSessionEndStatus :: go_err where
  "ErrInvalidSessionEndStatus = operator_error ''end status must be ENDED or REVOKED''"

definition ErrTechnicianNotAssignedToMachine :: go_err where
  "ErrTechnicianNotAssignedToMachine = operator_error ''technician has no active assignment to this machine''"

definition ErrTechnicianAssignmentCheckerRequired :: go_err where
  "ErrTechnicianAssignmentCheckerRequired =
     operator_error ''technician login requires a configured assignment checker''"

definition ErrInvalidSessionExpiry :: go_err where
  "ErrInvalidSessionExpiry =
     operator_error ''expires_at must be in the future and within the maximum session lifetime''"

definition ErrMachineContextRequired :: go_err where
  "ErrMachineContextRequired = operator_error ''machine_id is required for this operation''"

definition ErrAdminTakeoverUnauthorized :: go_err where
  "ErrAdminTakeoverUnauthorized = operator_error ''admin takeover is not permitted for this principal''"

section \<open>Data\<close>

record op_session =
  op_ID :: uuid
  op_MachineID :: uuid
  op_ActorType :: string
  op_TechnicianID :: "uuid option"
  op_UserPrincipal :: "string option"
  op_Status :: string
  op_StartedAt :: time
  op_EndedAt :: "time option"
  op_ExpiresAt :: "time option"
  op_ClientMetadata :: json
  op_LastActivityAt :: time
  op_EndedReason :: "string option"
  op_CreatedAt :: time
  op_UpdatedAt :: time

record auth_event =
  oe_ID :: int
  oe_OperatorSessionID :: "uuid option"
  oe_MachineID :: uuid
  oe_EventType :: string
  oe_AuthMethod :: string
  oe_OccurredAt :: time
  oe_CorrelationID :: "uuid option"
  oe_Metadata :: json

record action_attribution =
  aa_ID :: int
  aa_OperatorSessionID :: "uuid option"
  aa_MachineID :: uuid
  aa_ActionOriginType :: string
  aa_ResourceType :: string
  aa_ResourceID :: string
  aa_OccurredAt :: time
  aa_Metadata :: json
  aa_CorrelationID :: "uuid option"

record initial_session_auth =
  iu_EventType :: string
  iu_AuthMethod :: string
  iu_CorrelationID :: "uuid option"
  iu_Metadata :: raw

record start_session_params =
  so_MachineID :: uuid
  so_ActorType :: string
  so_TechnicianID :: "uuid option"
  so_UserPrincipal :: "string option"
  so_ExpiresAt :: "time option"
  so_ClientMetadata :: raw
  so_InitialAuth :: "initial_session_auth option"
  so_StaleIdleReclaimAfter :: int
  so_ForceAdminTakeover :: bool
  so_AdminTakeoverAuthorized :: bool

record auth_event_params =
  ap_OperatorSessionID :: "uuid option"
  ap_MachineID :: uuid
  ap_EventType :: string
  ap_AuthMethod :: string
  ap_OccurredAt :: "time option"
  ap_CorrelationID :: "uuid option"
  ap_Metadata :: raw

record end_session_params =
  ep_SessionID :: uuid
  ep_Status :: string
  ep_EndedAt :: time
  ep_EndedReason :: "string option"
  ep_Logout :: "auth_event_params option"

record attribution_params =
  tp_OperatorSessionID :: "uuid option"
  tp_MachineID :: uuid
  tp_ActionOriginType :: string
  tp_ResourceType :: string
  tp_ResourceID :: string
  tp_OccurredAt :: "time option"
  tp_Metadata :: raw
  tp_CorrelationID :: "uuid option"

datatype session_policy = SessionRequired | SessionOptionalByOrigin | SessionNotApplicable

section \<open>Domain rules\<close>

text \<open>Durations are nanoseconds.\<close>

definition MaxOperatorSessionTTL :: int where
  "MaxOperatorSessionTTL = 90 * 24 * 3600 * 1000000000"

definition DefaultStaleIdleReclaimForDifferentOperator :: int where
  "DefaultStaleIdleReclaimForDifferentOperator = 15 * 60 * 1000000000"

definition ValidateSessionExpiryBounds :: "time option \<Rightarrow> time \<Rightarrow> int \<Rightarrow> go_err + unit" where
  "ValidateSessionExpiryBounds exp now maxTTL =
     (case exp of None \<Rightarrow> Inr ()
      | Some e \<Rightarrow> if \<not> now < e then Inl ErrInvalidSessionExpiry
                  else if e - now > maxTTL then Inl ErrInvalidSessionExpiry else Inr ())"

definition ValidateActorConsistency :: "string \<Rightarrow> uuid option \<Rightarrow> string option \<Rightarrow> go_err + unit" where
  "ValidateActorConsistency actorType technicianID userPrincipal =
     (if actorType = ''TECHNICIAN'' then
        (if technicianID = None \<or> technicianID = Some uuid_Nil then Inl ErrInvalidActor
         else case userPrincipal of
             Some u \<Rightarrow> if TrimSpace u \<noteq> [] then Inl ErrInvalidActor else Inr ()
           | None \<Rightarrow> Inr ())
      else if actorType = ''USER'' then
        (if technicianID \<noteq> None then Inl ErrInvalidActor
         else case userPrincipal of
             Some u \<Rightarrow> if TrimSpace u = [] then Inl ErrInvalidActor else Inr ()
           | None \<Rightarrow> Inl ErrInvalidActor)
      else Inl ErrInvalidActor)"

definition auth_methods :: "string list" where
  "auth_methods = [''pin'', ''password'', ''badge'', ''oidc'', ''device_cert'', ''unknown'']"

definition auth_event_types :: "string list" where
  "auth_event_types = [''login_success'', ''login_failure'', ''logout'', ''session_refresh'', ''lockout'', ''unknown'']"

definition action_origin_types :: "string list" where
  "action_origin_types = [''operator_session'', ''system'', ''scheduled'', ''api'', ''remote_support'']"

definition session_statuses :: "string list" where
  "session_statuses = [''ACTIVE'', ''ENDED'', ''EXPIRED'', ''REVOKED'']"

definition validateAuthMethod :: "string \<Rightarrow> go_err + unit" where
  "validateAuthMethod m = (if m \<in> set auth_methods then Inr () else Inl ErrInvalidAuthMethod)"

definition validateAuthEventType :: "string \<Rightarrow> go_err + unit" where
  "validateAuthEventType t = (if t \<in> set auth_event_types then Inr () else Inl ErrInvalidAuthEventType)"

definition validateActionOriginType :: "string \<Rightarrow> go_err + unit" where
  "validateActionOriginType t =
     (if t \<in> set action_origin_types then Inr () else Inl ErrInvalidActionOriginType)"

definition ValidateAuthEventSemantics :: "string \<Rightarrow> string \<Rightarrow> go_err + unit" where
  "ValidateAuthEventSemantics eventType authMethod =
     (case validateAuthEventType eventType of Inl e \<Rightarrow> Inl e | Inr _ \<Rightarrow> validateAuthMethod authMethod)"

definition ValidateActionAttributionSemantics :: "string \<Rightarrow> go_err + unit" where
  "ValidateActionAttributionSemantics origin = validateActionOriginType origin"

definition allowedEndedReasons :: "string list" where
  "allowedEndedReasons =
     [''client_logout'', ''heartbeat_timeout'', ''technician_token_expired'', ''token_refresh_failed'',
      ''superseded_by_same_operator'', ''superseded_by_admin_takeover'', ''admin_forced_close'',
      ''app_crash_detected'', ''device_reboot'', ''safe_mode_entered'', ''commissioning_completed'',
      ''session_expired'', ''server_revoked'', ''unknown'', ''stale_session_reclaimed'',
      ''admin_forced_takeover'']"

definition NormalizeEndedReason :: "string \<Rightarrow> string" where
  "NormalizeEndedReason raw =
     (let v = ToLower (TrimSpace raw)
      in if v = [] then ''unknown''
         else if v = ''stale_session_reclaimed'' then ''superseded_by_same_operator''
         else if v = ''admin_forced_takeover'' then ''superseded_by_admin_takeover''
         else if v \<in> set allowedEndedReasons then v
         else ''unknown'')"

section \<open>The database\<close>

text \<open>
  Of the fleet's rows, the ones the service asks for: machines by their id, technicians with their
  display name, assignments of technicians to machines.
\<close>

record technician_row =
  te_ID :: uuid
  te_DisplayName :: string

record assignment_row =
  tm_TechnicianID :: uuid
  tm_MachineID :: uuid
  tm_Status :: string
  tm_ValidFrom :: time
  tm_ValidTo :: "time option"

record operator_db =
  od_now :: time
  od_clock :: time
  od_uuids :: "nat \<Rightarrow> uuid"
  od_uuid_next :: nat
  od_serial :: int
  od_sessions :: "op_session list"
  od_auth :: "auth_event list"
  od_attributions :: "action_attribution list"
  od_machines :: "uuid list"
  od_technicians :: "technician_row list"
  od_assignments :: "assignment_row list"

type_synonym 'a oq = "(operator_db, 'a) io"

subsection \<open>Statement forms\<close>

definition row_or_none :: "'r option \<Rightarrow> ('s, 'r) io" where
  "row_or_none r = (case r of None \<Rightarrow> raise (Err ErrNoRows) | Some x \<Rightarrow> ret x)"

definition no_rows_to :: "go_err \<Rightarrow> ('s, 'a) io \<Rightarrow> ('s, 'a) io" where
  "no_rows_to e' m =
     (\<lambda>s. case m s of
            (Inl e, t) \<Rightarrow> (Inl (if errors_Is e ErrNoRows then e' else e), t)
          | (Inr x, t) \<Rightarrow> (Inr x, t))"

definition unique_to :: "go_err \<Rightarrow> ('s, 'a) io \<Rightarrow> ('s, 'a) io" where
  "unique_to e' m =
     (\<lambda>s. case m s of
            (Inl e, t) \<Rightarrow> (Inl (if errors_Is e ErrUniqueViolation then e' else e), t)
          | (Inr x, t) \<Rightarrow> (Inr x, t))"

definition select_session :: "(op_session \<Rightarrow> bool) \<Rightarrow> op_session oq" where
  "select_session P = bnd (reads od_sessions) (\<lambda>rows. row_or_none (find P rows))"

definition update_session :: "(op_session \<Rightarrow> bool) \<Rightarrow> (time \<Rightarrow> op_session \<Rightarrow> op_session) \<Rightarrow> op_session oq" where
  "update_session P f =
     bnd (reads od_now) (\<lambda>now.
     bnd (select_session P) (\<lambda>r.
       seq (writes (\<lambda>s. s\<lparr>od_sessions := upd_where P (f now) (od_sessions s)\<rparr>)) (ret (f now r))))"

definition next_operator_serial :: "int oq" where
  "next_operator_serial =
     (\<lambda>s. (Inr (od_serial s + 1), s\<lparr>od_serial := od_serial s + 1\<rparr>))"

text \<open>Constraints: \<open>btrim\<close> removes blanks only, other than \<open>strings.TrimSpace\<close>.\<close>

definition btrim :: "string \<Rightarrow> string" where
  "btrim s = rev (dropWhile (\<lambda>c. c = CHR '' '') (rev (dropWhile (\<lambda>c. c = CHR '' '') s)))"

definition ck_operator_session_actor_shape :: "op_session \<Rightarrow> bool" where
  "ck_operator_session_actor_shape r \<longleftrightarrow>
     (op_ActorType r = ''TECHNICIAN'' \<and> op_TechnicianID r \<noteq> None \<and> op_UserPrincipal r = None) \<or>
     (op_ActorType r = ''USER'' \<and> op_TechnicianID r = None \<and>
        (case op_UserPrincipal r of None \<Rightarrow> False | Some u \<Rightarrow> btrim u \<noteq> []))"

definition foreign_key_violation :: go_err where
  "foreign_key_violation = GoErr ErrOther ''foreign key violation''"

definition references :: "'k option \<Rightarrow> 'k list \<Rightarrow> bool" where
  "references k ks \<longleftrightarrow> (case k of None \<Rightarrow> True | Some i \<Rightarrow> i \<in> set ks)"

subsection \<open>Statements\<close>

definition q_GetOperatorSessionByID :: "uuid \<Rightarrow> op_session oq" where
  "q_GetOperatorSessionByID i = select_session (\<lambda>r. op_ID r = i)"

definition q_GetActiveOperatorSessionByMachineID :: "uuid \<Rightarrow> op_session oq" where
  "q_GetActiveOperatorSessionByMachineID machineID =
     select_session (\<lambda>r. op_MachineID r = machineID \<and> op_Status r = ''ACTIVE'')"

definition resume_row :: "time option \<Rightarrow> json \<Rightarrow> time \<Rightarrow> op_session \<Rightarrow> op_session" where
  "resume_row expiresAt meta now r =
     r\<lparr>op_UpdatedAt := now, op_LastActivityAt := now,
        op_ExpiresAt := (case expiresAt of None \<Rightarrow> op_ExpiresAt r | Some e \<Rightarrow> Some e),
        op_ClientMetadata := meta\<rparr>"

definition q_ResumeActiveOperatorSessionForActor ::
    "time option \<Rightarrow> json \<Rightarrow> uuid \<Rightarrow> string \<Rightarrow> uuid option \<Rightarrow> string option \<Rightarrow> op_session oq" where
  "q_ResumeActiveOperatorSessionForActor expiresAt meta machineID actorType technicianID userPrincipal =
     update_session
       (\<lambda>r. op_MachineID r = machineID \<and> op_Status r = ''ACTIVE'' \<and> op_ActorType r = actorType \<and>
            op_TechnicianID r = technicianID \<and> op_UserPrincipal r = userPrincipal)
       (resume_row expiresAt meta)"

definition q_InsertMachineOperatorSession ::
    "uuid \<Rightarrow> string \<Rightarrow> uuid option \<Rightarrow> string option \<Rightarrow> string \<Rightarrow> time option \<Rightarrow> json \<Rightarrow> op_session oq" where
  "q_InsertMachineOperatorSession machineID actorType technicianID userPrincipal status expiresAt meta =
     (\<lambda>s. let r = \<lparr>op_ID = od_uuids s (od_uuid_next s), op_MachineID = machineID, op_ActorType = actorType,
                    op_TechnicianID = technicianID, op_UserPrincipal = userPrincipal, op_Status = status,
                    op_StartedAt = od_now s, op_EndedAt = None, op_ExpiresAt = expiresAt,
                    op_ClientMetadata = meta, op_LastActivityAt = od_now s, op_EndedReason = None,
                    op_CreatedAt = od_now s, op_UpdatedAt = od_now s\<rparr>;
              t = s\<lparr>od_uuid_next := Suc (od_uuid_next s)\<rparr>
          in if \<not> ck_operator_session_actor_shape r \<or> status \<notin> set session_statuses
             then (Inl (Err ErrCheckViolation), t)
             else if list_ex (\<lambda>q. op_ID q = op_ID r \<or>
                         (status = ''ACTIVE'' \<and> op_MachineID q = machineID \<and> op_Status q = ''ACTIVE''))
                       (od_sessions s)
             then (Inl (Err ErrUniqueViolation), t)
             else if machineID \<notin> set (od_machines s) \<or>
                     \<not> references technicianID (map te_ID (od_technicians s))
             then (Inl foreign_key_violation, t)
             else (Inr r, t\<lparr>od_sessions := od_sessions s @ [r]\<rparr>))"

definition end_row :: "string \<Rightarrow> time \<Rightarrow> string option \<Rightarrow> time \<Rightarrow> op_session \<Rightarrow> op_session" where
  "end_row status endedAt reason now r =
     r\<lparr>op_Status := status, op_EndedAt := Some endedAt, op_UpdatedAt := endedAt, op_EndedReason := reason\<rparr>"

definition q_EndMachineOperatorSession :: "string \<Rightarrow> time \<Rightarrow> string option \<Rightarrow> uuid \<Rightarrow> op_session oq" where
  "q_EndMachineOperatorSession status endedAt reason i =
     bnd (reads od_sessions) (\<lambda>rows.
       seq (guard (status \<in> set session_statuses \<or>
                   \<not> list_ex (\<lambda>r. op_ID r = i \<and> op_Status r = ''ACTIVE'') rows) (Err ErrCheckViolation))
         (update_session (\<lambda>r. op_ID r = i \<and> op_Status r = ''ACTIVE'') (end_row status endedAt reason)))"

definition touch_row :: "time \<Rightarrow> op_session \<Rightarrow> op_session" where
  "touch_row now r = r\<lparr>op_UpdatedAt := now, op_LastActivityAt := now\<rparr>"

definition q_TouchMachineOperatorSessionActivity :: "uuid \<Rightarrow> op_session oq" where
  "q_TouchMachineOperatorSessionActivity i =
     update_session (\<lambda>r. op_ID r = i \<and> op_Status r = ''ACTIVE'') touch_row"

definition expire_row :: "time \<Rightarrow> op_session \<Rightarrow> op_session" where
  "expire_row now r =
     r\<lparr>op_Status := ''EXPIRED'', op_EndedAt := Some now, op_UpdatedAt := now,
        op_EndedReason := Some ''session_expired''\<rparr>"

definition q_TimeoutMachineOperatorSessionIfExpired :: "uuid \<Rightarrow> op_session oq" where
  "q_TimeoutMachineOperatorSessionIfExpired i =
     bnd (reads od_now) (\<lambda>now.
       update_session
         (\<lambda>r. op_ID r = i \<and> op_Status r = ''ACTIVE'' \<and>
              (case op_ExpiresAt r of None \<Rightarrow> False | Some e \<Rightarrow> e \<le> now))
         expire_row)"

definition q_InsertMachineOperatorAuthEvent :: "auth_event_params \<Rightarrow> auth_event oq" where
  "q_InsertMachineOperatorAuthEvent ev =
     bnd (reads id) (\<lambda>s.
     bnd next_operator_serial (\<lambda>i.
     seq (guard (ap_EventType ev \<in> set auth_event_types \<and> ap_AuthMethod ev \<in> set auth_methods)
            (Err ErrCheckViolation))
     (seq (guard (ap_MachineID ev \<in> set (od_machines s) \<and>
                  references (ap_OperatorSessionID ev) (map op_ID (od_sessions s))) foreign_key_violation)
     (let r = \<lparr>oe_ID = i, oe_OperatorSessionID = ap_OperatorSessionID ev, oe_MachineID = ap_MachineID ev,
               oe_EventType = ap_EventType ev, oe_AuthMethod = ap_AuthMethod ev,
               oe_OccurredAt = (case ap_OccurredAt ev of None \<Rightarrow> od_clock s | Some t \<Rightarrow> t),
               oe_CorrelationID = ap_CorrelationID ev, oe_Metadata = RequiredString (ap_Metadata ev)\<rparr>
      in seq (writes (\<lambda>s. s\<lparr>od_auth := od_auth s @ [r]\<rparr>)) (ret r)))))"

definition q_InsertMachineActionAttribution :: "attribution_params \<Rightarrow> action_attribution oq" where
  "q_InsertMachineActionAttribution a =
     bnd (reads id) (\<lambda>s.
     bnd next_operator_serial (\<lambda>i.
     seq (guard (tp_ActionOriginType a \<in> set action_origin_types) (Err ErrCheckViolation))
     (seq (guard (tp_MachineID a \<in> set (od_machines s) \<and>
                  references (tp_OperatorSessionID a) (map op_ID (od_sessions s))) foreign_key_violation)
     (let r = \<lparr>aa_ID = i, aa_OperatorSessionID = tp_OperatorSessionID a, aa_MachineID = tp_MachineID a,
               aa_ActionOriginType = tp_ActionOriginType a, aa_ResourceType = tp_ResourceType a,
               aa_ResourceID = tp_ResourceID a,
               aa_OccurredAt = (case tp_OccurredAt a of None \<Rightarrow> od_clock s | Some t \<Rightarrow> t),
               aa_Metadata = RequiredString (tp_Metadata a), aa_CorrelationID = tp_CorrelationID a\<rparr>
      in seq (writes (\<lambda>s. s\<lparr>od_attributions := od_attributions s @ [r]\<rparr>)) (ret r)))))"

text \<open>\<open>SELECT ... ORDER BY at DESC LIMIT n\<close>\<close>

definition newest_first :: "('r \<Rightarrow> time) \<Rightarrow> int \<Rightarrow> 'r list \<Rightarrow> 'r list" where
  "newest_first at_of limit rows = take (nat limit) (sort_key (\<lambda>r. - at_of r) rows)"

definition q_ListOperatorSessionsByMachineID :: "uuid \<Rightarrow> int \<Rightarrow> op_session list oq" where
  "q_ListOperatorSessionsByMachineID machineID limit =
     reads (\<lambda>s. newest_first op_StartedAt limit (filter (\<lambda>r. op_MachineID r = machineID) (od_sessions s)))"

definition q_ListOperatorSessionsByTechnicianID :: "uuid \<Rightarrow> int \<Rightarrow> op_session list oq" where
  "q_ListOperatorSessionsByTechnicianID technicianID limit =
     reads (\<lambda>s. newest_first op_StartedAt limit
                  (filter (\<lambda>r. op_TechnicianID r = Some technicianID) (od_sessions s)))"

definition q_ListOperatorSessionsByUserPrincipal :: "string option \<Rightarrow> int \<Rightarrow> op_session list oq" where
  "q_ListOperatorSessionsByUserPrincipal userPrincipal limit =
     reads (\<lambda>s. newest_first op_StartedAt limit
                  (filter (\<lambda>r. op_ActorType r = ''USER'' \<and> userPrincipal \<noteq> None \<and>
                               op_UserPrincipal r = userPrincipal) (od_sessions s)))"

definition q_ListMachineOperatorAuthEventsByMachineID :: "uuid \<Rightarrow> int \<Rightarrow> auth_event list oq" where
  "q_ListMachineOperatorAuthEventsByMachineID machineID limit =
     reads (\<lambda>s. newest_first oe_OccurredAt limit (filter (\<lambda>r. oe_MachineID r = machineID) (od_auth s)))"

definition q_ListMachineActionAttributionsByMachineID :: "uuid \<Rightarrow> int \<Rightarrow> action_attribution list oq" where
  "q_ListMachineActionAttributionsByMachineID machineID limit =
     reads (\<lambda>s. newest_first aa_OccurredAt limit
                  (filter (\<lambda>r. aa_MachineID r = machineID) (od_attributions s)))"

text \<open>The joins with the session an attribution names; the session's id is a key.\<close>

definition attributed_to :: "(op_session \<Rightarrow> bool) \<Rightarrow> op_session list \<Rightarrow> action_attribution \<Rightarrow> bool" where
  "attributed_to P rows a \<longleftrightarrow>
     list_ex (\<lambda>r. aa_OperatorSessionID a = Some (op_ID r) \<and> P r) rows"

definition q_ListMachineActionAttributionsForTechnician :: "uuid \<Rightarrow> int \<Rightarrow> action_attribution list oq" where
  "q_ListMachineActionAttributionsForTechnician technicianID limit =
     reads (\<lambda>s. newest_first aa_OccurredAt limit
                  (filter (attributed_to (\<lambda>r. op_TechnicianID r = Some technicianID) (od_sessions s))
                     (od_attributions s)))"

definition q_ListMachineActionAttributionsForUserPrincipal ::
    "string option \<Rightarrow> int \<Rightarrow> action_attribution list oq" where
  "q_ListMachineActionAttributionsForUserPrincipal userPrincipal limit =
     reads (\<lambda>s. newest_first aa_OccurredAt limit
                  (filter (attributed_to (\<lambda>r. op_ActorType r = ''USER'' \<and> userPrincipal \<noteq> None \<and>
                               op_UserPrincipal r = userPrincipal) (od_sessions s))
                     (od_attributions s)))"

definition q_GetMachineByID :: "uuid \<Rightarrow> uuid oq" where
  "q_GetMachineByID i = bnd (reads od_machines) (\<lambda>ms. row_or_none (find (\<lambda>m. m = i) ms))"

definition q_GetTechnicianByID :: "uuid \<Rightarrow> technician_row oq" where
  "q_GetTechnicianByID i = bnd (reads od_technicians) (\<lambda>ts. row_or_none (find (\<lambda>t. te_ID t = i) ts))"

definition q_TechnicianActiveAssignmentExists :: "uuid \<Rightarrow> uuid \<Rightarrow> bool oq" where
  "q_TechnicianActiveAssignmentExists technicianID machineID =
     reads (\<lambda>s. list_ex (\<lambda>a. tm_TechnicianID a = technicianID \<and> tm_MachineID a = machineID \<and>
                   (case tm_ValidTo a of None \<Rightarrow> True | Some e \<Rightarrow> od_now s < e)) (od_assignments s))"

section \<open>The repository\<close>

definition sameOperatorSessionActor :: "op_session \<Rightarrow> start_session_params \<Rightarrow> bool" where
  "sameOperatorSessionActor active inp \<longleftrightarrow>
     (if op_ActorType active \<noteq> so_ActorType inp then False
      else if so_ActorType inp = ''TECHNICIAN'' then
        (case (so_TechnicianID inp, op_TechnicianID active) of
           (Some t, Some t') \<Rightarrow> t' = t
         | _ \<Rightarrow> False)
      else if so_ActorType inp = ''USER'' then
        (case (so_UserPrincipal inp, op_UserPrincipal active) of
           (Some u, Some u') \<Rightarrow> TrimSpace u' = TrimSpace u
         | _ \<Rightarrow> False)
      else False)"

text \<open>The auth event of a session, of the given type.\<close>

definition session_event :: "string \<Rightarrow> initial_session_auth \<Rightarrow> op_session \<Rightarrow> auth_event_params" where
  "session_event eventType auth row =
     \<lparr>ap_OperatorSessionID = Some (op_ID row), ap_MachineID = op_MachineID row, ap_EventType = eventType,
       ap_AuthMethod = iu_AuthMethod auth, ap_OccurredAt = None, ap_CorrelationID = iu_CorrelationID auth,
       ap_Metadata = iu_Metadata auth\<rparr>"

definition resume_session :: "start_session_params \<Rightarrow> op_session oq" where
  "resume_session inp =
     bnd (no_rows_to ErrActiveSessionExists
            (q_ResumeActiveOperatorSessionForActor (so_ExpiresAt inp) (RequiredString (so_ClientMetadata inp))
               (so_MachineID inp) (so_ActorType inp) (so_TechnicianID inp) (so_UserPrincipal inp))) (\<lambda>row.
     seq (case so_InitialAuth inp of
            None \<Rightarrow> ret ()
          | Some auth \<Rightarrow>
              seq (lift_res (ValidateAuthEventSemantics ''session_refresh'' (iu_AuthMethod auth)))
              (seq (q_InsertMachineOperatorAuthEvent (session_event ''session_refresh'' auth row)) (ret ())))
       (ret row))"

text \<open>How the session of another operator is ended, if it may be: the final status and the reason.\<close>

definition displace :: "start_session_params \<Rightarrow> time \<Rightarrow> op_session \<Rightarrow> (string \<times> string) option" where
  "displace inp clock active =
     (let staleAfter = (if so_StaleIdleReclaimAfter inp \<le> 0
                        then DefaultStaleIdleReclaimForDifferentOperator
                        else so_StaleIdleReclaimAfter inp);
          idle = clock - op_LastActivityAt active
      in if so_ForceAdminTakeover inp \<and> so_AdminTakeoverAuthorized inp
         then Some (''REVOKED'', ''admin_forced_takeover'')
         else if idle \<ge> staleAfter then Some (''ENDED'', ''stale_session_reclaimed'')
         else None)"

definition displace_session :: "start_session_params \<Rightarrow> op_session \<Rightarrow> unit oq" where
  "displace_session inp active =
     bnd (reads od_clock) (\<lambda>clock.
       case displace inp clock active of
         None \<Rightarrow> raise ErrActiveSessionExists
       | Some (endStatus, endReason) \<Rightarrow>
           seq (no_rows_to ErrActiveSessionExists
                  (q_EndMachineOperatorSession endStatus clock (Some endReason) (op_ID active))) (ret ()))"

definition insert_session :: "start_session_params \<Rightarrow> op_session oq" where
  "insert_session inp =
     bnd (unique_to ErrActiveSessionExists
            (q_InsertMachineOperatorSession (so_MachineID inp) (so_ActorType inp) (so_TechnicianID inp)
               (so_UserPrincipal inp) ''ACTIVE'' (so_ExpiresAt inp)
               (RequiredString (so_ClientMetadata inp)))) (\<lambda>row.
     seq (case so_InitialAuth inp of
            None \<Rightarrow> ret ()
          | Some auth \<Rightarrow>
              seq (q_InsertMachineOperatorAuthEvent
                     (session_event (if iu_EventType auth = [] then ''login_success'' else iu_EventType auth)
                        auth row)) (ret ()))
       (ret row))"

definition repo_StartOperatorSession :: "start_session_params \<Rightarrow> op_session oq" where
  "repo_StartOperatorSession inp =
     tx (seq (q_GetMachineByID (so_MachineID inp))
         (bnd (attempt (q_GetActiveOperatorSessionByMachineID (so_MachineID inp))) (\<lambda>found.
            case found of
              Inl e \<Rightarrow> if \<not> errors_Is e ErrNoRows then raise e else insert_session inp
            | Inr active \<Rightarrow>
                if sameOperatorSessionActor active inp then resume_session inp
                else seq (displace_session inp active) (insert_session inp))))"

definition repo_GetOperatorSessionByID :: "uuid \<Rightarrow> op_session oq" where
  "repo_GetOperatorSessionByID i = no_rows_to ErrSessionNotFound (q_GetOperatorSessionByID i)"

definition repo_GetActiveSessionByMachineID :: "uuid \<Rightarrow> op_session oq" where
  "repo_GetActiveSessionByMachineID machineID =
     no_rows_to ErrNoActiveSession (q_GetActiveOperatorSessionByMachineID machineID)"

text \<open>Locks the row of a session and refuses unless it is active.\<close>

definition lock_active :: "uuid \<Rightarrow> op_session oq" where
  "lock_active i =
     bnd (no_rows_to ErrSessionNotFound (q_GetOperatorSessionByID i)) (\<lambda>sess.
       seq (guard (op_Status sess = ''ACTIVE'') ErrSessionNotActive) (ret sess))"

definition repo_EndOperatorSession :: "end_session_params \<Rightarrow> op_session oq" where
  "repo_EndOperatorSession inp =
     tx (seq (lock_active (ep_SessionID inp))
        (bnd (no_rows_to ErrSessionNotActive
                (q_EndMachineOperatorSession (ep_Status inp) (ep_EndedAt inp) (ep_EndedReason inp)
                   (ep_SessionID inp))) (\<lambda>row.
         seq (case ep_Logout inp of
                None \<Rightarrow> ret ()
              | Some log \<Rightarrow>
                  seq (q_InsertMachineOperatorAuthEvent
                         (log\<lparr>ap_OperatorSessionID := Some (op_ID row), ap_MachineID := op_MachineID row\<rparr>))
                    (ret ()))
           (ret row))))"

definition repo_TouchOperatorSessionActivity :: "uuid \<Rightarrow> op_session oq" where
  "repo_TouchOperatorSessionActivity sessionID =
     tx (seq (lock_active sessionID)
         (no_rows_to ErrSessionNotActive (q_TouchMachineOperatorSessionActivity sessionID)))"

definition repo_TimeoutOperatorSessionIfExpired :: "uuid \<Rightarrow> op_session oq" where
  "repo_TimeoutOperatorSessionIfExpired sessionID =
     tx (bnd (lock_active sessionID) (\<lambda>sess.
         bnd (reads od_clock) (\<lambda>now.
         if (case op_ExpiresAt sess of None \<Rightarrow> True | Some e \<Rightarrow> \<not> e < now) then raise ErrTimeoutNotApplicable
         else no_rows_to ErrTimeoutNotApplicable (q_TimeoutMachineOperatorSessionIfExpired sessionID))))"

definition repo_InsertAuthEvent :: "auth_event_params \<Rightarrow> auth_event oq" where
  "repo_InsertAuthEvent inp = tx (q_InsertMachineOperatorAuthEvent inp)"

definition repo_InsertActionAttribution :: "attribution_params \<Rightarrow> action_attribution oq" where
  "repo_InsertActionAttribution inp = tx (q_InsertMachineActionAttribution inp)"

definition optionalStringToPgText :: "string \<Rightarrow> string option" where
  "optionalStringToPgText s = (let v = TrimSpace s in if v = [] then None else Some v)"

section \<open>The service\<close>

text \<open>The assignment checker may be missing.\<close>

record operator_service =
  ov_Assignments :: bool

record start_session_input =
  si_MachineID :: uuid
  si_ActorType :: string
  si_TechnicianID :: "uuid option"
  si_UserPrincipal :: "string option"
  si_ExpiresAt :: "time option"
  si_ClientMetadata :: raw
  si_InitialAuthMethod :: string
  si_CorrelationID :: "uuid option"
  si_InitialAuthMetadata :: raw
  si_StaleIdleReclaimAfter :: int
  si_ForceAdminTakeover :: bool
  si_AdminTakeoverAuthorized :: bool

record end_session_input =
  ei_MachineID :: uuid
  ei_SessionID :: uuid
  ei_FinalStatus :: string
  ei_EndedReason :: string
  ei_LogoutAuthMethod :: string
  ei_LogoutCorrelationID :: "uuid option"
  ei_LogoutMetadata :: raw

record current_operator =
  cu_MachineID :: uuid
  cu_ActiveSession :: "op_session option"
  cu_TechnicianDisplayName :: "string option"

record machine_action_actor =
  ma_MachineID :: uuid
  ma_Origin :: string
  ma_OperatorSessionID :: "uuid option"

definition GetSessionIfMatchesMachine :: "uuid \<Rightarrow> uuid \<Rightarrow> op_session oq" where
  "GetSessionIfMatchesMachine sessionID machineID =
     bnd (repo_GetOperatorSessionByID sessionID) (\<lambda>sess.
       seq (guard (op_MachineID sess = machineID) ErrSessionMachineMismatch) (ret sess))"

definition ActiveSessionForMachine :: "uuid \<Rightarrow> op_session option oq" where
  "ActiveSessionForMachine machineID =
     bnd (attempt (repo_GetActiveSessionByMachineID machineID)) (\<lambda>r. case r of
         Inl e \<Rightarrow> if e = ErrNoActiveSession then ret None else raise e
       | Inr sess \<Rightarrow> ret (Some sess))"

definition clampListLimit :: "int \<Rightarrow> int" where
  "clampListLimit limit = (if limit \<le> 0 then 50 else if limit > 500 then 500 else limit)"

definition technician_may_start :: "operator_service \<Rightarrow> start_session_input \<Rightarrow> unit oq" where
  "technician_may_start sv inp =
     (if si_ActorType inp = ''TECHNICIAN'' then
        (case si_TechnicianID inp of
           None \<Rightarrow> ret ()
         | Some tid \<Rightarrow>
             seq (q_GetTechnicianByID tid)
             (seq (guard (ov_Assignments sv) ErrTechnicianAssignmentCheckerRequired)
             (bnd (q_TechnicianActiveAssignmentExists tid (si_MachineID inp)) (\<lambda>ok.
                guard ok ErrTechnicianNotAssignedToMachine))))
      else ret ())"

definition initial_auth :: "start_session_input \<Rightarrow> go_err + initial_session_auth option" where
  "initial_auth inp =
     (if TrimSpace (si_InitialAuthMethod inp) \<noteq> [] then
        (case ValidateAuthEventSemantics ''login_success'' (si_InitialAuthMethod inp) of
           Inl e \<Rightarrow> Inl e
         | Inr _ \<Rightarrow> Inr (Some \<lparr>iu_EventType = ''login_success'',
             iu_AuthMethod = TrimSpace (si_InitialAuthMethod inp),
             iu_CorrelationID = si_CorrelationID inp, iu_Metadata = si_InitialAuthMetadata inp\<rparr>))
      else Inr None)"

definition StartOperatorSession :: "operator_service \<Rightarrow> start_session_input \<Rightarrow> op_session oq" where
  "StartOperatorSession sv inp =
     (let userPrincipal = map_option TrimSpace (si_UserPrincipal inp)
      in seq (lift_res (ValidateActorConsistency (si_ActorType inp) (si_TechnicianID inp) userPrincipal))
         (bnd (reads od_clock) (\<lambda>now.
          seq (lift_res (ValidateSessionExpiryBounds (si_ExpiresAt inp) now MaxOperatorSessionTTL))
          (seq (q_GetMachineByID (si_MachineID inp))
          (seq (technician_may_start sv inp)
          (bnd (lift_res (initial_auth inp)) (\<lambda>initial.
          seq (guard (\<not> (si_ForceAdminTakeover inp \<and> \<not> si_AdminTakeoverAuthorized inp))
                 ErrAdminTakeoverUnauthorized)
          (repo_StartOperatorSession
             \<lparr>so_MachineID = si_MachineID inp, so_ActorType = si_ActorType inp,
               so_TechnicianID = si_TechnicianID inp, so_UserPrincipal = userPrincipal,
               so_ExpiresAt = si_ExpiresAt inp, so_ClientMetadata = si_ClientMetadata inp,
               so_InitialAuth = initial, so_StaleIdleReclaimAfter = si_StaleIdleReclaimAfter inp,
               so_ForceAdminTakeover = si_ForceAdminTakeover inp,
               so_AdminTakeoverAuthorized = si_AdminTakeoverAuthorized inp\<rparr>)))))))) "

definition EndOperatorSession :: "end_session_input \<Rightarrow> op_session oq" where
  "EndOperatorSession inp =
     seq (guard (ei_FinalStatus inp \<in> {''ENDED'', ''REVOKED''}) ErrInvalidSessionEndStatus)
     (seq (guard (ei_MachineID inp \<noteq> uuid_Nil) ErrMachineContextRequired)
     (seq (if TrimSpace (ei_LogoutAuthMethod inp) \<noteq> []
           then lift_res (ValidateAuthEventSemantics ''logout'' (ei_LogoutAuthMethod inp)) else ret ())
     (bnd (repo_GetOperatorSessionByID (ei_SessionID inp)) (\<lambda>sess.
      seq (guard (op_MachineID sess = ei_MachineID inp) ErrSessionMachineMismatch)
      (seq (guard (op_Status sess = ''ACTIVE'') ErrSessionNotActive)
      (bnd (reads od_clock) (\<lambda>now.
       repo_EndOperatorSession
         \<lparr>ep_SessionID = ei_SessionID inp, ep_Status = ei_FinalStatus inp, ep_EndedAt = now,
           ep_EndedReason = (if TrimSpace (ei_EndedReason inp) \<noteq> []
                             then Some (TrimSpace (ei_EndedReason inp)) else None),
           ep_Logout = (if TrimSpace (ei_LogoutAuthMethod inp) \<noteq> []
                        then Some \<lparr>ap_OperatorSessionID = None, ap_MachineID = uuid_Nil,
                               ap_EventType = ''logout'',
                               ap_AuthMethod = TrimSpace (ei_LogoutAuthMethod inp), ap_OccurredAt = None,
                               ap_CorrelationID = ei_LogoutCorrelationID inp,
                               ap_Metadata = ei_LogoutMetadata inp\<rparr>
                        else None)\<rparr>)))))))"

definition TimeoutOperatorSession :: "uuid \<Rightarrow> uuid \<Rightarrow> op_session oq" where
  "TimeoutOperatorSession machineID sessionID =
     seq (guard (machineID \<noteq> uuid_Nil) ErrMachineContextRequired)
     (seq (GetSessionIfMatchesMachine sessionID machineID)
       (repo_TimeoutOperatorSessionIfExpired sessionID))"

text \<open>The deployment has one company: any other company id than the nil one is refused.\<close>

definition own_operator_company :: "uuid \<Rightarrow> unit oq" where
  "own_operator_company companyID = guard (companyID = uuid_Nil) ErrCompanyMismatch"

definition TouchOperatorSessionActivity :: "uuid \<Rightarrow> uuid \<Rightarrow> uuid \<Rightarrow> op_session oq" where
  "TouchOperatorSessionActivity companyID machineID sessionID =
     seq (guard (machineID \<noteq> uuid_Nil) ErrMachineContextRequired)
     (bnd (GetSessionIfMatchesMachine sessionID machineID) (\<lambda>sess.
      seq (own_operator_company companyID)
      (seq (guard (op_Status sess = ''ACTIVE'') ErrSessionNotActive)
       (repo_TouchOperatorSessionActivity sessionID))))"

definition HeartbeatOperatorSession :: "uuid \<Rightarrow> uuid \<Rightarrow> uuid \<Rightarrow> op_session oq" where
  "HeartbeatOperatorSession companyID machineID sessionID =
     bnd (TouchOperatorSessionActivity companyID machineID sessionID) (\<lambda>sess.
     bnd (attempt (repo_TimeoutOperatorSessionIfExpired sessionID)) (\<lambda>r. case r of
         Inr timed \<Rightarrow> ret timed
       | Inl e \<Rightarrow> if e = ErrTimeoutNotApplicable then ret sess else raise e))"

definition ResolveCurrentOperatorForMachine :: "uuid \<Rightarrow> uuid \<Rightarrow> current_operator oq" where
  "ResolveCurrentOperatorForMachine companyID machineID =
     seq (q_GetMachineByID machineID)
     (seq (own_operator_company companyID)
     (bnd (ActiveSessionForMachine machineID) (\<lambda>found. case found of
         None \<Rightarrow> ret \<lparr>cu_MachineID = machineID, cu_ActiveSession = None, cu_TechnicianDisplayName = None\<rparr>
       | Some sess \<Rightarrow>
           (case (op_ActorType sess = ''TECHNICIAN'', op_TechnicianID sess) of
              (True, Some tid) \<Rightarrow>
                bnd (attempt (q_GetTechnicianByID tid)) (\<lambda>r. ret
                  \<lparr>cu_MachineID = machineID, cu_ActiveSession = Some sess,
                    cu_TechnicianDisplayName = (case r of Inl _ \<Rightarrow> None | Inr t \<Rightarrow> Some (te_DisplayName t))\<rparr>)
            | _ \<Rightarrow> ret \<lparr>cu_MachineID = machineID, cu_ActiveSession = Some sess,
                        cu_TechnicianDisplayName = None\<rparr>))))"

definition ListSessionsByMachine :: "uuid \<Rightarrow> uuid \<Rightarrow> int \<Rightarrow> op_session list oq" where
  "ListSessionsByMachine companyID machineID limit =
     seq (q_GetMachineByID machineID)
     (seq (own_operator_company companyID)
       (q_ListOperatorSessionsByMachineID machineID (clampListLimit limit)))"

definition ListSessionsByTechnician :: "uuid \<Rightarrow> uuid \<Rightarrow> int \<Rightarrow> op_session list oq" where
  "ListSessionsByTechnician companyID technicianID limit =
     seq (q_GetTechnicianByID technicianID)
     (seq (own_operator_company companyID)
       (q_ListOperatorSessionsByTechnicianID technicianID (clampListLimit limit)))"

definition ListSessionsByUser :: "string \<Rightarrow> int \<Rightarrow> op_session list oq" where
  "ListSessionsByUser userPrincipal limit =
     (let principal = TrimSpace userPrincipal
      in if principal = [] then raise ErrInvalidActor
         else q_ListOperatorSessionsByUserPrincipal (optionalStringToPgText principal) (clampListLimit limit))"

definition RecordAuthEvent :: "auth_event_params \<Rightarrow> auth_event oq" where
  "RecordAuthEvent inp =
     seq (lift_res (ValidateAuthEventSemantics (ap_EventType inp) (ap_AuthMethod inp)))
     (seq (case ap_OperatorSessionID inp of
             Some sid \<Rightarrow> bnd (repo_GetOperatorSessionByID sid) (\<lambda>sess.
               guard (op_MachineID sess = ap_MachineID inp) ErrCompanyMismatch)
           | None \<Rightarrow> seq (q_GetMachineByID (ap_MachineID inp)) (ret ()))
       (repo_InsertAuthEvent inp))"

definition RecordActionAttribution :: "attribution_params \<Rightarrow> action_attribution oq" where
  "RecordActionAttribution inp =
     seq (lift_res (ValidateActionAttributionSemantics (tp_ActionOriginType inp)))
     (seq (q_GetMachineByID (tp_MachineID inp))
     (seq (case tp_OperatorSessionID inp of
             Some sid \<Rightarrow> bnd (repo_GetOperatorSessionByID sid) (\<lambda>sess.
               guard (op_MachineID sess = tp_MachineID inp) ErrCompanyMismatch)
           | None \<Rightarrow> ret ())
       (repo_InsertActionAttribution inp)))"

definition ResolveMachineActionActor :: "uuid \<Rightarrow> uuid option \<Rightarrow> session_policy \<Rightarrow> machine_action_actor oq" where
  "ResolveMachineActionActor machineID supplied policy =
     seq (guard (machineID \<noteq> uuid_Nil) ErrMachineContextRequired)
     (case (if supplied = Some uuid_Nil then None else supplied) of
        Some sid \<Rightarrow>
          bnd (GetSessionIfMatchesMachine sid machineID) (\<lambda>sess.
          seq (guard (EqualFold (TrimSpace (op_Status sess)) ''ACTIVE'') ErrSessionNotActive)
          (ret \<lparr>ma_MachineID = machineID, ma_Origin = ''operator_session'',
                 ma_OperatorSessionID = Some (op_ID sess)\<rparr>))
      | None \<Rightarrow>
          (case policy of
             SessionRequired \<Rightarrow> raise ErrOperatorSessionRequired
           | _ \<Rightarrow> ret \<lparr>ma_MachineID = machineID, ma_Origin = ''api'', ma_OperatorSessionID = None\<rparr>))"

section \<open>Insight\<close>

definition timelineFetchLimit :: "int \<Rightarrow> int" where
  "timelineFetchLimit limit = (let n = clampListLimit limit in if n > 200 then 200 else n)"

text \<open>The detail of a timeline item: the projected event, action, or session with its phase.\<close>

datatype timeline_detail =
    Auth_Event auth_event
  | Action_Attribution action_attribution
  | Session_Phase (phase_session: op_session) (phase_name: string)

record timeline_item =
  ti_OccurredAt :: time
  ti_Kind :: string
  ti_Detail :: timeline_detail

definition auth_item :: "auth_event \<Rightarrow> timeline_item" where
  "auth_item e = \<lparr>ti_OccurredAt = oe_OccurredAt e, ti_Kind = ''operator_auth'', ti_Detail = Auth_Event e\<rparr>"

definition action_item :: "action_attribution \<Rightarrow> timeline_item" where
  "action_item a =
     \<lparr>ti_OccurredAt = aa_OccurredAt a, ti_Kind = ''operator_action'', ti_Detail = Action_Attribution a\<rparr>"

definition session_items :: "op_session \<Rightarrow> timeline_item list" where
  "session_items r =
     \<lparr>ti_OccurredAt = op_StartedAt r, ti_Kind = ''operator_session'', ti_Detail = Session_Phase r ''started''\<rparr> #
     (case op_EndedAt r of None \<Rightarrow> []
      | Some e \<Rightarrow> [\<lparr>ti_OccurredAt = e, ti_Kind = ''operator_session'', ti_Detail = Session_Phase r ''ended''\<rparr>])"

definition kind_order :: "string \<Rightarrow> int" where
  "kind_order k = (if k = ''operator_auth'' then 1 else if k = ''operator_session'' then 2 else 0)"

definition tieBreakKind :: "string \<Rightarrow> string \<Rightarrow> bool" where
  "tieBreakKind a b \<longleftrightarrow> kind_order a < kind_order b"

definition timeline_less :: "timeline_item \<Rightarrow> timeline_item \<Rightarrow> bool" where
  "timeline_less x y \<longleftrightarrow>
     (if ti_OccurredAt x = ti_OccurredAt y then tieBreakKind (ti_Kind x) (ti_Kind y)
      else ti_OccurredAt y < ti_OccurredAt x)"

definition mergeMachineTimeline ::
    "auth_event list \<Rightarrow> action_attribution list \<Rightarrow> op_session list \<Rightarrow> int \<Rightarrow> timeline_item list" where
  "mergeMachineTimeline auth attr sessions maxItems =
     (let m = (if maxItems \<le> 0 then 50 else maxItems);
          items = SliceStable timeline_less
                    (map auth_item auth @ map action_item attr @ concat (map session_items sessions))
      in if m < int (length items) then take (nat m) items else items)"

definition ListAuthEventsForMachine :: "uuid \<Rightarrow> uuid \<Rightarrow> int \<Rightarrow> auth_event list oq" where
  "ListAuthEventsForMachine companyID machineID limit =
     seq (q_GetMachineByID machineID)
     (seq (own_operator_company companyID)
       (q_ListMachineOperatorAuthEventsByMachineID machineID (clampListLimit limit)))"

definition ListActionAttributionsForMachine :: "uuid \<Rightarrow> uuid \<Rightarrow> int \<Rightarrow> action_attribution list oq" where
  "ListActionAttributionsForMachine companyID machineID limit =
     seq (q_GetMachineByID machineID)
     (seq (own_operator_company companyID)
       (q_ListMachineActionAttributionsByMachineID machineID (clampListLimit limit)))"

definition ListActionAttributionsForTechnician :: "uuid \<Rightarrow> uuid \<Rightarrow> int \<Rightarrow> action_attribution list oq" where
  "ListActionAttributionsForTechnician companyID technicianID limit =
     seq (q_GetTechnicianByID technicianID)
     (seq (own_operator_company companyID)
       (q_ListMachineActionAttributionsForTechnician technicianID (clampListLimit limit)))"

definition ListActionAttributionsForUserPrincipal :: "string \<Rightarrow> int \<Rightarrow> action_attribution list oq" where
  "ListActionAttributionsForUserPrincipal userPrincipal limit =
     (let principal = TrimSpace userPrincipal
      in if principal = [] then raise ErrInvalidActor
         else q_ListMachineActionAttributionsForUserPrincipal (optionalStringToPgText principal)
                (clampListLimit limit))"

definition BuildMachineOperatorTimeline :: "uuid \<Rightarrow> uuid \<Rightarrow> int \<Rightarrow> timeline_item list oq" where
  "BuildMachineOperatorTimeline companyID machineID limit =
     seq (q_GetMachineByID machineID)
     (seq (own_operator_company companyID)
     (bnd (q_ListMachineOperatorAuthEventsByMachineID machineID (timelineFetchLimit limit)) (\<lambda>auth.
      bnd (q_ListMachineActionAttributionsByMachineID machineID (timelineFetchLimit limit)) (\<lambda>attr.
      bnd (q_ListOperatorSessionsByMachineID machineID (timelineFetchLimit limit)) (\<lambda>sessions.
        ret (mergeMachineTimeline auth attr sessions (clampListLimit limit)))))))"

end
