(* ===== verification/Operator_Access.thy ===== *)
theory Operator_Access
  imports Operator_Sessions Commerce_Service
begin

text \<open>
  Who may open, keep and end an operator session: the login, logout and heartbeat handlers of
  \<open>internal/httpserver/operator_http.go\<close> above the service, with the token's principal of
  \<open>internal/platform/auth/principal.go\<close>. A handler gets the machine and session ids of the path, the
  principal of the context, the correlation id of the request and the decoded body (\<open>None\<close>: the body
  is no JSON of the expected shape; an empty body decodes to empty fields), and answers with an error
  status and code or with the session. A request without a principal and path segments that are no
  UUIDs are refused before any of this and left out.
\<close>

section \<open>Requests and answers\<close>

record operator_principal = principal +
  pr_Subject :: string
  pr_TechnicianID :: uuid

definition p_HasRole :: "operator_principal \<Rightarrow> string \<Rightarrow> bool" where
  "p_HasRole p want = HasRole (principal.truncate p) want"

definition HasAnyRole :: "operator_principal \<Rightarrow> string list \<Rightarrow> bool" where
  "HasAnyRole p want = list_ex (p_HasRole p) want"

definition p_AllowsMachine :: "operator_principal \<Rightarrow> uuid \<Rightarrow> bool" where
  "p_AllowsMachine p machineID = AllowsMachine (principal.truncate p) machineID"

definition IsMachinePrincipal :: "operator_principal \<Rightarrow> bool" where
  "IsMachinePrincipal p = p_HasRole p ''machine''"

record operator_login_request =
  lr_AuthMethod :: string
  lr_ExpiresAt :: "time option"
  lr_ClientMetadata :: raw
  lr_ForceAdminTakeover :: bool

record operator_logout_request =
  gr_SessionID :: string
  gr_EndedReason :: string
  gr_AuthMethod :: string
  gr_FinalStatus :: string

text \<open>The text of a correlation id and what \<open>uuid.Parse\<close> makes of a text are given.\<close>

record operator_request =
  rq_Principal :: operator_principal
  rq_CorrelationID :: string
  rq_ParseUUID :: "string \<Rightarrow> uuid option"

datatype operator_answer = Api_Error int string | Session_View op_session

definition operatorErrorAnswer :: "go_err \<Rightarrow> operator_answer" where
  "operatorErrorAnswer e =
     (if e \<in> {ErrInvalidActor, ErrInvalidAuthMethod, ErrInvalidAuthEventType, ErrInvalidActionOriginType,
               ErrInvalidSessionEndStatus, ErrInvalidSessionExpiry, ErrSessionMachineMismatch,
               ErrMachineContextRequired, ErrTimeoutNotApplicable} then Api_Error 400 ''bad_request''
      else if e = ErrCompanyMismatch then Api_Error 403 ''forbidden''
      else if e = ErrSessionNotFound then Api_Error 404 ''not_found''
      else if e = ErrOperatorSessionRequired then Api_Error 400 ''operator_session_required''
      else if e = ErrSessionNotActive then Api_Error 409 ''session_not_active''
      else if e = ErrActiveSessionExists then Api_Error 409 ''active_session_exists''
      else if e = ErrAdminTakeoverUnauthorized then Api_Error 403 ''admin_takeover_forbidden''
      else if e = ErrTechnicianNotAssignedToMachine then Api_Error 403 ''technician_not_assigned''
      else if e = ErrTechnicianAssignmentCheckerRequired then Api_Error 503 ''assignment_checker_misconfigured''
      else if errors_Is e ErrNoRows then Api_Error 404 ''not_found''
      else Api_Error 500 ''internal'')"

section \<open>Rules\<close>

definition sessionRevokeAllowed :: "operator_principal \<Rightarrow> bool" where
  "sessionRevokeAllowed p \<longleftrightarrow> p_HasRole p ''platform_admin'' \<or> p_HasRole p ''admin''"

definition authorizeMachineOperatorAccess :: "operator_principal \<Rightarrow> uuid \<Rightarrow> bool" where
  "authorizeMachineOperatorAccess p machineID \<longleftrightarrow>
     (if IsMachinePrincipal p then False
      else if p_HasRole p ''platform_admin'' then True
      else if p_AllowsMachine p machineID then True
      else HasAnyRole p [''admin'', ''member''])"

definition assertSessionMutableByPrincipal :: "operator_principal \<Rightarrow> uuid \<Rightarrow> op_session \<Rightarrow> bool" where
  "assertSessionMutableByPrincipal p machineID sess \<longleftrightarrow>
     (if p_HasRole p ''platform_admin'' then True
      else if p_HasRole p ''admin'' then True
      else if op_ActorType sess = ''TECHNICIAN'' \<and> pr_TechnicianID p \<noteq> uuid_Nil \<and>
              op_TechnicianID sess = Some (pr_TechnicianID p) \<and> p_AllowsMachine p machineID then True
      else op_ActorType sess = ''USER'' \<and> TrimSpace (pr_Subject p) \<noteq> [] \<and>
           op_UserPrincipal sess = Some (TrimSpace (pr_Subject p)))"

definition deriveOperatorActor :: "operator_principal \<Rightarrow> go_err + string \<times> uuid option \<times> string option" where
  "deriveOperatorActor p =
     (if pr_TechnicianID p \<noteq> uuid_Nil then Inr (''TECHNICIAN'', Some (pr_TechnicianID p), None)
      else let sub = TrimSpace (pr_Subject p)
           in if sub = [] then Inl ErrInvalidActor else Inr (''USER'', None, Some sub))"

definition parseOperatorLogoutFinalStatus :: "string \<Rightarrow> go_err + string" where
  "parseOperatorLogoutFinalStatus raw =
     (let s = TrimSpace (ToUpper raw)
      in if s = [] \<or> s = ''ENDED'' then Inr ''ENDED''
         else if s = ''REVOKED'' then Inr ''REVOKED''
         else Inl ErrInvalidSessionEndStatus)"

definition correlationUUIDFromRequest :: "operator_request \<Rightarrow> uuid option" where
  "correlationUUIDFromRequest rq =
     (if rq_CorrelationID rq = [] then None else rq_ParseUUID rq (rq_CorrelationID rq))"

text \<open>
  Objects are lists of members; what the object of \<open>encoding/json\<close> makes of the order of the members and of
  numbers that no \<open>float64\<close> holds exactly is left out.
\<close>

definition mergeCorrelationMetadata :: "raw \<Rightarrow> string \<Rightarrow> raw" where
  "mergeCorrelationMetadata base corr =
     (let m = (case base of Bytes (JObj kvs) \<Rightarrow> kvs | _ \<Rightarrow> [])
      in Bytes (JObj (if corr \<noteq> [] \<and> map_of m ''http_correlation'' = None
                      then m @ [(''http_correlation'', JStr corr)] else m)))"

definition loginFailureMetadata :: "go_err \<Rightarrow> string \<Rightarrow> raw" where
  "loginFailureMetadata cause httpCorr =
     Bytes (JObj ((''reason'', JStr (err_msg cause)) #
       (if httpCorr \<noteq> [] then [(''http_correlation'', JStr httpCorr)] else [])))"

section \<open>Handlers\<close>

definition recordLoginFailure :: "uuid \<Rightarrow> string \<Rightarrow> uuid option \<Rightarrow> raw \<Rightarrow> auth_event oq" where
  "recordLoginFailure machineID authMethod corr meta =
     (let am = (if TrimSpace authMethod = [] then ''unknown'' else TrimSpace authMethod);
          am' = (case ValidateAuthEventSemantics ''login_failure'' am of Inl _ \<Rightarrow> ''unknown'' | Inr _ \<Rightarrow> am)
      in RecordAuthEvent \<lparr>ap_OperatorSessionID = None, ap_MachineID = machineID,
           ap_EventType = ''login_failure'', ap_AuthMethod = am', ap_OccurredAt = None,
           ap_CorrelationID = corr, ap_Metadata = meta\<rparr>)"

definition method_or_oidc :: "string \<Rightarrow> string" where
  "method_or_oidc m = (if TrimSpace m = [] then ''oidc'' else TrimSpace m)"

definition login_metadata :: "operator_request \<Rightarrow> operator_login_request \<Rightarrow> raw" where
  "login_metadata rq body =
     mergeCorrelationMetadata (if lr_ClientMetadata body = NoBytes then Bytes (JObj []) else lr_ClientMetadata body)
       (rq_CorrelationID rq)"

definition startOperatorSessionForLogin ::
    "operator_service \<Rightarrow> operator_request \<Rightarrow> uuid \<Rightarrow> operator_login_request \<Rightarrow> op_session oq" where
  "startOperatorSessionForLogin sv rq machineID body =
     bnd (lift_res (deriveOperatorActor (rq_Principal rq))) (\<lambda>(actorType, techID, userPrincipal).
       StartOperatorSession sv
         \<lparr>si_MachineID = machineID, si_ActorType = actorType, si_TechnicianID = techID,
           si_UserPrincipal = userPrincipal, si_ExpiresAt = lr_ExpiresAt body,
           si_ClientMetadata = login_metadata rq body,
           si_InitialAuthMethod = method_or_oidc (lr_AuthMethod body),
           si_CorrelationID = correlationUUIDFromRequest rq,
           si_InitialAuthMetadata = login_metadata rq body, si_StaleIdleReclaimAfter = 0,
           si_ForceAdminTakeover = lr_ForceAdminTakeover body,
           si_AdminTakeoverAuthorized = (lr_ForceAdminTakeover body \<and> sessionRevokeAllowed (rq_Principal rq))\<rparr>)"

text \<open>The common entry of the handlers: the machine exists and the principal may work at it.\<close>

definition with_machine :: "operator_request \<Rightarrow> uuid \<Rightarrow> operator_answer oq \<Rightarrow> operator_answer oq" where
  "with_machine rq machineID k =
     bnd (attempt (q_GetMachineByID machineID)) (\<lambda>found. case found of
         Inl e \<Rightarrow> ret (if errors_Is e ErrNoRows then Api_Error 404 ''machine_not_found''
                       else Api_Error 500 ''internal'')
       | Inr machine \<Rightarrow>
           if \<not> authorizeMachineOperatorAccess (rq_Principal rq) machine then ret (Api_Error 403 ''forbidden'')
           else k)"

definition operatorLoginHandler ::
    "operator_service \<Rightarrow> operator_request \<Rightarrow> uuid \<Rightarrow> operator_login_request option \<Rightarrow> operator_answer oq" where
  "operatorLoginHandler sv rq machineID decoded =
     with_machine rq machineID
       (case decoded of
          None \<Rightarrow> ret (Api_Error 400 ''invalid_json'')
        | Some body \<Rightarrow>
            if (case lr_ClientMetadata body of NoBytes \<Rightarrow> False | Bytes (JObj _) \<Rightarrow> False | _ \<Rightarrow> True)
            then ret (Api_Error 400 ''invalid_client_metadata'')
            else if lr_ForceAdminTakeover body \<and> \<not> sessionRevokeAllowed (rq_Principal rq)
            then ret (Api_Error 403 ''admin_takeover_forbidden'')
            else bnd (attempt (startOperatorSessionForLogin sv rq machineID body)) (\<lambda>r. case r of
                Inr sess \<Rightarrow> ret (Session_View sess)
              | Inl e \<Rightarrow>
                  seq (attempt (recordLoginFailure machineID (method_or_oidc (lr_AuthMethod body))
                         (correlationUUIDFromRequest rq) (loginFailureMetadata e (rq_CorrelationID rq))))
                    (ret (operatorErrorAnswer e))))"

text \<open>The session a logout is about: the named one, or the active one of the machine.\<close>

definition logout_session :: "operator_request \<Rightarrow> uuid \<Rightarrow> operator_logout_request \<Rightarrow> (operator_answer + uuid) oq" where
  "logout_session rq machineID body =
     (let rawSid = TrimSpace (gr_SessionID body)
      in if rawSid \<noteq> [] then
           ret (case rq_ParseUUID rq rawSid of None \<Rightarrow> Inl (Api_Error 400 ''invalid_session_id'') | Some i \<Rightarrow> Inr i)
         else bnd (attempt (ActiveSessionForMachine machineID)) (\<lambda>r. ret (case r of
             Inl e \<Rightarrow> Inl (Api_Error 500 ''internal'')
           | Inr None \<Rightarrow> Inl (Api_Error 400 ''session_id_required'')
           | Inr (Some sess) \<Rightarrow> Inr (op_ID sess))))"

definition answer_or :: "(operator_db, 'a) io \<Rightarrow> ('a \<Rightarrow> operator_answer oq) \<Rightarrow> operator_answer oq" where
  "answer_or m k = bnd (attempt m) (\<lambda>r. case r of Inl e \<Rightarrow> ret (operatorErrorAnswer e) | Inr x \<Rightarrow> k x)"

definition operatorLogoutHandler ::
    "operator_request \<Rightarrow> uuid \<Rightarrow> operator_logout_request option \<Rightarrow> operator_answer oq" where
  "operatorLogoutHandler rq machineID decoded =
     with_machine rq machineID
       (case decoded of
          None \<Rightarrow> ret (Api_Error 400 ''invalid_json'')
        | Some body \<Rightarrow>
            bnd (logout_session rq machineID body) (\<lambda>which. case which of
                Inl ans \<Rightarrow> ret ans
              | Inr sid \<Rightarrow>
                  answer_or (GetSessionIfMatchesMachine sid machineID) (\<lambda>sess.
                  if \<not> assertSessionMutableByPrincipal (rq_Principal rq) machineID sess
                  then ret (Api_Error 403 ''forbidden'')
                  else case parseOperatorLogoutFinalStatus (gr_FinalStatus body) of
                      Inl e \<Rightarrow> ret (operatorErrorAnswer e)
                    | Inr finalStatus \<Rightarrow>
                        if finalStatus = ''REVOKED'' \<and> \<not> sessionRevokeAllowed (rq_Principal rq)
                        then ret (Api_Error 403 ''forbidden'')
                        else answer_or (EndOperatorSession
                            \<lparr>ei_MachineID = machineID, ei_SessionID = sid, ei_FinalStatus = finalStatus,
                              ei_EndedReason = NormalizeEndedReason (gr_EndedReason body),
                              ei_LogoutAuthMethod = method_or_oidc (gr_AuthMethod body),
                              ei_LogoutCorrelationID = correlationUUIDFromRequest rq,
                              ei_LogoutMetadata = mergeCorrelationMetadata (Bytes (JObj [])) (rq_CorrelationID rq)\<rparr>)
                          (\<lambda>ended. ret (Session_View ended)))))"

definition operatorHeartbeatHandler :: "operator_request \<Rightarrow> uuid \<Rightarrow> uuid \<Rightarrow> operator_answer oq" where
  "operatorHeartbeatHandler rq machineID sessionID =
     with_machine rq machineID
       (answer_or (GetSessionIfMatchesMachine sessionID machineID) (\<lambda>sess.
          if \<not> assertSessionMutableByPrincipal (rq_Principal rq) machineID sess
          then ret (Api_Error 403 ''forbidden'')
          else answer_or (HeartbeatOperatorSession uuid_Nil machineID sessionID)
                 (\<lambda>out. ret (Session_View out))))"

end
