(* ===== verification/Operator_Safety.thy ===== *)
theory Operator_Safety
  imports Operator_Access Commerce_System
begin

text \<open>
  What the operator sessions guarantee over any sequence of requests: a machine has at most one active
  session, a finished session is never touched again, the trail of logins and actions only grows and
  never points to a session of another machine. A login displaces somebody else only by an admin's
  takeover or after the idle window, and only its operator or an admin keeps alive or ends a session.
\<close>

section \<open>The invariant\<close>

definition is_active :: "op_session \<Rightarrow> bool" where
  "is_active r \<longleftrightarrow> op_Status r = ''ACTIVE''"

definition session_wf :: "op_session \<Rightarrow> bool" where
  "session_wf r \<longleftrightarrow>
     ck_operator_session_actor_shape r \<and> op_Status r \<in> set session_statuses \<and>
     (is_active r \<longleftrightarrow> op_EndedAt r = None)"

definition session_key :: "op_session \<Rightarrow> uuid \<times> uuid" where
  "session_key r = (op_ID r, op_MachineID r)"

definition attribution_linked :: "op_session list \<Rightarrow> action_attribution \<Rightarrow> bool" where
  "attribution_linked rows a \<longleftrightarrow>
     (case aa_OperatorSessionID a of None \<Rightarrow> True | Some i \<Rightarrow> (i, aa_MachineID a) \<in> set (map session_key rows))"

definition operator_inv :: "operator_db \<Rightarrow> bool" where
  "operator_inv s \<longleftrightarrow>
     distinct (map op_ID (od_sessions s)) \<and>
     distinct (map op_MachineID (filter is_active (od_sessions s))) \<and>
     list_all session_wf (od_sessions s) \<and>
     list_all (attribution_linked (od_sessions s)) (od_attributions s)"

text \<open>How a row may change: only while it is active, and never who works where since when.\<close>

definition session_evolves :: "op_session \<Rightarrow> op_session \<Rightarrow> bool" where
  "session_evolves a b \<longleftrightarrow>
     a = b \<or> (is_active a \<and> op_ID b = op_ID a \<and> op_MachineID b = op_MachineID a \<and>
              op_ActorType b = op_ActorType a \<and> op_TechnicianID b = op_TechnicianID a \<and>
              op_UserPrincipal b = op_UserPrincipal a \<and> op_StartedAt b = op_StartedAt a \<and>
              op_CreatedAt b = op_CreatedAt a)"

interpretation sessions: row_evolution session_evolves
  by unfold_locales (auto simp: session_evolves_def)

definition operator_history :: "operator_db \<Rightarrow> operator_db \<Rightarrow> bool" where
  "operator_history s t \<longleftrightarrow>
     grows session_evolves (od_sessions s) (od_sessions t) \<and>
     grows (=) (od_auth s) (od_auth t) \<and> grows (=) (od_attributions s) (od_attributions t)"

definition operator_evolves :: "operator_db \<Rightarrow> operator_db \<Rightarrow> bool" where
  "operator_evolves s t \<longleftrightarrow> operator_history s t \<and> (operator_inv s \<longrightarrow> operator_inv t)"

interpretation opev: evolution operator_evolves
proof
  show "operator_evolves s s" for s
    by (simp add: operator_evolves_def operator_history_def sessions.grows_refl journal.grows_refl)
  show "operator_evolves s u" if "operator_evolves s t" "operator_evolves t u" for s t u
    using that unfolding operator_evolves_def operator_history_def
    by (meson sessions.grows_trans journal.grows_trans)
qed

section \<open>Statements\<close>

named_theorems operator_moves \<open>the operations under which the session table evolves\<close>

lemmas [operator_moves] = opev.moves_rules

lemma frozen_row_or_none: "read_only (row_or_none r)"
  by (cases r) (simp_all add: row_or_none_def frozen.moves_raise frozen.moves_ret)

lemma moves_row_or_none [operator_moves]: "moves operator_evolves (row_or_none r)"
  by (rule opev.moves_read_only [OF frozen_row_or_none])

lemma moves_no_rows_to [operator_moves]: "moves R m \<Longrightarrow> moves R (no_rows_to e m)"
  by (auto simp: moves_def no_rows_to_def split: prod.splits sum.splits) (metis snd_conv)+

lemma moves_unique_to [operator_moves]: "moves R m \<Longrightarrow> moves R (unique_to e m)"
  by (auto simp: moves_def unique_to_def split: prod.splits sum.splits) (metis snd_conv)+

lemma inv_same_tables:
  "od_sessions t = od_sessions s \<Longrightarrow> od_attributions t = od_attributions s \<Longrightarrow> operator_inv t \<longleftrightarrow> operator_inv s"
  by (simp add: operator_inv_def)

lemma evolves_same_tables:
  "od_sessions t = od_sessions s \<Longrightarrow> od_attributions t = od_attributions s \<Longrightarrow> grows (=) (od_auth s) (od_auth t)
    \<Longrightarrow> operator_evolves s t"
  using inv_same_tables [of t s]
  by (simp add: operator_evolves_def operator_history_def sessions.grows_refl journal.grows_refl)

text \<open>A change of active rows that keeps them active or finishes them.\<close>

definition row_change :: "(op_session \<Rightarrow> op_session) \<Rightarrow> bool" where
  "row_change f \<longleftrightarrow> (\<forall>r. is_active r \<longrightarrow> session_evolves r (f r) \<and>
     op_ID (f r) = op_ID r \<and> op_MachineID (f r) = op_MachineID r \<and>
     (session_wf r \<longrightarrow> session_wf (f r)))"

lemma row_changeD:
  assumes "row_change f" "is_active r"
  shows "session_evolves r (f r)" "op_ID (f r) = op_ID r" "op_MachineID (f r) = op_MachineID r"
    "session_wf r \<Longrightarrow> session_wf (f r)"
  using assms by (auto simp: row_change_def)

lemma active_upd_where:
  assumes f: "row_change f" and P: "\<And>r. P r \<Longrightarrow> is_active r"
    and d: "distinct (map op_MachineID (filter is_active rows))"
  shows "distinct (map op_MachineID (filter is_active (upd_where P f rows))) \<and>
    set (map op_MachineID (filter is_active (upd_where P f rows))) \<subseteq> set (map op_MachineID (filter is_active rows))"
  using d
proof (induction rows)
  case (Cons r rows)
  have "P r \<Longrightarrow> op_MachineID (f r) = op_MachineID r" using f P by (simp add: row_changeD(3))
  with Cons P show ?case by (auto split: if_splits)
qed simp

lemma inv_upd_where:
  assumes f: "row_change f" and P: "\<And>r. P r \<Longrightarrow> is_active r" and inv: "operator_inv s"
  shows "operator_inv (s\<lparr>od_sessions := upd_where P f (od_sessions s)\<rparr>)"
proof -
  let ?rows = "od_sessions s"
  have keys: "map session_key (upd_where P f ?rows) = map session_key ?rows"
    by (rule map_upd_where) (use f P in \<open>simp add: session_key_def row_changeD\<close>)
  have ids: "map op_ID (upd_where P f ?rows) = map op_ID ?rows"
    by (rule map_upd_where) (use f P in \<open>simp add: row_changeD\<close>)
  have wf: "list_all session_wf (upd_where P f ?rows)"
    using inv f P by (auto simp: operator_inv_def list_all_iff upd_where_set row_changeD(4))
  have links: "attribution_linked (upd_where P f ?rows) = attribution_linked ?rows"
    by (rule ext) (simp add: attribution_linked_def keys del: set_map split: option.split)
  show ?thesis
    using inv wf active_upd_where [where P = P and rows = ?rows, OF f P] by (simp add: operator_inv_def ids links)
qed

lemma moves_update_session:
  assumes f: "\<And>now. row_change (f now)" and P: "\<And>r. P r \<Longrightarrow> is_active r"
  shows "moves operator_evolves (update_session P f)"
proof -
  have "operator_evolves s (s\<lparr>od_sessions := upd_where P (f now) (od_sessions s)\<rparr>)" for s now
    using inv_upd_where [OF f P] sessions.grows_upd [of P "f now"] f P
    by (simp add: operator_evolves_def operator_history_def journal.grows_refl row_changeD(1))
  then show ?thesis
    unfolding update_session_def select_session_def
    by (intro operator_moves opev.moves_writes)
qed

lemma active_insert:
  "distinct (map op_MachineID (filter is_active rows)) \<Longrightarrow>
    \<not> list_ex (\<lambda>q. op_MachineID q = op_MachineID r \<and> op_Status q = ''ACTIVE'') rows \<Longrightarrow>
    distinct (map op_MachineID (filter is_active (rows @ [r])))"
  by (auto simp: is_active_def list_ex_iff)

lemma links_append: "attribution_linked rows a \<Longrightarrow> attribution_linked (rows @ xs) a"
  by (auto simp: attribution_linked_def split: option.splits)

lemma inv_insert:
  assumes inv: "operator_inv s" and wf: "session_wf r"
    and fresh: "\<not> list_ex (\<lambda>q. op_ID q = op_ID r \<or> op_MachineID q = op_MachineID r \<and> op_Status q = ''ACTIVE'') (od_sessions s)"
    and t: "od_sessions t = od_sessions s @ [r]" "od_attributions t = od_attributions s"
  shows "operator_inv t"
proof -
  have "distinct (map op_MachineID (filter is_active (od_sessions s @ [r])))"
    by (rule active_insert) (use inv fresh in \<open>auto simp: operator_inv_def list_ex_iff\<close>)
  moreover have "distinct (map op_ID (od_sessions s @ [r]))"
    using inv fresh by (auto simp: operator_inv_def list_ex_iff)
  moreover have "list_all (attribution_linked (od_sessions s @ [r])) (od_attributions s)"
    using inv by (auto simp: operator_inv_def list_all_iff intro: links_append)
  ultimately show ?thesis using inv wf t by (simp add: operator_inv_def)
qed

lemma moves_insert_session_row [operator_moves]:
  "moves operator_evolves (q_InsertMachineOperatorSession m a tid u ''ACTIVE'' e meta)"
proof -
  have "operator_evolves s (snd (q_InsertMachineOperatorSession m a tid u ''ACTIVE'' e meta s))" (is "operator_evolves s ?t") for s
  proof (cases "fst (q_InsertMachineOperatorSession m a tid u ''ACTIVE'' e meta s)")
    case (Inl err)
    then have "od_sessions ?t = od_sessions s \<and> od_attributions ?t = od_attributions s \<and> od_auth ?t = od_auth s"
      by (auto simp: q_InsertMachineOperatorSession_def Let_def split: if_splits)
    then show ?thesis by (simp add: evolves_same_tables journal.grows_refl)
  next
    case (Inr r)
    then have t: "od_sessions ?t = od_sessions s @ [r]" "od_attributions ?t = od_attributions s" "od_auth ?t = od_auth s"
      and wf: "session_wf r"
      and fresh: "\<not> list_ex (\<lambda>q. op_ID q = op_ID r \<or> op_MachineID q = op_MachineID r \<and> op_Status q = ''ACTIVE'') (od_sessions s)"
      by (auto simp: q_InsertMachineOperatorSession_def Let_def session_wf_def is_active_def split: if_splits)
    show ?thesis
      using inv_insert [OF _ wf fresh t(1,2)] t
      by (simp add: operator_evolves_def operator_history_def sessions.grows_append journal.grows_refl)
  qed
  then show ?thesis by (simp add: moves_def)
qed

lemmas row_change_defs = row_change_def session_evolves_def session_wf_def is_active_def session_statuses_def
  ck_operator_session_actor_shape_def

lemma row_change_resume: "row_change (resume_row e meta now)"
  by (auto simp: row_change_defs resume_row_def)

lemma row_change_end: "st \<in> {''ENDED'', ''REVOKED''} \<Longrightarrow> row_change (end_row st t reason now)"
  by (auto simp: row_change_defs end_row_def)

lemma row_change_touch: "row_change (touch_row now)"
  by (auto simp: row_change_defs touch_row_def)

lemma row_change_expire: "row_change (expire_row now)"
  by (auto simp: row_change_defs expire_row_def)

lemma moves_select_session [operator_moves]: "moves operator_evolves (select_session P)"
  unfolding select_session_def by (intro operator_moves)

lemma moves_get_session [operator_moves]:
  "moves operator_evolves (q_GetOperatorSessionByID i)" "moves operator_evolves (q_GetActiveOperatorSessionByMachineID m)"
  unfolding q_GetOperatorSessionByID_def q_GetActiveOperatorSessionByMachineID_def by (intro operator_moves)+

lemma moves_resume [operator_moves]:
  "moves operator_evolves (q_ResumeActiveOperatorSessionForActor e meta m a tid u)"
  unfolding q_ResumeActiveOperatorSessionForActor_def
  by (rule moves_update_session [OF row_change_resume]) (simp add: is_active_def)

lemma moves_end [operator_moves]:
  "st \<in> {''ENDED'', ''REVOKED''} \<Longrightarrow> moves operator_evolves (q_EndMachineOperatorSession st t reason i)"
  unfolding q_EndMachineOperatorSession_def
  by (intro operator_moves moves_update_session row_change_end) (simp_all add: is_active_def)

lemma moves_touch [operator_moves]: "moves operator_evolves (q_TouchMachineOperatorSessionActivity i)"
  unfolding q_TouchMachineOperatorSessionActivity_def
  by (rule moves_update_session [OF row_change_touch]) (simp add: is_active_def)

lemma moves_timeout [operator_moves]: "moves operator_evolves (q_TimeoutMachineOperatorSessionIfExpired i)"
  unfolding q_TimeoutMachineOperatorSessionIfExpired_def
  by (intro operator_moves moves_update_session row_change_expire) (simp add: is_active_def)

lemma moves_next_serial [operator_moves]: "moves operator_evolves next_operator_serial"
  by (simp add: moves_def next_operator_serial_def evolves_same_tables journal.grows_refl)

lemma moves_insert_auth_event [operator_moves]: "moves operator_evolves (q_InsertMachineOperatorAuthEvent ev)"
  unfolding q_InsertMachineOperatorAuthEvent_def Let_def
  by (intro operator_moves opev.moves_writes) (simp add: evolves_same_tables journal.grows_append)

lemma moves_fleet [operator_moves]:
  "moves operator_evolves (q_GetMachineByID i)" "moves operator_evolves (q_GetTechnicianByID j)"
  "moves operator_evolves (q_TechnicianActiveAssignmentExists j i)"
  unfolding q_GetMachineByID_def q_GetTechnicianByID_def q_TechnicianActiveAssignmentExists_def
  by (intro operator_moves)+

section \<open>Operations\<close>

lemma displace_status: "displace inp clock r = Some (st, reason) \<Longrightarrow> st \<in> {''ENDED'', ''REVOKED''}"
  by (auto simp: displace_def Let_def split: if_splits)

lemma moves_displace [operator_moves]: "moves operator_evolves (displace_session inp r)"
  unfolding displace_session_def
  by (rule opev.moves_bnd [OF opev.moves_reads])
    (auto split: option.split dest!: displace_status
      intro!: opev.moves_seq opev.moves_ret opev.moves_raise moves_no_rows_to moves_end)

lemma moves_start [operator_moves]: "moves operator_evolves (StartOperatorSession sv inp)"
  unfolding StartOperatorSession_def Let_def repo_StartOperatorSession_def resume_session_def insert_session_def
    technician_may_start_def
  by (intro operator_moves)

lemma moves_lock_active [operator_moves]: "moves operator_evolves (lock_active i)"
  unfolding lock_active_def by (intro operator_moves)

lemma moves_session_of_machine [operator_moves]: "moves operator_evolves (GetSessionIfMatchesMachine i m)"
  unfolding GetSessionIfMatchesMachine_def repo_GetOperatorSessionByID_def by (intro operator_moves)

lemma moves_repo_end [operator_moves]:
  "ep_Status inp \<in> {''ENDED'', ''REVOKED''} \<Longrightarrow> moves operator_evolves (repo_EndOperatorSession inp)"
  unfolding repo_EndOperatorSession_def by (intro operator_moves)

lemma moves_repo_timeout [operator_moves]: "moves operator_evolves (repo_TimeoutOperatorSessionIfExpired i)"
  unfolding repo_TimeoutOperatorSessionIfExpired_def by (intro operator_moves)

lemma moves_end_session [operator_moves]: "moves operator_evolves (EndOperatorSession inp)"
proof (cases "ei_FinalStatus inp \<in> {''ENDED'', ''REVOKED''}")
  case True
  then show ?thesis unfolding EndOperatorSession_def repo_GetOperatorSessionByID_def
    by (intro operator_moves) simp
next
  case False
  then show ?thesis by (simp add: moves_def EndOperatorSession_def opev.R_refl)
qed

lemma moves_timeout_session [operator_moves]: "moves operator_evolves (TimeoutOperatorSession m i)"
  unfolding TimeoutOperatorSession_def by (intro operator_moves)

lemma moves_touch_session [operator_moves]: "moves operator_evolves (TouchOperatorSessionActivity c m i)"
  unfolding TouchOperatorSessionActivity_def own_operator_company_def repo_TouchOperatorSessionActivity_def
  by (intro operator_moves)

lemma moves_heartbeat [operator_moves]: "moves operator_evolves (HeartbeatOperatorSession c m i)"
  unfolding HeartbeatOperatorSession_def by (intro operator_moves)

lemma moves_record_auth_event [operator_moves]: "moves operator_evolves (RecordAuthEvent ev)"
  unfolding RecordAuthEvent_def repo_GetOperatorSessionByID_def repo_InsertAuthEvent_def by (intro operator_moves)

lemma moves_active_session [operator_moves]: "moves operator_evolves (ActiveSessionForMachine m)"
  unfolding ActiveSessionForMachine_def repo_GetActiveSessionByMachineID_def by (intro operator_moves)

lemma moves_with_machine [operator_moves]:
  "moves operator_evolves k \<Longrightarrow> moves operator_evolves (with_machine rq m k)"
  unfolding with_machine_def by (intro operator_moves)

lemma moves_answer_or [operator_moves]:
  "moves operator_evolves m \<Longrightarrow> (\<And>x. moves operator_evolves (k x)) \<Longrightarrow> moves operator_evolves (answer_or m k)"
  unfolding answer_or_def by (intro operator_moves)

lemma moves_login [operator_moves]: "moves operator_evolves (operatorLoginHandler sv rq m body)"
  unfolding operatorLoginHandler_def startOperatorSessionForLogin_def recordLoginFailure_def Let_def
  by (intro operator_moves)

lemma moves_logout [operator_moves]: "moves operator_evolves (operatorLogoutHandler rq m body)"
  unfolding operatorLogoutHandler_def logout_session_def Let_def by (intro operator_moves)

lemma moves_heartbeat_handler [operator_moves]: "moves operator_evolves (operatorHeartbeatHandler rq m i)"
  unfolding operatorHeartbeatHandler_def by (intro operator_moves)

text \<open>An attribution is linked because the service compared its machine with the one of the session.\<close>

lemma insert_attribution_evolves:
  assumes "case tp_OperatorSessionID inp of None \<Rightarrow> True
    | Some i \<Rightarrow> (i, tp_MachineID inp) \<in> set (map session_key (od_sessions s))"
  shows "operator_evolves s (snd (repo_InsertActionAttribution inp s))"
  using assms
  by (auto simp: repo_InsertActionAttribution_def q_InsertMachineActionAttribution_def Let_def tx_def seq_def bnd_run
      next_operator_serial_def operator_evolves_def operator_history_def sessions.grows_refl journal.grows_refl
      journal.grows_append operator_inv_def attribution_linked_def split: option.splits)

lemma after_read:
  assumes "read_only m" and "\<And>x. m s = (Inr x, s) \<Longrightarrow> operator_evolves s (snd (f x s))"
  shows "operator_evolves s (snd (bnd m f s))"
proof -
  obtain r t where m: "m s = (r, t)" by (cases "m s")
  with assms(1) have "t = s" by (rule read_only_run)
  with m assms(2) show ?thesis by (cases r) (simp_all add: bnd_run opev.R_refl)
qed

lemma frozen_get_session: "read_only (repo_GetOperatorSessionByID i)"
  unfolding repo_GetOperatorSessionByID_def q_GetOperatorSessionByID_def select_session_def
  by (intro moves_no_rows_to frozen.moves_bnd frozen.moves_reads frozen_row_or_none)

lemma frozen_get_machine: "read_only (q_GetMachineByID m)"
  unfolding q_GetMachineByID_def by (intro frozen.moves_bnd frozen.moves_reads frozen_row_or_none)

lemma no_rows_to_Inr [io_inv]: "no_rows_to e m s = (Inr r, t) \<longleftrightarrow> m s = (Inr r, t)"
  by (auto simp: no_rows_to_def split: prod.splits sum.splits)

lemma unique_to_Inr [io_inv]: "unique_to e m s = (Inr r, t) \<longleftrightarrow> m s = (Inr r, t)"
  by (auto simp: unique_to_def split: prod.splits sum.splits)

lemma row_or_none_Inr [io_inv]: "row_or_none v s = (Inr r, t) \<longleftrightarrow> t = s \<and> v = Some r"
  by (auto simp: row_or_none_def split: option.splits)

lemma select_session_Inr [io_inv]:
  "select_session P s = (Inr r, t) \<longleftrightarrow> t = s \<and> find P (od_sessions s) = Some r"
  by (auto simp: select_session_def row_or_none_Inr)

lemma session_found:
  "repo_GetOperatorSessionByID i s = (Inr r, t) \<longleftrightarrow> t = s \<and> find (\<lambda>r. op_ID r = i) (od_sessions s) = Some r"
  by (simp add: repo_GetOperatorSessionByID_def q_GetOperatorSessionByID_def no_rows_to_Inr select_session_Inr)

lemma found_key: "find (\<lambda>r. op_ID r = i) rows = Some r \<Longrightarrow> (i, op_MachineID r) \<in> set (map session_key rows)"
  by (auto simp: session_key_def dest!: find_SomeD)

lemma moves_attribution [operator_moves]: "moves operator_evolves (RecordActionAttribution inp)"
proof -
  define linked where "linked = (case tp_OperatorSessionID inp of
      Some sid \<Rightarrow> bnd (repo_GetOperatorSessionByID sid) (\<lambda>sess. guard (op_MachineID sess = tp_MachineID inp) ErrCompanyMismatch)
    | None \<Rightarrow> ret ())"
  have read: "read_only linked"
    unfolding linked_def by (intro frozen.moves_rules frozen_get_session)
  have link: "case tp_OperatorSessionID inp of None \<Rightarrow> True
      | Some i \<Rightarrow> (i, tp_MachineID inp) \<in> set (map session_key (od_sessions s))" if "linked s = (Inr u, s)" for s u
    using that by (auto simp: linked_def bnd_Inr session_found split: option.splits if_splits dest: found_key)
  show ?thesis
    unfolding moves_def RecordActionAttribution_def linked_def [symmetric] seq_def
    by (intro allI after_read frozen.moves_lift_res frozen_get_machine read insert_attribution_evolves) (rule link)
qed

section \<open>Runs\<close>

text \<open>
  A step is a request of one of the handlers or of a caller of the service, the passing of time on either
  clock, or a change of the fleet's records.
\<close>

inductive operator_step :: "operator_db \<Rightarrow> operator_db \<Rightarrow> bool" where
  step_login: "operator_step s (snd (operatorLoginHandler sv rq m lbody s))"
| step_logout: "operator_step s (snd (operatorLogoutHandler rq m gbody s))"
| step_heartbeat: "operator_step s (snd (operatorHeartbeatHandler rq m i s))"
| step_start: "operator_step s (snd (StartOperatorSession sv sinp s))"
| step_end: "operator_step s (snd (EndOperatorSession einp s))"
| step_timeout: "operator_step s (snd (TimeoutOperatorSession m i s))"
| step_auth: "operator_step s (snd (RecordAuthEvent ev s))"
| step_attribution: "operator_step s (snd (RecordActionAttribution a s))"
| step_clocks: "operator_step s (s\<lparr>od_now := n, od_clock := c\<rparr>)"
| step_fleet: "operator_step s (s\<lparr>od_machines := ms @ od_machines s, od_technicians := ts @ od_technicians s,
    od_assignments := as\<rparr>)"

inductive_cases operator_stepE: "operator_step s t"

lemma step_evolves: "operator_step s t \<Longrightarrow> operator_evolves s t"
proof (induction rule: operator_step.induct)
  case (step_clocks s n c)
  show ?case by (rule evolves_same_tables) (simp_all add: journal.grows_refl)
next
  case (step_fleet s ms ts as)
  show ?case by (rule evolves_same_tables) (simp_all add: journal.grows_refl)
qed (simp_all add: operator_moves [unfolded moves_def, rule_format])

lemma run_evolves: "operator_step\<^sup>*\<^sup>* s t \<Longrightarrow> operator_evolves s t"
  by (induction rule: rtranclp_induct) (blast intro: opev.R_refl opev.R_trans step_evolves)+

lemma grows_eq: "grows (=) xs ys \<longleftrightarrow> (\<exists>zs. ys = xs @ zs)"
  by (auto simp: grows_def list.rel_eq)

lemma grows_nth: "grows R xs ys \<Longrightarrow> i < length xs \<Longrightarrow> i < length ys \<and> R (xs ! i) (ys ! i)"
  by (auto simp: grows_def nth_append list_all2_conv_all_nth)

lemma one_active:
  assumes "operator_inv s" "r \<in> set (od_sessions s)" "q \<in> set (od_sessions s)" "is_active r" "is_active q"
    "op_MachineID r = op_MachineID q"
  shows "r = q"
  using assms by (auto simp: operator_inv_def distinct_map dest!: inj_onD [where x = r and y = q])

lemma active_status: "session_wf r \<Longrightarrow> EqualFold (TrimSpace (op_Status r)) ''ACTIVE'' \<Longrightarrow> is_active r"
proof -
  have "list_all (\<lambda>st. EqualFold (TrimSpace st) ''ACTIVE'' \<longrightarrow> st = ''ACTIVE'') session_statuses" by code_simp
  then show "session_wf r \<Longrightarrow> EqualFold (TrimSpace (op_Status r)) ''ACTIVE'' \<Longrightarrow> is_active r"
    by (auto simp: session_wf_def is_active_def list_all_iff)
qed

lemma active_found:
  assumes "operator_inv s" "r \<in> set (od_sessions s)" "is_active r"
  shows "find (\<lambda>q. op_MachineID q = op_MachineID r \<and> op_Status q = ''ACTIVE'') (od_sessions s) = Some r" (is "find ?P _ = _")
proof (cases "find ?P (od_sessions s)")
  case None
  with assms show ?thesis by (auto simp: find_None_iff is_active_def)
next
  case (Some q)
  then have "q \<in> set (od_sessions s)" "is_active q" "op_MachineID q = op_MachineID r"
    by (auto simp: is_active_def dest!: find_SomeD)
  with assms Some show ?thesis using one_active by metis
qed

lemma finished_stays: "session_evolves a b \<Longrightarrow> \<not> is_active a \<Longrightarrow> b = a"
  by (auto simp: session_evolves_def)

text \<open>The actor of an action that names a session is the session the machine currently has.\<close>

lemma action_actor_current:
  assumes inv: "operator_inv s" and run: "ResolveMachineActionActor m supplied policy s = (Inr act, t)"
    and sess: "ma_OperatorSessionID act = Some i"
  shows "\<exists>r. ActiveSessionForMachine m s = (Inr (Some r), s) \<and> op_ID r = i \<and> op_MachineID r = m"
proof -
  from run sess obtain r where f: "find (\<lambda>r. op_ID r = i) (od_sessions s) = Some r" and m: "op_MachineID r = m"
    and st: "EqualFold (TrimSpace (op_Status r)) ''ACTIVE''"
    by (auto simp: ResolveMachineActionActor_def GetSessionIfMatchesMachine_def seq_Inr bnd_Inr session_found
        split: option.splits if_splits session_policy.splits) (auto dest: find_SomeD)
  from f have r: "r \<in> set (od_sessions s)" "op_ID r = i" by (auto dest: find_SomeD)
  with inv st have act: "is_active r" by (auto simp: operator_inv_def list_all_iff intro: active_status)
  have "ActiveSessionForMachine m s = (Inr (Some r), s)"
    using active_found [OF inv r(1) act] m
    by (simp add: ActiveSessionForMachine_def repo_GetActiveSessionByMachineID_def no_rows_to_def
        q_GetActiveOperatorSessionByMachineID_def select_session_def row_or_none_def bnd_run)
  with r m show ?thesis by blast
qed

section \<open>Properties of every run\<close>

text \<open>A deployment with one machine, one technician assigned to it, and nobody logged in.\<close>

definition demo_machine :: uuid where
  "demo_machine = UUID ''m1''"

definition demo_technician :: uuid where
  "demo_technician = UUID ''t1''"

definition demo_db :: operator_db where
  "demo_db = \<lparr>od_now = 1000, od_clock = 1000, od_uuids = (\<lambda>n. UUID (replicate n CHR ''s'')), od_uuid_next = 1,
     od_serial = 0, od_sessions = [], od_auth = [], od_attributions = [], od_machines = [demo_machine],
     od_technicians = [\<lparr>te_ID = demo_technician, te_DisplayName = ''Tina''\<rparr>],
     od_assignments = [\<lparr>tm_TechnicianID = demo_technician, tm_MachineID = demo_machine, tm_Status = ''active'',
       tm_ValidFrom = 0, tm_ValidTo = None\<rparr>]\<rparr>"

definition technician_request :: operator_request where
  "technician_request = \<lparr>rq_Principal = \<lparr>pr_Roles = [''technician''], pr_MachineIDs = [demo_machine],
     pr_Subject = ''tina'', pr_TechnicianID = demo_technician\<rparr>, rq_CorrelationID = ''c-1'',
     rq_ParseUUID = (\<lambda>x. Some (UUID x))\<rparr>"

definition user_request :: "string \<Rightarrow> string \<Rightarrow> operator_request" where
  "user_request role subject = \<lparr>rq_Principal = \<lparr>pr_Roles = [role], pr_MachineIDs = [],
     pr_Subject = subject, pr_TechnicianID = uuid_Nil\<rparr>, rq_CorrelationID = [],
     rq_ParseUUID = (\<lambda>x. Some (UUID x))\<rparr>"

definition plain_login :: operator_login_request where
  "plain_login = \<lparr>lr_AuthMethod = [], lr_ExpiresAt = None, lr_ClientMetadata = NoBytes, lr_ForceAdminTakeover = False\<rparr>"

definition logged_in :: operator_db where
  "logged_in = snd (operatorLoginHandler \<lparr>ov_Assignments = True\<rparr> technician_request demo_machine (Some plain_login) demo_db)"

definition plain_logout :: operator_logout_request where
  "plain_logout = \<lparr>gr_SessionID = [], gr_EndedReason = ''client_logout'', gr_AuthMethod = ''pin'', gr_FinalStatus = []\<rparr>"

definition logged_out :: operator_db where
  "logged_out = snd (operatorLogoutHandler technician_request demo_machine (Some plain_logout) logged_in)"

definition logged_in_again :: operator_db where
  "logged_in_again = snd (operatorLoginHandler \<lparr>ov_Assignments = True\<rparr> technician_request demo_machine (Some plain_login) logged_out)"

text \<open>
  C16: Whatever requests are made in whatever order, with time passing on either clock and fleet records
  changing in between, a machine never has two active sessions, a session has ended exactly when it
  has an end time, no recorded action names a session of another machine, and an action that
  \<open>ResolveMachineActionActor\<close> attributes to a session is attributed to the session that the machine
  has at that moment.
\<close>

theorem one_operator_per_machine:
  assumes "operator_inv s" "operator_step\<^sup>*\<^sup>* s t"
  shows "operator_inv t \<and>
    (\<forall>r \<in> set (od_sessions t). \<forall>q \<in> set (od_sessions t).
       is_active r \<and> is_active q \<and> op_MachineID r = op_MachineID q \<longrightarrow> r = q) \<and>
    (\<forall>m supplied policy act u i. ResolveMachineActionActor m supplied policy t = (Inr act, u) \<longrightarrow>
       ma_OperatorSessionID act = Some i \<longrightarrow>
       (\<exists>r. ActiveSessionForMachine m t = (Inr (Some r), t) \<and> op_ID r = i \<and> op_MachineID r = m))"
proof -
  have inv: "operator_inv t" using assms run_evolves by (auto simp: operator_evolves_def)
  then show ?thesis using one_active action_actor_current by blast
qed

theorem one_operator_per_machine_witness:
  "operator_inv logged_in \<and> length (od_sessions logged_in) = 1 \<and> od_sessions logged_in ! 0 \<in> set (od_sessions logged_in)"
proof -
  have "operator_inv demo_db" by code_simp
  moreover have "operator_step\<^sup>*\<^sup>* demo_db logged_in" unfolding logged_in_def by (rule r_into_rtranclp) (rule step_login)
  ultimately have "operator_inv logged_in" by (rule one_operator_per_machine [THEN conjunct1])
  moreover have "length (od_sessions logged_in) = 1" by code_simp
  ultimately show ?thesis by simp
qed

text \<open>
  C19: Over any run, a session that has finished keeps its row as it is for ever; a session that is active
  keeps its identity, its machine and its operator; no session disappears; and the trails of
  authentication events and of attributed actions are only appended to.
\<close>

theorem finished_sessions_final:
  assumes "operator_step\<^sup>*\<^sup>* s t"
  shows "(\<forall>i < length (od_sessions s). i < length (od_sessions t) \<and>
      session_evolves (od_sessions s ! i) (od_sessions t ! i) \<and>
      (\<not> is_active (od_sessions s ! i) \<longrightarrow> od_sessions t ! i = od_sessions s ! i)) \<and>
    (\<exists>more. od_auth t = od_auth s @ more) \<and> (\<exists>more. od_attributions t = od_attributions s @ more)"
proof -
  from run_evolves [OF assms] have h: "operator_history s t" by (simp add: operator_evolves_def)
  then have "\<forall>i < length (od_sessions s). i < length (od_sessions t) \<and>
      session_evolves (od_sessions s ! i) (od_sessions t ! i)"
    using grows_nth by (fastforce simp: operator_history_def)
  with h show ?thesis by (auto simp: operator_history_def grows_eq dest: finished_stays)
qed

theorem finished_sessions_final_witness:
  "op_Status (od_sessions logged_out ! 0) = ''ENDED'' \<and> od_sessions logged_in_again ! 0 = od_sessions logged_out ! 0
    \<and> length (od_sessions logged_in_again) = 2"
proof -
  have "operator_step\<^sup>*\<^sup>* logged_out logged_in_again"
    unfolding logged_in_again_def by (rule r_into_rtranclp) (rule step_login)
  note run = finished_sessions_final [OF this]
  have "length (od_sessions logged_out) = 1" "op_Status (od_sessions logged_out ! 0) = ''ENDED''"
    "length (od_sessions logged_in_again) = 2" by code_simp+
  with run show ?thesis by (simp add: is_active_def)
qed

end
