(* ===== verification/Operator_Takeover.thy ===== *)
theory Operator_Takeover
  imports Operator_Safety "HOL-Library.Product_Lexorder"
begin

text \<open>
  Who may displace, keep alive or end the session of an operator: what a successful login did to the
  session it found at the machine, and whose sessions the logout and the heartbeat change. The last
  section runs the model into two situations that the code means to exclude.
\<close>

section \<open>What a start does\<close>

lemma update_session_Inr [io_inv]:
  "update_session P f s = (Inr r', t) \<longleftrightarrow>
    (\<exists>r. find P (od_sessions s) = Some r \<and> r' = f (od_now s) r \<and>
         t = s\<lparr>od_sessions := upd_where P (f (od_now s)) (od_sessions s)\<rparr>)"
  by (auto simp: update_session_def bnd_Inr seq_Inr select_session_Inr)

lemma keeps_auth_event: "keeps od_sessions (q_InsertMachineOperatorAuthEvent ev)"
  unfolding q_InsertMachineOperatorAuthEvent_def Let_def next_operator_serial_def
  by (intro kept.moves_rules keeps_writes) (simp_all add: moves_def)

text \<open>The row that a login inserts.\<close>

definition session_for :: "start_session_params \<Rightarrow> op_session \<Rightarrow> bool" where
  "session_for inp r \<longleftrightarrow>
     is_active r \<and> op_MachineID r = so_MachineID inp \<and> op_ActorType r = so_ActorType inp \<and>
     op_TechnicianID r = so_TechnicianID inp \<and> op_UserPrincipal r = so_UserPrincipal inp"

lemma insert_row_Inr:
  assumes "q_InsertMachineOperatorSession m a tid u ''ACTIVE'' e meta s = (Inr r, t)"
  shows "od_sessions t = od_sessions s @ [r] \<and> is_active r \<and> op_MachineID r = m \<and> op_ActorType r = a \<and>
    op_TechnicianID r = tid \<and> op_UserPrincipal r = u"
  using assms by (auto simp: q_InsertMachineOperatorSession_def Let_def is_active_def split: if_splits)

lemma insert_session_Inr:
  assumes "insert_session inp s = (Inr r, t)"
  shows "od_sessions t = od_sessions s @ [r] \<and> session_for inp r"
proof -
  from assms obtain u where
    ins: "q_InsertMachineOperatorSession (so_MachineID inp) (so_ActorType inp) (so_TechnicianID inp)
      (so_UserPrincipal inp) ''ACTIVE'' (so_ExpiresAt inp) (RequiredString (so_ClientMetadata inp)) s = (Inr r, u)"
    and rest: "od_sessions t = od_sessions u"
    by (auto simp: insert_session_def bnd_Inr seq_Inr unique_to_Inr split: option.splits
        dest: keeps_run [OF keeps_auth_event])
  with insert_row_Inr [OF ins] show ?thesis by (simp add: session_for_def)
qed

lemma resume_session_Inr:
  assumes "resume_session inp s = (Inr r, t)"
  shows "\<exists>q \<in> set (od_sessions s). session_for inp q \<and> op_ID r = op_ID q \<and> session_for inp r"
proof -
  from assms obtain u where
    "q_ResumeActiveOperatorSessionForActor (so_ExpiresAt inp) (RequiredString (so_ClientMetadata inp))
       (so_MachineID inp) (so_ActorType inp) (so_TechnicianID inp) (so_UserPrincipal inp) s = (Inr r, u)"
    by (auto simp: resume_session_def bnd_Inr seq_Inr no_rows_to_Inr)
  then show ?thesis
    by (auto simp: q_ResumeActiveOperatorSessionForActor_def update_session_Inr session_for_def is_active_def
        resume_row_def dest!: find_SomeD)
qed

lemma displace_session_Inr:
  assumes "displace_session inp r s = (Inr x, t)"
  obtains st reason where "displace inp (od_clock s) r = Some (st, reason)"
    and "od_sessions t = upd_where (\<lambda>q. op_ID q = op_ID r \<and> op_Status q = ''ACTIVE'')
           (end_row st (od_clock s) (Some reason) (od_now s)) (od_sessions s)"
  using assms
  by (auto simp: displace_session_def seq_Inr no_rows_to_Inr q_EndMachineOperatorSession_def bnd_Inr update_session_Inr
      split: option.splits if_splits)

text \<open>The three cases of a start: the machine is free, its session is resumed, its session is displaced.\<close>

lemma repo_start_cases:
  assumes "repo_StartOperatorSession inp s = (Inr sess, t)"
  obtains
    (free) "find (\<lambda>q. op_MachineID q = so_MachineID inp \<and> op_Status q = ''ACTIVE'') (od_sessions s) = None"
      "od_sessions t = od_sessions s @ [sess]" "session_for inp sess"
  | (resumed) r where "r \<in> set (od_sessions s)" "session_for inp r" "op_ID sess = op_ID r" "session_for inp sess"
  | (displaced) r st reason where
      "find (\<lambda>q. op_MachineID q = so_MachineID inp \<and> op_Status q = ''ACTIVE'') (od_sessions s) = Some r"
      "displace inp (od_clock s) r = Some (st, reason)"
      "od_sessions t = upd_where (\<lambda>q. op_ID q = op_ID r \<and> op_Status q = ''ACTIVE'')
         (end_row st (od_clock s) (Some reason) (od_now s)) (od_sessions s) @ [sess]"
      "session_for inp sess"
proof (cases "find (\<lambda>q. op_MachineID q = so_MachineID inp \<and> op_Status q = ''ACTIVE'') (od_sessions s)")
  case None
  with assms have "insert_session inp s = (Inr sess, t)"
    by (auto simp: repo_StartOperatorSession_def tx_Inr seq_Inr bnd_run q_GetActiveOperatorSessionByMachineID_def
        select_session_def row_or_none_def q_GetMachineByID_def split: option.splits)
  with None insert_session_Inr show ?thesis by (blast intro: free)
next
  case (Some r)
  with assms have run: "(if sameOperatorSessionActor r inp then resume_session inp s = (Inr sess, t)
      else seq (displace_session inp r) (insert_session inp) s = (Inr sess, t))"
    by (auto simp: repo_StartOperatorSession_def tx_Inr seq_Inr bnd_run q_GetActiveOperatorSessionByMachineID_def
        select_session_def row_or_none_def q_GetMachineByID_def split: option.splits if_splits)
  show ?thesis
  proof (cases "sameOperatorSessionActor r inp")
    case True
    with run have "resume_session inp s = (Inr sess, t)" by simp
    with resume_session_Inr show ?thesis by (blast intro: resumed)
  next
    case False
    with run obtain u x where d: "displace_session inp r s = (Inr x, u)" and i: "insert_session inp u = (Inr sess, t)"
      by (auto simp: seq_Inr)
    from d obtain st reason where "displace inp (od_clock s) r = Some (st, reason)"
      and "od_sessions u = upd_where (\<lambda>q. op_ID q = op_ID r \<and> op_Status q = ''ACTIVE'')
        (end_row st (od_clock s) (Some reason) (od_now s)) (od_sessions s)"
      by (rule displace_session_Inr)
    with Some insert_session_Inr [OF i] show ?thesis by (intro displaced) simp_all
  qed
qed

lemma frozen_may_start: "read_only (technician_may_start sv inp)"
  unfolding technician_may_start_def q_GetTechnicianByID_def q_TechnicianActiveAssignmentExists_def
  by (intro frozen.moves_rules frozen_row_or_none)

text \<open>The parameters the service hands to the repository.\<close>

definition start_params :: "start_session_input \<Rightarrow> initial_session_auth option \<Rightarrow> start_session_params" where
  "start_params inp initial =
     \<lparr>so_MachineID = si_MachineID inp, so_ActorType = si_ActorType inp, so_TechnicianID = si_TechnicianID inp,
       so_UserPrincipal = map_option TrimSpace (si_UserPrincipal inp), so_ExpiresAt = si_ExpiresAt inp,
       so_ClientMetadata = si_ClientMetadata inp, so_InitialAuth = initial,
       so_StaleIdleReclaimAfter = si_StaleIdleReclaimAfter inp, so_ForceAdminTakeover = si_ForceAdminTakeover inp,
       so_AdminTakeoverAuthorized = si_AdminTakeoverAuthorized inp\<rparr>"

lemma start_Inr:
  assumes "StartOperatorSession sv inp s = (Inr sess, t)"
  obtains initial where "repo_StartOperatorSession (start_params inp initial) s = (Inr sess, t)"
  using assms
  by (auto simp: StartOperatorSession_def Let_def seq_Inr bnd_Inr lift_res_run_Inr start_params_def split: if_splits
      dest!: read_only_run [OF frozen_get_machine] read_only_run [OF frozen_may_start])

definition login_input :: "operator_request \<Rightarrow> uuid \<Rightarrow> operator_login_request \<Rightarrow> string \<times> uuid option \<times> string option \<Rightarrow>
    start_session_input" where
  "login_input rq m body actor = (case actor of (actorType, techID, userPrincipal) \<Rightarrow>
     \<lparr>si_MachineID = m, si_ActorType = actorType, si_TechnicianID = techID,
       si_UserPrincipal = userPrincipal, si_ExpiresAt = lr_ExpiresAt body,
       si_ClientMetadata = login_metadata rq body, si_InitialAuthMethod = method_or_oidc (lr_AuthMethod body),
       si_CorrelationID = correlationUUIDFromRequest rq, si_InitialAuthMetadata = login_metadata rq body,
       si_StaleIdleReclaimAfter = 0, si_ForceAdminTakeover = lr_ForceAdminTakeover body,
       si_AdminTakeoverAuthorized = (lr_ForceAdminTakeover body \<and> sessionRevokeAllowed (rq_Principal rq))\<rparr>)"

lemma snd_get_machine: "snd (q_GetMachineByID m s) = s"
  by (rule read_only_run [OF frozen_get_machine prod.collapse [symmetric]])

lemma with_machine_session:
  assumes "with_machine rq m k s = (Inr (Session_View sess), t)"
  shows "k s = (Inr (Session_View sess), t)"
  using assms
  by (auto simp: with_machine_def bnd_Inr snd_get_machine split: sum.splits if_splits)

lemma login_Inr:
  assumes "operatorLoginHandler sv rq m (Some body) s = (Inr (Session_View sess), t)"
  obtains actor where "deriveOperatorActor (rq_Principal rq) = Inr actor"
    and "StartOperatorSession sv (login_input rq m body actor) s = (Inr sess, t)"
proof -
  from with_machine_session [OF assms [unfolded operatorLoginHandler_def]]
  have "startOperatorSessionForLogin sv rq m body s = (Inr sess, t)"
    by (auto simp: bnd_Inr seq_Inr operatorErrorAnswer_def split: if_splits sum.splits raw.splits json.splits)
      (auto simp: prod_eq_iff)
  then show ?thesis
    by (auto simp: startOperatorSessionForLogin_def bnd_Inr lift_res_run_Inr login_input_def intro: that)
qed

lemma derived_trimmed: "deriveOperatorActor p = Inr (a, tid, u) \<Longrightarrow> map_option TrimSpace u = u"
  by (auto simp: deriveOperatorActor_def Let_def split: if_splits)

text \<open>What \<open>displace\<close> makes of the active session of another operator.\<close>

lemma displaced_row:
  assumes d: "displace (start_params (login_input rq m body actor) initial) clock r = Some (st, reason)"
    and r: "is_active r" "r \<in> set rows"
  shows "\<exists>r' \<in> set (upd_where (\<lambda>q. op_ID q = op_ID r \<and> op_Status q = ''ACTIVE'') (end_row st clock (Some reason) now) rows).
    op_ID r' = op_ID r \<and> op_EndedAt r' = Some clock \<and>
    (op_Status r' = ''REVOKED'' \<and> op_EndedReason r' = Some ''admin_forced_takeover'' \<and>
       lr_ForceAdminTakeover body \<and> sessionRevokeAllowed (rq_Principal rq) \<or>
     op_Status r' = ''ENDED'' \<and> op_EndedReason r' = Some ''stale_session_reclaimed'' \<and>
       clock - op_LastActivityAt r \<ge> DefaultStaleIdleReclaimForDifferentOperator)"
proof (rule bexI)
  show "end_row st clock (Some reason) now r \<in>
      set (upd_where (\<lambda>q. op_ID q = op_ID r \<and> op_Status q = ''ACTIVE'') (end_row st clock (Some reason) now) rows)"
    using r by (auto simp: upd_where_set is_active_def intro!: bexI [of _ r])
qed (use d in \<open>auto simp: end_row_def displace_def start_params_def login_input_def Let_def split: prod.splits if_splits\<close>)

text \<open>
  C17: When a login succeeds at a machine where somebody else is active, the session of the other operator
  was ended by it, either as revoked because an administrator asked for the takeover, or as ended because
  the other operator had been idle for at least fifteen minutes; and the new session is active at the
  machine for the identity of the token, whatever the request body said.
\<close>

theorem login_takeover_rule:
  assumes inv: "operator_inv s"
    and login: "operatorLoginHandler sv rq m (Some body) s = (Inr (Session_View sess), t)"
    and r: "r \<in> set (od_sessions s)" "is_active r" "op_MachineID r = m"
    and other: "deriveOperatorActor (rq_Principal rq) \<noteq> Inr (op_ActorType r, op_TechnicianID r, op_UserPrincipal r)"
  shows "(\<exists>r' \<in> set (od_sessions t). op_ID r' = op_ID r \<and> op_EndedAt r' = Some (od_clock s) \<and>
      (op_Status r' = ''REVOKED'' \<and> op_EndedReason r' = Some ''admin_forced_takeover'' \<and>
         lr_ForceAdminTakeover body \<and> sessionRevokeAllowed (rq_Principal rq) \<or>
       op_Status r' = ''ENDED'' \<and> op_EndedReason r' = Some ''stale_session_reclaimed'' \<and>
         od_clock s - op_LastActivityAt r \<ge> DefaultStaleIdleReclaimForDifferentOperator)) \<and>
    sess \<in> set (od_sessions t) \<and> is_active sess \<and> op_MachineID sess = m \<and>
    deriveOperatorActor (rq_Principal rq) = Inr (op_ActorType sess, op_TechnicianID sess, op_UserPrincipal sess)"
proof -
  obtain actor where actor: "deriveOperatorActor (rq_Principal rq) = Inr actor"
    and start: "StartOperatorSession sv (login_input rq m body actor) s = (Inr sess, t)"
    using login by (rule login_Inr)
  obtain a tid u where atu: "actor = (a, tid, u)" by (cases actor)
  have trim: "map_option TrimSpace u = u" using actor atu derived_trimmed by blast
  obtain initial where run: "repo_StartOperatorSession (start_params (login_input rq m body actor) initial) s = (Inr sess, t)"
    using start by (rule start_Inr)
  let ?p = "start_params (login_input rq m body actor) initial"
  have p: "so_MachineID ?p = m" "session_for ?p q \<Longrightarrow> is_active q \<and> op_MachineID q = m \<and>
      Inr actor = Inr (op_ActorType q, op_TechnicianID q, op_UserPrincipal q)" for q
    using trim by (auto simp: start_params_def login_input_def atu session_for_def)
  from run show ?thesis
  proof (cases rule: repo_start_cases)
    case free
    with active_found [OF inv r(1,2)] r(3) p(1) show ?thesis by simp
  next
    case (resumed q)
    with p(2) have "q = r" using one_active [OF inv resumed(1) r(1)] r(2,3) by simp
    with p(2) [OF resumed(2)] other actor show ?thesis by simp
  next
    case (displaced q st reason)
    then have "q = r" using active_found [OF inv r(1,2)] r(3) p(1) by simp
    with displaced displaced_row [OF _ r(2,1)] p(2) [OF displaced(4)] actor show ?thesis by fastforce
  qed
qed

section \<open>Logout and heartbeat\<close>

text \<open>The sessions other than the one with the given id.\<close>

definition other_sessions :: "uuid \<Rightarrow> operator_db \<Rightarrow> op_session list" where
  "other_sessions i s = filter (\<lambda>r. op_ID r \<noteq> i) (od_sessions s)"

lemma keeps_others_update:
  assumes "\<And>r. P r \<Longrightarrow> op_ID r = i" "\<And>now r. op_ID (f now r) = op_ID r"
  shows "keeps (other_sessions i) (update_session P f)"
proof -
  have "filter (\<lambda>r. op_ID r \<noteq> i) (upd_where P (f now) rows) = filter (\<lambda>r. op_ID r \<noteq> i) rows" for now rows
    using assms by (induction rows) auto
  then show ?thesis
    unfolding update_session_def select_session_def
    by (intro kept.moves_rules keeps_writes read_only_keeps [OF frozen_row_or_none]) (simp add: other_sessions_def)
qed

lemma keeps_others_event: "keeps (other_sessions i) (q_InsertMachineOperatorAuthEvent ev)"
  using keeps_auth_event by (simp add: moves_def other_sessions_def)

lemma keeps_others_end_row: "keeps (other_sessions i) (q_EndMachineOperatorSession st e reason i)"
  unfolding q_EndMachineOperatorSession_def
  by (intro kept.moves_bnd kept.moves_reads kept.moves_seq kept.moves_guard keeps_others_update) (simp_all add: end_row_def)

lemma keeps_others_touch_row: "keeps (other_sessions i) (q_TouchMachineOperatorSessionActivity i)"
  unfolding q_TouchMachineOperatorSessionActivity_def by (rule keeps_others_update) (simp_all add: touch_row_def)

lemma keeps_others_expire_row: "keeps (other_sessions i) (q_TimeoutMachineOperatorSessionIfExpired i)"
  unfolding q_TimeoutMachineOperatorSessionIfExpired_def
  by (intro kept.moves_bnd kept.moves_reads keeps_others_update) (simp_all add: expire_row_def)

lemmas keeps_others_statements = keeps_others_end_row keeps_others_touch_row keeps_others_expire_row

lemma frozen_lock_active: "read_only (lock_active i)"
  using frozen_get_session [of i] unfolding lock_active_def repo_GetOperatorSessionByID_def
  by (intro frozen.moves_rules)

lemma frozen_session_of_machine: "read_only (GetSessionIfMatchesMachine i m)"
  unfolding GetSessionIfMatchesMachine_def by (intro frozen.moves_rules frozen_get_session)

lemmas keeps_others_rules = kept.moves_rules moves_no_rows_to keeps_others_event keeps_others_statements
  read_only_keeps [OF frozen_lock_active] read_only_keeps [OF frozen_session_of_machine]
  read_only_keeps [OF frozen_get_session]

lemma keeps_others_end: "keeps (other_sessions (ei_SessionID inp)) (EndOperatorSession inp)"
  unfolding EndOperatorSession_def repo_EndOperatorSession_def end_session_params.simps by (intro keeps_others_rules)

lemma keeps_others_heartbeat: "keeps (other_sessions i) (HeartbeatOperatorSession c m i)"
  unfolding HeartbeatOperatorSession_def TouchOperatorSessionActivity_def own_operator_company_def
    repo_TouchOperatorSessionActivity_def repo_TimeoutOperatorSessionIfExpired_def
  by (intro keeps_others_rules)

text \<open>The state a handler leaves after it only read.\<close>

lemma snd_bnd_read: "read_only m \<Longrightarrow> snd (bnd m f s) = (case fst (m s) of Inl e \<Rightarrow> s | Inr x \<Rightarrow> snd (f x s))"
  by (cases "m s") (auto dest: read_only_run simp: bnd_run split: sum.splits)

lemma snd_answer_read:
  "read_only m \<Longrightarrow> snd (answer_or m k s) = (case fst (m s) of Inl e \<Rightarrow> s | Inr x \<Rightarrow> snd (k x s))"
  by (cases "m s") (auto simp: answer_or_def bnd_run dest: read_only_run split: sum.splits)

lemma snd_answer_last: "snd (answer_or m (\<lambda>x. ret (g x)) s) = snd (m s)"
  by (cases "m s") (auto simp: answer_or_def bnd_run split: sum.splits)

lemma frozen_logout_session: "read_only (logout_session rq m body)"
  unfolding logout_session_def Let_def ActiveSessionForMachine_def repo_GetActiveSessionByMachineID_def
    q_GetActiveOperatorSessionByMachineID_def select_session_def
  by (intro frozen.moves_rules moves_no_rows_to frozen_row_or_none)

lemma session_of_machine_found:
  "fst (GetSessionIfMatchesMachine i m s) = Inr r \<Longrightarrow> r \<in> set (od_sessions s) \<and> op_ID r = i \<and> op_MachineID r = m"
proof -
  assume "fst (GetSessionIfMatchesMachine i m s) = Inr r"
  then have "GetSessionIfMatchesMachine i m s = (Inr r, s)"
    using read_only_run [OF frozen_session_of_machine prod.collapse [symmetric], of i m s] by (simp add: prod_eq_iff)
  then show ?thesis
    by (auto simp: GetSessionIfMatchesMachine_def bnd_Inr seq_Inr session_found split: if_splits dest: find_SomeD)
qed

definition owner_or_admin :: "operator_principal \<Rightarrow> uuid \<Rightarrow> op_session \<Rightarrow> bool" where
  "owner_or_admin p m r \<longleftrightarrow>
     p_HasRole p ''platform_admin'' \<or> p_HasRole p ''admin'' \<or>
     (op_ActorType r = ''TECHNICIAN'' \<and> op_TechnicianID r = Some (pr_TechnicianID p) \<and> p_AllowsMachine p m) \<or>
     (op_ActorType r = ''USER'' \<and> op_UserPrincipal r = Some (TrimSpace (pr_Subject p)))"

lemma mutable_owner: "assertSessionMutableByPrincipal p m r \<Longrightarrow> owner_or_admin p m r"
  by (auto simp: assertSessionMutableByPrincipal_def owner_or_admin_def split: if_splits)

text \<open>A request changed nothing, or only one session of the machine, which the principal may change.\<close>

definition changes_own :: "operator_principal \<Rightarrow> uuid \<Rightarrow> operator_db \<Rightarrow> operator_db \<Rightarrow> bool" where
  "changes_own p m s t \<longleftrightarrow> t = s \<or>
     (\<exists>r \<in> set (od_sessions s). op_MachineID r = m \<and> owner_or_admin p m r \<and>
        other_sessions (op_ID r) t = other_sessions (op_ID r) s)"

lemma changes_own_same: "changes_own p m s s"
  by (simp add: changes_own_def)

lemma changes_own_with_machine:
  "changes_own p m s (snd (k s)) \<Longrightarrow> changes_own p m s (snd (with_machine rq m k s))"
  by (auto simp: with_machine_def bnd_run snd_get_machine changes_own_same split: sum.splits)

lemma changes_own_session:
  assumes "fst (GetSessionIfMatchesMachine i m s) = Inr r" "assertSessionMutableByPrincipal p m r"
    "other_sessions i t = other_sessions i s"
  shows "changes_own p m s t"
  using assms session_of_machine_found [OF assms(1)] mutable_owner unfolding changes_own_def by blast

lemma logout_changes_own: "changes_own (rq_Principal rq) m s (snd (operatorLogoutHandler rq m body s))"
proof -
  have others: "ei_SessionID e = i \<Longrightarrow> other_sessions i (snd (EndOperatorSession e s)) = other_sessions i s" for e i
    using keeps_others_end [of e] by (auto simp: moves_def)
  show ?thesis
    unfolding operatorLogoutHandler_def
    by (rule changes_own_with_machine)
      (auto simp: snd_bnd_read [OF frozen_logout_session] snd_answer_read [OF frozen_session_of_machine] snd_answer_last
        changes_own_same split: option.splits sum.splits intro!: changes_own_session others)
qed

lemma heartbeat_changes_own: "changes_own (rq_Principal rq) m s (snd (operatorHeartbeatHandler rq m i s))"
proof -
  have others: "other_sessions i (snd (HeartbeatOperatorSession c m i s)) = other_sessions i s" for c
    using keeps_others_heartbeat [of i c m] by (simp add: moves_def)
  show ?thesis
    unfolding operatorHeartbeatHandler_def
    by (rule changes_own_with_machine)
      (auto simp: snd_answer_read [OF frozen_session_of_machine] snd_answer_last changes_own_same
        split: sum.splits intro!: changes_own_session others)
qed

text \<open>
  C18: A logout or heartbeat request either changes nothing or changes a single session, of the machine
  it is addressed to, and then the principal of the token is an administrator or the very technician
  or user the session belongs to: nobody ends or keeps alive the session of a colleague.
\<close>

theorem only_owner_or_admin_changes_session:
  assumes "t = snd (operatorLogoutHandler rq m body s) \<or> t = snd (operatorHeartbeatHandler rq m i s)" and "t \<noteq> s"
  shows "\<exists>r \<in> set (od_sessions s). op_MachineID r = m \<and>
    filter (\<lambda>q. op_ID q \<noteq> op_ID r) (od_sessions t) = filter (\<lambda>q. op_ID q \<noteq> op_ID r) (od_sessions s) \<and>
    (sessionRevokeAllowed (rq_Principal rq) \<or>
     op_ActorType r = ''TECHNICIAN'' \<and> op_TechnicianID r = Some (pr_TechnicianID (rq_Principal rq)) \<and>
       p_AllowsMachine (rq_Principal rq) m \<or>
     op_ActorType r = ''USER'' \<and> op_UserPrincipal r = Some (TrimSpace (pr_Subject (rq_Principal rq))))"
proof -
  from assms(1) have "changes_own (rq_Principal rq) m s t" using logout_changes_own heartbeat_changes_own by blast
  with assms(2) show ?thesis
    by (auto simp: changes_own_def other_sessions_def owner_or_admin_def sessionRevokeAllowed_def)
qed

theorem only_owner_or_admin_changes_session_witness:
  "\<exists>r \<in> set (od_sessions logged_in). op_MachineID r = demo_machine"
proof -
  have "length (od_auth logged_out) \<noteq> length (od_auth logged_in)" by code_simp
  then have "logged_out \<noteq> logged_in" by auto
  with only_owner_or_admin_changes_session [of logged_out technician_request demo_machine "Some plain_logout" logged_in uuid_Nil]
  show ?thesis by (auto simp: logged_out_def)
qed

section \<open>The timeline\<close>

lemma SliceStable_sort_key:
  assumes "\<And>x y. lt x y \<longleftrightarrow> key x < key y"
  shows "SliceStable lt xs = sort_key key xs"
proof -
  have "insert_stable lt x ys = insort_key key x ys" for x ys
    by (induction ys) (auto simp: assms)
  then have "insert_stable lt = insort_key key" by (intro ext)
  then show ?thesis by (simp add: SliceStable_def sort_key_def)
qed

text \<open>
  The merged timeline of a machine is the prefix of the stably sorted events, actions and session marks:
  the newest first, actions before authentication events before session marks of the same moment, at most
  as many as the caller may ask for.
\<close>

lemma timeline_newest_first:
  "mergeMachineTimeline auth attr sessions (clampListLimit limit) =
     take (nat (clampListLimit limit)) (sort_key (\<lambda>x. (- ti_OccurredAt x, kind_order (ti_Kind x)))
       (map auth_item auth @ map action_item attr @ concat (map session_items sessions)))"
  "length (mergeMachineTimeline auth attr sessions (clampListLimit limit)) \<le> 500"
proof -
  have "timeline_less x y \<longleftrightarrow> (- ti_OccurredAt x, kind_order (ti_Kind x)) < (- ti_OccurredAt y, kind_order (ti_Kind y))" for x y
    by (auto simp: timeline_less_def tieBreakKind_def less_prod_simp)
  note sort = SliceStable_sort_key [of timeline_less, OF this]
  have pos: "0 < clampListLimit limit" "clampListLimit limit \<le> 500" by (auto simp: clampListLimit_def)
  then show eq: "mergeMachineTimeline auth attr sessions (clampListLimit limit) =
     take (nat (clampListLimit limit)) (sort_key (\<lambda>x. (- ti_OccurredAt x, kind_order (ti_Kind x)))
       (map auth_item auth @ map action_item attr @ concat (map session_items sessions)))"
    unfolding mergeMachineTimeline_def sort Let_def by (auto intro!: take_all [symmetric])
  show "length (mergeMachineTimeline auth attr sessions (clampListLimit limit)) \<le> 500"
    unfolding eq using pos by simp
qed

section \<open>Runs\<close>

text \<open>Sixteen minutes after the technician's last sign of life.\<close>

definition sixteen_minutes_later :: operator_db where
  "sixteen_minutes_later = logged_in\<lparr>od_now := 960 * 1000000000 + 1000, od_clock := 960 * 1000000000 + 1000\<rparr>"

definition colleague_login :: "(go_err + operator_answer) \<times> operator_db" where
  "colleague_login =
     operatorLoginHandler \<lparr>ov_Assignments = True\<rparr> (user_request ''member'' ''carl'') demo_machine (Some plain_login)
       sixteen_minutes_later"

theorem login_takeover_rule_witness:
  "\<exists>r' \<in> set (od_sessions (snd colleague_login)). op_ID r' = op_ID (od_sessions logged_in ! 0) \<and> op_Status r' = ''ENDED''"
proof -
  let ?r = "od_sessions logged_in ! 0"
  have run: "case fst colleague_login of Inr (Session_View sess) \<Rightarrow> True | _ \<Rightarrow> False" by code_simp
  then obtain sess where sess: "colleague_login = (Inr (Session_View sess), snd colleague_login)"
    by (auto simp: prod_eq_iff split: sum.splits operator_answer.splits)
  have "operator_inv sixteen_minutes_later" "?r \<in> set (od_sessions sixteen_minutes_later)" "is_active ?r"
    "op_MachineID ?r = demo_machine"
    "deriveOperatorActor (rq_Principal (user_request ''member'' ''carl'')) \<noteq>
       Inr (op_ActorType ?r, op_TechnicianID ?r, op_UserPrincipal ?r)"
    "\<not> lr_ForceAdminTakeover plain_login"
    by code_simp+
  with login_takeover_rule [OF _ sess [unfolded colleague_login_def], of ?r] show ?thesis
    unfolding colleague_login_def by auto
qed

text \<open>
  The assignment query looks at the end of an assignment only: a technician whose assignment was released
  before its planned end, or has not begun yet, is still let in.
\<close>

definition assignment_db :: "string \<Rightarrow> time \<Rightarrow> operator_db" where
  "assignment_db status validFrom = demo_db\<lparr>od_assignments :=
     [\<lparr>tm_TechnicianID = demo_technician, tm_MachineID = demo_machine, tm_Status = status,
       tm_ValidFrom = validFrom, tm_ValidTo = Some 9000\<rparr>]\<rparr>"

definition session_opened :: "(go_err + operator_answer) \<times> operator_db \<Rightarrow> bool" where
  "session_opened run = (case fst run of Inr (Session_View sess) \<Rightarrow> is_active sess | _ \<Rightarrow> False)"

lemma released_assignment_admits:
  "session_opened (operatorLoginHandler \<lparr>ov_Assignments = True\<rparr> technician_request demo_machine (Some plain_login)
     (assignment_db ''released'' 0))"
  by code_simp

lemma future_assignment_admits:
  "session_opened (operatorLoginHandler \<lparr>ov_Assignments = True\<rparr> technician_request demo_machine (Some plain_login)
     (assignment_db ''active'' 5000))"
  by code_simp

text \<open>
  A session past its expiry stays active until somebody asks for its timeout: it is the actor of actions,
  and a login of its operator resumes it with the expiry it already passed.
\<close>

definition expired_db :: operator_db where
  "expired_db = demo_db\<lparr>od_sessions := [\<lparr>op_ID = UUID ''s'', op_MachineID = demo_machine, op_ActorType = ''TECHNICIAN'',
     op_TechnicianID = Some demo_technician, op_UserPrincipal = None, op_Status = ''ACTIVE'', op_StartedAt = 100,
     op_EndedAt = None, op_ExpiresAt = Some 500, op_ClientMetadata = JObj [], op_LastActivityAt = 100,
     op_EndedReason = None, op_CreatedAt = 100, op_UpdatedAt = 100\<rparr>], od_uuid_next := 2\<rparr>"

lemma expired_session_acts:
  "(case fst (ResolveMachineActionActor demo_machine (Some (UUID ''s'')) SessionRequired expired_db) of
      Inr act \<Rightarrow> ma_OperatorSessionID act = Some (UUID ''s'') | Inl _ \<Rightarrow> False)"
  by code_simp

lemma expired_session_resumed:
  "(case fst (operatorLoginHandler \<lparr>ov_Assignments = True\<rparr> technician_request demo_machine (Some plain_login) expired_db) of
      Inr (Session_View sess) \<Rightarrow> is_active sess \<and> op_ExpiresAt sess = Some 500 | _ \<Rightarrow> False)"
  by code_simp

text \<open>The service accepts a technician with an empty principal, the constraint of the table does not.\<close>

definition empty_principal_start :: "(go_err + op_session) \<times> operator_db" where
  "empty_principal_start = StartOperatorSession \<lparr>ov_Assignments = True\<rparr>
     \<lparr>si_MachineID = demo_machine, si_ActorType = ''TECHNICIAN'', si_TechnicianID = Some demo_technician,
       si_UserPrincipal = Some [], si_ExpiresAt = None, si_ClientMetadata = NoBytes, si_InitialAuthMethod = [],
       si_CorrelationID = None, si_InitialAuthMetadata = NoBytes, si_StaleIdleReclaimAfter = 0,
       si_ForceAdminTakeover = False, si_AdminTakeoverAuthorized = False\<rparr> demo_db"

lemma empty_principal_violates_constraint:
  "ValidateActorConsistency ''TECHNICIAN'' (Some demo_technician) (Some []) = Inr () \<and>
   (case fst empty_principal_start of Inl e \<Rightarrow> errors_Is e ErrCheckViolation | Inr _ \<Rightarrow> False)"
  by code_simp

end
