(* ===== verification/Spec2Isabelle.thy ===== *)
theory Spec2Isabelle
  imports Commerce_Rules Vend_Evidence Slot_Grid Json_Sanitize Outbox_Safety Fulfillment_Safety
    Webhook_Safety Order_Safety Service_Safety Commerce_System Ledger_Safety
    Cash_Safety Cash_Confirm_Safety Pricing_Safety Sale_Line_Safety Checkout_Runs Session_Runs
    Operator_Takeover
begin

text \<open>
  The commerce core of a vending machine backend: a machine asks for an order, a payment is opened and
  captured by a provider's notification, the machine reports that it dispensed or failed, stock and money
  are booked, and every fact leaves the backend through a transactional outbox. The code is a Go monolith
  over PostgreSQL; \<open>internal/app/commerce\<close> is the service, \<open>internal/modules/postgres\<close> the store below
  it, \<open>db/queries\<close> the statements of the store.

  \<^bold>\<open>How the code is modelled.\<close> An operation is a function from the database to a result and a database,
  \<open>(db, 'a) io\<close>: the result is \<open>Inl\<close> of a Go error or \<open>Inr\<close> of the value. A table is the list of its
  rows, a statement a function on it, a transaction \<open>tx\<close>, which undoes everything when it fails. Go's
  \<open>int64\<close> is \<open>int\<close> with \<open>i64\<close> where the code computes, its strings are character lists (ASCII), a UUID
  is a type with the nil value, an instant is an integer of nanoseconds. Everything is executable.

  \<^bold>\<open>Theories.\<close>
  \<^item> \<open>Go_Prelude\<close>: the monad, errors, strings and integers of Go, UUIDs and JSON; the locale \<open>evolution\<close>
    for relations that every run of an operation respects, and the \<open>keeps\<close> and \<open>moves\<close> calculus.
  \<^item> \<open>Commerce_Types\<close>: the structures of \<open>internal/domain/commerce\<close> and \<open>internal/app/commerce/types.go\<close>.
  \<^item> \<open>Commerce_Rules\<close>: transition graphs of payments and vend lines, the amount check of a notification,
    the status of an order from its lines.
  \<^item> \<open>Vend_Evidence\<close>, \<open>Slot_Grid\<close>, \<open>Json_Sanitize\<close>: the hardware evidence check, slot codes, and the
    redaction of audit payloads.
  \<^item> \<open>Outbox_Pipeline\<close>, \<open>Outbox_Safety\<close>: the dispatcher tick, leases, acknowledgement, backoff and
    quarantine; published only after an acknowledgement, a due row is published, quarantine exactly at the
    maximum, over any sequence of ticks.
  \<^item> \<open>Commerce_Store\<close>: the database and the statements of the lifecycle; \<open>Slot_Inventory\<close>: the sale of a
    unit; \<open>Vend_Fulfillment\<close> and \<open>Fulfillment_Safety\<close>: the two fulfilment transactions.
  \<^item> \<open>Payment_Webhook\<close>, \<open>Webhook_Safety\<close>: provider notifications and the reconciler's transition.
  \<^item> \<open>Order_Workflow\<close>, \<open>Order_Safety\<close>: creation of orders and payments.
  \<^item> \<open>Commerce_Service\<close>, \<open>Service_Safety\<close>: the operations of \<open>service.go\<close> and \<open>financial_correctness.go\<close>.
  \<^item> \<open>Commerce_System\<close>: all of these as one step relation; rows are never rewritten, the journals only
    grow, lines and payments only move forward, a winning payment stays.
  \<^item> \<open>Machine_Idempotency\<close>, \<open>Ledger_Safety\<close>: the interceptor that lets a machine repeat its calls; the locale
    \<open>once_gate\<close> states what a ledger promises, and one handler is started per key however calls overlap.
  \<^item> \<open>Cash_Movements\<close>, \<open>Cash_Safety\<close>: bills, payouts and observations reported by machines; the booked money
    follows the evidence, a batch may be repeated, a bill has one identity.
  \<^item> \<open>Cash_Payment\<close>, \<open>Cash_Confirm_Safety\<close>: the confirmation of a cash payment, which is not one transaction,
    and the cancellation of a payment session.
  \<^item> \<open>Go_Float\<close>: float64 as rationals rounded to 53 significant bits, ties to even, and the conversion to
    int64, which gives the smallest integer out of range; \<open>Pricing_Tables\<close>, \<open>Pricing_Engine\<close>,
    \<open>Pricing_Safety\<close>: promotions, overrides and the price of a line; a discount stays within the price, is
    accurate, and does not depend on the order of the rows.
  \<^item> \<open>Sale_Lines\<close>, \<open>Sale_Line_Safety\<close>: the slot and price of a sale line and the repair of the published
    assortment; a cart is priced like its single lines.
  \<^item> \<open>Checkout_Pricing\<close>: prices declared by a machine (\<open>pricing_snapshot_quote.go\<close>, \<open>offline_sale_pricing.go\<close>,
    \<open>sale_line_checkout.go\<close>), their validation and their comparison with the mirror of the machine's layout.
    \<open>Checkout\<close>: the rows and statements of quotes and the transactions of \<open>checkout_quotes.go\<close>.
    \<open>Checkout_Service\<close>: \<open>CreateQuote\<close>, \<open>CreateOrderFromQuote\<close>, \<open>CreateOrder\<close>. \<open>Offline_Sale\<close>: cash sales a
    machine reports later (\<open>offline_sale.go\<close>). The digest \<open>sha\<close>, the text of an instant \<open>rfc\<close> and the parser of
    UUIDs \<open>parse\<close> are parameters.
  \<^item> \<open>Checkout_Safety\<close>, \<open>Checkout_Orders\<close>, \<open>Checkout_Quotes\<close>, \<open>Checkout_Runs\<close>: an accepted declaration adds up
    without overflow; a quote becomes at most one order and may be asked for again; an order costs the
    engine's price unless the machine declared one; an accepted offline sale is settled in cash; the last theory
    holds sample checkouts, two of which show that quantities can get lost.
  \<^item> \<open>Payment_Providers\<close>: the registry of providers and the choice of one (\<open>resolve.go\<close>); \<open>Provider_Reference\<close>: the
    encoder of short references (\<open>psp/ref/ref.go\<close>) on 64-bit words, which terminates and writes the base 32 numeral
    of its bytes; \<open>Payment_Session\<close>: \<open>CreateMachinePaymentSession\<close>, the status of a payment and the queries to a
    provider. A provider is a value of its interface, so the theorems hold whatever it answers; the bytes of a UUID are
    the parameter \<open>bytes\<close>, the cancellation of a request the parameter \<open>cancelled\<close>.
  \<^item> \<open>Session_Safety\<close>, \<open>Session_Queries\<close>, \<open>Session_Runs\<close>: a payment is recorded before its provider is asked, a query
    can only capture, queries about one payment keep a distance; a sample run shows that a repeated request after a
    provider failure is answered without a code.
  \<^item> \<open>Operator_Sessions\<close>: logins of service personnel at a machine (\<open>internal/domain/operator\<close>,
    \<open>internal/app/operator\<close>, \<open>operator_repository.go\<close>), with a database of their own and two clocks, that of the
    database and that of the server; \<open>Operator_Access\<close>: the login, logout and heartbeat handlers of
    \<open>operator_http.go\<close> and the rules about who may do what.
  \<^item> \<open>Operator_Safety\<close>, \<open>Operator_Takeover\<close>: all of them as one step relation; a machine has one active session,
    finished sessions never change, the trails only grow; a login displaces another operator only by an admin's
    takeover or after the idle window, only the operator or an admin changes a session; the timeline is the stably
    sorted trail; sample runs let in a technician whose assignment was released and accept an expired session.

  \<^bold>\<open>Bounds.\<close> No fuel is used: loops of the code run over lists, and the loop of the reference encoder, which does
  not, is a \<open>partial_function\<close> proved to return. Amounts are unbounded integers except where
  the code adds or stores them, where \<open>i64\<close> wraps or the statement fails.

  \<^bold>\<open>Not modelled.\<close> Lost connections, serialization failures and the isolation of overlapping transactions
  (a step is a committed transaction); metrics and log lines; HTTP, gRPC and MQTT transport; configuration;
  signatures and the providers' protocols; the administrative and reporting services; generated database
  access code, whose statements are modelled from their SQL.
\<close>

end
